(* ===== verification/Prelude.thy ===== *)
theory Prelude
  imports Main "HOL-Library.Word"
begin

text \<open>
  Shared vocabulary of the development: the widths of the machine integers the
  sources use, the error type of \<^verbatim>\<open>PlatformError\<close>'s operating-system part, the
  conversions Rust's \<^verbatim>\<open>as\<close> performs, and the generic lemmas on lists, options
  and words that the component theories rely on. Three collections carry the
  automation: \<open>rust_simps\<close> for the equations of the string primitives, \<open>eval_simps\<close> for
  evaluating them on literal inputs, and \<open>word_simps\<close> for the conversions between words
  and numbers.
\<close>

named_theorems rust_simps "equations of the modelled Rust primitives"
named_theorems eval_simps "unfoldings for evaluation on literal inputs"
named_theorems word_simps "conversions between machine words and numbers"

type_synonym u8 = "8 word"
type_synonym u16 = "16 word"
type_synonym u32 = "32 word"
type_synonym u64 = "64 word"
type_synonym bytes = "8 word list"

text \<open>
  Signed and unsigned 32-bit attribute values are carried as \<open>int\<close> and \<open>nat\<close>; the
  truncation of Rust's \<^verbatim>\<open>n as i32\<close> and \<^verbatim>\<open>n as u32\<close> is written out.
\<close>

definition as_i32 :: "int \<Rightarrow> int" where
  "as_i32 n = (n + 2 ^ 31) mod 2 ^ 32 - 2 ^ 31"

definition as_u32 :: "nat \<Rightarrow> nat" where
  "as_u32 n = n mod 2 ^ 32"

definition i32_range :: "int \<Rightarrow> bool" where
  "i32_range n \<longleftrightarrow> - (2 ^ 31) \<le> n \<and> n < 2 ^ 31"

lemma as_i32_range [simp]: "i32_range (as_i32 n)"
proof -
  have "0 \<le> (n + 2 ^ 31) mod (2 ^ 32)" "(n + 2 ^ 31) mod (2 ^ 32) < (2 ^ 32 :: int)"
    by simp_all
  then show ?thesis by (simp add: as_i32_def i32_range_def)
qed

lemma as_i32_id: "i32_range n \<Longrightarrow> as_i32 n = n"
  by (simp add: as_i32_def i32_range_def)

lemma as_u32_bound [simp]: "as_u32 n < 2 ^ 32"
  by (simp add: as_u32_def)

lemma as_u32_id: "n < 2 ^ 32 \<Longrightarrow> as_u32 n = n"
  by (simp add: as_u32_def)

subsection \<open>Options and lists\<close>

text \<open>Rust's \<^verbatim>\<open>opt.get_or_insert(e)\<close>: the first error recorded is the one kept.\<close>

definition get_or_insert :: "'a option \<Rightarrow> 'a \<Rightarrow> 'a option" where
  "get_or_insert o' e = (case o' of None \<Rightarrow> Some e | Some x \<Rightarrow> Some x)"

lemma get_or_insert_simps [simp]:
  "get_or_insert None e = Some e"
  "get_or_insert (Some x) e = Some x"
  by (simp_all add: get_or_insert_def)

lemma get_or_insert_not_None [simp]: "get_or_insert o' e \<noteq> None"
  by (cases o') simp_all

lemma list_update_other [simp]: "i \<noteq> j \<Longrightarrow> xs[i := x] ! j = xs ! j"
  by simp

lemma takeWhile_hd_False: "xs \<noteq> [] \<Longrightarrow> \<not> P (hd xs) \<Longrightarrow> takeWhile P xs = []"
  by (cases xs) auto

lemma dropWhile_hd_False: "xs \<noteq> [] \<Longrightarrow> \<not> P (hd xs) \<Longrightarrow> dropWhile P xs = xs"
  by (cases xs) auto

lemma set_map_filter: "y \<in> set (List.map_filter f xs) \<longleftrightarrow> (\<exists>x \<in> set xs. f x = Some y)"
  by (induction xs) (auto split: option.split)

text \<open>\<^verbatim>\<open>BTreeMap::insert\<close> on a list sorted by key.\<close>

fun map_put :: "'k::linorder \<Rightarrow> 'v \<Rightarrow> ('k \<times> 'v) list \<Rightarrow> ('k \<times> 'v) list" where
  "map_put k v [] = [(k, v)]"
| "map_put k v ((j, u) # ps) =
     (if k < j then (k, v) # (j, u) # ps
      else if k = j then (j, v) # ps
      else (j, u) # map_put k v ps)"

lemma map_of_map_put: "map_of (map_put k v ps) = (map_of ps)(k \<mapsto> v)"
  by (induction k v ps rule: map_put.induct) (auto simp: fun_upd_twist)

lemma set_map_put: "set (map_put k v ps) \<subseteq> insert (k, v) (set ps)"
  by (induction k v ps rule: map_put.induct) auto

end
