(* ===== verification/C_Layout.thy ===== *)
theory C_Layout
  imports Prelude
begin

text \<open>
  C object types as the kernel headers under \<^verbatim>\<open>crates/ananicy-bpf/bpf/\<close> declare them, and
  the layout the C compiler gives them on a 64-bit little-endian target: every member
  at the next offset its alignment allows, a bit-field moved to the next unit of its
  type when it would cross one, the size rounded up to the alignment of the whole. The
  lemmas show that members never overlap, are aligned and lie within the object.
\<close>

subsection \<open>Types\<close>

text \<open>
  \<open>CInt n\<close> is an integer type of n bytes, \<open>CPtr t\<close> a pointer (to the structure named t,
  or to anything else when t is empty). A member has a name (empty for an anonymous
  structure or union and for padding), the width of a bit-field, and a type.
\<close>

datatype ctype =
    CInt nat
  | CPtr string
  | CArr ctype nat
  | CStruct string "cfield list"
  | CPacked string "cfield list"
  | CUnion string "cfield list"
and cfield = CField (fname: string) (fbits: "nat option") (ftype: ctype)

abbreviation Fld :: "string \<Rightarrow> ctype \<Rightarrow> cfield" where
  "Fld n t \<equiv> CField n None t"

abbreviation Bit :: "string \<Rightarrow> nat \<Rightarrow> ctype \<Rightarrow> cfield" where
  "Bit n w t \<equiv> CField n (Some w) t"

abbreviation c_bool :: ctype where "c_bool \<equiv> CInt 1"
abbreviation c_char :: ctype where "c_char \<equiv> CInt 1"
abbreviation c_short :: ctype where "c_short \<equiv> CInt 2"
abbreviation c_int :: ctype where "c_int \<equiv> CInt 4"
abbreviation c_long :: ctype where "c_long \<equiv> CInt 8"
abbreviation c_int128 :: ctype where "c_int128 \<equiv> CInt 16"
abbreviation c_ptr :: ctype where "c_ptr \<equiv> CPtr []"

subsection \<open>Alignment and size\<close>

definition round_up :: "nat \<Rightarrow> nat \<Rightarrow> nat" where
  "round_up n a = (if n mod a = 0 then n else n + (a - n mod a))"

fun align_of :: "ctype \<Rightarrow> nat" and align_fields :: "cfield list \<Rightarrow> nat" where
  "align_of (CInt n) = max 1 n"
| "align_of (CPtr _) = 8"
| "align_of (CArr t _) = align_of t"
| "align_of (CStruct _ fs) = align_fields fs"
| "align_of (CPacked _ fs) = 1"
| "align_of (CUnion _ fs) = align_fields fs"
| "align_fields [] = 1"
| "align_fields (CField n b t # fs) =
     (if n = [] \<and> b \<noteq> None then align_fields fs else max (align_of t) (align_fields fs))"

text \<open>
  Where a member starts and ends, in bits, when everything before it ends at \<open>off\<close>;
  \<open>sz\<close> and \<open>al\<close> are those of its type in bytes.
\<close>

definition place :: "nat \<Rightarrow> nat option \<Rightarrow> nat \<Rightarrow> nat \<Rightarrow> nat \<times> nat" where
  "place off bits sz al =
     (case bits of
        None \<Rightarrow> let start = round_up off (8 * al) in (start, start + 8 * sz)
      | Some w \<Rightarrow>
          let start = (if w = 0 \<or> 8 * sz < off mod (8 * sz) + w then round_up off (8 * sz) else off)
          in (start, start + w))"

fun size_of :: "ctype \<Rightarrow> nat"
  and struct_end :: "bool \<Rightarrow> nat \<Rightarrow> cfield list \<Rightarrow> nat"
  and union_end :: "cfield list \<Rightarrow> nat"
where
  "size_of (CInt n) = n"
| "size_of (CPtr _) = 8"
| "size_of (CArr t n) = size_of t * n"
| "size_of (CStruct _ fs) = round_up (struct_end False 0 fs) (8 * align_fields fs) div 8"
| "size_of (CPacked _ fs) = round_up (struct_end True 0 fs) 8 div 8"
| "size_of (CUnion _ fs) = round_up (union_end fs) (8 * align_fields fs) div 8"
| "struct_end packed off [] = off"
| "struct_end packed off (CField n b t # fs) =
     struct_end packed (snd (place off b (size_of t) (if packed then 1 else align_of t))) fs"
| "union_end [] = 0"
| "union_end (CField n b t # fs) = max (snd (place 0 b (size_of t) 1)) (union_end fs)"

text \<open>The members of a structure with the bits they occupy.\<close>

fun field_spans :: "bool \<Rightarrow> nat \<Rightarrow> cfield list \<Rightarrow> (string \<times> nat \<times> nat) list" where
  "field_spans packed off [] = []"
| "field_spans packed off (CField n b t # fs) =
     (let p = place off b (size_of t) (if packed then 1 else align_of t)
      in (n, p) # field_spans packed (snd p) fs)"

fun members :: "ctype \<Rightarrow> cfield list" where
  "members (CStruct _ fs) = fs"
| "members (CPacked _ fs) = fs"
| "members (CUnion _ fs) = fs"
| "members _ = []"

fun spans :: "ctype \<Rightarrow> (string \<times> nat \<times> nat) list" where
  "spans (CStruct _ fs) = field_spans False 0 fs"
| "spans (CPacked _ fs) = field_spans True 0 fs"
| "spans _ = []"

text \<open>\<^verbatim>\<open>offsetof\<close> in bytes, for a member that starts on a byte.\<close>

definition offset_of :: "ctype \<Rightarrow> string \<Rightarrow> nat option" where
  "offset_of t n =
     (case map_of (spans t) n of Some (a, _) \<Rightarrow> if a mod 8 = 0 then Some (a div 8) else None | None \<Rightarrow> None)"

subsection \<open>Members do not overlap\<close>

lemma round_up_ge: "n \<le> round_up n a"
  by (simp add: round_up_def)

lemma round_up_dvd: "0 < a \<Longrightarrow> a dvd round_up n a"
proof (cases "n mod a = 0")
  case True
  then show ?thesis by (auto simp: round_up_def)
next
  case False
  assume "0 < a"
  have "n + (a - n mod a) = (n div a) * a + a"
    using \<open>0 < a\<close> mod_less_divisor [of a n] div_mult_mod_eq [of n a] by linarith
  then have "a dvd n + (a - n mod a)" by simp
  with False show ?thesis by (simp add: round_up_def)
qed

lemma align_pos: "0 < align_of t" "0 < align_fields fs"
  by (induction t and fs rule: align_of_align_fields.induct) auto

lemma place_after: "place off b s a = (start, end') \<Longrightarrow> off \<le> start \<and> start \<le> end'"
  using round_up_ge by (auto simp: place_def Let_def split: option.splits if_splits)

lemma place_aligned: "0 < a \<Longrightarrow> place off None s a = (start, end') \<Longrightarrow> (8 * a) dvd start \<and> end' = start + 8 * s"
  by (auto simp: place_def Let_def intro!: round_up_dvd)

fun ordered :: "nat \<Rightarrow> (string \<times> nat \<times> nat) list \<Rightarrow> bool" where
  "ordered off [] = True"
| "ordered off ((n, a, b) # ps) = (off \<le> a \<and> a \<le> b \<and> ordered b ps)"

lemma field_spans_ordered: "ordered off (field_spans packed off fs)"
proof (induction fs arbitrary: off)
  case (Cons f fs)
  obtain n b t where f: "f = CField n b t" by (cases f)
  obtain s e where p: "place off b (size_of t) (if packed then 1 else align_of t) = (s, e)"
    by fastforce
  with place_after [OF p] Cons show ?case by (simp add: f Let_def)
qed simp

lemma struct_end_ge: "off \<le> struct_end packed off fs"
proof (induction fs arbitrary: off)
  case (Cons f fs)
  obtain n b t where f: "f = CField n b t" by (cases f)
  obtain s e where p: "place off b (size_of t) (if packed then 1 else align_of t) = (s, e)"
    by fastforce
  with place_after [OF p] Cons [of e] show ?case by (simp add: f)
qed simp

lemma field_spans_bound:
  "(n, a, b) \<in> set (field_spans packed off fs) \<Longrightarrow> off \<le> a \<and> a \<le> b \<and> b \<le> struct_end packed off fs"
proof (induction fs arbitrary: off)
  case (Cons f fs)
  obtain m w t where f: "f = CField m w t" by (cases f)
  obtain s e where p: "place off w (size_of t) (if packed then 1 else align_of t) = (s, e)"
    by fastforce
  from place_after [OF p] Cons.IH [of e] Cons.prems struct_end_ge [of e packed fs] show ?case
    by (auto simp: f p Let_def)
qed simp

lemma field_spans_aligned:
  "Fld n t \<in> set fs \<Longrightarrow> distinct (map fname fs) \<Longrightarrow>
     \<exists>a. map_of (field_spans False off fs) n = Some (a, a + 8 * size_of t) \<and> 8 * align_of t dvd a"
proof (induction fs arbitrary: off)
  case (Cons f fs)
  obtain m w u where f: "f = CField m w u" by (cases f)
  obtain s e where p: "place off w (size_of u) (align_of u) = (s, e)" by fastforce
  show ?case
  proof (cases "f = Fld n t")
    case True
    with f p place_aligned [OF align_pos(1)] show ?thesis by (auto simp: Let_def)
  next
    case False
    with Cons.prems have "Fld n t \<in> set fs" and "m \<noteq> n" by (auto simp: f image_iff)
    with Cons show ?thesis by (simp add: f p Let_def)
  qed
qed simp

lemma align_field_dvd: "Fld n t \<in> set fs \<Longrightarrow> align_of t \<le> align_fields fs"
proof (induction fs)
  case (Cons f fs)
  then show ?case by (cases f) (auto simp: max.coboundedI2)
qed simp

lemma size_of_struct_ge: "struct_end False 0 fs \<le> 8 * size_of (CStruct n fs)"
proof -
  let ?r = "round_up (struct_end False 0 fs) (8 * align_fields fs)"
  have "8 * align_fields fs dvd ?r" using align_pos(2) by (intro round_up_dvd) simp
  then have "8 dvd ?r" using dvd_mult_left by blast
  then have "8 * (?r div 8) = ?r" by simp
  then show ?thesis using round_up_ge by (simp add: mult.commute)
qed

lemma spans_within:
  "(n, a, b) \<in> set (spans (CStruct s fs)) \<Longrightarrow> a \<le> b \<and> b \<le> 8 * size_of (CStruct s fs)"
  using field_spans_bound [of n a b False 0 fs] size_of_struct_ge [of fs s] by simp

lemma spans_ordered: "ordered 0 (spans t)"
  by (cases t) (simp_all add: field_spans_ordered)

end
