(* ===== verification/Vmlinux_X86.thy ===== *)
theory Vmlinux_X86
  imports C_Layout
begin

text \<open>
  The part of \<^verbatim>\<open>crates/ananicy-bpf/bpf/x86/vmlinux.h\<close> that the BPF program and
  \<^verbatim>\<open>core_fixes.bpf.h\<close> refer to: the tracepoint contexts, \<^verbatim>\<open>task_struct\<close>, \<^verbatim>\<open>bio\<close>,
  \<^verbatim>\<open>block_device\<close>, \<^verbatim>\<open>gendisk\<close>, \<^verbatim>\<open>request\<close> (where the header has it) and
  \<^verbatim>\<open>request_queue\<close>, with every type a member of theirs has by value. Each definition is
  the declaration of the same name, member for member; \<open>btf_x86\<close> collects the
  structures a field access can start at or point to.
\<close>

definition k__u32_x86 :: ctype where
  "k__u32_x86 = c_int"

definition u32_x86 :: ctype where
  "u32_x86 = k__u32_x86"

definition thread_info_x86 :: ctype where
  "thread_info_x86 = CStruct ''thread_info'' [
   Fld ''flags'' c_long,
   Fld ''syscall_work'' c_long,
   Fld ''status'' u32_x86]"

definition atomic_t_x86 :: ctype where
  "atomic_t_x86 = CStruct ''atomic_t'' [
   Fld ''counter'' c_int]"

definition refcount_struct_x86 :: ctype where
  "refcount_struct_x86 = CStruct ''refcount_struct'' [
   Fld ''refs'' atomic_t_x86]"

definition refcount_t_x86 :: ctype where
  "refcount_t_x86 = refcount_struct_x86"

definition load_weight_x86 :: ctype where
  "load_weight_x86 = CStruct ''load_weight'' [
   Fld ''weight'' c_long,
   Fld ''inv_weight'' u32_x86]"

definition rb_node_x86 :: ctype where
  "rb_node_x86 = CStruct ''rb_node'' [
   Fld ''__rb_parent_color'' c_long,
   Fld ''rb_right'' (CPtr ''rb_node''),
   Fld ''rb_left'' (CPtr ''rb_node'')]"

definition list_head_x86 :: ctype where
  "list_head_x86 = CStruct ''list_head'' [
   Fld ''next'' (CPtr ''list_head''),
   Fld ''prev'' (CPtr ''list_head'')]"

definition k__u64_x86 :: ctype where
  "k__u64_x86 = c_long"

definition u64_x86 :: ctype where
  "u64_x86 = k__u64_x86"

definition sched_entity_x86 :: ctype where
  "sched_entity_x86 = CStruct ''sched_entity'' [
   Fld ''load'' load_weight_x86,
   Fld ''run_node'' rb_node_x86,
   Fld ''group_node'' list_head_x86,
   Fld ''on_rq'' c_int,
   Fld ''exec_start'' u64_x86,
   Fld ''sum_exec_runtime'' u64_x86,
   Fld ''vruntime'' u64_x86,
   Fld ''prev_sum_exec_runtime'' u64_x86,
   Fld ''nr_migrations'' u64_x86]"

definition sched_rt_entity_x86 :: ctype where
  "sched_rt_entity_x86 = CStruct ''sched_rt_entity'' [
   Fld ''run_list'' list_head_x86,
   Fld ''timeout'' c_long,
   Fld ''watchdog_stamp'' c_long,
   Fld ''time_slice'' c_int,
   Fld ''on_rq'' c_short,
   Fld ''on_list'' c_short,
   Fld ''back'' (CPtr ''sched_rt_entity'')]"

definition k__s64_x86 :: ctype where
  "k__s64_x86 = c_long"

definition s64_x86 :: ctype where
  "s64_x86 = k__s64_x86"

definition ktime_t_x86 :: ctype where
  "ktime_t_x86 = s64_x86"

definition timerqueue_node_x86 :: ctype where
  "timerqueue_node_x86 = CStruct ''timerqueue_node'' [
   Fld ''node'' rb_node_x86,
   Fld ''expires'' ktime_t_x86]"

definition k__u8_x86 :: ctype where
  "k__u8_x86 = c_char"

definition u8_x86 :: ctype where
  "u8_x86 = k__u8_x86"

definition hrtimer_x86 :: ctype where
  "hrtimer_x86 = CStruct ''hrtimer'' [
   Fld ''node'' timerqueue_node_x86,
   Fld ''_softexpires'' ktime_t_x86,
   Fld ''function'' c_ptr,
   Fld ''base'' (CPtr ''hrtimer_clock_base''),
   Fld ''state'' u8_x86,
   Fld ''is_rel'' u8_x86,
   Fld ''is_soft'' u8_x86,
   Fld ''is_hard'' u8_x86]"

definition sched_dl_entity_x86 :: ctype where
  "sched_dl_entity_x86 = CStruct ''sched_dl_entity'' [
   Fld ''rb_node'' rb_node_x86,
   Fld ''dl_runtime'' u64_x86,
   Fld ''dl_deadline'' u64_x86,
   Fld ''dl_period'' u64_x86,
   Fld ''dl_bw'' u64_x86,
   Fld ''dl_density'' u64_x86,
   Fld ''runtime'' s64_x86,
   Fld ''deadline'' u64_x86,
   Fld ''flags'' c_int,
   Bit ''dl_throttled'' 1 c_int,
   Bit ''dl_yielded'' 1 c_int,
   Bit ''dl_non_contending'' 1 c_int,
   Bit ''dl_overrun'' 1 c_int,
   Fld ''dl_timer'' hrtimer_x86,
   Fld ''inactive_timer'' hrtimer_x86]"

definition sched_statistics_x86 :: ctype where
  "sched_statistics_x86 = CStruct ''sched_statistics'' []"

definition cpumask_x86 :: ctype where
  "cpumask_x86 = CStruct ''cpumask'' [
   Fld ''bits'' (CArr c_long 1)]"

definition cpumask_t_x86 :: ctype where
  "cpumask_t_x86 = cpumask_x86"

definition rcu_special_x86 :: ctype where
  "rcu_special_x86 = CUnion ''rcu_special'' [
   Fld ''b'' (CStruct [] [
     Fld ''blocked'' u8_x86,
     Fld ''need_qs'' u8_x86,
     Fld ''exp_hint'' u8_x86,
     Fld ''need_mb'' u8_x86]),
   Fld ''s'' u32_x86]"

definition sched_info_x86 :: ctype where
  "sched_info_x86 = CStruct ''sched_info'' []"

definition vmacache_x86 :: ctype where
  "vmacache_x86 = CStruct ''vmacache'' [
   Fld ''seqnum'' u64_x86,
   Fld ''vmas'' (CArr (CPtr ''vm_area_struct'') 4)]"

definition k__kernel_clockid_t_x86 :: ctype where
  "k__kernel_clockid_t_x86 = c_int"

definition clockid_t_x86 :: ctype where
  "clockid_t_x86 = k__kernel_clockid_t_x86"

definition restart_block_x86 :: ctype where
  "restart_block_x86 = CStruct ''restart_block'' [
   Fld ''arch_data'' c_long,
   Fld ''fn'' c_ptr,
   Fld [] (CUnion [] [
     Fld ''futex'' (CStruct [] [
     Fld ''uaddr'' c_ptr,
     Fld ''val'' u32_x86,
     Fld ''flags'' u32_x86,
     Fld ''bitset'' u32_x86,
     Fld ''time'' u64_x86,
     Fld ''uaddr2'' c_ptr]),
     Fld ''nanosleep'' (CStruct [] [
     Fld ''clockid'' clockid_t_x86,
     Fld ''type'' c_int,
     Fld [] (CUnion [] [
     Fld ''rmtp'' (CPtr ''__kernel_timespec''),
     Fld ''compat_rmtp'' (CPtr ''old_timespec32'')]),
     Fld ''expires'' u64_x86]),
     Fld ''poll'' (CStruct [] [
     Fld ''ufds'' (CPtr ''pollfd''),
     Fld ''nfds'' c_int,
     Fld ''has_timeout'' c_int,
     Fld ''tv_sec'' c_long,
     Fld ''tv_nsec'' c_long])])]"

definition k__kernel_pid_t_x86 :: ctype where
  "k__kernel_pid_t_x86 = c_int"

definition pid_t_x86 :: ctype where
  "pid_t_x86 = k__kernel_pid_t_x86"

definition hlist_node_x86 :: ctype where
  "hlist_node_x86 = CStruct ''hlist_node'' [
   Fld ''next'' (CPtr ''hlist_node''),
   Fld ''pprev'' (CPtr ''hlist_node'')]"

definition arch_spinlock_t_x86 :: ctype where
  "arch_spinlock_t_x86 = CStruct ''arch_spinlock_t'' []"

definition raw_spinlock_x86 :: ctype where
  "raw_spinlock_x86 = CStruct ''raw_spinlock'' [
   Fld ''raw_lock'' arch_spinlock_t_x86]"

definition raw_spinlock_t_x86 :: ctype where
  "raw_spinlock_t_x86 = raw_spinlock_x86"

definition prev_cputime_x86 :: ctype where
  "prev_cputime_x86 = CStruct ''prev_cputime'' [
   Fld ''utime'' u64_x86,
   Fld ''stime'' u64_x86,
   Fld ''lock'' raw_spinlock_t_x86]"

definition posix_cputimers_x86 :: ctype where
  "posix_cputimers_x86 = CStruct ''posix_cputimers'' []"

definition sigset_t_x86 :: ctype where
  "sigset_t_x86 = CStruct ''sigset_t'' [
   Fld ''sig'' (CArr c_long 2)]"

definition sigpending_x86 :: ctype where
  "sigpending_x86 = CStruct ''sigpending'' [
   Fld ''list'' list_head_x86,
   Fld ''signal'' sigset_t_x86]"

definition k__kernel_size_t_x86 :: ctype where
  "k__kernel_size_t_x86 = c_int"

definition size_t_x86 :: ctype where
  "size_t_x86 = k__kernel_size_t_x86"

definition seccomp_x86 :: ctype where
  "seccomp_x86 = CStruct ''seccomp'' []"

definition bool_x86 :: ctype where
  "bool_x86 = c_bool"

definition syscall_user_dispatch_x86 :: ctype where
  "syscall_user_dispatch_x86 = CStruct ''syscall_user_dispatch'' [
   Fld ''selector'' c_ptr,
   Fld ''offset'' c_long,
   Fld ''len'' c_long,
   Fld ''on_dispatch'' bool_x86]"

definition spinlock_x86 :: ctype where
  "spinlock_x86 = CStruct ''spinlock'' [
   Fld [] (CUnion [] [
     Fld ''rlock'' raw_spinlock_x86])]"

definition spinlock_t_x86 :: ctype where
  "spinlock_t_x86 = spinlock_x86"

definition wake_q_node_x86 :: ctype where
  "wake_q_node_x86 = CStruct ''wake_q_node'' [
   Fld ''next'' (CPtr ''wake_q_node'')]"

definition task_io_accounting_x86 :: ctype where
  "task_io_accounting_x86 = CStruct ''task_io_accounting'' []"

definition atomic_long_t_x86 :: ctype where
  "atomic_long_t_x86 = atomic_t_x86"

definition mutex_x86 :: ctype where
  "mutex_x86 = CStruct ''mutex'' [
   Fld ''owner'' atomic_long_t_x86,
   Fld ''wait_lock'' raw_spinlock_t_x86,
   Fld ''wait_list'' list_head_x86]"

definition arch_tlbflush_unmap_batch_x86 :: ctype where
  "arch_tlbflush_unmap_batch_x86 = CStruct ''arch_tlbflush_unmap_batch'' [
   Fld ''cpumask'' cpumask_x86]"

definition tlbflush_unmap_batch_x86 :: ctype where
  "tlbflush_unmap_batch_x86 = CStruct ''tlbflush_unmap_batch'' [
   Fld ''arch'' arch_tlbflush_unmap_batch_x86,
   Fld ''flush_required'' bool_x86,
   Fld ''writable'' bool_x86]"

definition callback_head_x86 :: ctype where
  "callback_head_x86 = CStruct ''callback_head'' [
   Fld ''next'' (CPtr ''callback_head''),
   Fld ''func'' c_ptr]"

definition k__u16_x86 :: ctype where
  "k__u16_x86 = c_short"

definition page_frag_x86 :: ctype where
  "page_frag_x86 = CStruct ''page_frag'' [
   Fld ''page'' (CPtr ''page''),
   Fld ''offset'' k__u16_x86,
   Fld ''size'' k__u16_x86]"

definition pteval_t_x86 :: ctype where
  "pteval_t_x86 = c_long"

definition pte_t_x86 :: ctype where
  "pte_t_x86 = CUnion ''pte_t'' [
   Fld ''pte'' pteval_t_x86,
   Fld ''pte_low'' pteval_t_x86]"

definition kmap_ctrl_x86 :: ctype where
  "kmap_ctrl_x86 = CStruct ''kmap_ctrl'' [
   Fld ''idx'' c_int,
   Fld ''pteval'' (CArr pte_t_x86 16)]"

definition timer_list_x86 :: ctype where
  "timer_list_x86 = CStruct ''timer_list'' [
   Fld ''entry'' hlist_node_x86,
   Fld ''expires'' c_long,
   Fld ''function'' c_ptr,
   Fld ''flags'' u32_x86]"

definition llist_head_x86 :: ctype where
  "llist_head_x86 = CStruct ''llist_head'' [
   Fld ''first'' (CPtr ''llist_node'')]"

definition u16_x86 :: ctype where
  "u16_x86 = k__u16_x86"

definition desc_struct_x86 :: ctype where
  "desc_struct_x86 = CStruct ''desc_struct'' [
   Fld ''limit0'' u16_x86,
   Fld ''base0'' u16_x86,
   Bit ''base1'' 8 u16_x86,
   Bit ''type'' 4 u16_x86,
   Bit ''s'' 1 u16_x86,
   Bit ''dpl'' 2 u16_x86,
   Bit ''p'' 1 u16_x86,
   Bit ''limit1'' 4 u16_x86,
   Bit ''avl'' 1 u16_x86,
   Bit ''l'' 1 u16_x86,
   Bit ''d'' 1 u16_x86,
   Bit ''g'' 1 u16_x86,
   Bit ''base2'' 8 u16_x86]"

definition fpu_state_perm_x86 :: ctype where
  "fpu_state_perm_x86 = CStruct ''fpu_state_perm'' [
   Fld ''__state_perm'' u64_x86,
   Fld ''__state_size'' c_int,
   Fld ''__user_state_size'' c_int]"

definition fregs_state_x86 :: ctype where
  "fregs_state_x86 = CStruct ''fregs_state'' [
   Fld ''cwd'' u32_x86,
   Fld ''swd'' u32_x86,
   Fld ''twd'' u32_x86,
   Fld ''fip'' u32_x86,
   Fld ''fcs'' u32_x86,
   Fld ''foo'' u32_x86,
   Fld ''fos'' u32_x86,
   Fld ''st_space'' (CArr u32_x86 20),
   Fld ''status'' u32_x86]"

definition fxregs_state_x86 :: ctype where
  "fxregs_state_x86 = CStruct ''fxregs_state'' [
   Fld ''cwd'' u16_x86,
   Fld ''swd'' u16_x86,
   Fld ''twd'' u16_x86,
   Fld ''fop'' u16_x86,
   Fld [] (CUnion [] [
     Fld [] (CStruct [] [
     Fld ''rip'' u64_x86,
     Fld ''rdp'' u64_x86]),
     Fld [] (CStruct [] [
     Fld ''fip'' u32_x86,
     Fld ''fcs'' u32_x86,
     Fld ''foo'' u32_x86,
     Fld ''fos'' u32_x86])]),
   Fld ''mxcsr'' u32_x86,
   Fld ''mxcsr_mask'' u32_x86,
   Fld ''st_space'' (CArr u32_x86 32),
   Fld ''xmm_space'' (CArr u32_x86 64),
   Fld ''padding'' (CArr u32_x86 12),
   Fld [] (CUnion [] [
     Fld ''padding1'' (CArr u32_x86 12),
     Fld ''sw_reserved'' (CArr u32_x86 12)])]"

definition swregs_state_x86 :: ctype where
  "swregs_state_x86 = CStruct ''swregs_state'' [
   Fld ''cwd'' u32_x86,
   Fld ''swd'' u32_x86,
   Fld ''twd'' u32_x86,
   Fld ''fip'' u32_x86,
   Fld ''fcs'' u32_x86,
   Fld ''foo'' u32_x86,
   Fld ''fos'' u32_x86,
   Fld ''st_space'' (CArr u32_x86 20),
   Fld ''ftop'' u8_x86,
   Fld ''changed'' u8_x86,
   Fld ''lookahead'' u8_x86,
   Fld ''no_update'' u8_x86,
   Fld ''rm'' u8_x86,
   Fld ''alimit'' u8_x86,
   Fld ''info'' (CPtr ''math_emu_info''),
   Fld ''entry_eip'' u32_x86]"

definition xstate_header_x86 :: ctype where
  "xstate_header_x86 = CStruct ''xstate_header'' [
   Fld ''xfeatures'' u64_x86,
   Fld ''xcomp_bv'' u64_x86,
   Fld ''reserved'' (CArr u64_x86 6)]"

definition xregs_state_x86 :: ctype where
  "xregs_state_x86 = CStruct ''xregs_state'' [
   Fld ''i387'' fxregs_state_x86,
   Fld ''header'' xstate_header_x86,
   Fld ''extended_state_area'' (CArr u8_x86 0)]"

definition fpregs_state_x86 :: ctype where
  "fpregs_state_x86 = CUnion ''fpregs_state'' [
   Fld ''fsave'' fregs_state_x86,
   Fld ''fxsave'' fxregs_state_x86,
   Fld ''soft'' swregs_state_x86,
   Fld ''xsave'' xregs_state_x86,
   Fld ''__padding'' (CArr u8_x86 4096)]"

definition fpstate_x86 :: ctype where
  "fpstate_x86 = CStruct ''fpstate'' [
   Fld ''size'' c_int,
   Fld ''user_size'' c_int,
   Fld ''xfeatures'' u64_x86,
   Fld ''user_xfeatures'' u64_x86,
   Fld ''xfd'' u64_x86,
   Bit ''is_valloc'' 1 c_int,
   Bit ''is_guest'' 1 c_int,
   Bit ''is_confidential'' 1 c_int,
   Bit ''in_use'' 1 c_int,
   Bit [] 28 c_int,
   Bit [] 32 c_int,
   Bit [] 32 c_int,
   Bit [] 32 c_int,
   Bit [] 32 c_int,
   Bit [] 32 c_int,
   Bit [] 32 c_int,
   Bit [] 32 c_int,
   Fld ''regs'' fpregs_state_x86]"

definition fpu_x86 :: ctype where
  "fpu_x86 = CStruct ''fpu'' [
   Fld ''last_cpu'' c_int,
   Fld ''avx512_timestamp'' c_long,
   Fld ''fpstate'' (CPtr ''fpstate''),
   Fld ''__task_fpstate'' (CPtr ''fpstate''),
   Fld ''perm'' fpu_state_perm_x86,
   Fld ''guest_perm'' fpu_state_perm_x86,
   Bit [] 32 c_int,
   Bit [] 32 c_int,
   Bit [] 32 c_int,
   Bit [] 32 c_int,
   Fld ''__fpstate'' fpstate_x86]"

definition thread_struct_x86 :: ctype where
  "thread_struct_x86 = CStruct ''thread_struct'' [
   Fld ''tls_array'' (CArr desc_struct_x86 3),
   Fld ''sp0'' c_long,
   Fld ''sp'' c_long,
   Fld ''sysenter_cs'' c_long,
   Fld ''fs'' c_long,
   Fld ''gs'' c_long,
   Fld ''ptrace_bps'' (CArr (CPtr ''perf_event'') 4),
   Fld ''virtual_dr6'' c_long,
   Fld ''ptrace_dr7'' c_long,
   Fld ''cr2'' c_long,
   Fld ''trap_nr'' c_long,
   Fld ''error_code'' c_long,
   Fld ''io_bitmap'' (CPtr ''io_bitmap''),
   Fld ''iopl_emul'' c_long,
   Bit ''iopl_warn'' 1 c_int,
   Bit ''sig_on_uaccess_err'' 1 c_int,
   Fld ''pkru'' u32_x86,
   Bit [] 32 c_int,
   Bit [] 32 c_int,
   Bit [] 32 c_int,
   Bit [] 32 c_int,
   Bit [] 32 c_int,
   Bit [] 32 c_int,
   Bit [] 32 c_int,
   Bit [] 32 c_int,
   Fld ''fpu'' fpu_x86]"

definition task_struct_x86 :: ctype where
  "task_struct_x86 = CStruct ''task_struct'' [
   Fld ''thread_info'' thread_info_x86,
   Fld ''__state'' c_int,
   Fld ''stack'' c_ptr,
   Fld ''usage'' refcount_t_x86,
   Fld ''flags'' c_int,
   Fld ''ptrace'' c_int,
   Fld ''on_rq'' c_int,
   Fld ''prio'' c_int,
   Fld ''static_prio'' c_int,
   Fld ''normal_prio'' c_int,
   Fld ''rt_priority'' c_int,
   Fld ''se'' sched_entity_x86,
   Fld ''rt'' sched_rt_entity_x86,
   Fld ''dl'' sched_dl_entity_x86,
   Fld ''sched_class'' (CPtr ''sched_class''),
   Bit [] 32 c_int,
   Bit [] 32 c_int,
   Fld ''stats'' sched_statistics_x86,
   Fld ''policy'' c_int,
   Fld ''nr_cpus_allowed'' c_int,
   Fld ''cpus_ptr'' c_ptr,
   Fld ''user_cpus_ptr'' c_ptr,
   Fld ''cpus_mask'' cpumask_t_x86,
   Fld ''migration_pending'' c_ptr,
   Fld ''migration_flags'' c_short,
   Fld ''trc_reader_nesting'' c_int,
   Fld ''trc_ipi_to_cpu'' c_int,
   Fld ''trc_reader_special'' rcu_special_x86,
   Fld ''trc_holdout_list'' list_head_x86,
   Fld ''trc_blkd_node'' list_head_x86,
   Fld ''trc_blkd_cpu'' c_int,
   Fld ''sched_info'' sched_info_x86,
   Fld ''tasks'' list_head_x86,
   Fld ''mm'' (CPtr ''mm_struct''),
   Fld ''active_mm'' (CPtr ''mm_struct''),
   Fld ''vmacache'' vmacache_x86,
   Fld ''exit_state'' c_int,
   Fld ''exit_code'' c_int,
   Fld ''exit_signal'' c_int,
   Fld ''pdeath_signal'' c_int,
   Fld ''jobctl'' c_long,
   Fld ''personality'' c_int,
   Bit ''sched_reset_on_fork'' 1 c_int,
   Bit ''sched_contributes_to_load'' 1 c_int,
   Bit ''sched_migrated'' 1 c_int,
   Bit [] 29 c_int,
   Bit ''sched_remote_wakeup'' 1 c_int,
   Bit ''in_execve'' 1 c_int,
   Bit ''in_iowait'' 1 c_int,
   Bit ''restore_sigmask'' 1 c_int,
   Bit ''reported_split_lock'' 1 c_int,
   Fld ''atomic_flags'' c_long,
   Fld ''restart_block'' restart_block_x86,
   Fld ''pid'' pid_t_x86,
   Fld ''tgid'' pid_t_x86,
   Fld ''real_parent'' (CPtr ''task_struct''),
   Fld ''parent'' (CPtr ''task_struct''),
   Fld ''children'' list_head_x86,
   Fld ''sibling'' list_head_x86,
   Fld ''group_leader'' (CPtr ''task_struct''),
   Fld ''ptraced'' list_head_x86,
   Fld ''ptrace_entry'' list_head_x86,
   Fld ''thread_pid'' (CPtr ''pid''),
   Fld ''pid_links'' (CArr hlist_node_x86 4),
   Fld ''thread_group'' list_head_x86,
   Fld ''thread_node'' list_head_x86,
   Fld ''vfork_done'' (CPtr ''completion''),
   Fld ''set_child_tid'' c_ptr,
   Fld ''clear_child_tid'' c_ptr,
   Fld ''worker_private'' c_ptr,
   Fld ''utime'' u64_x86,
   Fld ''stime'' u64_x86,
   Fld ''gtime'' u64_x86,
   Fld ''prev_cputime'' prev_cputime_x86,
   Fld ''nvcsw'' c_long,
   Fld ''nivcsw'' c_long,
   Fld ''start_time'' u64_x86,
   Fld ''start_boottime'' u64_x86,
   Fld ''min_flt'' c_long,
   Fld ''maj_flt'' c_long,
   Fld ''posix_cputimers'' posix_cputimers_x86,
   Fld ''ptracer_cred'' (CPtr ''cred''),
   Fld ''real_cred'' (CPtr ''cred''),
   Fld ''cred'' (CPtr ''cred''),
   Fld ''comm'' (CArr c_char 16),
   Fld ''nameidata'' (CPtr ''nameidata''),
   Fld ''fs'' (CPtr ''fs_struct''),
   Fld ''files'' (CPtr ''files_struct''),
   Fld ''nsproxy'' (CPtr ''nsproxy''),
   Fld ''signal'' (CPtr ''signal_struct''),
   Fld ''sighand'' (CPtr ''sighand_struct''),
   Fld ''blocked'' sigset_t_x86,
   Fld ''real_blocked'' sigset_t_x86,
   Fld ''saved_sigmask'' sigset_t_x86,
   Fld ''pending'' sigpending_x86,
   Fld ''sas_ss_sp'' c_long,
   Fld ''sas_ss_size'' size_t_x86,
   Fld ''sas_ss_flags'' c_int,
   Fld ''task_works'' (CPtr ''callback_head''),
   Fld ''seccomp'' seccomp_x86,
   Fld ''syscall_dispatch'' syscall_user_dispatch_x86,
   Fld ''parent_exec_id'' u64_x86,
   Fld ''self_exec_id'' u64_x86,
   Fld ''alloc_lock'' spinlock_t_x86,
   Fld ''pi_lock'' raw_spinlock_t_x86,
   Fld ''wake_q'' wake_q_node_x86,
   Fld ''journal_info'' c_ptr,
   Fld ''bio_list'' (CPtr ''bio_list''),
   Fld ''plug'' (CPtr ''blk_plug''),
   Fld ''reclaim_state'' (CPtr ''reclaim_state''),
   Fld ''backing_dev_info'' (CPtr ''backing_dev_info''),
   Fld ''io_context'' (CPtr ''io_context''),
   Fld ''ptrace_message'' c_long,
   Fld ''last_siginfo'' c_ptr,
   Fld ''ioac'' task_io_accounting_x86,
   Fld ''perf_event_ctxp'' (CArr (CPtr ''perf_event_context'') 2),
   Fld ''perf_event_mutex'' mutex_x86,
   Fld ''perf_event_list'' list_head_x86,
   Fld ''tlb_ubc'' tlbflush_unmap_batch_x86,
   Fld [] (CUnion [] [
     Fld ''rcu_users'' refcount_t_x86,
     Fld ''rcu'' callback_head_x86]),
   Fld ''splice_pipe'' (CPtr ''pipe_inode_info''),
   Fld ''task_frag'' page_frag_x86,
   Fld ''nr_dirtied'' c_int,
   Fld ''nr_dirtied_pause'' c_int,
   Fld ''dirty_paused_when'' c_long,
   Fld ''timer_slack_ns'' u64_x86,
   Fld ''default_timer_slack_ns'' u64_x86,
   Fld ''trace'' c_long,
   Fld ''trace_recursion'' c_long,
   Fld ''utask'' (CPtr ''uprobe_task''),
   Fld ''kmap_ctrl'' kmap_ctrl_x86,
   Fld ''pagefault_disabled'' c_int,
   Fld ''oom_reaper_list'' (CPtr ''task_struct''),
   Fld ''oom_reaper_timer'' timer_list_x86,
   Fld ''stack_refcount'' refcount_t_x86,
   Fld ''bpf_storage'' (CPtr ''bpf_local_storage''),
   Fld ''bpf_ctx'' (CPtr ''bpf_run_ctx''),
   Fld ''kretprobe_instances'' llist_head_x86,
   Fld ''rethooks'' llist_head_x86,
   Fld ''l1d_flush_kill'' callback_head_x86,
   Bit [] 32 c_int,
   Bit [] 32 c_int,
   Fld ''thread'' thread_struct_x86]"

definition blk_opf_t_x86 :: ctype where
  "blk_opf_t_x86 = k__u32_x86"

definition blk_status_t_x86 :: ctype where
  "blk_status_t_x86 = u8_x86"

definition sector_t_x86 :: ctype where
  "sector_t_x86 = u64_x86"

definition bvec_iter_x86 :: ctype where
  "bvec_iter_x86 = CStruct ''bvec_iter'' [
   Fld ''bi_sector'' sector_t_x86,
   Fld ''bi_size'' c_int,
   Fld ''bi_idx'' c_int,
   Fld ''bi_bvec_done'' c_int]"

definition blk_qc_t_x86 :: ctype where
  "blk_qc_t_x86 = c_int"

definition bio_vec_x86 :: ctype where
  "bio_vec_x86 = CStruct ''bio_vec'' [
   Fld ''bv_page'' (CPtr ''page''),
   Fld ''bv_len'' c_int,
   Fld ''bv_offset'' c_int]"

definition bio_x86 :: ctype where
  "bio_x86 = CStruct ''bio'' [
   Fld ''bi_next'' (CPtr ''bio''),
   Fld ''bi_bdev'' (CPtr ''block_device''),
   Fld ''bi_opf'' blk_opf_t_x86,
   Fld ''bi_flags'' c_short,
   Fld ''bi_ioprio'' c_short,
   Fld ''bi_status'' blk_status_t_x86,
   Fld ''__bi_remaining'' atomic_t_x86,
   Fld ''bi_iter'' bvec_iter_x86,
   Fld ''bi_cookie'' blk_qc_t_x86,
   Fld ''bi_end_io'' c_ptr,
   Fld ''bi_private'' c_ptr,
   Fld [] (CUnion [] []),
   Fld ''bi_vcnt'' c_short,
   Fld ''bi_max_vecs'' c_short,
   Fld ''__bi_cnt'' atomic_t_x86,
   Fld ''bi_io_vec'' (CPtr ''bio_vec''),
   Fld ''bi_pool'' (CPtr ''bio_set''),
   Fld ''bi_inline_vecs'' (CArr bio_vec_x86 0)]"

definition k__kernel_dev_t_x86 :: ctype where
  "k__kernel_dev_t_x86 = u32_x86"

definition dev_t_x86 :: ctype where
  "dev_t_x86 = k__kernel_dev_t_x86"

definition kref_x86 :: ctype where
  "kref_x86 = CStruct ''kref'' [
   Fld ''refcount'' refcount_t_x86]"

definition kobject_x86 :: ctype where
  "kobject_x86 = CStruct ''kobject'' [
   Fld ''name'' c_ptr,
   Fld ''entry'' list_head_x86,
   Fld ''parent'' (CPtr ''kobject''),
   Fld ''kset'' (CPtr ''kset''),
   Fld ''ktype'' (CPtr ''kobj_type''),
   Fld ''sd'' (CPtr ''kernfs_node''),
   Fld ''kref'' kref_x86,
   Bit ''state_initialized'' 1 c_int,
   Bit ''state_in_sysfs'' 1 c_int,
   Bit ''state_add_uevent_sent'' 1 c_int,
   Bit ''state_remove_uevent_sent'' 1 c_int,
   Bit ''uevent_suppress'' 1 c_int]"

definition dev_links_info_x86 :: ctype where
  "dev_links_info_x86 = CStruct ''dev_links_info'' [
   Fld ''suppliers'' list_head_x86,
   Fld ''consumers'' list_head_x86,
   Fld ''defer_sync'' list_head_x86,
   Fld ''status'' c_int]"

definition pm_message_x86 :: ctype where
  "pm_message_x86 = CStruct ''pm_message'' [
   Fld ''event'' c_int]"

definition pm_message_t_x86 :: ctype where
  "pm_message_t_x86 = pm_message_x86"

definition dev_pm_info_x86 :: ctype where
  "dev_pm_info_x86 = CStruct ''dev_pm_info'' [
   Fld ''power_state'' pm_message_t_x86,
   Bit ''can_wakeup'' 1 c_int,
   Bit ''async_suspend'' 1 c_int,
   Bit ''in_dpm_list'' 1 bool_x86,
   Bit ''is_prepared'' 1 bool_x86,
   Bit ''is_suspended'' 1 bool_x86,
   Bit ''is_noirq_suspended'' 1 bool_x86,
   Bit ''is_late_suspended'' 1 bool_x86,
   Bit ''no_pm'' 1 bool_x86,
   Bit ''early_init'' 1 bool_x86,
   Bit ''direct_complete'' 1 bool_x86,
   Fld ''driver_flags'' u32_x86,
   Fld ''lock'' spinlock_t_x86,
   Bit ''should_wakeup'' 1 c_int,
   Fld ''subsys_data'' (CPtr ''pm_subsys_data''),
   Fld ''set_latency_tolerance'' c_ptr,
   Fld ''qos'' (CPtr ''dev_pm_qos'')]"

definition dev_msi_info_x86 :: ctype where
  "dev_msi_info_x86 = CStruct ''dev_msi_info'' []"

definition dev_archdata_x86 :: ctype where
  "dev_archdata_x86 = CStruct ''dev_archdata'' []"

definition device_x86 :: ctype where
  "device_x86 = CStruct ''device'' [
   Fld ''kobj'' kobject_x86,
   Fld ''parent'' (CPtr ''device''),
   Fld ''p'' (CPtr ''device_private''),
   Fld ''init_name'' c_ptr,
   Fld ''type'' (CPtr ''device_type''),
   Fld ''bus'' (CPtr ''bus_type''),
   Fld ''driver'' (CPtr ''device_driver''),
   Fld ''platform_data'' c_ptr,
   Fld ''driver_data'' c_ptr,
   Fld ''mutex'' mutex_x86,
   Fld ''links'' dev_links_info_x86,
   Fld ''power'' dev_pm_info_x86,
   Fld ''pm_domain'' (CPtr ''dev_pm_domain''),
   Fld ''msi'' dev_msi_info_x86,
   Fld ''dma_mask'' c_ptr,
   Fld ''coherent_dma_mask'' u64_x86,
   Fld ''bus_dma_limit'' u64_x86,
   Fld ''dma_range_map'' (CPtr ''bus_dma_region''),
   Fld ''dma_parms'' (CPtr ''device_dma_parameters''),
   Fld ''dma_pools'' list_head_x86,
   Fld ''archdata'' dev_archdata_x86,
   Fld ''of_node'' (CPtr ''device_node''),
   Fld ''fwnode'' (CPtr ''fwnode_handle''),
   Fld ''devt'' dev_t_x86,
   Fld ''id'' u32_x86,
   Fld ''devres_lock'' spinlock_t_x86,
   Fld ''devres_head'' list_head_x86,
   Fld ''class'' (CPtr ''class''),
   Fld ''groups'' (CPtr ''attribute_group''),
   Fld ''release'' c_ptr,
   Fld ''iommu_group'' (CPtr ''iommu_group''),
   Fld ''iommu'' (CPtr ''dev_iommu''),
   Fld ''physical_location'' (CPtr ''device_physical_location''),
   Fld ''removable'' c_int,
   Bit ''offline_disabled'' 1 bool_x86,
   Bit ''offline'' 1 bool_x86,
   Bit ''of_node_reused'' 1 bool_x86,
   Bit ''state_synced'' 1 bool_x86,
   Bit ''can_match'' 1 bool_x86]"

definition block_device_x86 :: ctype where
  "block_device_x86 = CStruct ''block_device'' [
   Fld ''bd_start_sect'' sector_t_x86,
   Fld ''bd_nr_sectors'' sector_t_x86,
   Fld ''bd_stats'' (CPtr ''disk_stats''),
   Fld ''bd_stamp'' c_long,
   Fld ''bd_read_only'' bool_x86,
   Fld ''bd_dev'' dev_t_x86,
   Fld ''bd_openers'' atomic_t_x86,
   Fld ''bd_inode'' (CPtr ''inode''),
   Fld ''bd_super'' (CPtr ''super_block''),
   Fld ''bd_claiming'' c_ptr,
   Fld ''bd_device'' device_x86,
   Fld ''bd_holder'' c_ptr,
   Fld ''bd_holders'' c_int,
   Fld ''bd_write_holder'' bool_x86,
   Fld ''bd_holder_dir'' (CPtr ''kobject''),
   Fld ''bd_partno'' u8_x86,
   Fld ''bd_size_lock'' spinlock_t_x86,
   Fld ''bd_disk'' (CPtr ''gendisk''),
   Fld ''bd_queue'' (CPtr ''request_queue''),
   Fld ''bd_fsfreeze_count'' c_int,
   Fld ''bd_fsfreeze_mutex'' mutex_x86,
   Fld ''bd_fsfreeze_sb'' (CPtr ''super_block''),
   Fld ''bd_meta_info'' (CPtr ''partition_meta_info'')]"

definition gfp_t_x86 :: ctype where
  "gfp_t_x86 = c_int"

definition xarray_x86 :: ctype where
  "xarray_x86 = CStruct ''xarray'' [
   Fld ''xa_lock'' spinlock_t_x86,
   Fld ''xa_flags'' gfp_t_x86,
   Fld ''xa_head'' c_ptr]"

definition wait_queue_head_x86 :: ctype where
  "wait_queue_head_x86 = CStruct ''wait_queue_head'' [
   Fld ''lock'' spinlock_t_x86,
   Fld ''head'' list_head_x86]"

definition wait_queue_head_t_x86 :: ctype where
  "wait_queue_head_t_x86 = wait_queue_head_x86"

definition mempool_s_x86 :: ctype where
  "mempool_s_x86 = CStruct ''mempool_s'' [
   Fld ''lock'' spinlock_t_x86,
   Fld ''min_nr'' c_int,
   Fld ''curr_nr'' c_int,
   Fld ''elements'' c_ptr,
   Fld ''pool_data'' c_ptr,
   Fld ''alloc'' c_ptr,
   Fld ''free'' c_ptr,
   Fld ''wait'' wait_queue_head_t_x86]"

definition mempool_t_x86 :: ctype where
  "mempool_t_x86 = mempool_s_x86"

definition bio_list_x86 :: ctype where
  "bio_list_x86 = CStruct ''bio_list'' [
   Fld ''head'' (CPtr ''bio''),
   Fld ''tail'' (CPtr ''bio'')]"

definition work_func_t_x86 :: ctype where
  "work_func_t_x86 = c_ptr"

definition work_struct_x86 :: ctype where
  "work_struct_x86 = CStruct ''work_struct'' [
   Fld ''data'' atomic_long_t_x86,
   Fld ''entry'' list_head_x86,
   Fld ''func'' work_func_t_x86]"

definition bio_set_x86 :: ctype where
  "bio_set_x86 = CStruct ''bio_set'' [
   Fld ''bio_slab'' (CPtr ''kmem_cache''),
   Fld ''front_pad'' c_int,
   Fld ''cache'' (CPtr ''bio_alloc_cache''),
   Fld ''bio_pool'' mempool_t_x86,
   Fld ''bvec_pool'' mempool_t_x86,
   Fld ''back_pad'' c_int,
   Fld ''rescue_lock'' spinlock_t_x86,
   Fld ''rescue_list'' bio_list_x86,
   Fld ''rescue_work'' work_struct_x86,
   Fld ''rescue_workqueue'' (CPtr ''workqueue_struct''),
   Fld ''cpuhp_dead'' hlist_node_x86]"

definition lockdep_map_x86 :: ctype where
  "lockdep_map_x86 = CStruct ''lockdep_map'' []"

definition gendisk_x86 :: ctype where
  "gendisk_x86 = CStruct ''gendisk'' [
   Fld ''major'' c_int,
   Fld ''first_minor'' c_int,
   Fld ''minors'' c_int,
   Fld ''disk_name'' (CArr c_char 32),
   Fld ''events'' c_short,
   Fld ''event_flags'' c_short,
   Fld ''part_tbl'' xarray_x86,
   Fld ''part0'' (CPtr ''block_device''),
   Fld ''fops'' (CPtr ''block_device_operations''),
   Fld ''queue'' (CPtr ''request_queue''),
   Fld ''private_data'' c_ptr,
   Fld ''bio_split'' bio_set_x86,
   Fld ''flags'' c_int,
   Fld ''state'' c_long,
   Fld ''open_mutex'' mutex_x86,
   Fld ''open_partitions'' c_int,
   Fld ''bdi'' (CPtr ''backing_dev_info''),
   Fld ''slave_dir'' (CPtr ''kobject''),
   Fld ''random'' (CPtr ''timer_rand_state''),
   Fld ''sync_io'' atomic_t_x86,
   Fld ''ev'' (CPtr ''disk_events''),
   Fld ''node_id'' c_int,
   Fld ''bb'' (CPtr ''badblocks''),
   Fld ''lockdep_map'' lockdep_map_x86,
   Fld ''diskseq'' u64_x86,
   Fld ''ia_ranges'' (CPtr ''blk_independent_access_ranges'')]"

definition percpu_ref_x86 :: ctype where
  "percpu_ref_x86 = CStruct ''percpu_ref'' [
   Fld ''percpu_count_ptr'' c_long,
   Fld ''data'' (CPtr ''percpu_ref_data'')]"

definition queue_limits_x86 :: ctype where
  "queue_limits_x86 = CStruct ''queue_limits'' [
   Fld ''bounce'' c_int,
   Fld ''seg_boundary_mask'' c_long,
   Fld ''virt_boundary_mask'' c_long,
   Fld ''max_hw_sectors'' c_int,
   Fld ''max_dev_sectors'' c_int,
   Fld ''chunk_sectors'' c_int,
   Fld ''max_sectors'' c_int,
   Fld ''max_segment_size'' c_int,
   Fld ''physical_block_size'' c_int,
   Fld ''logical_block_size'' c_int,
   Fld ''alignment_offset'' c_int,
   Fld ''io_min'' c_int,
   Fld ''io_opt'' c_int,
   Fld ''max_discard_sectors'' c_int,
   Fld ''max_hw_discard_sectors'' c_int,
   Fld ''max_secure_erase_sectors'' c_int,
   Fld ''max_write_zeroes_sectors'' c_int,
   Fld ''max_zone_append_sectors'' c_int,
   Fld ''discard_granularity'' c_int,
   Fld ''discard_alignment'' c_int,
   Fld ''zone_write_granularity'' c_int,
   Fld ''max_segments'' c_short,
   Fld ''max_integrity_segments'' c_short,
   Fld ''max_discard_segments'' c_short,
   Fld ''misaligned'' c_char,
   Fld ''discard_misaligned'' c_char,
   Fld ''raid_partial_stripes_expensive'' c_char,
   Fld ''zoned'' c_int]"

definition delayed_work_x86 :: ctype where
  "delayed_work_x86 = CStruct ''delayed_work'' [
   Fld ''work'' work_struct_x86,
   Fld ''timer'' timer_list_x86,
   Fld ''wq'' (CPtr ''workqueue_struct''),
   Fld ''cpu'' c_int]"

definition swait_queue_head_x86 :: ctype where
  "swait_queue_head_x86 = CStruct ''swait_queue_head'' [
   Fld ''lock'' raw_spinlock_t_x86,
   Fld ''task_list'' list_head_x86]"

definition srcu_struct_x86 :: ctype where
  "srcu_struct_x86 = CStruct ''srcu_struct'' [
   Fld ''srcu_lock_nesting'' (CArr c_short 2),
   Fld ''srcu_gp_running'' u8_x86,
   Fld ''srcu_gp_waiting'' u8_x86,
   Fld ''srcu_idx'' c_long,
   Fld ''srcu_idx_max'' c_long,
   Fld ''srcu_wq'' swait_queue_head_x86,
   Fld ''srcu_cb_head'' (CPtr ''callback_head''),
   Fld ''srcu_cb_tail'' (CPtr ''callback_head''),
   Fld ''srcu_work'' work_struct_x86]"

definition request_queue_x86 :: ctype where
  "request_queue_x86 = CStruct ''request_queue'' [
   Fld ''last_merge'' (CPtr ''request''),
   Fld ''elevator'' (CPtr ''elevator_queue''),
   Fld ''q_usage_counter'' percpu_ref_x86,
   Fld ''stats'' (CPtr ''blk_queue_stats''),
   Fld ''rq_qos'' (CPtr ''rq_qos''),
   Fld ''mq_ops'' (CPtr ''blk_mq_ops''),
   Fld ''queue_ctx'' (CPtr ''blk_mq_ctx''),
   Fld ''queue_depth'' c_int,
   Fld ''hctx_table'' xarray_x86,
   Fld ''nr_hw_queues'' c_int,
   Fld ''queuedata'' c_ptr,
   Fld ''queue_flags'' c_long,
   Fld ''pm_only'' atomic_t_x86,
   Fld ''id'' c_int,
   Fld ''queue_lock'' spinlock_t_x86,
   Fld ''disk'' (CPtr ''gendisk''),
   Fld ''kobj'' kobject_x86,
   Fld ''mq_kobj'' (CPtr ''kobject''),
   Fld ''nr_requests'' c_long,
   Fld ''dma_pad_mask'' c_int,
   Fld ''dma_alignment'' c_int,
   Fld ''rq_timeout'' c_int,
   Fld ''poll_nsec'' c_int,
   Fld ''poll_cb'' (CPtr ''blk_stat_callback''),
   Fld ''poll_stat'' (CPtr ''blk_rq_stat''),
   Fld ''timeout'' timer_list_x86,
   Fld ''timeout_work'' work_struct_x86,
   Fld ''nr_active_requests_shared_tags'' atomic_t_x86,
   Fld ''sched_shared_tags'' (CPtr ''blk_mq_tags''),
   Fld ''icq_list'' list_head_x86,
   Fld ''limits'' queue_limits_x86,
   Fld ''required_elevator_features'' c_int,
   Fld ''node'' c_int,
   Fld ''fq'' (CPtr ''blk_flush_queue''),
   Fld ''requeue_list'' list_head_x86,
   Fld ''requeue_lock'' spinlock_t_x86,
   Fld ''requeue_work'' delayed_work_x86,
   Fld ''sysfs_lock'' mutex_x86,
   Fld ''sysfs_dir_lock'' mutex_x86,
   Fld ''unused_hctx_list'' list_head_x86,
   Fld ''unused_hctx_lock'' spinlock_t_x86,
   Fld ''mq_freeze_depth'' c_int,
   Fld ''callback_head'' callback_head_x86,
   Fld ''mq_freeze_wq'' wait_queue_head_t_x86,
   Fld ''mq_freeze_lock'' mutex_x86,
   Fld ''quiesce_depth'' c_int,
   Fld ''tag_set'' (CPtr ''blk_mq_tag_set''),
   Fld ''tag_set_list'' list_head_x86,
   Fld ''debugfs_dir'' (CPtr ''dentry''),
   Fld ''sched_debugfs_dir'' (CPtr ''dentry''),
   Fld ''rqos_debugfs_dir'' (CPtr ''dentry''),
   Fld ''debugfs_mutex'' mutex_x86,
   Fld ''mq_sysfs_init_done'' bool_x86,
   Fld ''srcu'' (CArr srcu_struct_x86 0)]"

definition trace_entry_x86 :: ctype where
  "trace_entry_x86 = CStruct ''trace_entry'' [
   Fld ''type'' c_short,
   Fld ''flags'' c_char,
   Fld ''preempt_count'' c_char,
   Fld ''pid'' c_int]"

definition trace_event_raw_sched_process_fork_x86 :: ctype where
  "trace_event_raw_sched_process_fork_x86 = CStruct ''trace_event_raw_sched_process_fork'' [
   Fld ''ent'' trace_entry_x86,
   Fld ''parent_comm'' (CArr c_char 16),
   Fld ''parent_pid'' pid_t_x86,
   Fld ''child_comm'' (CArr c_char 16),
   Fld ''child_pid'' pid_t_x86,
   Fld ''__data'' (CArr c_char 0)]"

definition trace_event_raw_sched_process_exec_x86 :: ctype where
  "trace_event_raw_sched_process_exec_x86 = CStruct ''trace_event_raw_sched_process_exec'' [
   Fld ''ent'' trace_entry_x86,
   Fld ''__data_loc_filename'' u32_x86,
   Fld ''pid'' pid_t_x86,
   Fld ''old_pid'' pid_t_x86,
   Fld ''__data'' (CArr c_char 0)]"

definition btf_x86 :: "(string \<times> ctype) list" where
  "btf_x86 = [
     (''task_struct'', task_struct_x86),
     (''bio'', bio_x86),
     (''block_device'', block_device_x86),
     (''gendisk'', gendisk_x86),
     (''request_queue'', request_queue_x86),
     (''trace_event_raw_sched_process_fork'', trace_event_raw_sched_process_fork_x86),
     (''trace_event_raw_sched_process_exec'', trace_event_raw_sched_process_exec_x86)]"

text \<open>The declarations, for evaluating a layout.\<close>

lemmas decls_x86 =
  k__u32_x86_def u32_x86_def thread_info_x86_def atomic_t_x86_def
  refcount_struct_x86_def refcount_t_x86_def load_weight_x86_def rb_node_x86_def
  list_head_x86_def k__u64_x86_def u64_x86_def sched_entity_x86_def
  sched_rt_entity_x86_def k__s64_x86_def s64_x86_def ktime_t_x86_def
  timerqueue_node_x86_def k__u8_x86_def u8_x86_def hrtimer_x86_def
  sched_dl_entity_x86_def sched_statistics_x86_def cpumask_x86_def cpumask_t_x86_def
  rcu_special_x86_def sched_info_x86_def vmacache_x86_def k__kernel_clockid_t_x86_def
  clockid_t_x86_def restart_block_x86_def k__kernel_pid_t_x86_def pid_t_x86_def
  hlist_node_x86_def arch_spinlock_t_x86_def raw_spinlock_x86_def raw_spinlock_t_x86_def
  prev_cputime_x86_def posix_cputimers_x86_def sigset_t_x86_def sigpending_x86_def
  k__kernel_size_t_x86_def size_t_x86_def seccomp_x86_def bool_x86_def
  syscall_user_dispatch_x86_def spinlock_x86_def spinlock_t_x86_def wake_q_node_x86_def
  task_io_accounting_x86_def atomic_long_t_x86_def mutex_x86_def arch_tlbflush_unmap_batch_x86_def
  tlbflush_unmap_batch_x86_def callback_head_x86_def k__u16_x86_def page_frag_x86_def
  pteval_t_x86_def pte_t_x86_def kmap_ctrl_x86_def timer_list_x86_def
  llist_head_x86_def u16_x86_def desc_struct_x86_def fpu_state_perm_x86_def
  fregs_state_x86_def fxregs_state_x86_def swregs_state_x86_def xstate_header_x86_def
  xregs_state_x86_def fpregs_state_x86_def fpstate_x86_def fpu_x86_def
  thread_struct_x86_def task_struct_x86_def blk_opf_t_x86_def blk_status_t_x86_def
  sector_t_x86_def bvec_iter_x86_def blk_qc_t_x86_def bio_vec_x86_def
  bio_x86_def k__kernel_dev_t_x86_def dev_t_x86_def kref_x86_def
  kobject_x86_def dev_links_info_x86_def pm_message_x86_def pm_message_t_x86_def
  dev_pm_info_x86_def dev_msi_info_x86_def dev_archdata_x86_def device_x86_def
  block_device_x86_def gfp_t_x86_def xarray_x86_def wait_queue_head_x86_def
  wait_queue_head_t_x86_def mempool_s_x86_def mempool_t_x86_def bio_list_x86_def
  work_func_t_x86_def work_struct_x86_def bio_set_x86_def lockdep_map_x86_def
  gendisk_x86_def percpu_ref_x86_def queue_limits_x86_def delayed_work_x86_def
  swait_queue_head_x86_def srcu_struct_x86_def request_queue_x86_def trace_entry_x86_def
  trace_event_raw_sched_process_fork_x86_def trace_event_raw_sched_process_exec_x86_def

end
