(* ===== verification/Vmlinux_Arm64.thy ===== *)
theory Vmlinux_Arm64
  imports C_Layout
begin

text \<open>
  The part of \<^verbatim>\<open>crates/ananicy-bpf/bpf/arm64/vmlinux.h\<close> that the BPF program and
  \<^verbatim>\<open>core_fixes.bpf.h\<close> refer to: the tracepoint contexts, \<^verbatim>\<open>task_struct\<close>, \<^verbatim>\<open>bio\<close>,
  \<^verbatim>\<open>block_device\<close>, \<^verbatim>\<open>gendisk\<close>, \<^verbatim>\<open>request\<close> (where the header has it) and
  \<^verbatim>\<open>request_queue\<close>, with every type a member of theirs has by value. Each definition is
  the declaration of the same name, member for member; \<open>btf_arm64\<close> collects the
  structures a field access can start at or point to.
\<close>

definition k__u64_arm64 :: ctype where
  "k__u64_arm64 = c_long"

definition u64_arm64 :: ctype where
  "u64_arm64 = k__u64_arm64"

definition k__u32_arm64 :: ctype where
  "k__u32_arm64 = c_int"

definition u32_arm64 :: ctype where
  "u32_arm64 = k__u32_arm64"

definition thread_info_arm64 :: ctype where
  "thread_info_arm64 = CStruct ''thread_info'' [
   Fld ''flags'' c_long,
   Fld [] (CUnion [] [
     Fld ''preempt_count'' u64_arm64,
     Fld ''preempt'' (CStruct [] [
     Fld ''count'' u32_arm64,
     Fld ''need_resched'' u32_arm64])]),
   Fld ''cpu'' u32_arm64]"

definition atomic_t_arm64 :: ctype where
  "atomic_t_arm64 = CStruct ''atomic_t'' [
   Fld ''counter'' c_int]"

definition refcount_struct_arm64 :: ctype where
  "refcount_struct_arm64 = CStruct ''refcount_struct'' [
   Fld ''refs'' atomic_t_arm64]"

definition refcount_t_arm64 :: ctype where
  "refcount_t_arm64 = refcount_struct_arm64"

definition llist_node_arm64 :: ctype where
  "llist_node_arm64 = CStruct ''llist_node'' [
   Fld ''next'' (CPtr ''llist_node'')]"

definition k__u16_arm64 :: ctype where
  "k__u16_arm64 = c_short"

definition u16_arm64 :: ctype where
  "u16_arm64 = k__u16_arm64"

definition k__call_single_node_arm64 :: ctype where
  "k__call_single_node_arm64 = CStruct ''__call_single_node'' [
   Fld ''llist'' llist_node_arm64,
   Fld [] (CUnion [] [
     Fld ''u_flags'' c_int,
     Fld ''a_flags'' atomic_t_arm64]),
   Fld ''src'' u16_arm64,
   Fld ''dst'' u16_arm64]"

definition load_weight_arm64 :: ctype where
  "load_weight_arm64 = CStruct ''load_weight'' [
   Fld ''weight'' c_long,
   Fld ''inv_weight'' u32_arm64]"

definition rb_node_arm64 :: ctype where
  "rb_node_arm64 = CStruct ''rb_node'' [
   Fld ''__rb_parent_color'' c_long,
   Fld ''rb_right'' (CPtr ''rb_node''),
   Fld ''rb_left'' (CPtr ''rb_node'')]"

definition list_head_arm64 :: ctype where
  "list_head_arm64 = CStruct ''list_head'' [
   Fld ''next'' (CPtr ''list_head''),
   Fld ''prev'' (CPtr ''list_head'')]"

definition util_est_arm64 :: ctype where
  "util_est_arm64 = CStruct ''util_est'' [
   Fld ''enqueued'' c_int,
   Fld ''ewma'' c_int]"

definition sched_avg_arm64 :: ctype where
  "sched_avg_arm64 = CStruct ''sched_avg'' [
   Fld ''last_update_time'' u64_arm64,
   Fld ''load_sum'' u64_arm64,
   Fld ''runnable_sum'' u64_arm64,
   Fld ''util_sum'' u32_arm64,
   Fld ''period_contrib'' u32_arm64,
   Fld ''load_avg'' c_long,
   Fld ''runnable_avg'' c_long,
   Fld ''util_avg'' c_long,
   Fld ''util_est'' util_est_arm64]"

definition sched_entity_arm64 :: ctype where
  "sched_entity_arm64 = CStruct ''sched_entity'' [
   Fld ''load'' load_weight_arm64,
   Fld ''run_node'' rb_node_arm64,
   Fld ''group_node'' list_head_arm64,
   Fld ''on_rq'' c_int,
   Fld ''exec_start'' u64_arm64,
   Fld ''sum_exec_runtime'' u64_arm64,
   Fld ''vruntime'' u64_arm64,
   Fld ''prev_sum_exec_runtime'' u64_arm64,
   Fld ''nr_migrations'' u64_arm64,
   Bit [] 64 c_long,
   Bit [] 64 c_long,
   Bit [] 64 c_long,
   Fld ''avg'' sched_avg_arm64]"

definition sched_rt_entity_arm64 :: ctype where
  "sched_rt_entity_arm64 = CStruct ''sched_rt_entity'' [
   Fld ''run_list'' list_head_arm64,
   Fld ''timeout'' c_long,
   Fld ''watchdog_stamp'' c_long,
   Fld ''time_slice'' c_int,
   Fld ''on_rq'' c_short,
   Fld ''on_list'' c_short,
   Fld ''back'' (CPtr ''sched_rt_entity'')]"

definition k__s64_arm64 :: ctype where
  "k__s64_arm64 = c_long"

definition s64_arm64 :: ctype where
  "s64_arm64 = k__s64_arm64"

definition ktime_t_arm64 :: ctype where
  "ktime_t_arm64 = s64_arm64"

definition timerqueue_node_arm64 :: ctype where
  "timerqueue_node_arm64 = CStruct ''timerqueue_node'' [
   Fld ''node'' rb_node_arm64,
   Fld ''expires'' ktime_t_arm64]"

definition k__u8_arm64 :: ctype where
  "k__u8_arm64 = c_char"

definition u8_arm64 :: ctype where
  "u8_arm64 = k__u8_arm64"

definition hrtimer_arm64 :: ctype where
  "hrtimer_arm64 = CStruct ''hrtimer'' [
   Fld ''node'' timerqueue_node_arm64,
   Fld ''_softexpires'' ktime_t_arm64,
   Fld ''function'' c_ptr,
   Fld ''base'' (CPtr ''hrtimer_clock_base''),
   Fld ''state'' u8_arm64,
   Fld ''is_rel'' u8_arm64,
   Fld ''is_soft'' u8_arm64,
   Fld ''is_hard'' u8_arm64]"

definition sched_dl_entity_arm64 :: ctype where
  "sched_dl_entity_arm64 = CStruct ''sched_dl_entity'' [
   Fld ''rb_node'' rb_node_arm64,
   Fld ''dl_runtime'' u64_arm64,
   Fld ''dl_deadline'' u64_arm64,
   Fld ''dl_period'' u64_arm64,
   Fld ''dl_bw'' u64_arm64,
   Fld ''dl_density'' u64_arm64,
   Fld ''runtime'' s64_arm64,
   Fld ''deadline'' u64_arm64,
   Fld ''flags'' c_int,
   Bit ''dl_throttled'' 1 c_int,
   Bit ''dl_yielded'' 1 c_int,
   Bit ''dl_non_contending'' 1 c_int,
   Bit ''dl_overrun'' 1 c_int,
   Fld ''dl_timer'' hrtimer_arm64,
   Fld ''inactive_timer'' hrtimer_arm64]"

definition sched_statistics_arm64 :: ctype where
  "sched_statistics_arm64 = CStruct ''sched_statistics'' []"

definition cpumask_arm64 :: ctype where
  "cpumask_arm64 = CStruct ''cpumask'' [
   Fld ''bits'' (CArr c_long 4)]"

definition cpumask_t_arm64 :: ctype where
  "cpumask_t_arm64 = cpumask_arm64"

definition rcu_special_arm64 :: ctype where
  "rcu_special_arm64 = CUnion ''rcu_special'' [
   Fld ''b'' (CStruct [] [
     Fld ''blocked'' u8_arm64,
     Fld ''need_qs'' u8_arm64,
     Fld ''exp_hint'' u8_arm64,
     Fld ''need_mb'' u8_arm64]),
   Fld ''s'' u32_arm64]"

definition sched_info_arm64 :: ctype where
  "sched_info_arm64 = CStruct ''sched_info'' []"

definition plist_node_arm64 :: ctype where
  "plist_node_arm64 = CStruct ''plist_node'' [
   Fld ''prio'' c_int,
   Fld ''prio_list'' list_head_arm64,
   Fld ''node_list'' list_head_arm64]"

definition vmacache_arm64 :: ctype where
  "vmacache_arm64 = CStruct ''vmacache'' [
   Fld ''seqnum'' u64_arm64,
   Fld ''vmas'' (CArr (CPtr ''vm_area_struct'') 4)]"

definition task_rss_stat_arm64 :: ctype where
  "task_rss_stat_arm64 = CStruct ''task_rss_stat'' [
   Fld ''events'' c_int,
   Fld ''count'' (CArr c_int 4)]"

definition k__kernel_clockid_t_arm64 :: ctype where
  "k__kernel_clockid_t_arm64 = c_int"

definition clockid_t_arm64 :: ctype where
  "clockid_t_arm64 = k__kernel_clockid_t_arm64"

definition restart_block_arm64 :: ctype where
  "restart_block_arm64 = CStruct ''restart_block'' [
   Fld ''arch_data'' c_long,
   Fld ''fn'' c_ptr,
   Fld [] (CUnion [] [
     Fld ''futex'' (CStruct [] [
     Fld ''uaddr'' c_ptr,
     Fld ''val'' u32_arm64,
     Fld ''flags'' u32_arm64,
     Fld ''bitset'' u32_arm64,
     Fld ''time'' u64_arm64,
     Fld ''uaddr2'' c_ptr]),
     Fld ''nanosleep'' (CStruct [] [
     Fld ''clockid'' clockid_t_arm64,
     Fld ''type'' c_int,
     Fld [] (CUnion [] [
     Fld ''rmtp'' (CPtr ''__kernel_timespec''),
     Fld ''compat_rmtp'' (CPtr ''old_timespec32'')]),
     Fld ''expires'' u64_arm64]),
     Fld ''poll'' (CStruct [] [
     Fld ''ufds'' (CPtr ''pollfd''),
     Fld ''nfds'' c_int,
     Fld ''has_timeout'' c_int,
     Fld ''tv_sec'' c_long,
     Fld ''tv_nsec'' c_long])])]"

definition k__kernel_pid_t_arm64 :: ctype where
  "k__kernel_pid_t_arm64 = c_int"

definition pid_t_arm64 :: ctype where
  "pid_t_arm64 = k__kernel_pid_t_arm64"

definition hlist_node_arm64 :: ctype where
  "hlist_node_arm64 = CStruct ''hlist_node'' [
   Fld ''next'' (CPtr ''hlist_node''),
   Fld ''pprev'' (CPtr ''hlist_node'')]"

definition qspinlock_arm64 :: ctype where
  "qspinlock_arm64 = CStruct ''qspinlock'' [
   Fld [] (CUnion [] [
     Fld ''val'' atomic_t_arm64,
     Fld [] (CStruct [] [
     Fld ''locked'' u8_arm64,
     Fld ''pending'' u8_arm64]),
     Fld [] (CStruct [] [
     Fld ''locked_pending'' u16_arm64,
     Fld ''tail'' u16_arm64])])]"

definition arch_spinlock_t_arm64 :: ctype where
  "arch_spinlock_t_arm64 = qspinlock_arm64"

definition raw_spinlock_arm64 :: ctype where
  "raw_spinlock_arm64 = CStruct ''raw_spinlock'' [
   Fld ''raw_lock'' arch_spinlock_t_arm64]"

definition raw_spinlock_t_arm64 :: ctype where
  "raw_spinlock_t_arm64 = raw_spinlock_arm64"

definition prev_cputime_arm64 :: ctype where
  "prev_cputime_arm64 = CStruct ''prev_cputime'' [
   Fld ''utime'' u64_arm64,
   Fld ''stime'' u64_arm64,
   Fld ''lock'' raw_spinlock_t_arm64]"

definition posix_cputimers_arm64 :: ctype where
  "posix_cputimers_arm64 = CStruct ''posix_cputimers'' []"

definition sigset_t_arm64 :: ctype where
  "sigset_t_arm64 = CStruct ''sigset_t'' [
   Fld ''sig'' (CArr c_long 1)]"

definition sigpending_arm64 :: ctype where
  "sigpending_arm64 = CStruct ''sigpending'' [
   Fld ''list'' list_head_arm64,
   Fld ''signal'' sigset_t_arm64]"

definition k__kernel_ulong_t_arm64 :: ctype where
  "k__kernel_ulong_t_arm64 = c_long"

definition k__kernel_size_t_arm64 :: ctype where
  "k__kernel_size_t_arm64 = k__kernel_ulong_t_arm64"

definition size_t_arm64 :: ctype where
  "size_t_arm64 = k__kernel_size_t_arm64"

definition seccomp_arm64 :: ctype where
  "seccomp_arm64 = CStruct ''seccomp'' []"

definition syscall_user_dispatch_arm64 :: ctype where
  "syscall_user_dispatch_arm64 = CStruct ''syscall_user_dispatch'' []"

definition spinlock_arm64 :: ctype where
  "spinlock_arm64 = CStruct ''spinlock'' [
   Fld [] (CUnion [] [
     Fld ''rlock'' raw_spinlock_arm64])]"

definition spinlock_t_arm64 :: ctype where
  "spinlock_t_arm64 = spinlock_arm64"

definition wake_q_node_arm64 :: ctype where
  "wake_q_node_arm64 = CStruct ''wake_q_node'' [
   Fld ''next'' (CPtr ''wake_q_node'')]"

definition task_io_accounting_arm64 :: ctype where
  "task_io_accounting_arm64 = CStruct ''task_io_accounting'' []"

definition atomic64_t_arm64 :: ctype where
  "atomic64_t_arm64 = CStruct ''atomic64_t'' [
   Fld ''counter'' s64_arm64]"

definition atomic_long_t_arm64 :: ctype where
  "atomic_long_t_arm64 = atomic64_t_arm64"

definition optimistic_spin_queue_arm64 :: ctype where
  "optimistic_spin_queue_arm64 = CStruct ''optimistic_spin_queue'' [
   Fld ''tail'' atomic_t_arm64]"

definition mutex_arm64 :: ctype where
  "mutex_arm64 = CStruct ''mutex'' [
   Fld ''owner'' atomic_long_t_arm64,
   Fld ''wait_lock'' raw_spinlock_t_arm64,
   Fld ''osq'' optimistic_spin_queue_arm64,
   Fld ''wait_list'' list_head_arm64]"

definition tlbflush_unmap_batch_arm64 :: ctype where
  "tlbflush_unmap_batch_arm64 = CStruct ''tlbflush_unmap_batch'' []"

definition callback_head_arm64 :: ctype where
  "callback_head_arm64 = CStruct ''callback_head'' [
   Fld ''next'' (CPtr ''callback_head''),
   Fld ''func'' c_ptr]"

definition page_frag_arm64 :: ctype where
  "page_frag_arm64 = CStruct ''page_frag'' [
   Fld ''page'' (CPtr ''page''),
   Fld ''offset'' k__u32_arm64,
   Fld ''size'' k__u32_arm64]"

definition kmap_ctrl_arm64 :: ctype where
  "kmap_ctrl_arm64 = CStruct ''kmap_ctrl'' []"

definition timer_list_arm64 :: ctype where
  "timer_list_arm64 = CStruct ''timer_list'' [
   Fld ''entry'' hlist_node_arm64,
   Fld ''expires'' c_long,
   Fld ''function'' c_ptr,
   Fld ''flags'' u32_arm64]"

definition llist_head_arm64 :: ctype where
  "llist_head_arm64 = CStruct ''llist_head'' [
   Fld ''first'' (CPtr ''llist_node'')]"

definition cpu_context_arm64 :: ctype where
  "cpu_context_arm64 = CStruct ''cpu_context'' [
   Fld ''x19'' c_long,
   Fld ''x20'' c_long,
   Fld ''x21'' c_long,
   Fld ''x22'' c_long,
   Fld ''x23'' c_long,
   Fld ''x24'' c_long,
   Fld ''x25'' c_long,
   Fld ''x26'' c_long,
   Fld ''x27'' c_long,
   Fld ''x28'' c_long,
   Fld ''fp'' c_long,
   Fld ''sp'' c_long,
   Fld ''pc'' c_long]"

definition user_fpsimd_state_arm64 :: ctype where
  "user_fpsimd_state_arm64 = CStruct ''user_fpsimd_state'' [
   Fld ''vregs'' (CArr c_int128 32),
   Fld ''fpsr'' k__u32_arm64,
   Fld ''fpcr'' k__u32_arm64,
   Fld ''__reserved'' (CArr k__u32_arm64 2)]"

definition debug_info_arm64 :: ctype where
  "debug_info_arm64 = CStruct ''debug_info'' [
   Fld ''suspended_step'' c_int,
   Fld ''bps_disabled'' c_int,
   Fld ''wps_disabled'' c_int,
   Fld ''hbp_break'' (CArr (CPtr ''perf_event'') 16),
   Fld ''hbp_watch'' (CArr (CPtr ''perf_event'') 16)]"

definition thread_struct_arm64 :: ctype where
  "thread_struct_arm64 = CStruct ''thread_struct'' [
   Fld ''cpu_context'' cpu_context_arm64,
   Bit [] 64 c_long,
   Fld ''uw'' (CStruct [] [
     Fld ''tp_value'' c_long,
     Fld ''tp2_value'' c_long,
     Fld ''fpsimd_state'' user_fpsimd_state_arm64]),
   Fld ''fpsimd_cpu'' c_int,
   Fld ''sve_state'' c_ptr,
   Fld ''za_state'' c_ptr,
   Fld ''vl'' (CArr c_int 2),
   Fld ''vl_onexec'' (CArr c_int 2),
   Fld ''fault_address'' c_long,
   Fld ''fault_code'' c_long,
   Fld ''debug'' debug_info_arm64,
   Fld ''sctlr_user'' u64_arm64,
   Fld ''svcr'' u64_arm64,
   Fld ''tpidr2_el0'' u64_arm64]"

definition task_struct_members1_arm64 :: "cfield list" where
  "task_struct_members1_arm64 = [
   Fld ''thread_info'' thread_info_arm64,
   Fld ''__state'' c_int,
   Fld ''stack'' c_ptr,
   Fld ''usage'' refcount_t_arm64,
   Fld ''flags'' c_int,
   Fld ''ptrace'' c_int,
   Fld ''on_cpu'' c_int,
   Fld ''wake_entry'' k__call_single_node_arm64,
   Fld ''wakee_flips'' c_int,
   Fld ''wakee_flip_decay_ts'' c_long,
   Fld ''last_wakee'' (CPtr ''task_struct''),
   Fld ''recent_used_cpu'' c_int,
   Fld ''wake_cpu'' c_int,
   Fld ''on_rq'' c_int,
   Fld ''prio'' c_int,
   Fld ''static_prio'' c_int,
   Fld ''normal_prio'' c_int,
   Fld ''rt_priority'' c_int,
   Fld ''se'' sched_entity_arm64,
   Fld ''rt'' sched_rt_entity_arm64,
   Fld ''dl'' sched_dl_entity_arm64,
   Fld ''sched_class'' (CPtr ''sched_class''),
   Bit [] 64 c_long,
   Bit [] 64 c_long,
   Bit [] 64 c_long,
   Bit [] 64 c_long,
   Bit [] 64 c_long,
   Bit [] 64 c_long,
   Fld ''stats'' sched_statistics_arm64,
   Fld ''policy'' c_int,
   Fld ''nr_cpus_allowed'' c_int,
   Fld ''cpus_ptr'' c_ptr,
   Fld ''user_cpus_ptr'' c_ptr,
   Fld ''cpus_mask'' cpumask_t_arm64,
   Fld ''migration_pending'' c_ptr,
   Fld ''migration_disabled'' c_short,
   Fld ''migration_flags'' c_short,
   Fld ''trc_reader_nesting'' c_int,
   Fld ''trc_ipi_to_cpu'' c_int,
   Fld ''trc_reader_special'' rcu_special_arm64,
   Fld ''trc_holdout_list'' list_head_arm64,
   Fld ''trc_blkd_node'' list_head_arm64,
   Fld ''trc_blkd_cpu'' c_int,
   Fld ''sched_info'' sched_info_arm64,
   Fld ''tasks'' list_head_arm64,
   Fld ''pushable_tasks'' plist_node_arm64,
   Fld ''pushable_dl_tasks'' rb_node_arm64,
   Fld ''mm'' (CPtr ''mm_struct''),
   Fld ''active_mm'' (CPtr ''mm_struct''),
   Fld ''vmacache'' vmacache_arm64,
   Fld ''rss_stat'' task_rss_stat_arm64,
   Fld ''exit_state'' c_int,
   Fld ''exit_code'' c_int,
   Fld ''exit_signal'' c_int,
   Fld ''pdeath_signal'' c_int,
   Fld ''jobctl'' c_long,
   Fld ''personality'' c_int,
   Bit ''sched_reset_on_fork'' 1 c_int,
   Bit ''sched_contributes_to_load'' 1 c_int,
   Bit ''sched_migrated'' 1 c_int,
   Bit [] 29 c_int,
   Bit ''sched_remote_wakeup'' 1 c_int,
   Bit ''in_execve'' 1 c_int,
   Bit ''in_iowait'' 1 c_int,
   Fld ''atomic_flags'' c_long,
   Fld ''restart_block'' restart_block_arm64,
   Fld ''pid'' pid_t_arm64,
   Fld ''tgid'' pid_t_arm64,
   Fld ''real_parent'' (CPtr ''task_struct''),
   Fld ''parent'' (CPtr ''task_struct''),
   Fld ''children'' list_head_arm64,
   Fld ''sibling'' list_head_arm64,
   Fld ''group_leader'' (CPtr ''task_struct''),
   Fld ''ptraced'' list_head_arm64,
   Fld ''ptrace_entry'' list_head_arm64,
   Fld ''thread_pid'' (CPtr ''pid''),
   Fld ''pid_links'' (CArr hlist_node_arm64 4),
   Fld ''thread_group'' list_head_arm64,
   Fld ''thread_node'' list_head_arm64,
   Fld ''vfork_done'' (CPtr ''completion''),
   Fld ''set_child_tid'' c_ptr,
   Fld ''clear_child_tid'' c_ptr,
   Fld ''worker_private'' c_ptr,
   Fld ''utime'' u64_arm64,
   Fld ''stime'' u64_arm64,
   Fld ''gtime'' u64_arm64,
   Fld ''prev_cputime'' prev_cputime_arm64,
   Fld ''nvcsw'' c_long,
   Fld ''nivcsw'' c_long,
   Fld ''start_time'' u64_arm64,
   Fld ''start_boottime'' u64_arm64,
   Fld ''min_flt'' c_long,
   Fld ''maj_flt'' c_long,
   Fld ''posix_cputimers'' posix_cputimers_arm64,
   Fld ''ptracer_cred'' (CPtr ''cred''),
   Fld ''real_cred'' (CPtr ''cred''),
   Fld ''cred'' (CPtr ''cred''),
   Fld ''comm'' (CArr c_char 16),
   Fld ''nameidata'' (CPtr ''nameidata''),
   Fld ''fs'' (CPtr ''fs_struct''),
   Fld ''files'' (CPtr ''files_struct''),
   Fld ''nsproxy'' (CPtr ''nsproxy''),
   Fld ''signal'' (CPtr ''signal_struct''),
   Fld ''sighand'' (CPtr ''sighand_struct''),
   Fld ''blocked'' sigset_t_arm64,
   Fld ''real_blocked'' sigset_t_arm64,
   Fld ''saved_sigmask'' sigset_t_arm64,
   Fld ''pending'' sigpending_arm64,
   Fld ''sas_ss_sp'' c_long,
   Fld ''sas_ss_size'' size_t_arm64,
   Fld ''sas_ss_flags'' c_int,
   Fld ''task_works'' (CPtr ''callback_head''),
   Fld ''seccomp'' seccomp_arm64,
   Fld ''syscall_dispatch'' syscall_user_dispatch_arm64,
   Fld ''parent_exec_id'' u64_arm64,
   Fld ''self_exec_id'' u64_arm64,
   Fld ''alloc_lock'' spinlock_t_arm64,
   Fld ''pi_lock'' raw_spinlock_t_arm64,
   Fld ''wake_q'' wake_q_node_arm64,
   Fld ''journal_info'' c_ptr,
   Fld ''bio_list'' (CPtr ''bio_list''),
   Fld ''plug'' (CPtr ''blk_plug''),
   Fld ''reclaim_state'' (CPtr ''reclaim_state''),
   Fld ''backing_dev_info'' (CPtr ''backing_dev_info''),
   Fld ''io_context'' (CPtr ''io_context''),
   Fld ''ptrace_message'' c_long,
   Fld ''last_siginfo'' c_ptr,
   Fld ''ioac'' task_io_accounting_arm64,
   Fld ''perf_event_ctxp'' (CArr (CPtr ''perf_event_context'') 2),
   Fld ''perf_event_mutex'' mutex_arm64,
   Fld ''perf_event_list'' list_head_arm64,
   Fld ''tlb_ubc'' tlbflush_unmap_batch_arm64,
   Fld [] (CUnion [] [
     Fld ''rcu_users'' refcount_t_arm64,
     Fld ''rcu'' callback_head_arm64]),
   Fld ''splice_pipe'' (CPtr ''pipe_inode_info''),
   Fld ''task_frag'' page_frag_arm64,
   Fld ''nr_dirtied'' c_int]"

definition task_struct_members2_arm64 :: "cfield list" where
  "task_struct_members2_arm64 = [
   Fld ''nr_dirtied_pause'' c_int,
   Fld ''dirty_paused_when'' c_long,
   Fld ''timer_slack_ns'' u64_arm64,
   Fld ''default_timer_slack_ns'' u64_arm64,
   Fld ''curr_ret_stack'' c_int,
   Fld ''curr_ret_depth'' c_int,
   Fld ''ret_stack'' (CPtr ''ftrace_ret_stack''),
   Fld ''ftrace_timestamp'' c_long,
   Fld ''trace_overrun'' atomic_t_arm64,
   Fld ''tracing_graph_pause'' atomic_t_arm64,
   Fld ''trace'' c_long,
   Fld ''trace_recursion'' c_long,
   Fld ''utask'' (CPtr ''uprobe_task''),
   Fld ''kmap_ctrl'' kmap_ctrl_arm64,
   Fld ''pagefault_disabled'' c_int,
   Fld ''oom_reaper_list'' (CPtr ''task_struct''),
   Fld ''oom_reaper_timer'' timer_list_arm64,
   Fld ''stack_refcount'' refcount_t_arm64,
   Fld ''bpf_storage'' (CPtr ''bpf_local_storage''),
   Fld ''bpf_ctx'' (CPtr ''bpf_run_ctx''),
   Fld ''kretprobe_instances'' llist_head_arm64,
   Bit [] 64 c_long,
   Fld ''thread'' thread_struct_arm64,
   Bit [] 64 c_long,
   Bit [] 64 c_long,
   Bit [] 64 c_long,
   Bit [] 64 c_long]"

definition task_struct_arm64 :: ctype where
  "task_struct_arm64 = CStruct ''task_struct'' (task_struct_members1_arm64 @ task_struct_members2_arm64)"

definition blk_opf_t_arm64 :: ctype where
  "blk_opf_t_arm64 = k__u32_arm64"

definition blk_status_t_arm64 :: ctype where
  "blk_status_t_arm64 = u8_arm64"

definition sector_t_arm64 :: ctype where
  "sector_t_arm64 = u64_arm64"

definition bvec_iter_arm64 :: ctype where
  "bvec_iter_arm64 = CPacked ''bvec_iter'' [
   Fld ''bi_sector'' sector_t_arm64,
   Fld ''bi_size'' c_int,
   Fld ''bi_idx'' c_int,
   Fld ''bi_bvec_done'' c_int]"

definition blk_qc_t_arm64 :: ctype where
  "blk_qc_t_arm64 = c_int"

definition bio_vec_arm64 :: ctype where
  "bio_vec_arm64 = CStruct ''bio_vec'' [
   Fld ''bv_page'' (CPtr ''page''),
   Fld ''bv_len'' c_int,
   Fld ''bv_offset'' c_int]"

definition bio_arm64 :: ctype where
  "bio_arm64 = CStruct ''bio'' [
   Fld ''bi_next'' (CPtr ''bio''),
   Fld ''bi_bdev'' (CPtr ''block_device''),
   Fld ''bi_opf'' blk_opf_t_arm64,
   Fld ''bi_flags'' c_short,
   Fld ''bi_ioprio'' c_short,
   Fld ''bi_status'' blk_status_t_arm64,
   Fld ''__bi_remaining'' atomic_t_arm64,
   Fld ''bi_iter'' bvec_iter_arm64,
   Fld ''bi_cookie'' blk_qc_t_arm64,
   Fld ''bi_end_io'' c_ptr,
   Fld ''bi_private'' c_ptr,
   Fld [] (CUnion [] []),
   Fld ''bi_vcnt'' c_short,
   Fld ''bi_max_vecs'' c_short,
   Fld ''__bi_cnt'' atomic_t_arm64,
   Fld ''bi_io_vec'' (CPtr ''bio_vec''),
   Fld ''bi_pool'' (CPtr ''bio_set''),
   Fld ''bi_inline_vecs'' (CArr bio_vec_arm64 0)]"

definition bool_arm64 :: ctype where
  "bool_arm64 = c_bool"

definition k__kernel_dev_t_arm64 :: ctype where
  "k__kernel_dev_t_arm64 = u32_arm64"

definition dev_t_arm64 :: ctype where
  "dev_t_arm64 = k__kernel_dev_t_arm64"

definition kref_arm64 :: ctype where
  "kref_arm64 = CStruct ''kref'' [
   Fld ''refcount'' refcount_t_arm64]"

definition kobject_arm64 :: ctype where
  "kobject_arm64 = CStruct ''kobject'' [
   Fld ''name'' c_ptr,
   Fld ''entry'' list_head_arm64,
   Fld ''parent'' (CPtr ''kobject''),
   Fld ''kset'' (CPtr ''kset''),
   Fld ''ktype'' (CPtr ''kobj_type''),
   Fld ''sd'' (CPtr ''kernfs_node''),
   Fld ''kref'' kref_arm64,
   Bit ''state_initialized'' 1 c_int,
   Bit ''state_in_sysfs'' 1 c_int,
   Bit ''state_add_uevent_sent'' 1 c_int,
   Bit ''state_remove_uevent_sent'' 1 c_int,
   Bit ''uevent_suppress'' 1 c_int]"

definition dev_links_info_arm64 :: ctype where
  "dev_links_info_arm64 = CStruct ''dev_links_info'' [
   Fld ''suppliers'' list_head_arm64,
   Fld ''consumers'' list_head_arm64,
   Fld ''defer_sync'' list_head_arm64,
   Fld ''status'' c_int]"

definition pm_message_arm64 :: ctype where
  "pm_message_arm64 = CStruct ''pm_message'' [
   Fld ''event'' c_int]"

definition pm_message_t_arm64 :: ctype where
  "pm_message_t_arm64 = pm_message_arm64"

definition dev_pm_info_arm64 :: ctype where
  "dev_pm_info_arm64 = CStruct ''dev_pm_info'' [
   Fld ''power_state'' pm_message_t_arm64,
   Bit ''can_wakeup'' 1 c_int,
   Bit ''async_suspend'' 1 c_int,
   Bit ''in_dpm_list'' 1 bool_arm64,
   Bit ''is_prepared'' 1 bool_arm64,
   Bit ''is_suspended'' 1 bool_arm64,
   Bit ''is_noirq_suspended'' 1 bool_arm64,
   Bit ''is_late_suspended'' 1 bool_arm64,
   Bit ''no_pm'' 1 bool_arm64,
   Bit ''early_init'' 1 bool_arm64,
   Bit ''direct_complete'' 1 bool_arm64,
   Fld ''driver_flags'' u32_arm64,
   Fld ''lock'' spinlock_t_arm64,
   Bit ''should_wakeup'' 1 c_int,
   Fld ''subsys_data'' (CPtr ''pm_subsys_data''),
   Fld ''set_latency_tolerance'' c_ptr,
   Fld ''qos'' (CPtr ''dev_pm_qos'')]"

definition dev_msi_info_arm64 :: ctype where
  "dev_msi_info_arm64 = CStruct ''dev_msi_info'' [
   Fld ''domain'' (CPtr ''irq_domain''),
   Fld ''data'' (CPtr ''msi_device_data'')]"

definition dev_archdata_arm64 :: ctype where
  "dev_archdata_arm64 = CStruct ''dev_archdata'' []"

definition device_arm64 :: ctype where
  "device_arm64 = CStruct ''device'' [
   Fld ''kobj'' kobject_arm64,
   Fld ''parent'' (CPtr ''device''),
   Fld ''p'' (CPtr ''device_private''),
   Fld ''init_name'' c_ptr,
   Fld ''type'' (CPtr ''device_type''),
   Fld ''bus'' (CPtr ''bus_type''),
   Fld ''driver'' (CPtr ''device_driver''),
   Fld ''platform_data'' c_ptr,
   Fld ''driver_data'' c_ptr,
   Fld ''mutex'' mutex_arm64,
   Fld ''links'' dev_links_info_arm64,
   Fld ''power'' dev_pm_info_arm64,
   Fld ''pm_domain'' (CPtr ''dev_pm_domain''),
   Fld ''msi'' dev_msi_info_arm64,
   Fld ''dma_mask'' c_ptr,
   Fld ''coherent_dma_mask'' u64_arm64,
   Fld ''bus_dma_limit'' u64_arm64,
   Fld ''dma_range_map'' (CPtr ''bus_dma_region''),
   Fld ''dma_parms'' (CPtr ''device_dma_parameters''),
   Fld ''dma_pools'' list_head_arm64,
   Fld ''dma_mem'' (CPtr ''dma_coherent_mem''),
   Fld ''dma_io_tlb_mem'' (CPtr ''io_tlb_mem''),
   Fld ''archdata'' dev_archdata_arm64,
   Fld ''of_node'' (CPtr ''device_node''),
   Fld ''fwnode'' (CPtr ''fwnode_handle''),
   Fld ''devt'' dev_t_arm64,
   Fld ''id'' u32_arm64,
   Fld ''devres_lock'' spinlock_t_arm64,
   Fld ''devres_head'' list_head_arm64,
   Fld ''class'' (CPtr ''class''),
   Fld ''groups'' (CPtr ''attribute_group''),
   Fld ''release'' c_ptr,
   Fld ''iommu_group'' (CPtr ''iommu_group''),
   Fld ''iommu'' (CPtr ''dev_iommu''),
   Fld ''physical_location'' (CPtr ''device_physical_location''),
   Fld ''removable'' c_int,
   Bit ''offline_disabled'' 1 bool_arm64,
   Bit ''offline'' 1 bool_arm64,
   Bit ''of_node_reused'' 1 bool_arm64,
   Bit ''state_synced'' 1 bool_arm64,
   Bit ''can_match'' 1 bool_arm64,
   Bit ''dma_coherent'' 1 bool_arm64]"

definition block_device_arm64 :: ctype where
  "block_device_arm64 = CStruct ''block_device'' [
   Fld ''bd_start_sect'' sector_t_arm64,
   Fld ''bd_nr_sectors'' sector_t_arm64,
   Fld ''bd_stats'' (CPtr ''disk_stats''),
   Fld ''bd_stamp'' c_long,
   Fld ''bd_read_only'' bool_arm64,
   Fld ''bd_dev'' dev_t_arm64,
   Fld ''bd_openers'' atomic_t_arm64,
   Fld ''bd_inode'' (CPtr ''inode''),
   Fld ''bd_super'' (CPtr ''super_block''),
   Fld ''bd_claiming'' c_ptr,
   Fld ''bd_device'' device_arm64,
   Fld ''bd_holder'' c_ptr,
   Fld ''bd_holders'' c_int,
   Fld ''bd_write_holder'' bool_arm64,
   Fld ''bd_holder_dir'' (CPtr ''kobject''),
   Fld ''bd_partno'' u8_arm64,
   Fld ''bd_size_lock'' spinlock_t_arm64,
   Fld ''bd_disk'' (CPtr ''gendisk''),
   Fld ''bd_queue'' (CPtr ''request_queue''),
   Fld ''bd_fsfreeze_count'' c_int,
   Fld ''bd_fsfreeze_mutex'' mutex_arm64,
   Fld ''bd_fsfreeze_sb'' (CPtr ''super_block''),
   Fld ''bd_meta_info'' (CPtr ''partition_meta_info'')]"

definition gfp_t_arm64 :: ctype where
  "gfp_t_arm64 = c_int"

definition xarray_arm64 :: ctype where
  "xarray_arm64 = CStruct ''xarray'' [
   Fld ''xa_lock'' spinlock_t_arm64,
   Fld ''xa_flags'' gfp_t_arm64,
   Fld ''xa_head'' c_ptr]"

definition wait_queue_head_arm64 :: ctype where
  "wait_queue_head_arm64 = CStruct ''wait_queue_head'' [
   Fld ''lock'' spinlock_t_arm64,
   Fld ''head'' list_head_arm64]"

definition wait_queue_head_t_arm64 :: ctype where
  "wait_queue_head_t_arm64 = wait_queue_head_arm64"

definition mempool_s_arm64 :: ctype where
  "mempool_s_arm64 = CStruct ''mempool_s'' [
   Fld ''lock'' spinlock_t_arm64,
   Fld ''min_nr'' c_int,
   Fld ''curr_nr'' c_int,
   Fld ''elements'' c_ptr,
   Fld ''pool_data'' c_ptr,
   Fld ''alloc'' c_ptr,
   Fld ''free'' c_ptr,
   Fld ''wait'' wait_queue_head_t_arm64]"

definition mempool_t_arm64 :: ctype where
  "mempool_t_arm64 = mempool_s_arm64"

definition bio_list_arm64 :: ctype where
  "bio_list_arm64 = CStruct ''bio_list'' [
   Fld ''head'' (CPtr ''bio''),
   Fld ''tail'' (CPtr ''bio'')]"

definition work_func_t_arm64 :: ctype where
  "work_func_t_arm64 = c_ptr"

definition work_struct_arm64 :: ctype where
  "work_struct_arm64 = CStruct ''work_struct'' [
   Fld ''data'' atomic_long_t_arm64,
   Fld ''entry'' list_head_arm64,
   Fld ''func'' work_func_t_arm64]"

definition bio_set_arm64 :: ctype where
  "bio_set_arm64 = CStruct ''bio_set'' [
   Fld ''bio_slab'' (CPtr ''kmem_cache''),
   Fld ''front_pad'' c_int,
   Fld ''cache'' (CPtr ''bio_alloc_cache''),
   Fld ''bio_pool'' mempool_t_arm64,
   Fld ''bvec_pool'' mempool_t_arm64,
   Fld ''back_pad'' c_int,
   Fld ''rescue_lock'' spinlock_t_arm64,
   Fld ''rescue_list'' bio_list_arm64,
   Fld ''rescue_work'' work_struct_arm64,
   Fld ''rescue_workqueue'' (CPtr ''workqueue_struct''),
   Fld ''cpuhp_dead'' hlist_node_arm64]"

definition lockdep_map_arm64 :: ctype where
  "lockdep_map_arm64 = CStruct ''lockdep_map'' []"

definition gendisk_arm64 :: ctype where
  "gendisk_arm64 = CStruct ''gendisk'' [
   Fld ''major'' c_int,
   Fld ''first_minor'' c_int,
   Fld ''minors'' c_int,
   Fld ''disk_name'' (CArr c_char 32),
   Fld ''events'' c_short,
   Fld ''event_flags'' c_short,
   Fld ''part_tbl'' xarray_arm64,
   Fld ''part0'' (CPtr ''block_device''),
   Fld ''fops'' (CPtr ''block_device_operations''),
   Fld ''queue'' (CPtr ''request_queue''),
   Fld ''private_data'' c_ptr,
   Fld ''bio_split'' bio_set_arm64,
   Fld ''flags'' c_int,
   Fld ''state'' c_long,
   Fld ''open_mutex'' mutex_arm64,
   Fld ''open_partitions'' c_int,
   Fld ''bdi'' (CPtr ''backing_dev_info''),
   Fld ''slave_dir'' (CPtr ''kobject''),
   Fld ''random'' (CPtr ''timer_rand_state''),
   Fld ''sync_io'' atomic_t_arm64,
   Fld ''ev'' (CPtr ''disk_events''),
   Fld ''node_id'' c_int,
   Fld ''bb'' (CPtr ''badblocks''),
   Fld ''lockdep_map'' lockdep_map_arm64,
   Fld ''diskseq'' u64_arm64,
   Fld ''ia_ranges'' (CPtr ''blk_independent_access_ranges'')]"

definition percpu_ref_arm64 :: ctype where
  "percpu_ref_arm64 = CStruct ''percpu_ref'' [
   Fld ''percpu_count_ptr'' c_long,
   Fld ''data'' (CPtr ''percpu_ref_data'')]"

definition queue_limits_arm64 :: ctype where
  "queue_limits_arm64 = CStruct ''queue_limits'' [
   Fld ''bounce'' c_int,
   Fld ''seg_boundary_mask'' c_long,
   Fld ''virt_boundary_mask'' c_long,
   Fld ''max_hw_sectors'' c_int,
   Fld ''max_dev_sectors'' c_int,
   Fld ''chunk_sectors'' c_int,
   Fld ''max_sectors'' c_int,
   Fld ''max_segment_size'' c_int,
   Fld ''physical_block_size'' c_int,
   Fld ''logical_block_size'' c_int,
   Fld ''alignment_offset'' c_int,
   Fld ''io_min'' c_int,
   Fld ''io_opt'' c_int,
   Fld ''max_discard_sectors'' c_int,
   Fld ''max_hw_discard_sectors'' c_int,
   Fld ''max_secure_erase_sectors'' c_int,
   Fld ''max_write_zeroes_sectors'' c_int,
   Fld ''max_zone_append_sectors'' c_int,
   Fld ''discard_granularity'' c_int,
   Fld ''discard_alignment'' c_int,
   Fld ''zone_write_granularity'' c_int,
   Fld ''max_segments'' c_short,
   Fld ''max_integrity_segments'' c_short,
   Fld ''max_discard_segments'' c_short,
   Fld ''misaligned'' c_char,
   Fld ''discard_misaligned'' c_char,
   Fld ''raid_partial_stripes_expensive'' c_char,
   Fld ''zoned'' c_int]"

definition delayed_work_arm64 :: ctype where
  "delayed_work_arm64 = CStruct ''delayed_work'' [
   Fld ''work'' work_struct_arm64,
   Fld ''timer'' timer_list_arm64,
   Fld ''wq'' (CPtr ''workqueue_struct''),
   Fld ''cpu'' c_int]"

definition swait_queue_head_arm64 :: ctype where
  "swait_queue_head_arm64 = CStruct ''swait_queue_head'' [
   Fld ''lock'' raw_spinlock_t_arm64,
   Fld ''task_list'' list_head_arm64]"

definition completion_arm64 :: ctype where
  "completion_arm64 = CStruct ''completion'' [
   Fld ''done'' c_int,
   Fld ''wait'' swait_queue_head_arm64]"

definition srcu_struct_arm64 :: ctype where
  "srcu_struct_arm64 = CStruct ''srcu_struct'' [
   Fld ''node'' (CPtr ''srcu_node''),
   Fld ''level'' (CArr (CPtr ''srcu_node'') 3),
   Fld ''srcu_size_state'' c_int,
   Fld ''srcu_cb_mutex'' mutex_arm64,
   Fld ''lock'' spinlock_t_arm64,
   Fld ''srcu_gp_mutex'' mutex_arm64,
   Fld ''srcu_idx'' c_int,
   Fld ''srcu_gp_seq'' c_long,
   Fld ''srcu_gp_seq_needed'' c_long,
   Fld ''srcu_gp_seq_needed_exp'' c_long,
   Fld ''srcu_gp_start'' c_long,
   Fld ''srcu_last_gp_end'' c_long,
   Fld ''srcu_size_jiffies'' c_long,
   Fld ''srcu_n_lock_retries'' c_long,
   Fld ''srcu_n_exp_nodelay'' c_long,
   Fld ''sda'' (CPtr ''srcu_data''),
   Fld ''sda_is_static'' bool_arm64,
   Fld ''srcu_barrier_seq'' c_long,
   Fld ''srcu_barrier_mutex'' mutex_arm64,
   Fld ''srcu_barrier_completion'' completion_arm64,
   Fld ''srcu_barrier_cpu_cnt'' atomic_t_arm64,
   Fld ''reschedule_jiffies'' c_long,
   Fld ''reschedule_count'' c_long,
   Fld ''work'' delayed_work_arm64,
   Fld ''dep_map'' lockdep_map_arm64]"

definition request_queue_arm64 :: ctype where
  "request_queue_arm64 = CStruct ''request_queue'' [
   Fld ''last_merge'' (CPtr ''request''),
   Fld ''elevator'' (CPtr ''elevator_queue''),
   Fld ''q_usage_counter'' percpu_ref_arm64,
   Fld ''stats'' (CPtr ''blk_queue_stats''),
   Fld ''rq_qos'' (CPtr ''rq_qos''),
   Fld ''mq_ops'' (CPtr ''blk_mq_ops''),
   Fld ''queue_ctx'' (CPtr ''blk_mq_ctx''),
   Fld ''queue_depth'' c_int,
   Fld ''hctx_table'' xarray_arm64,
   Fld ''nr_hw_queues'' c_int,
   Fld ''queuedata'' c_ptr,
   Fld ''queue_flags'' c_long,
   Fld ''pm_only'' atomic_t_arm64,
   Fld ''id'' c_int,
   Fld ''queue_lock'' spinlock_t_arm64,
   Fld ''disk'' (CPtr ''gendisk''),
   Fld ''kobj'' kobject_arm64,
   Fld ''mq_kobj'' (CPtr ''kobject''),
   Fld ''nr_requests'' c_long,
   Fld ''dma_pad_mask'' c_int,
   Fld ''dma_alignment'' c_int,
   Fld ''rq_timeout'' c_int,
   Fld ''poll_nsec'' c_int,
   Fld ''poll_cb'' (CPtr ''blk_stat_callback''),
   Fld ''poll_stat'' (CPtr ''blk_rq_stat''),
   Fld ''timeout'' timer_list_arm64,
   Fld ''timeout_work'' work_struct_arm64,
   Fld ''nr_active_requests_shared_tags'' atomic_t_arm64,
   Fld ''sched_shared_tags'' (CPtr ''blk_mq_tags''),
   Fld ''icq_list'' list_head_arm64,
   Fld ''limits'' queue_limits_arm64,
   Fld ''required_elevator_features'' c_int,
   Fld ''node'' c_int,
   Fld ''fq'' (CPtr ''blk_flush_queue''),
   Fld ''requeue_list'' list_head_arm64,
   Fld ''requeue_lock'' spinlock_t_arm64,
   Fld ''requeue_work'' delayed_work_arm64,
   Fld ''sysfs_lock'' mutex_arm64,
   Fld ''sysfs_dir_lock'' mutex_arm64,
   Fld ''unused_hctx_list'' list_head_arm64,
   Fld ''unused_hctx_lock'' spinlock_t_arm64,
   Fld ''mq_freeze_depth'' c_int,
   Fld ''callback_head'' callback_head_arm64,
   Fld ''mq_freeze_wq'' wait_queue_head_t_arm64,
   Fld ''mq_freeze_lock'' mutex_arm64,
   Fld ''quiesce_depth'' c_int,
   Fld ''tag_set'' (CPtr ''blk_mq_tag_set''),
   Fld ''tag_set_list'' list_head_arm64,
   Fld ''debugfs_dir'' (CPtr ''dentry''),
   Fld ''sched_debugfs_dir'' (CPtr ''dentry''),
   Fld ''rqos_debugfs_dir'' (CPtr ''dentry''),
   Fld ''debugfs_mutex'' mutex_arm64,
   Fld ''mq_sysfs_init_done'' bool_arm64,
   Fld ''srcu'' (CArr srcu_struct_arm64 0)]"

definition trace_entry_arm64 :: ctype where
  "trace_entry_arm64 = CStruct ''trace_entry'' [
   Fld ''type'' c_short,
   Fld ''flags'' c_char,
   Fld ''preempt_count'' c_char,
   Fld ''pid'' c_int]"

definition trace_event_raw_sched_process_fork_arm64 :: ctype where
  "trace_event_raw_sched_process_fork_arm64 = CStruct ''trace_event_raw_sched_process_fork'' [
   Fld ''ent'' trace_entry_arm64,
   Fld ''parent_comm'' (CArr c_char 16),
   Fld ''parent_pid'' pid_t_arm64,
   Fld ''child_comm'' (CArr c_char 16),
   Fld ''child_pid'' pid_t_arm64,
   Fld ''__data'' (CArr c_char 0)]"

definition trace_event_raw_sched_process_exec_arm64 :: ctype where
  "trace_event_raw_sched_process_exec_arm64 = CStruct ''trace_event_raw_sched_process_exec'' [
   Fld ''ent'' trace_entry_arm64,
   Fld ''__data_loc_filename'' u32_arm64,
   Fld ''pid'' pid_t_arm64,
   Fld ''old_pid'' pid_t_arm64,
   Fld ''__data'' (CArr c_char 0)]"

definition btf_arm64 :: "(string \<times> ctype) list" where
  "btf_arm64 = [
     (''task_struct'', task_struct_arm64),
     (''bio'', bio_arm64),
     (''block_device'', block_device_arm64),
     (''gendisk'', gendisk_arm64),
     (''request_queue'', request_queue_arm64),
     (''trace_event_raw_sched_process_fork'', trace_event_raw_sched_process_fork_arm64),
     (''trace_event_raw_sched_process_exec'', trace_event_raw_sched_process_exec_arm64)]"

text \<open>The declarations, for evaluating a layout.\<close>

lemmas decls_arm64 =
  k__u64_arm64_def u64_arm64_def k__u32_arm64_def u32_arm64_def
  thread_info_arm64_def atomic_t_arm64_def refcount_struct_arm64_def refcount_t_arm64_def
  llist_node_arm64_def k__u16_arm64_def u16_arm64_def k__call_single_node_arm64_def
  load_weight_arm64_def rb_node_arm64_def list_head_arm64_def util_est_arm64_def
  sched_avg_arm64_def sched_entity_arm64_def sched_rt_entity_arm64_def k__s64_arm64_def
  s64_arm64_def ktime_t_arm64_def timerqueue_node_arm64_def k__u8_arm64_def
  u8_arm64_def hrtimer_arm64_def sched_dl_entity_arm64_def sched_statistics_arm64_def
  cpumask_arm64_def cpumask_t_arm64_def rcu_special_arm64_def sched_info_arm64_def
  plist_node_arm64_def vmacache_arm64_def task_rss_stat_arm64_def k__kernel_clockid_t_arm64_def
  clockid_t_arm64_def restart_block_arm64_def k__kernel_pid_t_arm64_def pid_t_arm64_def
  hlist_node_arm64_def qspinlock_arm64_def arch_spinlock_t_arm64_def raw_spinlock_arm64_def
  raw_spinlock_t_arm64_def prev_cputime_arm64_def posix_cputimers_arm64_def sigset_t_arm64_def
  sigpending_arm64_def k__kernel_ulong_t_arm64_def k__kernel_size_t_arm64_def size_t_arm64_def
  seccomp_arm64_def syscall_user_dispatch_arm64_def spinlock_arm64_def spinlock_t_arm64_def
  wake_q_node_arm64_def task_io_accounting_arm64_def atomic64_t_arm64_def atomic_long_t_arm64_def
  optimistic_spin_queue_arm64_def mutex_arm64_def tlbflush_unmap_batch_arm64_def callback_head_arm64_def
  page_frag_arm64_def kmap_ctrl_arm64_def timer_list_arm64_def llist_head_arm64_def
  cpu_context_arm64_def user_fpsimd_state_arm64_def debug_info_arm64_def thread_struct_arm64_def
  task_struct_members1_arm64_def task_struct_members2_arm64_def task_struct_arm64_def blk_opf_t_arm64_def
  blk_status_t_arm64_def sector_t_arm64_def bvec_iter_arm64_def blk_qc_t_arm64_def
  bio_vec_arm64_def bio_arm64_def bool_arm64_def k__kernel_dev_t_arm64_def
  dev_t_arm64_def kref_arm64_def kobject_arm64_def dev_links_info_arm64_def
  pm_message_arm64_def pm_message_t_arm64_def dev_pm_info_arm64_def dev_msi_info_arm64_def
  dev_archdata_arm64_def device_arm64_def block_device_arm64_def gfp_t_arm64_def
  xarray_arm64_def wait_queue_head_arm64_def wait_queue_head_t_arm64_def mempool_s_arm64_def
  mempool_t_arm64_def bio_list_arm64_def work_func_t_arm64_def work_struct_arm64_def
  bio_set_arm64_def lockdep_map_arm64_def gendisk_arm64_def percpu_ref_arm64_def
  queue_limits_arm64_def delayed_work_arm64_def swait_queue_head_arm64_def completion_arm64_def
  srcu_struct_arm64_def request_queue_arm64_def trace_entry_arm64_def trace_event_raw_sched_process_fork_arm64_def
  trace_event_raw_sched_process_exec_arm64_def

end
