(* ===== verification/Vmlinux_Riscv.thy ===== *)
theory Vmlinux_Riscv
  imports C_Layout
begin

text \<open>
  The part of \<^verbatim>\<open>crates/ananicy-bpf/bpf/riscv/vmlinux.h\<close> that the BPF program and
  \<^verbatim>\<open>core_fixes.bpf.h\<close> refer to: the tracepoint contexts, \<^verbatim>\<open>task_struct\<close>, \<^verbatim>\<open>bio\<close>,
  \<^verbatim>\<open>block_device\<close>, \<^verbatim>\<open>gendisk\<close>, \<^verbatim>\<open>request\<close> (where the header has it) and
  \<^verbatim>\<open>request_queue\<close>, with every type a member of theirs has by value. Each definition is
  the declaration of the same name, member for member; \<open>btf_riscv\<close> collects the
  structures a field access can start at or point to.
\<close>

definition thread_info_riscv :: ctype where
  "thread_info_riscv = CStruct ''thread_info'' [
   Fld ''flags'' c_long,
   Fld ''preempt_count'' c_int,
   Fld ''kernel_sp'' c_long,
   Fld ''user_sp'' c_long,
   Fld ''cpu'' c_int,
   Fld ''syscall_work'' c_long]"

definition atomic_t_riscv :: ctype where
  "atomic_t_riscv = CStruct ''atomic_t'' [
   Fld ''counter'' c_int]"

definition refcount_struct_riscv :: ctype where
  "refcount_struct_riscv = CStruct ''refcount_struct'' [
   Fld ''refs'' atomic_t_riscv]"

definition refcount_t_riscv :: ctype where
  "refcount_t_riscv = refcount_struct_riscv"

definition llist_node_riscv :: ctype where
  "llist_node_riscv = CStruct ''llist_node'' [
   Fld ''next'' (CPtr ''llist_node'')]"

definition k__u16_riscv :: ctype where
  "k__u16_riscv = c_short"

definition u16_riscv :: ctype where
  "u16_riscv = k__u16_riscv"

definition k__call_single_node_riscv :: ctype where
  "k__call_single_node_riscv = CStruct ''__call_single_node'' [
   Fld ''llist'' llist_node_riscv,
   Fld [] (CUnion [] [
     Fld ''u_flags'' c_int,
     Fld ''a_flags'' atomic_t_riscv]),
   Fld ''src'' u16_riscv,
   Fld ''dst'' u16_riscv]"

definition k__u32_riscv :: ctype where
  "k__u32_riscv = c_int"

definition u32_riscv :: ctype where
  "u32_riscv = k__u32_riscv"

definition load_weight_riscv :: ctype where
  "load_weight_riscv = CStruct ''load_weight'' [
   Fld ''weight'' c_long,
   Fld ''inv_weight'' u32_riscv]"

definition rb_node_riscv :: ctype where
  "rb_node_riscv = CStruct ''rb_node'' [
   Fld ''__rb_parent_color'' c_long,
   Fld ''rb_right'' (CPtr ''rb_node''),
   Fld ''rb_left'' (CPtr ''rb_node'')]"

definition k__u64_riscv :: ctype where
  "k__u64_riscv = c_long"

definition u64_riscv :: ctype where
  "u64_riscv = k__u64_riscv"

definition list_head_riscv :: ctype where
  "list_head_riscv = CStruct ''list_head'' [
   Fld ''next'' (CPtr ''list_head''),
   Fld ''prev'' (CPtr ''list_head'')]"

definition k__s64_riscv :: ctype where
  "k__s64_riscv = c_long"

definition s64_riscv :: ctype where
  "s64_riscv = k__s64_riscv"

definition sched_avg_riscv :: ctype where
  "sched_avg_riscv = CStruct ''sched_avg'' [
   Fld ''last_update_time'' u64_riscv,
   Fld ''load_sum'' u64_riscv,
   Fld ''runnable_sum'' u64_riscv,
   Fld ''util_sum'' u32_riscv,
   Fld ''period_contrib'' u32_riscv,
   Fld ''load_avg'' c_long,
   Fld ''runnable_avg'' c_long,
   Fld ''util_avg'' c_long,
   Fld ''util_est'' c_int]"

definition sched_entity_riscv :: ctype where
  "sched_entity_riscv = CStruct ''sched_entity'' [
   Fld ''load'' load_weight_riscv,
   Fld ''run_node'' rb_node_riscv,
   Fld ''deadline'' u64_riscv,
   Fld ''min_vruntime'' u64_riscv,
   Fld ''group_node'' list_head_riscv,
   Fld ''on_rq'' c_int,
   Fld ''exec_start'' u64_riscv,
   Fld ''sum_exec_runtime'' u64_riscv,
   Fld ''prev_sum_exec_runtime'' u64_riscv,
   Fld ''vruntime'' u64_riscv,
   Fld ''vlag'' s64_riscv,
   Fld ''slice'' u64_riscv,
   Fld ''nr_migrations'' u64_riscv,
   Fld ''depth'' c_int,
   Fld ''parent'' (CPtr ''sched_entity''),
   Fld ''cfs_rq'' (CPtr ''cfs_rq''),
   Fld ''my_q'' (CPtr ''cfs_rq''),
   Fld ''runnable_weight'' c_long,
   Bit [] 64 c_long,
   Bit [] 64 c_long,
   Fld ''avg'' sched_avg_riscv]"

definition sched_rt_entity_riscv :: ctype where
  "sched_rt_entity_riscv = CStruct ''sched_rt_entity'' [
   Fld ''run_list'' list_head_riscv,
   Fld ''timeout'' c_long,
   Fld ''watchdog_stamp'' c_long,
   Fld ''time_slice'' c_int,
   Fld ''on_rq'' c_short,
   Fld ''on_list'' c_short,
   Fld ''back'' (CPtr ''sched_rt_entity'')]"

definition ktime_t_riscv :: ctype where
  "ktime_t_riscv = s64_riscv"

definition timerqueue_node_riscv :: ctype where
  "timerqueue_node_riscv = CStruct ''timerqueue_node'' [
   Fld ''node'' rb_node_riscv,
   Fld ''expires'' ktime_t_riscv]"

definition k__u8_riscv :: ctype where
  "k__u8_riscv = c_char"

definition u8_riscv :: ctype where
  "u8_riscv = k__u8_riscv"

definition hrtimer_riscv :: ctype where
  "hrtimer_riscv = CStruct ''hrtimer'' [
   Fld ''node'' timerqueue_node_riscv,
   Fld ''_softexpires'' ktime_t_riscv,
   Fld ''function'' c_ptr,
   Fld ''base'' (CPtr ''hrtimer_clock_base''),
   Fld ''state'' u8_riscv,
   Fld ''is_rel'' u8_riscv,
   Fld ''is_soft'' u8_riscv,
   Fld ''is_hard'' u8_riscv]"

definition dl_server_has_tasks_f_riscv :: ctype where
  "dl_server_has_tasks_f_riscv = c_ptr"

definition dl_server_pick_f_riscv :: ctype where
  "dl_server_pick_f_riscv = c_ptr"

definition sched_dl_entity_riscv :: ctype where
  "sched_dl_entity_riscv = CStruct ''sched_dl_entity'' [
   Fld ''rb_node'' rb_node_riscv,
   Fld ''dl_runtime'' u64_riscv,
   Fld ''dl_deadline'' u64_riscv,
   Fld ''dl_period'' u64_riscv,
   Fld ''dl_bw'' u64_riscv,
   Fld ''dl_density'' u64_riscv,
   Fld ''runtime'' s64_riscv,
   Fld ''deadline'' u64_riscv,
   Fld ''flags'' c_int,
   Bit ''dl_throttled'' 1 c_int,
   Bit ''dl_yielded'' 1 c_int,
   Bit ''dl_non_contending'' 1 c_int,
   Bit ''dl_overrun'' 1 c_int,
   Bit ''dl_server'' 1 c_int,
   Fld ''dl_timer'' hrtimer_riscv,
   Fld ''inactive_timer'' hrtimer_riscv,
   Fld ''rq'' (CPtr ''rq''),
   Fld ''server_has_tasks'' dl_server_has_tasks_f_riscv,
   Fld ''server_pick'' dl_server_pick_f_riscv,
   Fld ''pi_se'' (CPtr ''sched_dl_entity'')]"

definition uclamp_se_riscv :: ctype where
  "uclamp_se_riscv = CStruct ''uclamp_se'' [
   Bit ''value'' 11 c_int,
   Bit ''bucket_id'' 3 c_int,
   Bit ''active'' 1 c_int,
   Bit ''user_defined'' 1 c_int]"

definition sched_statistics_riscv :: ctype where
  "sched_statistics_riscv = CStruct ''sched_statistics'' [
   Fld ''wait_start'' u64_riscv,
   Fld ''wait_max'' u64_riscv,
   Fld ''wait_count'' u64_riscv,
   Fld ''wait_sum'' u64_riscv,
   Fld ''iowait_count'' u64_riscv,
   Fld ''iowait_sum'' u64_riscv,
   Fld ''sleep_start'' u64_riscv,
   Fld ''sleep_max'' u64_riscv,
   Fld ''sum_sleep_runtime'' s64_riscv,
   Fld ''block_start'' u64_riscv,
   Fld ''block_max'' u64_riscv,
   Fld ''sum_block_runtime'' s64_riscv,
   Fld ''exec_max'' s64_riscv,
   Fld ''slice_max'' u64_riscv,
   Fld ''nr_migrations_cold'' u64_riscv,
   Fld ''nr_failed_migrations_affine'' u64_riscv,
   Fld ''nr_failed_migrations_running'' u64_riscv,
   Fld ''nr_failed_migrations_hot'' u64_riscv,
   Fld ''nr_forced_migrations'' u64_riscv,
   Fld ''nr_wakeups'' u64_riscv,
   Fld ''nr_wakeups_sync'' u64_riscv,
   Fld ''nr_wakeups_migrate'' u64_riscv,
   Fld ''nr_wakeups_local'' u64_riscv,
   Fld ''nr_wakeups_remote'' u64_riscv,
   Fld ''nr_wakeups_affine'' u64_riscv,
   Fld ''nr_wakeups_affine_attempts'' u64_riscv,
   Fld ''nr_wakeups_passive'' u64_riscv,
   Fld ''nr_wakeups_idle'' u64_riscv,
   Bit [] 64 c_long,
   Bit [] 64 c_long,
   Bit [] 64 c_long,
   Bit [] 64 c_long]"

definition hlist_head_riscv :: ctype where
  "hlist_head_riscv = CStruct ''hlist_head'' [
   Fld ''first'' (CPtr ''hlist_node'')]"

definition cpumask_riscv :: ctype where
  "cpumask_riscv = CStruct ''cpumask'' [
   Fld ''bits'' (CArr c_long 5)]"

definition cpumask_t_riscv :: ctype where
  "cpumask_t_riscv = cpumask_riscv"

definition rcu_special_riscv :: ctype where
  "rcu_special_riscv = CUnion ''rcu_special'' [
   Fld ''b'' (CStruct [] [
     Fld ''blocked'' u8_riscv,
     Fld ''need_qs'' u8_riscv,
     Fld ''exp_hint'' u8_riscv,
     Fld ''need_mb'' u8_riscv]),
   Fld ''s'' u32_riscv]"

definition sched_info_riscv :: ctype where
  "sched_info_riscv = CStruct ''sched_info'' [
   Fld ''pcount'' c_long,
   Fld ''run_delay'' c_long,
   Fld ''last_arrival'' c_long,
   Fld ''last_queued'' c_long]"

definition plist_node_riscv :: ctype where
  "plist_node_riscv = CStruct ''plist_node'' [
   Fld ''prio'' c_int,
   Fld ''prio_list'' list_head_riscv,
   Fld ''node_list'' list_head_riscv]"

definition k__kernel_clockid_t_riscv :: ctype where
  "k__kernel_clockid_t_riscv = c_int"

definition clockid_t_riscv :: ctype where
  "clockid_t_riscv = k__kernel_clockid_t_riscv"

definition restart_block_riscv :: ctype where
  "restart_block_riscv = CStruct ''restart_block'' [
   Fld ''arch_data'' c_long,
   Fld ''fn'' c_ptr,
   Fld [] (CUnion [] [
     Fld ''futex'' (CStruct [] [
     Fld ''uaddr'' c_ptr,
     Fld ''val'' u32_riscv,
     Fld ''flags'' u32_riscv,
     Fld ''bitset'' u32_riscv,
     Fld ''time'' u64_riscv,
     Fld ''uaddr2'' c_ptr]),
     Fld ''nanosleep'' (CStruct [] [
     Fld ''clockid'' clockid_t_riscv,
     Fld ''type'' c_int,
     Fld [] (CUnion [] [
     Fld ''rmtp'' (CPtr ''__kernel_timespec''),
     Fld ''compat_rmtp'' (CPtr ''old_timespec32'')]),
     Fld ''expires'' u64_riscv]),
     Fld ''poll'' (CStruct [] [
     Fld ''ufds'' (CPtr ''pollfd''),
     Fld ''nfds'' c_int,
     Fld ''has_timeout'' c_int,
     Fld ''tv_sec'' c_long,
     Fld ''tv_nsec'' c_long])])]"

definition k__kernel_pid_t_riscv :: ctype where
  "k__kernel_pid_t_riscv = c_int"

definition pid_t_riscv :: ctype where
  "pid_t_riscv = k__kernel_pid_t_riscv"

definition hlist_node_riscv :: ctype where
  "hlist_node_riscv = CStruct ''hlist_node'' [
   Fld ''next'' (CPtr ''hlist_node''),
   Fld ''pprev'' (CPtr ''hlist_node'')]"

definition arch_spinlock_t_riscv :: ctype where
  "arch_spinlock_t_riscv = atomic_t_riscv"

definition raw_spinlock_riscv :: ctype where
  "raw_spinlock_riscv = CStruct ''raw_spinlock'' [
   Fld ''raw_lock'' arch_spinlock_t_riscv]"

definition raw_spinlock_t_riscv :: ctype where
  "raw_spinlock_t_riscv = raw_spinlock_riscv"

definition prev_cputime_riscv :: ctype where
  "prev_cputime_riscv = CStruct ''prev_cputime'' [
   Fld ''utime'' u64_riscv,
   Fld ''stime'' u64_riscv,
   Fld ''lock'' raw_spinlock_t_riscv]"

definition seqcount_riscv :: ctype where
  "seqcount_riscv = CStruct ''seqcount'' [
   Fld ''sequence'' c_int]"

definition seqcount_t_riscv :: ctype where
  "seqcount_t_riscv = seqcount_riscv"

definition vtime_riscv :: ctype where
  "vtime_riscv = CStruct ''vtime'' [
   Fld ''seqcount'' seqcount_t_riscv,
   Fld ''starttime'' c_long,
   Fld ''state'' c_int,
   Fld ''cpu'' c_int,
   Fld ''utime'' u64_riscv,
   Fld ''stime'' u64_riscv,
   Fld ''gtime'' u64_riscv]"

definition rb_root_riscv :: ctype where
  "rb_root_riscv = CStruct ''rb_root'' [
   Fld ''rb_node'' (CPtr ''rb_node'')]"

definition rb_root_cached_riscv :: ctype where
  "rb_root_cached_riscv = CStruct ''rb_root_cached'' [
   Fld ''rb_root'' rb_root_riscv,
   Fld ''rb_leftmost'' (CPtr ''rb_node'')]"

definition timerqueue_head_riscv :: ctype where
  "timerqueue_head_riscv = CStruct ''timerqueue_head'' [
   Fld ''rb_root'' rb_root_cached_riscv]"

definition posix_cputimer_base_riscv :: ctype where
  "posix_cputimer_base_riscv = CStruct ''posix_cputimer_base'' [
   Fld ''nextevt'' u64_riscv,
   Fld ''tqhead'' timerqueue_head_riscv]"

definition posix_cputimers_riscv :: ctype where
  "posix_cputimers_riscv = CStruct ''posix_cputimers'' [
   Fld ''bases'' (CArr posix_cputimer_base_riscv 3),
   Fld ''timers_active'' c_int,
   Fld ''expiry_active'' c_int]"

definition callback_head_riscv :: ctype where
  "callback_head_riscv = CStruct ''callback_head'' [
   Fld ''next'' (CPtr ''callback_head''),
   Fld ''func'' c_ptr]"

definition atomic64_t_riscv :: ctype where
  "atomic64_t_riscv = CStruct ''atomic64_t'' [
   Fld ''counter'' s64_riscv]"

definition atomic_long_t_riscv :: ctype where
  "atomic_long_t_riscv = atomic64_t_riscv"

definition optimistic_spin_queue_riscv :: ctype where
  "optimistic_spin_queue_riscv = CStruct ''optimistic_spin_queue'' [
   Fld ''tail'' atomic_t_riscv]"

definition mutex_riscv :: ctype where
  "mutex_riscv = CStruct ''mutex'' [
   Fld ''owner'' atomic_long_t_riscv,
   Fld ''wait_lock'' raw_spinlock_t_riscv,
   Fld ''osq'' optimistic_spin_queue_riscv,
   Fld ''wait_list'' list_head_riscv]"

definition posix_cputimers_work_riscv :: ctype where
  "posix_cputimers_work_riscv = CStruct ''posix_cputimers_work'' [
   Fld ''work'' callback_head_riscv,
   Fld ''mutex'' mutex_riscv,
   Fld ''scheduled'' c_int]"

definition sysv_sem_riscv :: ctype where
  "sysv_sem_riscv = CStruct ''sysv_sem'' [
   Fld ''undo_list'' (CPtr ''sem_undo_list'')]"

definition sysv_shm_riscv :: ctype where
  "sysv_shm_riscv = CStruct ''sysv_shm'' [
   Fld ''shm_clist'' list_head_riscv]"

definition sigset_t_riscv :: ctype where
  "sigset_t_riscv = CStruct ''sigset_t'' [
   Fld ''sig'' (CArr c_long 1)]"

definition sigpending_riscv :: ctype where
  "sigpending_riscv = CStruct ''sigpending'' [
   Fld ''list'' list_head_riscv,
   Fld ''signal'' sigset_t_riscv]"

definition k__kernel_ulong_t_riscv :: ctype where
  "k__kernel_ulong_t_riscv = c_long"

definition k__kernel_size_t_riscv :: ctype where
  "k__kernel_size_t_riscv = k__kernel_ulong_t_riscv"

definition size_t_riscv :: ctype where
  "size_t_riscv = k__kernel_size_t_riscv"

definition k__kernel_uid32_t_riscv :: ctype where
  "k__kernel_uid32_t_riscv = c_int"

definition uid_t_riscv :: ctype where
  "uid_t_riscv = k__kernel_uid32_t_riscv"

definition kuid_t_riscv :: ctype where
  "kuid_t_riscv = CStruct ''kuid_t'' [
   Fld ''val'' uid_t_riscv]"

definition seccomp_riscv :: ctype where
  "seccomp_riscv = CStruct ''seccomp'' [
   Fld ''mode'' c_int,
   Fld ''filter_count'' atomic_t_riscv,
   Fld ''filter'' (CPtr ''seccomp_filter'')]"

definition bool_riscv :: ctype where
  "bool_riscv = c_bool"

definition syscall_user_dispatch_riscv :: ctype where
  "syscall_user_dispatch_riscv = CStruct ''syscall_user_dispatch'' [
   Fld ''selector'' c_ptr,
   Fld ''offset'' c_long,
   Fld ''len'' c_long,
   Fld ''on_dispatch'' bool_riscv]"

definition spinlock_riscv :: ctype where
  "spinlock_riscv = CStruct ''spinlock'' [
   Fld [] (CUnion [] [
     Fld ''rlock'' raw_spinlock_riscv])]"

definition spinlock_t_riscv :: ctype where
  "spinlock_t_riscv = spinlock_riscv"

definition wake_q_node_riscv :: ctype where
  "wake_q_node_riscv = CStruct ''wake_q_node'' [
   Fld ''next'' (CPtr ''wake_q_node'')]"

definition task_io_accounting_riscv :: ctype where
  "task_io_accounting_riscv = CStruct ''task_io_accounting'' [
   Fld ''rchar'' u64_riscv,
   Fld ''wchar'' u64_riscv,
   Fld ''syscr'' u64_riscv,
   Fld ''syscw'' u64_riscv,
   Fld ''read_bytes'' u64_riscv,
   Fld ''write_bytes'' u64_riscv,
   Fld ''cancelled_write_bytes'' u64_riscv]"

definition nodemask_t_riscv :: ctype where
  "nodemask_t_riscv = CStruct ''nodemask_t'' [
   Fld ''bits'' (CArr c_long 1)]"

definition seqcount_spinlock_riscv :: ctype where
  "seqcount_spinlock_riscv = CStruct ''seqcount_spinlock'' [
   Fld ''seqcount'' seqcount_t_riscv]"

definition seqcount_spinlock_t_riscv :: ctype where
  "seqcount_spinlock_t_riscv = seqcount_spinlock_riscv"

definition arch_tlbflush_unmap_batch_riscv :: ctype where
  "arch_tlbflush_unmap_batch_riscv = CStruct ''arch_tlbflush_unmap_batch'' [
   Fld ''cpumask'' cpumask_riscv]"

definition tlbflush_unmap_batch_riscv :: ctype where
  "tlbflush_unmap_batch_riscv = CStruct ''tlbflush_unmap_batch'' [
   Fld ''arch'' arch_tlbflush_unmap_batch_riscv,
   Fld ''flush_required'' bool_riscv,
   Fld ''writable'' bool_riscv]"

definition page_frag_riscv :: ctype where
  "page_frag_riscv = CStruct ''page_frag'' [
   Fld ''page'' (CPtr ''page''),
   Fld ''offset'' k__u32_riscv,
   Fld ''size'' k__u32_riscv]"

definition kmap_ctrl_riscv :: ctype where
  "kmap_ctrl_riscv = CStruct ''kmap_ctrl'' []"

definition timer_list_riscv :: ctype where
  "timer_list_riscv = CStruct ''timer_list'' [
   Fld ''entry'' hlist_node_riscv,
   Fld ''expires'' c_long,
   Fld ''function'' c_ptr,
   Fld ''flags'' u32_riscv]"

definition llist_head_riscv :: ctype where
  "llist_head_riscv = CStruct ''llist_head'' [
   Fld ''first'' (CPtr ''llist_node'')]"

definition k__riscv_d_ext_state_riscv :: ctype where
  "k__riscv_d_ext_state_riscv = CStruct ''__riscv_d_ext_state'' [
   Fld ''f'' (CArr k__u64_riscv 32),
   Fld ''fcsr'' k__u32_riscv]"

definition k__riscv_v_ext_state_riscv :: ctype where
  "k__riscv_v_ext_state_riscv = CStruct ''__riscv_v_ext_state'' [
   Fld ''vstart'' c_long,
   Fld ''vl'' c_long,
   Fld ''vtype'' c_long,
   Fld ''vcsr'' c_long,
   Fld ''vlenb'' c_long,
   Fld ''datap'' c_ptr]"

definition thread_struct_riscv :: ctype where
  "thread_struct_riscv = CStruct ''thread_struct'' [
   Fld ''ra'' c_long,
   Fld ''sp'' c_long,
   Fld ''s'' (CArr c_long 12),
   Fld ''fstate'' k__riscv_d_ext_state_riscv,
   Fld ''bad_cause'' c_long,
   Fld ''riscv_v_flags'' u32_riscv,
   Fld ''vstate_ctrl'' u32_riscv,
   Fld ''vstate'' k__riscv_v_ext_state_riscv,
   Fld ''align_ctl'' c_long,
   Fld ''kernel_vstate'' k__riscv_v_ext_state_riscv,
   Fld ''force_icache_flush'' bool_riscv,
   Fld ''prev_cpu'' c_int]"

definition task_struct_members1_riscv :: "cfield list" where
  "task_struct_members1_riscv = [
   Fld ''thread_info'' thread_info_riscv,
   Fld ''__state'' c_int,
   Fld ''saved_state'' c_int,
   Fld ''stack'' c_ptr,
   Fld ''usage'' refcount_t_riscv,
   Fld ''flags'' c_int,
   Fld ''ptrace'' c_int,
   Fld ''on_cpu'' c_int,
   Fld ''wake_entry'' k__call_single_node_riscv,
   Fld ''wakee_flips'' c_int,
   Fld ''wakee_flip_decay_ts'' c_long,
   Fld ''last_wakee'' (CPtr ''task_struct''),
   Fld ''recent_used_cpu'' c_int,
   Fld ''wake_cpu'' c_int,
   Fld ''on_rq'' c_int,
   Fld ''prio'' c_int,
   Fld ''static_prio'' c_int,
   Fld ''normal_prio'' c_int,
   Fld ''rt_priority'' c_int,
   Bit [] 64 c_long,
   Bit [] 64 c_long,
   Bit [] 64 c_long,
   Bit [] 64 c_long,
   Bit [] 64 c_long,
   Fld ''se'' sched_entity_riscv,
   Fld ''rt'' sched_rt_entity_riscv,
   Fld ''dl'' sched_dl_entity_riscv,
   Fld ''dl_server'' (CPtr ''sched_dl_entity''),
   Fld ''sched_class'' (CPtr ''sched_class''),
   Fld ''sched_task_group'' (CPtr ''task_group''),
   Fld ''uclamp_req'' (CArr uclamp_se_riscv 2),
   Fld ''uclamp'' (CArr uclamp_se_riscv 2),
   Bit [] 64 c_long,
   Bit [] 64 c_long,
   Bit [] 64 c_long,
   Bit [] 64 c_long,
   Bit [] 64 c_long,
   Bit [] 64 c_long,
   Fld ''stats'' sched_statistics_riscv,
   Fld ''preempt_notifiers'' hlist_head_riscv,
   Fld ''btrace_seq'' c_int,
   Fld ''policy'' c_int,
   Fld ''max_allowed_capacity'' c_long,
   Fld ''nr_cpus_allowed'' c_int,
   Fld ''cpus_ptr'' c_ptr,
   Fld ''user_cpus_ptr'' c_ptr,
   Fld ''cpus_mask'' cpumask_t_riscv,
   Fld ''migration_pending'' c_ptr,
   Fld ''migration_disabled'' c_short,
   Fld ''migration_flags'' c_short,
   Fld ''rcu_read_lock_nesting'' c_int,
   Fld ''rcu_read_unlock_special'' rcu_special_riscv,
   Fld ''rcu_node_entry'' list_head_riscv,
   Fld ''rcu_blocked_node'' (CPtr ''rcu_node''),
   Fld ''rcu_tasks_nvcsw'' c_long,
   Fld ''rcu_tasks_holdout'' u8_riscv,
   Fld ''rcu_tasks_idx'' u8_riscv,
   Fld ''rcu_tasks_idle_cpu'' c_int,
   Fld ''rcu_tasks_holdout_list'' list_head_riscv,
   Fld ''rcu_tasks_exit_cpu'' c_int,
   Fld ''rcu_tasks_exit_list'' list_head_riscv,
   Fld ''trc_reader_nesting'' c_int,
   Fld ''trc_ipi_to_cpu'' c_int,
   Fld ''trc_reader_special'' rcu_special_riscv,
   Fld ''trc_holdout_list'' list_head_riscv,
   Fld ''trc_blkd_node'' list_head_riscv,
   Fld ''trc_blkd_cpu'' c_int,
   Fld ''sched_info'' sched_info_riscv,
   Fld ''tasks'' list_head_riscv,
   Fld ''pushable_tasks'' plist_node_riscv,
   Fld ''pushable_dl_tasks'' rb_node_riscv,
   Fld ''mm'' (CPtr ''mm_struct''),
   Fld ''active_mm'' (CPtr ''mm_struct''),
   Fld ''faults_disabled_mapping'' (CPtr ''address_space''),
   Fld ''exit_state'' c_int,
   Fld ''exit_code'' c_int,
   Fld ''exit_signal'' c_int,
   Fld ''pdeath_signal'' c_int,
   Fld ''jobctl'' c_long,
   Fld ''personality'' c_int,
   Bit ''sched_reset_on_fork'' 1 c_int,
   Bit ''sched_contributes_to_load'' 1 c_int,
   Bit ''sched_migrated'' 1 c_int,
   Bit [] 29 c_long,
   Bit ''sched_remote_wakeup'' 1 c_int,
   Bit ''sched_rt_mutex'' 1 c_int,
   Bit ''in_execve'' 1 c_int,
   Bit ''in_iowait'' 1 c_int,
   Bit ''in_lru_fault'' 1 c_int,
   Bit ''no_cgroup_migration'' 1 c_int,
   Bit ''frozen'' 1 c_int,
   Bit ''use_memdelay'' 1 c_int,
   Bit ''in_memstall'' 1 c_int,
   Bit ''in_eventfd'' 1 c_int,
   Bit ''in_thrashing'' 1 c_int,
   Fld ''atomic_flags'' c_long,
   Fld ''restart_block'' restart_block_riscv,
   Fld ''pid'' pid_t_riscv,
   Fld ''tgid'' pid_t_riscv,
   Fld ''stack_canary'' c_long,
   Fld ''real_parent'' (CPtr ''task_struct''),
   Fld ''parent'' (CPtr ''task_struct''),
   Fld ''children'' list_head_riscv,
   Fld ''sibling'' list_head_riscv,
   Fld ''group_leader'' (CPtr ''task_struct''),
   Fld ''ptraced'' list_head_riscv,
   Fld ''ptrace_entry'' list_head_riscv,
   Fld ''thread_pid'' (CPtr ''pid''),
   Fld ''pid_links'' (CArr hlist_node_riscv 4),
   Fld ''thread_node'' list_head_riscv,
   Fld ''vfork_done'' (CPtr ''completion''),
   Fld ''set_child_tid'' c_ptr,
   Fld ''clear_child_tid'' c_ptr,
   Fld ''worker_private'' c_ptr,
   Fld ''utime'' u64_riscv,
   Fld ''stime'' u64_riscv,
   Fld ''gtime'' u64_riscv,
   Fld ''prev_cputime'' prev_cputime_riscv,
   Fld ''vtime'' vtime_riscv,
   Fld ''tick_dep_mask'' atomic_t_riscv,
   Fld ''nvcsw'' c_long,
   Fld ''nivcsw'' c_long,
   Fld ''start_time'' u64_riscv,
   Fld ''start_boottime'' u64_riscv,
   Fld ''min_flt'' c_long,
   Fld ''maj_flt'' c_long,
   Fld ''posix_cputimers'' posix_cputimers_riscv,
   Fld ''posix_cputimers_work'' posix_cputimers_work_riscv,
   Fld ''ptracer_cred'' (CPtr ''cred''),
   Fld ''real_cred'' (CPtr ''cred''),
   Fld ''cred'' (CPtr ''cred''),
   Fld ''cached_requested_key'' (CPtr ''key''),
   Fld ''comm'' (CArr c_char 16),
   Fld ''nameidata'' (CPtr ''nameidata''),
   Fld ''sysvsem'' sysv_sem_riscv,
   Fld ''sysvshm'' sysv_shm_riscv,
   Fld ''last_switch_count'' c_long,
   Fld ''last_switch_time'' c_long,
   Fld ''fs'' (CPtr ''fs_struct'')]"

definition task_struct_members2_riscv :: "cfield list" where
  "task_struct_members2_riscv = [
   Fld ''files'' (CPtr ''files_struct''),
   Fld ''io_uring'' (CPtr ''io_uring_task''),
   Fld ''nsproxy'' (CPtr ''nsproxy''),
   Fld ''signal'' (CPtr ''signal_struct''),
   Fld ''sighand'' (CPtr ''sighand_struct''),
   Fld ''blocked'' sigset_t_riscv,
   Fld ''real_blocked'' sigset_t_riscv,
   Fld ''saved_sigmask'' sigset_t_riscv,
   Fld ''pending'' sigpending_riscv,
   Fld ''sas_ss_sp'' c_long,
   Fld ''sas_ss_size'' size_t_riscv,
   Fld ''sas_ss_flags'' c_int,
   Fld ''task_works'' (CPtr ''callback_head''),
   Fld ''audit_context'' (CPtr ''audit_context''),
   Fld ''loginuid'' kuid_t_riscv,
   Fld ''sessionid'' c_int,
   Fld ''seccomp'' seccomp_riscv,
   Fld ''syscall_dispatch'' syscall_user_dispatch_riscv,
   Fld ''parent_exec_id'' u64_riscv,
   Fld ''self_exec_id'' u64_riscv,
   Fld ''alloc_lock'' spinlock_t_riscv,
   Fld ''pi_lock'' raw_spinlock_t_riscv,
   Fld ''wake_q'' wake_q_node_riscv,
   Fld ''pi_waiters'' rb_root_cached_riscv,
   Fld ''pi_top_task'' (CPtr ''task_struct''),
   Fld ''pi_blocked_on'' (CPtr ''rt_mutex_waiter''),
   Fld ''journal_info'' c_ptr,
   Fld ''bio_list'' (CPtr ''bio_list''),
   Fld ''plug'' (CPtr ''blk_plug''),
   Fld ''reclaim_state'' (CPtr ''reclaim_state''),
   Fld ''io_context'' (CPtr ''io_context''),
   Fld ''capture_control'' (CPtr ''capture_control''),
   Fld ''ptrace_message'' c_long,
   Fld ''last_siginfo'' c_ptr,
   Fld ''ioac'' task_io_accounting_riscv,
   Fld ''psi_flags'' c_int,
   Fld ''acct_rss_mem1'' u64_riscv,
   Fld ''acct_vm_mem1'' u64_riscv,
   Fld ''acct_timexpd'' u64_riscv,
   Fld ''mems_allowed'' nodemask_t_riscv,
   Fld ''mems_allowed_seq'' seqcount_spinlock_t_riscv,
   Fld ''cpuset_mem_spread_rotor'' c_int,
   Fld ''cpuset_slab_spread_rotor'' c_int,
   Fld ''cgroups'' (CPtr ''css_set''),
   Fld ''cg_list'' list_head_riscv,
   Fld ''robust_list'' (CPtr ''robust_list_head''),
   Fld ''compat_robust_list'' (CPtr ''compat_robust_list_head''),
   Fld ''pi_state_list'' list_head_riscv,
   Fld ''pi_state_cache'' (CPtr ''futex_pi_state''),
   Fld ''futex_exit_mutex'' mutex_riscv,
   Fld ''futex_state'' c_int,
   Fld ''perf_recursion'' (CArr u8_riscv 4),
   Fld ''perf_event_ctxp'' (CPtr ''perf_event_context''),
   Fld ''perf_event_mutex'' mutex_riscv,
   Fld ''perf_event_list'' list_head_riscv,
   Fld ''mempolicy'' (CPtr ''mempolicy''),
   Fld ''il_prev'' c_short,
   Fld ''il_weight'' u8_riscv,
   Fld ''pref_node_fork'' c_short,
   Fld ''numa_scan_seq'' c_int,
   Fld ''numa_scan_period'' c_int,
   Fld ''numa_scan_period_max'' c_int,
   Fld ''numa_preferred_nid'' c_int,
   Fld ''numa_migrate_retry'' c_long,
   Fld ''node_stamp'' u64_riscv,
   Fld ''last_task_numa_placement'' u64_riscv,
   Fld ''last_sum_exec_runtime'' u64_riscv,
   Fld ''numa_work'' callback_head_riscv,
   Fld ''numa_group'' (CPtr ''numa_group''),
   Fld ''numa_faults'' c_ptr,
   Fld ''total_numa_faults'' c_long,
   Fld ''numa_faults_locality'' (CArr c_long 3),
   Fld ''numa_pages_migrated'' c_long,
   Fld ''rseq'' (CPtr ''rseq''),
   Fld ''rseq_len'' u32_riscv,
   Fld ''rseq_sig'' u32_riscv,
   Fld ''rseq_event_mask'' c_long,
   Fld ''mm_cid'' c_int,
   Fld ''last_mm_cid'' c_int,
   Fld ''migrate_from_cpu'' c_int,
   Fld ''mm_cid_active'' c_int,
   Fld ''cid_work'' callback_head_riscv,
   Fld ''tlb_ubc'' tlbflush_unmap_batch_riscv,
   Fld ''splice_pipe'' (CPtr ''pipe_inode_info''),
   Fld ''task_frag'' page_frag_riscv,
   Fld ''delays'' (CPtr ''task_delay_info''),
   Fld ''nr_dirtied'' c_int,
   Fld ''nr_dirtied_pause'' c_int,
   Fld ''dirty_paused_when'' c_long,
   Fld ''timer_slack_ns'' u64_riscv,
   Fld ''default_timer_slack_ns'' u64_riscv,
   Fld ''trace_recursion'' c_long,
   Fld ''memcg_nr_pages_over_high'' c_int,
   Fld ''active_memcg'' (CPtr ''mem_cgroup''),
   Fld ''objcg'' (CPtr ''obj_cgroup''),
   Fld ''throttle_disk'' (CPtr ''gendisk''),
   Fld ''utask'' (CPtr ''uprobe_task''),
   Fld ''sequential_io'' c_int,
   Fld ''sequential_io_avg'' c_int,
   Fld ''kmap_ctrl'' kmap_ctrl_riscv,
   Fld ''rcu'' callback_head_riscv,
   Fld ''rcu_users'' refcount_t_riscv,
   Fld ''pagefault_disabled'' c_int,
   Fld ''oom_reaper_list'' (CPtr ''task_struct''),
   Fld ''oom_reaper_timer'' timer_list_riscv,
   Fld ''stack_vm_area'' (CPtr ''vm_struct''),
   Fld ''stack_refcount'' refcount_t_riscv,
   Fld ''security'' c_ptr,
   Fld ''bpf_storage'' (CPtr ''bpf_local_storage''),
   Fld ''bpf_ctx'' (CPtr ''bpf_run_ctx''),
   Fld ''bpf_net_context'' (CPtr ''bpf_net_context''),
   Fld ''kretprobe_instances'' llist_head_riscv,
   Fld ''rethooks'' llist_head_riscv,
   Fld ''user_event_mm'' (CPtr ''user_event_mm''),
   Fld ''thread'' thread_struct_riscv,
   Bit [] 64 c_long,
   Bit [] 64 c_long,
   Bit [] 64 c_long,
   Bit [] 64 c_long,
   Bit [] 64 c_long,
   Bit [] 64 c_long,
   Bit [] 64 c_long]"

definition task_struct_riscv :: ctype where
  "task_struct_riscv = CStruct ''task_struct'' (task_struct_members1_riscv @ task_struct_members2_riscv)"

definition blk_opf_t_riscv :: ctype where
  "blk_opf_t_riscv = k__u32_riscv"

definition blk_status_t_riscv :: ctype where
  "blk_status_t_riscv = u8_riscv"

definition sector_t_riscv :: ctype where
  "sector_t_riscv = u64_riscv"

definition bvec_iter_riscv :: ctype where
  "bvec_iter_riscv = CPacked ''bvec_iter'' [
   Fld ''bi_sector'' sector_t_riscv,
   Fld ''bi_size'' c_int,
   Fld ''bi_idx'' c_int,
   Fld ''bi_bvec_done'' c_int]"

definition blk_qc_t_riscv :: ctype where
  "blk_qc_t_riscv = c_int"

definition bio_issue_riscv :: ctype where
  "bio_issue_riscv = CStruct ''bio_issue'' [
   Fld ''value'' u64_riscv]"

definition bio_vec_riscv :: ctype where
  "bio_vec_riscv = CStruct ''bio_vec'' [
   Fld ''bv_page'' (CPtr ''page''),
   Fld ''bv_len'' c_int,
   Fld ''bv_offset'' c_int]"

definition bio_riscv :: ctype where
  "bio_riscv = CStruct ''bio'' [
   Fld ''bi_next'' (CPtr ''bio''),
   Fld ''bi_bdev'' (CPtr ''block_device''),
   Fld ''bi_opf'' blk_opf_t_riscv,
   Fld ''bi_flags'' c_short,
   Fld ''bi_ioprio'' c_short,
   Fld ''bi_write_hint'' c_int,
   Fld ''bi_status'' blk_status_t_riscv,
   Fld ''__bi_remaining'' atomic_t_riscv,
   Fld ''bi_iter'' bvec_iter_riscv,
   Fld [] (CUnion [] [
     Fld ''bi_cookie'' blk_qc_t_riscv,
     Fld ''__bi_nr_segments'' c_int]),
   Fld ''bi_end_io'' c_ptr,
   Fld ''bi_private'' c_ptr,
   Fld ''bi_blkg'' (CPtr ''blkcg_gq''),
   Fld ''bi_issue'' bio_issue_riscv,
   Fld ''bi_iocost_cost'' u64_riscv,
   Fld ''bi_crypt_context'' (CPtr ''bio_crypt_ctx''),
   Fld [] (CUnion [] [
     Fld ''bi_integrity'' (CPtr ''bio_integrity_payload'')]),
   Fld ''bi_vcnt'' c_short,
   Fld ''bi_max_vecs'' c_short,
   Fld ''__bi_cnt'' atomic_t_riscv,
   Fld ''bi_io_vec'' (CPtr ''bio_vec''),
   Fld ''bi_pool'' (CPtr ''bio_set''),
   Fld ''bi_inline_vecs'' (CArr bio_vec_riscv 0)]"

definition k__kernel_dev_t_riscv :: ctype where
  "k__kernel_dev_t_riscv = u32_riscv"

definition dev_t_riscv :: ctype where
  "dev_t_riscv = k__kernel_dev_t_riscv"

definition kref_riscv :: ctype where
  "kref_riscv = CStruct ''kref'' [
   Fld ''refcount'' refcount_t_riscv]"

definition kobject_riscv :: ctype where
  "kobject_riscv = CStruct ''kobject'' [
   Fld ''name'' c_ptr,
   Fld ''entry'' list_head_riscv,
   Fld ''parent'' (CPtr ''kobject''),
   Fld ''kset'' (CPtr ''kset''),
   Fld ''ktype'' (CPtr ''kobj_type''),
   Fld ''sd'' (CPtr ''kernfs_node''),
   Fld ''kref'' kref_riscv,
   Bit ''state_initialized'' 1 c_int,
   Bit ''state_in_sysfs'' 1 c_int,
   Bit ''state_add_uevent_sent'' 1 c_int,
   Bit ''state_remove_uevent_sent'' 1 c_int,
   Bit ''uevent_suppress'' 1 c_int]"

definition dev_links_info_riscv :: ctype where
  "dev_links_info_riscv = CStruct ''dev_links_info'' [
   Fld ''suppliers'' list_head_riscv,
   Fld ''consumers'' list_head_riscv,
   Fld ''defer_sync'' list_head_riscv,
   Fld ''status'' c_int]"

definition pm_message_riscv :: ctype where
  "pm_message_riscv = CStruct ''pm_message'' [
   Fld ''event'' c_int]"

definition pm_message_t_riscv :: ctype where
  "pm_message_t_riscv = pm_message_riscv"

definition swait_queue_head_riscv :: ctype where
  "swait_queue_head_riscv = CStruct ''swait_queue_head'' [
   Fld ''lock'' raw_spinlock_t_riscv,
   Fld ''task_list'' list_head_riscv]"

definition completion_riscv :: ctype where
  "completion_riscv = CStruct ''completion'' [
   Fld ''done'' c_int,
   Fld ''wait'' swait_queue_head_riscv]"

definition work_func_t_riscv :: ctype where
  "work_func_t_riscv = c_ptr"

definition work_struct_riscv :: ctype where
  "work_struct_riscv = CStruct ''work_struct'' [
   Fld ''data'' atomic_long_t_riscv,
   Fld ''entry'' list_head_riscv,
   Fld ''func'' work_func_t_riscv]"

definition wait_queue_head_riscv :: ctype where
  "wait_queue_head_riscv = CStruct ''wait_queue_head'' [
   Fld ''lock'' spinlock_t_riscv,
   Fld ''head'' list_head_riscv]"

definition wait_queue_head_t_riscv :: ctype where
  "wait_queue_head_t_riscv = wait_queue_head_riscv"

definition dev_pm_info_riscv :: ctype where
  "dev_pm_info_riscv = CStruct ''dev_pm_info'' [
   Fld ''power_state'' pm_message_t_riscv,
   Bit ''can_wakeup'' 1 bool_riscv,
   Bit ''async_suspend'' 1 bool_riscv,
   Bit ''in_dpm_list'' 1 bool_riscv,
   Bit ''is_prepared'' 1 bool_riscv,
   Bit ''is_suspended'' 1 bool_riscv,
   Bit ''is_noirq_suspended'' 1 bool_riscv,
   Bit ''is_late_suspended'' 1 bool_riscv,
   Bit ''no_pm'' 1 bool_riscv,
   Bit ''early_init'' 1 bool_riscv,
   Bit ''direct_complete'' 1 bool_riscv,
   Fld ''driver_flags'' u32_riscv,
   Fld ''lock'' spinlock_t_riscv,
   Fld ''entry'' list_head_riscv,
   Fld ''completion'' completion_riscv,
   Fld ''wakeup'' (CPtr ''wakeup_source''),
   Bit ''wakeup_path'' 1 bool_riscv,
   Bit ''syscore'' 1 bool_riscv,
   Bit ''no_pm_callbacks'' 1 bool_riscv,
   Bit ''async_in_progress'' 1 bool_riscv,
   Bit ''must_resume'' 1 bool_riscv,
   Bit ''may_skip_resume'' 1 bool_riscv,
   Fld ''suspend_timer'' hrtimer_riscv,
   Fld ''timer_expires'' u64_riscv,
   Fld ''work'' work_struct_riscv,
   Fld ''wait_queue'' wait_queue_head_t_riscv,
   Fld ''wakeirq'' (CPtr ''wake_irq''),
   Fld ''usage_count'' atomic_t_riscv,
   Fld ''child_count'' atomic_t_riscv,
   Bit ''disable_depth'' 3 c_int,
   Bit ''idle_notification'' 1 bool_riscv,
   Bit ''request_pending'' 1 bool_riscv,
   Bit ''deferred_resume'' 1 bool_riscv,
   Bit ''needs_force_resume'' 1 bool_riscv,
   Bit ''runtime_auto'' 1 bool_riscv,
   Bit ''ignore_children'' 1 bool_riscv,
   Bit ''no_callbacks'' 1 bool_riscv,
   Bit ''irq_safe'' 1 bool_riscv,
   Bit ''use_autosuspend'' 1 bool_riscv,
   Bit ''timer_autosuspends'' 1 bool_riscv,
   Bit ''memalloc_noio'' 1 bool_riscv,
   Fld ''links_count'' c_int,
   Fld ''request'' c_int,
   Fld ''runtime_status'' c_int,
   Fld ''last_status'' c_int,
   Fld ''runtime_error'' c_int,
   Fld ''autosuspend_delay'' c_int,
   Fld ''last_busy'' u64_riscv,
   Fld ''active_time'' u64_riscv,
   Fld ''suspended_time'' u64_riscv,
   Fld ''accounting_timestamp'' u64_riscv,
   Fld ''subsys_data'' (CPtr ''pm_subsys_data''),
   Fld ''set_latency_tolerance'' c_ptr,
   Fld ''qos'' (CPtr ''dev_pm_qos'')]"

definition dev_msi_info_riscv :: ctype where
  "dev_msi_info_riscv = CStruct ''dev_msi_info'' [
   Fld ''domain'' (CPtr ''irq_domain''),
   Fld ''data'' (CPtr ''msi_device_data'')]"

definition dev_archdata_riscv :: ctype where
  "dev_archdata_riscv = CStruct ''dev_archdata'' []"

definition device_riscv :: ctype where
  "device_riscv = CStruct ''device'' [
   Fld ''kobj'' kobject_riscv,
   Fld ''parent'' (CPtr ''device''),
   Fld ''p'' (CPtr ''device_private''),
   Fld ''init_name'' c_ptr,
   Fld ''type'' (CPtr ''device_type''),
   Fld ''bus'' (CPtr ''bus_type''),
   Fld ''driver'' (CPtr ''device_driver''),
   Fld ''platform_data'' c_ptr,
   Fld ''driver_data'' c_ptr,
   Fld ''mutex'' mutex_riscv,
   Fld ''links'' dev_links_info_riscv,
   Fld ''power'' dev_pm_info_riscv,
   Fld ''pm_domain'' (CPtr ''dev_pm_domain''),
   Fld ''em_pd'' (CPtr ''em_perf_domain''),
   Fld ''pins'' (CPtr ''dev_pin_info''),
   Fld ''msi'' dev_msi_info_riscv,
   Fld ''dma_ops'' (CPtr ''dma_map_ops''),
   Fld ''dma_mask'' c_ptr,
   Fld ''coherent_dma_mask'' u64_riscv,
   Fld ''bus_dma_limit'' u64_riscv,
   Fld ''dma_range_map'' (CPtr ''bus_dma_region''),
   Fld ''dma_parms'' (CPtr ''device_dma_parameters''),
   Fld ''dma_pools'' list_head_riscv,
   Fld ''dma_mem'' (CPtr ''dma_coherent_mem''),
   Fld ''cma_area'' (CPtr ''cma''),
   Fld ''dma_io_tlb_mem'' (CPtr ''io_tlb_mem''),
   Fld ''archdata'' dev_archdata_riscv,
   Fld ''of_node'' (CPtr ''device_node''),
   Fld ''fwnode'' (CPtr ''fwnode_handle''),
   Fld ''numa_node'' c_int,
   Fld ''devt'' dev_t_riscv,
   Fld ''id'' u32_riscv,
   Fld ''devres_lock'' spinlock_t_riscv,
   Fld ''devres_head'' list_head_riscv,
   Fld ''class'' (CPtr ''class''),
   Fld ''groups'' (CPtr ''attribute_group''),
   Fld ''release'' c_ptr,
   Fld ''iommu_group'' (CPtr ''iommu_group''),
   Fld ''iommu'' (CPtr ''dev_iommu''),
   Fld ''physical_location'' (CPtr ''device_physical_location''),
   Fld ''removable'' c_int,
   Bit ''offline_disabled'' 1 bool_riscv,
   Bit ''offline'' 1 bool_riscv,
   Bit ''of_node_reused'' 1 bool_riscv,
   Bit ''state_synced'' 1 bool_riscv,
   Bit ''can_match'' 1 bool_riscv,
   Bit ''dma_coherent'' 1 bool_riscv,
   Bit ''dma_skip_sync'' 1 bool_riscv]"

definition block_device_riscv :: ctype where
  "block_device_riscv = CStruct ''block_device'' [
   Fld ''bd_start_sect'' sector_t_riscv,
   Fld ''bd_nr_sectors'' sector_t_riscv,
   Fld ''bd_disk'' (CPtr ''gendisk''),
   Fld ''bd_queue'' (CPtr ''request_queue''),
   Fld ''bd_stats'' (CPtr ''disk_stats''),
   Fld ''bd_stamp'' c_long,
   Fld ''__bd_flags'' atomic_t_riscv,
   Fld ''bd_dev'' dev_t_riscv,
   Fld ''bd_mapping'' (CPtr ''address_space''),
   Fld ''bd_openers'' atomic_t_riscv,
   Fld ''bd_size_lock'' spinlock_t_riscv,
   Fld ''bd_claiming'' c_ptr,
   Fld ''bd_holder'' c_ptr,
   Fld ''bd_holder_ops'' (CPtr ''blk_holder_ops''),
   Fld ''bd_holder_lock'' mutex_riscv,
   Fld ''bd_holders'' c_int,
   Fld ''bd_holder_dir'' (CPtr ''kobject''),
   Fld ''bd_fsfreeze_count'' atomic_t_riscv,
   Fld ''bd_fsfreeze_mutex'' mutex_riscv,
   Fld ''bd_meta_info'' (CPtr ''partition_meta_info''),
   Fld ''bd_writers'' c_int,
   Fld ''bd_device'' device_riscv]"

definition gfp_t_riscv :: ctype where
  "gfp_t_riscv = c_int"

definition xarray_riscv :: ctype where
  "xarray_riscv = CStruct ''xarray'' [
   Fld ''xa_lock'' spinlock_t_riscv,
   Fld ''xa_flags'' gfp_t_riscv,
   Fld ''xa_head'' c_ptr]"

definition mempool_s_riscv :: ctype where
  "mempool_s_riscv = CStruct ''mempool_s'' [
   Fld ''lock'' spinlock_t_riscv,
   Fld ''min_nr'' c_int,
   Fld ''curr_nr'' c_int,
   Fld ''elements'' c_ptr,
   Fld ''pool_data'' c_ptr,
   Fld ''alloc'' c_ptr,
   Fld ''free'' c_ptr,
   Fld ''wait'' wait_queue_head_t_riscv]"

definition mempool_t_riscv :: ctype where
  "mempool_t_riscv = mempool_s_riscv"

definition bio_list_riscv :: ctype where
  "bio_list_riscv = CStruct ''bio_list'' [
   Fld ''head'' (CPtr ''bio''),
   Fld ''tail'' (CPtr ''bio'')]"

definition bio_set_riscv :: ctype where
  "bio_set_riscv = CStruct ''bio_set'' [
   Fld ''bio_slab'' (CPtr ''kmem_cache''),
   Fld ''front_pad'' c_int,
   Fld ''cache'' (CPtr ''bio_alloc_cache''),
   Fld ''bio_pool'' mempool_t_riscv,
   Fld ''bvec_pool'' mempool_t_riscv,
   Fld ''bio_integrity_pool'' mempool_t_riscv,
   Fld ''bvec_integrity_pool'' mempool_t_riscv,
   Fld ''back_pad'' c_int,
   Fld ''rescue_lock'' spinlock_t_riscv,
   Fld ''rescue_list'' bio_list_riscv,
   Fld ''rescue_work'' work_struct_riscv,
   Fld ''rescue_workqueue'' (CPtr ''workqueue_struct''),
   Fld ''cpuhp_dead'' hlist_node_riscv]"

definition lockdep_map_riscv :: ctype where
  "lockdep_map_riscv = CStruct ''lockdep_map'' []"

definition blk_mode_t_riscv :: ctype where
  "blk_mode_t_riscv = c_int"

definition gendisk_riscv :: ctype where
  "gendisk_riscv = CStruct ''gendisk'' [
   Fld ''major'' c_int,
   Fld ''first_minor'' c_int,
   Fld ''minors'' c_int,
   Fld ''disk_name'' (CArr c_char 32),
   Fld ''events'' c_short,
   Fld ''event_flags'' c_short,
   Fld ''part_tbl'' xarray_riscv,
   Fld ''part0'' (CPtr ''block_device''),
   Fld ''fops'' (CPtr ''block_device_operations''),
   Fld ''queue'' (CPtr ''request_queue''),
   Fld ''private_data'' c_ptr,
   Fld ''bio_split'' bio_set_riscv,
   Fld ''flags'' c_int,
   Fld ''state'' c_long,
   Fld ''open_mutex'' mutex_riscv,
   Fld ''open_partitions'' c_int,
   Fld ''bdi'' (CPtr ''backing_dev_info''),
   Fld ''queue_kobj'' kobject_riscv,
   Fld ''slave_dir'' (CPtr ''kobject''),
   Fld ''slave_bdevs'' list_head_riscv,
   Fld ''random'' (CPtr ''timer_rand_state''),
   Fld ''sync_io'' atomic_t_riscv,
   Fld ''ev'' (CPtr ''disk_events''),
   Fld ''nr_zones'' c_int,
   Fld ''zone_capacity'' c_int,
   Fld ''last_zone_capacity'' c_int,
   Fld ''conv_zones_bitmap'' c_ptr,
   Fld ''zone_wplugs_hash_bits'' c_int,
   Fld ''zone_wplugs_lock'' spinlock_t_riscv,
   Fld ''zone_wplugs_pool'' (CPtr ''mempool_s''),
   Fld ''zone_wplugs_hash'' (CPtr ''hlist_head''),
   Fld ''zone_wplugs_err_list'' list_head_riscv,
   Fld ''zone_wplugs_work'' work_struct_riscv,
   Fld ''zone_wplugs_wq'' (CPtr ''workqueue_struct''),
   Fld ''cdi'' (CPtr ''cdrom_device_info''),
   Fld ''node_id'' c_int,
   Fld ''bb'' (CPtr ''badblocks''),
   Fld ''lockdep_map'' lockdep_map_riscv,
   Fld ''diskseq'' u64_riscv,
   Fld ''open_mode'' blk_mode_t_riscv,
   Fld ''ia_ranges'' (CPtr ''blk_independent_access_ranges'')]"

definition req_flags_t_riscv :: ctype where
  "req_flags_t_riscv = k__u32_riscv"

definition request_riscv :: ctype where
  "request_riscv = CStruct ''request'' [
   Fld ''q'' (CPtr ''request_queue''),
   Fld ''mq_ctx'' (CPtr ''blk_mq_ctx''),
   Fld ''mq_hctx'' (CPtr ''blk_mq_hw_ctx''),
   Fld ''cmd_flags'' blk_opf_t_riscv,
   Fld ''rq_flags'' req_flags_t_riscv,
   Fld ''tag'' c_int,
   Fld ''internal_tag'' c_int,
   Fld ''timeout'' c_int,
   Fld ''__data_len'' c_int,
   Fld ''__sector'' sector_t_riscv,
   Fld ''bio'' (CPtr ''bio''),
   Fld ''biotail'' (CPtr ''bio''),
   Fld [] (CUnion [] [
     Fld ''queuelist'' list_head_riscv,
     Fld ''rq_next'' (CPtr ''request'')]),
   Fld ''part'' (CPtr ''block_device''),
   Fld ''alloc_time_ns'' u64_riscv,
   Fld ''start_time_ns'' u64_riscv,
   Fld ''io_start_time_ns'' u64_riscv,
   Fld ''wbt_flags'' c_short,
   Fld ''stats_sectors'' c_short,
   Fld ''nr_phys_segments'' c_short,
   Fld ''nr_integrity_segments'' c_short,
   Fld ''crypt_ctx'' (CPtr ''bio_crypt_ctx''),
   Fld ''crypt_keyslot'' (CPtr ''blk_crypto_keyslot''),
   Fld ''write_hint'' c_int,
   Fld ''ioprio'' c_short,
   Fld ''state'' c_int,
   Fld ''ref'' atomic_t_riscv,
   Fld ''deadline'' c_long,
   Fld [] (CUnion [] [
     Fld ''hash'' hlist_node_riscv,
     Fld ''ipi_list'' llist_node_riscv]),
   Fld [] (CUnion [] [
     Fld ''rb_node'' rb_node_riscv,
     Fld ''special_vec'' bio_vec_riscv]),
   Fld ''elv'' (CStruct [] [
     Fld ''icq'' (CPtr ''io_cq''),
     Fld ''priv'' (CArr c_ptr 2)]),
   Fld ''flush'' (CStruct [] [
     Fld ''seq'' c_int,
     Fld ''saved_end_io'' c_ptr]),
   Fld ''fifo_time'' u64_riscv,
   Fld ''end_io'' c_ptr,
   Fld ''end_io_data'' c_ptr]"

definition percpu_ref_riscv :: ctype where
  "percpu_ref_riscv = CStruct ''percpu_ref'' [
   Fld ''percpu_count_ptr'' c_long,
   Fld ''data'' (CPtr ''percpu_ref_data'')]"

definition blk_features_t_riscv :: ctype where
  "blk_features_t_riscv = c_int"

definition blk_flags_t_riscv :: ctype where
  "blk_flags_t_riscv = c_int"

definition blk_integrity_riscv :: ctype where
  "blk_integrity_riscv = CStruct ''blk_integrity'' [
   Fld ''flags'' c_char,
   Fld ''csum_type'' c_int,
   Fld ''tuple_size'' c_char,
   Fld ''pi_offset'' c_char,
   Fld ''interval_exp'' c_char,
   Fld ''tag_size'' c_char]"

definition queue_limits_riscv :: ctype where
  "queue_limits_riscv = CStruct ''queue_limits'' [
   Fld ''features'' blk_features_t_riscv,
   Fld ''flags'' blk_flags_t_riscv,
   Fld ''seg_boundary_mask'' c_long,
   Fld ''virt_boundary_mask'' c_long,
   Fld ''max_hw_sectors'' c_int,
   Fld ''max_dev_sectors'' c_int,
   Fld ''chunk_sectors'' c_int,
   Fld ''max_sectors'' c_int,
   Fld ''max_user_sectors'' c_int,
   Fld ''max_segment_size'' c_int,
   Fld ''physical_block_size'' c_int,
   Fld ''logical_block_size'' c_int,
   Fld ''alignment_offset'' c_int,
   Fld ''io_min'' c_int,
   Fld ''io_opt'' c_int,
   Fld ''max_discard_sectors'' c_int,
   Fld ''max_hw_discard_sectors'' c_int,
   Fld ''max_user_discard_sectors'' c_int,
   Fld ''max_secure_erase_sectors'' c_int,
   Fld ''max_write_zeroes_sectors'' c_int,
   Fld ''max_zone_append_sectors'' c_int,
   Fld ''discard_granularity'' c_int,
   Fld ''discard_alignment'' c_int,
   Fld ''zone_write_granularity'' c_int,
   Fld ''atomic_write_hw_max'' c_int,
   Fld ''atomic_write_max_sectors'' c_int,
   Fld ''atomic_write_hw_boundary'' c_int,
   Fld ''atomic_write_boundary_sectors'' c_int,
   Fld ''atomic_write_hw_unit_min'' c_int,
   Fld ''atomic_write_unit_min'' c_int,
   Fld ''atomic_write_hw_unit_max'' c_int,
   Fld ''atomic_write_unit_max'' c_int,
   Fld ''max_segments'' c_short,
   Fld ''max_integrity_segments'' c_short,
   Fld ''max_discard_segments'' c_short,
   Fld ''max_open_zones'' c_int,
   Fld ''max_active_zones'' c_int,
   Fld ''dma_alignment'' c_int,
   Fld ''dma_pad_mask'' c_int,
   Fld ''integrity'' blk_integrity_riscv]"

definition delayed_work_riscv :: ctype where
  "delayed_work_riscv = CStruct ''delayed_work'' [
   Fld ''work'' work_struct_riscv,
   Fld ''timer'' timer_list_riscv,
   Fld ''wq'' (CPtr ''workqueue_struct''),
   Fld ''cpu'' c_int]"

definition request_queue_riscv :: ctype where
  "request_queue_riscv = CStruct ''request_queue'' [
   Fld ''queuedata'' c_ptr,
   Fld ''elevator'' (CPtr ''elevator_queue''),
   Fld ''mq_ops'' (CPtr ''blk_mq_ops''),
   Fld ''queue_ctx'' (CPtr ''blk_mq_ctx''),
   Fld ''queue_flags'' c_long,
   Fld ''rq_timeout'' c_int,
   Fld ''queue_depth'' c_int,
   Fld ''refs'' refcount_t_riscv,
   Fld ''nr_hw_queues'' c_int,
   Fld ''hctx_table'' xarray_riscv,
   Fld ''q_usage_counter'' percpu_ref_riscv,
   Fld ''last_merge'' (CPtr ''request''),
   Fld ''queue_lock'' spinlock_t_riscv,
   Fld ''quiesce_depth'' c_int,
   Fld ''disk'' (CPtr ''gendisk''),
   Fld ''mq_kobj'' (CPtr ''kobject''),
   Fld ''limits'' queue_limits_riscv,
   Fld ''dev'' (CPtr ''device''),
   Fld ''rpm_status'' c_int,
   Fld ''pm_only'' atomic_t_riscv,
   Fld ''stats'' (CPtr ''blk_queue_stats''),
   Fld ''rq_qos'' (CPtr ''rq_qos''),
   Fld ''rq_qos_mutex'' mutex_riscv,
   Fld ''id'' c_int,
   Fld ''nr_requests'' c_long,
   Fld ''crypto_profile'' (CPtr ''blk_crypto_profile''),
   Fld ''crypto_kobject'' (CPtr ''kobject''),
   Fld ''timeout'' timer_list_riscv,
   Fld ''timeout_work'' work_struct_riscv,
   Fld ''nr_active_requests_shared_tags'' atomic_t_riscv,
   Fld ''sched_shared_tags'' (CPtr ''blk_mq_tags''),
   Fld ''icq_list'' list_head_riscv,
   Fld ''blkcg_pols'' (CArr c_long 1),
   Fld ''root_blkg'' (CPtr ''blkcg_gq''),
   Fld ''blkg_list'' list_head_riscv,
   Fld ''blkcg_mutex'' mutex_riscv,
   Fld ''node'' c_int,
   Fld ''requeue_lock'' spinlock_t_riscv,
   Fld ''requeue_list'' list_head_riscv,
   Fld ''requeue_work'' delayed_work_riscv,
   Fld ''blk_trace'' (CPtr ''blk_trace''),
   Fld ''fq'' (CPtr ''blk_flush_queue''),
   Fld ''flush_list'' list_head_riscv,
   Fld ''sysfs_lock'' mutex_riscv,
   Fld ''sysfs_dir_lock'' mutex_riscv,
   Fld ''limits_lock'' mutex_riscv,
   Fld ''unused_hctx_list'' list_head_riscv,
   Fld ''unused_hctx_lock'' spinlock_t_riscv,
   Fld ''mq_freeze_depth'' c_int,
   Fld ''td'' (CPtr ''throtl_data''),
   Fld ''callback_head'' callback_head_riscv,
   Fld ''mq_freeze_wq'' wait_queue_head_t_riscv,
   Fld ''mq_freeze_lock'' mutex_riscv,
   Fld ''tag_set'' (CPtr ''blk_mq_tag_set''),
   Fld ''tag_set_list'' list_head_riscv,
   Fld ''debugfs_dir'' (CPtr ''dentry''),
   Fld ''sched_debugfs_dir'' (CPtr ''dentry''),
   Fld ''rqos_debugfs_dir'' (CPtr ''dentry''),
   Fld ''debugfs_mutex'' mutex_riscv,
   Fld ''mq_sysfs_init_done'' bool_riscv]"

definition trace_entry_riscv :: ctype where
  "trace_entry_riscv = CStruct ''trace_entry'' [
   Fld ''type'' c_short,
   Fld ''flags'' c_char,
   Fld ''preempt_count'' c_char,
   Fld ''pid'' c_int]"

definition trace_event_raw_sched_process_fork_riscv :: ctype where
  "trace_event_raw_sched_process_fork_riscv = CStruct ''trace_event_raw_sched_process_fork'' [
   Fld ''ent'' trace_entry_riscv,
   Fld ''parent_comm'' (CArr c_char 16),
   Fld ''parent_pid'' pid_t_riscv,
   Fld ''child_comm'' (CArr c_char 16),
   Fld ''child_pid'' pid_t_riscv,
   Fld ''__data'' (CArr c_char 0)]"

definition trace_event_raw_sched_process_exec_riscv :: ctype where
  "trace_event_raw_sched_process_exec_riscv = CStruct ''trace_event_raw_sched_process_exec'' [
   Fld ''ent'' trace_entry_riscv,
   Fld ''__data_loc_filename'' u32_riscv,
   Fld ''pid'' pid_t_riscv,
   Fld ''old_pid'' pid_t_riscv,
   Fld ''__data'' (CArr c_char 0)]"

definition btf_riscv :: "(string \<times> ctype) list" where
  "btf_riscv = [
     (''task_struct'', task_struct_riscv),
     (''bio'', bio_riscv),
     (''block_device'', block_device_riscv),
     (''gendisk'', gendisk_riscv),
     (''request'', request_riscv),
     (''request_queue'', request_queue_riscv),
     (''trace_event_raw_sched_process_fork'', trace_event_raw_sched_process_fork_riscv),
     (''trace_event_raw_sched_process_exec'', trace_event_raw_sched_process_exec_riscv)]"

text \<open>The declarations, for evaluating a layout.\<close>

lemmas decls_riscv =
  thread_info_riscv_def atomic_t_riscv_def refcount_struct_riscv_def refcount_t_riscv_def
  llist_node_riscv_def k__u16_riscv_def u16_riscv_def k__call_single_node_riscv_def
  k__u32_riscv_def u32_riscv_def load_weight_riscv_def rb_node_riscv_def
  k__u64_riscv_def u64_riscv_def list_head_riscv_def k__s64_riscv_def
  s64_riscv_def sched_avg_riscv_def sched_entity_riscv_def sched_rt_entity_riscv_def
  ktime_t_riscv_def timerqueue_node_riscv_def k__u8_riscv_def u8_riscv_def
  hrtimer_riscv_def dl_server_has_tasks_f_riscv_def dl_server_pick_f_riscv_def sched_dl_entity_riscv_def
  uclamp_se_riscv_def sched_statistics_riscv_def hlist_head_riscv_def cpumask_riscv_def
  cpumask_t_riscv_def rcu_special_riscv_def sched_info_riscv_def plist_node_riscv_def
  k__kernel_clockid_t_riscv_def clockid_t_riscv_def restart_block_riscv_def k__kernel_pid_t_riscv_def
  pid_t_riscv_def hlist_node_riscv_def arch_spinlock_t_riscv_def raw_spinlock_riscv_def
  raw_spinlock_t_riscv_def prev_cputime_riscv_def seqcount_riscv_def seqcount_t_riscv_def
  vtime_riscv_def rb_root_riscv_def rb_root_cached_riscv_def timerqueue_head_riscv_def
  posix_cputimer_base_riscv_def posix_cputimers_riscv_def callback_head_riscv_def atomic64_t_riscv_def
  atomic_long_t_riscv_def optimistic_spin_queue_riscv_def mutex_riscv_def posix_cputimers_work_riscv_def
  sysv_sem_riscv_def sysv_shm_riscv_def sigset_t_riscv_def sigpending_riscv_def
  k__kernel_ulong_t_riscv_def k__kernel_size_t_riscv_def size_t_riscv_def k__kernel_uid32_t_riscv_def
  uid_t_riscv_def kuid_t_riscv_def seccomp_riscv_def bool_riscv_def
  syscall_user_dispatch_riscv_def spinlock_riscv_def spinlock_t_riscv_def wake_q_node_riscv_def
  task_io_accounting_riscv_def nodemask_t_riscv_def seqcount_spinlock_riscv_def seqcount_spinlock_t_riscv_def
  arch_tlbflush_unmap_batch_riscv_def tlbflush_unmap_batch_riscv_def page_frag_riscv_def kmap_ctrl_riscv_def
  timer_list_riscv_def llist_head_riscv_def k__riscv_d_ext_state_riscv_def k__riscv_v_ext_state_riscv_def
  thread_struct_riscv_def task_struct_members1_riscv_def task_struct_members2_riscv_def task_struct_riscv_def
  blk_opf_t_riscv_def blk_status_t_riscv_def sector_t_riscv_def bvec_iter_riscv_def
  blk_qc_t_riscv_def bio_issue_riscv_def bio_vec_riscv_def bio_riscv_def
  k__kernel_dev_t_riscv_def dev_t_riscv_def kref_riscv_def kobject_riscv_def
  dev_links_info_riscv_def pm_message_riscv_def pm_message_t_riscv_def swait_queue_head_riscv_def
  completion_riscv_def work_func_t_riscv_def work_struct_riscv_def wait_queue_head_riscv_def
  wait_queue_head_t_riscv_def dev_pm_info_riscv_def dev_msi_info_riscv_def dev_archdata_riscv_def
  device_riscv_def block_device_riscv_def gfp_t_riscv_def xarray_riscv_def
  mempool_s_riscv_def mempool_t_riscv_def bio_list_riscv_def bio_set_riscv_def
  lockdep_map_riscv_def blk_mode_t_riscv_def gendisk_riscv_def req_flags_t_riscv_def
  request_riscv_def percpu_ref_riscv_def blk_features_t_riscv_def blk_flags_t_riscv_def
  blk_integrity_riscv_def queue_limits_riscv_def delayed_work_riscv_def request_queue_riscv_def
  trace_entry_riscv_def trace_event_raw_sched_process_fork_riscv_def trace_event_raw_sched_process_exec_riscv_def

end
