(* ===== verification/Vmlinux_Loongarch.thy ===== *)
theory Vmlinux_Loongarch
  imports C_Layout
begin

text \<open>
  The part of \<^verbatim>\<open>crates/ananicy-bpf/bpf/loongarch/vmlinux.h\<close> that the BPF program and
  \<^verbatim>\<open>core_fixes.bpf.h\<close> refer to: the tracepoint contexts, \<^verbatim>\<open>task_struct\<close>, \<^verbatim>\<open>bio\<close>,
  \<^verbatim>\<open>block_device\<close>, \<^verbatim>\<open>gendisk\<close>, \<^verbatim>\<open>request\<close> (where the header has it) and
  \<^verbatim>\<open>request_queue\<close>, with every type a member of theirs has by value. Each definition is
  the declaration of the same name, member for member; \<open>btf_loongarch\<close> collects the
  structures a field access can start at or point to.
\<close>

definition k__u32_loongarch :: ctype where
  "k__u32_loongarch = c_int"

definition u32_loongarch :: ctype where
  "u32_loongarch = k__u32_loongarch"

definition thread_info_loongarch :: ctype where
  "thread_info_loongarch = CStruct ''thread_info'' [
   Fld ''flags'' c_long,
   Fld ''syscall_work'' c_long,
   Fld ''status'' u32_loongarch,
   Fld ''cpu'' u32_loongarch]"

definition atomic_t_loongarch :: ctype where
  "atomic_t_loongarch = CStruct ''atomic_t'' [
   Fld ''counter'' c_int]"

definition refcount_struct_loongarch :: ctype where
  "refcount_struct_loongarch = CStruct ''refcount_struct'' [
   Fld ''refs'' atomic_t_loongarch]"

definition refcount_t_loongarch :: ctype where
  "refcount_t_loongarch = refcount_struct_loongarch"

definition llist_node_loongarch :: ctype where
  "llist_node_loongarch = CStruct ''llist_node'' [
   Fld ''next'' (CPtr ''llist_node'')]"

definition k__u16_loongarch :: ctype where
  "k__u16_loongarch = c_short"

definition u16_loongarch :: ctype where
  "u16_loongarch = k__u16_loongarch"

definition k__call_single_node_loongarch :: ctype where
  "k__call_single_node_loongarch = CStruct ''__call_single_node'' [
   Fld ''llist'' llist_node_loongarch,
   Fld [] (CUnion [] [
     Fld ''u_flags'' c_int,
     Fld ''a_flags'' atomic_t_loongarch]),
   Fld ''src'' u16_loongarch,
   Fld ''dst'' u16_loongarch]"

definition load_weight_loongarch :: ctype where
  "load_weight_loongarch = CStruct ''load_weight'' [
   Fld ''weight'' c_long,
   Fld ''inv_weight'' u32_loongarch]"

definition rb_node_loongarch :: ctype where
  "rb_node_loongarch = CStruct ''rb_node'' [
   Fld ''__rb_parent_color'' c_long,
   Fld ''rb_right'' (CPtr ''rb_node''),
   Fld ''rb_left'' (CPtr ''rb_node'')]"

definition k__u64_loongarch :: ctype where
  "k__u64_loongarch = c_long"

definition u64_loongarch :: ctype where
  "u64_loongarch = k__u64_loongarch"

definition list_head_loongarch :: ctype where
  "list_head_loongarch = CStruct ''list_head'' [
   Fld ''next'' (CPtr ''list_head''),
   Fld ''prev'' (CPtr ''list_head'')]"

definition k__s64_loongarch :: ctype where
  "k__s64_loongarch = c_long"

definition s64_loongarch :: ctype where
  "s64_loongarch = k__s64_loongarch"

definition sched_avg_loongarch :: ctype where
  "sched_avg_loongarch = CStruct ''sched_avg'' [
   Fld ''last_update_time'' u64_loongarch,
   Fld ''load_sum'' u64_loongarch,
   Fld ''runnable_sum'' u64_loongarch,
   Fld ''util_sum'' u32_loongarch,
   Fld ''period_contrib'' u32_loongarch,
   Fld ''load_avg'' c_long,
   Fld ''runnable_avg'' c_long,
   Fld ''util_avg'' c_long,
   Fld ''util_est'' c_int]"

definition sched_entity_loongarch :: ctype where
  "sched_entity_loongarch = CStruct ''sched_entity'' [
   Fld ''load'' load_weight_loongarch,
   Fld ''run_node'' rb_node_loongarch,
   Fld ''deadline'' u64_loongarch,
   Fld ''min_vruntime'' u64_loongarch,
   Fld ''min_slice'' u64_loongarch,
   Fld ''group_node'' list_head_loongarch,
   Fld ''on_rq'' c_char,
   Fld ''sched_delayed'' c_char,
   Fld ''rel_deadline'' c_char,
   Fld ''custom_slice'' c_char,
   Fld ''exec_start'' u64_loongarch,
   Fld ''sum_exec_runtime'' u64_loongarch,
   Fld ''prev_sum_exec_runtime'' u64_loongarch,
   Fld ''vruntime'' u64_loongarch,
   Fld ''vlag'' s64_loongarch,
   Fld ''slice'' u64_loongarch,
   Fld ''nr_migrations'' u64_loongarch,
   Fld ''depth'' c_int,
   Fld ''parent'' (CPtr ''sched_entity''),
   Fld ''cfs_rq'' (CPtr ''cfs_rq''),
   Fld ''my_q'' (CPtr ''cfs_rq''),
   Fld ''runnable_weight'' c_long,
   Bit [] 64 c_long,
   Fld ''avg'' sched_avg_loongarch]"

definition sched_rt_entity_loongarch :: ctype where
  "sched_rt_entity_loongarch = CStruct ''sched_rt_entity'' [
   Fld ''run_list'' list_head_loongarch,
   Fld ''timeout'' c_long,
   Fld ''watchdog_stamp'' c_long,
   Fld ''time_slice'' c_int,
   Fld ''on_rq'' c_short,
   Fld ''on_list'' c_short,
   Fld ''back'' (CPtr ''sched_rt_entity'')]"

definition ktime_t_loongarch :: ctype where
  "ktime_t_loongarch = s64_loongarch"

definition timerqueue_node_loongarch :: ctype where
  "timerqueue_node_loongarch = CStruct ''timerqueue_node'' [
   Fld ''node'' rb_node_loongarch,
   Fld ''expires'' ktime_t_loongarch]"

definition k__u8_loongarch :: ctype where
  "k__u8_loongarch = c_char"

definition u8_loongarch :: ctype where
  "u8_loongarch = k__u8_loongarch"

definition hrtimer_loongarch :: ctype where
  "hrtimer_loongarch = CStruct ''hrtimer'' [
   Fld ''node'' timerqueue_node_loongarch,
   Fld ''_softexpires'' ktime_t_loongarch,
   Fld ''function'' c_ptr,
   Fld ''base'' (CPtr ''hrtimer_clock_base''),
   Fld ''state'' u8_loongarch,
   Fld ''is_rel'' u8_loongarch,
   Fld ''is_soft'' u8_loongarch,
   Fld ''is_hard'' u8_loongarch]"

definition dl_server_has_tasks_f_loongarch :: ctype where
  "dl_server_has_tasks_f_loongarch = c_ptr"

definition dl_server_pick_f_loongarch :: ctype where
  "dl_server_pick_f_loongarch = c_ptr"

definition sched_dl_entity_loongarch :: ctype where
  "sched_dl_entity_loongarch = CStruct ''sched_dl_entity'' [
   Fld ''rb_node'' rb_node_loongarch,
   Fld ''dl_runtime'' u64_loongarch,
   Fld ''dl_deadline'' u64_loongarch,
   Fld ''dl_period'' u64_loongarch,
   Fld ''dl_bw'' u64_loongarch,
   Fld ''dl_density'' u64_loongarch,
   Fld ''runtime'' s64_loongarch,
   Fld ''deadline'' u64_loongarch,
   Fld ''flags'' c_int,
   Bit ''dl_throttled'' 1 c_int,
   Bit ''dl_yielded'' 1 c_int,
   Bit ''dl_non_contending'' 1 c_int,
   Bit ''dl_overrun'' 1 c_int,
   Bit ''dl_server'' 1 c_int,
   Bit ''dl_server_active'' 1 c_int,
   Bit ''dl_defer'' 1 c_int,
   Bit ''dl_defer_armed'' 1 c_int,
   Bit ''dl_defer_running'' 1 c_int,
   Fld ''dl_timer'' hrtimer_loongarch,
   Fld ''inactive_timer'' hrtimer_loongarch,
   Fld ''rq'' (CPtr ''rq''),
   Fld ''server_has_tasks'' dl_server_has_tasks_f_loongarch,
   Fld ''server_pick_task'' dl_server_pick_f_loongarch,
   Fld ''pi_se'' (CPtr ''sched_dl_entity'')]"

definition uclamp_se_loongarch :: ctype where
  "uclamp_se_loongarch = CStruct ''uclamp_se'' [
   Bit ''value'' 11 c_int,
   Bit ''bucket_id'' 3 c_int,
   Bit ''active'' 1 c_int,
   Bit ''user_defined'' 1 c_int]"

definition sched_statistics_loongarch :: ctype where
  "sched_statistics_loongarch = CStruct ''sched_statistics'' [
   Fld ''wait_start'' u64_loongarch,
   Fld ''wait_max'' u64_loongarch,
   Fld ''wait_count'' u64_loongarch,
   Fld ''wait_sum'' u64_loongarch,
   Fld ''iowait_count'' u64_loongarch,
   Fld ''iowait_sum'' u64_loongarch,
   Fld ''sleep_start'' u64_loongarch,
   Fld ''sleep_max'' u64_loongarch,
   Fld ''sum_sleep_runtime'' s64_loongarch,
   Fld ''block_start'' u64_loongarch,
   Fld ''block_max'' u64_loongarch,
   Fld ''sum_block_runtime'' s64_loongarch,
   Fld ''exec_max'' s64_loongarch,
   Fld ''slice_max'' u64_loongarch,
   Fld ''nr_migrations_cold'' u64_loongarch,
   Fld ''nr_failed_migrations_affine'' u64_loongarch,
   Fld ''nr_failed_migrations_running'' u64_loongarch,
   Fld ''nr_failed_migrations_hot'' u64_loongarch,
   Fld ''nr_forced_migrations'' u64_loongarch,
   Fld ''nr_wakeups'' u64_loongarch,
   Fld ''nr_wakeups_sync'' u64_loongarch,
   Fld ''nr_wakeups_migrate'' u64_loongarch,
   Fld ''nr_wakeups_local'' u64_loongarch,
   Fld ''nr_wakeups_remote'' u64_loongarch,
   Fld ''nr_wakeups_affine'' u64_loongarch,
   Fld ''nr_wakeups_affine_attempts'' u64_loongarch,
   Fld ''nr_wakeups_passive'' u64_loongarch,
   Fld ''nr_wakeups_idle'' u64_loongarch,
   Fld ''core_forceidle_sum'' u64_loongarch,
   Bit [] 64 c_long,
   Bit [] 64 c_long,
   Bit [] 64 c_long]"

definition hlist_head_loongarch :: ctype where
  "hlist_head_loongarch = CStruct ''hlist_head'' [
   Fld ''first'' (CPtr ''hlist_node'')]"

definition cpumask_loongarch :: ctype where
  "cpumask_loongarch = CStruct ''cpumask'' [
   Fld ''bits'' (CArr c_long 128)]"

definition cpumask_t_loongarch :: ctype where
  "cpumask_t_loongarch = cpumask_loongarch"

definition rcu_special_loongarch :: ctype where
  "rcu_special_loongarch = CUnion ''rcu_special'' [
   Fld ''b'' (CStruct [] [
     Fld ''blocked'' u8_loongarch,
     Fld ''need_qs'' u8_loongarch,
     Fld ''exp_hint'' u8_loongarch,
     Fld ''need_mb'' u8_loongarch]),
   Fld ''s'' u32_loongarch]"

definition sched_info_loongarch :: ctype where
  "sched_info_loongarch = CStruct ''sched_info'' [
   Fld ''pcount'' c_long,
   Fld ''run_delay'' c_long,
   Fld ''last_arrival'' c_long,
   Fld ''last_queued'' c_long]"

definition plist_node_loongarch :: ctype where
  "plist_node_loongarch = CStruct ''plist_node'' [
   Fld ''prio'' c_int,
   Fld ''prio_list'' list_head_loongarch,
   Fld ''node_list'' list_head_loongarch]"

definition k__kernel_clockid_t_loongarch :: ctype where
  "k__kernel_clockid_t_loongarch = c_int"

definition clockid_t_loongarch :: ctype where
  "clockid_t_loongarch = k__kernel_clockid_t_loongarch"

definition restart_block_loongarch :: ctype where
  "restart_block_loongarch = CStruct ''restart_block'' [
   Fld ''arch_data'' c_long,
   Fld ''fn'' c_ptr,
   Fld [] (CUnion [] [
     Fld ''futex'' (CStruct [] [
     Fld ''uaddr'' c_ptr,
     Fld ''val'' u32_loongarch,
     Fld ''flags'' u32_loongarch,
     Fld ''bitset'' u32_loongarch,
     Fld ''time'' u64_loongarch,
     Fld ''uaddr2'' c_ptr]),
     Fld ''nanosleep'' (CStruct [] [
     Fld ''clockid'' clockid_t_loongarch,
     Fld ''type'' c_int,
     Fld [] (CUnion [] [
     Fld ''rmtp'' (CPtr ''__kernel_timespec''),
     Fld ''compat_rmtp'' (CPtr ''old_timespec32'')]),
     Fld ''expires'' u64_loongarch]),
     Fld ''poll'' (CStruct [] [
     Fld ''ufds'' (CPtr ''pollfd''),
     Fld ''nfds'' c_int,
     Fld ''has_timeout'' c_int,
     Fld ''tv_sec'' c_long,
     Fld ''tv_nsec'' c_long])])]"

definition k__kernel_pid_t_loongarch :: ctype where
  "k__kernel_pid_t_loongarch = c_int"

definition pid_t_loongarch :: ctype where
  "pid_t_loongarch = k__kernel_pid_t_loongarch"

definition hlist_node_loongarch :: ctype where
  "hlist_node_loongarch = CStruct ''hlist_node'' [
   Fld ''next'' (CPtr ''hlist_node''),
   Fld ''pprev'' (CPtr ''hlist_node'')]"

definition qspinlock_loongarch :: ctype where
  "qspinlock_loongarch = CStruct ''qspinlock'' [
   Fld [] (CUnion [] [
     Fld ''val'' atomic_t_loongarch,
     Fld [] (CStruct [] [
     Fld ''locked'' u8_loongarch,
     Fld ''pending'' u8_loongarch]),
     Fld [] (CStruct [] [
     Fld ''locked_pending'' u16_loongarch,
     Fld ''tail'' u16_loongarch])])]"

definition arch_spinlock_t_loongarch :: ctype where
  "arch_spinlock_t_loongarch = qspinlock_loongarch"

definition raw_spinlock_loongarch :: ctype where
  "raw_spinlock_loongarch = CStruct ''raw_spinlock'' [
   Fld ''raw_lock'' arch_spinlock_t_loongarch]"

definition raw_spinlock_t_loongarch :: ctype where
  "raw_spinlock_t_loongarch = raw_spinlock_loongarch"

definition prev_cputime_loongarch :: ctype where
  "prev_cputime_loongarch = CStruct ''prev_cputime'' [
   Fld ''utime'' u64_loongarch,
   Fld ''stime'' u64_loongarch,
   Fld ''lock'' raw_spinlock_t_loongarch]"

definition seqcount_loongarch :: ctype where
  "seqcount_loongarch = CStruct ''seqcount'' [
   Fld ''sequence'' c_int]"

definition seqcount_t_loongarch :: ctype where
  "seqcount_t_loongarch = seqcount_loongarch"

definition vtime_loongarch :: ctype where
  "vtime_loongarch = CStruct ''vtime'' [
   Fld ''seqcount'' seqcount_t_loongarch,
   Fld ''starttime'' c_long,
   Fld ''state'' c_int,
   Fld ''cpu'' c_int,
   Fld ''utime'' u64_loongarch,
   Fld ''stime'' u64_loongarch,
   Fld ''gtime'' u64_loongarch]"

definition rb_root_loongarch :: ctype where
  "rb_root_loongarch = CStruct ''rb_root'' [
   Fld ''rb_node'' (CPtr ''rb_node'')]"

definition rb_root_cached_loongarch :: ctype where
  "rb_root_cached_loongarch = CStruct ''rb_root_cached'' [
   Fld ''rb_root'' rb_root_loongarch,
   Fld ''rb_leftmost'' (CPtr ''rb_node'')]"

definition timerqueue_head_loongarch :: ctype where
  "timerqueue_head_loongarch = CStruct ''timerqueue_head'' [
   Fld ''rb_root'' rb_root_cached_loongarch]"

definition posix_cputimer_base_loongarch :: ctype where
  "posix_cputimer_base_loongarch = CStruct ''posix_cputimer_base'' [
   Fld ''nextevt'' u64_loongarch,
   Fld ''tqhead'' timerqueue_head_loongarch]"

definition posix_cputimers_loongarch :: ctype where
  "posix_cputimers_loongarch = CStruct ''posix_cputimers'' [
   Fld ''bases'' (CArr posix_cputimer_base_loongarch 3),
   Fld ''timers_active'' c_int,
   Fld ''expiry_active'' c_int]"

definition callback_head_loongarch :: ctype where
  "callback_head_loongarch = CStruct ''callback_head'' [
   Fld ''next'' (CPtr ''callback_head''),
   Fld ''func'' c_ptr]"

definition atomic64_t_loongarch :: ctype where
  "atomic64_t_loongarch = CStruct ''atomic64_t'' [
   Fld ''counter'' s64_loongarch]"

definition atomic_long_t_loongarch :: ctype where
  "atomic_long_t_loongarch = atomic64_t_loongarch"

definition optimistic_spin_queue_loongarch :: ctype where
  "optimistic_spin_queue_loongarch = CStruct ''optimistic_spin_queue'' [
   Fld ''tail'' atomic_t_loongarch]"

definition mutex_loongarch :: ctype where
  "mutex_loongarch = CStruct ''mutex'' [
   Fld ''owner'' atomic_long_t_loongarch,
   Fld ''wait_lock'' raw_spinlock_t_loongarch,
   Fld ''osq'' optimistic_spin_queue_loongarch,
   Fld ''wait_list'' list_head_loongarch]"

definition posix_cputimers_work_loongarch :: ctype where
  "posix_cputimers_work_loongarch = CStruct ''posix_cputimers_work'' [
   Fld ''work'' callback_head_loongarch,
   Fld ''mutex'' mutex_loongarch,
   Fld ''scheduled'' c_int]"

definition sysv_sem_loongarch :: ctype where
  "sysv_sem_loongarch = CStruct ''sysv_sem'' [
   Fld ''undo_list'' (CPtr ''sem_undo_list'')]"

definition sysv_shm_loongarch :: ctype where
  "sysv_shm_loongarch = CStruct ''sysv_shm'' [
   Fld ''shm_clist'' list_head_loongarch]"

definition sigset_t_loongarch :: ctype where
  "sigset_t_loongarch = CStruct ''sigset_t'' [
   Fld ''sig'' (CArr c_long 1)]"

definition sigpending_loongarch :: ctype where
  "sigpending_loongarch = CStruct ''sigpending'' [
   Fld ''list'' list_head_loongarch,
   Fld ''signal'' sigset_t_loongarch]"

definition k__kernel_ulong_t_loongarch :: ctype where
  "k__kernel_ulong_t_loongarch = c_long"

definition k__kernel_size_t_loongarch :: ctype where
  "k__kernel_size_t_loongarch = k__kernel_ulong_t_loongarch"

definition size_t_loongarch :: ctype where
  "size_t_loongarch = k__kernel_size_t_loongarch"

definition k__kernel_uid32_t_loongarch :: ctype where
  "k__kernel_uid32_t_loongarch = c_int"

definition uid_t_loongarch :: ctype where
  "uid_t_loongarch = k__kernel_uid32_t_loongarch"

definition kuid_t_loongarch :: ctype where
  "kuid_t_loongarch = CStruct ''kuid_t'' [
   Fld ''val'' uid_t_loongarch]"

definition seccomp_loongarch :: ctype where
  "seccomp_loongarch = CStruct ''seccomp'' [
   Fld ''mode'' c_int,
   Fld ''filter_count'' atomic_t_loongarch,
   Fld ''filter'' (CPtr ''seccomp_filter'')]"

definition bool_loongarch :: ctype where
  "bool_loongarch = c_bool"

definition syscall_user_dispatch_loongarch :: ctype where
  "syscall_user_dispatch_loongarch = CStruct ''syscall_user_dispatch'' [
   Fld ''selector'' c_ptr,
   Fld ''offset'' c_long,
   Fld ''len'' c_long,
   Fld ''on_dispatch'' bool_loongarch]"

definition spinlock_loongarch :: ctype where
  "spinlock_loongarch = CStruct ''spinlock'' [
   Fld [] (CUnion [] [
     Fld ''rlock'' raw_spinlock_loongarch])]"

definition spinlock_t_loongarch :: ctype where
  "spinlock_t_loongarch = spinlock_loongarch"

definition wake_q_node_loongarch :: ctype where
  "wake_q_node_loongarch = CStruct ''wake_q_node'' [
   Fld ''next'' (CPtr ''wake_q_node'')]"

definition task_io_accounting_loongarch :: ctype where
  "task_io_accounting_loongarch = CStruct ''task_io_accounting'' [
   Fld ''rchar'' u64_loongarch,
   Fld ''wchar'' u64_loongarch,
   Fld ''syscr'' u64_loongarch,
   Fld ''syscw'' u64_loongarch,
   Fld ''read_bytes'' u64_loongarch,
   Fld ''write_bytes'' u64_loongarch,
   Fld ''cancelled_write_bytes'' u64_loongarch]"

definition nodemask_t_loongarch :: ctype where
  "nodemask_t_loongarch = CStruct ''nodemask_t'' [
   Fld ''bits'' (CArr c_long 16)]"

definition seqcount_spinlock_loongarch :: ctype where
  "seqcount_spinlock_loongarch = CStruct ''seqcount_spinlock'' [
   Fld ''seqcount'' seqcount_t_loongarch]"

definition seqcount_spinlock_t_loongarch :: ctype where
  "seqcount_spinlock_t_loongarch = seqcount_spinlock_loongarch"

definition arch_tlbflush_unmap_batch_loongarch :: ctype where
  "arch_tlbflush_unmap_batch_loongarch = CStruct ''arch_tlbflush_unmap_batch'' [
   Fld ''cpumask'' cpumask_loongarch]"

definition tlbflush_unmap_batch_loongarch :: ctype where
  "tlbflush_unmap_batch_loongarch = CStruct ''tlbflush_unmap_batch'' [
   Fld ''arch'' arch_tlbflush_unmap_batch_loongarch,
   Fld ''flush_required'' bool_loongarch,
   Fld ''writable'' bool_loongarch]"

definition page_frag_loongarch :: ctype where
  "page_frag_loongarch = CStruct ''page_frag'' [
   Fld ''page'' (CPtr ''page''),
   Fld ''offset'' k__u32_loongarch,
   Fld ''size'' k__u32_loongarch]"

definition latency_record_loongarch :: ctype where
  "latency_record_loongarch = CStruct ''latency_record'' [
   Fld ''backtrace'' (CArr c_long 12),
   Fld ''count'' c_int,
   Fld ''time'' c_long,
   Fld ''max'' c_long]"

definition kmap_ctrl_loongarch :: ctype where
  "kmap_ctrl_loongarch = CStruct ''kmap_ctrl'' []"

definition timer_list_loongarch :: ctype where
  "timer_list_loongarch = CStruct ''timer_list'' [
   Fld ''entry'' hlist_node_loongarch,
   Fld ''expires'' c_long,
   Fld ''function'' c_ptr,
   Fld ''flags'' u32_loongarch]"

definition llist_head_loongarch :: ctype where
  "llist_head_loongarch = CStruct ''llist_head'' [
   Fld ''first'' (CPtr ''llist_node'')]"

definition desc_struct_loongarch :: ctype where
  "desc_struct_loongarch = CStruct ''desc_struct'' [
   Fld ''limit0'' u16_loongarch,
   Fld ''base0'' u16_loongarch,
   Bit ''base1'' 8 u16_loongarch,
   Bit ''type'' 4 u16_loongarch,
   Bit ''s'' 1 u16_loongarch,
   Bit ''dpl'' 2 u16_loongarch,
   Bit ''p'' 1 u16_loongarch,
   Bit ''limit1'' 4 u16_loongarch,
   Bit ''avl'' 1 u16_loongarch,
   Bit ''l'' 1 u16_loongarch,
   Bit ''d'' 1 u16_loongarch,
   Bit ''g'' 1 u16_loongarch,
   Bit ''base2'' 8 u16_loongarch]"

definition thread_shstk_loongarch :: ctype where
  "thread_shstk_loongarch = CStruct ''thread_shstk'' [
   Fld ''base'' u64_loongarch,
   Fld ''size'' u64_loongarch]"

definition fpu_state_perm_loongarch :: ctype where
  "fpu_state_perm_loongarch = CStruct ''fpu_state_perm'' [
   Fld ''__state_perm'' u64_loongarch,
   Fld ''__state_size'' c_int,
   Fld ''__user_state_size'' c_int]"

definition fregs_state_loongarch :: ctype where
  "fregs_state_loongarch = CStruct ''fregs_state'' [
   Fld ''cwd'' u32_loongarch,
   Fld ''swd'' u32_loongarch,
   Fld ''twd'' u32_loongarch,
   Fld ''fip'' u32_loongarch,
   Fld ''fcs'' u32_loongarch,
   Fld ''foo'' u32_loongarch,
   Fld ''fos'' u32_loongarch,
   Fld ''st_space'' (CArr u32_loongarch 20),
   Fld ''status'' u32_loongarch]"

definition fxregs_state_loongarch :: ctype where
  "fxregs_state_loongarch = CStruct ''fxregs_state'' [
   Fld ''cwd'' u16_loongarch,
   Fld ''swd'' u16_loongarch,
   Fld ''twd'' u16_loongarch,
   Fld ''fop'' u16_loongarch,
   Fld [] (CUnion [] [
     Fld [] (CStruct [] [
     Fld ''rip'' u64_loongarch,
     Fld ''rdp'' u64_loongarch]),
     Fld [] (CStruct [] [
     Fld ''fip'' u32_loongarch,
     Fld ''fcs'' u32_loongarch,
     Fld ''foo'' u32_loongarch,
     Fld ''fos'' u32_loongarch])]),
   Fld ''mxcsr'' u32_loongarch,
   Fld ''mxcsr_mask'' u32_loongarch,
   Fld ''st_space'' (CArr u32_loongarch 32),
   Fld ''xmm_space'' (CArr u32_loongarch 64),
   Fld ''padding'' (CArr u32_loongarch 12),
   Fld [] (CUnion [] [
     Fld ''padding1'' (CArr u32_loongarch 12),
     Fld ''sw_reserved'' (CArr u32_loongarch 12)])]"

definition swregs_state_loongarch :: ctype where
  "swregs_state_loongarch = CStruct ''swregs_state'' [
   Fld ''cwd'' u32_loongarch,
   Fld ''swd'' u32_loongarch,
   Fld ''twd'' u32_loongarch,
   Fld ''fip'' u32_loongarch,
   Fld ''fcs'' u32_loongarch,
   Fld ''foo'' u32_loongarch,
   Fld ''fos'' u32_loongarch,
   Fld ''st_space'' (CArr u32_loongarch 20),
   Fld ''ftop'' u8_loongarch,
   Fld ''changed'' u8_loongarch,
   Fld ''lookahead'' u8_loongarch,
   Fld ''no_update'' u8_loongarch,
   Fld ''rm'' u8_loongarch,
   Fld ''alimit'' u8_loongarch,
   Fld ''info'' (CPtr ''math_emu_info''),
   Fld ''entry_eip'' u32_loongarch]"

definition xstate_header_loongarch :: ctype where
  "xstate_header_loongarch = CStruct ''xstate_header'' [
   Fld ''xfeatures'' u64_loongarch,
   Fld ''xcomp_bv'' u64_loongarch,
   Fld ''reserved'' (CArr u64_loongarch 6)]"

definition xregs_state_loongarch :: ctype where
  "xregs_state_loongarch = CStruct ''xregs_state'' [
   Fld ''i387'' fxregs_state_loongarch,
   Fld ''header'' xstate_header_loongarch,
   Fld ''extended_state_area'' (CArr u8_loongarch 0)]"

definition fpregs_state_loongarch :: ctype where
  "fpregs_state_loongarch = CUnion ''fpregs_state'' [
   Fld ''fsave'' fregs_state_loongarch,
   Fld ''fxsave'' fxregs_state_loongarch,
   Fld ''soft'' swregs_state_loongarch,
   Fld ''xsave'' xregs_state_loongarch,
   Fld ''__padding'' (CArr u8_loongarch 4096)]"

definition fpstate_loongarch :: ctype where
  "fpstate_loongarch = CStruct ''fpstate'' [
   Fld ''size'' c_int,
   Fld ''user_size'' c_int,
   Fld ''xfeatures'' u64_loongarch,
   Fld ''user_xfeatures'' u64_loongarch,
   Fld ''xfd'' u64_loongarch,
   Bit ''is_valloc'' 1 c_int,
   Bit ''is_guest'' 1 c_int,
   Bit ''is_confidential'' 1 c_int,
   Bit ''in_use'' 1 c_int,
   Bit [] 64 c_long,
   Bit [] 64 c_long,
   Bit [] 64 c_long,
   Fld ''regs'' fpregs_state_loongarch]"

definition fpu_loongarch :: ctype where
  "fpu_loongarch = CStruct ''fpu'' [
   Fld ''last_cpu'' c_int,
   Fld ''avx512_timestamp'' c_long,
   Fld ''fpstate'' (CPtr ''fpstate''),
   Fld ''__task_fpstate'' (CPtr ''fpstate''),
   Fld ''perm'' fpu_state_perm_loongarch,
   Fld ''guest_perm'' fpu_state_perm_loongarch,
   Fld ''__fpstate'' fpstate_loongarch]"

definition thread_struct_loongarch :: ctype where
  "thread_struct_loongarch = CStruct ''thread_struct'' [
   Fld ''tls_array'' (CArr desc_struct_loongarch 3),
   Fld ''sp'' c_long,
   Fld ''es'' c_short,
   Fld ''ds'' c_short,
   Fld ''fsindex'' c_short,
   Fld ''gsindex'' c_short,
   Fld ''fsbase'' c_long,
   Fld ''gsbase'' c_long,
   Fld ''ptrace_bps'' (CArr (CPtr ''perf_event'') 4),
   Fld ''virtual_dr6'' c_long,
   Fld ''ptrace_dr7'' c_long,
   Fld ''cr2'' c_long,
   Fld ''trap_nr'' c_long,
   Fld ''error_code'' c_long,
   Fld ''io_bitmap'' (CPtr ''io_bitmap''),
   Fld ''iopl_emul'' c_long,
   Bit ''iopl_warn'' 1 c_int,
   Fld ''pkru'' u32_loongarch,
   Fld ''features'' c_long,
   Fld ''features_locked'' c_long,
   Fld ''shstk'' thread_shstk_loongarch,
   Bit [] 64 c_long,
   Fld ''fpu'' fpu_loongarch]"

definition task_struct_members1_loongarch :: "cfield list" where
  "task_struct_members1_loongarch = [
   Fld ''thread_info'' thread_info_loongarch,
   Fld ''__state'' c_int,
   Fld ''saved_state'' c_int,
   Fld ''stack'' c_ptr,
   Fld ''usage'' refcount_t_loongarch,
   Fld ''flags'' c_int,
   Fld ''ptrace'' c_int,
   Fld ''on_cpu'' c_int,
   Fld ''wake_entry'' k__call_single_node_loongarch,
   Fld ''wakee_flips'' c_int,
   Fld ''wakee_flip_decay_ts'' c_long,
   Fld ''last_wakee'' (CPtr ''task_struct''),
   Fld ''recent_used_cpu'' c_int,
   Fld ''wake_cpu'' c_int,
   Fld ''on_rq'' c_int,
   Fld ''prio'' c_int,
   Fld ''static_prio'' c_int,
   Fld ''normal_prio'' c_int,
   Fld ''rt_priority'' c_int,
   Fld ''se'' sched_entity_loongarch,
   Fld ''rt'' sched_rt_entity_loongarch,
   Fld ''dl'' sched_dl_entity_loongarch,
   Fld ''dl_server'' (CPtr ''sched_dl_entity''),
   Fld ''sched_class'' (CPtr ''sched_class''),
   Fld ''core_node'' rb_node_loongarch,
   Fld ''core_cookie'' c_long,
   Fld ''core_occupation'' c_int,
   Fld ''sched_task_group'' (CPtr ''task_group''),
   Fld ''uclamp_req'' (CArr uclamp_se_loongarch 2),
   Fld ''uclamp'' (CArr uclamp_se_loongarch 2),
   Bit [] 64 c_long,
   Fld ''stats'' sched_statistics_loongarch,
   Fld ''preempt_notifiers'' hlist_head_loongarch,
   Fld ''btrace_seq'' c_int,
   Fld ''policy'' c_int,
   Fld ''max_allowed_capacity'' c_long,
   Fld ''nr_cpus_allowed'' c_int,
   Fld ''cpus_ptr'' c_ptr,
   Fld ''user_cpus_ptr'' c_ptr,
   Fld ''cpus_mask'' cpumask_t_loongarch,
   Fld ''migration_pending'' c_ptr,
   Fld ''migration_disabled'' c_short,
   Fld ''migration_flags'' c_short,
   Fld ''rcu_read_lock_nesting'' c_int,
   Fld ''rcu_read_unlock_special'' rcu_special_loongarch,
   Fld ''rcu_node_entry'' list_head_loongarch,
   Fld ''rcu_blocked_node'' (CPtr ''rcu_node''),
   Fld ''rcu_tasks_nvcsw'' c_long,
   Fld ''rcu_tasks_holdout'' u8_loongarch,
   Fld ''rcu_tasks_idx'' u8_loongarch,
   Fld ''rcu_tasks_idle_cpu'' c_int,
   Fld ''rcu_tasks_holdout_list'' list_head_loongarch,
   Fld ''rcu_tasks_exit_cpu'' c_int,
   Fld ''rcu_tasks_exit_list'' list_head_loongarch,
   Fld ''trc_reader_nesting'' c_int,
   Fld ''trc_ipi_to_cpu'' c_int,
   Fld ''trc_reader_special'' rcu_special_loongarch,
   Fld ''trc_holdout_list'' list_head_loongarch,
   Fld ''trc_blkd_node'' list_head_loongarch,
   Fld ''trc_blkd_cpu'' c_int,
   Fld ''sched_info'' sched_info_loongarch,
   Fld ''tasks'' list_head_loongarch,
   Fld ''pushable_tasks'' plist_node_loongarch,
   Fld ''pushable_dl_tasks'' rb_node_loongarch,
   Fld ''mm'' (CPtr ''mm_struct''),
   Fld ''active_mm'' (CPtr ''mm_struct''),
   Fld ''faults_disabled_mapping'' (CPtr ''address_space''),
   Fld ''exit_state'' c_int,
   Fld ''exit_code'' c_int,
   Fld ''exit_signal'' c_int,
   Fld ''pdeath_signal'' c_int,
   Fld ''jobctl'' c_long,
   Fld ''personality'' c_int,
   Bit ''sched_reset_on_fork'' 1 c_int,
   Bit ''sched_contributes_to_load'' 1 c_int,
   Bit ''sched_migrated'' 1 c_int,
   Bit ''sched_task_hot'' 1 c_int,
   Bit [] 28 c_long,
   Bit ''sched_remote_wakeup'' 1 c_int,
   Bit ''sched_rt_mutex'' 1 c_int,
   Bit ''in_execve'' 1 c_int,
   Bit ''in_iowait'' 1 c_int,
   Bit ''restore_sigmask'' 1 c_int,
   Bit ''no_cgroup_migration'' 1 c_int,
   Bit ''frozen'' 1 c_int,
   Bit ''use_memdelay'' 1 c_int,
   Bit ''in_memstall'' 1 c_int,
   Bit ''in_eventfd'' 1 c_int,
   Bit ''pasid_activated'' 1 c_int,
   Bit ''reported_split_lock'' 1 c_int,
   Bit ''in_thrashing'' 1 c_int,
   Fld ''atomic_flags'' c_long,
   Fld ''restart_block'' restart_block_loongarch,
   Fld ''pid'' pid_t_loongarch,
   Fld ''tgid'' pid_t_loongarch,
   Fld ''stack_canary'' c_long,
   Fld ''real_parent'' (CPtr ''task_struct''),
   Fld ''parent'' (CPtr ''task_struct''),
   Fld ''children'' list_head_loongarch,
   Fld ''sibling'' list_head_loongarch,
   Fld ''group_leader'' (CPtr ''task_struct''),
   Fld ''ptraced'' list_head_loongarch,
   Fld ''ptrace_entry'' list_head_loongarch,
   Fld ''thread_pid'' (CPtr ''pid''),
   Fld ''pid_links'' (CArr hlist_node_loongarch 4),
   Fld ''thread_node'' list_head_loongarch,
   Fld ''vfork_done'' (CPtr ''completion''),
   Fld ''set_child_tid'' c_ptr,
   Fld ''clear_child_tid'' c_ptr,
   Fld ''worker_private'' c_ptr,
   Fld ''utime'' u64_loongarch,
   Fld ''stime'' u64_loongarch,
   Fld ''gtime'' u64_loongarch,
   Fld ''prev_cputime'' prev_cputime_loongarch,
   Fld ''vtime'' vtime_loongarch,
   Fld ''nvcsw'' c_long,
   Fld ''nivcsw'' c_long,
   Fld ''start_time'' u64_loongarch,
   Fld ''start_boottime'' u64_loongarch,
   Fld ''min_flt'' c_long,
   Fld ''maj_flt'' c_long,
   Fld ''posix_cputimers'' posix_cputimers_loongarch,
   Fld ''posix_cputimers_work'' posix_cputimers_work_loongarch,
   Fld ''ptracer_cred'' (CPtr ''cred''),
   Fld ''real_cred'' (CPtr ''cred''),
   Fld ''cred'' (CPtr ''cred''),
   Fld ''cached_requested_key'' (CPtr ''key''),
   Fld ''comm'' (CArr c_char 16),
   Fld ''nameidata'' (CPtr ''nameidata''),
   Fld ''sysvsem'' sysv_sem_loongarch,
   Fld ''sysvshm'' sysv_shm_loongarch,
   Fld ''last_switch_count'' c_long,
   Fld ''last_switch_time'' c_long,
   Fld ''fs'' (CPtr ''fs_struct''),
   Fld ''files'' (CPtr ''files_struct''),
   Fld ''io_uring'' (CPtr ''io_uring_task''),
   Fld ''nsproxy'' (CPtr ''nsproxy''),
   Fld ''signal'' (CPtr ''signal_struct''),
   Fld ''sighand'' (CPtr ''sighand_struct'')]"

definition task_struct_members2_loongarch :: "cfield list" where
  "task_struct_members2_loongarch = [
   Fld ''blocked'' sigset_t_loongarch,
   Fld ''real_blocked'' sigset_t_loongarch,
   Fld ''saved_sigmask'' sigset_t_loongarch,
   Fld ''pending'' sigpending_loongarch,
   Fld ''sas_ss_sp'' c_long,
   Fld ''sas_ss_size'' size_t_loongarch,
   Fld ''sas_ss_flags'' c_int,
   Fld ''task_works'' (CPtr ''callback_head''),
   Fld ''audit_context'' (CPtr ''audit_context''),
   Fld ''loginuid'' kuid_t_loongarch,
   Fld ''sessionid'' c_int,
   Fld ''seccomp'' seccomp_loongarch,
   Fld ''syscall_dispatch'' syscall_user_dispatch_loongarch,
   Fld ''parent_exec_id'' u64_loongarch,
   Fld ''self_exec_id'' u64_loongarch,
   Fld ''alloc_lock'' spinlock_t_loongarch,
   Fld ''pi_lock'' raw_spinlock_t_loongarch,
   Fld ''wake_q'' wake_q_node_loongarch,
   Fld ''pi_waiters'' rb_root_cached_loongarch,
   Fld ''pi_top_task'' (CPtr ''task_struct''),
   Fld ''pi_blocked_on'' (CPtr ''rt_mutex_waiter''),
   Fld ''journal_info'' c_ptr,
   Fld ''bio_list'' (CPtr ''bio_list''),
   Fld ''plug'' (CPtr ''blk_plug''),
   Fld ''reclaim_state'' (CPtr ''reclaim_state''),
   Fld ''io_context'' (CPtr ''io_context''),
   Fld ''capture_control'' (CPtr ''capture_control''),
   Fld ''ptrace_message'' c_long,
   Fld ''last_siginfo'' c_ptr,
   Fld ''ioac'' task_io_accounting_loongarch,
   Fld ''psi_flags'' c_int,
   Fld ''acct_rss_mem1'' u64_loongarch,
   Fld ''acct_vm_mem1'' u64_loongarch,
   Fld ''acct_timexpd'' u64_loongarch,
   Fld ''mems_allowed'' nodemask_t_loongarch,
   Fld ''mems_allowed_seq'' seqcount_spinlock_t_loongarch,
   Fld ''cpuset_mem_spread_rotor'' c_int,
   Fld ''cgroups'' (CPtr ''css_set''),
   Fld ''cg_list'' list_head_loongarch,
   Fld ''closid'' u32_loongarch,
   Fld ''rmid'' u32_loongarch,
   Fld ''robust_list'' (CPtr ''robust_list_head''),
   Fld ''compat_robust_list'' (CPtr ''compat_robust_list_head''),
   Fld ''pi_state_list'' list_head_loongarch,
   Fld ''pi_state_cache'' (CPtr ''futex_pi_state''),
   Fld ''futex_exit_mutex'' mutex_loongarch,
   Fld ''futex_state'' c_int,
   Fld ''perf_recursion'' (CArr u8_loongarch 4),
   Fld ''perf_event_ctxp'' (CPtr ''perf_event_context''),
   Fld ''perf_event_mutex'' mutex_loongarch,
   Fld ''perf_event_list'' list_head_loongarch,
   Fld ''mempolicy'' (CPtr ''mempolicy''),
   Fld ''il_prev'' c_short,
   Fld ''il_weight'' u8_loongarch,
   Fld ''pref_node_fork'' c_short,
   Fld ''numa_scan_seq'' c_int,
   Fld ''numa_scan_period'' c_int,
   Fld ''numa_scan_period_max'' c_int,
   Fld ''numa_preferred_nid'' c_int,
   Fld ''numa_migrate_retry'' c_long,
   Fld ''node_stamp'' u64_loongarch,
   Fld ''last_task_numa_placement'' u64_loongarch,
   Fld ''last_sum_exec_runtime'' u64_loongarch,
   Fld ''numa_work'' callback_head_loongarch,
   Fld ''numa_group'' (CPtr ''numa_group''),
   Fld ''numa_faults'' c_ptr,
   Fld ''total_numa_faults'' c_long,
   Fld ''numa_faults_locality'' (CArr c_long 3),
   Fld ''numa_pages_migrated'' c_long,
   Fld ''rseq'' (CPtr ''rseq''),
   Fld ''rseq_len'' u32_loongarch,
   Fld ''rseq_sig'' u32_loongarch,
   Fld ''rseq_event_mask'' c_long,
   Fld ''mm_cid'' c_int,
   Fld ''last_mm_cid'' c_int,
   Fld ''migrate_from_cpu'' c_int,
   Fld ''mm_cid_active'' c_int,
   Fld ''cid_work'' callback_head_loongarch,
   Fld ''tlb_ubc'' tlbflush_unmap_batch_loongarch,
   Fld ''splice_pipe'' (CPtr ''pipe_inode_info''),
   Fld ''task_frag'' page_frag_loongarch,
   Fld ''delays'' (CPtr ''task_delay_info''),
   Fld ''nr_dirtied'' c_int,
   Fld ''nr_dirtied_pause'' c_int,
   Fld ''dirty_paused_when'' c_long,
   Fld ''latency_record_count'' c_int,
   Fld ''latency_record'' (CArr latency_record_loongarch 32),
   Fld ''timer_slack_ns'' u64_loongarch,
   Fld ''default_timer_slack_ns'' u64_loongarch,
   Fld ''curr_ret_stack'' c_int,
   Fld ''curr_ret_depth'' c_int,
   Fld ''ret_stack'' c_ptr,
   Fld ''ftrace_timestamp'' c_long,
   Fld ''trace_overrun'' atomic_t_loongarch,
   Fld ''tracing_graph_pause'' atomic_t_loongarch,
   Fld ''trace_recursion'' c_long,
   Fld ''memcg_nr_pages_over_high'' c_int,
   Fld ''active_memcg'' (CPtr ''mem_cgroup''),
   Fld ''objcg'' (CPtr ''obj_cgroup''),
   Fld ''throttle_disk'' (CPtr ''gendisk''),
   Fld ''utask'' (CPtr ''uprobe_task''),
   Fld ''sequential_io'' c_int,
   Fld ''sequential_io_avg'' c_int,
   Fld ''kmap_ctrl'' kmap_ctrl_loongarch,
   Fld ''rcu'' callback_head_loongarch,
   Fld ''rcu_users'' refcount_t_loongarch,
   Fld ''pagefault_disabled'' c_int,
   Fld ''oom_reaper_list'' (CPtr ''task_struct''),
   Fld ''oom_reaper_timer'' timer_list_loongarch,
   Fld ''stack_vm_area'' (CPtr ''vm_struct''),
   Fld ''stack_refcount'' refcount_t_loongarch,
   Fld ''security'' c_ptr,
   Fld ''bpf_storage'' (CPtr ''bpf_local_storage''),
   Fld ''bpf_ctx'' (CPtr ''bpf_run_ctx''),
   Fld ''bpf_net_context'' (CPtr ''bpf_net_context''),
   Fld ''mce_vaddr'' c_ptr,
   Fld ''mce_kflags'' k__u64_loongarch,
   Fld ''mce_addr'' u64_loongarch,
   Bit ''mce_ripv'' 1 k__u64_loongarch,
   Bit ''mce_whole_page'' 1 k__u64_loongarch,
   Bit ''__mce_reserved'' 62 k__u64_loongarch,
   Fld ''mce_kill_me'' callback_head_loongarch,
   Fld ''mce_count'' c_int,
   Fld ''kretprobe_instances'' llist_head_loongarch,
   Fld ''rethooks'' llist_head_loongarch,
   Fld ''l1d_flush_kill'' callback_head_loongarch,
   Bit [] 64 c_long,
   Bit [] 64 c_long,
   Bit [] 64 c_long,
   Bit [] 64 c_long,
   Bit [] 64 c_long,
   Fld ''thread'' thread_struct_loongarch]"

definition task_struct_loongarch :: ctype where
  "task_struct_loongarch = CStruct ''task_struct'' (task_struct_members1_loongarch @ task_struct_members2_loongarch)"

definition blk_opf_t_loongarch :: ctype where
  "blk_opf_t_loongarch = k__u32_loongarch"

definition blk_status_t_loongarch :: ctype where
  "blk_status_t_loongarch = u8_loongarch"

definition sector_t_loongarch :: ctype where
  "sector_t_loongarch = u64_loongarch"

definition bvec_iter_loongarch :: ctype where
  "bvec_iter_loongarch = CPacked ''bvec_iter'' [
   Fld ''bi_sector'' sector_t_loongarch,
   Fld ''bi_size'' c_int,
   Fld ''bi_idx'' c_int,
   Fld ''bi_bvec_done'' c_int]"

definition blk_qc_t_loongarch :: ctype where
  "blk_qc_t_loongarch = c_int"

definition bio_issue_loongarch :: ctype where
  "bio_issue_loongarch = CStruct ''bio_issue'' [
   Fld ''value'' u64_loongarch]"

definition bio_vec_loongarch :: ctype where
  "bio_vec_loongarch = CStruct ''bio_vec'' [
   Fld ''bv_page'' (CPtr ''page''),
   Fld ''bv_len'' c_int,
   Fld ''bv_offset'' c_int]"

definition bio_loongarch :: ctype where
  "bio_loongarch = CStruct ''bio'' [
   Fld ''bi_next'' (CPtr ''bio''),
   Fld ''bi_bdev'' (CPtr ''block_device''),
   Fld ''bi_opf'' blk_opf_t_loongarch,
   Fld ''bi_flags'' c_short,
   Fld ''bi_ioprio'' c_short,
   Fld ''bi_write_hint'' c_int,
   Fld ''bi_status'' blk_status_t_loongarch,
   Fld ''__bi_remaining'' atomic_t_loongarch,
   Fld ''bi_iter'' bvec_iter_loongarch,
   Fld [] (CUnion [] [
     Fld ''bi_cookie'' blk_qc_t_loongarch,
     Fld ''__bi_nr_segments'' c_int]),
   Fld ''bi_end_io'' c_ptr,
   Fld ''bi_private'' c_ptr,
   Fld ''bi_blkg'' (CPtr ''blkcg_gq''),
   Fld ''bi_issue'' bio_issue_loongarch,
   Fld ''bi_iocost_cost'' u64_loongarch,
   Fld ''bi_crypt_context'' (CPtr ''bio_crypt_ctx''),
   Fld ''bi_integrity'' (CPtr ''bio_integrity_payload''),
   Fld ''bi_vcnt'' c_short,
   Fld ''bi_max_vecs'' c_short,
   Fld ''__bi_cnt'' atomic_t_loongarch,
   Fld ''bi_io_vec'' (CPtr ''bio_vec''),
   Fld ''bi_pool'' (CPtr ''bio_set''),
   Fld ''bi_inline_vecs'' (CArr bio_vec_loongarch 0)]"

definition k__kernel_dev_t_loongarch :: ctype where
  "k__kernel_dev_t_loongarch = u32_loongarch"

definition dev_t_loongarch :: ctype where
  "dev_t_loongarch = k__kernel_dev_t_loongarch"

definition kref_loongarch :: ctype where
  "kref_loongarch = CStruct ''kref'' [
   Fld ''refcount'' refcount_t_loongarch]"

definition kobject_loongarch :: ctype where
  "kobject_loongarch = CStruct ''kobject'' [
   Fld ''name'' c_ptr,
   Fld ''entry'' list_head_loongarch,
   Fld ''parent'' (CPtr ''kobject''),
   Fld ''kset'' (CPtr ''kset''),
   Fld ''ktype'' (CPtr ''kobj_type''),
   Fld ''sd'' (CPtr ''kernfs_node''),
   Fld ''kref'' kref_loongarch,
   Bit ''state_initialized'' 1 c_int,
   Bit ''state_in_sysfs'' 1 c_int,
   Bit ''state_add_uevent_sent'' 1 c_int,
   Bit ''state_remove_uevent_sent'' 1 c_int,
   Bit ''uevent_suppress'' 1 c_int]"

definition dev_links_info_loongarch :: ctype where
  "dev_links_info_loongarch = CStruct ''dev_links_info'' [
   Fld ''suppliers'' list_head_loongarch,
   Fld ''consumers'' list_head_loongarch,
   Fld ''defer_sync'' list_head_loongarch,
   Fld ''status'' c_int]"

definition pm_message_loongarch :: ctype where
  "pm_message_loongarch = CStruct ''pm_message'' [
   Fld ''event'' c_int]"

definition pm_message_t_loongarch :: ctype where
  "pm_message_t_loongarch = pm_message_loongarch"

definition swait_queue_head_loongarch :: ctype where
  "swait_queue_head_loongarch = CStruct ''swait_queue_head'' [
   Fld ''lock'' raw_spinlock_t_loongarch,
   Fld ''task_list'' list_head_loongarch]"

definition completion_loongarch :: ctype where
  "completion_loongarch = CStruct ''completion'' [
   Fld ''done'' c_int,
   Fld ''wait'' swait_queue_head_loongarch]"

definition work_func_t_loongarch :: ctype where
  "work_func_t_loongarch = c_ptr"

definition work_struct_loongarch :: ctype where
  "work_struct_loongarch = CStruct ''work_struct'' [
   Fld ''data'' atomic_long_t_loongarch,
   Fld ''entry'' list_head_loongarch,
   Fld ''func'' work_func_t_loongarch]"

definition wait_queue_head_loongarch :: ctype where
  "wait_queue_head_loongarch = CStruct ''wait_queue_head'' [
   Fld ''lock'' spinlock_t_loongarch,
   Fld ''head'' list_head_loongarch]"

definition wait_queue_head_t_loongarch :: ctype where
  "wait_queue_head_t_loongarch = wait_queue_head_loongarch"

definition dev_pm_info_loongarch :: ctype where
  "dev_pm_info_loongarch = CStruct ''dev_pm_info'' [
   Fld ''power_state'' pm_message_t_loongarch,
   Bit ''can_wakeup'' 1 bool_loongarch,
   Bit ''async_suspend'' 1 bool_loongarch,
   Bit ''in_dpm_list'' 1 bool_loongarch,
   Bit ''is_prepared'' 1 bool_loongarch,
   Bit ''is_suspended'' 1 bool_loongarch,
   Bit ''is_noirq_suspended'' 1 bool_loongarch,
   Bit ''is_late_suspended'' 1 bool_loongarch,
   Bit ''no_pm'' 1 bool_loongarch,
   Bit ''early_init'' 1 bool_loongarch,
   Bit ''direct_complete'' 1 bool_loongarch,
   Fld ''driver_flags'' u32_loongarch,
   Fld ''lock'' spinlock_t_loongarch,
   Fld ''entry'' list_head_loongarch,
   Fld ''completion'' completion_loongarch,
   Fld ''wakeup'' (CPtr ''wakeup_source''),
   Bit ''wakeup_path'' 1 bool_loongarch,
   Bit ''syscore'' 1 bool_loongarch,
   Bit ''no_pm_callbacks'' 1 bool_loongarch,
   Bit ''async_in_progress'' 1 bool_loongarch,
   Bit ''must_resume'' 1 bool_loongarch,
   Bit ''may_skip_resume'' 1 bool_loongarch,
   Fld ''suspend_timer'' hrtimer_loongarch,
   Fld ''timer_expires'' u64_loongarch,
   Fld ''work'' work_struct_loongarch,
   Fld ''wait_queue'' wait_queue_head_t_loongarch,
   Fld ''wakeirq'' (CPtr ''wake_irq''),
   Fld ''usage_count'' atomic_t_loongarch,
   Fld ''child_count'' atomic_t_loongarch,
   Bit ''disable_depth'' 3 c_int,
   Bit ''idle_notification'' 1 bool_loongarch,
   Bit ''request_pending'' 1 bool_loongarch,
   Bit ''deferred_resume'' 1 bool_loongarch,
   Bit ''needs_force_resume'' 1 bool_loongarch,
   Bit ''runtime_auto'' 1 bool_loongarch,
   Bit ''ignore_children'' 1 bool_loongarch,
   Bit ''no_callbacks'' 1 bool_loongarch,
   Bit ''irq_safe'' 1 bool_loongarch,
   Bit ''use_autosuspend'' 1 bool_loongarch,
   Bit ''timer_autosuspends'' 1 bool_loongarch,
   Bit ''memalloc_noio'' 1 bool_loongarch,
   Fld ''links_count'' c_int,
   Fld ''request'' c_int,
   Fld ''runtime_status'' c_int,
   Fld ''last_status'' c_int,
   Fld ''runtime_error'' c_int,
   Fld ''autosuspend_delay'' c_int,
   Fld ''last_busy'' u64_loongarch,
   Fld ''active_time'' u64_loongarch,
   Fld ''suspended_time'' u64_loongarch,
   Fld ''accounting_timestamp'' u64_loongarch,
   Fld ''subsys_data'' (CPtr ''pm_subsys_data''),
   Fld ''set_latency_tolerance'' c_ptr,
   Fld ''qos'' (CPtr ''dev_pm_qos'')]"

definition dev_msi_info_loongarch :: ctype where
  "dev_msi_info_loongarch = CStruct ''dev_msi_info'' [
   Fld ''domain'' (CPtr ''irq_domain''),
   Fld ''data'' (CPtr ''msi_device_data'')]"

definition dev_archdata_loongarch :: ctype where
  "dev_archdata_loongarch = CStruct ''dev_archdata'' []"

definition device_loongarch :: ctype where
  "device_loongarch = CStruct ''device'' [
   Fld ''kobj'' kobject_loongarch,
   Fld ''parent'' (CPtr ''device''),
   Fld ''p'' (CPtr ''device_private''),
   Fld ''init_name'' c_ptr,
   Fld ''type'' (CPtr ''device_type''),
   Fld ''bus'' (CPtr ''bus_type''),
   Fld ''driver'' (CPtr ''device_driver''),
   Fld ''platform_data'' c_ptr,
   Fld ''driver_data'' c_ptr,
   Fld ''mutex'' mutex_loongarch,
   Fld ''links'' dev_links_info_loongarch,
   Fld ''power'' dev_pm_info_loongarch,
   Fld ''pm_domain'' (CPtr ''dev_pm_domain''),
   Fld ''em_pd'' (CPtr ''em_perf_domain''),
   Fld ''pins'' (CPtr ''dev_pin_info''),
   Fld ''msi'' dev_msi_info_loongarch,
   Fld ''dma_ops'' (CPtr ''dma_map_ops''),
   Fld ''dma_mask'' c_ptr,
   Fld ''coherent_dma_mask'' u64_loongarch,
   Fld ''bus_dma_limit'' u64_loongarch,
   Fld ''dma_range_map'' (CPtr ''bus_dma_region''),
   Fld ''dma_parms'' (CPtr ''device_dma_parameters''),
   Fld ''dma_pools'' list_head_loongarch,
   Fld ''cma_area'' (CPtr ''cma''),
   Fld ''dma_io_tlb_mem'' (CPtr ''io_tlb_mem''),
   Fld ''archdata'' dev_archdata_loongarch,
   Fld ''of_node'' (CPtr ''device_node''),
   Fld ''fwnode'' (CPtr ''fwnode_handle''),
   Fld ''numa_node'' c_int,
   Fld ''devt'' dev_t_loongarch,
   Fld ''id'' u32_loongarch,
   Fld ''devres_lock'' spinlock_t_loongarch,
   Fld ''devres_head'' list_head_loongarch,
   Fld ''class'' (CPtr ''class''),
   Fld ''groups'' (CPtr ''attribute_group''),
   Fld ''release'' c_ptr,
   Fld ''iommu_group'' (CPtr ''iommu_group''),
   Fld ''iommu'' (CPtr ''dev_iommu''),
   Fld ''physical_location'' (CPtr ''device_physical_location''),
   Fld ''removable'' c_int,
   Bit ''offline_disabled'' 1 bool_loongarch,
   Bit ''offline'' 1 bool_loongarch,
   Bit ''of_node_reused'' 1 bool_loongarch,
   Bit ''state_synced'' 1 bool_loongarch,
   Bit ''can_match'' 1 bool_loongarch,
   Bit ''dma_skip_sync'' 1 bool_loongarch,
   Bit ''dma_iommu'' 1 bool_loongarch]"

definition block_device_loongarch :: ctype where
  "block_device_loongarch = CStruct ''block_device'' [
   Fld ''bd_start_sect'' sector_t_loongarch,
   Fld ''bd_nr_sectors'' sector_t_loongarch,
   Fld ''bd_disk'' (CPtr ''gendisk''),
   Fld ''bd_queue'' (CPtr ''request_queue''),
   Fld ''bd_stats'' (CPtr ''disk_stats''),
   Fld ''bd_stamp'' c_long,
   Fld ''__bd_flags'' atomic_t_loongarch,
   Fld ''bd_dev'' dev_t_loongarch,
   Fld ''bd_mapping'' (CPtr ''address_space''),
   Fld ''bd_openers'' atomic_t_loongarch,
   Fld ''bd_size_lock'' spinlock_t_loongarch,
   Fld ''bd_claiming'' c_ptr,
   Fld ''bd_holder'' c_ptr,
   Fld ''bd_holder_ops'' (CPtr ''blk_holder_ops''),
   Fld ''bd_holder_lock'' mutex_loongarch,
   Fld ''bd_holders'' c_int,
   Fld ''bd_holder_dir'' (CPtr ''kobject''),
   Fld ''bd_fsfreeze_count'' atomic_t_loongarch,
   Fld ''bd_fsfreeze_mutex'' mutex_loongarch,
   Fld ''bd_meta_info'' (CPtr ''partition_meta_info''),
   Fld ''bd_writers'' c_int,
   Fld ''bd_security'' c_ptr,
   Fld ''bd_device'' device_loongarch]"

definition gfp_t_loongarch :: ctype where
  "gfp_t_loongarch = c_int"

definition xarray_loongarch :: ctype where
  "xarray_loongarch = CStruct ''xarray'' [
   Fld ''xa_lock'' spinlock_t_loongarch,
   Fld ''xa_flags'' gfp_t_loongarch,
   Fld ''xa_head'' c_ptr]"

definition mempool_s_loongarch :: ctype where
  "mempool_s_loongarch = CStruct ''mempool_s'' [
   Fld ''lock'' spinlock_t_loongarch,
   Fld ''min_nr'' c_int,
   Fld ''curr_nr'' c_int,
   Fld ''elements'' c_ptr,
   Fld ''pool_data'' c_ptr,
   Fld ''alloc'' c_ptr,
   Fld ''free'' c_ptr,
   Fld ''wait'' wait_queue_head_t_loongarch]"

definition mempool_t_loongarch :: ctype where
  "mempool_t_loongarch = mempool_s_loongarch"

definition bio_list_loongarch :: ctype where
  "bio_list_loongarch = CStruct ''bio_list'' [
   Fld ''head'' (CPtr ''bio''),
   Fld ''tail'' (CPtr ''bio'')]"

definition bio_set_loongarch :: ctype where
  "bio_set_loongarch = CStruct ''bio_set'' [
   Fld ''bio_slab'' (CPtr ''kmem_cache''),
   Fld ''front_pad'' c_int,
   Fld ''cache'' (CPtr ''bio_alloc_cache''),
   Fld ''bio_pool'' mempool_t_loongarch,
   Fld ''bvec_pool'' mempool_t_loongarch,
   Fld ''bio_integrity_pool'' mempool_t_loongarch,
   Fld ''bvec_integrity_pool'' mempool_t_loongarch,
   Fld ''back_pad'' c_int,
   Fld ''rescue_lock'' spinlock_t_loongarch,
   Fld ''rescue_list'' bio_list_loongarch,
   Fld ''rescue_work'' work_struct_loongarch,
   Fld ''rescue_workqueue'' (CPtr ''workqueue_struct''),
   Fld ''cpuhp_dead'' hlist_node_loongarch]"

definition lockdep_map_loongarch :: ctype where
  "lockdep_map_loongarch = CStruct ''lockdep_map'' []"

definition blk_mode_t_loongarch :: ctype where
  "blk_mode_t_loongarch = c_int"

definition gendisk_loongarch :: ctype where
  "gendisk_loongarch = CStruct ''gendisk'' [
   Fld ''major'' c_int,
   Fld ''first_minor'' c_int,
   Fld ''minors'' c_int,
   Fld ''disk_name'' (CArr c_char 32),
   Fld ''events'' c_short,
   Fld ''event_flags'' c_short,
   Fld ''part_tbl'' xarray_loongarch,
   Fld ''part0'' (CPtr ''block_device''),
   Fld ''fops'' (CPtr ''block_device_operations''),
   Fld ''queue'' (CPtr ''request_queue''),
   Fld ''private_data'' c_ptr,
   Fld ''bio_split'' bio_set_loongarch,
   Fld ''flags'' c_int,
   Fld ''state'' c_long,
   Fld ''open_mutex'' mutex_loongarch,
   Fld ''open_partitions'' c_int,
   Fld ''bdi'' (CPtr ''backing_dev_info''),
   Fld ''queue_kobj'' kobject_loongarch,
   Fld ''slave_dir'' (CPtr ''kobject''),
   Fld ''slave_bdevs'' list_head_loongarch,
   Fld ''random'' (CPtr ''timer_rand_state''),
   Fld ''sync_io'' atomic_t_loongarch,
   Fld ''ev'' (CPtr ''disk_events''),
   Fld ''nr_zones'' c_int,
   Fld ''zone_capacity'' c_int,
   Fld ''last_zone_capacity'' c_int,
   Fld ''conv_zones_bitmap'' c_ptr,
   Fld ''zone_wplugs_hash_bits'' c_int,
   Fld ''nr_zone_wplugs'' atomic_t_loongarch,
   Fld ''zone_wplugs_lock'' spinlock_t_loongarch,
   Fld ''zone_wplugs_pool'' (CPtr ''mempool_s''),
   Fld ''zone_wplugs_hash'' (CPtr ''hlist_head''),
   Fld ''zone_wplugs_wq'' (CPtr ''workqueue_struct''),
   Fld ''cdi'' (CPtr ''cdrom_device_info''),
   Fld ''node_id'' c_int,
   Fld ''bb'' (CPtr ''badblocks''),
   Fld ''lockdep_map'' lockdep_map_loongarch,
   Fld ''diskseq'' u64_loongarch,
   Fld ''open_mode'' blk_mode_t_loongarch,
   Fld ''ia_ranges'' (CPtr ''blk_independent_access_ranges'')]"

definition req_flags_t_loongarch :: ctype where
  "req_flags_t_loongarch = k__u32_loongarch"

definition request_loongarch :: ctype where
  "request_loongarch = CStruct ''request'' [
   Fld ''q'' (CPtr ''request_queue''),
   Fld ''mq_ctx'' (CPtr ''blk_mq_ctx''),
   Fld ''mq_hctx'' (CPtr ''blk_mq_hw_ctx''),
   Fld ''cmd_flags'' blk_opf_t_loongarch,
   Fld ''rq_flags'' req_flags_t_loongarch,
   Fld ''tag'' c_int,
   Fld ''internal_tag'' c_int,
   Fld ''timeout'' c_int,
   Fld ''__data_len'' c_int,
   Fld ''__sector'' sector_t_loongarch,
   Fld ''bio'' (CPtr ''bio''),
   Fld ''biotail'' (CPtr ''bio''),
   Fld [] (CUnion [] [
     Fld ''queuelist'' list_head_loongarch,
     Fld ''rq_next'' (CPtr ''request'')]),
   Fld ''part'' (CPtr ''block_device''),
   Fld ''alloc_time_ns'' u64_loongarch,
   Fld ''start_time_ns'' u64_loongarch,
   Fld ''io_start_time_ns'' u64_loongarch,
   Fld ''wbt_flags'' c_short,
   Fld ''stats_sectors'' c_short,
   Fld ''nr_phys_segments'' c_short,
   Fld ''nr_integrity_segments'' c_short,
   Fld ''crypt_ctx'' (CPtr ''bio_crypt_ctx''),
   Fld ''crypt_keyslot'' (CPtr ''blk_crypto_keyslot''),
   Fld ''state'' c_int,
   Fld ''ref'' atomic_t_loongarch,
   Fld ''deadline'' c_long,
   Fld [] (CUnion [] [
     Fld ''hash'' hlist_node_loongarch,
     Fld ''ipi_list'' llist_node_loongarch]),
   Fld [] (CUnion [] [
     Fld ''rb_node'' rb_node_loongarch,
     Fld ''special_vec'' bio_vec_loongarch]),
   Fld ''elv'' (CStruct [] [
     Fld ''icq'' (CPtr ''io_cq''),
     Fld ''priv'' (CArr c_ptr 2)]),
   Fld ''flush'' (CStruct [] [
     Fld ''seq'' c_int,
     Fld ''saved_end_io'' c_ptr]),
   Fld ''fifo_time'' u64_loongarch,
   Fld ''end_io'' c_ptr,
   Fld ''end_io_data'' c_ptr]"

definition percpu_ref_loongarch :: ctype where
  "percpu_ref_loongarch = CStruct ''percpu_ref'' [
   Fld ''percpu_count_ptr'' c_long,
   Fld ''data'' (CPtr ''percpu_ref_data'')]"

definition lock_class_key_loongarch :: ctype where
  "lock_class_key_loongarch = CStruct ''lock_class_key'' []"

definition blk_features_t_loongarch :: ctype where
  "blk_features_t_loongarch = c_int"

definition blk_flags_t_loongarch :: ctype where
  "blk_flags_t_loongarch = c_int"

definition blk_integrity_loongarch :: ctype where
  "blk_integrity_loongarch = CStruct ''blk_integrity'' [
   Fld ''flags'' c_char,
   Fld ''csum_type'' c_int,
   Fld ''tuple_size'' c_char,
   Fld ''pi_offset'' c_char,
   Fld ''interval_exp'' c_char,
   Fld ''tag_size'' c_char]"

definition queue_limits_loongarch :: ctype where
  "queue_limits_loongarch = CStruct ''queue_limits'' [
   Fld ''features'' blk_features_t_loongarch,
   Fld ''flags'' blk_flags_t_loongarch,
   Fld ''seg_boundary_mask'' c_long,
   Fld ''virt_boundary_mask'' c_long,
   Fld ''max_hw_sectors'' c_int,
   Fld ''max_dev_sectors'' c_int,
   Fld ''chunk_sectors'' c_int,
   Fld ''max_sectors'' c_int,
   Fld ''max_user_sectors'' c_int,
   Fld ''max_segment_size'' c_int,
   Fld ''physical_block_size'' c_int,
   Fld ''logical_block_size'' c_int,
   Fld ''alignment_offset'' c_int,
   Fld ''io_min'' c_int,
   Fld ''io_opt'' c_int,
   Fld ''max_discard_sectors'' c_int,
   Fld ''max_hw_discard_sectors'' c_int,
   Fld ''max_user_discard_sectors'' c_int,
   Fld ''max_secure_erase_sectors'' c_int,
   Fld ''max_write_zeroes_sectors'' c_int,
   Fld ''max_zone_append_sectors'' c_int,
   Fld ''discard_granularity'' c_int,
   Fld ''discard_alignment'' c_int,
   Fld ''zone_write_granularity'' c_int,
   Fld ''atomic_write_hw_max'' c_int,
   Fld ''atomic_write_max_sectors'' c_int,
   Fld ''atomic_write_hw_boundary'' c_int,
   Fld ''atomic_write_boundary_sectors'' c_int,
   Fld ''atomic_write_hw_unit_min'' c_int,
   Fld ''atomic_write_unit_min'' c_int,
   Fld ''atomic_write_hw_unit_max'' c_int,
   Fld ''atomic_write_unit_max'' c_int,
   Fld ''max_segments'' c_short,
   Fld ''max_integrity_segments'' c_short,
   Fld ''max_discard_segments'' c_short,
   Fld ''max_open_zones'' c_int,
   Fld ''max_active_zones'' c_int,
   Fld ''dma_alignment'' c_int,
   Fld ''dma_pad_mask'' c_int,
   Fld ''integrity'' blk_integrity_loongarch]"

definition delayed_work_loongarch :: ctype where
  "delayed_work_loongarch = CStruct ''delayed_work'' [
   Fld ''work'' work_struct_loongarch,
   Fld ''timer'' timer_list_loongarch,
   Fld ''wq'' (CPtr ''workqueue_struct''),
   Fld ''cpu'' c_int]"

definition request_queue_loongarch :: ctype where
  "request_queue_loongarch = CStruct ''request_queue'' [
   Fld ''queuedata'' c_ptr,
   Fld ''elevator'' (CPtr ''elevator_queue''),
   Fld ''mq_ops'' (CPtr ''blk_mq_ops''),
   Fld ''queue_ctx'' (CPtr ''blk_mq_ctx''),
   Fld ''queue_flags'' c_long,
   Fld ''rq_timeout'' c_int,
   Fld ''queue_depth'' c_int,
   Fld ''refs'' refcount_t_loongarch,
   Fld ''nr_hw_queues'' c_int,
   Fld ''hctx_table'' xarray_loongarch,
   Fld ''q_usage_counter'' percpu_ref_loongarch,
   Fld ''io_lock_cls_key'' lock_class_key_loongarch,
   Fld ''io_lockdep_map'' lockdep_map_loongarch,
   Fld ''q_lock_cls_key'' lock_class_key_loongarch,
   Fld ''q_lockdep_map'' lockdep_map_loongarch,
   Fld ''last_merge'' (CPtr ''request''),
   Fld ''queue_lock'' spinlock_t_loongarch,
   Fld ''quiesce_depth'' c_int,
   Fld ''disk'' (CPtr ''gendisk''),
   Fld ''mq_kobj'' (CPtr ''kobject''),
   Fld ''limits'' queue_limits_loongarch,
   Fld ''dev'' (CPtr ''device''),
   Fld ''rpm_status'' c_int,
   Fld ''pm_only'' atomic_t_loongarch,
   Fld ''stats'' (CPtr ''blk_queue_stats''),
   Fld ''rq_qos'' (CPtr ''rq_qos''),
   Fld ''rq_qos_mutex'' mutex_loongarch,
   Fld ''id'' c_int,
   Fld ''nr_requests'' c_long,
   Fld ''crypto_profile'' (CPtr ''blk_crypto_profile''),
   Fld ''crypto_kobject'' (CPtr ''kobject''),
   Fld ''timeout'' timer_list_loongarch,
   Fld ''timeout_work'' work_struct_loongarch,
   Fld ''nr_active_requests_shared_tags'' atomic_t_loongarch,
   Fld ''sched_shared_tags'' (CPtr ''blk_mq_tags''),
   Fld ''icq_list'' list_head_loongarch,
   Fld ''blkcg_pols'' (CArr c_long 1),
   Fld ''root_blkg'' (CPtr ''blkcg_gq''),
   Fld ''blkg_list'' list_head_loongarch,
   Fld ''blkcg_mutex'' mutex_loongarch,
   Fld ''node'' c_int,
   Fld ''requeue_lock'' spinlock_t_loongarch,
   Fld ''requeue_list'' list_head_loongarch,
   Fld ''requeue_work'' delayed_work_loongarch,
   Fld ''blk_trace'' (CPtr ''blk_trace''),
   Fld ''fq'' (CPtr ''blk_flush_queue''),
   Fld ''flush_list'' list_head_loongarch,
   Fld ''sysfs_lock'' mutex_loongarch,
   Fld ''sysfs_dir_lock'' mutex_loongarch,
   Fld ''limits_lock'' mutex_loongarch,
   Fld ''unused_hctx_list'' list_head_loongarch,
   Fld ''unused_hctx_lock'' spinlock_t_loongarch,
   Fld ''mq_freeze_depth'' c_int,
   Fld ''td'' (CPtr ''throtl_data''),
   Fld ''callback_head'' callback_head_loongarch,
   Fld ''mq_freeze_wq'' wait_queue_head_t_loongarch,
   Fld ''mq_freeze_lock'' mutex_loongarch,
   Fld ''tag_set'' (CPtr ''blk_mq_tag_set''),
   Fld ''tag_set_list'' list_head_loongarch,
   Fld ''debugfs_dir'' (CPtr ''dentry''),
   Fld ''sched_debugfs_dir'' (CPtr ''dentry''),
   Fld ''rqos_debugfs_dir'' (CPtr ''dentry''),
   Fld ''debugfs_mutex'' mutex_loongarch,
   Fld ''mq_sysfs_init_done'' bool_loongarch]"

definition trace_entry_loongarch :: ctype where
  "trace_entry_loongarch = CStruct ''trace_entry'' [
   Fld ''type'' c_short,
   Fld ''flags'' c_char,
   Fld ''preempt_count'' c_char,
   Fld ''pid'' c_int]"

definition trace_event_raw_sched_process_fork_loongarch :: ctype where
  "trace_event_raw_sched_process_fork_loongarch = CStruct ''trace_event_raw_sched_process_fork'' [
   Fld ''ent'' trace_entry_loongarch,
   Fld ''parent_comm'' (CArr c_char 16),
   Fld ''parent_pid'' pid_t_loongarch,
   Fld ''child_comm'' (CArr c_char 16),
   Fld ''child_pid'' pid_t_loongarch,
   Fld ''__data'' (CArr c_char 0)]"

definition trace_event_raw_sched_process_exec_loongarch :: ctype where
  "trace_event_raw_sched_process_exec_loongarch = CStruct ''trace_event_raw_sched_process_exec'' [
   Fld ''ent'' trace_entry_loongarch,
   Fld ''__data_loc_filename'' u32_loongarch,
   Fld ''pid'' pid_t_loongarch,
   Fld ''old_pid'' pid_t_loongarch,
   Fld ''__data'' (CArr c_char 0)]"

definition btf_loongarch :: "(string \<times> ctype) list" where
  "btf_loongarch = [
     (''task_struct'', task_struct_loongarch),
     (''bio'', bio_loongarch),
     (''block_device'', block_device_loongarch),
     (''gendisk'', gendisk_loongarch),
     (''request'', request_loongarch),
     (''request_queue'', request_queue_loongarch),
     (''trace_event_raw_sched_process_fork'', trace_event_raw_sched_process_fork_loongarch),
     (''trace_event_raw_sched_process_exec'', trace_event_raw_sched_process_exec_loongarch)]"

text \<open>The declarations, for evaluating a layout.\<close>

lemmas decls_loongarch =
  k__u32_loongarch_def u32_loongarch_def thread_info_loongarch_def atomic_t_loongarch_def
  refcount_struct_loongarch_def refcount_t_loongarch_def llist_node_loongarch_def k__u16_loongarch_def
  u16_loongarch_def k__call_single_node_loongarch_def load_weight_loongarch_def rb_node_loongarch_def
  k__u64_loongarch_def u64_loongarch_def list_head_loongarch_def k__s64_loongarch_def
  s64_loongarch_def sched_avg_loongarch_def sched_entity_loongarch_def sched_rt_entity_loongarch_def
  ktime_t_loongarch_def timerqueue_node_loongarch_def k__u8_loongarch_def u8_loongarch_def
  hrtimer_loongarch_def dl_server_has_tasks_f_loongarch_def dl_server_pick_f_loongarch_def sched_dl_entity_loongarch_def
  uclamp_se_loongarch_def sched_statistics_loongarch_def hlist_head_loongarch_def cpumask_loongarch_def
  cpumask_t_loongarch_def rcu_special_loongarch_def sched_info_loongarch_def plist_node_loongarch_def
  k__kernel_clockid_t_loongarch_def clockid_t_loongarch_def restart_block_loongarch_def k__kernel_pid_t_loongarch_def
  pid_t_loongarch_def hlist_node_loongarch_def qspinlock_loongarch_def arch_spinlock_t_loongarch_def
  raw_spinlock_loongarch_def raw_spinlock_t_loongarch_def prev_cputime_loongarch_def seqcount_loongarch_def
  seqcount_t_loongarch_def vtime_loongarch_def rb_root_loongarch_def rb_root_cached_loongarch_def
  timerqueue_head_loongarch_def posix_cputimer_base_loongarch_def posix_cputimers_loongarch_def callback_head_loongarch_def
  atomic64_t_loongarch_def atomic_long_t_loongarch_def optimistic_spin_queue_loongarch_def mutex_loongarch_def
  posix_cputimers_work_loongarch_def sysv_sem_loongarch_def sysv_shm_loongarch_def sigset_t_loongarch_def
  sigpending_loongarch_def k__kernel_ulong_t_loongarch_def k__kernel_size_t_loongarch_def size_t_loongarch_def
  k__kernel_uid32_t_loongarch_def uid_t_loongarch_def kuid_t_loongarch_def seccomp_loongarch_def
  bool_loongarch_def syscall_user_dispatch_loongarch_def spinlock_loongarch_def spinlock_t_loongarch_def
  wake_q_node_loongarch_def task_io_accounting_loongarch_def nodemask_t_loongarch_def seqcount_spinlock_loongarch_def
  seqcount_spinlock_t_loongarch_def arch_tlbflush_unmap_batch_loongarch_def tlbflush_unmap_batch_loongarch_def page_frag_loongarch_def
  latency_record_loongarch_def kmap_ctrl_loongarch_def timer_list_loongarch_def llist_head_loongarch_def
  desc_struct_loongarch_def thread_shstk_loongarch_def fpu_state_perm_loongarch_def fregs_state_loongarch_def
  fxregs_state_loongarch_def swregs_state_loongarch_def xstate_header_loongarch_def xregs_state_loongarch_def
  fpregs_state_loongarch_def fpstate_loongarch_def fpu_loongarch_def thread_struct_loongarch_def
  task_struct_members1_loongarch_def task_struct_members2_loongarch_def task_struct_loongarch_def blk_opf_t_loongarch_def
  blk_status_t_loongarch_def sector_t_loongarch_def bvec_iter_loongarch_def blk_qc_t_loongarch_def
  bio_issue_loongarch_def bio_vec_loongarch_def bio_loongarch_def k__kernel_dev_t_loongarch_def
  dev_t_loongarch_def kref_loongarch_def kobject_loongarch_def dev_links_info_loongarch_def
  pm_message_loongarch_def pm_message_t_loongarch_def swait_queue_head_loongarch_def completion_loongarch_def
  work_func_t_loongarch_def work_struct_loongarch_def wait_queue_head_loongarch_def wait_queue_head_t_loongarch_def
  dev_pm_info_loongarch_def dev_msi_info_loongarch_def dev_archdata_loongarch_def device_loongarch_def
  block_device_loongarch_def gfp_t_loongarch_def xarray_loongarch_def mempool_s_loongarch_def
  mempool_t_loongarch_def bio_list_loongarch_def bio_set_loongarch_def lockdep_map_loongarch_def
  blk_mode_t_loongarch_def gendisk_loongarch_def req_flags_t_loongarch_def request_loongarch_def
  percpu_ref_loongarch_def lock_class_key_loongarch_def blk_features_t_loongarch_def blk_flags_t_loongarch_def
  blk_integrity_loongarch_def queue_limits_loongarch_def delayed_work_loongarch_def request_queue_loongarch_def
  trace_entry_loongarch_def trace_event_raw_sched_process_fork_loongarch_def trace_event_raw_sched_process_exec_loongarch_def

end
