(* ===== verification/Core_Fixes.thy ===== *)
theory Core_Fixes
  imports Vmlinux_X86 Vmlinux_Arm64 Vmlinux_Riscv Vmlinux_Loongarch
    "HOL-Library.Code_Target_Nat"
begin

text \<open>
  \<^verbatim>\<open>crates/ananicy-bpf/bpf/include/core_fixes.bpf.h\<close>: accessors that read a kernel field
  whose name or place changed between kernel versions. The program is compiled against
  a local description of the types and relocated at load time against those of the
  running kernel (\<open>btf\<close>, a parameter); a flavour suffix, three underscores and what
  follows, is dropped when a local type is looked up there. Kernel memory is a function
  from addresses to bytes. A read whose field the running kernel lacks has no value. The theorems: the
  results depend on the bytes of the named fields alone, wherever a kernel puts them, and no byte outside
  the objects is read.
\<close>

subsection \<open>The local flavours\<close>

definition task_struct___o :: ctype where
  "task_struct___o = CStruct ''task_struct___o'' [Fld ''state'' c_long]"

definition task_struct___x :: ctype where
  "task_struct___x = CStruct ''task_struct___x'' [Fld ''__state'' c_int]"

definition bio___o :: ctype where
  "bio___o = CStruct ''bio___o'' [Fld ''bi_disk'' (CPtr ''gendisk'')]"

definition bio___x :: ctype where
  "bio___x = CStruct ''bio___x'' [Fld ''bi_bdev'' (CPtr ''block_device'')]"

definition request_queue___x :: ctype where
  "request_queue___x = CStruct ''request_queue___x'' [Fld ''disk'' (CPtr ''gendisk'')]"

definition request___x :: ctype where
  "request___x = CStruct ''request___x''
     [Fld ''q'' (CPtr ''request_queue___x''), Fld ''rq_disk'' (CPtr ''gendisk'')]"

definition flavours :: "(string \<times> ctype) list" where
  "flavours =
     [(''task_struct___o'', task_struct___o), (''task_struct___x'', task_struct___x),
      (''bio___o'', bio___o), (''bio___x'', bio___x),
      (''request_queue___x'', request_queue___x), (''request___x'', request___x)]"

subsection \<open>Relocated field accesses\<close>

text \<open>A member by name, also inside anonymous members: its first bit and its type.\<close>

fun find_member :: "ctype \<Rightarrow> string \<Rightarrow> (nat \<times> ctype) option"
  and find_fields :: "bool \<Rightarrow> nat \<Rightarrow> cfield list \<Rightarrow> string \<Rightarrow> (nat \<times> ctype) option"
  and find_variant :: "cfield list \<Rightarrow> string \<Rightarrow> (nat \<times> ctype) option"
where
  "find_member (CStruct _ fs) f = find_fields False 0 fs f"
| "find_member (CPacked _ fs) f = find_fields True 0 fs f"
| "find_member (CUnion _ fs) f = find_variant fs f"
| "find_member _ f = None"
| "find_fields packed off [] f = None"
| "find_fields packed off (CField n b t # fs) f =
     (let p = place off b (size_of t) (if packed then 1 else align_of t) in
      if n = f \<and> b = None then Some (fst p, t)
      else
        (case (if n = [] \<and> b = None then find_member t f else None) of
           Some (i, u) \<Rightarrow> Some (fst p + i, u)
         | None \<Rightarrow> find_fields packed (snd p) fs f))"
| "find_variant [] f = None"
| "find_variant (CField n b t # fs) f =
     (if n = f \<and> b = None then Some (0, t)
      else
        (case (if n = [] \<and> b = None then find_member t f else None) of
           Some r \<Rightarrow> Some r
         | None \<Rightarrow> find_variant fs f))"

text \<open>The name a flavour is relocated as.\<close>

fun essential_name :: "string \<Rightarrow> string" where
  "essential_name [] = []"
| "essential_name (c # s) = (if take 3 (c # s) = ''___'' then [] else c # essential_name s)"

type_synonym types = "(string \<times> ctype) list"

definition core_field :: "types \<Rightarrow> string \<Rightarrow> string \<Rightarrow> (nat \<times> ctype) option" where
  "core_field btf s f =
     (case map_of btf (essential_name s) of None \<Rightarrow> None | Some t \<Rightarrow> find_member t f)"

definition core_field_exists :: "types \<Rightarrow> string \<Rightarrow> string \<Rightarrow> bool" where
  "core_field_exists btf s f \<longleftrightarrow> core_field btf s f \<noteq> None"

type_synonym memory = "u64 \<Rightarrow> u8"

text \<open>A little-endian read of \<open>n\<close> bytes, zero-extended.\<close>

fun read_le :: "memory \<Rightarrow> u64 \<Rightarrow> nat \<Rightarrow> u64" where
  "read_le m a 0 = 0"
| "read_le m a (Suc n) = ucast (m a) + 256 * read_le m (a + 1) n"

lemma read_le_8:
  "read_le m a 8 = ucast (m a) + 256 * (ucast (m (a + 1)) + 256 * (ucast (m (a + 2)) +
     256 * (ucast (m (a + 3)) + 256 * (ucast (m (a + 4)) + 256 * (ucast (m (a + 5)) +
     256 * (ucast (m (a + 6)) + 256 * ucast (m (a + 7))))))))"
proof -
  have "(8 :: nat) = Suc (Suc (Suc (Suc (Suc (Suc (Suc (Suc 0)))))))" by simp
  then show ?thesis by (simp only: read_le.simps) (simp add: add.assoc)
qed

text \<open>A type as the program is compiled against it: the flavours and one of the headers.\<close>

definition local_type :: "types \<Rightarrow> string \<Rightarrow> ctype option" where
  "local_type hdr s = (case map_of flavours s of Some t \<Rightarrow> Some t | None \<Rightarrow> map_of hdr s)"

text \<open>
  \<^verbatim>\<open>BPF_CORE_READ(p, f, g, ...)\<close>: each field is declared by the local type of the pointer
  before it and read at the offset the running kernel gives it.
\<close>

fun core_read :: "types \<Rightarrow> types \<Rightarrow> memory \<Rightarrow> string \<Rightarrow> string list \<Rightarrow> u64 \<Rightarrow> u64 option" where
  "core_read hdr btf m s [] a = None"
| "core_read hdr btf m s (f # fs) a =
     (case (local_type hdr s, core_field btf s f) of
        (Some l, Some (off, _)) \<Rightarrow>
          (case find_member l f of
             None \<Rightarrow> None
           | Some (_, lt) \<Rightarrow>
               let v = read_le m (a + of_nat (off div 8)) (size_of lt) in
               if fs = [] then Some v
               else (case lt of CPtr t \<Rightarrow> core_read hdr btf m t fs v | _ \<Rightarrow> None))
      | _ \<Rightarrow> None)"

definition get_task_state :: "types \<Rightarrow> types \<Rightarrow> memory \<Rightarrow> u64 \<Rightarrow> u64 option" where
  "get_task_state hdr btf m task =
     (if core_field_exists btf ''task_struct___x'' ''__state''
      then core_read hdr btf m ''task_struct___x'' [''__state''] task
      else core_read hdr btf m ''task_struct___o'' [''state''] task)"

definition get_gendisk :: "types \<Rightarrow> types \<Rightarrow> memory \<Rightarrow> u64 \<Rightarrow> u64 option" where
  "get_gendisk hdr btf m bio =
     (if core_field_exists btf ''bio___x'' ''bi_bdev''
      then core_read hdr btf m ''bio___x'' [''bi_bdev'', ''bd_disk''] bio
      else core_read hdr btf m ''bio___o'' [''bi_disk''] bio)"

definition get_disk :: "types \<Rightarrow> types \<Rightarrow> memory \<Rightarrow> u64 \<Rightarrow> u64 option" where
  "get_disk hdr btf m request =
     (if core_field_exists btf ''request___x'' ''rq_disk''
      then core_read hdr btf m ''request___x'' [''rq_disk''] request
      else core_read hdr btf m ''request___x'' [''q'', ''disk''] request)"

subsection \<open>One access, and the accessors on any kernel\<close>

lemma essential_names [simp]:
  "essential_name ''task_struct___x'' = ''task_struct''"
  "essential_name ''task_struct___o'' = ''task_struct''"
  "essential_name ''bio___x'' = ''bio''"
  "essential_name ''bio___o'' = ''bio''"
  "essential_name ''request___x'' = ''request''"
  "essential_name ''request_queue___x'' = ''request_queue''"
  "essential_name ''block_device'' = ''block_device''"
  by simp_all

lemma local_types [simp]:
  "local_type hdr ''task_struct___x'' = Some task_struct___x"
  "local_type hdr ''task_struct___o'' = Some task_struct___o"
  "local_type hdr ''bio___x'' = Some bio___x"
  "local_type hdr ''bio___o'' = Some bio___o"
  "local_type hdr ''request___x'' = Some request___x"
  "local_type hdr ''request_queue___x'' = Some request_queue___x"
  "local_type hdr ''block_device'' = map_of hdr ''block_device''"
  by (simp_all add: local_type_def flavours_def)

lemma find_member_flavours [simp]:
  "find_member task_struct___x ''__state'' = Some (0, c_int)"
  "find_member task_struct___o ''state'' = Some (0, c_long)"
  "find_member bio___x ''bi_bdev'' = Some (0, CPtr ''block_device'')"
  "find_member bio___o ''bi_disk'' = Some (0, CPtr ''gendisk'')"
  "find_member request___x ''q'' = Some (0, CPtr ''request_queue___x'')"
  "find_member request___x ''rq_disk'' = Some (64, CPtr ''gendisk'')"
  "find_member request_queue___x ''disk'' = Some (0, CPtr ''gendisk'')"
  by (simp_all add: task_struct___x_def task_struct___o_def bio___x_def bio___o_def
      request___x_def request_queue___x_def place_def round_up_def)

declare find_member.simps [simp del] essential_name.simps [simp del]

text \<open>The task state, whichever name the running kernel has for it.\<close>

lemma get_task_state_eq:
  assumes "map_of btf ''task_struct'' = Some t"
  shows "get_task_state hdr btf m task =
    (case find_member t ''__state'' of
       Some (off, _) \<Rightarrow> Some (read_le m (task + of_nat (off div 8)) 4)
     | None \<Rightarrow>
         (case find_member t ''state'' of
            Some (off, _) \<Rightarrow> Some (read_le m (task + of_nat (off div 8)) 8)
          | None \<Rightarrow> None))"
  using assms
  by (auto simp: get_task_state_def core_field_exists_def core_field_def split: option.split)

lemma get_gendisk_eq:
  assumes "map_of btf ''bio'' = Some b" and "map_of btf ''block_device'' = Some d"
    and "map_of hdr ''block_device'' = Some d'" and "find_member d' ''bd_disk'' = Some (i, CPtr ''gendisk'')"
  shows "get_gendisk hdr btf m bio =
    (case find_member b ''bi_bdev'' of
       Some (off, _) \<Rightarrow>
         (case find_member d ''bd_disk'' of
            Some (off', _) \<Rightarrow>
              Some (read_le m (read_le m (bio + of_nat (off div 8)) 8 + of_nat (off' div 8)) 8)
          | None \<Rightarrow> None)
     | None \<Rightarrow>
         (case find_member b ''bi_disk'' of
            Some (off, _) \<Rightarrow> Some (read_le m (bio + of_nat (off div 8)) 8)
          | None \<Rightarrow> None))"
  using assms
  by (auto simp: get_gendisk_def core_field_exists_def core_field_def split: option.split)

lemma get_disk_eq:
  assumes "map_of btf ''request'' = Some r" and "map_of btf ''request_queue'' = Some q"
  shows "get_disk hdr btf m request =
    (case find_member r ''rq_disk'' of
       Some (off, _) \<Rightarrow> Some (read_le m (request + of_nat (off div 8)) 8)
     | None \<Rightarrow>
         (case (find_member r ''q'', find_member q ''disk'') of
            (Some (off, _), Some (off', _)) \<Rightarrow>
              Some (read_le m (read_le m (request + of_nat (off div 8)) 8 + of_nat (off' div 8)) 8)
          | _ \<Rightarrow> None))"
  using assms
  by (auto simp: get_disk_def core_field_exists_def core_field_def split: option.split)

subsection \<open>The shipped headers\<close>

lemma task_state_members:
  "find_member task_struct_x86 ''__state'' = Some (192, c_int)"
  "find_member task_struct_arm64 ''__state'' = Some (192, c_int)"
  "find_member task_struct_riscv ''__state'' = Some (384, c_int)"
  "find_member task_struct_loongarch ''__state'' = Some (192, c_int)"
  by code_simp+

lemma bio_members:
  "find_member bio_x86 ''bi_bdev'' = Some (64, CPtr ''block_device'')"
  "find_member bio_arm64 ''bi_bdev'' = Some (64, CPtr ''block_device'')"
  "find_member bio_riscv ''bi_bdev'' = Some (64, CPtr ''block_device'')"
  "find_member bio_loongarch ''bi_bdev'' = Some (64, CPtr ''block_device'')"
  by code_simp+

lemma bd_disk_x86: "find_member block_device_x86 ''bd_disk'' = Some (4096, CPtr ''gendisk'')"
  by code_simp

lemma bd_disk_arm64: "find_member block_device_arm64 ''bd_disk'' = Some (4544, CPtr ''gendisk'')"
  by code_simp

lemma bd_disk_new:
  "find_member block_device_riscv ''bd_disk'' = Some (128, CPtr ''gendisk'')"
  "find_member block_device_loongarch ''bd_disk'' = Some (128, CPtr ''gendisk'')"
  by code_simp+

lemma request_members:
  "find_member request_riscv ''rq_disk'' = None"
  "find_member request_loongarch ''rq_disk'' = None"
  "find_member request_riscv ''q'' = Some (0, CPtr ''request_queue'')"
  "find_member request_loongarch ''q'' = Some (0, CPtr ''request_queue'')"
  by code_simp+

lemma queue_disk_members:
  "find_member request_queue_riscv ''disk'' = Some (832, CPtr ''gendisk'')"
  "find_member request_queue_loongarch ''disk'' = Some (832, CPtr ''gendisk'')"
  by code_simp+

lemmas shipped_members =
  task_state_members bio_members bd_disk_x86 bd_disk_arm64 bd_disk_new request_members
  queue_disk_members

lemmas btf_defs = btf_x86_def btf_arm64_def btf_riscv_def btf_loongarch_def

text \<open>Against each shipped header the accessors resolve to fields it declares, at the offsets its layout gives.\<close>

lemma accessors_resolve_on_shipped_headers:
  "(get_task_state btf_x86 btf_x86 m p = Some (read_le m (p + 24) 4)) \<and>
   (get_task_state btf_arm64 btf_arm64 m p = Some (read_le m (p + 24) 4)) \<and>
   (get_task_state btf_riscv btf_riscv m p = Some (read_le m (p + 48) 4)) \<and>
   (get_task_state btf_loongarch btf_loongarch m p = Some (read_le m (p + 24) 4)) \<and>
   (get_gendisk btf_x86 btf_x86 m p = Some (read_le m (read_le m (p + 8) 8 + 512) 8)) \<and>
   (get_gendisk btf_arm64 btf_arm64 m p = Some (read_le m (read_le m (p + 8) 8 + 568) 8)) \<and>
   (get_gendisk btf_riscv btf_riscv m p = Some (read_le m (read_le m (p + 8) 8 + 16) 8)) \<and>
   (get_gendisk btf_loongarch btf_loongarch m p =
     Some (read_le m (read_le m (p + 8) 8 + 16) 8))"
  by (simp add: get_task_state_eq get_gendisk_eq btf_defs shipped_members)

text \<open>
  \<^verbatim>\<open>get_disk\<close> resolves through the request queue on the two headers that declare
  \<^verbatim>\<open>struct request\<close> (riscv and loongarch, which no longer have \<^verbatim>\<open>rq_disk\<close>); the x86 and
  arm64 headers do not declare the structure, so neither branch can be relocated.
\<close>

theorem get_disk_on_shipped_headers:
  "(get_disk btf_riscv btf_riscv m p = Some (read_le m (read_le m p 8 + 104) 8)) \<and>
   (get_disk btf_loongarch btf_loongarch m p = Some (read_le m (read_le m p 8 + 104) 8)) \<and>
   (get_disk btf_x86 btf_x86 m p = None) \<and>
   (get_disk btf_arm64 btf_arm64 m p = None)"
proof -
  have "get_disk btf_x86 btf_x86 m p = None" "get_disk btf_arm64 btf_arm64 m p = None"
    by (simp_all add: get_disk_def core_field_exists_def core_field_def btf_defs)
  then show ?thesis by (simp add: get_disk_eq btf_defs shipped_members)
qed

text \<open>
  The tracepoint contexts have one layout in all four headers: in the fork record the
  parent's name is at byte 8, its pid at 24, the child's name at 28 and the child's pid,
  which the fork program reports, at 44; in the exec record the pid is at 12.
\<close>

theorem tracepoint_layout:
  "(map (offset_of trace_event_raw_sched_process_fork_x86)
     [''parent_comm'', ''parent_pid'', ''child_comm'', ''child_pid''] = map Some [8, 24, 28, 44]) \<and>
   (map (offset_of trace_event_raw_sched_process_fork_arm64)
     [''parent_comm'', ''parent_pid'', ''child_comm'', ''child_pid''] = map Some [8, 24, 28, 44]) \<and>
   (map (offset_of trace_event_raw_sched_process_fork_riscv)
     [''parent_comm'', ''parent_pid'', ''child_comm'', ''child_pid''] = map Some [8, 24, 28, 44]) \<and>
   (map (offset_of trace_event_raw_sched_process_fork_loongarch)
     [''parent_comm'', ''parent_pid'', ''child_comm'', ''child_pid''] = map Some [8, 24, 28, 44]) \<and>
   (map (\<lambda>t. offset_of t ''pid'')
     [trace_event_raw_sched_process_exec_x86, trace_event_raw_sched_process_exec_arm64,
      trace_event_raw_sched_process_exec_riscv, trace_event_raw_sched_process_exec_loongarch]
     = map Some [12, 12, 12, 12])"
  by (intro conjI) code_simp+

lemma task_structs_are_structs:
  "t \<in> {task_struct_x86, task_struct_arm64, task_struct_riscv, task_struct_loongarch} \<Longrightarrow>
     \<exists>n fs. t = CStruct n fs"
  by (auto simp: task_struct_x86_def task_struct_arm64_def task_struct_riscv_def task_struct_loongarch_def)

text \<open>
  The task structure of every shipped header has a sound layout: its members follow one
  another without overlap, bit-fields included, and all of them lie within the object.
\<close>

theorem task_struct_members_disjoint:
  assumes "t \<in> {task_struct_x86, task_struct_arm64, task_struct_riscv, task_struct_loongarch}"
  shows "ordered 0 (spans t) \<and> (\<forall>n a b. (n, a, b) \<in> set (spans t) \<longrightarrow> a \<le> b \<and> b \<le> 8 * size_of t)"
  using task_structs_are_structs [OF assms] spans_ordered spans_within by blast

theorem task_struct_members_disjoint_witness: "ordered 0 (spans task_struct_riscv)"
  using task_struct_members_disjoint [of task_struct_riscv] by simp

subsection \<open>A member lies within its object\<close>

text \<open>Also a member of a nested anonymous structure or union starts on a byte and ends within the object.\<close>

lemma round_up_bytes: "x \<le> 8 * (round_up x 8 div 8)"
  using round_up_ge [of x 8] round_up_dvd [of 8 x] by simp

lemma size_of_union_ge: "union_end fs \<le> 8 * size_of (CUnion n fs)"
proof -
  let ?r = "round_up (union_end fs) (8 * align_fields fs)"
  have "8 * align_fields fs dvd ?r" using align_pos(2) by (intro round_up_dvd) simp
  then have "8 dvd ?r" using dvd_mult_left by blast
  then show ?thesis using round_up_ge [of "union_end fs" "8 * align_fields fs"] by simp
qed

lemma place_plain:
  assumes "0 < al"
  shows "8 dvd fst (place off None sz al)" and "snd (place off None sz al) = fst (place off None sz al) + 8 * sz"
proof -
  have "8 * al dvd round_up off (8 * al)" using assms by (intro round_up_dvd) simp
  then show "8 dvd fst (place off None sz al)" using dvd_mult_left by (auto simp: place_def Let_def)
qed (simp add: place_def Let_def)

lemma find_member_within:
  "find_member t f = Some (i, u) \<Longrightarrow> 8 dvd i \<and> i + 8 * size_of u \<le> 8 * size_of t"
  "find_fields packed off fs f = Some (i, u) \<Longrightarrow> 8 dvd i \<and> i + 8 * size_of u \<le> struct_end packed off fs"
  "find_variant fs f = Some (i, u) \<Longrightarrow> 8 dvd i \<and> i + 8 * size_of u \<le> union_end fs"
proof (induction t f and packed off fs f and fs f arbitrary: i u and i u and i u
    rule: find_member_find_fields_find_variant.induct)
  case (1 n fs f)
  then show ?case using size_of_struct_ge [of fs n] by (fastforce simp: find_member.simps)
next
  case (2 n fs f)
  then show ?case using round_up_bytes [of "struct_end True 0 fs"] by (fastforce simp: find_member.simps)
next
  case (3 n fs f)
  then show ?case using size_of_union_ge [of fs n] by (fastforce simp: find_member.simps)
next
  case (6 packed off n b t fs f)
  let ?al = "if packed then 1 else align_of t"
  let ?p = "place off b (size_of t) ?al"
  have al: "0 < ?al" using align_pos(1) by simp
  have ends: "snd ?p \<le> struct_end packed off (CField n b t # fs)" using struct_end_ge by simp
  show ?case
  proof (cases "n = f \<and> b = None")
    case True
    then have "i = fst ?p" "u = t" using "6.prems" by (auto simp: Let_def)
    then show ?thesis using True place_plain [OF al, of off "size_of t"] ends by simp
  next
    case other: False
    show ?thesis
    proof (cases "if n = [] \<and> b = None then find_member t f else None")
      case None
      then have "find_fields packed (snd ?p) fs f = Some (i, u)" using "6.prems" other by (simp only: find_fields.simps Let_def if_False option.case)
      then show ?thesis using "6.IH"(2) [OF refl other None] by simp
    next
      case (Some r)
      obtain j w where r: "r = (j, w)" by (cases r)
      have nested: "n = []" "b = None" "find_member t f = Some (j, w)" using Some r by (simp_all split: if_splits)
      have "i = fst ?p + j" "u = w"
        using "6.prems" other unfolding find_fields.simps Let_def Some r by simp_all
      moreover have "8 dvd j \<and> j + 8 * size_of w \<le> 8 * size_of t" using "6.IH"(1) [OF refl other] nested by simp
      ultimately show ?thesis using nested(2) place_plain [OF al, of off "size_of t"] ends by auto
    qed
  qed
next
  case (8 n b t fs f)
  have zero: "snd (place 0 None (size_of t) 1) = 8 * size_of t" by (simp add: place_def round_up_def)
  show ?case
  proof (cases "n = f \<and> b = None")
    case True
    then have "i = 0" "u = t" using "8.prems" by simp_all
    then show ?thesis using True zero by simp
  next
    case other: False
    show ?thesis
    proof (cases "if n = [] \<and> b = None then find_member t f else None")
      case None
      then have "find_variant fs f = Some (i, u)" using "8.prems" other by (simp only: find_variant.simps if_False option.case)
      then show ?thesis using "8.IH"(2) [OF other None] by (simp add: le_max_iff_disj)
    next
      case (Some r)
      have nested: "n = []" "b = None" "find_member t f = Some r" using Some by (simp_all split: if_splits)
      have "r = (i, u)" using "8.prems" other unfolding find_variant.simps Some by simp
      then have "8 dvd i \<and> i + 8 * size_of u \<le> 8 * size_of t" using "8.IH"(1) [OF other] nested by simp
      then show ?thesis using nested(2) zero by (simp add: le_max_iff_disj)
    qed
  qed
qed (simp_all add: find_member.simps)

subsection \<open>What the accessors read\<close>

text \<open>The bytes of a field of the object at an address, where the kernel has the field, and their value.\<close>

fun le_value :: "u8 list \<Rightarrow> u64" where
  "le_value [] = 0"
| "le_value (b # bs) = ucast b + 256 * le_value bs"

definition bytes_at :: "memory \<Rightarrow> u64 \<Rightarrow> nat \<Rightarrow> u8 list" where
  "bytes_at m a n = map (\<lambda>i. m (a + of_nat i)) [0..<n]"

definition field_bytes :: "types \<Rightarrow> string \<Rightarrow> string \<Rightarrow> memory \<Rightarrow> u64 \<Rightarrow> u8 list option" where
  "field_bytes btf s f m a =
     (case core_field btf s f of None \<Rightarrow> None | Some (off, t) \<Rightarrow> Some (bytes_at m (a + of_nat (off div 8)) (size_of t)))"

lemma read_le_bytes: "read_le m a n = le_value (bytes_at m a n)"
proof (induction n arbitrary: a)
  case (Suc n)
  have "bytes_at m a (Suc n) = m a # bytes_at m (a + 1) n"
    unfolding bytes_at_def by (simp add: upt_conv_Cons map_Suc_upt [symmetric] add.assoc del: upt_Suc)
  with Suc show ?case by simp
qed (simp add: bytes_at_def)

text \<open>
  A description of kernel types gives the fields the accessors know, where it has them, the width the program reads:
  four bytes of \<^verbatim>\<open>__state\<close>, eight of all others.
\<close>

definition fits :: "types \<Rightarrow> string \<Rightarrow> string \<Rightarrow> nat \<Rightarrow> bool" where
  "fits btf s f n \<longleftrightarrow> (case core_field btf s f of None \<Rightarrow> True | Some (off, t) \<Rightarrow> size_of t = n)"

definition kernel_fits :: "types \<Rightarrow> bool" where
  "kernel_fits btf \<longleftrightarrow>
     fits btf ''task_struct'' ''__state'' 4 \<and> fits btf ''task_struct'' ''state'' 8 \<and>
     fits btf ''bio'' ''bi_bdev'' 8 \<and> fits btf ''bio'' ''bi_disk'' 8 \<and> fits btf ''block_device'' ''bd_disk'' 8 \<and>
     fits btf ''request'' ''rq_disk'' 8 \<and> fits btf ''request'' ''q'' 8 \<and> fits btf ''request_queue'' ''disk'' 8"

lemma flavour_fields:
  "core_field btf ''task_struct___x'' f = core_field btf ''task_struct'' f"
  "core_field btf ''task_struct___o'' f = core_field btf ''task_struct'' f"
  "core_field btf ''bio___x'' f = core_field btf ''bio'' f"
  "core_field btf ''bio___o'' f = core_field btf ''bio'' f"
  "core_field btf ''request___x'' f = core_field btf ''request'' f"
  "core_field btf ''request_queue___x'' f = core_field btf ''request_queue'' f"
  by (simp_all add: core_field_def essential_name.simps)

lemma read_field:
  "fits btf s f n \<Longrightarrow>
     (case core_field btf s f of None \<Rightarrow> None | Some (off, t) \<Rightarrow> Some (read_le m (a + of_nat (off div 8)) n)) =
     map_option le_value (field_bytes btf s f m a)"
  by (auto simp: fits_def field_bytes_def read_le_bytes split: option.split)

lemma field_bytes_None: "field_bytes btf s f m a = None \<longleftrightarrow> core_field btf s f = None"
  by (simp add: field_bytes_def split: option.split)

lemma get_task_state_bytes:
  assumes "kernel_fits btf"
  shows "get_task_state hdr btf m p =
    map_option le_value
      (if field_bytes btf ''task_struct'' ''__state'' m p = None then field_bytes btf ''task_struct'' ''state'' m p
       else field_bytes btf ''task_struct'' ''__state'' m p)"
proof -
  have "fits btf ''task_struct'' ''__state'' 4" "fits btf ''task_struct'' ''state'' 8"
    using assms by (simp_all add: kernel_fits_def)
  from this [THEN read_field, symmetric] show ?thesis
    by (auto simp: get_task_state_def core_field_exists_def flavour_fields field_bytes_None split: option.split)
qed

lemma bd_disk_bytes:
  assumes "fits hdr ''block_device'' ''bd_disk'' 8" and "fits btf ''block_device'' ''bd_disk'' 8"
  shows "core_read hdr btf m ''block_device'' [''bd_disk''] v =
    (if core_field_exists hdr ''block_device'' ''bd_disk''
     then map_option le_value (field_bytes btf ''block_device'' ''bd_disk'' m v) else None)"
proof -
  have hdr: "core_field hdr ''block_device'' ''bd_disk'' =
      (case map_of hdr ''block_device'' of None \<Rightarrow> None | Some t \<Rightarrow> find_member t ''bd_disk'')"
    by (simp add: core_field_def)
  from assms(1) show ?thesis
    using read_field [OF assms(2), of m v]
    by (auto simp: core_field_exists_def fits_def hdr split: option.splits prod.splits)
qed

lemma get_gendisk_bytes:
  assumes "kernel_fits hdr" and "kernel_fits btf"
  shows "get_gendisk hdr btf m p =
    (case field_bytes btf ''bio'' ''bi_bdev'' m p of
       Some b \<Rightarrow>
         if core_field_exists hdr ''block_device'' ''bd_disk''
         then map_option le_value (field_bytes btf ''block_device'' ''bd_disk'' m (le_value b)) else None
     | None \<Rightarrow> map_option le_value (field_bytes btf ''bio'' ''bi_disk'' m p))"
proof -
  have fit: "fits btf ''bio'' ''bi_bdev'' 8" "fits btf ''bio'' ''bi_disk'' 8" "fits btf ''block_device'' ''bd_disk'' 8"
    and hdr: "fits hdr ''block_device'' ''bd_disk'' 8"
    using assms by (simp_all add: kernel_fits_def)
  show ?thesis
  proof (cases "core_field btf ''bio'' ''bi_bdev''")
    case None
    then show ?thesis
      using read_field [OF fit(2), of m p]
      by (auto simp: get_gendisk_def core_field_exists_def flavour_fields field_bytes_def split: option.splits)
  next
    case (Some r)
    obtain off t where r: "r = (off, t)" by (cases r)
    define b where "b = bytes_at m (p + of_nat (off div 8)) 8"
    have b: "field_bytes btf ''bio'' ''bi_bdev'' m p = Some b"
      using fit(1) by (simp add: field_bytes_def fits_def Some r b_def)
    have "read_le m (p + of_nat (off div 8)) 8 = le_value b" by (simp add: read_le_bytes b_def)
    then have "get_gendisk hdr btf m p = core_read hdr btf m ''block_device'' [''bd_disk''] (le_value b)"
      by (simp add: get_gendisk_def core_field_exists_def flavour_fields Some r split: option.split)
    with bd_disk_bytes [OF hdr fit(3)] show ?thesis by (simp add: b)
  qed
qed

lemma get_disk_bytes:
  assumes "kernel_fits btf"
  shows "get_disk hdr btf m p =
    (case field_bytes btf ''request'' ''rq_disk'' m p of
       Some b \<Rightarrow> Some (le_value b)
     | None \<Rightarrow>
         (case field_bytes btf ''request'' ''q'' m p of
            Some b \<Rightarrow> map_option le_value (field_bytes btf ''request_queue'' ''disk'' m (le_value b))
          | None \<Rightarrow> None))"
proof -
  have fit: "fits btf ''request'' ''rq_disk'' 8" "fits btf ''request'' ''q'' 8" "fits btf ''request_queue'' ''disk'' 8"
    using assms by (simp_all add: kernel_fits_def)
  show ?thesis
    using read_field [OF fit(1), of m p] fit(2) read_field [OF fit(3), of m]
    by (auto simp: get_disk_def core_field_exists_def flavour_fields field_bytes_def fits_def read_le_bytes
        split: option.splits prod.splits)
qed


text \<open>Two memories that agree on the object a kernel has at an address.\<close>

definition same_object :: "types \<Rightarrow> string \<Rightarrow> memory \<Rightarrow> memory \<Rightarrow> u64 \<Rightarrow> bool" where
  "same_object btf s m m' a \<longleftrightarrow> (\<forall>t. map_of btf s = Some t \<longrightarrow> bytes_at m a (size_of t) = bytes_at m' a (size_of t))"

lemma same_object_field:
  assumes "same_object btf s m m' a" and "essential_name s = s"
  shows "field_bytes btf s f m a = field_bytes btf s f m' a"
proof -
  have "bytes_at m (a + of_nat (off div 8)) (size_of u) = bytes_at m' (a + of_nat (off div 8)) (size_of u)"
    if t: "map_of btf s = Some t" and f: "find_member t f = Some (off, u)" for t off u
  proof -
    have "off div 8 + size_of u \<le> size_of t" using find_member_within(1) [OF f] by auto
    moreover have "\<forall>x < size_of t. m (a + of_nat x) = m' (a + of_nat x)"
      using assms(1) t by (auto simp: same_object_def bytes_at_def)
    ultimately have "m (a + of_nat (off div 8 + i)) = m' (a + of_nat (off div 8 + i))" if "i < size_of u" for i
      using that by (meson add_less_cancel_left order_less_le_trans)
    then show ?thesis by (simp add: bytes_at_def add.assoc)
  qed
  then show ?thesis using assms(2) by (auto simp: field_bytes_def core_field_def split: option.split)
qed

lemma plain_names:
  "essential_name ''task_struct'' = ''task_struct''" "essential_name ''bio'' = ''bio''"
  "essential_name ''request'' = ''request''" "essential_name ''request_queue'' = ''request_queue''"
  by (simp_all add: essential_name.simps)

text \<open>
  C13: The accessors stay inside the objects they are given: whatever types the running kernel has, members of nested
  anonymous structures and unions and packed structures included, two memories that agree on the bytes of the task
  structure, of the bio and the block device its pointer leads to, of the request and the queue its pointer leads to,
  give the same results. The fields must have the width the program reads, where the kernel has them.
\<close>

theorem accessors_stay_inside:
  assumes "kernel_fits hdr" and "kernel_fits btf"
  shows "(same_object btf ''task_struct'' m m' p \<longrightarrow> get_task_state hdr btf m p = get_task_state hdr btf m' p) \<and>
    (same_object btf ''bio'' m m' p \<longrightarrow>
     (\<forall>b. field_bytes btf ''bio'' ''bi_bdev'' m p = Some b \<longrightarrow> same_object btf ''block_device'' m m' (le_value b)) \<longrightarrow>
       get_gendisk hdr btf m p = get_gendisk hdr btf m' p) \<and>
    (same_object btf ''request'' m m' p \<longrightarrow>
     (\<forall>b. field_bytes btf ''request'' ''q'' m p = Some b \<longrightarrow> same_object btf ''request_queue'' m m' (le_value b)) \<longrightarrow>
       get_disk hdr btf m p = get_disk hdr btf m' p)"
proof -
  note same = same_object_field [where btf = btf and m = m and m' = m']
  have "get_task_state hdr btf m p = get_task_state hdr btf m' p" if "same_object btf ''task_struct'' m m' p"
    using same [OF that plain_names(1)] by (simp add: get_task_state_bytes assms)
  moreover have "get_gendisk hdr btf m p = get_gendisk hdr btf m' p"
    if "same_object btf ''bio'' m m' p"
      and "\<forall>b. field_bytes btf ''bio'' ''bi_bdev'' m p = Some b \<longrightarrow> same_object btf ''block_device'' m m' (le_value b)"
    using same [OF that(1) plain_names(2)] same [of "''block_device''"] that(2)
    by (auto simp: get_gendisk_bytes assms split: option.splits)
  moreover have "get_disk hdr btf m p = get_disk hdr btf m' p"
    if "same_object btf ''request'' m m' p"
      and "\<forall>b. field_bytes btf ''request'' ''q'' m p = Some b \<longrightarrow> same_object btf ''request_queue'' m m' (le_value b)"
    using same [OF that(1) plain_names(3)] same [of "''request_queue''", OF _ plain_names(4)] that(2)
    by (auto simp: get_disk_bytes assms split: option.splits)
  ultimately show ?thesis by blast
qed

text \<open>The shipped headers fit.\<close>

fun member_names :: "ctype \<Rightarrow> string list" and field_names :: "cfield list \<Rightarrow> string list" where
  "member_names (CStruct _ fs) = field_names fs"
| "member_names (CPacked _ fs) = field_names fs"
| "member_names (CUnion _ fs) = field_names fs"
| "member_names _ = []"
| "field_names [] = []"
| "field_names (CField n b t # fs) = n # (if n = [] then member_names t else []) @ field_names fs"

lemma no_such_member:
  "f \<notin> set (member_names t) \<Longrightarrow> find_member t f = None"
  "f \<notin> set (field_names fs) \<Longrightarrow> find_fields packed off fs f = None"
  "f \<notin> set (field_names fs) \<Longrightarrow> find_variant fs f = None"
  by (induction t f and packed off fs f and fs f rule: find_member_find_fields_find_variant.induct)
     (auto simp: find_member.simps Let_def split: if_splits)

lemma queue_disk_fits:
  "case find_member request_queue_x86 ''disk'' of None \<Rightarrow> True | Some (off, t) \<Rightarrow> size_of t = 8"
  "case find_member request_queue_arm64 ''disk'' of None \<Rightarrow> True | Some (off, t) \<Rightarrow> size_of t = 8"
  by code_simp+

lemma old_names_gone:
  "find_member task_struct_x86 ''state'' = None" "find_member task_struct_arm64 ''state'' = None"
  "find_member task_struct_riscv ''state'' = None" "find_member task_struct_loongarch ''state'' = None"
  "find_member bio_x86 ''bi_disk'' = None" "find_member bio_arm64 ''bi_disk'' = None"
  "find_member bio_riscv ''bi_disk'' = None" "find_member bio_loongarch ''bi_disk'' = None"
  by (rule no_such_member(1), code_simp)+

lemma shipped_fit:
  "kernel_fits btf_x86" "kernel_fits btf_arm64" "kernel_fits btf_riscv" "kernel_fits btf_loongarch"
  by (simp_all add: kernel_fits_def fits_def core_field_def plain_names btf_defs shipped_members old_names_gone
      queue_disk_fits)


text \<open>An older kernel, on which the state is the last member.\<close>

definition old_task_struct :: ctype where
  "old_task_struct = CStruct ''task_struct'' [Fld ''flags'' c_long, CField [] None (CUnion [] [Fld ''state'' c_long])]"

theorem accessors_stay_inside_witness:
  "get_task_state btf_x86 [(''task_struct'', old_task_struct)] (\<lambda>a. 3) 1000 =
   get_task_state btf_x86 [(''task_struct'', old_task_struct)] ((\<lambda>a. 3)(999 := 0, 1016 := 0)) 1000"
proof -
  have size: "size_of old_task_struct = 16" by code_simp
  have mem: "find_member old_task_struct ''state'' = Some (64, c_long)" "find_member old_task_struct ''__state'' = None"
    by code_simp+
  have "kernel_fits [(''task_struct'', old_task_struct)]"
    by (simp add: kernel_fits_def fits_def core_field_def plain_names mem)
  moreover have "same_object [(''task_struct'', old_task_struct)] ''task_struct'' (\<lambda>a. 3) ((\<lambda>a. 3)(999 := 0, 1016 := 0)) 1000"
    by (simp add: same_object_def size bytes_at_def upt_conv_Cons)
  ultimately show ?thesis using accessors_stay_inside [OF shipped_fit(1)] by blast
qed

end
