(* ===== verification/Bpf_Event.thy ===== *)
theory Bpf_Event
  imports Prelude
begin

text \<open>
  \<^verbatim>\<open>crates/ananicy-bpf/bpf/ananicy_cpp.bpf.c\<close>: the two tracepoint programs that report
  an exec or a fork to the daemon. The state is what the object file has: one slot of
  the \<^verbatim>\<open>heap\<close> per-CPU array for every CPU, the function-local \<^verbatim>\<open>static\<close> variables of each
  handler (ordinary static objects, so there is one copy of each for all CPUs), and the
  samples handed to the \<^verbatim>\<open>events\<close> perf array. What the kernel's helpers return at one
  invocation is a parameter, the record \<open>helpers\<close>. The lemmas show that each handler
  is a limiter on the time since its own last reported event, for one handler at a time
  and without regard to the CPU.
\<close>

subsection \<open>Data\<close>

type_synonym pid_t = "32 word"

record event =
  e_pid :: pid_t
  e_prev_pid :: pid_t
  e_delta_us :: u64
  e_task :: bytes

text \<open>The function-local statics \<^verbatim>\<open>prev_pid\<close> and \<^verbatim>\<open>prev_ts\<close> of one handler.\<close>

record statics =
  s_prev_pid :: pid_t
  s_prev_ts :: u64

text \<open>
  The kernel side of one invocation: the CPU, whether \<^verbatim>\<open>bpf_map_lookup_elem\<close> found the
  element, \<^verbatim>\<open>bpf_ktime_get_ns\<close>, \<^verbatim>\<open>bpf_get_current_pid_tgid\<close>, the bytes
  \<^verbatim>\<open>bpf_get_current_comm\<close> writes, and whether the perf ring had room for the sample.
\<close>

record helpers =
  h_cpu :: nat
  h_lookup :: bool
  h_ktime :: u64
  h_pid_tgid :: u64
  h_comm :: bytes
  h_room :: bool

record sched_process_fork =
  parent_comm :: bytes
  parent_pid :: pid_t
  child_comm :: bytes
  child_pid :: pid_t

record bpf_state =
  heap :: "nat \<Rightarrow> event"
  exec_statics :: statics
  fork_statics :: statics
  perf_out :: "(nat \<times> event) list"

subsection \<open>The programs\<close>

definition handle_event ::
  "u64 \<Rightarrow> helpers \<Rightarrow> pid_t \<Rightarrow> statics \<Rightarrow> event \<Rightarrow> event option \<times> statics \<times> event" where
  "handle_event min_us h pid st e =
     (if \<not> h_lookup h then (None, st, e)
      else
        let ts = h_ktime h;
            delta_us = (ts - s_prev_ts st) div 1000
        in
          if min_us \<noteq> 0 \<and> delta_us \<le> min_us then (None, st, e)
          else
            let e' = e\<lparr>e_pid := pid, e_prev_pid := s_prev_pid st, e_delta_us := delta_us,
                       e_task := h_comm h\<rparr>
            in (Some e', \<lparr>s_prev_pid = e_pid e', s_prev_ts = ts\<rparr>, e'))"

definition bpf_perf_event_output :: "helpers \<Rightarrow> event \<Rightarrow> bpf_state \<Rightarrow> bpf_state" where
  "bpf_perf_event_output h e s =
     (if h_room h then s\<lparr>perf_out := perf_out s @ [(h_cpu h, e)]\<rparr> else s)"

definition handle_exec :: "u64 \<Rightarrow> helpers \<Rightarrow> bpf_state \<Rightarrow> int \<times> bpf_state" where
  "handle_exec min_us h s =
     (let pid = ucast (h_pid_tgid h) :: u32 in
      case handle_event min_us h pid (exec_statics s) (heap s (h_cpu h)) of
        (r, st, e) \<Rightarrow>
          let s' = s\<lparr>exec_statics := st, heap := (heap s)(h_cpu h := e)\<rparr> in
          (case r of None \<Rightarrow> (0, s') | Some ev \<Rightarrow> (0, bpf_perf_event_output h ev s')))"

definition handle_fork ::
  "u64 \<Rightarrow> helpers \<Rightarrow> sched_process_fork \<Rightarrow> bpf_state \<Rightarrow> int \<times> bpf_state" where
  "handle_fork min_us h ctx s =
     (let pid = child_pid ctx in
      case handle_event min_us h pid (fork_statics s) (heap s (h_cpu h)) of
        (r, st, e) \<Rightarrow>
          let s' = s\<lparr>fork_statics := st, heap := (heap s)(h_cpu h := e)\<rparr> in
          (case r of None \<Rightarrow> (0, s') | Some ev \<Rightarrow> (0, bpf_perf_event_output h ev s')))"

subsection \<open>Runs\<close>

text \<open>A tracepoint hit: which program runs, with what the kernel supplies to it.\<close>

datatype hit = Exec_hit (helpers_of: helpers) | Fork_hit (helpers_of: helpers) (ctx_of: sched_process_fork)

fun bpf_step :: "u64 \<Rightarrow> hit \<Rightarrow> bpf_state \<Rightarrow> bpf_state" where
  "bpf_step min_us (Exec_hit h) s = snd (handle_exec min_us h s)"
| "bpf_step min_us (Fork_hit h c) s = snd (handle_fork min_us h c s)"

fun bpf_run :: "u64 \<Rightarrow> bpf_state \<Rightarrow> hit list \<Rightarrow> bpf_state" where
  "bpf_run min_us s [] = s"
| "bpf_run min_us s (t # ts) = bpf_run min_us (bpf_step min_us t s) ts"

text \<open>The event a hit hands to the perf array, if any, and those of a whole run.\<close>

fun emitted :: "u64 \<Rightarrow> hit \<Rightarrow> bpf_state \<Rightarrow> event option" where
  "emitted min_us (Exec_hit h) s =
     fst (handle_event min_us h (ucast (h_pid_tgid h)) (exec_statics s) (heap s (h_cpu h)))"
| "emitted min_us (Fork_hit h c) s =
     fst (handle_event min_us h (child_pid c) (fork_statics s) (heap s (h_cpu h)))"

fun reports :: "u64 \<Rightarrow> bpf_state \<Rightarrow> hit list \<Rightarrow> (hit \<times> event) list" where
  "reports min_us s [] = []"
| "reports min_us s (t # ts) =
     (case emitted min_us t s of None \<Rightarrow> [] | Some e \<Rightarrow> [(t, e)]) @
     reports min_us (bpf_step min_us t s) ts"

definition hit_pid :: "hit \<Rightarrow> pid_t" where
  "hit_pid t = (case t of Exec_hit h \<Rightarrow> ucast (h_pid_tgid h) | Fork_hit h c \<Rightarrow> child_pid c)"

definition hit_ts :: "hit \<Rightarrow> u64" where
  "hit_ts t = h_ktime (helpers_of t)"

subsection \<open>Abstract specification: a limiter on one stream of timestamps\<close>

definition passes :: "u64 \<Rightarrow> u64 \<Rightarrow> u64 \<Rightarrow> bool" where
  "passes min_us prev ts \<longleftrightarrow> min_us = 0 \<or> min_us < (ts - prev) div 1000"

fun limiter :: "u64 \<Rightarrow> u64 \<Rightarrow> u64 list \<Rightarrow> u64 list" where
  "limiter min_us prev [] = []"
| "limiter min_us prev (ts # tss) =
     (if passes min_us prev ts then ts # limiter min_us ts tss else limiter min_us prev tss)"

text \<open>Successive elements of a list, the first of them after a given start.\<close>

fun successive :: "('a \<Rightarrow> 'a \<Rightarrow> bool) \<Rightarrow> 'a \<Rightarrow> 'a list \<Rightarrow> bool" where
  "successive P x [] = True"
| "successive P x (y # ys) = (P x y \<and> successive P y ys)"

lemma limiter_spaced: "successive (passes min_us) prev (limiter min_us prev tss)"
  by (induction tss arbitrary: prev) auto

lemma limiter_idle: "limiter 0 prev tss = tss"
  by (induction tss arbitrary: prev) (auto simp: passes_def)

lemma handle_event_cases:
  "h_lookup h \<Longrightarrow>
     handle_event min_us h pid st e =
       (if passes min_us (s_prev_ts st) (h_ktime h)
        then let e' = e\<lparr>e_pid := pid, e_prev_pid := s_prev_pid st,
                        e_delta_us := (h_ktime h - s_prev_ts st) div 1000, e_task := h_comm h\<rparr>
             in (Some e', \<lparr>s_prev_pid = pid, s_prev_ts = h_ktime h\<rparr>, e')
        else (None, st, e))"
  by (auto simp: handle_event_def passes_def Let_def not_le)

lemma handle_event_no_slot: "\<not> h_lookup h \<Longrightarrow> handle_event min_us h pid st e = (None, st, e)"
  by (simp add: handle_event_def)

subsection \<open>The contract both handlers have, and what follows from it\<close>

locale tracepoint_handler =
  fixes mine :: "hit \<Rightarrow> bool"
    and own :: "bpf_state \<Rightarrow> statics"
  assumes emitted_mine:
      "mine t \<Longrightarrow> emitted min_us t s =
         fst (handle_event min_us (helpers_of t) (hit_pid t) (own s) (heap s (h_cpu (helpers_of t))))"
    and step_mine:
      "mine t \<Longrightarrow> own (bpf_step min_us t s) =
         fst (snd (handle_event min_us (helpers_of t) (hit_pid t) (own s)
                     (heap s (h_cpu (helpers_of t)))))"
    and step_other: "\<not> mine t \<Longrightarrow> own (bpf_step min_us t s) = own s"
begin

definition my_reports :: "u64 \<Rightarrow> bpf_state \<Rightarrow> hit list \<Rightarrow> (hit \<times> event) list" where
  "my_reports min_us s ts = filter (\<lambda>r. mine (fst r)) (reports min_us s ts)"

lemma my_reports_Nil: "my_reports min_us s [] = []"
  by (simp add: my_reports_def)

lemma my_reports_other:
  "\<not> mine t \<Longrightarrow> my_reports min_us s (t # ts) = my_reports min_us (bpf_step min_us t s) ts"
  by (auto simp: my_reports_def split: option.split)

lemma my_reports_mine:
  assumes "mine t" and "h_lookup (helpers_of t)"
  shows "my_reports min_us s (t # ts) =
    (if passes min_us (s_prev_ts (own s)) (hit_ts t)
     then (t, (heap s (h_cpu (helpers_of t)))\<lparr>e_pid := hit_pid t, e_prev_pid := s_prev_pid (own s),
                e_delta_us := (hit_ts t - s_prev_ts (own s)) div 1000,
                e_task := h_comm (helpers_of t)\<rparr>) # my_reports min_us (bpf_step min_us t s) ts
     else my_reports min_us (bpf_step min_us t s) ts)"
  using assms by (simp add: my_reports_def emitted_mine handle_event_cases hit_ts_def Let_def)

lemma own_step_mine:
  assumes "mine t" and "h_lookup (helpers_of t)"
  shows "own (bpf_step min_us t s) =
    (if passes min_us (s_prev_ts (own s)) (hit_ts t)
     then \<lparr>s_prev_pid = hit_pid t, s_prev_ts = hit_ts t\<rparr> else own s)"
  using assms by (simp add: step_mine handle_event_cases hit_ts_def Let_def)

text \<open>The refinement: the timestamps reported are those the limiter passes.\<close>

lemma refines_limiter:
  "(\<And>t. t \<in> set ts \<Longrightarrow> h_lookup (helpers_of t)) \<Longrightarrow>
     map (\<lambda>r. hit_ts (fst r)) (my_reports min_us s ts) =
       limiter min_us (s_prev_ts (own s)) (map hit_ts (filter mine ts))"
proof (induction ts arbitrary: s)
  case (Cons t ts)
  then show ?case
    by (cases "mine t") (simp_all add: my_reports_other my_reports_mine own_step_mine step_other)
qed (simp add: my_reports_Nil)

text \<open>The fields of successive reports form a chain.\<close>

lemma reports_chained:
  "(\<And>t. t \<in> set ts \<Longrightarrow> h_lookup (helpers_of t)) \<Longrightarrow>
     map (\<lambda>r. e_prev_pid (snd r)) (my_reports min_us s ts) =
       butlast (s_prev_pid (own s) # map (\<lambda>r. hit_pid (fst r)) (my_reports min_us s ts)) \<and>
     map (\<lambda>r. e_delta_us (snd r)) (my_reports min_us s ts) =
       map2 (\<lambda>a b. (b - a) div 1000)
         (s_prev_ts (own s) # map (\<lambda>r. hit_ts (fst r)) (my_reports min_us s ts))
         (map (\<lambda>r. hit_ts (fst r)) (my_reports min_us s ts))"
proof (induction ts arbitrary: s)
  case (Cons t ts)
  then show ?case
    by (cases "mine t") (simp_all add: my_reports_other my_reports_mine own_step_mine step_other)
qed (simp add: my_reports_Nil)

end

subsection \<open>The two handlers meet the contract\<close>

definition is_exec :: "hit \<Rightarrow> bool" where
  "is_exec t = (case t of Exec_hit _ \<Rightarrow> True | Fork_hit _ _ \<Rightarrow> False)"

definition is_fork :: "hit \<Rightarrow> bool" where
  "is_fork t = (case t of Exec_hit _ \<Rightarrow> False | Fork_hit _ _ \<Rightarrow> True)"

lemma bpf_perf_event_output_frame [simp]:
  "heap (bpf_perf_event_output h e s) = heap s"
  "exec_statics (bpf_perf_event_output h e s) = exec_statics s"
  "fork_statics (bpf_perf_event_output h e s) = fork_statics s"
  by (simp_all add: bpf_perf_event_output_def)

lemma handle_exec_statics [simp]:
  "exec_statics (snd (handle_exec min_us h s)) =
     fst (snd (handle_event min_us h (ucast (h_pid_tgid h)) (exec_statics s) (heap s (h_cpu h))))"
  "fork_statics (snd (handle_exec min_us h s)) = fork_statics s"
  by (auto simp: handle_exec_def Let_def split: prod.split option.split)

lemma handle_fork_statics [simp]:
  "fork_statics (snd (handle_fork min_us h c s)) =
     fst (snd (handle_event min_us h (child_pid c) (fork_statics s) (heap s (h_cpu h))))"
  "exec_statics (snd (handle_fork min_us h c s)) = exec_statics s"
  by (auto simp: handle_fork_def Let_def split: prod.split option.split)

interpretation exec_h: tracepoint_handler is_exec exec_statics
  by unfold_locales (auto simp: is_exec_def hit_pid_def split: hit.splits)

interpretation fork_h: tracepoint_handler is_fork fork_statics
  by unfold_locales (auto simp: is_fork_def hit_pid_def split: hit.splits)

lemmas my_reports_defs = exec_h.my_reports_def fork_h.my_reports_def

lemma step_perf_out:
  "h_room (helpers_of t) \<Longrightarrow>
     perf_out (bpf_step min_us t s) =
       perf_out s @ map (\<lambda>e. (h_cpu (helpers_of t), e)) (case emitted min_us t s of None \<Rightarrow> [] | Some e \<Rightarrow> [e])"
  by (cases t)
    (auto simp: handle_exec_def handle_fork_def bpf_perf_event_output_def Let_def
      split: prod.split option.split)

lemma step_perf_out_full: "\<not> h_room (helpers_of t) \<Longrightarrow> perf_out (bpf_step min_us t s) = perf_out s"
  by (cases t)
    (auto simp: handle_exec_def handle_fork_def bpf_perf_event_output_def Let_def
      split: prod.split option.split)

lemma emitted_content:
  "emitted min_us t s = Some e \<Longrightarrow> e_pid e = hit_pid t \<and> e_task e = h_comm (helpers_of t)"
  by (cases t) (auto simp: handle_event_def hit_pid_def Let_def split: if_splits)

lemma reports_content:
  "(t, e) \<in> set (reports min_us s ts) \<Longrightarrow>
     t \<in> set ts \<and> e_pid e = hit_pid t \<and> e_task e = h_comm (helpers_of t)"
  by (induction ts arbitrary: s) (auto dest: emitted_content emitted_content [OF sym] split: option.splits)

subsection \<open>Properties of the programs\<close>

text \<open>
  C10: Each handler is a limiter on its own stream: the timestamps at which a run of
  tracepoint hits reports an exec are those a limiter with that minimum interval
  passes on the exec hits alone, and the same for forks; the hits of the other kind
  play no part, nor does the CPU a hit is on.
\<close>

theorem handlers_refine_limiter:
  assumes "\<And>t. t \<in> set ts \<Longrightarrow> h_lookup (helpers_of t)"
  shows "map (\<lambda>r. hit_ts (fst r)) (filter (\<lambda>r. is_exec (fst r)) (reports min_us s ts)) =
           limiter min_us (s_prev_ts (exec_statics s)) (map hit_ts (filter is_exec ts)) \<and>
         map (\<lambda>r. hit_ts (fst r)) (filter (\<lambda>r. is_fork (fst r)) (reports min_us s ts)) =
           limiter min_us (s_prev_ts (fork_statics s)) (map hit_ts (filter is_fork ts))"
  using exec_h.refines_limiter [OF assms, of ts] fork_h.refines_limiter [OF assms, of ts]
  by (simp add: my_reports_defs)

definition zero_event :: event where
  "zero_event = \<lparr>e_pid = 0, e_prev_pid = 0, e_delta_us = 0, e_task = replicate 16 0\<rparr>"

definition initial_bpf :: bpf_state where
  "initial_bpf = \<lparr>heap = (\<lambda>_. zero_event), exec_statics = \<lparr>s_prev_pid = 0, s_prev_ts = 0\<rparr>,
     fork_statics = \<lparr>s_prev_pid = 0, s_prev_ts = 0\<rparr>, perf_out = []\<rparr>"

definition exec_at :: "nat \<Rightarrow> u64 \<Rightarrow> u64 \<Rightarrow> hit" where
  "exec_at cpu ts tgid = Exec_hit \<lparr>h_cpu = cpu, h_lookup = True, h_ktime = ts, h_pid_tgid = tgid,
     h_comm = replicate 16 0, h_room = True\<rparr>"

definition fork_at :: "nat \<Rightarrow> u64 \<Rightarrow> pid_t \<Rightarrow> hit" where
  "fork_at cpu ts child = Fork_hit \<lparr>h_cpu = cpu, h_lookup = True, h_ktime = ts, h_pid_tgid = 1,
     h_comm = replicate 16 0, h_room = True\<rparr>
     \<lparr>parent_comm = [], parent_pid = 1, child_comm = [], child_pid = child\<rparr>"

lemmas hit_examples =
  exec_at_def fork_at_def initial_bpf_def zero_event_def is_exec_def is_fork_def hit_ts_def
  hit_pid_def passes_def

theorem handlers_refine_limiter_witness:
  "map (\<lambda>r. hit_ts (fst r)) (filter (\<lambda>r. is_exec (fst r))
     (reports 10 initial_bpf [exec_at 0 20000 7, fork_at 0 20001 8, exec_at 1 25000 9])) = [20000]"
proof -
  have "\<And>t. t \<in> set [exec_at 0 20000 7, fork_at 0 20001 8, exec_at 1 25000 9] \<Longrightarrow>
      h_lookup (helpers_of t)"
    by (auto simp: hit_examples)
  from handlers_refine_limiter [OF this, of "[exec_at 0 20000 7, fork_at 0 20001 8, exec_at 1 25000 9]" 10 initial_bpf]
  show ?thesis by (simp add: hit_examples)
qed

text \<open>
  With a non-zero minimum interval, two successive events reported by one handler
  are more than that many microseconds apart, and so is the first of them from the
  event reported last before the run.
\<close>

theorem reported_events_spaced:
  assumes "\<And>t. t \<in> set ts \<Longrightarrow> h_lookup (helpers_of t)" and "min_us \<noteq> 0"
  shows "successive (\<lambda>a b. min_us < (b - a) div 1000) (s_prev_ts (exec_statics s))
      (map (\<lambda>r. hit_ts (fst r)) (filter (\<lambda>r. is_exec (fst r)) (reports min_us s ts))) \<and>
    successive (\<lambda>a b. min_us < (b - a) div 1000) (s_prev_ts (fork_statics s))
      (map (\<lambda>r. hit_ts (fst r)) (filter (\<lambda>r. is_fork (fst r)) (reports min_us s ts)))"
proof -
  have "passes min_us = (\<lambda>a b. min_us < (b - a) div 1000)"
    using assms(2) by (simp add: fun_eq_iff passes_def)
  then show ?thesis
    using limiter_spaced [of min_us] exec_h.refines_limiter [OF assms(1), of ts]
      fork_h.refines_limiter [OF assms(1), of ts]
    by (simp add: my_reports_defs)
qed

theorem reported_events_spaced_witness:
  "successive (\<lambda>a b. 10 < (b - a) div 1000) 0
     (map (\<lambda>r. hit_ts (fst r)) (filter (\<lambda>r. is_exec (fst r))
        (reports 10 initial_bpf [exec_at 0 20000 7, exec_at 1 25000 8, exec_at 0 40000 9])))"
proof -
  have "\<And>t. t \<in> set [exec_at 0 20000 7, exec_at 1 25000 8, exec_at 0 40000 9] \<Longrightarrow>
      h_lookup (helpers_of t)"
    by (auto simp: hit_examples)
  from reported_events_spaced [OF this, of "[exec_at 0 20000 7, exec_at 1 25000 8, exec_at 0 40000 9]" 10 initial_bpf]
  show ?thesis by (simp add: initial_bpf_def)
qed

text \<open>
  The reports of one handler are linked: each carries the pid of the report before
  it and the microseconds since it, the first one those of the handler's statics.
\<close>

theorem reported_events_linked:
  assumes "\<And>t. t \<in> set ts \<Longrightarrow> h_lookup (helpers_of t)"
    and "rs = filter (\<lambda>r. is_exec (fst r)) (reports min_us s ts)"
  shows "map (\<lambda>r. e_prev_pid (snd r)) rs =
           butlast (s_prev_pid (exec_statics s) # map (\<lambda>r. e_pid (snd r)) rs) \<and>
         map (\<lambda>r. e_delta_us (snd r)) rs =
           map2 (\<lambda>a b. (b - a) div 1000)
             (s_prev_ts (exec_statics s) # map (\<lambda>r. hit_ts (fst r)) rs) (map (\<lambda>r. hit_ts (fst r)) rs)"
proof -
  have "map (\<lambda>r. e_pid (snd r)) rs = map (\<lambda>r. hit_pid (fst r)) rs"
    using assms(2) reports_content by (auto 0 3)
  moreover have "exec_h.my_reports min_us s ts = rs" by (simp add: my_reports_defs assms(2))
  ultimately show ?thesis
    using exec_h.reports_chained [where ts = ts and min_us = min_us and s = s, OF assms(1)]
    by (simp only:)
qed

theorem reported_events_linked_witness:
  "map (\<lambda>r. e_prev_pid (snd r)) (filter (\<lambda>r. is_exec (fst r))
     (reports 0 initial_bpf [exec_at 0 20000 7, exec_at 1 25000 8])) = [0, 7]"
proof -
  have "\<And>t. t \<in> set [exec_at 0 20000 7, exec_at 1 25000 8] \<Longrightarrow> h_lookup (helpers_of t)"
    by (auto simp: hit_examples)
  from reported_events_linked [OF this refl, of "[exec_at 0 20000 7, exec_at 1 25000 8]" 0 initial_bpf]
  show ?thesis
    by (simp add: hit_examples handle_event_def Let_def)
qed

text \<open>
  The perf array receives, in order and on the CPU of the hit, exactly the events
  of the hits that pass the limiter; each names the pid the tracepoint is about (the
  low half of \<^verbatim>\<open>pid_tgid\<close> for an exec, the child for a fork).
\<close>

theorem perf_array_gets_reports:
  assumes "\<And>t. t \<in> set ts \<Longrightarrow> h_room (helpers_of t)"
  shows "perf_out (bpf_run min_us s ts) =
           perf_out s @ map (\<lambda>(t, e). (h_cpu (helpers_of t), e)) (reports min_us s ts) \<and>
         (\<forall>t e. (t, e) \<in> set (reports min_us s ts) \<longrightarrow>
           t \<in> set ts \<and> e_pid e = hit_pid t \<and> e_task e = h_comm (helpers_of t))"
proof -
  have "perf_out (bpf_run min_us s ts) =
      perf_out s @ map (\<lambda>(t, e). (h_cpu (helpers_of t), e)) (reports min_us s ts)"
    using assms
    by (induction ts arbitrary: s) (simp_all add: step_perf_out split: option.split)
  then show ?thesis using reports_content by blast
qed

theorem perf_array_gets_reports_witness:
  "map fst (perf_out (bpf_run 0 initial_bpf [exec_at 3 20000 7, fork_at 5 20001 8])) = [3, 5]"
proof -
  have "\<And>t. t \<in> set [exec_at 3 20000 7, fork_at 5 20001 8] \<Longrightarrow> h_room (helpers_of t)"
    by (auto simp: hit_examples)
  from perf_array_gets_reports [OF this, of "[exec_at 3 20000 7, fork_at 5 20001 8]" 0 initial_bpf]
  show ?thesis by (simp add: hit_examples handle_event_def Let_def handle_exec_def)
qed

text \<open>
  The minimum interval is shared between CPUs: an exec on one CPU silences an exec
  that follows within the interval on another one, although no exec was seen there.
\<close>

theorem interval_shared_between_cpus:
  "map (\<lambda>r. hit_ts (fst r)) (reports 1000 initial_bpf
     [exec_at 0 5000000 7, exec_at 1 5001000 8, fork_at 0 5002000 9]) = [5000000, 5002000]"
  by (simp add: hit_examples handle_event_def Let_def handle_exec_def)

end
