(* ===== verification/Bpf_Race.thy ===== *)
theory Bpf_Race
  imports Bpf_Event
begin

text \<open>
  The tracepoint programs of \<^verbatim>\<open>ananicy_cpp.bpf.c\<close> on several CPUs at once. A CPU runs one program at a time, but the
  statics of a handler are shared by all of them, so their loads and stores interleave. A program is cut at every
  access to a static; what lies between two of them touches only the slot of the CPU. The theorems: an
  event that is reported is never mixed from two hits; without overlap the interleaved programs are the sequential
  ones of \<open>Bpf_Event\<close>; and with overlap the minimum interval is not kept and the time since the last event wraps.
\<close>

subsection \<open>A program between two accesses to its statics\<close>

text \<open>
  Where \<^verbatim>\<open>handle_event\<close> and its caller are for a hit: the time was taken; the interval was compared and passed;
  the slot is filled; the pid is stored; the time is stored and the event is about to be output.
\<close>

datatype activity = Idle | Clocked hit | Compared hit u64 | Filled hit | Pid_Stored hit | Ready hit

record race =
  r_bpf :: bpf_state
  r_cpu :: "nat \<Rightarrow> activity"
  r_clock :: u64
  r_started :: "hit list"
  r_out :: "(hit \<times> event) list"

definition cpu_of :: "hit \<Rightarrow> nat" where
  "cpu_of t = h_cpu (helpers_of t)"

definition statics_of :: "hit \<Rightarrow> bpf_state \<Rightarrow> statics" where
  "statics_of t s = (if is_exec t then exec_statics s else fork_statics s)"

definition put_statics :: "hit \<Rightarrow> statics \<Rightarrow> bpf_state \<Rightarrow> bpf_state" where
  "put_statics t st s = (if is_exec t then s\<lparr>exec_statics := st\<rparr> else s\<lparr>fork_statics := st\<rparr>)"

definition move_cpu :: "nat \<Rightarrow> activity \<Rightarrow> race \<Rightarrow> race" where
  "move_cpu c a r = r\<lparr>r_cpu := (r_cpu r)(c := a)\<rparr>"

text \<open>A tracepoint is hit: the slot is looked up and the time taken.\<close>

definition begin_hit :: "hit \<Rightarrow> race \<Rightarrow> race" where
  "begin_hit t r =
     move_cpu (cpu_of t) (if h_lookup (helpers_of t) then Clocked t else Idle)
       (r\<lparr>r_clock := hit_ts t, r_started := r_started r @ [t]\<rparr>)"

text \<open>The assignments to the fields of the slot, with the load of \<^verbatim>\<open>*prev_pid\<close> among them.\<close>

definition fill_slot :: "hit \<Rightarrow> u64 \<Rightarrow> statics \<Rightarrow> event \<Rightarrow> event" where
  "fill_slot t delta_us st e =
     e\<lparr>e_pid := hit_pid t, e_prev_pid := s_prev_pid st, e_delta_us := delta_us, e_task := h_comm (helpers_of t)\<rparr>"

definition advance :: "u64 \<Rightarrow> nat \<Rightarrow> race \<Rightarrow> race" where
  "advance min_us c r =
     (let s = r_bpf r in
      case r_cpu r c of
        Idle \<Rightarrow> r
      | Clocked t \<Rightarrow>
          (let delta_us = (hit_ts t - s_prev_ts (statics_of t s)) div 1000 in
           move_cpu c (if min_us \<noteq> 0 \<and> delta_us \<le> min_us then Idle else Compared t delta_us) r)
      | Compared t delta_us \<Rightarrow>
          move_cpu c (Filled t) (r\<lparr>r_bpf := s\<lparr>heap := (heap s)(c := fill_slot t delta_us (statics_of t s) (heap s c))\<rparr>\<rparr>)
      | Filled t \<Rightarrow>
          move_cpu c (Pid_Stored t) (r\<lparr>r_bpf := put_statics t ((statics_of t s)\<lparr>s_prev_pid := e_pid (heap s c)\<rparr>) s\<rparr>)
      | Pid_Stored t \<Rightarrow>
          move_cpu c (Ready t) (r\<lparr>r_bpf := put_statics t ((statics_of t s)\<lparr>s_prev_ts := hit_ts t\<rparr>) s\<rparr>)
      | Ready t \<Rightarrow>
          move_cpu c Idle (r\<lparr>r_bpf := bpf_perf_event_output (helpers_of t) (heap s c) s, r_out := r_out r @ [(t, heap s c)]\<rparr>))"

text \<open>Any CPU may go on, and an idle one may be hit; the clock of the kernel does not go back.\<close>

inductive race_step :: "u64 \<Rightarrow> race \<Rightarrow> race \<Rightarrow> bool" for min_us where
  hit: "r_cpu r (cpu_of t) = Idle \<Longrightarrow> r_clock r \<le> hit_ts t \<Longrightarrow> race_step min_us r (begin_hit t r)"
| go_on: "r_cpu r c \<noteq> Idle \<Longrightarrow> race_step min_us r (advance min_us c r)"

definition race_start :: "bpf_state \<Rightarrow> race" where
  "race_start s = \<lparr>r_bpf = s, r_cpu = (\<lambda>_. Idle), r_clock = 0, r_started = [], r_out = []\<rparr>"

lemma statics_simps [simp]:
  "statics_of t (put_statics t' st s) = (if is_exec t = is_exec t' then st else statics_of t s)"
  "heap (put_statics t st s) = heap s" "perf_out (put_statics t st s) = perf_out s"
  "statics_of t (s\<lparr>heap := h\<rparr>) = statics_of t s"
  "statics_of t (bpf_perf_event_output hp e s) = statics_of t s"
  "statics_of t (s\<lparr>perf_out := p\<rparr>) = statics_of t s"
  by (auto simp: statics_of_def put_statics_def)

lemma move_cpu_simps [simp]:
  "r_bpf (move_cpu c a r) = r_bpf r" "r_cpu (move_cpu c a r) = (r_cpu r)(c := a)"
  "r_started (move_cpu c a r) = r_started r" "r_out (move_cpu c a r) = r_out r" "r_clock (move_cpu c a r) = r_clock r"
  by (simp_all add: move_cpu_def)

lemma fill_slot_simps [simp]:
  "e_pid (fill_slot t d st e) = hit_pid t" "e_task (fill_slot t d st e) = h_comm (helpers_of t)"
  "e_delta_us (fill_slot t d st e) = d"
  by (simp_all add: fill_slot_def)

subsection \<open>No event is mixed from two hits\<close>

text \<open>The time a program compares with: the one at the start, or that of a hit of the same kind.\<close>

definition known_time :: "bpf_state \<Rightarrow> hit list \<Rightarrow> hit \<Rightarrow> u64 \<Rightarrow> bool" where
  "known_time s0 ts t p \<longleftrightarrow>
     p = s_prev_ts (statics_of t s0) \<or> (\<exists>t' \<in> set ts. is_exec t' = is_exec t \<and> p = hit_ts t')"

definition passed :: "u64 \<Rightarrow> bpf_state \<Rightarrow> hit list \<Rightarrow> hit \<Rightarrow> u64 \<Rightarrow> bool" where
  "passed min_us s0 ts t delta_us \<longleftrightarrow>
     (\<exists>p. known_time s0 ts t p \<and> passes min_us p (hit_ts t) \<and> delta_us = (hit_ts t - p) div 1000)"

definition intact :: "u64 \<Rightarrow> bpf_state \<Rightarrow> hit list \<Rightarrow> hit \<Rightarrow> event \<Rightarrow> bool" where
  "intact min_us s0 ts t e \<longleftrightarrow>
     t \<in> set ts \<and> e_pid e = hit_pid t \<and> e_task e = h_comm (helpers_of t) \<and> passed min_us s0 ts t (e_delta_us e)"

fun cpu_ok :: "u64 \<Rightarrow> bpf_state \<Rightarrow> hit list \<Rightarrow> nat \<Rightarrow> event \<Rightarrow> activity \<Rightarrow> bool" where
  "cpu_ok min_us s0 ts c e Idle = True"
| "cpu_ok min_us s0 ts c e (Clocked t) = (t \<in> set ts \<and> cpu_of t = c)"
| "cpu_ok min_us s0 ts c e (Compared t d) = (t \<in> set ts \<and> cpu_of t = c \<and> passed min_us s0 ts t d)"
| "cpu_ok min_us s0 ts c e (Filled t) = (cpu_of t = c \<and> intact min_us s0 ts t e)"
| "cpu_ok min_us s0 ts c e (Pid_Stored t) = (cpu_of t = c \<and> intact min_us s0 ts t e)"
| "cpu_ok min_us s0 ts c e (Ready t) = (cpu_of t = c \<and> intact min_us s0 ts t e)"

definition race_inv :: "u64 \<Rightarrow> bpf_state \<Rightarrow> race \<Rightarrow> bool" where
  "race_inv min_us s0 r \<longleftrightarrow>
     (\<forall>t. known_time s0 (r_started r) t (s_prev_ts (statics_of t (r_bpf r)))) \<and>
     (\<forall>c. cpu_ok min_us s0 (r_started r) c (heap (r_bpf r) c) (r_cpu r c)) \<and>
     (\<forall>(t, e) \<in> set (r_out r). intact min_us s0 (r_started r) t e) \<and>
     perf_out (r_bpf r) =
       perf_out s0 @ map (\<lambda>(t, e). (cpu_of t, e)) (filter (\<lambda>(t, e). h_room (helpers_of t)) (r_out r))"

lemma known_time_kind: "is_exec t = is_exec t' \<Longrightarrow> known_time s0 ts t p = known_time s0 ts t' p"
  by (simp add: known_time_def statics_of_def)

lemma known_time_own: "t \<in> set ts \<Longrightarrow> is_exec u = is_exec t \<Longrightarrow> known_time s0 ts u (hit_ts t)"
  by (auto simp: known_time_def)

lemma known_time_more: "known_time s0 ts t p \<Longrightarrow> known_time s0 (ts @ us) t p"
  by (auto simp: known_time_def)

lemma passed_more: "passed min_us s0 ts t d \<Longrightarrow> passed min_us s0 (ts @ us) t d"
  by (auto simp: passed_def intro: known_time_more)

lemma intact_more: "intact min_us s0 ts t e \<Longrightarrow> intact min_us s0 (ts @ us) t e"
  by (auto simp: intact_def intro: passed_more)

lemma cpu_ok_more: "cpu_ok min_us s0 ts c e a \<Longrightarrow> cpu_ok min_us s0 (ts @ us) c e a"
  by (cases a) (auto intro: passed_more intact_more)

lemma race_inv_hit: "race_inv min_us s0 r \<Longrightarrow> race_inv min_us s0 (begin_hit t r)"
  by (auto simp: race_inv_def begin_hit_def intro: known_time_more cpu_ok_more intact_more)

lemma race_inv_advance:
  assumes inv: "race_inv min_us s0 r"
  shows "race_inv min_us s0 (advance min_us c r)"
proof -
  have ok: "cpu_ok min_us s0 (r_started r) c (heap (r_bpf r) c) (r_cpu r c)"
    and known: "\<And>t. known_time s0 (r_started r) t (s_prev_ts (statics_of t (r_bpf r)))"
    using inv by (auto simp: race_inv_def)
  show ?thesis
  proof (cases "r_cpu r c")
    case (Clocked t)
    have "passed min_us s0 (r_started r) t ((hit_ts t - s_prev_ts (statics_of t (r_bpf r))) div 1000)"
      if "\<not> (min_us \<noteq> 0 \<and> (hit_ts t - s_prev_ts (statics_of t (r_bpf r))) div 1000 \<le> min_us)"
      using that known [of t] by (auto simp: passed_def passes_def not_le)
    with inv ok Clocked show ?thesis by (auto simp: race_inv_def advance_def Let_def)
  next
    case (Compared t d)
    with inv ok show ?thesis by (auto simp: race_inv_def advance_def Let_def intact_def)
  next
    case (Filled t)
    have "known_time s0 (r_started r) u (s_prev_ts (statics_of t (r_bpf r)))" if "is_exec u = is_exec t" for u
      using known [of t] known_time_kind [OF that] by blast
    with inv ok Filled show ?thesis by (auto simp: race_inv_def advance_def Let_def)
  next
    case (Pid_Stored t)
    with inv ok show ?thesis
      by (auto simp: race_inv_def advance_def Let_def intact_def known_time_own)
  next
    case (Ready t)
    with inv ok show ?thesis
      by (auto simp: race_inv_def advance_def Let_def bpf_perf_event_output_def cpu_of_def)
  qed (use inv in \<open>simp add: advance_def\<close>)
qed

lemma race_inv_reachable: "(race_step min_us)\<^sup>*\<^sup>* (race_start s0) r \<Longrightarrow> race_inv min_us s0 r"
proof (induction rule: rtranclp_induct)
  case base
  show ?case by (simp add: race_inv_def race_start_def known_time_def)
next
  case (step r r')
  from step.hyps(2) step.IH show ?case
    by (cases rule: race_step.cases) (auto intro: race_inv_hit race_inv_advance)
qed

text \<open>
  C7: However the programs interleave on the CPUs, an event that is reported belongs to one hit: it carries the pid and
  the name of that hit, and the interval to a time at which a program of the same kind was hit (or the time the run
  started with), against which it passed the limiter. The perf array receives the reported events in order, less
  those for which it had no room.
\<close>

theorem reported_events_intact:
  assumes "(race_step min_us)\<^sup>*\<^sup>* (race_start s0) r"
  shows "(\<forall>(t, e) \<in> set (r_out r). t \<in> set (r_started r) \<and> e_pid e = hit_pid t \<and> e_task e = h_comm (helpers_of t) \<and>
      (\<exists>p. (p = s_prev_ts (statics_of t s0) \<or> (\<exists>t' \<in> set (r_started r). is_exec t' = is_exec t \<and> p = hit_ts t')) \<and>
           passes min_us p (hit_ts t) \<and> e_delta_us e = (hit_ts t - p) div 1000)) \<and>
    perf_out (r_bpf r) =
      perf_out s0 @ map (\<lambda>(t, e). (cpu_of t, e)) (filter (\<lambda>(t, e). h_room (helpers_of t)) (r_out r))"
  using race_inv_reachable [OF assms]
  unfolding race_inv_def intact_def passed_def known_time_def by blast

subsection \<open>Without overlap the programs are sequential\<close>

text \<open>Runs in which a tracepoint is hit only while no CPU is in a program.\<close>

definition serial_step :: "u64 \<Rightarrow> race \<Rightarrow> race \<Rightarrow> bool" where
  "serial_step min_us r r' \<longleftrightarrow>
     race_step min_us r r' \<and> (r_started r' \<noteq> r_started r \<longrightarrow> (\<forall>c. r_cpu r c = Idle))"

text \<open>How far the program for a hit has changed the state \<open>s\<close> it started in.\<close>

definition with_slot :: "bpf_state \<Rightarrow> hit \<Rightarrow> bpf_state" where
  "with_slot s t =
     s\<lparr>heap := (heap s)(cpu_of t :=
         fill_slot t ((hit_ts t - s_prev_ts (statics_of t s)) div 1000) (statics_of t s) (heap s (cpu_of t)))\<rparr>"

fun part_way :: "bpf_state \<Rightarrow> hit \<Rightarrow> activity \<Rightarrow> bpf_state" where
  "part_way s t (Filled _) = with_slot s t"
| "part_way s t (Pid_Stored _) = put_statics t ((statics_of t s)\<lparr>s_prev_pid := hit_pid t\<rparr>) (with_slot s t)"
| "part_way s t (Ready _) = put_statics t \<lparr>s_prev_pid = hit_pid t, s_prev_ts = hit_ts t\<rparr> (with_slot s t)"
| "part_way s t _ = s"

fun on_the_way :: "u64 \<Rightarrow> bpf_state \<Rightarrow> hit \<Rightarrow> activity \<Rightarrow> bool" where
  "on_the_way min_us s t Idle = False"
| "on_the_way min_us s t (Clocked u) = (u = t)"
| "on_the_way min_us s t (Compared u d) =
     (u = t \<and> passes min_us (s_prev_ts (statics_of t s)) (hit_ts t) \<and> d = (hit_ts t - s_prev_ts (statics_of t s)) div 1000)"
| "on_the_way min_us s t (Filled u) = (u = t \<and> passes min_us (s_prev_ts (statics_of t s)) (hit_ts t))"
| "on_the_way min_us s t (Pid_Stored u) = (u = t \<and> passes min_us (s_prev_ts (statics_of t s)) (hit_ts t))"
| "on_the_way min_us s t (Ready u) = (u = t \<and> passes min_us (s_prev_ts (statics_of t s)) (hit_ts t))"

definition serial_inv :: "u64 \<Rightarrow> bpf_state \<Rightarrow> race \<Rightarrow> bool" where
  "serial_inv min_us s0 r \<longleftrightarrow>
     (\<forall>c. r_cpu r c = Idle) \<and> r_bpf r = bpf_run min_us s0 (r_started r) \<and> r_out r = reports min_us s0 (r_started r) \<or>
     (\<exists>ts t. r_started r = ts @ [t] \<and> h_lookup (helpers_of t) \<and> (\<forall>c. c \<noteq> cpu_of t \<longrightarrow> r_cpu r c = Idle) \<and>
        on_the_way min_us (bpf_run min_us s0 ts) t (r_cpu r (cpu_of t)) \<and>
        r_bpf r = part_way (bpf_run min_us s0 ts) t (r_cpu r (cpu_of t)) \<and> r_out r = reports min_us s0 ts)"

lemma bpf_run_snoc: "bpf_run min_us s (ts @ [t]) = bpf_step min_us t (bpf_run min_us s ts)"
  by (induction ts arbitrary: s) simp_all

lemma reports_snoc:
  "reports min_us s (ts @ [t]) =
     reports min_us s ts @ (case emitted min_us t (bpf_run min_us s ts) of None \<Rightarrow> [] | Some e \<Rightarrow> [(t, e)])"
  by (induction ts arbitrary: s) simp_all

text \<open>The sequential program in terms of the pieces.\<close>

lemma handle_event_pieces:
  assumes "h_lookup (helpers_of t)"
  shows "handle_event min_us (helpers_of t) (hit_pid t) (statics_of t s) (heap s (cpu_of t)) =
    (if passes min_us (s_prev_ts (statics_of t s)) (hit_ts t)
     then (Some (heap (with_slot s t) (cpu_of t)), \<lparr>s_prev_pid = hit_pid t, s_prev_ts = hit_ts t\<rparr>, heap (with_slot s t) (cpu_of t))
     else (None, statics_of t s, heap s (cpu_of t)))"
  by (simp add: handle_event_cases [OF assms] with_slot_def fill_slot_def hit_ts_def Let_def)

lemma step_by_handler:
  "bpf_step min_us t s =
     (case handle_event min_us (helpers_of t) (hit_pid t) (statics_of t s) (heap s (cpu_of t)) of
        (res, st, e) \<Rightarrow>
          let s' = (put_statics t st s)\<lparr>heap := (heap s)(cpu_of t := e)\<rparr>
          in (case res of None \<Rightarrow> s' | Some ev \<Rightarrow> bpf_perf_event_output (helpers_of t) ev s'))"
  "emitted min_us t s = fst (handle_event min_us (helpers_of t) (hit_pid t) (statics_of t s) (heap s (cpu_of t)))"
  by (cases t; simp add: handle_exec_def handle_fork_def statics_of_def put_statics_def is_exec_def hit_pid_def cpu_of_def
        Let_def split: prod.split option.split)+

lemma put_statics_heap: "(put_statics t st s)\<lparr>heap := h\<rparr> = put_statics t st (s\<lparr>heap := h\<rparr>)"
  by (simp add: put_statics_def)

lemma put_statics_same [simp]: "put_statics t (statics_of t s) s = s"
  by (simp add: put_statics_def statics_of_def)

lemma step_by_pieces:
  assumes "h_lookup (helpers_of t)" and "passes min_us (s_prev_ts (statics_of t s)) (hit_ts t)"
  shows "bpf_step min_us t s =
      bpf_perf_event_output (helpers_of t) (heap (with_slot s t) (cpu_of t)) (part_way s t (Ready t))"
    and "emitted min_us t s = Some (heap (with_slot s t) (cpu_of t))"
proof -
  have "s\<lparr>heap := (heap s)(cpu_of t := heap (with_slot s t) (cpu_of t))\<rparr> = with_slot s t"
    by (simp add: with_slot_def)
  then show "bpf_step min_us t s =
      bpf_perf_event_output (helpers_of t) (heap (with_slot s t) (cpu_of t)) (part_way s t (Ready t))"
    using assms by (simp add: step_by_handler handle_event_pieces Let_def put_statics_heap)
  show "emitted min_us t s = Some (heap (with_slot s t) (cpu_of t))"
    using assms by (simp add: step_by_handler handle_event_pieces)
qed

lemma step_dropped:
  assumes "h_lookup (helpers_of t) \<Longrightarrow> \<not> passes min_us (s_prev_ts (statics_of t s)) (hit_ts t)"
  shows "bpf_step min_us t s = s" and "emitted min_us t s = None"
  using assms
  by (cases "h_lookup (helpers_of t)";
      simp add: step_by_handler handle_event_pieces handle_event_no_slot Let_def)+

lemma serial_inv_hit:
  assumes "serial_inv min_us s0 r" and "\<forall>c. r_cpu r c = Idle"
  shows "serial_inv min_us s0 (begin_hit t r)"
proof -
  have "r_bpf r = bpf_run min_us s0 (r_started r)" "r_out r = reports min_us s0 (r_started r)"
    using assms by (auto simp: serial_inv_def)
  with assms(2) step_dropped [of t min_us "bpf_run min_us s0 (r_started r)"] show ?thesis
    by (cases "h_lookup (helpers_of t)") (simp_all add: serial_inv_def begin_hit_def bpf_run_snoc reports_snoc)
qed

lemma serial_inv_advance:
  assumes inv: "serial_inv min_us s0 r" and "r_cpu r c \<noteq> Idle"
  shows "serial_inv min_us s0 (advance min_us c r)"
proof -
  obtain ts t where r: "r_started r = ts @ [t]" "h_lookup (helpers_of t)" "\<forall>c. c \<noteq> cpu_of t \<longrightarrow> r_cpu r c = Idle"
    "on_the_way min_us (bpf_run min_us s0 ts) t (r_cpu r (cpu_of t))"
    "r_bpf r = part_way (bpf_run min_us s0 ts) t (r_cpu r (cpu_of t))" "r_out r = reports min_us s0 ts"
    using assms by (auto simp: serial_inv_def)
  have c: "c = cpu_of t" using r(3) assms(2) by blast
  show ?thesis
  proof (cases "r_cpu r c")
    case (Clocked u)
    let ?s = "bpf_run min_us s0 ts"
    show ?thesis
    proof (cases "passes min_us (s_prev_ts (statics_of t ?s)) (hit_ts t)")
      case True
      then have "\<not> (min_us \<noteq> 0 \<and> (hit_ts t - s_prev_ts (statics_of t ?s)) div 1000 \<le> min_us)"
        by (auto simp: passes_def not_le)
      with True Clocked r c show ?thesis by (auto simp: serial_inv_def advance_def Let_def)
    next
      case False
      then have "min_us \<noteq> 0 \<and> (hit_ts t - s_prev_ts (statics_of t ?s)) div 1000 \<le> min_us"
        by (auto simp: passes_def not_less)
      with False Clocked r c step_dropped [of t min_us ?s] show ?thesis
        by (auto simp: serial_inv_def advance_def Let_def bpf_run_snoc reports_snoc)
    qed
  next
    case (Ready u)
    with r c step_by_pieces [of t min_us "bpf_run min_us s0 ts"] show ?thesis
      by (auto simp: serial_inv_def advance_def Let_def bpf_run_snoc reports_snoc)
  qed (use r c in \<open>auto simp: serial_inv_def advance_def Let_def put_statics_def statics_of_def with_slot_def\<close>)
qed

lemma serial_inv_reachable: "(serial_step min_us)\<^sup>*\<^sup>* (race_start s0) r \<Longrightarrow> serial_inv min_us s0 r"
proof (induction rule: rtranclp_induct)
  case base
  show ?case by (simp add: serial_inv_def race_start_def)
next
  case (step r r')
  then have "race_step min_us r r'" and idle: "r_started r' \<noteq> r_started r \<Longrightarrow> \<forall>c. r_cpu r c = Idle"
    by (auto simp: serial_step_def)
  then show ?case
  proof (cases rule: race_step.cases)
    case (hit t)
    then show ?thesis using serial_inv_hit step.IH idle by (simp add: begin_hit_def)
  next
    case (go_on c)
    then show ?thesis using serial_inv_advance step.IH by simp
  qed
qed

text \<open>
  C8: As long as no tracepoint is hit while a program is still at work on another CPU, the interleaved programs are the
  sequential ones: whenever all CPUs are idle again, the maps, the statics and the perf array are those the hits leave
  one after the other, and the reported events are theirs.
\<close>

theorem serial_runs_are_sequential:
  assumes "(serial_step min_us)\<^sup>*\<^sup>* (race_start s0) r" and "\<forall>c. r_cpu r c = Idle"
  shows "r_bpf r = bpf_run min_us s0 (r_started r) \<and> r_out r = reports min_us s0 (r_started r)"
  using serial_inv_reachable [OF assms(1)] assms(2) by (auto simp: serial_inv_def)

subsection \<open>With overlap the interval is not kept\<close>

text \<open>A schedule: a hit, or the next piece of the program on a CPU.\<close>

fun follow :: "u64 \<Rightarrow> (hit + nat) list \<Rightarrow> race \<Rightarrow> race option" where
  "follow min_us [] r = Some r"
| "follow min_us (Inl t # sch) r =
     (if r_cpu r (cpu_of t) = Idle \<and> r_clock r \<le> hit_ts t then follow min_us sch (begin_hit t r) else None)"
| "follow min_us (Inr c # sch) r = (if r_cpu r c \<noteq> Idle then follow min_us sch (advance min_us c r) else None)"

lemma follow_reaches: "follow min_us sch r = Some r' \<Longrightarrow> (race_step min_us)\<^sup>*\<^sup>* r r'"
  by (induction min_us sch r rule: follow.induct)
     (auto intro: converse_rtranclp_into_rtranclp race_step.intros split: if_splits)

lemmas race_eval =
  advance_def begin_hit_def move_cpu_def race_start_def statics_of_def put_statics_def fill_slot_def cpu_of_def
  bpf_perf_event_output_def Let_def hit_examples

definition overtaken :: "(hit + nat) list" where
  "overtaken =
     [Inl (exec_at 0 5000000 7), Inl (exec_at 1 5001000 8), Inr 1, Inr 1, Inr 1, Inr 1, Inr 1, Inr 0, Inr 0, Inr 0, Inr 0, Inr 0]"

lemma overtaken_run:
  obtains r where "follow 1000 overtaken (race_start initial_bpf) = Some r"
    and "map (\<lambda>(t, e). (hit_ts t, e_pid e, e_prev_pid e, e_delta_us e)) (r_out r) =
      [(5001000, 8, 0, 5001), (5000000, 7, 8, 18446744073709550)]"
  by (simp add: overtaken_def race_eval)

text \<open>A program that passes the comparison, run to its end while the other CPUs wait.\<close>

lemma race_advance: "(race_step min_us)\<^sup>*\<^sup>* r (advance min_us c r)"
proof (cases "r_cpu r c = Idle")
  case False
  then show ?thesis by (intro r_into_rtranclp race_step.go_on)
qed (simp add: advance_def)

lemma race_advances: "(race_step min_us)\<^sup>*\<^sup>* r (fold (advance min_us) cs r)"
proof (induction cs arbitrary: r)
  case (Cons c cs)
  then show ?case using rtranclp_trans [OF race_advance [of min_us r c]] by simp
qed simp

lemma advance_phases:
  fixes r :: race
  defines "s \<equiv> r_bpf r"
  shows "r_cpu r c = Clocked t \<Longrightarrow> passes min_us (s_prev_ts (statics_of t s)) (hit_ts t) \<Longrightarrow>
      advance min_us c r = move_cpu c (Compared t ((hit_ts t - s_prev_ts (statics_of t s)) div 1000)) r"
    and "r_cpu r c = Compared t d \<Longrightarrow> advance min_us c r =
      move_cpu c (Filled t) (r\<lparr>r_bpf := s\<lparr>heap := (heap s)(c := fill_slot t d (statics_of t s) (heap s c))\<rparr>\<rparr>)"
    and "r_cpu r c = Filled t \<Longrightarrow> advance min_us c r =
      move_cpu c (Pid_Stored t) (r\<lparr>r_bpf := put_statics t ((statics_of t s)\<lparr>s_prev_pid := e_pid (heap s c)\<rparr>) s\<rparr>)"
    and "r_cpu r c = Pid_Stored t \<Longrightarrow> advance min_us c r =
      move_cpu c (Ready t) (r\<lparr>r_bpf := put_statics t ((statics_of t s)\<lparr>s_prev_ts := hit_ts t\<rparr>) s\<rparr>)"
    and "r_cpu r c = Ready t \<Longrightarrow> advance min_us c r =
      move_cpu c Idle (r\<lparr>r_bpf := bpf_perf_event_output (helpers_of t) (heap s c) s, r_out := r_out r @ [(t, heap s c)]\<rparr>)"
  by (auto simp: s_def advance_def Let_def passes_def not_le)

lemma program_to_end:
  fixes r :: race
  assumes "r_cpu r c = Clocked t" and "passes min_us (s_prev_ts (statics_of t (r_bpf r))) (hit_ts t)"
  obtains r' e where "(race_step min_us)\<^sup>*\<^sup>* r r'" and "r_cpu r' = (r_cpu r)(c := Idle)" and "r_out r' = r_out r @ [(t, e)]"
    and "\<And>u. is_exec u = is_exec t \<Longrightarrow> statics_of u (r_bpf r') = \<lparr>s_prev_pid = hit_pid t, s_prev_ts = hit_ts t\<rparr>"
    and "e_prev_pid e = s_prev_pid (statics_of t (r_bpf r))"
    and "e_delta_us e = (hit_ts t - s_prev_ts (statics_of t (r_bpf r))) div 1000"
proof -
  let ?d = "(hit_ts t - s_prev_ts (statics_of t (r_bpf r))) div 1000" and ?st = "statics_of t (r_bpf r)"
  define ra where "ra = advance min_us c r"
  define rb where "rb = advance min_us c ra"
  define rc where "rc = advance min_us c rb"
  define rd where "rd = advance min_us c rc"
  define re where "re = advance min_us c rd"
  define e where "e = fill_slot t ?d ?st (heap (r_bpf r) c)"
  have a: "r_cpu ra = (r_cpu r)(c := Compared t ?d)" "r_bpf ra = r_bpf r" "r_out ra = r_out r"
    by (simp_all add: ra_def advance_phases(1) [OF assms])
  have b: "r_cpu rb = (r_cpu r)(c := Filled t)" "statics_of u (r_bpf rb) = statics_of u (r_bpf r)"
    "heap (r_bpf rb) c = e" "r_out rb = r_out r" for u
    using a advance_phases(2) [of ra c t ?d min_us] by (simp_all add: rb_def e_def)
  have c: "r_cpu rc = (r_cpu r)(c := Pid_Stored t)" "heap (r_bpf rc) c = e" "r_out rc = r_out r"
    "is_exec u = is_exec t \<Longrightarrow> statics_of u (r_bpf rc) = ?st\<lparr>s_prev_pid := hit_pid t\<rparr>" for u
    using b advance_phases(3) [of rb c t min_us] by (simp_all add: rc_def) (simp add: e_def)
  have d: "r_cpu rd = (r_cpu r)(c := Ready t)" "heap (r_bpf rd) c = e" "r_out rd = r_out r"
    "is_exec u = is_exec t \<Longrightarrow> statics_of u (r_bpf rd) = \<lparr>s_prev_pid = hit_pid t, s_prev_ts = hit_ts t\<rparr>" for u
    using c advance_phases(4) [of rc c t min_us] by (simp_all add: rd_def)
  have "r_cpu re = (r_cpu r)(c := Idle)" "r_out re = r_out r @ [(t, e)]"
    "is_exec u = is_exec t \<Longrightarrow> statics_of u (r_bpf re) = \<lparr>s_prev_pid = hit_pid t, s_prev_ts = hit_ts t\<rparr>" for u
    using d advance_phases(5) [of rd c t min_us] by (simp_all add: re_def)
  moreover have "(race_step min_us)\<^sup>*\<^sup>* r re"
    using race_advances [of min_us r "[c, c, c, c, c]"] by (simp add: ra_def rb_def rc_def rd_def re_def)
  ultimately show thesis using that by (simp add: e_def fill_slot_def)
qed

lemma wrapped_interval:
  fixes a b :: u64
  assumes "a < b"
  shows "unat ((a - b) div 1000) = (2 ^ 64 - unat (b - a)) div 1000"
proof -
  have "unat (a - b) = 2 ^ 64 - unat (b - a)"
    using assms by (simp add: word_less_nat_alt unat_sub_if')
  then show ?thesis by (simp add: unat_div_distrib)
qed

text \<open>
  C9: The interval between two events of a kind is not kept when two CPUs overlap. Take any state, two hits of the same
  kind on different idle CPUs, the second at a later time (by however little) and passing the limiter. Then there is a
  run in which both are reported: the second overtakes the first, which then loads the later time, so that the
  difference wraps and passes the limiter (as long as the minimum interval and the time between the hits are together
  less than 64 bits of nanoseconds). The event reported last is the earlier one; it carries the wrapped difference and
  names the later one as its predecessor, and the stored time has gone back.
\<close>

theorem overlapping_hits_both_reported:
  fixes r :: race
  assumes "r_cpu r (cpu_of t1) = Idle" and "r_cpu r (cpu_of t2) = Idle" and "cpu_of t1 \<noteq> cpu_of t2"
    and "is_exec t1 = is_exec t2" and "h_lookup (helpers_of t1)" and "h_lookup (helpers_of t2)"
    and "r_clock r \<le> hit_ts t1" and "hit_ts t1 < hit_ts t2"
    and "passes min_us (s_prev_ts (statics_of t2 (r_bpf r))) (hit_ts t2)"
    and "1000 * (unat min_us + 1) + unat (hit_ts t2 - hit_ts t1) \<le> 2 ^ 64"
  shows "\<exists>r' e1 e2. (race_step min_us)\<^sup>*\<^sup>* r r' \<and> r_out r' = r_out r @ [(t2, e2), (t1, e1)] \<and>
    r_cpu r' (cpu_of t1) = Idle \<and> r_cpu r' (cpu_of t2) = Idle \<and> e_prev_pid e1 = hit_pid t2 \<and>
    unat (e_delta_us e1) = (2 ^ 64 - unat (hit_ts t2 - hit_ts t1)) div 1000 \<and>
    s_prev_ts (statics_of t1 (r_bpf r')) = hit_ts t1"
proof -
  let ?r = "begin_hit t2 (begin_hit t1 r)"
  have hits: "race_step min_us r (begin_hit t1 r)" "race_step min_us (begin_hit t1 r) ?r"
    using assms(1-3,7,8) by (auto intro!: race_step.hit) (auto simp: begin_hit_def)
  have r: "r_cpu ?r (cpu_of t1) = Clocked t1" "r_cpu ?r (cpu_of t2) = Clocked t2" "r_bpf ?r = r_bpf r" "r_out ?r = r_out r"
    using assms by (simp_all add: begin_hit_def)
  obtain r2 e2 where r2: "(race_step min_us)\<^sup>*\<^sup>* ?r r2" "r_cpu r2 = (r_cpu ?r)(cpu_of t2 := Idle)" "r_out r2 = r_out r @ [(t2, e2)]"
    "statics_of t1 (r_bpf r2) = \<lparr>s_prev_pid = hit_pid t2, s_prev_ts = hit_ts t2\<rparr>"
    using program_to_end [of ?r "cpu_of t2" t2 min_us] assms(4,9) r by metis
  have delta: "unat ((hit_ts t1 - hit_ts t2) div 1000) = (2 ^ 64 - unat (hit_ts t2 - hit_ts t1)) div 1000"
    using assms(8) by (rule wrapped_interval)
  have "Suc (unat min_us) \<le> (2 ^ 64 - unat (hit_ts t2 - hit_ts t1)) div 1000"
    using assms(10) by (simp add: less_eq_div_iff_mult_less_eq)
  then have "min_us < (hit_ts t1 - hit_ts t2) div 1000" unfolding word_less_nat_alt delta by simp
  then have "passes min_us (s_prev_ts (statics_of t1 (r_bpf r2))) (hit_ts t1)" by (simp add: passes_def r2(4))
  moreover have "r_cpu r2 (cpu_of t1) = Clocked t1" using r2(2) r(1) assms(3) by simp
  ultimately obtain r1 e1 where r1: "(race_step min_us)\<^sup>*\<^sup>* r2 r1" "r_cpu r1 = (r_cpu r2)(cpu_of t1 := Idle)"
    "r_out r1 = r_out r2 @ [(t1, e1)]" "statics_of t1 (r_bpf r1) = \<lparr>s_prev_pid = hit_pid t1, s_prev_ts = hit_ts t1\<rparr>"
    "e_prev_pid e1 = hit_pid t2" "e_delta_us e1 = (hit_ts t1 - hit_ts t2) div 1000"
    using program_to_end [of r2 "cpu_of t1" t1 min_us] unfolding r2(4) by (metis statics.select_convs)
  have "(race_step min_us)\<^sup>*\<^sup>* r r1" using hits r2(1) r1(1) by (meson converse_rtranclp_into_rtranclp rtranclp_trans)
  with r1 r2 delta assms(3) show ?thesis by (intro exI [of _ r1] exI [of _ e1] exI [of _ e2]) simp
qed

theorem overlapping_hits_both_reported_witness:
  "\<exists>(r :: race) e1 e2. (race_step 1000)\<^sup>*\<^sup>* (race_start initial_bpf) r \<and>
     r_out r = [(exec_at 1 5001000 8, e2), (exec_at 0 5000000 7, e1)] \<and> unat (e_delta_us e1) = 18446744073709550"
proof -
  note hits = overlapping_hits_both_reported [of "race_start initial_bpf" "exec_at 0 5000000 7" "exec_at 1 5001000 8" 1000]
  show ?thesis using hits by (simp add: race_start_def cpu_of_def statics_of_def hit_examples) blast
qed

theorem reported_events_intact_witness:
  "\<exists>r :: race. map (\<lambda>(t, e). hit_ts t) (r_out r) = [5001000, 5000000] \<and>
     (\<forall>(t, e) \<in> set (r_out r). e_pid e = hit_pid t \<and> e_task e = h_comm (helpers_of t))"
proof (rule overtaken_run)
  fix r
  assume r: "follow 1000 overtaken (race_start initial_bpf) = Some r"
    and out: "map (\<lambda>(t, e). (hit_ts t, e_pid e, e_prev_pid e, e_delta_us e)) (r_out r) =
      [(5001000, 8, 0, 5001), (5000000, 7, 8, 18446744073709550)]"
  then have "map (\<lambda>(t, e). hit_ts t) (r_out r) = [5001000, 5000000]" by auto
  moreover have "\<forall>(t, e) \<in> set (r_out r). e_pid e = hit_pid t \<and> e_task e = h_comm (helpers_of t)"
    using reported_events_intact [OF follow_reaches [OF r]] by auto
  ultimately show ?thesis by (intro exI [of _ r] conjI)
qed

lemma serial_advance: "(serial_step min_us)\<^sup>*\<^sup>* r (advance min_us c r)"
proof (cases "r_cpu r c = Idle")
  case False
  have "r_started (advance min_us c r) = r_started r" by (simp add: advance_def Let_def split: activity.split)
  with False show ?thesis by (intro r_into_rtranclp) (simp add: serial_step_def race_step.go_on)
qed (simp add: advance_def)

lemma serial_advances: "(serial_step min_us)\<^sup>*\<^sup>* r (fold (advance min_us) cs r)"
proof (induction cs arbitrary: r)
  case (Cons c cs)
  then show ?case using rtranclp_trans [OF serial_advance [of min_us r c]] by simp
qed simp

lemma serial_hit:
  "\<forall>c. r_cpu r c = Idle \<Longrightarrow> r_clock r \<le> hit_ts t \<Longrightarrow> (serial_step min_us)\<^sup>*\<^sup>* r (begin_hit t r)"
  by (intro r_into_rtranclp) (simp add: serial_step_def race_step.hit)

theorem serial_runs_are_sequential_witness:
  "\<exists>r :: race. r_started r = [exec_at 0 5000000 7] \<and> r_out r = reports 1000 initial_bpf [exec_at 0 5000000 7] \<and> length (r_out r) = 1"
proof -
  let ?r = "fold (advance 1000) [0, 0, 0, 0, 0] (begin_hit (exec_at 0 5000000 7) (race_start initial_bpf))"
  have "(serial_step 1000)\<^sup>*\<^sup>* (race_start initial_bpf) (begin_hit (exec_at 0 5000000 7) (race_start initial_bpf))"
    by (rule serial_hit) (simp_all add: race_start_def)
  then have run: "(serial_step 1000)\<^sup>*\<^sup>* (race_start initial_bpf) ?r" by (rule rtranclp_trans [OF _ serial_advances])
  have ends: "\<forall>c. r_cpu ?r c = Idle" "r_started ?r = [exec_at 0 5000000 7]" "length (r_out ?r) = 1"
    by (simp_all add: race_eval)
  moreover have "r_out ?r = reports 1000 initial_bpf [exec_at 0 5000000 7]"
    using serial_runs_are_sequential [OF run ends(1)] unfolding ends(2) by (rule conjunct2)
  ultimately show ?thesis by blast
qed

end
