(* ===== verification/Bpf_Monitor.thy ===== *)
theory Bpf_Monitor
  imports Bpf_Event C_Layout
begin

text \<open>
  The daemon's side of the BPF event source, \<^verbatim>\<open>crates/ananicy-bpf/src/bpf_monitor.rs\<close>, with
  the process type of \<^verbatim>\<open>crates/ananicy-core/src/process.rs\<close>: the bytes of a sample are
  read as the \<^verbatim>\<open>repr(C)\<close> event, an event of the idle task is dropped, and the rest
  becomes a \<^verbatim>\<open>Process\<close> sent to the worker. The bytes of a C \<^verbatim>\<open>struct event\<close> follow its
  layout, and the two sides are proved to agree.
\<close>

subsection \<open>Lossy UTF-8\<close>

text \<open>
  \<^verbatim>\<open>String::from_utf8_lossy\<close>: a valid sequence is kept, and each maximal prefix of an
  invalid one is replaced by U+FFFD. \<open>second_ok\<close> is the range of the second byte.
\<close>

definition cont :: "u8 \<Rightarrow> bool" where
  "cont b \<longleftrightarrow> 128 \<le> b \<and> b \<le> 191"

definition second_ok :: "u8 \<Rightarrow> u8 \<Rightarrow> bool" where
  "second_ok a b \<longleftrightarrow>
     (if a = 224 then 160 \<le> b \<and> b \<le> 191
      else if a = 237 then 128 \<le> b \<and> b \<le> 159
      else if a = 240 then 144 \<le> b \<and> b \<le> 191
      else if a = 244 then 128 \<le> b \<and> b \<le> 143
      else cont b)"

definition seq_len :: "u8 \<Rightarrow> nat" where
  "seq_len a =
     (if a < 128 then 1
      else if 194 \<le> a \<and> a \<le> 223 then 2
      else if 224 \<le> a \<and> a \<le> 239 then 3
      else if 240 \<le> a \<and> a \<le> 244 then 4
      else 0)"

text \<open>How many bytes of the sequence at the start are valid, up to its length.\<close>

definition valid_len :: "bytes \<Rightarrow> nat" where
  "valid_len bs =
     (case bs of
        [] \<Rightarrow> 0
      | a # r \<Rightarrow>
          if seq_len a \<le> 1 then seq_len a
          else if r = [] \<or> \<not> second_ok a (hd r) then 1
          else 2 + length (takeWhile cont (take (seq_len a - 2) (drop 1 r))))"

definition replacement :: bytes where
  "replacement = [239, 191, 189]"

function utf8_lossy :: "bytes \<Rightarrow> bytes" where
  "utf8_lossy [] = []"
| "utf8_lossy (a # r) =
     (let n = valid_len (a # r) in
      if 0 < seq_len a \<and> n = seq_len a then take n (a # r) @ utf8_lossy (drop n (a # r))
      else replacement @ utf8_lossy (drop (max 1 n) (a # r)))"
  by pat_completeness auto
termination
  by (relation "measure length") auto

definition string_of :: "bytes \<Rightarrow> string" where
  "string_of bs = map (\<lambda>b. char_of (unat b)) bs"

subsection \<open>Processes\<close>

record process =
  p_pid :: int
  p_name :: string
  p_delta_us :: "u64 option"
  p_authoritative :: bool

definition new_process :: "int \<Rightarrow> string \<Rightarrow> process" where
  "new_process pid name =
     \<lparr>p_pid = pid, p_name = name, p_delta_us = None, p_authoritative = False\<rparr>"

definition with_authoritative_name :: "process \<Rightarrow> process" where
  "with_authoritative_name p = p\<lparr>p_authoritative := True\<rparr>"

subsection \<open>The bytes of an event\<close>

definition event_type :: ctype where
  "event_type = CStruct ''event''
     [Fld ''pid'' c_int, Fld ''prev_pid'' c_int, Fld ''delta_us'' c_long, Fld ''task'' (CArr c_char 16)]"

fun le_bytes :: "nat \<Rightarrow> nat \<Rightarrow> bytes" where
  "le_bytes 0 v = []"
| "le_bytes (Suc n) v = of_nat (v mod 256) # le_bytes n (v div 256)"

fun from_le :: "bytes \<Rightarrow> nat" where
  "from_le [] = 0"
| "from_le (b # bs) = unat b + 256 * from_le bs"

text \<open>The object representation of a C event: its members in layout order, no padding.\<close>

definition event_bytes :: "event \<Rightarrow> bytes" where
  "event_bytes e =
     le_bytes 4 (unat (e_pid e)) @ le_bytes 4 (unat (e_prev_pid e)) @
     le_bytes 8 (unat (e_delta_us e)) @ e_task e"

text \<open>\<^verbatim>\<open>read_unaligned\<close> of the Rust \<^verbatim>\<open>#[repr(C)] struct Event\<close>.\<close>

definition read_event :: "bytes \<Rightarrow> event" where
  "read_event data =
     \<lparr>e_pid = of_nat (from_le (take 4 data)),
      e_prev_pid = of_nat (from_le (take 4 (drop 4 data))),
      e_delta_us = of_nat (from_le (take 8 (drop 8 data))),
      e_task = take 16 (drop 16 data)\<rparr>"

definition is_reportable :: "event \<Rightarrow> bool" where
  "is_reportable e \<longleftrightarrow> e_pid e \<noteq> 0"

text \<open>\<^verbatim>\<open>CStr::from_bytes_until_nul\<close>, then the lossy conversion.\<close>

definition task_name :: "bytes \<Rightarrow> string" where
  "task_name task =
     (if 0 \<in> set task then string_of (utf8_lossy (takeWhile (\<lambda>b. b \<noteq> 0) task))
      else string_of (utf8_lossy task))"

text \<open>
  The channel to the worker and the shutdown flag; \<open>ch_open\<close> is False once the receiving
  end is gone, when \<^verbatim>\<open>send\<close> fails.
\<close>

record monitor =
  sent :: "process list"
  ch_open :: bool
  shutdown_flag :: bool

definition sample_cb :: "bytes \<Rightarrow> monitor \<Rightarrow> monitor" where
  "sample_cb data s =
     (if length data < 32 then s
      else
        let event = read_event data in
        if \<not> is_reportable event then s
        else
          let name = task_name (e_task event);
              p = (new_process (sint (e_pid event)) name)\<lparr>p_delta_us := Some (e_delta_us event)\<rparr>
          in if ch_open s then s\<lparr>sent := sent s @ [p]\<rparr> else s\<lparr>shutdown_flag := True\<rparr>)"

subsection \<open>Starting and listening\<close>

text \<open>
  What libbpf answers: an error when the skeleton is opened, loaded or attached, whether the read-only data of the
  object is mapped, and whether the perf buffer could be built.
\<close>

record skeleton =
  sk_open :: "string option"
  sk_rodata :: bool
  sk_load :: "string option"
  sk_attach :: "string option"
  sk_buffer :: bool

text \<open>\<^verbatim>\<open>BpfMonitor::new\<close>: the interval the programs run with, which is 0 in the object file.\<close>

definition new_bpf :: "skeleton \<Rightarrow> u32 option \<Rightarrow> string + u64" where
  "new_bpf sk min_us =
     (case sk_open sk of
        Some e \<Rightarrow> Inl (''Failed to open BPF skeleton: '' @ e)
      | None \<Rightarrow>
          (let rodata_min_us = (case min_us of Some m \<Rightarrow> if sk_rodata sk then ucast m else 0 | None \<Rightarrow> 0) in
           case sk_load sk of
             Some e \<Rightarrow> Inl (''Failed to load BPF skeleton: '' @ e)
           | None \<Rightarrow>
               (case sk_attach sk of
                  Some e \<Rightarrow> Inl (''Failed to attach BPF skeleton: '' @ e)
                | None \<Rightarrow> Inr rodata_min_us)))"

text \<open>
  The polling loop. A turn is whether another thread has raised the flag by the time it is looked at, the samples
  the poll hands to the callback, and the error it ends with, which is only logged. The answers: the state, the errors
  logged, and whether the loop was left.
\<close>

type_synonym poll_turn = "bool \<times> bytes list \<times> string option"

fun poll_loop :: "poll_turn list \<Rightarrow> monitor \<Rightarrow> monitor \<times> string list \<times> bool" where
  "poll_loop [] s = (s, [], False)"
| "poll_loop ((raised, samples, err) # turns) s =
     (let s0 = s\<lparr>shutdown_flag := shutdown_flag s \<or> raised\<rparr> in
      if shutdown_flag s0 then (s0, [], True)
      else
        (case poll_loop turns (fold sample_cb samples s0) of
           (s', log, left) \<Rightarrow> (s', (case err of Some e \<Rightarrow> [e] | None \<Rightarrow> []) @ log, left)))"

definition bpf_listen :: "skeleton \<Rightarrow> poll_turn list \<Rightarrow> monitor \<Rightarrow> monitor \<times> string list \<times> bool" where
  "bpf_listen sk turns s =
     (if sk_buffer sk then poll_loop turns s else (s, [''Failed to build BPF perf buffer''], True))"

subsection \<open>The two sides agree\<close>

lemma process_sel [simp]:
  "p_pid (with_authoritative_name (new_process pid name)) = pid"
  "p_name (with_authoritative_name (new_process pid name)) = name"
  "p_authoritative (with_authoritative_name (new_process pid name))"
  by (simp_all add: with_authoritative_name_def new_process_def)

lemma length_le_bytes [simp]: "length (le_bytes n v) = n"
  by (induction n arbitrary: v) auto

lemma from_le_bytes: "v < 256 ^ n \<Longrightarrow> from_le (le_bytes n v) = v"
proof (induction n arbitrary: v)
  case (Suc n)
  then have "v div 256 < 256 ^ n" by (simp add: less_mult_imp_div_less mult.commute)
  with Suc.IH have "from_le (le_bytes n (v div 256)) = v div 256" by blast
  moreover have "unat (of_nat (v mod 256) :: u8) = v mod 256"
    by (simp add: unat_of_nat)
  ultimately show ?case by simp
qed simp

lemma from_le_word:
  "of_nat (from_le (le_bytes 4 (unat (w :: 32 word)))) = w"
  "of_nat (from_le (le_bytes 8 (unat (x :: 64 word)))) = x"
proof -
  have "unat w < 256 ^ 4" using unsigned_less [of w] by simp
  then show "of_nat (from_le (le_bytes 4 (unat w))) = w" by (simp add: from_le_bytes)
  have "unat x < 256 ^ 8" using unsigned_less [of x] by simp
  then show "of_nat (from_le (le_bytes 8 (unat x))) = x" by (simp add: from_le_bytes)
qed

lemma event_layout:
  "size_of event_type = 32"
  "map (offset_of event_type) [''pid'', ''prev_pid'', ''delta_us'', ''task''] = map Some [0, 4, 8, 16]"
  by code_simp+

text \<open>
  C11: An event survives the trip from the kernel: the bytes the BPF program emits for a
  \<^verbatim>\<open>struct event\<close> are 32, as long as the C layout says, and the daemon's \<^verbatim>\<open>read_unaligned\<close>
  recovers every field from them, also when the perf ring pads the sample.
\<close>

theorem event_roundtrip:
  assumes "length (e_task e) = 16"
  shows "length (event_bytes e) = size_of event_type \<and> read_event (event_bytes e @ pad) = e"
proof -
  have "length (event_bytes e) = 32" using assms by (simp add: event_bytes_def)
  moreover have "read_event (event_bytes e @ pad) = e"
    using assms by (simp add: read_event_def event_bytes_def from_le_word)
  ultimately show ?thesis by (simp add: event_layout)
qed

theorem event_roundtrip_witness:
  "read_event (event_bytes \<lparr>e_pid = 4143, e_prev_pid = 1, e_delta_us = 70000, e_task = replicate 16 65\<rparr> @ [9])
     = \<lparr>e_pid = 4143, e_prev_pid = 1, e_delta_us = 70000, e_task = replicate 16 65\<rparr>"
  using event_roundtrip
    [of "\<lparr>e_pid = 4143, e_prev_pid = 1, e_delta_us = 70000, e_task = replicate 16 65\<rparr>" "[9]"]
  by simp

lemma utf8_lossy_ascii: "(\<And>b. b \<in> set bs \<Longrightarrow> b < 128) \<Longrightarrow> utf8_lossy bs = bs"
proof (induction bs rule: utf8_lossy.induct)
  case (2 a r)
  then have "seq_len a = 1" by (simp add: seq_len_def)
  with 2 show ?case by (simp add: valid_len_def)
qed simp

text \<open>
  What the sample callback does with the bytes of an event: an event of pid 0 leaves
  no trace; any other one is sent to the worker with its pid, its interval and, for a
  nul-terminated ASCII command name, that name, never marked authoritative; when the
  worker is gone the daemon is asked to shut down instead.
\<close>

theorem sample_cb_event:
  assumes len: "length (e_task e) = 16"
    and name: "e_task e = name @ 0 # rest" and ascii: "\<And>b. b \<in> set name \<Longrightarrow> b \<noteq> 0 \<and> b < 128"
  shows "sample_cb (event_bytes e @ pad) s =
    (if e_pid e = 0 then s
     else if ch_open s
     then s\<lparr>sent := sent s @ [\<lparr>p_pid = sint (e_pid e), p_name = string_of name,
                              p_delta_us = Some (e_delta_us e), p_authoritative = False\<rparr>]\<rparr>
     else s\<lparr>shutdown_flag := True\<rparr>)"
proof -
  have read: "read_event (event_bytes e @ pad) = e"
    using len by (simp add: read_event_def event_bytes_def from_le_word)
  have "takeWhile (\<lambda>b. b \<noteq> 0) (e_task e) = name"
    using ascii by (simp add: name takeWhile_append2)
  moreover have "utf8_lossy name = name" using ascii by (auto intro: utf8_lossy_ascii)
  ultimately have "task_name (e_task e) = string_of name"
    using name by (simp add: task_name_def)
  moreover have "\<not> length (event_bytes e @ pad) < 32" using len by (simp add: event_bytes_def)
  ultimately show ?thesis
    by (simp add: sample_cb_def read is_reportable_def new_process_def Let_def)
qed

theorem sample_cb_event_witness:
  "sent (sample_cb (event_bytes \<lparr>e_pid = 42, e_prev_pid = 1, e_delta_us = 5,
            e_task = [98, 97, 115, 104] @ replicate 12 0\<rparr>)
          \<lparr>sent = [], ch_open = True, shutdown_flag = False\<rparr>) =
   [\<lparr>p_pid = 42, p_name = ''bash'', p_delta_us = Some 5, p_authoritative = False\<rparr>]"
proof -
  let ?e = "\<lparr>e_pid = 42, e_prev_pid = 1, e_delta_us = 5, e_task = [98, 97, 115, 104] @ replicate 12 0\<rparr> :: event"
  have "length (e_task ?e) = 16" by simp
  moreover have "e_task ?e = [98, 97, 115, 104] @ 0 # replicate 11 0"
    by (simp add: replicate_Suc [symmetric] del: replicate_Suc)
  moreover have "\<And>b. b \<in> set [98, 97, 115, 104 :: u8] \<Longrightarrow> b \<noteq> 0 \<and> b < 128" by auto
  ultimately show ?thesis
    using sample_cb_event [of ?e "[98, 97, 115, 104]" "replicate 11 0" "[]"
        "\<lparr>sent = [], ch_open = True, shutdown_flag = False\<rparr>"]
    by (simp add: string_of_def char_of_def bit_0)
qed

subsection \<open>The polling loop\<close>

text \<open>The process the callback makes of an event.\<close>

definition event_process :: "event \<Rightarrow> process" where
  "event_process e = (new_process (sint (e_pid e)) (task_name (e_task e)))\<lparr>p_delta_us := Some (e_delta_us e)\<rparr>"

definition event_sample :: "event \<times> bytes \<Rightarrow> bytes" where
  "event_sample ep = event_bytes (fst ep) @ snd ep"

lemma read_event_back: "length (e_task e) = 16 \<Longrightarrow> read_event (event_bytes e @ pad) = e"
  by (simp add: read_event_def event_bytes_def from_le_word)

lemma sample_cb_sends:
  assumes "length (e_task (fst ep)) = 16"
  shows "sample_cb (event_sample ep) s =
    (if \<not> is_reportable (fst ep) then s
     else if ch_open s then s\<lparr>sent := sent s @ [event_process (fst ep)]\<rparr> else s\<lparr>shutdown_flag := True\<rparr>)"
  using read_event_back [OF assms, of "snd ep"] assms
  by (simp add: sample_cb_def event_sample_def event_process_def event_bytes_def Let_def)

lemma samples_sent:
  assumes "\<forall>ep \<in> set eps. length (e_task (fst ep)) = 16" and "ch_open s"
  shows "fold sample_cb (map event_sample eps) s =
    s\<lparr>sent := sent s @ map (event_process \<circ> fst) (filter (is_reportable \<circ> fst) eps)\<rparr>"
  using assms by (induction eps arbitrary: s) (simp_all add: sample_cb_sends)

text \<open>With the worker there and no flag raised, every sample of every turn is handed on, in order.\<close>

lemma samples_frame:
  "ch_open (fold sample_cb ds s) = ch_open s"
  "ch_open s \<Longrightarrow> shutdown_flag (fold sample_cb ds s) = shutdown_flag s"
  by (induction ds arbitrary: s) (simp_all add: sample_cb_def Let_def)

lemma poll_loop_fold:
  assumes "ch_open s" and "\<not> shutdown_flag s" and "\<forall>turn \<in> set turns. \<not> fst turn"
  shows "fst (poll_loop turns s) = fold sample_cb (concat (map (fst \<circ> snd) turns)) s \<and> \<not> snd (snd (poll_loop turns s))"
  using assms
proof (induction turns arbitrary: s)
  case (Cons turn turns)
  obtain samples err where turn: "turn = (False, samples, err)" using Cons.prems(3) by (cases turn) auto
  have same: "s\<lparr>shutdown_flag := False\<rparr> = s" using Cons.prems(2) by (cases s) simp
  have "fst (poll_loop turns (fold sample_cb samples s)) =
      fold sample_cb (concat (map (fst \<circ> snd) turns)) (fold sample_cb samples s) \<and>
    \<not> snd (snd (poll_loop turns (fold sample_cb samples s)))"
    using Cons.prems by (intro Cons.IH) (simp_all add: samples_frame)
  then show ?case using Cons.prems(2) by (simp add: turn same split_beta Let_def comp_def)
qed simp

text \<open>
  When the worker is gone, the first process that cannot be sent makes the loop end at its next look at the flag.
\<close>

lemma samples_unsent:
  assumes "\<not> ch_open s" and "\<forall>ep \<in> set eps. length (e_task (fst ep)) = 16"
  shows "shutdown_flag (fold sample_cb (map event_sample eps) s) \<longleftrightarrow>
    shutdown_flag s \<or> (\<exists>ep \<in> set eps. is_reportable (fst ep))"
  using assms by (induction eps arbitrary: s) (auto simp: sample_cb_sends)

lemma poll_loop_ends_without_worker:
  assumes "\<not> ch_open s" and "\<exists>ep \<in> set eps. is_reportable (fst ep)" and "\<forall>ep \<in> set eps. length (e_task (fst ep)) = 16"
  shows "snd (snd (poll_loop ((raised, map event_sample eps, err) # turn # turns) s))"
proof -
  have "shutdown_flag (fold sample_cb (map event_sample eps) (s\<lparr>shutdown_flag := False\<rparr>))"
    using assms samples_unsent [of "s\<lparr>shutdown_flag := False\<rparr>" eps] by simp
  then show ?thesis by (cases turn) (simp add: Let_def split_beta)
qed

end
