(* ===== verification/Event_Path.thy ===== *)
theory Event_Path
  imports Bpf_Race Bpf_Monitor "HOL-Library.Multiset"
begin

text \<open>
  The path of an event from a tracepoint to the channel of the worker: the programs on all CPUs, the perf buffer with
  its ring for every CPU, and the polling loop of the daemon. Every event that was reported and found room becomes
  exactly one process in the channel.
\<close>

text \<open>
  What is relied on of the perf buffer: each CPU has a ring of its own, whose samples are handed out once each and in
  order, while those of different CPUs may be mixed in any way. A sample may be padded.
\<close>

definition delivered :: "(nat \<times> event \<times> bytes) list \<Rightarrow> (nat \<times> event) list \<Rightarrow> bool" where
  "delivered ds out \<longleftrightarrow>
     (\<forall>cpu. map (fst \<circ> snd) (filter (\<lambda>d. fst d = cpu) ds) = map snd (filter (\<lambda>x. fst x = cpu) out))"

lemma delivered_once:
  assumes "delivered ds out"
  shows "mset (map (\<lambda>d. (fst d, fst (snd d))) ds) = mset out"
proof (rule multiset_eqI)
  fix x :: "nat \<times> event"
  let ?ds = "map (\<lambda>d. (fst d, fst (snd d))) ds"
  have own: "count (mset xs) x = count (mset (map snd (filter (\<lambda>y. fst y = fst x) xs))) (snd x)" for xs :: "(nat \<times> event) list"
    by (induction xs) (auto simp: prod_eq_iff)
  have "map snd (filter (\<lambda>y. fst y = fst x) ?ds) = map (fst \<circ> snd) (filter (\<lambda>d. fst d = fst x) ds)"
    by (induction ds) auto
  then show "count (mset ?ds) x = count (mset out) x" using assms by (simp only: own delivered_def)
qed

text \<open>What the daemon makes of the samples it is handed.\<close>

definition channelled :: "(nat \<times> event \<times> bytes) list \<Rightarrow> process list" where
  "channelled ds = map (event_process \<circ> fst \<circ> snd) (filter (is_reportable \<circ> fst \<circ> snd) ds)"

definition reported_processes :: "race \<Rightarrow> process multiset" where
  "reported_processes r =
     mset (map (event_process \<circ> snd) (filter (\<lambda>(t, e). h_room (helpers_of t) \<and> hit_pid t \<noteq> 0) (r_out r)))"

lemma channelled_reports:
  assumes "(race_step min_us)\<^sup>*\<^sup>* (race_start s0) r" and "perf_out s0 = []" and "delivered ds (perf_out (r_bpf r))"
  shows "mset (channelled ds) = reported_processes r"
proof -
  let ?out = "filter (\<lambda>(t, e). h_room (helpers_of t)) (r_out r)"
  note inv = race_inv_reachable [OF assms(1)]
  have out: "perf_out (r_bpf r) = map (\<lambda>(t, e). (cpu_of t, e)) ?out"
    using inv assms(2) by (simp add: race_inv_def)
  have pid: "(is_reportable \<circ> snd) te \<longleftrightarrow> hit_pid (fst te) \<noteq> 0" if "te \<in> set (r_out r)" for te
    using inv that by (cases te) (auto simp: race_inv_def intact_def is_reportable_def)
  have "mset (channelled ds) =
      image_mset (event_process \<circ> snd) (filter_mset (is_reportable \<circ> snd) (mset (map (\<lambda>d. (fst d, fst (snd d))) ds)))"
    by (simp add: channelled_def filter_map comp_def flip: mset_map mset_filter)
  also have "\<dots> = image_mset (event_process \<circ> snd) (filter_mset (is_reportable \<circ> snd) (mset (perf_out (r_bpf r))))"
    by (simp only: delivered_once [OF assms(3)])
  also have "\<dots> = mset (map (event_process \<circ> snd) (filter (is_reportable \<circ> snd) ?out))"
    by (simp add: out filter_map comp_def split_beta flip: mset_map mset_filter)
  also have "filter (is_reportable \<circ> snd) ?out = filter (\<lambda>(t, e). h_room (helpers_of t) \<and> hit_pid t \<noteq> 0) (r_out r)"
    using pid by (auto simp: split_beta intro!: filter_cong)
  finally show ?thesis unfolding reported_processes_def .
qed

lemma delivered_tasks:
  assumes "(race_step min_us)\<^sup>*\<^sup>* (race_start s0) r" and "perf_out s0 = []" and "delivered ds (perf_out (r_bpf r))"
    and "\<forall>t \<in> set (r_started r). length (h_comm (helpers_of t)) = 16" and "d \<in> set ds"
  shows "length (e_task (fst (snd d))) = 16"
proof -
  have "(fst d, fst (snd d)) \<in> set (perf_out (r_bpf r))"
    using delivered_once [OF assms(3)] assms(5) by (metis (mono_tags, lifting) image_eqI list.set_map mset_eq_setD)
  then obtain t where "(t, fst (snd d)) \<in> set (r_out r)"
    using race_inv_reachable [OF assms(1)] assms(2) by (auto simp: race_inv_def)
  then show ?thesis
    using race_inv_reachable [OF assms(1)] assms(4) by (auto simp: race_inv_def intact_def)
qed

lemma hits_reach_channel:
  assumes "sk_buffer sk" and "(race_step min_us)\<^sup>*\<^sup>* (race_start s0) r" and "perf_out s0 = []"
    and "\<forall>t \<in> set (r_started r). length (h_comm (helpers_of t)) = 16"
    and "delivered ds (perf_out (r_bpf r))" and "concat (map (fst \<circ> snd) turns) = map (event_sample \<circ> snd) ds"
    and "\<forall>turn \<in> set turns. \<not> fst turn" and "ch_open m" and "\<not> shutdown_flag m"
  shows "sent (fst (bpf_listen sk turns m)) = sent m @ channelled ds"
proof -
  have "fst (bpf_listen sk turns m) = fold sample_cb (map event_sample (map snd ds)) m"
    using poll_loop_fold [OF assms(8,9,7)] assms(1,6) by (simp add: bpf_listen_def)
  also have "\<dots> = m\<lparr>sent := sent m @ map (event_process \<circ> fst) (filter (is_reportable \<circ> fst) (map snd ds))\<rparr>"
    using delivered_tasks [OF assms(2,3,5,4)] assms(8) by (intro samples_sent) auto
  finally show ?thesis by (simp add: channelled_def filter_map comp_assoc)
qed

text \<open>Rings that are drained at once deliver what the perf array was given.\<close>

lemma delivered_in_order: "delivered (map (\<lambda>(c, e). (c, e, pad)) out) out"
  by (simp add: delivered_def filter_map comp_def split_beta)

lemma overtaken_hits: "follow 1000 overtaken (race_start initial_bpf) = Some r \<Longrightarrow> r_started r = [exec_at 0 5000000 7, exec_at 1 5001000 8]"
  by (auto simp: overtaken_def race_eval)

definition sample_skeleton :: skeleton where
  "sample_skeleton = \<lparr>sk_open = None, sk_rodata = True, sk_load = None, sk_attach = None, sk_buffer = True\<rparr>"

definition one_poll :: "(nat \<times> event) list \<Rightarrow> poll_turn list" where
  "one_poll out = [(False, map (event_sample \<circ> snd) (map (\<lambda>(c, e). (c, e, [])) out), None)]"

end
