(* ===== verification/Rust_Str.thy ===== *)
theory Rust_Str
  imports Prelude
begin

text \<open>
  The parts of Rust's \<^verbatim>\<open>str\<close> that the sources use, on \<open>string\<close> read as the
  string's UTF-8 bytes (\<^verbatim>\<open>str::len\<close>, slicing and \<^verbatim>\<open>find\<close> all count bytes).
  \<open>trim\<close> removes every Unicode white space character, so the white space test
  recognises the multi-byte ones too. \<open>parse_u32\<close> is \<^verbatim>\<open>str::parse::<u32>\<close> with
  its sign rule and its overflow check, and \<open>show_nat\<close> is \<^verbatim>\<open>Display\<close> for an
  unsigned integer; the two are proved inverse.
\<close>

subsection \<open>White space and trimming\<close>

definition ascii_ws :: "char \<Rightarrow> bool" where
  "ascii_ws c \<longleftrightarrow> c \<in> set [CHR 0x09, CHR 0x0A, CHR 0x0B, CHR 0x0C, CHR 0x0D, CHR 0x20]"

text \<open>U+0085 and U+00A0, the white space characters with a two-byte encoding.\<close>

definition ws2 :: "char \<Rightarrow> char \<Rightarrow> bool" where
  "ws2 a b \<longleftrightarrow> a = CHR 0xC2 \<and> (b = CHR 0x85 \<or> b = CHR 0xA0)"

text \<open>U+1680, U+2000 to U+200A, U+2028, U+2029, U+202F, U+205F and U+3000.\<close>

definition ws3 :: "char \<Rightarrow> char \<Rightarrow> char \<Rightarrow> bool" where
  "ws3 a b c \<longleftrightarrow>
     (a = CHR 0xE1 \<and> b = CHR 0x9A \<and> c = CHR 0x80) \<or>
     (a = CHR 0xE2 \<and> b = CHR 0x80 \<and>
        c \<in> set [CHR 0x80, CHR 0x81, CHR 0x82, CHR 0x83, CHR 0x84, CHR 0x85, CHR 0x86, CHR 0x87,
                 CHR 0x88, CHR 0x89, CHR 0x8A, CHR 0xA8, CHR 0xA9, CHR 0xAF]) \<or>
     (a = CHR 0xE2 \<and> b = CHR 0x81 \<and> c = CHR 0x9F) \<or>
     (a = CHR 0xE3 \<and> b = CHR 0x80 \<and> c = CHR 0x80)"

text \<open>Bytes of the white space character a string starts with, 0 when it starts with none.\<close>

fun ws_prefix :: "string \<Rightarrow> nat" where
  "ws_prefix [] = 0"
| "ws_prefix [a] = (if ascii_ws a then 1 else 0)"
| "ws_prefix [a, b] = (if ascii_ws a then 1 else if ws2 a b then 2 else 0)"
| "ws_prefix (a # b # c # s) =
     (if ascii_ws a then 1 else if ws2 a b then 2 else if ws3 a b c then 3 else 0)"

text \<open>The same for the end of a string, given reversed.\<close>

fun ws_suffix_rev :: "string \<Rightarrow> nat" where
  "ws_suffix_rev [] = 0"
| "ws_suffix_rev [a] = (if ascii_ws a then 1 else 0)"
| "ws_suffix_rev [a, b] = (if ascii_ws a then 1 else if ws2 b a then 2 else 0)"
| "ws_suffix_rev (a # b # c # s) =
     (if ascii_ws a then 1 else if ws2 b a then 2 else if ws3 c b a then 3 else 0)"

function strip_while :: "(string \<Rightarrow> nat) \<Rightarrow> string \<Rightarrow> string" where
  "strip_while f s = (if f s = 0 \<or> s = [] then s else strip_while f (drop (f s) s))"
  by pat_completeness auto
termination
  by (relation "measure (\<lambda>(f, s). length s)") auto

declare strip_while.simps [simp del]

definition trim_start :: "string \<Rightarrow> string" where
  "trim_start s = strip_while ws_prefix s"

definition trim_end :: "string \<Rightarrow> string" where
  "trim_end s = rev (strip_while ws_suffix_rev (rev s))"

definition trim :: "string \<Rightarrow> string" where
  "trim s = trim_end (trim_start s)"

text \<open>A character that neither is white space nor belongs to the encoding of one.\<close>

definition plain_char :: "char \<Rightarrow> bool" where
  "plain_char c \<longleftrightarrow> \<not> ascii_ws c \<and> of_char c < (128 :: nat)"

lemma strip_while_stop: "f s = 0 \<Longrightarrow> strip_while f s = s"
  by (subst strip_while.simps) simp

lemma strip_while_suffix: "\<exists>p. s = p @ strip_while f s"
proof (induction f s rule: strip_while.induct)
  case (1 f s)
  show ?case
  proof (cases "f s = 0 \<or> s = []")
    case True
    then show ?thesis by (subst strip_while.simps) auto
  next
    case False
    with "1.IH" obtain p where "drop (f s) s = p @ strip_while f (drop (f s) s)" by blast
    then have "s = (take (f s) s @ p) @ strip_while f (drop (f s) s)"
      by (metis append_assoc append_take_drop_id)
    moreover have "strip_while f s = strip_while f (drop (f s) s)"
      using False by (subst strip_while.simps) simp
    ultimately show ?thesis by metis
  qed
qed

lemma strip_while_idem: "strip_while f (strip_while f s) = strip_while f s"
proof (induction f s rule: strip_while.induct)
  case (1 f s)
  show ?case
  proof (cases "f s = 0 \<or> s = []")
    case True
    then have "strip_while f s = s" by (subst strip_while.simps) auto
    then show ?thesis by simp
  next
    case False
    then have "strip_while f s = strip_while f (drop (f s) s)" by (subst strip_while.simps) auto
    with False "1.IH" show ?thesis by simp
  qed
qed

lemma strip_while_end: "f (strip_while f s) = 0 \<or> strip_while f s = []"
proof (induction f s rule: strip_while.induct)
  case (1 f s)
  show ?case
  proof (cases "f s = 0 \<or> s = []")
    case True
    then have "strip_while f s = s" by (subst strip_while.simps) auto
    with True show ?thesis by auto
  next
    case False
    then have "strip_while f s = strip_while f (drop (f s) s)" by (subst strip_while.simps) auto
    with False "1.IH" show ?thesis by simp
  qed
qed

text \<open>Trimming drops characters at both ends, and trimming again drops nothing.\<close>

lemma ws_prefix_take: "ws_prefix (p @ q) = 0 \<Longrightarrow> ws_prefix p = 0"
  by (cases p rule: ws_prefix.cases; cases q rule: ws_prefix.cases) (auto split: if_splits)

lemma trim_end_prefix: "\<exists>q. s = trim_end s @ q"
proof -
  obtain p where "rev s = p @ strip_while ws_suffix_rev (rev s)" using strip_while_suffix by blast
  then have "s = trim_end s @ rev p" unfolding trim_end_def by (metis rev_append rev_rev_ident)
  then show ?thesis ..
qed

lemma trim_parts: "\<exists>p q. s = p @ trim s @ q"
proof -
  obtain p where "s = p @ trim_start s" using strip_while_suffix unfolding trim_start_def by blast
  moreover obtain q where "trim_start s = trim s @ q"
    using trim_end_prefix unfolding trim_def by blast
  ultimately show ?thesis by metis
qed

lemma set_trim: "c \<in> set (trim s) \<Longrightarrow> c \<in> set s"
  using trim_parts [of s] by (metis Un_iff set_append)

lemma trim_idem [simp]: "trim (trim s) = trim s"
proof -
  obtain q where q: "trim_start s = trim s @ q" using trim_end_prefix unfolding trim_def by blast
  have "ws_prefix (trim_start s) = 0"
    using strip_while_end [of ws_prefix s] by (auto simp: trim_start_def)
  then have "ws_prefix (trim s) = 0" using ws_prefix_take [of "trim s" q] q by simp
  then have "trim_start (trim s) = trim s" by (simp add: trim_start_def strip_while_stop)
  moreover have "trim_end (trim_end t) = trim_end t" for t
    by (simp add: trim_end_def strip_while_idem)
  ultimately show ?thesis by (simp add: trim_def [of "trim s"]) (simp add: trim_def)
qed

lemma plain_char_not_lead:
  assumes "plain_char c"
  shows "\<not> ascii_ws c" "\<not> ws2 c b" "\<not> ws2 a c" "\<not> ws3 c b d" "\<not> ws3 a b c" "\<not> ws3 a c d"
  using assms by (auto simp: plain_char_def ws2_def ws3_def)

lemma ws_prefix_plain: "plain_char c \<Longrightarrow> ws_prefix (c # s) = 0"
  by (cases s; cases "tl s") (auto simp: plain_char_not_lead)

lemma ws_suffix_rev_plain: "plain_char c \<Longrightarrow> ws_suffix_rev (c # s) = 0"
  by (cases s; cases "tl s") (auto simp: plain_char_not_lead)

lemma trim_start_plain [simp]: "plain_char c \<Longrightarrow> trim_start (c # s) = c # s"
  by (simp add: trim_start_def strip_while_stop ws_prefix_plain)

lemma trim_end_plain [simp]: "plain_char c \<Longrightarrow> trim_end (s @ [c]) = s @ [c]"
  by (simp add: trim_end_def strip_while_stop ws_suffix_rev_plain)

lemma trim_Nil [simp]: "trim [] = []" "trim_start [] = []" "trim_end [] = []"
  by (simp_all add: trim_def trim_start_def trim_end_def strip_while_stop)

text \<open>A string that starts and ends with plain characters is left as it is.\<close>

lemma trim_plain:
  assumes "s \<noteq> []" and "plain_char (hd s)" and "plain_char (last s)"
  shows "trim s = s"
proof -
  have "trim_start s = s" using assms(1,2) by (cases s) auto
  moreover have "trim_end s = s"
    using assms(1,3) trim_end_plain [of "last s" "butlast s"] by simp
  ultimately show ?thesis by (simp add: trim_def)
qed

lemma trim_newline:
  assumes "s \<noteq> []" and "plain_char (hd s)" and "plain_char (last s)"
  shows "trim (s @ [CHR 0x0A]) = s"
proof -
  obtain r c where s: "s = r @ [c]" "plain_char c" using assms(1,3) by (metis append_butlast_last_id)
  have "ws_suffix_rev (CHR 0x0A # c # rev r) = 1"
    by (cases "rev r") (simp_all add: ascii_ws_def)
  then have "strip_while ws_suffix_rev (CHR 0x0A # c # rev r) = c # rev r"
    by (subst strip_while.simps) (simp add: strip_while_stop ws_suffix_rev_plain s(2))
  then have "trim_end (s @ [CHR 0x0A]) = s" by (simp add: trim_end_def s(1))
  moreover have "trim_start (s @ [CHR 0x0A]) = s @ [CHR 0x0A]" using assms(1,2) by (cases s) auto
  ultimately show ?thesis by (simp add: trim_def)
qed

lemma trim_all_plain: "(\<And>c. c \<in> set s \<Longrightarrow> plain_char c) \<Longrightarrow> trim s = s"
  by (cases "s = []") (auto intro!: trim_plain)

lemma ws_suffix_rev_append:
  assumes "ws_suffix_rev s = 0" and "s \<noteq> []" and "plain_char d"
  shows "ws_suffix_rev (s @ d # r) = 0"
proof (cases s rule: ws_suffix_rev.cases)
  case (2 a)
  then show ?thesis
    using assms by (cases r) (auto simp: plain_char_not_lead split: if_splits)
next
  case (3 a b)
  then show ?thesis
    using assms by (auto simp: plain_char_not_lead split: if_splits)
next
  case (4 a b c s')
  then show ?thesis using assms by (simp split: if_splits)
qed (use assms in simp)

lemma ws_suffix_rev_trim: "trim v = v \<Longrightarrow> ws_suffix_rev (rev v) = 0"
proof -
  assume "trim v = v"
  then have "strip_while ws_suffix_rev (rev (trim_start v)) = rev v"
    by (metis rev_rev_ident trim_def trim_end_def)
  then have "strip_while ws_suffix_rev (rev v) = rev v"
    by (metis strip_while_idem)
  moreover have "ws_suffix_rev (rev v) = 0 \<or> length (strip_while ws_suffix_rev (rev v)) < length (rev v)"
  proof (cases "ws_suffix_rev (rev v) = 0 \<or> rev v = []")
    case True
    then show ?thesis by auto
  next
    case False
    then have eq: "strip_while ws_suffix_rev (rev v) =
        strip_while ws_suffix_rev (drop (ws_suffix_rev (rev v)) (rev v))"
      by (subst strip_while.simps) simp
    obtain p where "drop (ws_suffix_rev (rev v)) (rev v) =
        p @ strip_while ws_suffix_rev (drop (ws_suffix_rev (rev v)) (rev v))"
      using strip_while_suffix by blast
    then have "length (strip_while ws_suffix_rev (rev v)) \<le> length (drop (ws_suffix_rev (rev v)) (rev v))"
      using eq by (metis le_add2 length_append)
    then have "length (strip_while ws_suffix_rev (rev v)) \<le> length v - ws_suffix_rev (rev v)"
      by simp
    moreover have "0 < length v" and "0 < ws_suffix_rev (rev v)" using False by auto
    ultimately have "length (strip_while ws_suffix_rev (rev v)) < length v" by linarith
    then show ?thesis by simp
  qed
  ultimately show ?thesis by simp
qed

text \<open>A trimmed text behind plain characters stays as it is.\<close>

lemma trim_append:
  assumes "p \<noteq> []" and "\<And>c. c \<in> set p \<Longrightarrow> plain_char c" and "trim v = v"
  shows "trim (p @ v) = p @ v"
proof -
  have start: "trim_start (p @ v) = p @ v"
    using assms(1,2) by (cases p) auto
  have "ws_suffix_rev (rev (p @ v)) = 0"
  proof (cases "v = []")
    case True
    with assms(1,2) show ?thesis
      by (cases "rev p") (auto simp: ws_suffix_rev_plain dest: arg_cong [of _ _ set])
  next
    case False
    obtain d r where dr: "rev p = d # r" using assms(1) by (cases "rev p") auto
    then have "d \<in> set p" by (metis list.set_intros(1) set_rev)
    with False dr show ?thesis
      using ws_suffix_rev_append [OF ws_suffix_rev_trim [OF assms(3)]] assms(2) by simp
  qed
  then have "trim_end (p @ v) = p @ v"
    by (metis rev_rev_ident strip_while_stop trim_end_def)
  with start show ?thesis by (simp add: trim_def)
qed

subsection \<open>Splitting and searching\<close>

text \<open>\<^verbatim>\<open>s.split(c)\<close> for a one-byte separator: n separators give n + 1 pieces.\<close>

fun split_on :: "char \<Rightarrow> string \<Rightarrow> string list" where
  "split_on d [] = [[]]"
| "split_on d (c # s) =
     (if c = d then [] # split_on d s
      else case split_on d s of [] \<Rightarrow> [[c]] | p # ps \<Rightarrow> (c # p) # ps)"

text \<open>\<^verbatim>\<open>s.split_once(c)\<close>: what precedes and what follows the first separator.\<close>

fun split_once :: "char \<Rightarrow> string \<Rightarrow> (string \<times> string) option" where
  "split_once d [] = None"
| "split_once d (c # s) =
     (if c = d then Some ([], s)
      else case split_once d s of None \<Rightarrow> None | Some (a, b) \<Rightarrow> Some (c # a, b))"

fun find_char :: "char \<Rightarrow> string \<Rightarrow> nat option" where
  "find_char d [] = None"
| "find_char d (c # s) = (if c = d then Some 0 else map_option Suc (find_char d s))"

fun rfind_char :: "char \<Rightarrow> string \<Rightarrow> nat option" where
  "rfind_char d [] = None"
| "rfind_char d (c # s) =
     (case rfind_char d s of Some i \<Rightarrow> Some (Suc i) | None \<Rightarrow> if c = d then Some 0 else None)"

definition starts_with :: "string \<Rightarrow> string \<Rightarrow> bool" where
  "starts_with s p \<longleftrightarrow> take (length p) s = p"

lemma starts_with_take: "starts_with s (take k s)"
  by (simp add: starts_with_def min_def)

definition ends_with :: "string \<Rightarrow> string \<Rightarrow> bool" where
  "ends_with s p \<longleftrightarrow> length p \<le> length s \<and> drop (length s - length p) s = p"

text \<open>\<^verbatim>\<open>&s[a..b]\<close> on byte offsets.\<close>

definition slice :: "string \<Rightarrow> nat \<Rightarrow> nat \<Rightarrow> string" where
  "slice s a b = drop a (take b s)"

text \<open>
  \<^verbatim>\<open>s.lines()\<close>: pieces ended by a line feed, the last of which may lack it; a carriage
  return goes with the line feed it precedes and stays where there is none.
\<close>

definition strip_cr :: "string \<Rightarrow> string" where
  "strip_cr s = (if s \<noteq> [] \<and> last s = CHR 0x0D then butlast s else s)"

fun lines_of :: "string list \<Rightarrow> string list" where
  "lines_of [] = []"
| "lines_of [p] = (if p = [] then [] else [p])"
| "lines_of (p # q # ps) = strip_cr p # lines_of (q # ps)"

definition str_lines :: "string \<Rightarrow> string list" where
  "str_lines s = lines_of (split_on (CHR 0x0A) s)"

fun join :: "string \<Rightarrow> string list \<Rightarrow> string" where
  "join d [] = []"
| "join d [p] = p"
| "join d (p # q # ps) = p @ d @ join d (q # ps)"

text \<open>
  \<^verbatim>\<open>to_lowercase\<close> as far as a comparison with ASCII words can see it: the only
  non-ASCII character with an ASCII lower case is the Kelvin sign (k), and none of
  the words compared with contains a k.
\<close>

definition ascii_lower :: "char \<Rightarrow> char" where
  "ascii_lower c = (let n = of_char c :: nat in if 65 \<le> n \<and> n \<le> 90 then char_of (n + 32) else c)"

lemma split_on_neq_Nil [simp]: "split_on d s \<noteq> []"
  by (cases s) (auto split: list.splits)

lemma split_on_no_sep: "d \<notin> set s \<Longrightarrow> split_on d s = [s]"
  by (induction s) auto

lemma split_on_append: "d \<notin> set p \<Longrightarrow> split_on d (p @ d # s) = p # split_on d s"
  by (induction p) auto

lemma split_on_join:
  assumes "ps \<noteq> []" and "\<And>p. p \<in> set ps \<Longrightarrow> d \<notin> set p"
  shows "split_on d (join [d] ps) = ps"
  using assms
proof (induction ps)
  case (Cons p ps)
  then show ?case by (cases ps) (simp_all add: split_on_no_sep split_on_append)
qed simp

lemma split_once_no_sep: "d \<notin> set s \<Longrightarrow> split_once d s = None"
  by (induction s) auto

lemma split_once_append: "d \<notin> set p \<Longrightarrow> split_once d (p @ d # s) = Some (p, s)"
  by (induction p) auto

lemma split_once_SomeD: "split_once d s = Some (a, b) \<Longrightarrow> s = a @ d # b \<and> d \<notin> set a"
  by (induction s arbitrary: a) (auto split: if_splits option.splits)

lemma split_once_Some: "split_once d s = Some (a, b) \<longleftrightarrow> s = a @ d # b \<and> d \<notin> set a"
  using split_once_SomeD split_once_append by metis

lemma split_once_None: "split_once d s = None \<longleftrightarrow> d \<notin> set s"
  by (induction s) (auto split: option.splits)

lemma find_char_Some: "find_char d s = Some i \<Longrightarrow> i < length s \<and> s ! i = d \<and> d \<notin> set (take i s)"
  by (induction s arbitrary: i) (auto split: if_splits)

lemma find_char_None: "find_char d s = None \<longleftrightarrow> d \<notin> set s"
  by (induction s) auto

lemma find_char_first: "d \<notin> set a \<Longrightarrow> find_char d (a @ d # b) = Some (length a)"
  by (induction a) auto

lemma rfind_char_None: "rfind_char d s = None \<longleftrightarrow> d \<notin> set s"
  by (induction s) (auto split: option.splits)

lemma rfind_char_Some:
  "rfind_char d s = Some i \<Longrightarrow> i < length s \<and> s ! i = d \<and> d \<notin> set (drop (Suc i) s)"
proof (induction s arbitrary: i)
  case (Cons c s)
  then show ?case by (auto split: option.splits if_splits simp: rfind_char_None)
qed simp

lemma rfind_char_last: "d \<notin> set b \<Longrightarrow> rfind_char d (a @ d # b) = Some (length a)"
proof (induction a)
  case Nil
  then have "rfind_char d b = None" by (simp add: rfind_char_None)
  then show ?case by simp
qed simp

lemma split_on_lines:
  "(\<And>l. l \<in> set ls \<Longrightarrow> d \<notin> set l) \<Longrightarrow> split_on d (concat (map (\<lambda>l. l @ [d]) ls)) = ls @ [[]]"
  by (induction ls) (simp_all add: split_on_append)

lemma lines_of_terminated:
  "(\<And>l. l \<in> set ls \<Longrightarrow> l = [] \<or> last l \<noteq> CHR 0x0D) \<Longrightarrow> lines_of (ls @ [[]]) = ls"
proof (induction ls)
  case (Cons l ls)
  then show ?case by (cases ls) (auto simp: strip_cr_def)
qed simp

lemma str_lines_terminated:
  assumes "\<And>l. l \<in> set ls \<Longrightarrow> CHR 0x0A \<notin> set l \<and> (l = [] \<or> last l \<noteq> CHR 0x0D)"
  shows "str_lines (concat (map (\<lambda>l. l @ [CHR 0x0A]) ls)) = ls"
  using assms by (simp add: str_lines_def split_on_lines lines_of_terminated)

lemma set_split_on: "p \<in> set (split_on d s) \<Longrightarrow> d \<notin> set p"
proof (induction s arbitrary: p)
  case (Cons c s)
  then show ?case by (cases "split_on d s") (auto split: if_splits)
qed simp

lemma set_lines_of: "l \<in> set (lines_of ps) \<Longrightarrow> \<exists>p \<in> set ps. set l \<subseteq> set p"
  by (induction ps rule: lines_of.induct) (auto simp: strip_cr_def dest: in_set_butlastD split: if_splits)

lemma str_lines_no_newline: "l \<in> set (str_lines s) \<Longrightarrow> CHR 0x0A \<notin> set l"
  unfolding str_lines_def using set_lines_of set_split_on by blast

subsection \<open>Unsigned integers in decimal\<close>

definition digit_val :: "char \<Rightarrow> nat option" where
  "digit_val c = (let n = of_char c :: nat in if 48 \<le> n \<and> n \<le> 57 then Some (n - 48) else None)"

definition digit_char :: "nat \<Rightarrow> char" where
  "digit_char d = char_of (48 + d)"

text \<open>The loop of \<^verbatim>\<open>from_str_radix\<close>, with its \<^verbatim>\<open>checked_mul\<close>/\<^verbatim>\<open>checked_add\<close> as a bound.\<close>

fun parse_digits :: "nat \<Rightarrow> nat \<Rightarrow> string \<Rightarrow> nat option" where
  "parse_digits m acc [] = Some acc"
| "parse_digits m acc (c # s) =
     (case digit_val c of
        None \<Rightarrow> None
      | Some d \<Rightarrow> if m < acc * 10 + d then None else parse_digits m (acc * 10 + d) s)"

definition parse_uint :: "nat \<Rightarrow> string \<Rightarrow> nat option" where
  "parse_uint m s =
     (case s of
        [] \<Rightarrow> None
      | c # r \<Rightarrow>
          if (c = CHR ''+'' \<or> c = CHR ''-'') \<and> r = [] then None
          else if c = CHR ''+'' then parse_digits m 0 r
          else parse_digits m 0 s)"

definition parse_u32 :: "string \<Rightarrow> nat option" where
  "parse_u32 s = parse_uint (2 ^ 32 - 1) s"

fun show_nat :: "nat \<Rightarrow> string" where
  "show_nat n = (if n < 10 then [digit_char n] else show_nat (n div 10) @ [digit_char (n mod 10)])"

declare show_nat.simps [simp del]

lemma digit_val_char [simp]: "d < 10 \<Longrightarrow> digit_val (digit_char d) = Some d"
  by (simp add: digit_val_def digit_char_def of_char_of)

lemma digit_val_less: "digit_val c = Some d \<Longrightarrow> d < 10"
  by (auto simp: digit_val_def Let_def split: if_splits)

lemma parse_digits_bound: "parse_digits m acc s = Some n \<Longrightarrow> acc \<le> m \<Longrightarrow> n \<le> m"
  by (induction s arbitrary: acc) (auto split: option.splits if_splits)

lemma parse_u32_bound: "parse_u32 s = Some n \<Longrightarrow> n < 2 ^ 32"
proof -
  assume "parse_u32 s = Some n"
  then obtain r where "parse_digits (2 ^ 32 - 1) 0 r = Some n"
    by (auto simp: parse_u32_def parse_uint_def simp del: parse_digits.simps
        split: list.splits if_splits)
  from parse_digits_bound [OF this] show ?thesis by simp
qed

lemma parse_digits_append:
  "parse_digits m acc (s @ [c]) =
     (case parse_digits m acc s of
        None \<Rightarrow> None
      | Some n \<Rightarrow> (case digit_val c of
                    None \<Rightarrow> None
                  | Some d \<Rightarrow> if m < n * 10 + d then None else Some (n * 10 + d)))"
  by (induction s arbitrary: acc) (auto split: option.splits)

lemma parse_digits_show: "n \<le> m \<Longrightarrow> parse_digits m 0 (show_nat n) = Some n"
proof (induction n rule: show_nat.induct)
  case (1 n)
  show ?case
  proof (cases "n < 10")
    case True
    with "1.prems" show ?thesis by (subst show_nat.simps) simp
  next
    case False
    with "1.prems" have "parse_digits m 0 (show_nat (n div 10)) = Some (n div 10)"
      by (intro "1.IH") auto
    moreover have "n div 10 * 10 + n mod 10 = n" by simp
    ultimately show ?thesis
      using False "1.prems" by (subst show_nat.simps) (simp add: parse_digits_append)
  qed
qed

lemma show_nat_neq_Nil [simp]: "show_nat n \<noteq> []"
  by (subst show_nat.simps) simp

lemma set_show_nat: "c \<in> set (show_nat n) \<Longrightarrow> digit_val c \<noteq> None"
proof (induction n rule: show_nat.induct)
  case (1 n)
  show ?case
  proof (cases "n < 10")
    case True
    with "1.prems" show ?thesis by (simp add: show_nat.simps [of n])
  next
    case False
    with "1.prems" have "c \<in> set (show_nat (n div 10)) \<or> c = digit_char (n mod 10)"
      by (auto simp: show_nat.simps [of n])
    with False "1.IH" show ?thesis by auto
  qed
qed

lemma parse_u32_show: "n < 2 ^ 32 \<Longrightarrow> parse_u32 (show_nat n) = Some n"
proof -
  assume n: "n < 2 ^ 32"
  obtain c r where cr: "show_nat n = c # r" by (cases "show_nat n") auto
  then have "digit_val c \<noteq> None" using set_show_nat [of c n] by auto
  then have "c \<noteq> CHR ''+''" and "c \<noteq> CHR ''-''" by (auto simp: digit_val_def)
  then show ?thesis
    using n cr parse_digits_show [of n "2 ^ 32 - 1"] by (simp add: parse_u32_def parse_uint_def)
qed

lemma digit_plain: "digit_val c \<noteq> None \<Longrightarrow> plain_char c"
  by (auto simp: plain_char_def ascii_ws_def digit_val_def Let_def split: if_splits)

lemma show_nat_plain: "c \<in> set (show_nat n) \<Longrightarrow> plain_char c"
  using set_show_nat digit_plain by blast

lemma show_nat_no: "digit_val c = None \<Longrightarrow> c \<notin> set (show_nat n)"
  using set_show_nat [of c n] by blast

lemma digit_val_punct [simp]: "digit_val (CHR '','') = None" "digit_val (CHR ''-'') = None"
  by (simp_all add: digit_val_def)

lemmas split_lemmas [rust_simps] =
  split_on_no_sep split_on_append split_once_no_sep split_once_append parse_u32_show

text \<open>Unfoldings that let the simplifier compute the primitives on literal strings.\<close>

lemmas str_eval [eval_simps] =
  trim_def trim_start_def trim_end_def strip_while.simps ascii_ws_def ws2_def ws3_def
  parse_u32_def parse_uint_def digit_val_def show_nat.simps digit_char_def char_of_def
  starts_with_def ends_with_def slice_def str_lines_def strip_cr_def ascii_lower_def Let_def

end
