(* ===== verification/Config_File.thy ===== *)
theory Config_File
  imports Rust_Str
begin

text \<open>
  \<^verbatim>\<open>crates/ananicy-core/src/config.rs\<close>: the configuration snapshot, the parser of
  \<^verbatim>\<open>ananicy.conf\<close>, the writer of the generated default file and the manager that loads
  and reloads it. Reading and writing the file are parameters. The lemmas show what
  the parser does with every key, that the full-scan interval is never zero, that the
  generated file reads back as the snapshot in force, and that an unsupported
  \<^verbatim>\<open>latency_nice\<close> is switched off on every path.
\<close>

subsection \<open>Data\<close>

datatype log_level = Trace | Debug | Info | Warn | Error | Critical

datatype config_diagnostic = Diag_Info string | Diag_Warn string | Diag_Error string

record config_snapshot =
  check_freq :: nat
  check_disks_schedulers :: bool
  cgroup_load :: bool
  type_load :: bool
  rule_load :: bool
  apply_nice :: bool
  apply_latnice :: bool
  apply_ioclass :: bool
  apply_ionice :: bool
  apply_sched :: bool
  apply_oom_score_adj :: bool
  apply_cgroups :: bool
  apply_cpuset :: bool
  apply_cpu_weight :: bool
  cgroup_realtime_workaround :: bool
  x3d_mode :: string
  log_applied_rule :: bool
  loglevel :: log_level

definition default_snapshot :: config_snapshot where
  "default_snapshot =
     \<lparr>check_freq = 60, check_disks_schedulers = True, cgroup_load = True, type_load = True,
      rule_load = True, apply_nice = True, apply_latnice = True, apply_ioclass = True,
      apply_ionice = True, apply_sched = True, apply_oom_score_adj = True, apply_cgroups = True,
      apply_cpuset = True, apply_cpu_weight = True, cgroup_realtime_workaround = True,
      x3d_mode = ''auto'', log_applied_rule = False, loglevel = Info\<rparr>"

subsection \<open>Log levels\<close>

definition parse_with_status :: "string \<Rightarrow> log_level \<times> bool" where
  "parse_with_status s =
     (let l = map ascii_lower s in
      if l = ''trace'' then (Trace, True)
      else if l = ''debug'' then (Debug, True)
      else if l = ''info'' then (Info, True)
      else if l = ''warn'' then (Warn, True)
      else if l = ''error'' then (Error, True)
      else if l = ''critical'' \<or> l = ''fatal'' then (Critical, True)
      else (Info, False))"

fun show_level :: "log_level \<Rightarrow> string" where
  "show_level Trace = ''trace''"
| "show_level Debug = ''debug''"
| "show_level Info = ''info''"
| "show_level Warn = ''warn''"
| "show_level Error = ''error''"
| "show_level Critical = ''critical''"

subsection \<open>Parsing\<close>

definition is_true :: "string \<Rightarrow> bool" where
  "is_true v \<longleftrightarrow> v = ''true''"

definition apply_check_freq ::
  "string \<Rightarrow> config_snapshot \<Rightarrow> config_snapshot \<times> config_diagnostic list" where
  "apply_check_freq v c =
     (case parse_u32 v of
        Some freq \<Rightarrow>
          if freq = 0 then
            (c, [Diag_Error ''Invalid check_freq value: 0 (the full scan interval must be at least 1 second)''])
          else (c\<lparr>check_freq := freq\<rparr>, [])
      | None \<Rightarrow> (c, [Diag_Error (''Invalid check_freq value: '' @ v)]))"

text \<open>The \<^verbatim>\<open>match key\<close> of the parser, one arm per key.\<close>

definition apply_key ::
  "string \<Rightarrow> string \<Rightarrow> config_snapshot \<Rightarrow> config_snapshot \<times> config_diagnostic list" where
  "apply_key k v c =
     (if k = ''check_freq'' then apply_check_freq v c
      else if k = ''cgroup_load'' then (c\<lparr>cgroup_load := is_true v\<rparr>, [])
      else if k = ''check_disks_schedulers'' then (c\<lparr>check_disks_schedulers := is_true v\<rparr>, [])
      else if k = ''type_load'' then (c\<lparr>type_load := is_true v\<rparr>, [])
      else if k = ''rule_load'' then (c\<lparr>rule_load := is_true v\<rparr>, [])
      else if k = ''apply_nice'' then (c\<lparr>apply_nice := is_true v\<rparr>, [])
      else if k = ''apply_latnice'' then (c\<lparr>apply_latnice := is_true v\<rparr>, [])
      else if k = ''apply_ioclass'' then (c\<lparr>apply_ioclass := is_true v\<rparr>, [])
      else if k = ''apply_ionice'' then (c\<lparr>apply_ionice := is_true v\<rparr>, [])
      else if k = ''apply_sched'' then (c\<lparr>apply_sched := is_true v\<rparr>, [])
      else if k = ''apply_oom_score_adj'' then (c\<lparr>apply_oom_score_adj := is_true v\<rparr>, [])
      else if k = ''apply_cgroup'' then (c\<lparr>apply_cgroups := is_true v\<rparr>, [])
      else if k = ''apply_cpuset'' then (c\<lparr>apply_cpuset := is_true v\<rparr>, [])
      else if k = ''apply_cpu_weight'' then (c\<lparr>apply_cpu_weight := is_true v\<rparr>, [])
      else if k = ''cgroup_realtime_workaround'' then (c\<lparr>cgroup_realtime_workaround := is_true v\<rparr>, [])
      else if k = ''x3d_mode'' then (c\<lparr>x3d_mode := v\<rparr>, [])
      else if k = ''log_applied_rule'' then (c\<lparr>log_applied_rule := is_true v\<rparr>, [])
      else if k = ''loglevel'' then
        (case parse_with_status v of
           (level, valid) \<Rightarrow>
             (c\<lparr>loglevel := level\<rparr>,
              if valid then []
              else [Diag_Warn (''Unknown loglevel '' @ [CHR 0x27] @ v @ [CHR 0x27] @ '', falling back to info'')]))
      else (c, [Diag_Warn (''Unknown config key: '' @ k)]))"

definition apply_line ::
  "string \<Rightarrow> config_snapshot \<Rightarrow> config_snapshot \<times> config_diagnostic list" where
  "apply_line l c =
     (let line = trim l in
      if line = [] \<or> starts_with line ''#'' then (c, [])
      else
        (case split_once (CHR ''='') line of
           Some (k, v) \<Rightarrow> apply_key (trim k) (trim v) c
         | None \<Rightarrow> (c, [])))"

fun apply_lines ::
  "string list \<Rightarrow> config_snapshot \<Rightarrow> config_snapshot \<times> config_diagnostic list" where
  "apply_lines [] c = (c, [])"
| "apply_lines (l # ls) c =
     (case apply_line l c of
        (c', ds) \<Rightarrow> (case apply_lines ls c' of (c'', es) \<Rightarrow> (c'', ds @ es)))"

definition parse_content :: "string \<Rightarrow> config_snapshot \<times> config_diagnostic list" where
  "parse_content content = apply_lines (str_lines content) default_snapshot"

subsection \<open>Writing\<close>

definition show_bool :: "bool \<Rightarrow> string" where
  "show_bool b = (if b then ''true'' else ''false'')"

definition config_lines :: "config_snapshot \<Rightarrow> string list" where
  "config_lines c =
     [''# Generated by ananicy-rs'',
      ''apply_nice='' @ show_bool (apply_nice c),
      ''apply_sched='' @ show_bool (apply_sched c),
      ''apply_ionice='' @ show_bool (apply_ionice c),
      ''apply_oom_score_adj='' @ show_bool (apply_oom_score_adj c),
      ''apply_latnice='' @ show_bool (apply_latnice c),
      ''log_applied_rule='' @ show_bool (log_applied_rule c),
      ''cgroup_load='' @ show_bool (cgroup_load c),
      ''type_load='' @ show_bool (type_load c),
      ''rule_load='' @ show_bool (rule_load c),
      ''cgroup_realtime_workaround='' @ show_bool (cgroup_realtime_workaround c),
      ''apply_cgroup='' @ show_bool (apply_cgroups c),
      ''apply_cpuset='' @ show_bool (apply_cpuset c),
      ''apply_cpu_weight='' @ show_bool (apply_cpu_weight c),
      ''x3d_mode='' @ x3d_mode c,
      ''loglevel='' @ show_level (loglevel c),
      ''check_freq='' @ show_nat (check_freq c),
      ''check_disks_schedulers='' @ show_bool (check_disks_schedulers c)]"

definition to_config_string :: "config_snapshot \<Rightarrow> string" where
  "to_config_string c = concat (map (\<lambda>l. l @ [CHR 0x0A]) (config_lines c))"

subsection \<open>The manager\<close>

datatype io_error = Not_Found | Other_Io string

text \<open>
  The file system as the manager meets it: what reading the path gives, whether its
  parent directory exists or it has none, and what creating the directory and writing
  the file answer (\<open>None\<close> is success).
\<close>

record config_fs =
  conf_read :: "io_error + string"
  conf_parent :: "(string \<times> bool) option"
  conf_create_dir :: "string option"
  conf_write :: "string option"

definition generate_default :: "bool \<Rightarrow> config_snapshot" where
  "generate_default latnice_supported =
     (if latnice_supported then default_snapshot else default_snapshot\<lparr>apply_latnice := False\<rparr>)"

definition create_parent :: "config_fs \<Rightarrow> config_diagnostic list" where
  "create_parent fs =
     (case conf_parent fs of
        Some (parent, False) \<Rightarrow>
          (case conf_create_dir fs of
             Some e \<Rightarrow> [Diag_Error (''Cannot create config directory '' @ parent @ '': '' @ e)]
           | None \<Rightarrow> [])
      | _ \<Rightarrow> [])"

text \<open>
  \<^verbatim>\<open>Config::load_file_with_diagnostics\<close>: the error, or the snapshot with the diagnostics
  and the text handed to \<^verbatim>\<open>fs::write\<close>, if it was called.
\<close>

definition load_file_with_diagnostics ::
  "config_fs \<Rightarrow> string \<Rightarrow> bool \<Rightarrow>
     io_error + config_snapshot \<times> config_diagnostic list \<times> string option" where
  "load_file_with_diagnostics fs path latnice_supported =
     (case conf_read fs of
        Inr content \<Rightarrow>
          (case parse_content content of
             (c, ds) \<Rightarrow>
               Inr (if latnice_supported then c else c\<lparr>apply_latnice := False\<rparr>, ds, None))
      | Inl Not_Found \<Rightarrow>
          let c = generate_default latnice_supported; text = to_config_string c in
          Inr (if latnice_supported then c else c\<lparr>apply_latnice := False\<rparr>,
               [Diag_Info (''Configuration file '' @ path @ '' does not exist; using defaults''),
                Diag_Info (''Default config:'' @ [CHR 0x0A] @ text),
                Diag_Info (''Writing default config to '' @ path)] @
               create_parent fs @
               (case conf_write fs of
                  Some e \<Rightarrow> [Diag_Error (''Cannot write config to '' @ path @ '': '' @ e)]
                | None \<Rightarrow> []),
               Some text)
      | Inl e \<Rightarrow> Inl e)"

text \<open>\<^verbatim>\<open>Config::reload_file_with_diagnostics\<close> on the stored snapshot.\<close>

definition reload_file_with_diagnostics ::
  "config_fs \<Rightarrow> bool \<Rightarrow> config_snapshot \<Rightarrow> (io_error + config_diagnostic list) \<times> config_snapshot" where
  "reload_file_with_diagnostics fs latnice_supported stored =
     (case conf_read fs of
        Inl e \<Rightarrow> (Inl e, stored)
      | Inr content \<Rightarrow>
          (case parse_content content of
             (c, ds) \<Rightarrow> (Inr ds, if latnice_supported then c else c\<lparr>apply_latnice := False\<rparr>)))"

subsection \<open>The interval is never zero\<close>

definition freq_ok :: "config_snapshot \<Rightarrow> bool" where
  "freq_ok c \<longleftrightarrow> 0 < check_freq c \<and> check_freq c < 2 ^ 32"

lemma apply_check_freq_ok: "freq_ok c \<Longrightarrow> freq_ok (fst (apply_check_freq v c))"
  by (auto simp: apply_check_freq_def freq_ok_def dest: parse_u32_bound split: option.split)

lemma apply_key_ok: "freq_ok c \<Longrightarrow> freq_ok (fst (apply_key k v c))"
  using apply_check_freq_ok [of c v]
  by (simp add: apply_key_def freq_ok_def split: prod.split)

lemma apply_line_ok: "freq_ok c \<Longrightarrow> freq_ok (fst (apply_line l c))"
  by (auto simp: apply_line_def Let_def apply_key_ok split: option.split)

lemma apply_lines_Cons [simp]:
  "fst (apply_lines (l # ls) c) = fst (apply_lines ls (fst (apply_line l c)))"
  "snd (apply_lines (l # ls) c) = snd (apply_line l c) @ snd (apply_lines ls (fst (apply_line l c)))"
  by (simp_all add: split_beta)

declare apply_lines.simps(2) [simp del]

lemma apply_lines_ok: "freq_ok c \<Longrightarrow> freq_ok (fst (apply_lines ls c))"
  by (induction ls arbitrary: c) (simp_all add: apply_line_ok)

lemma default_ok: "freq_ok default_snapshot"
  by (simp add: default_snapshot_def freq_ok_def)

lemma parse_content_ok: "freq_ok (fst (parse_content s))"
  by (simp add: parse_content_def apply_lines_ok default_ok)

subsection \<open>The written file reads back\<close>

lemma plain_eq: "plain_char (CHR ''='')"
  by (simp add: plain_char_def ascii_ws_def)

lemma apply_line_kv:
  assumes "k \<noteq> []" and "\<And>c. c \<in> set k \<Longrightarrow> plain_char c \<and> c \<noteq> CHR ''=''"
    and "hd k \<noteq> CHR ''#''" and "trim v = v"
  shows "apply_line (k @ CHR ''='' # v) c = apply_key k v c"
proof -
  have "trim ((k @ [CHR ''='']) @ v) = (k @ [CHR ''='']) @ v"
    using assms by (intro trim_append) (auto simp: plain_eq)
  moreover have "trim k = k" using assms(2) by (intro trim_all_plain) blast
  moreover have "split_once (CHR ''='') (k @ CHR ''='' # v) = Some (k, v)"
    using assms(2) by (intro split_once_append) blast
  moreover have "\<not> starts_with (k @ CHR ''='' # v) ''#''"
    using assms(1,3) by (cases k) (auto simp: starts_with_def)
  ultimately show ?thesis using assms(4) by (simp add: apply_line_def)
qed

lemma trim_show_bool: "trim (show_bool b) = show_bool b"
  by (rule trim_all_plain) (auto simp: show_bool_def plain_char_def ascii_ws_def split: if_splits)

lemma trim_show_level: "trim (show_level l) = show_level l"
  by (rule trim_all_plain) (cases l; auto simp: plain_char_def ascii_ws_def)

lemma is_true_show: "is_true (show_bool b) = b"
  by (simp add: is_true_def show_bool_def)

lemma parse_show_level: "parse_with_status (show_level l) = (l, True)"
  by (cases l) (simp_all add: parse_with_status_def ascii_lower_def Let_def)

text \<open>A key as the writer spells it: none of its characters can be mistaken for syntax.\<close>

definition key_ok :: "string \<Rightarrow> bool" where
  "key_ok k \<longleftrightarrow> k \<noteq> [] \<and> hd k \<noteq> CHR ''#'' \<and> list_all (\<lambda>c. plain_char c \<and> c \<noteq> CHR ''='') k"

lemma apply_line_key:
  "key_ok k \<Longrightarrow> trim v = v \<Longrightarrow> apply_line (k @ CHR ''='' # v) c = apply_key k v c"
  by (rule apply_line_kv) (auto simp: key_ok_def list_all_iff)

definition written_values :: "config_snapshot \<Rightarrow> (string \<times> string) list" where
  "written_values c =
     [(''apply_nice'', show_bool (apply_nice c)),
      (''apply_sched'', show_bool (apply_sched c)),
      (''apply_ionice'', show_bool (apply_ionice c)),
      (''apply_oom_score_adj'', show_bool (apply_oom_score_adj c)),
      (''apply_latnice'', show_bool (apply_latnice c)),
      (''log_applied_rule'', show_bool (log_applied_rule c)),
      (''cgroup_load'', show_bool (cgroup_load c)),
      (''type_load'', show_bool (type_load c)),
      (''rule_load'', show_bool (rule_load c)),
      (''cgroup_realtime_workaround'', show_bool (cgroup_realtime_workaround c)),
      (''apply_cgroup'', show_bool (apply_cgroups c)),
      (''apply_cpuset'', show_bool (apply_cpuset c)),
      (''apply_cpu_weight'', show_bool (apply_cpu_weight c)),
      (''x3d_mode'', x3d_mode c),
      (''loglevel'', show_level (loglevel c)),
      (''check_freq'', show_nat (check_freq c)),
      (''check_disks_schedulers'', show_bool (check_disks_schedulers c))]"

lemma config_lines_written:
  "config_lines c = ''# Generated by ananicy-rs'' # map (\<lambda>(k, v). k @ CHR ''='' # v) (written_values c)"
  by (simp add: config_lines_def written_values_def)

lemma written_keys_ok: "kv \<in> set (written_values c) \<Longrightarrow> key_ok (fst kv)"
proof -
  have "list_all key_ok (map fst (written_values c))"
    by (simp add: written_values_def key_ok_def plain_char_def ascii_ws_def)
  then show "kv \<in> set (written_values c) \<Longrightarrow> key_ok (fst kv)" by (auto simp: list_all_iff)
qed

lemma written_values_trimmed:
  assumes "trim (x3d_mode c) = x3d_mode c" and "kv \<in> set (written_values c)"
  shows "trim (snd kv) = snd kv"
proof -
  have "trim (show_nat n) = show_nat n" for n by (rule trim_all_plain) (rule show_nat_plain)
  then have "list_all (\<lambda>v. trim v = v) (map snd (written_values c))"
    by (simp add: written_values_def trim_show_bool trim_show_level assms(1))
  then show ?thesis using assms(2) by (auto simp: list_all_iff)
qed

fun apply_keys ::
  "(string \<times> string) list \<Rightarrow> config_snapshot \<Rightarrow> config_snapshot \<times> config_diagnostic list" where
  "apply_keys [] c = (c, [])"
| "apply_keys ((k, v) # kvs) c =
     (case apply_key k v c of
        (c', ds) \<Rightarrow> (case apply_keys kvs c' of (c'', es) \<Rightarrow> (c'', ds @ es)))"

lemma apply_lines_keys:
  assumes "\<And>kv. kv \<in> set kvs \<Longrightarrow> key_ok (fst kv) \<and> trim (snd kv) = snd kv"
  shows "apply_lines (map (\<lambda>(k, v). k @ CHR ''='' # v) kvs) c = apply_keys kvs c"
  using assms
proof (induction kvs arbitrary: c)
  case (Cons kv kvs)
  obtain k v where kv: "kv = (k, v)" by (cases kv)
  have "apply_line (k @ CHR ''='' # v) c = apply_key k v c"
    using Cons.prems [of kv] kv by (simp add: apply_line_key)
  with Cons kv show ?case by (simp add: apply_lines.simps(2) split: prod.split)
qed simp

lemma apply_keys_written:
  assumes "freq_ok c"
  shows "apply_keys (written_values c) default_snapshot = (c\<lparr>apply_ioclass := True\<rparr>, [])"
  using assms
  by (simp add: written_values_def apply_key_def apply_check_freq_def default_snapshot_def
      is_true_show parse_show_level parse_u32_show freq_ok_def)

lemma no_newline_show:
  "CHR 0x0A \<notin> set (show_bool b)" "CHR 0x0A \<notin> set (show_level l)" "CHR 0x0A \<notin> set (show_nat n)"
proof -
  show "CHR 0x0A \<notin> set (show_bool b)" by (simp add: show_bool_def)
  show "CHR 0x0A \<notin> set (show_level l)" by (cases l) simp_all
  show "CHR 0x0A \<notin> set (show_nat n)" by (rule show_nat_no) (simp add: digit_val_def)
qed

lemma trimmed_last: "trim v = v \<Longrightarrow> v \<noteq> [] \<Longrightarrow> \<not> ascii_ws (last v)"
proof -
  assume "trim v = v" and v: "v \<noteq> []"
  then have "ws_suffix_rev (last v # rev (butlast v)) = 0"
    by (metis append_butlast_last_id rev_eq_Cons_iff ws_suffix_rev_trim rev_swap)
  then show ?thesis by (cases "rev (butlast v)" ; cases "tl (rev (butlast v))") auto
qed

text \<open>The conditions under which a snapshot can be written: what the parser can produce.\<close>

definition writable :: "config_snapshot \<Rightarrow> bool" where
  "writable c \<longleftrightarrow> freq_ok c \<and> trim (x3d_mode c) = x3d_mode c \<and> CHR 0x0A \<notin> set (x3d_mode c)"

lemma written_lines_plain:
  assumes "writable c" and "l \<in> set (config_lines c)"
  shows "CHR 0x0A \<notin> set l \<and> (l = [] \<or> last l \<noteq> CHR 0x0D)"
proof -
  have "list_all (\<lambda>(k, v). CHR 0x0A \<notin> set k \<and> CHR 0x0A \<notin> set v) (written_values c)"
    using assms(1) by (simp add: written_values_def no_newline_show writable_def)
  moreover have "last (k @ CHR ''='' # v) \<noteq> CHR 0x0D" if "trim v = v" for k v
    using trimmed_last [OF that] by (auto simp: ascii_ws_def)
  ultimately show ?thesis
    using assms written_values_trimmed [of c]
    by (fastforce simp: config_lines_written list_all_iff writable_def)
qed

lemma parse_written:
  assumes "writable c"
  shows "parse_content (to_config_string c) = (c\<lparr>apply_ioclass := True\<rparr>, [])"
proof -
  have "str_lines (to_config_string c) = config_lines c"
    unfolding to_config_string_def by (rule str_lines_terminated) (rule written_lines_plain [OF assms])
  moreover have "apply_line ''# Generated by ananicy-rs'' d = (d, [])" for d
    by (simp add: apply_line_def trim_plain plain_char_def ascii_ws_def starts_with_def)
  moreover have "apply_lines (map (\<lambda>(k, v). k @ CHR ''='' # v) (written_values c)) default_snapshot =
      apply_keys (written_values c) default_snapshot"
    using assms written_keys_ok written_values_trimmed
    by (intro apply_lines_keys) (auto simp: writable_def)
  ultimately show ?thesis
    using assms apply_keys_written [of c]
    by (simp add: parse_content_def config_lines_written apply_lines.simps(2) writable_def)
qed

text \<open>Every snapshot the parser can produce is writable.\<close>

lemma apply_key_writable:
  "writable c \<Longrightarrow> trim v = v \<Longrightarrow> CHR 0x0A \<notin> set v \<Longrightarrow> writable (fst (apply_key k v c))"
  using apply_key_ok [of c k v]
  by (auto simp: writable_def apply_key_def apply_check_freq_def split: prod.split option.split)

lemma apply_line_writable:
  assumes "writable c" and "CHR 0x0A \<notin> set l"
  shows "writable (fst (apply_line l c))"
proof (cases "split_once (CHR ''='') (trim l)")
  case (Some kv)
  obtain k v where kv: "kv = (k, v)" by (cases kv)
  then have "trim l = k @ CHR ''='' # v" using Some split_once_SomeD by fastforce
  then have "CHR 0x0A \<notin> set v" using set_trim [of "CHR 0x0A" l] assms(2) by auto
  then have "CHR 0x0A \<notin> set (trim v)" using set_trim by blast
  then show ?thesis
    using assms(1) Some kv by (simp add: apply_line_def Let_def apply_key_writable)
qed (use assms in \<open>simp add: apply_line_def Let_def\<close>)

lemma apply_lines_writable:
  "writable c \<Longrightarrow> (\<And>l. l \<in> set ls \<Longrightarrow> CHR 0x0A \<notin> set l) \<Longrightarrow> writable (fst (apply_lines ls c))"
  by (induction ls arbitrary: c) (simp_all add: apply_line_writable)

lemma default_writable: "writable default_snapshot"
  by (simp add: writable_def default_ok trim_plain plain_char_def ascii_ws_def)
     (simp add: default_snapshot_def trim_plain plain_char_def ascii_ws_def)

lemma parse_content_writable: "writable (fst (parse_content s))"
  unfolding parse_content_def by (intro apply_lines_writable default_writable str_lines_no_newline)

subsection \<open>Loading and reloading\<close>

text \<open>What every snapshot in force satisfies: writable, and no \<^verbatim>\<open>latency_nice\<close> without support.\<close>

definition in_force_ok :: "bool \<Rightarrow> config_snapshot \<Rightarrow> bool" where
  "in_force_ok latnice_supported c \<longleftrightarrow> writable c \<and> (latnice_supported \<or> \<not> apply_latnice c)"

lemma writable_latnice [simp]: "writable (c\<lparr>apply_latnice := b\<rparr>) = writable c"
  by (simp add: writable_def freq_ok_def)

lemma generate_default_ok: "in_force_ok l (generate_default l)"
  by (simp add: in_force_ok_def generate_default_def default_writable)

lemma load_ok: "load_file_with_diagnostics fs path l = Inr (c, ds, w) \<Longrightarrow> in_force_ok l c"
  using generate_default_ok [of l] parse_content_writable
  by (auto simp: load_file_with_diagnostics_def in_force_ok_def Let_def
      split: sum.splits io_error.splits prod.splits if_splits)
     (metis fst_conv)+

lemma reload_ok:
  "in_force_ok l c \<Longrightarrow> in_force_ok l (snd (reload_file_with_diagnostics fs l c))"
  using parse_content_writable
  by (auto simp: reload_file_with_diagnostics_def in_force_ok_def split: sum.split prod.split)
     (metis fst_conv)+

text \<open>The snapshot in force after the daemon was asked to reload for each of the states of the file.\<close>

definition reloads :: "bool \<Rightarrow> config_fs list \<Rightarrow> config_snapshot \<Rightarrow> config_snapshot" where
  "reloads l fss c = fold (\<lambda>fs c. snd (reload_file_with_diagnostics fs l c)) fss c"

lemma reloads_ok: "in_force_ok l c \<Longrightarrow> in_force_ok l (reloads l fss c)"
  unfolding reloads_def by (induction fss arbitrary: c) (simp_all add: reload_ok)

text \<open>
  C15: the snapshot in force after a successful start and any number of reloads, failed ones
  included, has a full-scan interval between 1 and 2^32 - 1 seconds and never asks for
  \<^verbatim>\<open>latency_nice\<close> on a kernel without it, whatever the file contains.
\<close>
theorem config_in_force_valid:
  assumes "load_file_with_diagnostics fs path l = Inr (c, ds, w)"
  shows "0 < check_freq (reloads l fss c) \<and> check_freq (reloads l fss c) < 2 ^ 32 \<and>
    (apply_latnice (reloads l fss c) \<longrightarrow> l)"
  using reloads_ok [OF load_ok [OF assms], of fss]
  by (auto simp: in_force_ok_def writable_def freq_ok_def)

theorem config_in_force_valid_witness:
  "\<exists>ds w. load_file_with_diagnostics
     \<lparr>conf_read = Inl Not_Found, conf_parent = None, conf_create_dir = None, conf_write = None\<rparr> ''a'' False =
       Inr (generate_default False, ds, w) \<and>
   0 < check_freq (reloads False
     [\<lparr>conf_read = Inr ''check_freq=0'', conf_parent = None, conf_create_dir = None, conf_write = None\<rparr>]
     (generate_default False))"
proof -
  have "\<exists>ds w. load_file_with_diagnostics
     \<lparr>conf_read = Inl Not_Found, conf_parent = None, conf_create_dir = None, conf_write = None\<rparr> ''a'' False =
       Inr (generate_default False, ds, w)"
    by (simp add: load_file_with_diagnostics_def generate_default_def Let_def)
  then show ?thesis using config_in_force_valid by blast
qed

text \<open>
  A start without a configuration file writes a text from which the next start, or a
  reload, obtains exactly the snapshot that is in force, without a diagnostic.
\<close>
theorem generated_file_reads_back:
  assumes "conf_read fs = Inl Not_Found"
  shows "\<exists>ds text.
    load_file_with_diagnostics fs path l = Inr (generate_default l, ds, Some text) \<and>
    load_file_with_diagnostics (fs\<lparr>conf_read := Inr text\<rparr>) path l = Inr (generate_default l, [], None) \<and>
    (\<forall>c. reload_file_with_diagnostics (fs\<lparr>conf_read := Inr text\<rparr>) l c = (Inr [], generate_default l))"
proof -
  have "(generate_default l)\<lparr>apply_ioclass := True\<rparr> = generate_default l"
    by (simp add: generate_default_def default_snapshot_def)
  then have "parse_content (to_config_string (generate_default l)) = (generate_default l, [])"
    using parse_written [of "generate_default l"] generate_default_ok [of l]
    by (simp add: in_force_ok_def)
  moreover have "(if l then generate_default l else (generate_default l)\<lparr>apply_latnice := False\<rparr>) =
      generate_default l"
    by (simp add: generate_default_def)
  ultimately show ?thesis
    using assms
    by (simp add: load_file_with_diagnostics_def reload_file_with_diagnostics_def Let_def)
qed

theorem generated_file_reads_back_witness:
  "\<exists>ds text.
    load_file_with_diagnostics
      \<lparr>conf_read = Inl Not_Found, conf_parent = Some (''/etc'', True), conf_create_dir = None, conf_write = None\<rparr>
      ''/etc/a.conf'' True = Inr (generate_default True, ds, Some text)"
  using generated_file_reads_back
    [of "\<lparr>conf_read = Inl Not_Found, conf_parent = Some (''/etc'', True), conf_create_dir = None, conf_write = None\<rparr>"
        "''/etc/a.conf''" True]
  by auto

text \<open>
  Whatever configuration text was read, writing the resulting snapshot and parsing the
  written text gives the snapshot back without a diagnostic, except for
  \<^verbatim>\<open>apply_ioclass\<close>, which the writer leaves out and the parser therefore sets to its default.
\<close>
theorem config_rewrite_stable:
  "parse_content (to_config_string (fst (parse_content s))) =
     ((fst (parse_content s))\<lparr>apply_ioclass := True\<rparr>, [])"
  by (rule parse_written) (rule parse_content_writable)

end
