(* ===== verification/Platform_Error.thy ===== *)
theory Platform_Error
  imports Prelude
begin

text \<open>
  \<^verbatim>\<open>PlatformError\<close> of \<^verbatim>\<open>crates/ananicy-core/src/worker.rs\<close>, what an action on a process can
  fail with, and the error numbers of the operating system the code tells apart. An
  \<^verbatim>\<open>io::Error\<close> is its raw error number, if it has one.
\<close>

datatype platform_error =
    NotFound
  | PermissionDenied
  | Skipped string
  | Unsupported
  | InvalidCpuset string
  | Io "int option"

definition esrch :: int where "esrch = 3"
definition eperm :: int where "eperm = 1"
definition enoent :: int where "enoent = 2"
definition eacces :: int where "eacces = 13"
definition einval :: int where "einval = 22"

lemmas errnos = esrch_def eperm_def enoent_def eacces_def einval_def

end
