(* ===== verification/Interner.thy ===== *)
theory Interner
  imports Rust_Str
begin

text \<open>
  The interface between the process-wide name table and the rules that hold indices
  into it. A client keeps the number \<open>intern\<close> returned and later asks \<open>get\<close> for the name
  behind it, possibly after any number of other names were interned. The locale states
  what the table promises; the lemmas are what the rules rely on.
\<close>

text \<open>The state after interning several names one after the other, with their numbers.\<close>

fun intern_all :: "(string \<Rightarrow> 't \<Rightarrow> nat \<times> 't) \<Rightarrow> string list \<Rightarrow> 't \<Rightarrow> nat list \<times> 't" where
  "intern_all f [] t = ([], t)"
| "intern_all f (s # ss) t =
     (case f s t of (i, t') \<Rightarrow> (case intern_all f ss t' of (is, t'') \<Rightarrow> (i # is, t'')))"

locale interner =
  fixes tab_ok :: "'t \<Rightarrow> bool"
    and full :: "'t \<Rightarrow> bool"
    and do_intern :: "string \<Rightarrow> 't \<Rightarrow> nat \<times> 't"
    and look_up :: "'t \<Rightarrow> nat \<Rightarrow> string option"
  assumes intern_ok: "tab_ok t \<Longrightarrow> tab_ok (snd (do_intern s t))"
    and intern_keeps:
      "tab_ok t \<Longrightarrow> look_up t j = Some r \<Longrightarrow> look_up (snd (do_intern s t)) j = Some r"
    and intern_value:
      "tab_ok t \<Longrightarrow> \<not> full (snd (do_intern s t)) \<Longrightarrow>
         2 \<le> fst (do_intern s t) \<and> look_up (snd (do_intern s t)) (fst (do_intern s t) - 2) = Some s"
    and intern_state:
      "tab_ok t \<Longrightarrow> fst (do_intern s t) = 1 \<or>
         2 \<le> fst (do_intern s t) \<and> look_up (snd (do_intern s t)) (fst (do_intern s t) - 2) = Some s"
    and full_stays: "tab_ok t \<Longrightarrow> full t \<Longrightarrow> full (snd (do_intern s t))"
    and look_up_inj: "tab_ok t \<Longrightarrow> look_up t i = Some r \<Longrightarrow> look_up t j = Some r \<Longrightarrow> i = j"
begin

lemma intern_all_ok: "tab_ok t \<Longrightarrow> tab_ok (snd (intern_all do_intern ss t))"
proof (induction ss arbitrary: t)
  case (Cons s ss)
  then show ?case using intern_ok [of t s] by (simp add: split_beta)
qed simp

lemma intern_all_keeps:
  "tab_ok t \<Longrightarrow> look_up t j = Some r \<Longrightarrow> look_up (snd (intern_all do_intern ss t)) j = Some r"
proof (induction ss arbitrary: t)
  case (Cons s ss)
  then show ?case using intern_ok [of t s] intern_keeps [of t j r s] by (simp add: split_beta)
qed simp

lemma intern_all_full:
  "tab_ok t \<Longrightarrow> full t \<Longrightarrow> full (snd (intern_all do_intern ss t))"
proof (induction ss arbitrary: t)
  case (Cons s ss)
  then show ?case using intern_ok [of t s] full_stays [of t s] by (simp add: split_beta)
qed simp

text \<open>While the table has room, every name interned reads back, however many follow it.\<close>

lemma intern_all_reads_back:
  "tab_ok t \<Longrightarrow> \<not> full (snd (intern_all do_intern ss t)) \<Longrightarrow>
     list_all2 (\<lambda>i s. 2 \<le> i \<and> look_up (snd (intern_all do_intern ss t)) (i - 2) = Some s)
       (fst (intern_all do_intern ss t)) ss"
proof (induction ss arbitrary: t)
  case (Cons s ss)
  let ?t = "snd (do_intern s t)"
  have ok: "tab_ok ?t" by (rule intern_ok) fact
  from Cons.prems have nf: "\<not> full (snd (intern_all do_intern ss ?t))" by (simp add: split_beta)
  then have "\<not> full ?t" using intern_all_full [OF ok] by blast
  then have "2 \<le> fst (do_intern s t)" "look_up ?t (fst (do_intern s t) - 2) = Some s"
    using intern_value [OF Cons.prems(1)] by blast+
  then show ?case
    using Cons.IH [OF ok nf] intern_all_keeps [OF ok, of _ _ ss] by (simp add: split_beta)
qed simp

text \<open>Two names get one number exactly when they are the same name.\<close>

lemma intern_shares:
  assumes "tab_ok t" and "\<not> full (snd (intern_all do_intern ss t))"
    and "i < length ss" and "j < length ss"
  shows "fst (intern_all do_intern ss t) ! i = fst (intern_all do_intern ss t) ! j \<longleftrightarrow> ss ! i = ss ! j"
proof -
  let ?t = "snd (intern_all do_intern ss t)" and ?is = "fst (intern_all do_intern ss t)"
  note rb = intern_all_reads_back [OF assms(1,2)]
  have i: "2 \<le> ?is ! i" "look_up ?t (?is ! i - 2) = Some (ss ! i)"
    and j: "2 \<le> ?is ! j" "look_up ?t (?is ! j - 2) = Some (ss ! j)"
    using rb assms(3,4) by (auto simp: list_all2_conv_all_nth)
  show ?thesis
  proof
    assume "?is ! i = ?is ! j"
    with i j show "ss ! i = ss ! j" by simp
  next
    assume "ss ! i = ss ! j"
    with i j have "?is ! i - 2 = ?is ! j - 2"
      using look_up_inj [OF intern_all_ok [OF assms(1)]] by metis
    with i(1) j(1) show "?is ! i = ?is ! j" by linarith
  qed
qed

end

end
