(* ===== verification/Name_Table.thy ===== *)
theory Name_Table
  imports Interner "HOL-Library.AList"
begin

text \<open>
  \<^verbatim>\<open>crates/ananicy-core/src/rules.rs\<close>, \<^verbatim>\<open>NameTable\<close>, \<^verbatim>\<open>NameAttribute\<close> and \<^verbatim>\<open>TypeNameId\<close>: the
  process-wide table of names and the two-byte indices the rules hold instead of
  strings. The state of the table is passed explicitly; its locks only serialise the
  calls. The table is shown to satisfy the interface \<open>interner\<close>, to hold every name
  once and to hand out numbers that fit sixteen bits.
\<close>

subsection \<open>The table\<close>

record name_table =
  tab_values :: "string list"
  tab_index :: "(string \<times> nat) list"

definition empty_table :: name_table where
  "empty_table = \<lparr>tab_values = [], tab_index = []\<rparr>"

definition name_first_value :: nat where
  "name_first_value = 2"

definition u16_max :: nat where
  "u16_max = 65535"

definition intern :: "string \<Rightarrow> name_table \<Rightarrow> nat \<times> name_table" where
  "intern name t =
     (case map_of (tab_index t) name of
        Some found \<Rightarrow> (found, t)
      | None \<Rightarrow>
          let id = name_first_value + length (tab_values t) in
          if u16_max < id then (1, t)
          else (id, \<lparr>tab_values = tab_values t @ [name],
                     tab_index = AList.update name id (tab_index t)\<rparr>))"

definition get :: "name_table \<Rightarrow> nat \<Rightarrow> string option" where
  "get t i = (if i < length (tab_values t) then Some (tab_values t ! i) else None)"

subsection \<open>The indices\<close>

type_synonym name_attribute = nat
type_synonym type_name_id = nat

definition absent :: name_attribute where
  "absent = 0"

definition unusable :: name_attribute where
  "unusable = 1"

definition is_absent :: "name_attribute \<Rightarrow> bool" where
  "is_absent a \<longleftrightarrow> a = 0"

definition as_str :: "name_table \<Rightarrow> name_attribute \<Rightarrow> string option" where
  "as_str t a = (if a = 0 \<or> a = 1 then None else get t (a - name_first_value))"

definition intern_type :: "string \<Rightarrow> name_table \<Rightarrow> type_name_id \<times> name_table" where
  "intern_type name t = (case intern name t of (i, t') \<Rightarrow> (i - 1, t'))"

definition type_as_str :: "name_table \<Rightarrow> type_name_id \<Rightarrow> string option" where
  "type_as_str t a = (if a = 0 then None else get t (a - 1))"

subsection \<open>Invariant\<close>

definition table_wf :: "name_table \<Rightarrow> bool" where
  "table_wf t \<longleftrightarrow>
     distinct (tab_values t) \<and> length (tab_values t) \<le> u16_max - 1 \<and>
     (\<forall>s i. map_of (tab_index t) s = Some i \<longleftrightarrow>
        (\<exists>j < length (tab_values t). tab_values t ! j = s \<and> i = name_first_value + j))"

definition table_full :: "name_table \<Rightarrow> bool" where
  "table_full t \<longleftrightarrow> length (tab_values t) = u16_max - 1"

lemma index_None: "table_wf t \<Longrightarrow> map_of (tab_index t) s = None \<longleftrightarrow> s \<notin> set (tab_values t)"
  unfolding table_wf_def by (metis in_set_conv_nth not_Some_eq)

lemma table_wf_empty: "table_wf empty_table"
  by (simp add: table_wf_def empty_table_def)

lemma Ex_less_Suc: "(\<exists>j < Suc n. P j) \<longleftrightarrow> (\<exists>j < n. P j) \<or> P n"
  by (auto simp: less_Suc_eq)

text \<open>The three ways an interning ends: found, full, or appended.\<close>

lemma intern_cases:
  assumes "table_wf t"
  obtains
    (found) j where "j < length (tab_values t)" "tab_values t ! j = s" "intern s t = (2 + j, t)"
  | (full) "s \<notin> set (tab_values t)" "table_full t" "intern s t = (1, t)"
  | (fresh) t' where "s \<notin> set (tab_values t)" "length (tab_values t) < u16_max - 1"
      "tab_values t' = tab_values t @ [s]" "intern s t = (2 + length (tab_values t), t')"
      "table_wf t'"
proof (cases "map_of (tab_index t) s")
  case (Some i)
  with assms obtain j where "j < length (tab_values t)" "tab_values t ! j = s" "i = name_first_value + j"
    unfolding table_wf_def by blast
  with Some show thesis using found by (simp add: intern_def name_first_value_def)
next
  case None
  then have new: "s \<notin> set (tab_values t)" using assms index_None by blast
  show thesis
  proof (cases "table_full t")
    case True
    with None new show thesis
      using full by (simp add: intern_def table_full_def name_first_value_def u16_max_def)
  next
    case False
    let ?i = "name_first_value + length (tab_values t)"
    let ?t = "\<lparr>tab_values = tab_values t @ [s], tab_index = AList.update s ?i (tab_index t)\<rparr>"
    have room: "length (tab_values t) < u16_max - 1"
      using False assms by (simp add: table_full_def table_wf_def)
    have "table_wf ?t"
      unfolding table_wf_def
    proof (intro conjI allI)
      fix r i
      show "map_of (tab_index ?t) r = Some i \<longleftrightarrow>
          (\<exists>j < length (tab_values ?t). tab_values ?t ! j = r \<and> i = name_first_value + j)"
      proof (cases "r = s")
        case True
        have "tab_values t ! j \<noteq> s" if "j < length (tab_values t)" for j
          using new that nth_mem by blast
        with True show ?thesis
          by (simp add: update_conv' Ex_less_Suc nth_append eq_commute cong: conj_cong)
      next
        case False
        have "map_of (tab_index t) r = Some i \<longleftrightarrow>
            (\<exists>j < length (tab_values t). tab_values t ! j = r \<and> i = name_first_value + j)"
          using assms unfolding table_wf_def by blast
        with False show ?thesis
          by (simp add: update_conv' Ex_less_Suc nth_append) (metis less_irrefl_nat)
      qed
    qed (use assms new room in \<open>auto simp: table_wf_def\<close>)
    with None new room show thesis
      using fresh [of ?t]
      by (simp add: intern_def name_first_value_def u16_max_def)
  qed
qed

lemma get_inj:
  "table_wf t \<Longrightarrow> get t i = Some r \<Longrightarrow> get t j = Some r \<Longrightarrow> i = j"
  by (auto simp: get_def table_wf_def nth_eq_iff_index_eq split: if_splits)

lemma intern_wf: "table_wf t \<Longrightarrow> table_wf (snd (intern s t))"
  by (frule intern_cases [of t s]) auto

lemma intern_get:
  "table_wf t \<Longrightarrow> get t j = Some r \<Longrightarrow> get (snd (intern s t)) j = Some r"
  by (erule intern_cases [of t s]) (auto simp: get_def nth_append split: if_splits)

lemma intern_reads_back:
  assumes "table_wf t"
  shows "fst (intern s t) = 1 \<and> table_full (snd (intern s t)) \<or>
    2 \<le> fst (intern s t) \<and> get (snd (intern s t)) (fst (intern s t) - 2) = Some s"
  using assms by (cases rule: intern_cases [of t s]) (auto simp: get_def)

lemma intern_full: "table_wf t \<Longrightarrow> table_full t \<Longrightarrow> table_full (snd (intern s t))"
  by (erule intern_cases [of t s]) (auto simp: table_full_def)

interpretation nt: interner table_wf table_full intern get
  by unfold_locales (use intern_wf intern_get intern_reads_back intern_full get_inj in blast)+

lemma intern_u16: "table_wf t \<Longrightarrow> fst (intern s t) \<le> u16_max"
  by (frule intern_cases [of t s]) (auto simp: table_wf_def u16_max_def)

lemma as_str_value: "2 \<le> i \<Longrightarrow> as_str t i = get t (i - 2)"
  by (simp add: as_str_def name_first_value_def)

lemma intern_all_u16:
  "table_wf t \<Longrightarrow> i \<in> set (fst (intern_all intern ss t)) \<Longrightarrow> i \<le> u16_max"
proof (induction ss arbitrary: t)
  case (Cons s ss)
  then show ?case using intern_u16 [of t s] intern_wf [of t s] by (auto simp: split_beta)
qed simp

lemma intern_all_length [simp]: "length (fst (intern_all f ss t)) = length ss"
  by (induction ss arbitrary: t) (simp_all add: split_beta)

text \<open>
  As long as the name table has room, every name a rule file carries gets a sixteen-bit
  number that reads back as that name however many names are interned after it, and two
  names share a number exactly when they are equal.
\<close>
theorem interned_names_shared:
  assumes "table_wf t" and "\<not> table_full (snd (intern_all intern ss t))"
    and "i < length ss" and "j < length ss"
  shows "fst (intern_all intern ss t) ! i \<le> 65535 \<and>
    as_str (snd (intern_all intern ss t)) (fst (intern_all intern ss t) ! i) = Some (ss ! i) \<and>
    (fst (intern_all intern ss t) ! i = fst (intern_all intern ss t) ! j \<longleftrightarrow> ss ! i = ss ! j)"
proof (intro conjI)
  let ?is = "fst (intern_all intern ss t)" and ?t = "snd (intern_all intern ss t)"
  have "?is ! i \<in> set ?is" using assms(3) by simp
  then show "?is ! i \<le> 65535" using intern_all_u16 [OF assms(1)] by (simp add: u16_max_def)
  show "as_str ?t (?is ! i) = Some (ss ! i)"
    using nt.intern_all_reads_back [OF assms(1,2)] assms(3)
    by (simp add: list_all2_conv_all_nth as_str_value)
  show "?is ! i = ?is ! j \<longleftrightarrow> ss ! i = ss ! j"
    by (rule nt.intern_shares [OF assms])
qed

theorem interned_names_shared_witness:
  "fst (intern_all intern [''idle'', ''games'', ''idle''] empty_table) ! 0 \<le> 65535 \<and>
   as_str (snd (intern_all intern [''idle'', ''games'', ''idle''] empty_table))
     (fst (intern_all intern [''idle'', ''games'', ''idle''] empty_table) ! 0) = Some ''idle'' \<and>
   fst (intern_all intern [''idle'', ''games'', ''idle''] empty_table) ! 0 =
   fst (intern_all intern [''idle'', ''games'', ''idle''] empty_table) ! 2"
  using interned_names_shared [OF table_wf_empty, of "[''idle'', ''games'', ''idle'']" 0 2]
  by (simp add: table_full_def intern_def empty_table_def name_first_value_def u16_max_def)

text \<open>
  A name is recorded as declared but unusable exactly when it is new and the table
  already holds 65,534 distinct names; every other name is recorded as a value.
\<close>
theorem name_table_capacity:
  assumes "table_wf t"
  shows "fst (intern s t) = unusable \<longleftrightarrow>
    s \<notin> set (tab_values t) \<and> card (set (tab_values t)) = 65534"
proof -
  have "card (set (tab_values t)) = length (tab_values t)"
    using assms distinct_card unfolding table_wf_def by blast
  with assms show ?thesis
    by (cases rule: intern_cases [of t s])
       (auto simp: unusable_def table_full_def u16_max_def)
qed

theorem name_table_capacity_witness:
  "fst (intern ''idle'' empty_table) = unusable \<longleftrightarrow>
     ''idle'' \<notin> set (tab_values empty_table) \<and> card (set (tab_values empty_table)) = 65534"
  using name_table_capacity [of empty_table "''idle''"] table_wf_empty by blast

end
