(* ===== verification/Json.thy ===== *)
theory Json
  imports Rust_Str "HOL-Library.AList"
begin

text \<open>
  The JSON values rule files are read into, with the part of \<^verbatim>\<open>serde_json\<close>'s documented
  interface the rules use: a number is a non-negative integer of 64 bits, a negative
  one of 64 bits, or something else (\<open>JFloat\<close>, its text), and an object is its members.
  Parsing a text is a parameter of the theories that do it. \<open>merge_patch\<close> is the merge of
  RFC 7396, which the rules' documentation takes as the meaning of inheritance.
\<close>

datatype json =
    JNull
  | JBool bool
  | JPos nat
  | JNeg nat
  | JFloat string
  | JString string
  | JArray "json list"
  | JObject "(string \<times> json) list"

fun json_get :: "json \<Rightarrow> string \<Rightarrow> json option" where
  "json_get (JObject ms) k = map_of ms k"
| "json_get _ k = None"

fun json_str :: "json \<Rightarrow> string option" where
  "json_str (JString s) = Some s"
| "json_str _ = None"

fun json_members :: "json \<Rightarrow> (string \<times> json) list option" where
  "json_members (JObject ms) = Some ms"
| "json_members _ = None"

text \<open>\<^verbatim>\<open>Number::as_i64\<close> and \<^verbatim>\<open>Number::as_u64\<close>; \<open>JNeg n\<close> is the number -1 - n.\<close>

fun json_i64 :: "json \<Rightarrow> int option" where
  "json_i64 (JPos n) = (if n < 2 ^ 63 then Some (int n) else None)"
| "json_i64 (JNeg n) = Some (- 1 - int n)"
| "json_i64 _ = None"

fun json_u64 :: "json \<Rightarrow> nat option" where
  "json_u64 (JPos n) = Some n"
| "json_u64 _ = None"

fun is_number :: "json \<Rightarrow> bool" where
  "is_number (JPos n) = True"
| "is_number (JNeg n) = True"
| "is_number (JFloat s) = True"
| "is_number _ = False"

fun json_of_int :: "int \<Rightarrow> json" where
  "json_of_int n = (if 0 \<le> n then JPos (nat n) else JNeg (nat (- 1 - n)))"

subsection \<open>Merge patches\<close>

function merge_patch :: "json \<Rightarrow> json \<Rightarrow> json"
  and merge_members :: "(string \<times> json) list \<Rightarrow> (string \<times> json) list \<Rightarrow> (string \<times> json) list" where
  "merge_patch base patch =
     (case patch of
        JObject ps \<Rightarrow> JObject (merge_members (case base of JObject bs \<Rightarrow> bs | _ \<Rightarrow> []) ps)
      | _ \<Rightarrow> patch)"
| "merge_members bs [] = bs"
| "merge_members bs ((k, v) # ps) =
     (if v = JNull then merge_members (AList.delete k bs) ps
      else merge_members
        (AList.update k (merge_patch (case map_of bs k of Some b \<Rightarrow> b | None \<Rightarrow> JNull) v) bs) ps)"
  by pat_completeness auto
termination
  by (relation "measure (\<lambda>x. case x of Inl (b, p) \<Rightarrow> 2 * size p + 1
                                     | Inr (bs, ps) \<Rightarrow> 2 * size_list (size_prod (\<lambda>_. 0) size) ps)")
     auto

declare merge_patch.simps [simp del]

text \<open>An object with every key once, as the parser of a \<^verbatim>\<open>serde_json::Map\<close> builds it.\<close>

definition keys_once :: "json \<Rightarrow> bool" where
  "keys_once v \<longleftrightarrow> (case v of JObject ms \<Rightarrow> distinct (map fst ms) | _ \<Rightarrow> True)"

lemma merge_members_get:
  assumes "distinct (map fst ps)"
  shows "map_of (merge_members bs ps) k =
    (case map_of ps k of
       None \<Rightarrow> map_of bs k
     | Some v \<Rightarrow>
         if v = JNull then None
         else Some (merge_patch (case map_of bs k of Some b \<Rightarrow> b | None \<Rightarrow> JNull) v))"
  using assms
proof (induction ps arbitrary: bs k)
  case (Cons p ps)
  obtain j v where p: "p = (j, v)" by (cases p)
  have "map_of ps j = None" using Cons.prems p by (simp add: map_of_eq_None_iff)
  moreover have "distinct (map fst ps)" using Cons.prems by simp
  note IH = Cons.IH [OF this]
  ultimately show ?case
    using p by (auto simp: IH delete_conv' update_conv' split: option.split)
qed simp

text \<open>What a merge of an object onto a base answers for a key.\<close>

lemma merge_patch_get:
  assumes "keys_once (JObject ps)"
  shows "json_get (merge_patch b (JObject ps)) k =
    (case map_of ps k of
       None \<Rightarrow> json_get b k
     | Some v \<Rightarrow>
         if v = JNull then None
         else Some (merge_patch (case json_get b k of Some c \<Rightarrow> c | None \<Rightarrow> JNull) v))"
proof -
  have "map_of (case b of JObject bs \<Rightarrow> bs | _ \<Rightarrow> []) = json_get b" by (cases b) auto
  then show ?thesis
    using assms
    by (auto simp: merge_patch.simps(1) merge_members_get keys_once_def split: option.split)
qed

text \<open>A merge cannot turn a value that is no string or number into one.\<close>

lemma merge_patch_scalar: "(\<And>ps. v \<noteq> JObject ps) \<Longrightarrow> merge_patch b v = v"
  by (cases v) (auto simp: merge_patch.simps(1))

lemma merge_patch_object: "\<exists>ms. merge_patch b (JObject ps) = JObject ms"
  by (simp add: merge_patch.simps(1))

end
