(* ===== verification/Rule.thy ===== *)
theory Rule
  imports Name_Table Json
begin

text \<open>
  \<^verbatim>\<open>crates/ananicy-core/src/rules.rs\<close>, \<^verbatim>\<open>Rule\<close>: the attributes of one rule in the three
  states of the file (absent, declared with nothing usable, a value), reading them from
  JSON, inheriting from a type and reporting them again. Names are numbers of the name
  table, which every reading function takes and returns. The abstract side is a plain
  reading of the JSON object without a table; the lemmas show that the compact
  representation refines it and that inheritance is the merge patch of RFC 7396.
\<close>

subsection \<open>Data\<close>

type_synonym 'a attribute = "'a option option"

record rule =
  type_name :: type_name_id
  nice :: "int attribute"
  latency_nice :: "int attribute"
  ioclass :: name_attribute
  ionice :: "int attribute"
  sched :: name_attribute
  rtprio :: "nat attribute"
  oom_score_adj :: "int attribute"
  cgroup :: name_attribute
  cpuset :: name_attribute
  extras :: "(string \<times> json) list"

definition default_rule :: rule where
  "default_rule =
     \<lparr>type_name = 0, nice = None, latency_nice = None, ioclass = absent, ionice = None,
      sched = absent, rtprio = None, oom_score_adj = None, cgroup = absent, cpuset = absent,
      extras = []\<rparr>"

definition implemented :: "string list" where
  "implemented =
     [''name'', ''type'', ''nice'', ''latency_nice'', ''ioclass'', ''ionice'', ''sched'', ''rtprio'',
      ''oom_score_adj'', ''cgroup'', ''cpuset'']"

subsection \<open>Reading\<close>

definition string_attr :: "json \<Rightarrow> string \<Rightarrow> name_table \<Rightarrow> name_attribute \<times> name_table" where
  "string_attr value key t =
     (case json_get value key of
        None \<Rightarrow> (absent, t)
      | Some v \<Rightarrow> (case json_str v of Some text \<Rightarrow> intern text t | None \<Rightarrow> (unusable, t)))"

definition number_attr :: "json \<Rightarrow> string \<Rightarrow> int attribute" where
  "number_attr value key =
     (case json_get value key of
        None \<Rightarrow> None
      | Some v \<Rightarrow> Some (if is_number v then map_option as_i32 (json_i64 v) else None))"

definition rtprio_attr :: "json \<Rightarrow> nat attribute" where
  "rtprio_attr value =
     (case json_get value ''rtprio'' of
        None \<Rightarrow> None
      | Some v \<Rightarrow> Some (if is_number v then map_option as_u32 (json_u64 v) else None))"

definition type_attr :: "json \<Rightarrow> name_table \<Rightarrow> type_name_id \<times> name_table" where
  "type_attr value t =
     (case Option.bind (json_get value ''type'') json_str of
        None \<Rightarrow> (0, t)
      | Some name \<Rightarrow> intern_type name t)"

definition extras_of :: "json \<Rightarrow> (string \<times> json) list" where
  "extras_of value =
     (case json_members value of
        None \<Rightarrow> []
      | Some ms \<Rightarrow> filter (\<lambda>(k, v). k \<notin> set implemented) ms)"

definition from_json :: "json \<Rightarrow> name_table \<Rightarrow> rule \<times> name_table" where
  "from_json value t0 =
     (let (ty, t1) = type_attr value t0;
          (io, t2) = string_attr value ''ioclass'' t1;
          (sc, t3) = string_attr value ''sched'' t2;
          (cg, t4) = string_attr value ''cgroup'' t3;
          (cs, t5) = string_attr value ''cpuset'' t4
      in (\<lparr>type_name = ty, nice = number_attr value ''nice'',
           latency_nice = number_attr value ''latency_nice'', ioclass = io,
           ionice = number_attr value ''ionice'', sched = sc, rtprio = rtprio_attr value,
           oom_score_adj = number_attr value ''oom_score_adj'', cgroup = cg, cpuset = cs,
           extras = extras_of value\<rparr>, t5))"

subsection \<open>Inheriting and reporting\<close>

definition overlay_value :: "'a attribute \<Rightarrow> 'a attribute \<Rightarrow> 'a attribute" where
  "overlay_value own base = (if own = None then base else own)"

definition overlay_name :: "name_attribute \<Rightarrow> name_attribute \<Rightarrow> name_attribute" where
  "overlay_name own base = (if is_absent own then base else own)"

definition inherit :: "rule \<Rightarrow> rule \<Rightarrow> rule" where
  "inherit self base =
     self\<lparr>nice := overlay_value (nice self) (nice base),
          latency_nice := overlay_value (latency_nice self) (latency_nice base),
          ionice := overlay_value (ionice self) (ionice base),
          rtprio := overlay_value (rtprio self) (rtprio base),
          oom_score_adj := overlay_value (oom_score_adj self) (oom_score_adj base),
          ioclass := overlay_name (ioclass self) (ioclass base),
          sched := overlay_name (sched self) (sched base),
          cgroup := overlay_name (cgroup self) (cgroup base),
          cpuset := overlay_name (cpuset self) (cpuset base)\<rparr>"

definition json_of_i32 :: "int option \<Rightarrow> json" where
  "json_of_i32 v = (case v of None \<Rightarrow> JNull | Some n \<Rightarrow> json_of_int n)"

definition json_of_u32 :: "nat option \<Rightarrow> json" where
  "json_of_u32 v = (case v of None \<Rightarrow> JNull | Some n \<Rightarrow> JPos n)"

definition json_of_name :: "name_table \<Rightarrow> name_attribute \<Rightarrow> json" where
  "json_of_name t a = (case as_str t a of None \<Rightarrow> JNull | Some s \<Rightarrow> JString s)"

definition if_declared :: "name_attribute \<Rightarrow> name_attribute option" where
  "if_declared a = (if is_absent a then None else Some a)"

text \<open>The array of keys and attributes \<^verbatim>\<open>to_json\<close> loops over.\<close>

definition report_members :: "name_table \<Rightarrow> rule \<Rightarrow> (string \<times> json option) list" where
  "report_members t r =
     [(''nice'', map_option json_of_i32 (nice r)),
      (''latency_nice'', map_option json_of_i32 (latency_nice r)),
      (''ioclass'', map_option (json_of_name t) (if_declared (ioclass r))),
      (''ionice'', map_option json_of_i32 (ionice r)),
      (''sched'', map_option (json_of_name t) (if_declared (sched r))),
      (''rtprio'', map_option json_of_u32 (rtprio r)),
      (''oom_score_adj'', map_option json_of_i32 (oom_score_adj r)),
      (''cgroup'', map_option (json_of_name t) (if_declared (cgroup r))),
      (''cpuset'', map_option (json_of_name t) (if_declared (cpuset r)))]"

definition insert_reported :: "string \<times> json option \<Rightarrow> (string \<times> json) list \<Rightarrow> (string \<times> json) list" where
  "insert_reported km ms = (case snd km of None \<Rightarrow> ms | Some v \<Rightarrow> AList.update (fst km) v ms)"

definition to_json :: "name_table \<Rightarrow> rule \<Rightarrow> string \<Rightarrow> json" where
  "to_json t r name =
     (let m0 = AList.update ''name'' (JString name) [];
          m1 = insert_reported (''type'', map_option JString (type_as_str t (type_name r))) m0;
          m2 = fold insert_reported (report_members t r) m1;
          m3 = fold (\<lambda>(k, v). AList.update k v) (extras r) m2
      in JObject m3)"

subsection \<open>Accessors\<close>

definition flatten :: "'a attribute \<Rightarrow> 'a option" where
  "flatten a = (case a of None \<Rightarrow> None | Some v \<Rightarrow> v)"

text \<open>What a rule asks for, as the worker reads it through the accessors.\<close>

record settings =
  set_nice :: "int option"
  set_latency_nice :: "int option"
  set_ioclass :: "string option"
  set_ionice :: "int option"
  set_sched :: "string option"
  set_rtprio :: "nat option"
  set_oom_score_adj :: "int option"
  set_cgroup :: "string option"
  set_cpuset :: "string option"

definition effective_latency_nice :: "rule \<Rightarrow> int option" where
  "effective_latency_nice r =
     (case flatten (latency_nice r) of Some n \<Rightarrow> Some n | None \<Rightarrow> flatten (nice r))"

definition rule_settings :: "name_table \<Rightarrow> rule \<Rightarrow> settings" where
  "rule_settings t r =
     \<lparr>set_nice = flatten (nice r), set_latency_nice = effective_latency_nice r,
      set_ioclass = as_str t (ioclass r), set_ionice = flatten (ionice r),
      set_sched = as_str t (sched r), set_rtprio = flatten (rtprio r),
      set_oom_score_adj = flatten (oom_score_adj r), set_cgroup = as_str t (cgroup r),
      set_cpuset = as_str t (cpuset r)\<rparr>"

subsection \<open>What a rule says, without the table\<close>

record rule_view =
  view_type :: "string option"
  view_nice :: "int attribute"
  view_latency :: "int attribute"
  view_ioclass :: "string attribute"
  view_ionice :: "int attribute"
  view_sched :: "string attribute"
  view_rtprio :: "nat attribute"
  view_oom :: "int attribute"
  view_cgroup :: "string attribute"
  view_cpuset :: "string attribute"
  view_extras :: "(string \<times> json) list"

definition name_view :: "name_table \<Rightarrow> name_attribute \<Rightarrow> string attribute" where
  "name_view t a = (if is_absent a then None else Some (as_str t a))"

definition view :: "name_table \<Rightarrow> rule \<Rightarrow> rule_view" where
  "view t r =
     \<lparr>view_type = type_as_str t (type_name r), view_nice = nice r, view_latency = latency_nice r,
      view_ioclass = name_view t (ioclass r), view_ionice = ionice r,
      view_sched = name_view t (sched r), view_rtprio = rtprio r, view_oom = oom_score_adj r,
      view_cgroup = name_view t (cgroup r), view_cpuset = name_view t (cpuset r),
      view_extras = extras r\<rparr>"

definition spec_name :: "json \<Rightarrow> string \<Rightarrow> string attribute" where
  "spec_name v k = map_option json_str (json_get v k)"

definition spec_view :: "json \<Rightarrow> rule_view" where
  "spec_view v =
     \<lparr>view_type = Option.bind (json_get v ''type'') json_str, view_nice = number_attr v ''nice'',
      view_latency = number_attr v ''latency_nice'', view_ioclass = spec_name v ''ioclass'',
      view_ionice = number_attr v ''ionice'', view_sched = spec_name v ''sched'',
      view_rtprio = rtprio_attr v, view_oom = number_attr v ''oom_score_adj'',
      view_cgroup = spec_name v ''cgroup'', view_cpuset = spec_name v ''cpuset'',
      view_extras = extras_of v\<rparr>"

definition spec_inherit :: "rule_view \<Rightarrow> rule_view \<Rightarrow> rule_view" where
  "spec_inherit own base =
     own\<lparr>view_nice := overlay_value (view_nice own) (view_nice base),
         view_latency := overlay_value (view_latency own) (view_latency base),
         view_ioclass := overlay_value (view_ioclass own) (view_ioclass base),
         view_ionice := overlay_value (view_ionice own) (view_ionice base),
         view_sched := overlay_value (view_sched own) (view_sched base),
         view_rtprio := overlay_value (view_rtprio own) (view_rtprio base),
         view_oom := overlay_value (view_oom own) (view_oom base),
         view_cgroup := overlay_value (view_cgroup own) (view_cgroup base),
         view_cpuset := overlay_value (view_cpuset own) (view_cpuset base)\<rparr>"

subsection \<open>Growth of the table\<close>

text \<open>Every name of the first table has the same number in the second.\<close>

definition extends :: "name_table \<Rightarrow> name_table \<Rightarrow> bool" where
  "extends t t' \<longleftrightarrow> table_wf t' \<and> (\<forall>j s. get t j = Some s \<longrightarrow> get t' j = Some s) \<and>
     (table_full t \<longrightarrow> table_full t')"

definition name_ok :: "name_table \<Rightarrow> name_attribute \<Rightarrow> bool" where
  "name_ok t a \<longleftrightarrow> a \<le> 1 \<or> get t (a - 2) \<noteq> None"

definition type_ok :: "name_table \<Rightarrow> type_name_id \<Rightarrow> bool" where
  "type_ok t a \<longleftrightarrow> a = 0 \<or> get t (a - 1) \<noteq> None"

definition rule_ok :: "name_table \<Rightarrow> rule \<Rightarrow> bool" where
  "rule_ok t r \<longleftrightarrow> type_ok t (type_name r) \<and> name_ok t (ioclass r) \<and> name_ok t (sched r) \<and>
     name_ok t (cgroup r) \<and> name_ok t (cpuset r)"

lemma extends_refl [simp]: "table_wf t \<Longrightarrow> extends t t"
  by (simp add: extends_def)

lemma extends_trans [trans]: "extends t t' \<Longrightarrow> extends t' t'' \<Longrightarrow> extends t t''"
  by (auto simp: extends_def)

lemma extends_wf: "extends t t' \<Longrightarrow> table_wf t'"
  by (simp add: extends_def)

lemma extends_not_full: "extends t t' \<Longrightarrow> \<not> table_full t' \<Longrightarrow> \<not> table_full t"
  by (auto simp: extends_def)

lemma extends_intern: "table_wf t \<Longrightarrow> extends t (snd (intern s t))"
  by (simp add: extends_def nt.intern_ok nt.intern_keeps nt.full_stays)

lemma name_view_extends: "name_ok t a \<Longrightarrow> extends t t' \<Longrightarrow> name_view t' a = name_view t a"
  by (auto simp: name_view_def name_ok_def extends_def is_absent_def as_str_def name_first_value_def
      le_Suc_eq)

lemma type_extends: "type_ok t a \<Longrightarrow> extends t t' \<Longrightarrow> type_as_str t' a = type_as_str t a"
  by (auto simp: type_ok_def extends_def type_as_str_def)

lemma name_ok_extends: "name_ok t a \<Longrightarrow> extends t t' \<Longrightarrow> name_ok t' a"
  by (auto simp: name_ok_def extends_def)

lemma type_ok_extends: "type_ok t a \<Longrightarrow> extends t t' \<Longrightarrow> type_ok t' a"
  by (auto simp: type_ok_def extends_def)

lemma view_extends: "rule_ok t r \<Longrightarrow> extends t t' \<Longrightarrow> view t' r = view t r"
  by (simp add: view_def rule_ok_def name_view_extends type_extends)

lemma rule_ok_extends: "rule_ok t r \<Longrightarrow> extends t t' \<Longrightarrow> rule_ok t' r"
  unfolding rule_ok_def using name_ok_extends type_ok_extends by blast

subsection \<open>Reading refines the abstract reading\<close>

lemma string_attr_sound:
  assumes "table_wf t" and "string_attr v k t = (a, t')"
  shows "extends t t'" and "name_ok t' a" and "\<not> table_full t' \<Longrightarrow> name_view t' a = spec_name v k"
proof -
  have *: "extends t t' \<and> name_ok t' a \<and> (\<not> table_full t' \<longrightarrow> name_view t' a = spec_name v k)"
  proof (cases "Option.bind (json_get v k) json_str")
    case None
    with assms show ?thesis
      by (auto simp: string_attr_def spec_name_def name_ok_def name_view_def is_absent_def absent_def
          unusable_def as_str_def Option.bind_eq_None_conv split: option.splits)
  next
    case (Some s)
    then obtain w where w: "json_get v k = Some w" "json_str w = Some s"
      by (auto simp: Option.bind_eq_Some_conv)
    with assms(2) have i: "intern s t = (a, t')" by (simp add: string_attr_def)
    have "name_ok t' a" using nt.intern_state [OF assms(1), of s] i by (auto simp: name_ok_def)
    moreover have "name_view t' a = spec_name v k" if "\<not> table_full t'"
      using nt.intern_value [OF assms(1), of s] that i w
      by (simp add: name_view_def spec_name_def is_absent_def as_str_value)
    ultimately show ?thesis using extends_intern [OF assms(1), of s] i by simp
  qed
  then show "extends t t'" "name_ok t' a" "\<not> table_full t' \<Longrightarrow> name_view t' a = spec_name v k"
    by blast+
qed

lemma type_attr_sound:
  assumes "table_wf t" and "type_attr v t = (a, t')"
  shows "extends t t'" and "type_ok t' a"
    and "\<not> table_full t' \<Longrightarrow> type_as_str t' a = Option.bind (json_get v ''type'') json_str"
proof -
  have *: "extends t t' \<and> type_ok t' a \<and>
      (\<not> table_full t' \<longrightarrow> type_as_str t' a = Option.bind (json_get v ''type'') json_str)"
  proof (cases "Option.bind (json_get v ''type'') json_str")
    case None
    with assms show ?thesis by (simp add: type_attr_def type_ok_def type_as_str_def)
  next
    case (Some s)
    with assms(2) obtain i where i: "intern s t = (i, t')" "a = i - 1"
      by (auto simp: type_attr_def intern_type_def split: prod.splits)
    have "i = 1 \<or> 2 \<le> i \<and> get t' (i - 2) = Some s"
      using nt.intern_state [OF assms(1), of s] i by simp
    moreover have "2 \<le> i" if "\<not> table_full t'"
      using nt.intern_value [OF assms(1), of s] that i by simp
    ultimately show ?thesis
      using extends_intern [OF assms(1), of s] i Some
      by (auto simp: type_ok_def type_as_str_def numeral_2_eq_2)
  qed
  then show "extends t t'" "type_ok t' a"
    "\<not> table_full t' \<Longrightarrow> type_as_str t' a = Option.bind (json_get v ''type'') json_str"
    by blast+
qed

lemma from_json_sound:
  assumes "table_wf t" and "from_json v t = (r, t')"
  shows "extends t t' \<and> rule_ok t' r \<and> (\<not> table_full t' \<longrightarrow> view t' r = spec_view v)"
proof -
  obtain ty t1 where 1: "type_attr v t = (ty, t1)" by (cases "type_attr v t")
  obtain io t2 where 2: "string_attr v ''ioclass'' t1 = (io, t2)" by (cases "string_attr v ''ioclass'' t1")
  obtain sc t3 where 3: "string_attr v ''sched'' t2 = (sc, t3)" by (cases "string_attr v ''sched'' t2")
  obtain cg t4 where 4: "string_attr v ''cgroup'' t3 = (cg, t4)" by (cases "string_attr v ''cgroup'' t3")
  obtain cs t5 where 5: "string_attr v ''cpuset'' t4 = (cs, t5)" by (cases "string_attr v ''cpuset'' t4")
  note e1 = type_attr_sound [OF assms(1) 1]
  note e2 = string_attr_sound [OF extends_wf [OF e1(1)] 2]
  note e3 = string_attr_sound [OF extends_wf [OF e2(1)] 3]
  note e4 = string_attr_sound [OF extends_wf [OF e3(1)] 4]
  note e5 = string_attr_sound [OF extends_wf [OF e4(1)] 5]
  have x4: "extends t4 t5" by (rule e5(1))
  have x3: "extends t3 t5" using e4(1) x4 by (rule extends_trans)
  have x2: "extends t2 t5" using e3(1) x3 by (rule extends_trans)
  have x1: "extends t1 t5" using e2(1) x2 by (rule extends_trans)
  have x0: "extends t t5" using e1(1) x1 by (rule extends_trans)
  have r: "t' = t5" "type_name r = ty" "ioclass r = io" "sched r = sc" "cgroup r = cg" "cpuset r = cs"
    "nice r = number_attr v ''nice''" "latency_nice r = number_attr v ''latency_nice''"
    "ionice r = number_attr v ''ionice''" "rtprio r = rtprio_attr v"
    "oom_score_adj r = number_attr v ''oom_score_adj''" "extras r = extras_of v"
    using assms(2) by (auto simp: from_json_def 1 2 3 4 5)
  have ok: "rule_ok t' r"
    using type_ok_extends [OF e1(2) x1] name_ok_extends [OF e2(2) x2] name_ok_extends [OF e3(2) x3]
      name_ok_extends [OF e4(2) x4] e5(2) by (simp add: rule_ok_def r)
  have "view t' r = spec_view v" if nf: "\<not> table_full t'"
  proof -
    have nf': "\<not> table_full t1" "\<not> table_full t2" "\<not> table_full t3" "\<not> table_full t4" "\<not> table_full t5"
      using nf r(1) x1 x2 x3 x4 extends_not_full by blast+
    show ?thesis
      using type_extends [OF e1(2) x1] name_view_extends [OF e2(2) x2] name_view_extends [OF e3(2) x3]
        name_view_extends [OF e4(2) x4] e1(3) e2(3) e3(3) e4(3) e5(3) nf'
      by (simp add: view_def spec_view_def r)
  qed
  with ok x0 r(1) show ?thesis by simp
qed

lemma view_inherit: "view t (inherit r b) = spec_inherit (view t r) (view t b)"
  by (simp add: view_def inherit_def spec_inherit_def overlay_value_def overlay_name_def name_view_def)

lemma rule_ok_inherit: "rule_ok t r \<Longrightarrow> rule_ok t b \<Longrightarrow> rule_ok t (inherit r b)"
  by (simp add: rule_ok_def inherit_def overlay_name_def)

subsection \<open>Inheritance is a merge patch\<close>

definition settings_of :: "rule_view \<Rightarrow> settings" where
  "settings_of v =
     \<lparr>set_nice = flatten (view_nice v),
      set_latency_nice =
        (case flatten (view_latency v) of Some n \<Rightarrow> Some n | None \<Rightarrow> flatten (view_nice v)),
      set_ioclass = flatten (view_ioclass v), set_ionice = flatten (view_ionice v),
      set_sched = flatten (view_sched v), set_rtprio = flatten (view_rtprio v),
      set_oom_score_adj = flatten (view_oom v), set_cgroup = flatten (view_cgroup v),
      set_cpuset = flatten (view_cpuset v)\<rparr>"

lemma flatten_simps [simp]: "flatten None = None" "flatten (Some v) = v"
  by (simp_all add: flatten_def)

lemma flatten_name_view: "flatten (name_view t a) = as_str t a"
  by (simp add: name_view_def is_absent_def as_str_def)

lemma rule_settings_view: "rule_settings t r = settings_of (view t r)"
  by (simp add: rule_settings_def settings_of_def view_def effective_latency_nice_def flatten_name_view
      split: option.split)

lemma overlay_merge:
  assumes "keys_once (JObject ps)" and "f JNull = None" and "\<And>ms. f (JObject ms) = None"
  shows "flatten (overlay_value (map_option f (json_get (JObject ps) k)) (map_option f (json_get b k))) =
    flatten (map_option f (json_get (merge_patch b (JObject ps)) k))"
proof (cases "map_of ps k")
  case None
  then show ?thesis by (simp add: overlay_value_def merge_patch_get [OF assms(1)])
next
  case (Some v)
  have "f (merge_patch c v) = f v" for c
    using merge_patch_scalar [of v c] merge_patch_object [of c] assms(3) by (cases v) (auto, metis)
  with Some assms(2) show ?thesis
    by (auto simp: overlay_value_def merge_patch_get [OF assms(1)])
qed

definition number_of :: "json \<Rightarrow> int option" where
  "number_of v = (if is_number v then map_option as_i32 (json_i64 v) else None)"

definition unsigned_of :: "json \<Rightarrow> nat option" where
  "unsigned_of v = (if is_number v then map_option as_u32 (json_u64 v) else None)"

lemma attr_maps:
  "number_attr v k = map_option number_of (json_get v k)"
  "rtprio_attr v = map_option unsigned_of (json_get v ''rtprio'')"
  by (simp_all add: number_attr_def rtprio_attr_def number_of_def unsigned_of_def split: option.split)

lemma settings_merge:
  assumes "keys_once (JObject ps)"
  shows "settings_of (spec_inherit (spec_view (JObject ps)) (spec_view b)) =
    settings_of (spec_view (merge_patch b (JObject ps)))"
proof -
  have "number_of JNull = None" "number_of (JObject ms) = None"
    "unsigned_of JNull = None" "unsigned_of (JObject ms) = None" for ms
    by (simp_all add: number_of_def unsigned_of_def)
  then show ?thesis
    by (simp add: settings_of_def spec_inherit_def spec_view_def attr_maps spec_name_def
        overlay_merge [OF assms] del: json_get.simps split: option.split)
qed

text \<open>
  C16: reading a rule and its type into the compact representation and inheriting gives the
  settings that reading the RFC 7396 merge of the rule's object onto the type's gives, for every
  attribute: a key the rule leaves out comes from the type, a usable value overrides it, and a
  null or unusable one suppresses it.
\<close>
theorem inheritance_is_merge_patch:
  assumes "table_wf t" and "from_json (JObject ps) t = (r, t1)" and "from_json b t1 = (base, t2)"
    and "\<not> table_full t2" and "keys_once (JObject ps)"
  shows "rule_settings t2 (inherit r base) = settings_of (spec_view (merge_patch b (JObject ps)))"
proof -
  have 1: "extends t t1" "rule_ok t1 r" "\<not> table_full t1 \<Longrightarrow> view t1 r = spec_view (JObject ps)"
    using from_json_sound [OF assms(1,2)] by blast+
  have 2: "extends t1 t2" "view t2 base = spec_view b"
    using from_json_sound [OF extends_wf [OF 1(1)] assms(3)] assms(4) by blast+
  have "view t2 r = spec_view (JObject ps)"
    using view_extends [OF 1(2) 2(1)] 1(3) extends_not_full [OF 2(1) assms(4)] by simp
  then show ?thesis
    using settings_merge [OF assms(5)] by (simp add: rule_settings_view view_inherit 2(2))
qed

lemmas rule_eval [eval_simps] =
  from_json_def type_attr_def string_attr_def number_attr_def rtprio_attr_def extras_of_def
  intern_type_def intern_def empty_table_def name_first_value_def u16_max_def absent_def unusable_def
  implemented_def as_i32_def as_u32_def

theorem inheritance_is_merge_patch_witness:
  "rule_settings \<lparr>tab_values = [''Game'', ''idle''], tab_index = [(''Game'', 2), (''idle'', 3)]\<rparr>
     (inherit
       \<lparr>type_name = 1, nice = Some None, latency_nice = None, ioclass = 0, ionice = None, sched = 0,
        rtprio = None, oom_score_adj = None, cgroup = 0, cpuset = 0, extras = []\<rparr>
       \<lparr>type_name = 1, nice = Some (Some (- 5)), latency_nice = None, ioclass = 3, ionice = None,
        sched = 0, rtprio = None, oom_score_adj = None, cgroup = 0, cpuset = 0, extras = []\<rparr>) =
   settings_of (spec_view (merge_patch
     (JObject [(''type'', JString ''Game''), (''nice'', JNeg 4), (''ioclass'', JString ''idle'')])
     (JObject [(''name'', JString ''doom''), (''type'', JString ''Game''), (''nice'', JNull)])))"
proof (rule inheritance_is_merge_patch [OF table_wf_empty])
  show "from_json (JObject [(''name'', JString ''doom''), (''type'', JString ''Game''), (''nice'', JNull)])
      empty_table =
    (\<lparr>type_name = 1, nice = Some None, latency_nice = None, ioclass = 0, ionice = None, sched = 0,
      rtprio = None, oom_score_adj = None, cgroup = 0, cpuset = 0, extras = []\<rparr>,
     \<lparr>tab_values = [''Game''], tab_index = [(''Game'', 2)]\<rparr>)"
    by (simp add: eval_simps)
  show "from_json (JObject [(''type'', JString ''Game''), (''nice'', JNeg 4), (''ioclass'', JString ''idle'')])
      \<lparr>tab_values = [''Game''], tab_index = [(''Game'', 2)]\<rparr> =
    (\<lparr>type_name = 1, nice = Some (Some (- 5)), latency_nice = None, ioclass = 3, ionice = None,
      sched = 0, rtprio = None, oom_score_adj = None, cgroup = 0, cpuset = 0, extras = []\<rparr>,
     \<lparr>tab_values = [''Game'', ''idle''], tab_index = [(''Game'', 2), (''idle'', 3)]\<rparr>)"
    by (simp add: eval_simps)
qed (simp_all add: table_full_def u16_max_def keys_once_def)

subsection \<open>Reports read back\<close>

text \<open>The values a rule can hold: 32-bit numbers, and extras under keys of their own.\<close>

definition i32_attr :: "int attribute \<Rightarrow> bool" where
  "i32_attr a \<longleftrightarrow> (case flatten a of None \<Rightarrow> True | Some n \<Rightarrow> i32_range n)"

definition rule_wf :: "rule \<Rightarrow> bool" where
  "rule_wf r \<longleftrightarrow> i32_attr (nice r) \<and> i32_attr (latency_nice r) \<and> i32_attr (ionice r) \<and>
     i32_attr (oom_score_adj r) \<and>
     (case flatten (rtprio r) of None \<Rightarrow> True | Some n \<Rightarrow> n < 2 ^ 32) \<and>
     distinct (map fst (extras r)) \<and> set (map fst (extras r)) \<inter> set implemented = {}"

lemma number_attr_i32: "i32_attr (number_attr v k)"
  by (auto simp: i32_attr_def number_attr_def flatten_def split: option.split)

lemma from_json_wf:
  assumes "keys_once v"
  shows "rule_wf (fst (from_json v t))"
proof -
  have "distinct (map fst (extras_of v))" "set (map fst (extras_of v)) \<inter> set implemented = {}"
    using assms by (cases v; auto simp: extras_of_def keys_once_def distinct_map_filter)+
  moreover have "case flatten (rtprio_attr v) of None \<Rightarrow> True | Some n \<Rightarrow> n < 2 ^ 32"
    by (auto simp: rtprio_attr_def flatten_def as_u32_def split: option.split)
  ultimately show ?thesis
    by (simp add: rule_wf_def from_json_def split_beta number_attr_i32)
qed

lemma inherit_wf: "rule_wf r \<Longrightarrow> rule_wf b \<Longrightarrow> rule_wf (inherit r b)"
  by (simp add: rule_wf_def inherit_def overlay_value_def)

lemma intern_known:
  assumes "table_wf t" and "get t i = Some s"
  shows "intern s t = (i + 2, t)"
  using assms(1)
proof (cases rule: intern_cases [of t s])
  case (found j)
  then have "get t j = Some s" by (simp add: get_def)
  then show ?thesis using found(3) get_inj [OF assms] by simp
qed (use assms in \<open>auto simp: get_def split: if_splits\<close>)

lemma string_attr_back:
  assumes "table_wf t" and "name_ok t a"
    and "json_get v k = map_option (json_of_name t) (if_declared a)"
  shows "string_attr v k t = (a, t)"
proof -
  consider "a = 0" | "a = 1" | s where "2 \<le> a" "get t (a - 2) = Some s"
    using assms(2) by (fastforce simp: name_ok_def)
  then show ?thesis
  proof cases
    case 3
    then show ?thesis
      using assms(3) intern_known [OF assms(1) 3(2)]
      by (simp add: string_attr_def if_declared_def is_absent_def json_of_name_def as_str_value)
  qed (use assms(3) in \<open>simp_all add: string_attr_def if_declared_def is_absent_def absent_def
         unusable_def json_of_name_def as_str_def\<close>)
qed

lemma type_attr_back:
  assumes "table_wf t" and "type_ok t a"
    and "json_get v ''type'' = map_option JString (type_as_str t a)"
  shows "type_attr v t = (a, t)"
proof (cases "a = 0")
  case False
  then obtain s where "get t (a - 1) = Some s" using assms(2) by (auto simp: type_ok_def)
  with False show ?thesis
    using assms(3) intern_known [OF assms(1), of "a - 1" s]
    by (simp add: type_attr_def type_as_str_def intern_type_def)
qed (use assms(3) in \<open>simp add: type_attr_def type_as_str_def\<close>)

lemma number_attr_back:
  assumes "i32_attr a" and "json_get v k = map_option json_of_i32 a"
  shows "number_attr v k = a"
proof -
  have "number_of (json_of_i32 o') = o'" if "case o' of None \<Rightarrow> True | Some n \<Rightarrow> i32_range n" for o'
    using that by (auto simp: number_of_def json_of_i32_def as_i32_id i32_range_def split: option.splits)
  with assms show ?thesis by (cases a) (simp_all add: attr_maps(1) i32_attr_def)
qed

lemma rtprio_attr_back:
  assumes "case flatten a of None \<Rightarrow> True | Some n \<Rightarrow> n < 2 ^ 32"
    and "json_get v ''rtprio'' = map_option json_of_u32 a"
  shows "rtprio_attr v = a"
proof -
  have "unsigned_of (json_of_u32 o') = o'" if "case o' of None \<Rightarrow> True | Some n \<Rightarrow> n < 2 ^ 32" for o'
    using that by (auto simp: unsigned_of_def json_of_u32_def as_u32_def split: option.splits)
  with assms show ?thesis by (cases a) (simp_all add: attr_maps(2))
qed

subsection \<open>The members of a report\<close>

lemma update_fresh: "k \<notin> fst ` set ms \<Longrightarrow> AList.update k v ms = ms @ [(k, v)]"
  by (induction ms) auto

lemma fold_update_fresh:
  "distinct (map fst xs) \<Longrightarrow> fst ` set xs \<inter> fst ` set ms = {} \<Longrightarrow>
     fold (\<lambda>(k, v). AList.update k v) xs ms = ms @ xs"
proof (induction xs arbitrary: ms)
  case (Cons x xs)
  obtain k v where x: "x = (k, v)" by (cases x)
  have "AList.update k v ms = ms @ [(k, v)]"
    using Cons.prems x by (intro update_fresh) auto
  with Cons x show ?case by auto
qed simp

text \<open>The members before the extras, and what they answer for each key.\<close>

definition own_members :: "name_table \<Rightarrow> rule \<Rightarrow> string \<Rightarrow> (string \<times> json) list" where
  "own_members t r name =
     fold insert_reported (report_members t r)
       (insert_reported (''type'', map_option JString (type_as_str t (type_name r)))
         [(''name'', JString name)])"

lemma insert_reported_get:
  "map_of (insert_reported km ms) j = (if j = fst km \<and> snd km \<noteq> None then snd km else map_of ms j)"
  by (auto simp: insert_reported_def update_conv' split: option.split)

lemma insert_reported_keys:
  "fst ` set (insert_reported km ms) \<subseteq> insert (fst km) (fst ` set ms)"
  by (auto simp: insert_reported_def dom_update split: option.split)

lemma fold_reported_keys:
  "fst ` set (fold insert_reported kms ms) \<subseteq> fst ` set kms \<union> fst ` set ms"
proof (induction kms arbitrary: ms)
  case (Cons km kms)
  then show ?case using insert_reported_keys [of km ms] by (simp, blast)
qed simp

lemma own_members_keys: "fst ` set (own_members t r n) \<subseteq> set implemented"
proof -
  have "fst ` set (own_members t r n) \<subseteq> fst ` set (report_members t r) \<union> {''type'', ''name''}"
    unfolding own_members_def
    using fold_reported_keys [of "report_members t r" "insert_reported (''type'', map_option JString
          (type_as_str t (type_name r))) [(''name'', JString n)]"]
      insert_reported_keys [of "(''type'', map_option JString (type_as_str t (type_name r)))"
        "[(''name'', JString n)]"]
    by simp blast
  also have "\<dots> \<subseteq> set implemented" by (simp add: report_members_def implemented_def)
  finally show ?thesis .
qed

lemma to_json_members:
  assumes "rule_wf r"
  shows "to_json t r n = JObject (own_members t r n @ extras r)"
proof -
  have "fst ` set (extras r) \<inter> fst ` set (own_members t r n) = {}"
    using assms own_members_keys [of t r n] by (auto simp: rule_wf_def)
  then have "fold (\<lambda>(k, v). AList.update k v) (extras r) (own_members t r n) = own_members t r n @ extras r"
    using assms by (intro fold_update_fresh) (auto simp: rule_wf_def)
  then show ?thesis by (simp add: to_json_def own_members_def)
qed

lemma fold_reported_other:
  "k \<notin> fst ` set kms \<Longrightarrow> map_of (fold insert_reported kms ms) k = map_of ms k"
  by (induction kms arbitrary: ms) (auto simp: insert_reported_get)

lemma fold_reported_get:
  "distinct (map fst kms) \<Longrightarrow> (k, a) \<in> set kms \<Longrightarrow> map_of ms k = None \<Longrightarrow>
     map_of (fold insert_reported kms ms) k = a"
proof (induction kms arbitrary: ms)
  case (Cons km kms)
  show ?case
  proof (cases "km = (k, a)")
    case True
    then have "k \<notin> fst ` set kms" using Cons.prems(1) by simp
    then show ?thesis using True Cons.prems(3) by (simp add: fold_reported_other insert_reported_get)
  next
    case False
    then have k: "(k, a) \<in> set kms" using Cons.prems(2) by simp
    then have "k \<in> fst ` set kms" by (metis fst_conv image_eqI)
    then have "fst km \<noteq> k" using Cons.prems(1) by auto
    with Cons k show ?thesis by (simp add: insert_reported_get)
  qed
qed simp

lemma report_keys:
  "map fst (report_members t r) =
     [''nice'', ''latency_nice'', ''ioclass'', ''ionice'', ''sched'', ''rtprio'', ''oom_score_adj'',
      ''cgroup'', ''cpuset'']"
  by (simp add: report_members_def)

lemma own_members_get:
  "map_of (own_members t r n) ''type'' = map_option JString (type_as_str t (type_name r))"
  "(k, a) \<in> set (report_members t r) \<Longrightarrow> map_of (own_members t r n) k = a"
proof -
  have "''type'' \<notin> set (map fst (report_members t r))" by (simp only: report_keys) simp
  then show "map_of (own_members t r n) ''type'' = map_option JString (type_as_str t (type_name r))"
    by (simp add: own_members_def fold_reported_other insert_reported_get)
  have "distinct (map fst (report_members t r))" by (simp only: report_keys) simp
  moreover assume ka: "(k, a) \<in> set (report_members t r)"
  then have "k \<in> set (map fst (report_members t r))" by force
  then have "k \<noteq> ''type''" "k \<noteq> ''name''" by (auto simp: report_keys)
  ultimately show "map_of (own_members t r n) k = a"
    using ka by (simp add: own_members_def fold_reported_get insert_reported_get)
qed

lemma report_get:
  assumes "rule_wf r"
  shows "json_get (to_json t r n) ''type'' = map_option JString (type_as_str t (type_name r))"
    and "(k, a) \<in> set (report_members t r) \<Longrightarrow> json_get (to_json t r n) k = a"
proof -
  have fresh: "map_of (extras r) k = None" if "k \<in> set implemented" for k
    using assms that by (force simp: rule_wf_def map_of_eq_None_iff)
  have "k \<in> set implemented" if "(k, a) \<in> set (report_members t r)" for k a
    using that by (auto simp: report_members_def implemented_def)
  then show "(k, a) \<in> set (report_members t r) \<Longrightarrow> json_get (to_json t r n) k = a"
    using own_members_get(2) fresh
    by (simp add: to_json_members [OF assms] map_add_def split: option.split)
  show "json_get (to_json t r n) ''type'' = map_option JString (type_as_str t (type_name r))"
    using own_members_get(1) fresh [of "''type''"]
    by (simp add: to_json_members [OF assms] map_add_def implemented_def split: option.split)
qed

lemma extras_back:
  assumes "rule_wf r"
  shows "extras_of (to_json t r n) = extras r"
proof -
  have "filter (\<lambda>(k, v). k \<notin> set implemented) (own_members t r n) = []"
    using own_members_keys [of t r n] by (force simp: filter_empty_conv)
  moreover have "filter (\<lambda>(k, v). k \<notin> set implemented) (extras r) = extras r"
    using assms by (intro filter_True) (force simp: rule_wf_def)
  ultimately show ?thesis by (simp add: to_json_members [OF assms] extras_of_def)
qed

text \<open>
  The report of a rule that the dump prints reads back as exactly that rule, numbers of the
  name table included: no attribute, state or extra key is lost or changed.
\<close>
theorem report_reads_back:
  assumes "table_wf t" and "rule_ok t r" and "rule_wf r"
  shows "from_json (to_json t r n) t = (r, t)"
proof -
  let ?v = "to_json t r n"
  note get = report_get [OF assms(3)]
  have num: "number_attr ?v ''nice'' = nice r" "number_attr ?v ''latency_nice'' = latency_nice r"
    "number_attr ?v ''ionice'' = ionice r" "number_attr ?v ''oom_score_adj'' = oom_score_adj r"
    using assms(3) by (auto intro!: number_attr_back get(2) simp: rule_wf_def report_members_def)
  have rt: "rtprio_attr ?v = rtprio r"
    using assms(3) by (auto intro!: rtprio_attr_back get(2) simp: rule_wf_def report_members_def)
  have ty: "type_attr ?v t = (type_name r, t)"
    using assms(2) by (intro type_attr_back assms(1) get(1)) (simp add: rule_ok_def)
  have names: "string_attr ?v ''ioclass'' t = (ioclass r, t)" "string_attr ?v ''sched'' t = (sched r, t)"
    "string_attr ?v ''cgroup'' t = (cgroup r, t)" "string_attr ?v ''cpuset'' t = (cpuset r, t)"
    using assms(2)
    by (auto intro!: string_attr_back assms(1) get(2) simp: rule_ok_def report_members_def)
  show ?thesis
    by (simp add: from_json_def num rt ty names extras_back [OF assms(3)])
qed

theorem report_reads_back_witness:
  "from_json (to_json \<lparr>tab_values = [''Game''], tab_index = [(''Game'', 2)]\<rparr>
       (default_rule\<lparr>type_name := 1, nice := Some None, ioclass := 2, rtprio := Some (Some 50)\<rparr>) ''doom'')
     \<lparr>tab_values = [''Game''], tab_index = [(''Game'', 2)]\<rparr> =
   (default_rule\<lparr>type_name := 1, nice := Some None, ioclass := 2, rtprio := Some (Some 50)\<rparr>,
    \<lparr>tab_values = [''Game''], tab_index = [(''Game'', 2)]\<rparr>)"
  by (rule report_reads_back)
     (auto simp: table_wf_def u16_max_def name_first_value_def default_rule_def rule_ok_def rule_wf_def
        type_ok_def name_ok_def get_def absent_def i32_attr_def split: if_splits)

subsection \<open>Where the representation differs from the file\<close>

lemma as_i32_eq: "as_i32 n = n \<longleftrightarrow> i32_range n"
  using as_i32_id as_i32_range by metis

text \<open>
  A whole number of 64 bits in a rule file is kept as written exactly when it fits 32 bits; any
  other one is replaced by its residue, so that 4294967291 becomes -5.
\<close>
theorem number_kept_iff_i32:
  assumes "- (2 ^ 63) \<le> n" and "n < 2 ^ 63" and "map_of ms ''nice'' = Some (json_of_int n)"
  shows "nice (fst (from_json (JObject ms) t)) = Some (Some (as_i32 n)) \<and> (as_i32 n = n \<longleftrightarrow> i32_range n)"
proof -
  have "json_i64 (json_of_int n) = Some n" and "is_number (json_of_int n)"
    using assms(1,2) by auto
  then show ?thesis
    using assms(3) by (simp add: from_json_def split_beta number_attr_def as_i32_eq del: json_of_int.simps)
qed

theorem number_kept_iff_i32_witness:
  "nice (fst (from_json (JObject [(''nice'', JPos 4294967291)]) empty_table)) = Some (Some (- 5)) \<and>
   \<not> i32_range 4294967291"
  using number_kept_iff_i32 [of 4294967291 "[(''nice'', JPos 4294967291)]" empty_table]
  by (simp add: as_i32_def)

text \<open>
  A key that a rule suppresses with null is reported as null, while the RFC 7396 merge of the
  rule onto its type has no such key.
\<close>
theorem suppressed_key_reported_null:
  assumes "keys_once (JObject ps)" and "map_of ps ''nice'' = Some JNull"
    and "from_json (JObject ps) t = (r, t1)" and "rule_wf (inherit r base)"
  shows "json_get (to_json t1 (inherit r base) n) ''nice'' = Some JNull \<and>
    json_get (merge_patch b (JObject ps)) ''nice'' = None"
proof -
  have "nice r = Some None"
    using assms(2,3) by (auto simp: from_json_def number_attr_def split: prod.splits)
  then have "(''nice'', Some JNull) \<in> set (report_members t1 (inherit r base))"
    by (simp add: report_members_def inherit_def overlay_value_def json_of_i32_def)
  then show ?thesis
    using report_get(2) [OF assms(4)] merge_patch_get [OF assms(1)] assms(2) by simp
qed

theorem suppressed_key_reported_null_witness:
  "json_get (to_json empty_table (inherit (default_rule\<lparr>nice := Some None\<rparr>)
       (default_rule\<lparr>nice := Some (Some 5)\<rparr>)) ''doom'') ''nice'' = Some JNull \<and>
   json_get (merge_patch (JObject [(''nice'', JPos 5)]) (JObject [(''nice'', JNull)])) ''nice'' = None"
  by (rule suppressed_key_reported_null)
     (simp_all add: keys_once_def eval_simps default_rule_def rule_wf_def inherit_def overlay_value_def
        i32_attr_def)

end
