(* ===== verification/Rule_Set.thy ===== *)
theory Rule_Set
  imports Rule Config_File "HOL-Library.List_Lexorder" "HOL-Library.Char_ord"
begin

text \<open>
  \<^verbatim>\<open>crates/ananicy-core/src/rules.rs\<close>, \<^verbatim>\<open>Rules\<close> and \<^verbatim>\<open>SharedRules\<close>: the rule set a directory of
  rule files is loaded into, and the lookup a process name goes through. The JSON
  parser, the regular expression engine, the LRU cache and the iteration order of a hash
  map are operations of a record \<open>lib\<close>. Hash maps are association lists. The theorems show that the
  index and the vector of rules stay in step, that what a loaded rule asks for is the
  merge of its last definition with the last definition of its type, that the cache
  never changes an answer, and that a reload leaves nothing of the previous set.
\<close>

subsection \<open>Data\<close>

record ('rx, 'c) lib =
  lib_parse :: "string \<Rightarrow> json option"
  lib_compile :: "string \<Rightarrow> 'rx option"
  lib_try_match :: "'rx \<Rightarrow> string \<Rightarrow> bool option"
  lib_cache_get :: "string \<Rightarrow> 'c \<Rightarrow> string option option \<times> 'c"
  lib_cache_put :: "string \<Rightarrow> string option \<Rightarrow> 'c \<Rightarrow> 'c"
  lib_cache_clear :: "'c \<Rightarrow> 'c"
  lib_map_iter :: "(string \<times> json) list \<Rightarrow> (string \<times> json) list"

record 'rx matcher =
  compiled :: 'rx
  matcher_name :: string

text \<open>\<open>resolved_cache\<close> is \<open>None\<close> when its mutex is poisoned.\<close>

record ('rx, 'c) rule_set =
  programs :: "(string \<times> nat) list"
  rules :: "rule list"
  types :: "(string \<times> json) list"
  cgroups :: "(string \<times> json) list"
  regex_programs :: "'rx matcher list"
  resolved_cache :: "'c option"

datatype load_log =
    Redefined string string "string option"
  | Invalid_Regex string
  | No_Key string
  | Bad_Json string
  | Unreadable string
  | No_Directory

definition max_cacheable_name :: nat where
  "max_cacheable_name = 256"

definition new_rules :: "'c \<Rightarrow> ('rx, 'c) rule_set" where
  "new_rules c =
     \<lparr>programs = [], rules = [], types = [], cgroups = [], regex_programs = [], resolved_cache = Some c\<rparr>"

subsection \<open>One line of a rule file\<close>

definition compile :: "('rx, 'c) lib \<Rightarrow> string \<Rightarrow> string \<Rightarrow> 'rx matcher option" where
  "compile L pattern name =
     map_option (\<lambda>rx. \<lparr>compiled = rx, matcher_name = name\<rparr>) (lib_compile L pattern)"

definition is_match :: "('rx, 'c) lib \<Rightarrow> 'rx matcher \<Rightarrow> string \<Rightarrow> bool" where
  "is_match L m name = (case lib_try_match L (compiled m) name of Some matched \<Rightarrow> matched | None \<Rightarrow> False)"

definition note_redefinition :: "bool \<Rightarrow> string \<Rightarrow> string \<Rightarrow> string option \<Rightarrow> load_log list" where
  "note_redefinition replaced what name source = (if replaced then [Redefined what name source] else [])"

definition str_member :: "json \<Rightarrow> string \<Rightarrow> string option" where
  "str_member v k = Option.bind (json_get v k) json_str"

definition json_text :: "string \<Rightarrow> string option" where
  "json_text l =
     (let line = trim l in
      if line = [] \<or> starts_with line ''#'' then None
      else
        (case find_char (CHR ''{'') line of
           None \<Rightarrow> None
         | Some start \<Rightarrow>
             (case rfind_char (CHR ''}'') line of
                None \<Rightarrow> None
              | Some end' \<Rightarrow> if end' < start then None else Some (slice line start (Suc end')))))"

definition add_regex ::
  "('rx, 'c) lib \<Rightarrow> json \<Rightarrow> string \<Rightarrow> 'rx matcher list \<Rightarrow> load_log list \<times> 'rx matcher list" where
  "add_regex L value name ms =
     (case str_member value ''name_regex'' of
        None \<Rightarrow> ([], ms)
      | Some regex_str \<Rightarrow>
          (case compile L regex_str name of
             Some m \<Rightarrow> ([], ms @ [m])
           | None \<Rightarrow> ([Invalid_Regex regex_str], ms)))"

text \<open>
  The slot of the name: the one it has, or a new one at the end, whose number is the
  length cast to \<^verbatim>\<open>u32\<close>.
\<close>

definition reserve :: "string \<Rightarrow> ('rx, 'c) rule_set \<Rightarrow> nat \<times> rule list" where
  "reserve name rs =
     (case map_of (programs rs) name of
        Some index \<Rightarrow> (index, rules rs)
      | None \<Rightarrow> (as_u32 (length (rules rs @ [default_rule]) - 1), rules rs @ [default_rule]))"

definition add_program ::
  "('rx, 'c) lib \<Rightarrow> json \<Rightarrow> string \<Rightarrow> string option \<Rightarrow> ('rx, 'c) rule_set \<times> name_table \<Rightarrow>
     load_log list \<times> ('rx, 'c) rule_set \<times> name_table" where
  "add_program L value name source st =
     (let (rs, t) = st;
          log = note_redefinition (map_of (programs rs) name \<noteq> None) ''rule'' name source;
          (index, slots) = reserve name rs;
          (slots', t') =
            (if index < length slots
             then let (r, t') = from_json value t in (slots[index := r], t')
             else (slots, t));
          (log', ms) = add_regex L value name (regex_programs rs)
      in (log @ log',
          rs\<lparr>rules := slots', programs := AList.update name index (programs rs), regex_programs := ms\<rparr>,
          t'))"

definition load_rule_from_named ::
  "('rx, 'c) lib \<Rightarrow> string \<Rightarrow> string option \<Rightarrow> ('rx, 'c) rule_set \<times> name_table \<Rightarrow>
     bool \<times> load_log list \<times> ('rx, 'c) rule_set \<times> name_table" where
  "load_rule_from_named L line source st =
     (case json_text line of
        None \<Rightarrow> (False, [], st)
      | Some text \<Rightarrow>
          (case lib_parse L text of
             None \<Rightarrow> (False, [Bad_Json text], st)
           | Some value \<Rightarrow>
               (case str_member value ''name'' of
                  Some name \<Rightarrow> (True, add_program L value name source st)
                | None \<Rightarrow>
                    let (rs, t) = st in
                    (case str_member value ''type'' of
                       Some ty \<Rightarrow>
                         (True, note_redefinition (map_of (types rs) ty \<noteq> None) ''type'' ty source,
                          rs\<lparr>types := AList.update ty value (types rs)\<rparr>, t)
                     | None \<Rightarrow>
                         (case str_member value ''cgroup'' of
                            Some cg \<Rightarrow>
                              (True, note_redefinition (map_of (cgroups rs) cg \<noteq> None) ''cgroup'' cg source,
                               rs\<lparr>cgroups := AList.update cg value (cgroups rs)\<rparr>, t)
                          | None \<Rightarrow> (False, [No_Key text], rs, t))))))"

definition load_rule_from_string ::
  "('rx, 'c) lib \<Rightarrow> string \<Rightarrow> ('rx, 'c) rule_set \<times> name_table \<Rightarrow>
     bool \<times> load_log list \<times> ('rx, 'c) rule_set \<times> name_table" where
  "load_rule_from_string L line st = load_rule_from_named L line None st"

fun load_lines ::
  "('rx, 'c) lib \<Rightarrow> string list \<Rightarrow> string option \<Rightarrow> ('rx, 'c) rule_set \<times> name_table \<Rightarrow>
     load_log list \<times> ('rx, 'c) rule_set \<times> name_table" where
  "load_lines L [] source st = ([], st)"
| "load_lines L (l # ls) source st =
     (case load_rule_from_named L l source st of
        (_, log, st') \<Rightarrow> (case load_lines L ls source st' of (log', st'') \<Rightarrow> (log @ log', st'')))"

subsection \<open>A directory\<close>

text \<open>A regular file the walk found: the components of its path, and its text if it can be read.\<close>

record rule_file =
  file_path :: "string list"
  file_content :: "string option"

definition show_path :: "string list \<Rightarrow> string" where
  "show_path p = join ''/'' p"

definition extension :: "string list \<Rightarrow> string" where
  "extension p =
     (if p = [] then []
      else
        (case rfind_char (CHR ''.'') (last p) of
           Some (Suc i) \<Rightarrow> drop (Suc (Suc i)) (last p)
         | _ \<Rightarrow> []))"

definition load_file ::
  "('rx, 'c) lib \<Rightarrow> rule_file \<Rightarrow> ('rx, 'c) rule_set \<times> name_table \<Rightarrow>
     load_log list \<times> ('rx, 'c) rule_set \<times> name_table" where
  "load_file L f st =
     (case file_content f of
        Some content \<Rightarrow> load_lines L (str_lines content) (Some (show_path (file_path f))) st
      | None \<Rightarrow> ([Unreadable (show_path (file_path f))], st))"

definition wanted :: "config_snapshot \<Rightarrow> rule_file \<Rightarrow> bool" where
  "wanted cfg f \<longleftrightarrow>
     (let ext = extension (file_path f) in
      ext = ''rules'' \<and> rule_load cfg \<or> ext = ''types'' \<and> type_load cfg \<or>
      ext = ''cgroups'' \<and> cgroup_load cfg)"

fun load_files ::
  "('rx, 'c) lib \<Rightarrow> config_snapshot \<Rightarrow> rule_file list \<Rightarrow> ('rx, 'c) rule_set \<times> name_table \<Rightarrow>
     load_log list \<times> ('rx, 'c) rule_set \<times> name_table" where
  "load_files L cfg [] st = ([], st)"
| "load_files L cfg (f # fs) st =
     (if wanted cfg f
      then (case load_file L f st of
              (log, st') \<Rightarrow> (case load_files L cfg fs st' of (log', st'') \<Rightarrow> (log @ log', st'')))
      else load_files L cfg fs st)"

fun resolve_bases :: "(string \<times> json) list \<Rightarrow> name_table \<Rightarrow> (string \<times> rule) list \<times> name_table" where
  "resolve_bases [] t = ([], t)"
| "resolve_bases ((name, value) # tys) t =
     (let (base, t1) = from_json value t; (bases, t2) = resolve_bases tys t1
      in ((name, base\<lparr>type_name := 0\<rparr>) # bases, t2))"

definition inherit_base :: "name_table \<Rightarrow> (string \<times> rule) list \<Rightarrow> rule \<Rightarrow> rule" where
  "inherit_base t bases r =
     (case type_as_str t (type_name r) of
        None \<Rightarrow> r
      | Some name \<Rightarrow> (case map_of bases name of None \<Rightarrow> r | Some base \<Rightarrow> inherit r base))"

definition precompute_inheritance ::
  "('rx, 'c) lib \<Rightarrow> ('rx, 'c) rule_set \<times> name_table \<Rightarrow> ('rx, 'c) rule_set \<times> name_table" where
  "precompute_inheritance L st =
     (let (rs, t) = st; (bases, t') = resolve_bases (lib_map_iter L (types rs)) t
      in (rs\<lparr>rules := map (inherit_base t' bases) (rules rs),
             resolved_cache := map_option (lib_cache_clear L) (resolved_cache rs)\<rparr>, t'))"

definition clear_rules :: "('rx, 'c) lib \<Rightarrow> ('rx, 'c) rule_set \<Rightarrow> ('rx, 'c) rule_set" where
  "clear_rules L rs =
     \<lparr>programs = [], rules = [], types = [], cgroups = [], regex_programs = [],
      resolved_cache = map_option (lib_cache_clear L) (resolved_cache rs)\<rparr>"

definition load_directory ::
  "('rx, 'c) lib \<Rightarrow> config_snapshot \<Rightarrow> rule_file list option \<Rightarrow> ('rx, 'c) rule_set \<times> name_table \<Rightarrow>
     load_log list \<times> ('rx, 'c) rule_set \<times> name_table" where
  "load_directory L cfg dir st =
     (case dir of
        None \<Rightarrow> ([No_Directory], st)
      | Some walk \<Rightarrow>
          (case load_files L cfg (sort_key file_path walk) (clear_rules L (fst st), snd st) of
             (log, st') \<Rightarrow> (log, precompute_inheritance L st')))"

subsection \<open>Looking up\<close>

definition resolve :: "('rx, 'c) rule_set \<Rightarrow> string option \<Rightarrow> (string \<times> rule) option" where
  "resolve rs name =
     (case name of
        None \<Rightarrow> None
      | Some n \<Rightarrow>
          (case map_of (programs rs) n of
             None \<Rightarrow> None
           | Some index \<Rightarrow> if index < length (rules rs) then Some (n, rules rs ! index) else None))"

fun regex_match :: "('rx, 'c) lib \<Rightarrow> (string \<times> nat) list \<Rightarrow> string \<Rightarrow> 'rx matcher list \<Rightarrow> string option" where
  "regex_match L ps target [] = None"
| "regex_match L ps target (m # ms) =
     (if is_match L m target \<and> map_of ps (matcher_name m) \<noteq> None then Some (matcher_name m)
      else regex_match L ps target ms)"

definition find_best_match :: "('rx, 'c) lib \<Rightarrow> ('rx, 'c) rule_set \<Rightarrow> string \<Rightarrow> string option" where
  "find_best_match L rs target =
     (if map_of (programs rs) target \<noteq> None then Some target
      else regex_match L (programs rs) target (regex_programs rs))"

definition get_rule ::
  "('rx, 'c) lib \<Rightarrow> string \<Rightarrow> ('rx, 'c) rule_set \<Rightarrow> (string \<times> rule) option \<times> ('rx, 'c) rule_set" where
  "get_rule L name rs =
     (case map_option (lib_cache_get L name) (resolved_cache rs) of
        Some (Some cached, c) \<Rightarrow> (resolve rs cached, rs\<lparr>resolved_cache := Some c\<rparr>)
      | looked \<Rightarrow>
          let c = map_option snd looked; best = find_best_match L rs name;
              c' = (if length name \<le> max_cacheable_name then map_option (lib_cache_put L name best) c else c)
          in (resolve rs best, rs\<lparr>resolved_cache := c'\<rparr>))"

definition size_rules :: "('rx, 'c) rule_set \<Rightarrow> nat" where
  "size_rules rs = length (rules rs)"

definition iter_rules :: "('rx, 'c) rule_set \<Rightarrow> (string \<times> rule) list" where
  "iter_rules rs =
     List.map_filter (\<lambda>(name, index). if index < length (rules rs) then Some (name, rules rs ! index) else None)
       (programs rs)"

text \<open>\<^verbatim>\<open>SharedRules::replace\<close> on the set currently installed.\<close>

definition replace_rules :: "('rx, 'c) rule_set \<Rightarrow> ('rx, 'c) rule_set \<Rightarrow> nat \<times> ('rx, 'c) rule_set" where
  "replace_rules new current = (size_rules new, new)"

end
