(* ===== verification/Rule_Load.thy ===== *)
theory Rule_Load
  imports Rule_Set "HOL-Library.Multiset"
begin

text \<open>
  What loading a directory of rule files leaves in the rule set. The loops over lines and
  files are handled once, in the locale \<open>line_loader\<close>: whatever relation between the lines
  read so far and the state one line maintains, whole files and directories maintain.
  It is interpreted with the relation \<open>represents\<close>, which ties the indexed, interned rule
  set to the plain maps of last definitions.
\<close>

subsection \<open>Loops over lines and files\<close>

definition line_state ::
  "('rx, 'c) lib \<Rightarrow> string option \<Rightarrow> string \<Rightarrow> ('rx, 'c) rule_set \<times> name_table \<Rightarrow>
     ('rx, 'c) rule_set \<times> name_table" where
  "line_state L source l st = snd (snd (load_rule_from_named L l source st))"

definition file_lines :: "rule_file \<Rightarrow> string list" where
  "file_lines f = (case file_content f of Some content \<Rightarrow> str_lines content | None \<Rightarrow> [])"

definition loaded_lines :: "config_snapshot \<Rightarrow> rule_file list \<Rightarrow> string list" where
  "loaded_lines cfg fs = concat (map file_lines (filter (wanted cfg) fs))"

locale line_loader =
  fixes L :: "('rx, 'c) lib"
    and inv :: "string list \<Rightarrow> ('rx, 'c) rule_set \<times> name_table \<Rightarrow> bool"
  assumes inv_line: "inv ls st \<Longrightarrow> inv (ls @ [l]) (line_state L source l st)"
begin

lemma inv_lines: "inv ls st \<Longrightarrow> inv (ls @ ls') (snd (load_lines L ls' source st))"
proof (induction ls' arbitrary: ls st)
  case (Cons l ls')
  have "inv ((ls @ [l]) @ ls') (snd (load_lines L ls' source (line_state L source l st)))"
    using Cons.prems by (intro Cons.IH inv_line)
  then show ?case by (simp add: line_state_def split_beta)
qed simp

lemma inv_file: "inv ls st \<Longrightarrow> inv (ls @ file_lines f) (snd (load_file L f st))"
  using inv_lines by (simp add: load_file_def file_lines_def split: option.split)

lemma inv_files: "inv ls st \<Longrightarrow> inv (ls @ loaded_lines cfg fs) (snd (load_files L cfg fs st))"
proof (induction fs arbitrary: ls st)
  case (Cons f fs)
  show ?case
  proof (cases "wanted cfg f")
    case True
    have "inv ((ls @ file_lines f) @ loaded_lines cfg fs) (snd (load_files L cfg fs (snd (load_file L f st))))"
      using Cons.prems by (intro Cons.IH inv_file)
    with True show ?thesis by (simp add: loaded_lines_def split_beta)
  next
    case False
    with Cons show ?thesis by (simp add: loaded_lines_def)
  qed
qed (simp add: loaded_lines_def)

end

subsection \<open>What a line defines\<close>

datatype line_def = Program string json | Type string json | Cgroup string json | Ignored

definition classify :: "('rx, 'c) lib \<Rightarrow> string \<Rightarrow> line_def" where
  "classify L line =
     (case Option.bind (json_text line) (lib_parse L) of
        None \<Rightarrow> Ignored
      | Some v \<Rightarrow>
          (case str_member v ''name'' of
             Some n \<Rightarrow> Program n v
           | None \<Rightarrow>
               (case str_member v ''type'' of
                  Some ty \<Rightarrow> Type ty v
                | None \<Rightarrow> (case str_member v ''cgroup'' of Some cg \<Rightarrow> Cgroup cg v | None \<Rightarrow> Ignored))))"

text \<open>The maps of last definitions.\<close>

definition program_defs :: "('rx, 'c) lib \<Rightarrow> string list \<Rightarrow> string \<Rightarrow> json option" where
  "program_defs L ls =
     fold (\<lambda>l m. case classify L l of Program n v \<Rightarrow> m(n \<mapsto> v) | _ \<Rightarrow> m) ls Map.empty"

definition type_defs :: "('rx, 'c) lib \<Rightarrow> string list \<Rightarrow> string \<Rightarrow> json option" where
  "type_defs L ls = fold (\<lambda>l m. case classify L l of Type n v \<Rightarrow> m(n \<mapsto> v) | _ \<Rightarrow> m) ls Map.empty"

definition cgroup_defs :: "('rx, 'c) lib \<Rightarrow> string list \<Rightarrow> string \<Rightarrow> json option" where
  "cgroup_defs L ls = fold (\<lambda>l m. case classify L l of Cgroup n v \<Rightarrow> m(n \<mapsto> v) | _ \<Rightarrow> m) ls Map.empty"

lemma line_state_classify:
  "line_state L source l (rs, t) =
     (case classify L l of
        Program n v \<Rightarrow> snd (add_program L v n source (rs, t))
      | Type n v \<Rightarrow> (rs\<lparr>types := AList.update n v (types rs)\<rparr>, t)
      | Cgroup n v \<Rightarrow> (rs\<lparr>cgroups := AList.update n v (cgroups rs)\<rparr>, t)
      | Ignored \<Rightarrow> (rs, t))"
  by (simp add: line_state_def load_rule_from_named_def classify_def split: option.split)

lemma defs_snoc [simp]:
  "program_defs L (ls @ [l]) =
     (case classify L l of Program n v \<Rightarrow> (program_defs L ls)(n \<mapsto> v) | _ \<Rightarrow> program_defs L ls)"
  "type_defs L (ls @ [l]) =
     (case classify L l of Type n v \<Rightarrow> (type_defs L ls)(n \<mapsto> v) | _ \<Rightarrow> type_defs L ls)"
  "cgroup_defs L (ls @ [l]) =
     (case classify L l of Cgroup n v \<Rightarrow> (cgroup_defs L ls)(n \<mapsto> v) | _ \<Rightarrow> cgroup_defs L ls)"
  by (simp_all add: program_defs_def type_defs_def cgroup_defs_def split: line_def.split)

subsection \<open>The index and the vector\<close>

text \<open>Every name has a slot of its own and every slot a name.\<close>

definition index_ok :: "(string \<times> nat) list \<Rightarrow> rule list \<Rightarrow> bool" where
  "index_ok ps rls \<longleftrightarrow> distinct (map fst ps) \<and> distinct (map snd ps) \<and> snd ` set ps = {..<length rls}"

lemma index_less: "index_ok ps rls \<Longrightarrow> map_of ps n = Some i \<Longrightarrow> i < length rls"
  by (auto simp: index_ok_def dest!: map_of_SomeD) (metis imageI lessThan_iff snd_conv)

lemma index_inj: "index_ok ps rls \<Longrightarrow> map_of ps n = Some i \<Longrightarrow> map_of ps m = Some i \<Longrightarrow> n = m"
proof -
  assume ok: "index_ok ps rls" and "map_of ps n = Some i" "map_of ps m = Some i"
  then have "(n, i) \<in> set ps" "(m, i) \<in> set ps" by (auto dest: map_of_SomeD)
  moreover have "inj_on snd (set ps)" using ok by (simp add: index_ok_def distinct_map)
  ultimately show "n = m" using inj_onD by fastforce
qed

lemma index_append:
  assumes "index_ok ps rls" and "map_of ps n = None"
  shows "index_ok (AList.update n (length rls) ps) (rls @ [r])"
proof -
  have "AList.update n (length rls) ps = ps @ [(n, length rls)]"
    using assms(2) by (intro update_fresh) (simp add: map_of_eq_None_iff)
  with assms show ?thesis
    by (auto simp: index_ok_def map_of_eq_None_iff lessThan_Suc)
qed

lemma index_update: "index_ok ps rls \<Longrightarrow> map_of ps n = Some i \<Longrightarrow> AList.update n i ps = ps"
  by (rule update_triv)

lemma index_list_update [simp]: "index_ok ps (rls[i := r]) = index_ok ps rls"
  by (simp add: index_ok_def)

subsection \<open>One definition of a program\<close>

lemma add_program_step:
  assumes ok: "index_ok (programs rs) (rules rs)" and len: "length (rules rs) < 2 ^ 32"
    and js: "from_json v t = (r, t')"
  obtains log log' i rls ms where
    "add_program L v n source (rs, t) =
       (log @ log', rs\<lparr>rules := rls, programs := AList.update n i (programs rs), regex_programs := ms\<rparr>, t')"
    "add_regex L v n (regex_programs rs) = (log', ms)"
    "index_ok (AList.update n i (programs rs)) rls" "i < length rls" "rls ! i = r"
    "length rls \<le> Suc (length (rules rs))"
    "\<And>m j. m \<noteq> n \<Longrightarrow> map_of (programs rs) m = Some j \<Longrightarrow> j \<noteq> i \<and> j < length rls \<and> rls ! j = rules rs ! j"
    "set rls \<subseteq> insert r (set (rules rs))"
proof -
  obtain log' ms where rx: "add_regex L v n (regex_programs rs) = (log', ms)"
    by (cases "add_regex L v n (regex_programs rs)")
  let ?log = "note_redefinition (map_of (programs rs) n \<noteq> None) ''rule'' n source"
  show thesis
  proof (cases "map_of (programs rs) n")
    case None
    let ?i = "length (rules rs)"
    have "add_program L v n source (rs, t) =
        (?log @ log', rs\<lparr>rules := rules rs @ [r], programs := AList.update n ?i (programs rs), regex_programs := ms\<rparr>, t')"
      using None len js rx by (simp add: add_program_def reserve_def as_u32_def)
    moreover have "j \<noteq> ?i \<and> j < length (rules rs @ [r]) \<and> (rules rs @ [r]) ! j = rules rs ! j"
      if "map_of (programs rs) m = Some j" for m j
      using index_less [OF ok that] by (simp add: nth_append)
    ultimately show thesis
      using that [where log = ?log and log' = log' and rls = "rules rs @ [r]" and i = ?i and ms = ms] rx index_append [OF ok None, of r] by auto
  next
    case (Some i)
    have i: "i < length (rules rs)" using index_less [OF ok Some] .
    have "add_program L v n source (rs, t) =
        (?log @ log', rs\<lparr>rules := (rules rs)[i := r], programs := AList.update n i (programs rs),
                         regex_programs := ms\<rparr>, t')"
      using Some i js rx by (simp add: add_program_def reserve_def)
    moreover have "j \<noteq> i \<and> j < length ((rules rs)[i := r]) \<and> (rules rs)[i := r] ! j = rules rs ! j"
      if "m \<noteq> n" "map_of (programs rs) m = Some j" for m j
    proof -
      have "i \<noteq> j" using index_inj [OF ok Some, of m] that by blast
      then show ?thesis using index_less [OF ok that(2)] by simp
    qed
    ultimately show thesis
      using that [where log = ?log and log' = log' and rls = "(rules rs)[i := r]" and i = i and ms = ms] rx i ok index_update [OF ok Some]
        set_update_subset_insert [of "rules rs" i r] by auto
  qed
qed

subsection \<open>The relation\<close>

text \<open>What the parser promises of an object: each key once.\<close>

definition parser_ok :: "('rx, 'c) lib \<Rightarrow> bool" where
  "parser_ok L \<longleftrightarrow> (\<forall>s v. lib_parse L s = Some v \<longrightarrow> keys_once v)"

text \<open>
  The state after the lines \<open>ls\<close>, started with an empty set and the table \<open>t0\<close>: the index is in
  step, the rules use numbers the table knows, and while the table has room each name reads as the
  last object that defined it.
\<close>

definition represents ::
  "('rx, 'c) lib \<Rightarrow> name_table \<Rightarrow> string list \<Rightarrow> ('rx, 'c) rule_set \<times> name_table \<Rightarrow> bool" where
  "represents L t0 ls st \<longleftrightarrow>
     (length ls \<le> 2 ^ 32 \<longrightarrow>
        (let (rs, t) = st in
         index_ok (programs rs) (rules rs) \<and> length (rules rs) \<le> length ls \<and> extends t0 t \<and>
         (\<forall>r \<in> set (rules rs). rule_ok t r) \<and>
         (\<forall>n. map_of (types rs) n = type_defs L ls n) \<and> (\<forall>n. map_of (cgroups rs) n = cgroup_defs L ls n) \<and>
         distinct (map fst (types rs)) \<and>
         (\<not> table_full t \<longrightarrow>
            (\<forall>n. map_option (\<lambda>i. view t (rules rs ! i)) (map_of (programs rs) n) =
                 map_option spec_view (program_defs L ls n)))))"

lemma represents_program:
  assumes rep: "represents L t0 ls (rs, t)" and len: "length ls < 2 ^ 32"
    and cl: "classify L l = Program n v"
  shows "represents L t0 (ls @ [l]) (snd (add_program L v n source (rs, t)))"
proof -
  obtain r t' where js: "from_json v t = (r, t')" by (cases "from_json v t")
  have ok: "index_ok (programs rs) (rules rs)" and lr: "length (rules rs) \<le> length ls"
    and ex: "extends t0 t" and rok: "\<forall>r \<in> set (rules rs). rule_ok t r"
    using rep len by (auto simp: represents_def)
  have s: "extends t t'" "rule_ok t' r" "\<not> table_full t' \<Longrightarrow> view t' r = spec_view v"
    using from_json_sound [OF extends_wf [OF ex] js] by blast+
  from lr len have "length (rules rs) < 2 ^ 32" by simp
  then obtain log log' i rls ms where step:
    "add_program L v n source (rs, t) =
       (log @ log', rs\<lparr>rules := rls, programs := AList.update n i (programs rs), regex_programs := ms\<rparr>, t')"
    "index_ok (AList.update n i (programs rs)) rls" "i < length rls" "rls ! i = r"
    "length rls \<le> Suc (length (rules rs))"
    "\<And>m j. m \<noteq> n \<Longrightarrow> map_of (programs rs) m = Some j \<Longrightarrow> j \<noteq> i \<and> j < length rls \<and> rls ! j = rules rs ! j"
    "set rls \<subseteq> insert r (set (rules rs))"
    using add_program_step [OF ok _ js, of L n source] by metis
  have "\<forall>q \<in> set rls. rule_ok t' q"
    using step(7) rok s(1,2) rule_ok_extends by blast
  moreover have "map_option (\<lambda>i. view t' (rls ! i)) (map_of (AList.update n i (programs rs)) m) =
      map_option spec_view (program_defs L (ls @ [l]) m)" if nf: "\<not> table_full t'" for m
  proof (cases "m = n")
    case True
    then show ?thesis using step(4) s(3) [OF nf] cl by (simp add: update_conv')
  next
    case False
    have "map_option (\<lambda>i. view t (rules rs ! i)) (map_of (programs rs) m) =
        map_option spec_view (program_defs L ls m)"
      using rep len extends_not_full [OF s(1) nf] by (simp add: represents_def)
    moreover have "view t' (rls ! j) = view t (rules rs ! j)" if "map_of (programs rs) m = Some j" for j
      using step(6) [OF False that] view_extends [OF _ s(1)] rok index_less [OF ok that] by simp
    ultimately show ?thesis
      using False cl by (cases "map_of (programs rs) m") (simp_all add: update_conv')
  qed
  ultimately show ?thesis
    using rep len step(1,2,5) lr extends_trans [OF ex s(1)] cl by (simp add: represents_def)
qed

lemma represents_line:
  assumes "represents L t0 ls st"
  shows "represents L t0 (ls @ [l]) (line_state L source l st)"
proof -
  obtain rs t where st: "st = (rs, t)" by (cases st)
  show ?thesis
  proof (cases "length ls < 2 ^ 32")
    case False
    then show ?thesis by (simp add: represents_def)
  next
    case True
    then show ?thesis
      using assms represents_program [of L t0 ls rs t l] unfolding st line_state_classify
      by (cases "classify L l") (auto simp: represents_def update_conv' distinct_update)
  qed
qed

interpretation rl: line_loader L "represents L t0" for L t0
  by unfold_locales (rule represents_line)

lemma represents_empty:
  "table_wf t0 \<Longrightarrow> represents L t0 [] (clear_rules L rs, t0)"
  by (simp add: represents_def clear_rules_def index_ok_def type_defs_def cgroup_defs_def program_defs_def)

text \<open>Only objects define programs.\<close>

lemma program_defs_object:
  assumes "parser_ok L" and "program_defs L ls n = Some v"
  obtains ps where "v = JObject ps" and "keys_once v"
proof -
  have "\<exists>ps. v = JObject ps \<and> keys_once v"
    using assms(2)
  proof (induction ls rule: rev_induct)
    case (snoc l ls)
    have "\<exists>ps. w = JObject ps \<and> keys_once w" if "classify L l = Program m w" for m w
    proof -
      from that obtain s where "lib_parse L s = Some w" and "str_member w ''name'' = Some m"
        by (auto simp: classify_def Option.bind_eq_Some_conv split: option.splits)
      then show ?thesis using assms(1) by (cases w) (auto simp: parser_ok_def str_member_def)
    qed
    with snoc show ?case by (auto split: line_def.splits if_splits)
  qed (simp add: program_defs_def)
  then show thesis using that by blast
qed

subsection \<open>Inheritance over the whole set\<close>

text \<open>What is assumed of a hash map's iteration: every entry once, in some order.\<close>

definition iter_ok :: "('rx, 'c) lib \<Rightarrow> bool" where
  "iter_ok L \<longleftrightarrow> (\<forall>xs. distinct (map fst xs) \<longrightarrow> mset (lib_map_iter L xs) = mset xs)"

lemma map_of_mset:
  assumes "mset ys = mset xs" and "distinct (map fst xs)"
  shows "map_of ys = map_of xs"
proof -
  have "mset (map fst ys) = mset (map fst xs)" using assms(1) by simp
  then have "distinct (map fst ys)" using assms(2) mset_eq_imp_distinct_iff by blast
  then show ?thesis using assms map_of_inject_set mset_eq_setD by blast
qed

lemma resolve_bases_sound:
  assumes "table_wf t" and "resolve_bases tys t = (bases, t')"
  shows "extends t t' \<and> (\<forall>b \<in> snd ` set bases. rule_ok t' b) \<and>
    (\<forall>n. map_of bases n = None \<longleftrightarrow> map_of tys n = None) \<and>
    (\<not> table_full t' \<longrightarrow>
       (\<forall>n b v. map_of bases n = Some b \<longrightarrow> map_of tys n = Some v \<longrightarrow>
          view t' b = (spec_view v)\<lparr>view_type := None\<rparr>))"
  using assms
proof (induction tys t arbitrary: bases t' rule: resolve_bases.induct)
  case (2 name vl tys t)
  obtain base t1 where js: "from_json vl t = (base, t1)" by (cases "from_json vl t")
  obtain bs where rb: "resolve_bases tys t1 = (bs, t')" and
    bases: "bases = (name, base\<lparr>type_name := 0\<rparr>) # bs"
    using "2.prems"(2) js by (auto split: prod.splits)
  have s: "extends t t1" "rule_ok t1 base" "\<not> table_full t1 \<Longrightarrow> view t1 base = spec_view vl"
    using from_json_sound [OF "2.prems"(1) js] by blast+
  have IH: "extends t1 t'" "\<forall>b \<in> snd ` set bs. rule_ok t' b"
    "\<forall>n. map_of bs n = None \<longleftrightarrow> map_of tys n = None"
    "\<not> table_full t' \<Longrightarrow> \<forall>n b v. map_of bs n = Some b \<longrightarrow> map_of tys n = Some v \<longrightarrow>
       view t' b = (spec_view v)\<lparr>view_type := None\<rparr>"
    using "2.IH" [OF js [symmetric] refl extends_wf [OF s(1)] rb] by blast+
  have "rule_ok t' (base\<lparr>type_name := 0\<rparr>)"
    using rule_ok_extends [OF s(2) IH(1)] by (simp add: rule_ok_def type_ok_def)
  moreover have "view t' (base\<lparr>type_name := 0\<rparr>) = (spec_view vl)\<lparr>view_type := None\<rparr>"
    if nf: "\<not> table_full t'"
    using view_extends [OF s(2) IH(1)] s(3) extends_not_full [OF IH(1) nf]
    by (simp add: view_def spec_view_def type_as_str_def)
  ultimately show ?case
    using IH extends_trans [OF s(1) IH(1)] unfolding bases by auto
qed simp

definition with_type :: "(string \<Rightarrow> json option) \<Rightarrow> json \<Rightarrow> json" where
  "with_type tys v =
     (case Option.bind (str_member v ''type'') tys of None \<Rightarrow> v | Some b \<Rightarrow> merge_patch b v)"

lemma inherit_base_settings:
  assumes "table_wf t" and "resolve_bases tys t = (bases, t')" and "\<not> table_full t'"
    and "rule_ok t r" and "view t r = spec_view (JObject ps)" and "keys_once (JObject ps)"
  shows "rule_settings t' (inherit_base t' bases r) =
    settings_of (spec_view (with_type (map_of tys) (JObject ps)))"
proof -
  have s: "extends t t'" "map_of bases n = None \<longleftrightarrow> map_of tys n = None"
    "map_of bases n = Some b \<Longrightarrow> map_of tys n = Some v \<Longrightarrow> view t' b = (spec_view v)\<lparr>view_type := None\<rparr>"
    for n b v
    using resolve_bases_sound [OF assms(1,2)] assms(3) by blast+
  have view: "view t' r = spec_view (JObject ps)" using view_extends [OF assms(4) s(1)] assms(5) by simp
  then have ty: "type_as_str t' (type_name r) = str_member (JObject ps) ''type''"
    by (metis rule_view.select_convs(1) spec_view_def str_member_def view_def)
  show ?thesis
  proof (cases "Option.bind (str_member (JObject ps) ''type'') (map_of tys)")
    case None
    then have "inherit_base t' bases r = r"
      using ty by (cases "str_member (JObject ps) ''type''") (simp_all add: inherit_base_def iffD2 [OF s(2)])
    with None show ?thesis by (simp add: with_type_def rule_settings_view view)
  next
    case (Some v)
    then obtain n where n: "str_member (JObject ps) ''type'' = Some n" "map_of tys n = Some v"
      by (auto simp: Option.bind_eq_Some_conv)
    then obtain b where b: "map_of bases n = Some b" using s(2) [of n] by (cases "map_of bases n") auto
    have "spec_inherit w (spec_view v\<lparr>view_type := None\<rparr>) = spec_inherit w (spec_view v)" for w
      by (simp add: spec_inherit_def)
    then show ?thesis
      using n b ty settings_merge [OF assms(6)] s(3) [OF b n(2)]
      by (simp add: inherit_base_def rule_settings_view view_inherit view with_type_def)
  qed
qed

lemma load_directory_parts:
  assumes "load_directory L cfg (Some walk) (rs0, t0) = (log, rs, t)"
  obtains rs1 t1 bases where
    "load_files L cfg (sort_key file_path walk) (clear_rules L rs0, t0) = (log, rs1, t1)"
    "resolve_bases (lib_map_iter L (types rs1)) t1 = (bases, t)"
    "rs = rs1\<lparr>rules := map (inherit_base t bases) (rules rs1),
              resolved_cache := map_option (lib_cache_clear L) (resolved_cache rs1)\<rparr>"
  using assms by (auto simp: load_directory_def precompute_inheritance_def split: prod.splits)

lemma represents_directory:
  assumes "table_wf t0" and "load_files L cfg fs (clear_rules L rs0, t0) = (log, st)"
  shows "represents L t0 (loaded_lines cfg fs) st"
  using rl.inv_files [OF represents_empty [OF assms(1), of L rs0], of cfg fs] assms(2) by simp

lemma loaded_table_wf:
  assumes "table_wf t0" and "load_directory L cfg (Some walk) (rs0, t0) = (log, rs, t)"
    and "length (loaded_lines cfg (sort_key file_path walk)) \<le> 2 ^ 32"
  shows "table_wf t"
proof (rule load_directory_parts [OF assms(2)])
  fix rs1 t1 bases
  assume st: "load_files L cfg (sort_key file_path walk) (clear_rules L rs0, t0) = (log, rs1, t1)"
    and rb: "resolve_bases (lib_map_iter L (types rs1)) t1 = (bases, t)"
  have "extends t0 t1" using represents_directory [OF assms(1) st] assms(3) by (auto simp: represents_def)
  from extends_wf [OF this] have "extends t1 t" using resolve_bases_sound [OF _ rb] by blast
  then show ?thesis by (rule extends_wf)
qed

lemma loaded_settings:
  assumes "table_wf t0" and "parser_ok L" and "iter_ok L"
    and "load_directory L cfg (Some walk) (rs0, t0) = (log, rs, t)" and "\<not> table_full t"
    and "length (loaded_lines cfg (sort_key file_path walk)) \<le> 2 ^ 32"
  shows "map_option (\<lambda>(m, r). (m, rule_settings t r)) (resolve rs (Some n)) =
    map_option (\<lambda>v. (n, settings_of (spec_view
        (with_type (type_defs L (loaded_lines cfg (sort_key file_path walk))) v))))
      (program_defs L (loaded_lines cfg (sort_key file_path walk)) n)"
proof -
  let ?ls = "loaded_lines cfg (sort_key file_path walk)"
  obtain rs1 t1 bases where st: "load_files L cfg (sort_key file_path walk) (clear_rules L rs0, t0) = (log, rs1, t1)"
    and rb: "resolve_bases (lib_map_iter L (types rs1)) t1 = (bases, t)"
    and rs: "rs = rs1\<lparr>rules := map (inherit_base t bases) (rules rs1),
              resolved_cache := map_option (lib_cache_clear L) (resolved_cache rs1)\<rparr>"
    using load_directory_parts [OF assms(4)] by metis
  have rep: "represents L t0 ?ls (rs1, t1)" by (rule represents_directory [OF assms(1) st])
  have ok: "index_ok (programs rs1) (rules rs1)" and ex: "extends t0 t1"
    and rok: "\<forall>r \<in> set (rules rs1). rule_ok t1 r" and dt: "distinct (map fst (types rs1))"
    and tys: "map_of (types rs1) = type_defs L ?ls"
    using rep assms(6) by (auto simp: represents_def)
  have it: "map_of (lib_map_iter L (types rs1)) = type_defs L ?ls"
    using map_of_mset [OF _ dt] assms(3) dt tys by (auto simp: iter_ok_def)
  have sb: "extends t1 t" using resolve_bases_sound [OF extends_wf [OF ex] rb] by blast
  then have eq: "map_option (\<lambda>i. view t1 (rules rs1 ! i)) (map_of (programs rs1) n) =
      map_option spec_view (program_defs L ?ls n)"
    using rep assms(6) extends_not_full [OF sb assms(5)] by (simp add: represents_def)
  show ?thesis
  proof (cases "map_of (programs rs1) n")
    case None
    with eq show ?thesis by (simp add: resolve_def rs)
  next
    case (Some i)
    with eq obtain v where v: "program_defs L ?ls n = Some v" "view t1 (rules rs1 ! i) = spec_view v"
      by (cases "program_defs L ?ls n") auto
    obtain ps where ps: "v = JObject ps" "keys_once v"
      using program_defs_object [OF assms(2) v(1)] by blast
    have i: "i < length (rules rs1)" using index_less [OF ok Some] .
    then have "rule_settings t (inherit_base t bases (rules rs1 ! i)) =
        settings_of (spec_view (with_type (type_defs L ?ls) v))"
      using inherit_base_settings [OF extends_wf [OF ex] rb, of "rules rs1 ! i" ps] assms(5) rok v(2) ps it
      by simp
    with Some i v(1) show ?thesis by (simp add: resolve_def rs)
  qed
qed

text \<open>
  C17: after a directory was loaded, looking a program up gives the settings of the merge of the last
  object that defined it, in the order of the sorted paths, onto the last object that defined its
  type, and nothing for a name no object defined; the previous rule set has no influence. This holds
  while the name table has room.
\<close>
theorem loaded_rules_spec:
  assumes "table_wf t0" and "parser_ok L" and "iter_ok L"
    and "load_directory L cfg (Some walk) (rs0, t0) = (log, rs, t)" and "\<not> table_full t"
    and "length (loaded_lines cfg (sort_key file_path walk)) \<le> 2 ^ 32"
  shows "map_option (\<lambda>(m, r). (m, rule_settings t r)) (resolve rs (Some n)) =
    map_option (\<lambda>v. (n, settings_of (spec_view
        (with_type (type_defs L (loaded_lines cfg (sort_key file_path walk))) v))))
      (program_defs L (loaded_lines cfg (sort_key file_path walk)) n)"
  by (rule loaded_settings [OF assms])

text \<open>
  A library for the evaluations below: a parser that knows three texts, patterns that match the
  names they are a prefix of, and a cache that keeps the 5000 keys used last.
\<close>

definition lru_get ::
  "string \<Rightarrow> (string \<times> string option) list \<Rightarrow> string option option \<times> (string \<times> string option) list" where
  "lru_get k c =
     (case map_of c k of
        None \<Rightarrow> (None, c)
      | Some v \<Rightarrow> (Some v, (k, v) # filter (\<lambda>x. fst x \<noteq> k) c))"

definition lru_put ::
  "string \<Rightarrow> string option \<Rightarrow> (string \<times> string option) list \<Rightarrow> (string \<times> string option) list" where
  "lru_put k v c = take 5000 ((k, v) # filter (\<lambda>x. fst x \<noteq> k) c)"

definition sample_lib :: "(string, (string \<times> string option) list) lib" where
  "sample_lib =
     \<lparr>lib_parse = (\<lambda>s. if s = ''{p}'' then
                        Some (JObject [(''name'', JString ''doom''), (''type'', JString ''Game''),
                                       (''nice'', JNull), (''name_regex'', JString ''D'')])
                      else if s = ''{q}'' then Some (JObject [(''name'', JString ''doom'')])
                      else if s = ''{t}'' then
                        Some (JObject [(''type'', JString ''Game''), (''nice'', JNeg 4), (''ioclass'', JString ''idle'')])
                      else None),
      lib_compile = Some, lib_try_match = (\<lambda>rx s. Some (take (length rx) s = rx)),
      lib_cache_get = lru_get, lib_cache_put = lru_put, lib_cache_clear = (\<lambda>c. []),
      lib_map_iter = id\<rparr>"

lemma sample_lib_ok: "parser_ok sample_lib" "iter_ok sample_lib"
  by (simp_all add: parser_ok_def iter_ok_def sample_lib_def keys_once_def)

definition sample_walk :: "rule_file list" where
  "sample_walk =
     [\<lparr>file_path = [''b.rules''], file_content = Some ''{p}''\<rparr>,
      \<lparr>file_path = [''a.types''], file_content = Some ''{t}''\<rparr>]"

lemmas load_eval [eval_simps] =
  load_directory_def load_file_def wanted_def extension_def load_rule_from_named_def json_text_def
  str_member_def add_program_def reserve_def note_redefinition_def add_regex_def compile_def
  precompute_inheritance_def inherit_base_def clear_rules_def new_rules_def show_path_def default_snapshot_def

lemma sample_loaded:
  "\<exists>log rs. load_directory sample_lib default_snapshot (Some sample_walk) (new_rules [], empty_table) =
     (log, rs, \<lparr>tab_values = [''Game'', ''idle''], tab_index = [(''Game'', 2), (''idle'', 3)]\<rparr>)"
  by (simp add: eval_simps sample_lib_def sample_walk_def)

theorem loaded_rules_spec_witness:
  "\<exists>log rs t. load_directory sample_lib default_snapshot (Some sample_walk) (new_rules [], empty_table) =
      (log, rs, t) \<and>
    map_option (\<lambda>(m, r). (m, rule_settings t r)) (resolve rs (Some ''doom'')) =
    map_option (\<lambda>v. (''doom'', settings_of (spec_view
        (with_type (type_defs sample_lib (loaded_lines default_snapshot (sort_key file_path sample_walk))) v))))
      (program_defs sample_lib (loaded_lines default_snapshot (sort_key file_path sample_walk)) ''doom'')"
proof -
  let ?t = "\<lparr>tab_values = [''Game'', ''idle''], tab_index = [(''Game'', 2), (''idle'', 3)]\<rparr>"
  obtain log rs where l:
    "load_directory sample_lib default_snapshot (Some sample_walk) (new_rules [], empty_table) = (log, rs, ?t)"
    using sample_loaded by blast
  have "\<not> table_full ?t" by (simp add: table_full_def u16_max_def)
  moreover have "length (loaded_lines default_snapshot (sort_key file_path sample_walk)) \<le> 2 ^ 32"
    by (simp add: loaded_lines_def file_lines_def sample_walk_def eval_simps)
  ultimately show ?thesis
    using loaded_rules_spec [OF table_wf_empty sample_lib_ok l] l by blast
qed

subsection \<open>The index stays in step\<close>

lemma index_map [simp]: "index_ok ps (map f rls) = index_ok ps rls"
  by (simp add: index_ok_def)

lemma map_filter_bounded:
  "snd ` set ps \<subseteq> {..<length rls} \<Longrightarrow>
     List.map_filter (\<lambda>(n, i). if i < length rls then Some (n, rls ! i) else None) ps =
     map (\<lambda>(n, i). (n, rls ! i)) ps"
  by (induction ps) auto

text \<open>
  Whatever the rule files contain, a loaded set has exactly one rule for each name and one name
  for each rule: every index is in bounds, no two names share a rule and no superseded rule is kept,
  so the report walks each rule once.
\<close>
theorem loaded_index_in_step:
  assumes "table_wf t0" and "load_directory L cfg (Some walk) (rs0, t0) = (log, rs, t)"
    and "length (loaded_lines cfg (sort_key file_path walk)) \<le> 2 ^ 32"
  shows "distinct (map fst (iter_rules rs)) \<and> length (iter_rules rs) = size_rules rs \<and>
    bij_betw (\<lambda>n. the (map_of (programs rs) n)) (fst ` set (programs rs)) {..<size_rules rs}"
proof -
  obtain rs1 t1 bases where st: "load_files L cfg (sort_key file_path walk) (clear_rules L rs0, t0) = (log, rs1, t1)"
    and rs: "rs = rs1\<lparr>rules := map (inherit_base t bases) (rules rs1),
              resolved_cache := map_option (lib_cache_clear L) (resolved_cache rs1)\<rparr>"
    using load_directory_parts [OF assms(2)] by metis
  have ok: "index_ok (programs rs) (rules rs)"
    using represents_directory [OF assms(1) st] assms(3) by (simp add: represents_def rs)
  then have d: "distinct (map fst (programs rs))" "distinct (map snd (programs rs))"
    and im: "snd ` set (programs rs) = {..<length (rules rs)}"
    by (auto simp: index_ok_def)
  have "iter_rules rs = map (\<lambda>(n, i). (n, rules rs ! i)) (programs rs)"
    unfolding iter_rules_def using im by (intro map_filter_bounded) auto
  then have 1: "map fst (iter_rules rs) = map fst (programs rs)" by (simp add: case_prod_beta comp_def)
  have "length (programs rs) = card {..<length (rules rs)}"
    using d(2) im by (metis distinct_card length_map set_map)
  then have 2: "length (iter_rules rs) = size_rules rs" using 1 by (metis card_lessThan length_map size_rules_def)
  have "inj_on (\<lambda>n. the (map_of (programs rs) n)) (fst ` set (programs rs))"
  proof (rule inj_onI)
    fix n m assume "n \<in> fst ` set (programs rs)" "m \<in> fst ` set (programs rs)"
      and eq: "the (map_of (programs rs) n) = the (map_of (programs rs) m)"
    then obtain i j where "map_of (programs rs) n = Some i" "map_of (programs rs) m = Some j"
      by (meson map_of_eq_None_iff not_None_eq)
    with eq show "n = m" using index_inj [OF ok] by simp
  qed
  moreover have "(\<lambda>n. the (map_of (programs rs) n)) ` fst ` set (programs rs) = snd ` set (programs rs)"
    using d(1) by (force simp: image_image)
  ultimately show ?thesis
    using 1 2 d(1) im by (simp add: bij_betw_def size_rules_def)
qed

theorem loaded_index_in_step_witness:
  "\<exists>log rs t. load_directory sample_lib default_snapshot (Some sample_walk) (new_rules [], empty_table) =
      (log, rs, t) \<and> distinct (map fst (iter_rules rs)) \<and> length (iter_rules rs) = size_rules rs"
proof -
  let ?t = "\<lparr>tab_values = [''Game'', ''idle''], tab_index = [(''Game'', 2), (''idle'', 3)]\<rparr>"
  obtain log rs where l:
    "load_directory sample_lib default_snapshot (Some sample_walk) (new_rules [], empty_table) = (log, rs, ?t)"
    using sample_loaded by blast
  moreover have "length (loaded_lines default_snapshot (sort_key file_path sample_walk)) \<le> 2 ^ 32"
    by (simp add: loaded_lines_def file_lines_def sample_walk_def eval_simps)
  ultimately show ?thesis
    using loaded_index_in_step [OF table_wf_empty l] by blast
qed

end
