(* ===== verification/Rule_Lookup.thy ===== *)
theory Rule_Lookup
  imports Rule_Load
begin

text \<open>
  What a process name resolves to in a loaded rule set: the exact name first, then the
  first pattern in load order, whatever the resolved-name cache remembers. The cache is
  a parameter; what is assumed of it is that it answers with nothing but values put
  under the same key and that clearing forgets everything.
\<close>

subsection \<open>Patterns in load order\<close>

definition line_regex :: "('rx, 'c) lib \<Rightarrow> string \<Rightarrow> 'rx matcher option" where
  "line_regex L l =
     (case classify L l of
        Program n v \<Rightarrow> Option.bind (str_member v ''name_regex'') (\<lambda>s. compile L s n)
      | _ \<Rightarrow> None)"

definition regexes :: "('rx, 'c) lib \<Rightarrow> string list \<Rightarrow> 'rx matcher list" where
  "regexes L ls = List.map_filter (line_regex L) ls"

lemma regexes_snoc [simp]:
  "regexes L (ls @ [l]) = regexes L ls @ (case line_regex L l of None \<Rightarrow> [] | Some m \<Rightarrow> [m])"
  by (simp add: regexes_def map_filter_def split: option.split)

text \<open>The patterns loaded are those of the lines, and each belongs to a name that is defined.\<close>

definition regex_inv :: "('rx, 'c) lib \<Rightarrow> string list \<Rightarrow> ('rx, 'c) rule_set \<times> name_table \<Rightarrow> bool" where
  "regex_inv L ls st \<longleftrightarrow>
     regex_programs (fst st) = regexes L ls \<and>
     (\<forall>n. map_of (programs (fst st)) n = None \<longleftrightarrow> program_defs L ls n = None) \<and>
     (\<forall>m \<in> set (regexes L ls). program_defs L ls (matcher_name m) \<noteq> None)"

lemma add_regex_matchers:
  "snd (add_regex L v n ms) =
     ms @ (case Option.bind (str_member v ''name_regex'') (\<lambda>s. compile L s n) of None \<Rightarrow> [] | Some m \<Rightarrow> [m])"
  by (simp add: add_regex_def split: option.split)

lemma add_program_parts:
  "regex_programs (fst (snd (add_program L v n source (rs, t)))) = snd (add_regex L v n (regex_programs rs))"
  "map_of (programs (fst (snd (add_program L v n source (rs, t))))) m = None \<longleftrightarrow>
     m \<noteq> n \<and> map_of (programs rs) m = None"
  by (auto simp: add_program_def update_conv' split: prod.split)

lemma compile_name: "compile L s n = Some m \<Longrightarrow> matcher_name m = n"
  by (auto simp: compile_def)

lemma regex_inv_line: "regex_inv L ls st \<Longrightarrow> regex_inv L (ls @ [l]) (line_state L source l st)"
proof -
  assume inv: "regex_inv L ls st"
  obtain rs t where st: "st = (rs, t)" by (cases st)
  show ?thesis
  proof (cases "classify L l")
    case (Program n v)
    then have lr: "line_regex L l = Option.bind (str_member v ''name_regex'') (\<lambda>s. compile L s n)"
      by (simp add: line_regex_def)
    then have nm: "matcher_name m = n" if "line_regex L l = Some m" for m
    proof -
      from that lr have "Option.bind (str_member v ''name_regex'') (\<lambda>s. compile L s n) = Some m" by simp
      then show ?thesis by (auto simp: Option.bind_eq_Some_conv dest: compile_name)
    qed
    have ms: "snd (add_regex L v n ms) = ms @ (case line_regex L l of None \<Rightarrow> [] | Some m \<Rightarrow> [m])" for ms
      by (simp add: add_regex_matchers lr)
    show ?thesis
      using inv Program nm unfolding st line_state_classify regex_inv_def
      by (auto simp: add_program_parts ms split: option.splits)
  qed (use inv in \<open>auto simp: regex_inv_def line_state_classify line_regex_def st\<close>)
qed

interpretation rx: line_loader L "regex_inv L" for L
  by unfold_locales (rule regex_inv_line)

lemma regex_inv_directory:
  assumes "load_directory L cfg (Some walk) (rs0, t0) = (log, rs, t)"
  shows "regex_inv L (loaded_lines cfg (sort_key file_path walk)) (rs, t)"
proof -
  have "regex_inv L [] (clear_rules L rs0, t0)"
    by (simp add: regex_inv_def regexes_def clear_rules_def program_defs_def map_filter_def)
  note files = rx.inv_files [OF this, of cfg "sort_key file_path walk"]
  show ?thesis
    by (rule load_directory_parts [OF assms]) (use files in \<open>auto simp: regex_inv_def\<close>)
qed

subsection \<open>The best match\<close>

lemma regex_match_find:
  "(\<forall>m \<in> set ms. map_of ps (matcher_name m) \<noteq> None) \<Longrightarrow>
     regex_match L ps target ms = map_option matcher_name (find (\<lambda>m. is_match L m target) ms)"
  by (induction ms) auto

definition best_name :: "('rx, 'c) lib \<Rightarrow> string list \<Rightarrow> string \<Rightarrow> string option" where
  "best_name L ls p =
     (if program_defs L ls p \<noteq> None then Some p
      else map_option matcher_name (find (\<lambda>m. is_match L m p) (regexes L ls)))"

lemma find_best_match_name:
  assumes "regex_inv L ls (rs, t)"
  shows "find_best_match L rs p = best_name L ls p"
proof -
  have ms: "regex_programs rs = regexes L ls"
    and ps: "map_of (programs rs) n = None \<longleftrightarrow> program_defs L ls n = None"
    and all: "\<forall>m \<in> set (regexes L ls). map_of (programs rs) (matcher_name m) \<noteq> None" for n
    using assms by (auto simp: regex_inv_def)
  show ?thesis
    by (simp add: find_best_match_def best_name_def ps ms regex_match_find [OF all])
qed

subsection \<open>The cache\<close>

definition lru_ok :: "('rx, 'c) lib \<Rightarrow> bool" where
  "lru_ok L \<longleftrightarrow>
     (\<forall>k c j. fst (lib_cache_get L j (snd (lib_cache_get L k c))) = fst (lib_cache_get L j c)) \<and>
     (\<forall>k v c j x. fst (lib_cache_get L j (lib_cache_put L k v c)) = Some x \<longrightarrow>
        (if j = k then x = v else fst (lib_cache_get L j c) = Some x)) \<and>
     (\<forall>c j. fst (lib_cache_get L j (lib_cache_clear L c)) = None)"

definition cache_sound :: "('rx, 'c) lib \<Rightarrow> ('rx, 'c) rule_set \<Rightarrow> bool" where
  "cache_sound L rs \<longleftrightarrow>
     (\<forall>c k x. resolved_cache rs = Some c \<longrightarrow> fst (lib_cache_get L k c) = Some x \<longrightarrow>
        x = find_best_match L rs k \<and> length k \<le> max_cacheable_name)"

lemma find_best_match_cache [simp]:
  "find_best_match L (rs\<lparr>resolved_cache := c\<rparr>) p = find_best_match L rs p"
  by (simp add: find_best_match_def)

lemma resolve_cache [simp]: "resolve (rs\<lparr>resolved_cache := c\<rparr>) n = resolve rs n"
  by (simp add: resolve_def split: option.split)

lemma get_rule_frame:
  "\<exists>c. snd (get_rule L p rs) = rs\<lparr>resolved_cache := c\<rparr>"
  by (auto simp: get_rule_def Let_def split: option.split prod.split)

lemma get_rule_sound:
  assumes "lru_ok L" and "cache_sound L rs"
  shows "fst (get_rule L p rs) = resolve rs (find_best_match L rs p)"
    and "cache_sound L (snd (get_rule L p rs))"
proof -
  have *: "fst (get_rule L p rs) = resolve rs (find_best_match L rs p) \<and>
      cache_sound L (snd (get_rule L p rs))"
  proof (cases "resolved_cache rs")
    case None
    then show ?thesis by (simp add: get_rule_def cache_sound_def Let_def)
  next
    case (Some c)
    obtain a c' where g: "lib_cache_get L p c = (a, c')" by (cases "lib_cache_get L p c")
    have same: "fst (lib_cache_get L j c') = fst (lib_cache_get L j c)" for j
      using assms(1) g unfolding lru_ok_def by (metis snd_conv)
    have put: "fst (lib_cache_get L j (lib_cache_put L p v c')) = Some x \<Longrightarrow>
        (if j = p then x = v else fst (lib_cache_get L j c') = Some x)" for j v x
      using assms(1) unfolding lru_ok_def by blast
    have sound: "fst (lib_cache_get L j c) = Some x \<Longrightarrow>
        x = find_best_match L rs j \<and> length j \<le> max_cacheable_name" for j x
      using assms(2) Some by (simp add: cache_sound_def)
    have kept: "x = find_best_match L rs j \<and> length j \<le> max_cacheable_name"
      if "length p \<le> max_cacheable_name"
        and "fst (lib_cache_get L j (lib_cache_put L p (find_best_match L rs p) c')) = Some x" for j x
      using put [OF that(2)] that(1) sound same by (cases "j = p") auto
    show ?thesis
    proof (cases a)
      case None
      then show ?thesis
        using Some g sound same kept
        by (auto simp: get_rule_def cache_sound_def Let_def split: if_splits)
    next
      case (Some x)
      with \<open>resolved_cache rs = Some c\<close> show ?thesis
        using g sound [of p x] sound same by (simp add: get_rule_def cache_sound_def)
    qed
  qed
  then show "fst (get_rule L p rs) = resolve rs (find_best_match L rs p)"
    and "cache_sound L (snd (get_rule L p rs))" by blast+
qed

text \<open>The answers to a sequence of lookups, one after the other.\<close>

fun look_ups :: "('rx, 'c) lib \<Rightarrow> string list \<Rightarrow> ('rx, 'c) rule_set \<Rightarrow> (string \<times> rule) option list" where
  "look_ups L [] rs = []"
| "look_ups L (p # ps) rs = fst (get_rule L p rs) # look_ups L ps (snd (get_rule L p rs))"

lemma look_ups_sound:
  "lru_ok L \<Longrightarrow> cache_sound L rs \<Longrightarrow>
     look_ups L ps rs = map (\<lambda>p. resolve rs (find_best_match L rs p)) ps"
proof (induction ps arbitrary: rs)
  case (Cons p ps)
  obtain c where c: "snd (get_rule L p rs) = rs\<lparr>resolved_cache := c\<rparr>" using get_rule_frame by blast
  show ?case
    using Cons.IH [OF Cons.prems(1) get_rule_sound(2) [OF Cons.prems, of p]]
      get_rule_sound(1) [OF Cons.prems, of p]
    by (simp add: c)
qed simp

lemma directory_cache_sound:
  assumes "lru_ok L" and "load_directory L cfg (Some walk) (rs0, t0) = (log, rs, t)"
  shows "cache_sound L rs"
proof (rule load_directory_parts [OF assms(2)])
  fix rs1 bases
  assume "rs = rs1\<lparr>rules := map (inherit_base t bases) (rules rs1),
      resolved_cache := map_option (lib_cache_clear L) (resolved_cache rs1)\<rparr>"
  moreover have "fst (lib_cache_get L k (lib_cache_clear L c)) = None" for c k
    using assms(1) unfolding lru_ok_def by blast
  ultimately have "fst (lib_cache_get L k c) = None" if "resolved_cache rs = Some c" for c k
    using that by auto
  then show ?thesis by (simp add: cache_sound_def)
qed

text \<open>
  C18: in a rule set loaded from a directory, however many names were looked up before and whatever
  the cache kept or evicted, a process name resolves to the rule defined under exactly that name, and
  otherwise to the rule of the first pattern in load order that matches it.
\<close>
theorem look_ups_match_in_load_order:
  assumes "lru_ok L" and "load_directory L cfg (Some walk) (rs0, t0) = (log, rs, t)"
  shows "look_ups L ps rs =
    map (\<lambda>p. resolve rs (best_name L (loaded_lines cfg (sort_key file_path walk)) p)) ps"
  using look_ups_sound [OF assms(1) directory_cache_sound [OF assms]]
    find_best_match_name [OF regex_inv_directory [OF assms(2)]]
  by simp

lemma map_of_filter_neq: "map_of (filter (\<lambda>x. fst x \<noteq> k) c) j = (if j = k then None else map_of c j)"
  by (induction c) auto

lemma map_of_takeD: "map_of (take n xs) j = Some x \<Longrightarrow> map_of xs j = Some x"
  by (metis append_take_drop_id map_add_Some_iff map_of_append)

lemma sample_lru_ok: "lru_ok sample_lib"
proof -
  have get: "fst (lru_get j c) = map_of c j" for j c
    by (simp add: lru_get_def split: option.split)
  have a: "fst (lru_get j (snd (lru_get k c))) = fst (lru_get j c)" for j k c
    unfolding get by (auto simp: lru_get_def map_of_filter_neq split: option.split)
  have b: "if j = k then x = v else fst (lru_get j c) = Some x"
    if "fst (lru_get j (lru_put k v c)) = Some x" for j k v c x
  proof -
    from that have "map_of ((k, v) # filter (\<lambda>x. fst x \<noteq> k) c) j = Some x"
      unfolding get lru_put_def by (rule map_of_takeD)
    then show ?thesis by (cases "j = k") (simp_all add: get map_of_filter_neq)
  qed
  have c: "fst (lru_get j []) = None" for j by (simp add: lru_get_def)
  have sel: "lib_cache_get sample_lib = lru_get" "lib_cache_put sample_lib = lru_put"
    "lib_cache_clear sample_lib = (\<lambda>c. [])"
    by (simp_all add: sample_lib_def)
  show ?thesis unfolding lru_ok_def sel using a b c by blast
qed

theorem look_ups_match_in_load_order_witness:
  "\<exists>log rs t. load_directory sample_lib default_snapshot (Some sample_walk) (new_rules [], empty_table) =
      (log, rs, t) \<and>
    look_ups sample_lib [''Doo'', ''doom'', ''Doo''] rs =
      map (\<lambda>p. resolve rs (best_name sample_lib
          (loaded_lines default_snapshot (sort_key file_path sample_walk)) p)) [''Doo'', ''doom'', ''Doo'']"
  using sample_loaded look_ups_match_in_load_order [OF sample_lru_ok] by blast

text \<open>The set after a sequence of lookups.\<close>

definition after_look_ups :: "('rx, 'c) lib \<Rightarrow> string list \<Rightarrow> ('rx, 'c) rule_set \<Rightarrow> ('rx, 'c) rule_set" where
  "after_look_ups L ps rs = fold (\<lambda>p rs. snd (get_rule L p rs)) ps rs"

lemma after_look_ups_sound: "lru_ok L \<Longrightarrow> cache_sound L rs \<Longrightarrow> cache_sound L (after_look_ups L ps rs)"
  unfolding after_look_ups_def by (induction ps arbitrary: rs) (simp_all add: get_rule_sound(2))

text \<open>
  The cache of resolved names never holds a name of more than 256 bytes, however long the process
  names looked up are, so that its capacity bounds its memory.
\<close>
theorem cached_names_bounded:
  assumes "lru_ok L" and "load_directory L cfg (Some walk) (rs0, t0) = (log, rs, t)"
    and "resolved_cache (after_look_ups L ps rs) = Some c"
    and "fst (lib_cache_get L k c) = Some x"
  shows "length k \<le> 256"
  using after_look_ups_sound [OF assms(1) directory_cache_sound [OF assms(1,2)], of ps] assms(3,4)
  by (simp add: cache_sound_def max_cacheable_name_def)

theorem cached_names_bounded_witness:
  "length ''doom'' \<le> 256 \<and>
   (\<exists>log rs t c x. load_directory sample_lib default_snapshot (Some sample_walk) (new_rules [], empty_table) =
      (log, rs, t) \<and>
    resolved_cache (after_look_ups sample_lib [''doom''] rs) = Some c \<and>
    fst (lib_cache_get sample_lib ''doom'' c) = Some x)"
proof -
  obtain log rs t where l:
    "load_directory sample_lib default_snapshot (Some sample_walk) (new_rules [], empty_table) = (log, rs, t)"
    by (metis prod_cases3)
  then have "resolved_cache rs = Some []"
    by (auto simp: eval_simps sample_lib_def sample_walk_def)
  moreover have "take 5000 [y] = [y]" for y :: "string \<times> string option" by (rule take_all) simp
  ultimately have c: "resolved_cache (after_look_ups sample_lib [''doom''] rs) =
      Some [(''doom'', find_best_match sample_lib rs ''doom'')]"
    by (simp add: after_look_ups_def get_rule_def sample_lib_def lru_get_def lru_put_def Let_def
        max_cacheable_name_def del: take_Suc_Cons)
  have g: "fst (lib_cache_get sample_lib ''doom'' [(''doom'', find_best_match sample_lib rs ''doom'')]) =
      Some (find_best_match sample_lib rs ''doom'')"
    by (simp add: sample_lib_def lru_get_def)
  show ?thesis using cached_names_bounded [OF sample_lru_ok l c g] l c g by blast
qed

subsection \<open>Superseded patterns\<close>

lemma map_filter_memI: "x \<in> set xs \<Longrightarrow> f x = Some y \<Longrightarrow> y \<in> set (List.map_filter f xs)"
  by (induction xs) (auto split: option.split)

text \<open>
  The pattern of a definition stays in force after a later definition of the same name without
  that pattern: a process whose name matches it is still given a rule.
\<close>
theorem superseded_pattern_still_matches:
  assumes "load_directory L cfg (Some walk) (rs0, t0) = (log, rs, t)"
    and "l \<in> set (loaded_lines cfg (sort_key file_path walk))"
    and "classify L l = Program n v" and "str_member v ''name_regex'' = Some s"
    and "lib_compile L s = Some rx" and "lib_try_match L rx p = Some True"
  shows "find_best_match L rs p \<noteq> None"
proof -
  let ?m = "\<lparr>compiled = rx, matcher_name = n\<rparr>"
  have "?m \<in> set (regexes L (loaded_lines cfg (sort_key file_path walk)))"
    using map_filter_memI [of l _ "line_regex L"] assms(2-5)
    by (simp add: regexes_def line_regex_def compile_def)
  moreover have "is_match L ?m p" using assms(6) by (simp add: is_match_def)
  ultimately have "find (\<lambda>m. is_match L m p) (regexes L (loaded_lines cfg (sort_key file_path walk))) \<noteq> None"
    by (auto simp: find_None_iff)
  then show ?thesis
    by (simp add: find_best_match_name [OF regex_inv_directory [OF assms(1)]] best_name_def)
qed

definition override_walk :: "rule_file list" where
  "override_walk =
     [\<lparr>file_path = [''a.rules''], file_content = Some ''{p}''\<rparr>,
      \<lparr>file_path = [''b.rules''], file_content = Some ''{q}''\<rparr>]"

theorem superseded_pattern_still_matches_witness:
  "let ls = loaded_lines default_snapshot (sort_key file_path override_walk) in
   Option.bind (program_defs sample_lib ls ''doom'') (\<lambda>v. str_member v ''name_regex'') = None \<and>
   (\<exists>log rs t. load_directory sample_lib default_snapshot (Some override_walk) (new_rules [], empty_table) =
      (log, rs, t) \<and> find_best_match sample_lib rs ''Doo'' \<noteq> None)"
proof -
  let ?v = "JObject [(''name'', JString ''doom''), (''type'', JString ''Game''),
              (''nice'', JNull), (''name_regex'', JString ''D'')]"
  let ?ls = "loaded_lines default_snapshot (sort_key file_path override_walk)"
  have ls: "?ls = [''{p}'', ''{q}'']"
    by (simp add: loaded_lines_def file_lines_def override_walk_def eval_simps)
  have cl: "classify sample_lib ''{p}'' = Program ''doom'' ?v"
    "classify sample_lib ''{q}'' = Program ''doom'' (JObject [(''name'', JString ''doom'')])"
    by (simp_all add: classify_def eval_simps sample_lib_def)
  obtain log rs t where l:
    "load_directory sample_lib default_snapshot (Some override_walk) (new_rules [], empty_table) = (log, rs, t)"
    by (metis prod_cases3)
  have "find_best_match sample_lib rs ''Doo'' \<noteq> None"
    by (rule superseded_pattern_still_matches [OF l _ cl(1), of "''D''" "''D''"])
       (simp_all add: ls str_member_def sample_lib_def)
  then show ?thesis
    using l by (auto simp: Let_def ls program_defs_def cl str_member_def)
qed

subsection \<open>The settings of a process name\<close>

text \<open>The settings a process name gets from the lines of the rule files alone.\<close>

definition spec_settings :: "('rx, 'c) lib \<Rightarrow> string list \<Rightarrow> string \<Rightarrow> settings option" where
  "spec_settings L ls name =
     Option.bind (best_name L ls name)
       (\<lambda>n. map_option (\<lambda>v. settings_of (spec_view (with_type (type_defs L ls) v))) (program_defs L ls n))"

lemma resolve_settings:
  assumes "\<And>n. map_option (\<lambda>(m, r). (m, rule_settings t r)) (resolve rs (Some n)) =
      map_option (\<lambda>v. (n, settings_of (spec_view (with_type (type_defs L ls) v)))) (program_defs L ls n)"
  shows "map_option (\<lambda>(m, r). rule_settings t r) (resolve rs (best_name L ls name)) = spec_settings L ls name"
proof (cases "best_name L ls name")
  case (Some n)
  have "map_option snd (map_option (\<lambda>(m, r). (m, rule_settings t r)) (resolve rs (Some n))) =
      map_option snd (map_option (\<lambda>v. (n, settings_of (spec_view (with_type (type_defs L ls) v))))
        (program_defs L ls n))"
    using assms by simp
  with Some show ?thesis by (simp add: spec_settings_def option.map_comp comp_def case_prod_unfold)
qed (simp add: spec_settings_def resolve_def)

lemma loaded_lookup:
  assumes "table_wf t0" and "parser_ok L" and "iter_ok L"
    and "load_directory L cfg (Some walk) (rs0, t0) = (log, rs, t)" and "\<not> table_full t"
    and "length (loaded_lines cfg (sort_key file_path walk)) \<le> 2 ^ 32"
  shows "map_option (\<lambda>(m, r). rule_settings t r) (resolve rs (find_best_match L rs name)) =
    spec_settings L (loaded_lines cfg (sort_key file_path walk)) name"
  unfolding find_best_match_name [OF regex_inv_directory [OF assms(4)]]
  by (rule resolve_settings) (rule loaded_settings [OF assms])

text \<open>The rule set after any number of look-ups: the loaded one with another cache.\<close>

definition still_loaded :: "('rx, 'c) lib \<Rightarrow> ('rx, 'c) rule_set \<Rightarrow> ('rx, 'c) rule_set \<Rightarrow> bool" where
  "still_loaded L rs rs' \<longleftrightarrow> (\<exists>c. rs' = rs\<lparr>resolved_cache := c\<rparr>) \<and> cache_sound L rs'"

lemma still_loaded_get:
  assumes "lru_ok L" and "still_loaded L rs rs'"
  shows "still_loaded L rs (snd (get_rule L name rs'))"
proof -
  obtain c d where "rs' = rs\<lparr>resolved_cache := c\<rparr>" "snd (get_rule L name rs') = rs'\<lparr>resolved_cache := d\<rparr>"
    using assms(2) get_rule_frame [of L name rs'] unfolding still_loaded_def by blast
  then show ?thesis
    using get_rule_sound(2) [OF assms(1), of rs' name] assms(2) by (auto simp: still_loaded_def)
qed

lemma still_loaded_found:
  assumes "lru_ok L" and "still_loaded L rs rs'"
  shows "fst (get_rule L name rs') = resolve rs (find_best_match L rs name)"
proof -
  obtain c where "rs' = rs\<lparr>resolved_cache := c\<rparr>" using assms(2) by (auto simp: still_loaded_def)
  then have "resolve rs' (find_best_match L rs' name) = resolve rs (find_best_match L rs name)"
    by (auto simp: resolve_def find_best_match_def split: option.split)
  with get_rule_sound(1) [OF assms(1), of rs' name] assms(2) show ?thesis by (simp add: still_loaded_def)
qed

lemma loaded_still: "lru_ok L \<Longrightarrow> load_directory L cfg (Some walk) (rs0, t0) = (log, rs, t) \<Longrightarrow> still_loaded L rs rs"
  using directory_cache_sound [of L cfg walk rs0 t0 log rs t] by (auto simp: still_loaded_def intro: exI [of _ "resolved_cache rs"])

end
