(* ===== verification/Cpu_Bits.thy ===== *)
theory Cpu_Bits
  imports Prelude
begin

text \<open>
  The interface between a set of CPUs and the code that fills one in. Both
  representations the daemon has, the \<^verbatim>\<open>Vec<bool>\<close> of \<^verbatim>\<open>CpuSet\<close> and the byte mask
  handed to \<^verbatim>\<open>sched_setaffinity\<close>, are filled bit by bit by a loop over a list of CPU
  numbers. The locale states the laws one insertion has; the lemmas about the loops
  are proved here once and instantiated for each representation.
\<close>

locale cpu_bits =
  fixes bits_wf :: "'s \<Rightarrow> bool"
    and capacity :: "'s \<Rightarrow> nat"
    and insert_bit :: "nat \<Rightarrow> 's \<Rightarrow> 's"
    and has_bit :: "'s \<Rightarrow> nat \<Rightarrow> bool"
  assumes insert_wf: "bits_wf s \<Longrightarrow> bits_wf (insert_bit c s)"
    and insert_capacity: "bits_wf s \<Longrightarrow> capacity (insert_bit c s) = capacity s"
    and has_insert:
      "bits_wf s \<Longrightarrow> has_bit (insert_bit c s) d \<longleftrightarrow> has_bit s d \<or> d = c \<and> c < capacity s"
begin

lemma fold_wf: "bits_wf s \<Longrightarrow> bits_wf (fold insert_bit cs s)"
  by (induction cs arbitrary: s) (simp_all add: insert_wf)

lemma fold_capacity: "bits_wf s \<Longrightarrow> capacity (fold insert_bit cs s) = capacity s"
  by (induction cs arbitrary: s) (simp_all add: insert_wf insert_capacity)

lemma has_fold:
  "bits_wf s \<Longrightarrow>
     has_bit (fold insert_bit cs s) d \<longleftrightarrow> has_bit s d \<or> d \<in> set cs \<and> d < capacity s"
proof (induction cs arbitrary: s)
  case (Cons c cs)
  then show ?case by (auto simp: insert_wf insert_capacity has_insert)
qed simp

text \<open>Filling in a list and then another is filling in both, in any order and number.\<close>

lemma has_fold_eq:
  "bits_wf s \<Longrightarrow> set cs = set ds \<Longrightarrow>
     has_bit (fold insert_bit cs s) d = has_bit (fold insert_bit ds s) d"
  by (simp add: has_fold)

end

end
