(* ===== verification/Cpu_Set.thy ===== *)
theory Cpu_Set
  imports Rust_Str Cpu_Bits
begin

text \<open>
  \<^verbatim>\<open>crates/ananicy-core/src/cpuset.rs\<close>: the \<^verbatim>\<open>CpuSet\<close> of a rule's \<^verbatim>\<open>cpuset\<close>
  attribute, its operations, its parser and its \<^verbatim>\<open>Display\<close>. The struct invariant is
  that the vector has one entry per core; every operation keeps it, the parser only
  builds sets whose members are the CPUs written, and what \<^verbatim>\<open>Display\<close> prints for a
  non-empty set parses back to that set.
\<close>

record cpu_set =
  max_cores :: nat
  cores :: "bool list"

definition cpuset_wf :: "cpu_set \<Rightarrow> bool" where
  "cpuset_wf s \<longleftrightarrow> length (cores s) = max_cores s \<and> max_cores s < 2 ^ 32"

definition new_set :: "nat \<Rightarrow> cpu_set" where
  "new_set m = \<lparr>max_cores = m, cores = replicate m False\<rparr>"

definition set_cpu :: "nat \<Rightarrow> cpu_set \<Rightarrow> cpu_set" where
  "set_cpu cpu s = (if cpu < max_cores s then s\<lparr>cores := (cores s)[cpu := True]\<rparr> else s)"

definition clear_cpu :: "nat \<Rightarrow> cpu_set \<Rightarrow> cpu_set" where
  "clear_cpu cpu s = (if cpu < max_cores s then s\<lparr>cores := (cores s)[cpu := False]\<rparr> else s)"

definition zero_set :: "cpu_set \<Rightarrow> cpu_set" where
  "zero_set s = s\<lparr>cores := replicate (length (cores s)) False\<rparr>"

definition valid_set :: "cpu_set \<Rightarrow> bool" where
  "valid_set s = True"

definition has_cpu :: "cpu_set \<Rightarrow> nat \<Rightarrow> bool" where
  "has_cpu s cpu \<longleftrightarrow> cpu < max_cores s \<and> cores s ! cpu"

definition is_empty :: "cpu_set \<Rightarrow> bool" where
  "is_empty s \<longleftrightarrow> \<not> list_ex (\<lambda>c. c) (cores s)"

text \<open>\<^verbatim>\<open>cores()\<close>, and \<^verbatim>\<open>get_cores()\<close> which collects it: the indices of the set entries.\<close>

definition get_cores :: "cpu_set \<Rightarrow> nat list" where
  "get_cores s = map fst (filter snd (zip [0..<length (cores s)] (cores s)))"

subsection \<open>Parsing\<close>

text \<open>One turn of the token loop per equation; \<open>rest = []\<close> is the peek that finds nothing.\<close>

fun parse_tokens :: "nat \<Rightarrow> cpu_set \<Rightarrow> string list \<Rightarrow> cpu_set option" where
  "parse_tokens m s [] = Some s"
| "parse_tokens m s (tok # rest) =
     (let token = trim tok in
      if token = [] then
        (if rest = [] then parse_tokens m s rest else None)
      else
        (case split_once (CHR ''-'') token of
           Some (start_str, end_str) \<Rightarrow>
             (case parse_u32 start_str of
                None \<Rightarrow> None
              | Some start \<Rightarrow>
                  (case parse_u32 end_str of
                     None \<Rightarrow> None
                   | Some end' \<Rightarrow>
                       if end' < start \<or> m \<le> end' then None
                       else parse_tokens m (fold set_cpu [start..<Suc end'] s) rest))
         | None \<Rightarrow>
             (case parse_u32 token of
                None \<Rightarrow> None
              | Some cpu \<Rightarrow>
                  if m \<le> cpu then None else parse_tokens m (set_cpu cpu s) rest)))"

definition parse :: "string \<Rightarrow> nat \<Rightarrow> cpu_set option" where
  "parse str m =
     (let s = trim str in
      if s = [] then None else parse_tokens m (new_set m) (split_on (CHR '','') s))"

subsection \<open>Printing\<close>

text \<open>The text pushed for the range that ended just before \<open>i\<close>.\<close>

definition show_range :: "nat \<Rightarrow> nat \<Rightarrow> string" where
  "show_range start i =
     (if i - 1 = start then show_nat start else show_nat start @ ''-'' @ show_nat (i - 1))"

text \<open>The loop \<^verbatim>\<open>for i in 0..max_cores\<close> over the triple (ranges, in_range, range_start).\<close>

fun display_step :: "cpu_set \<Rightarrow> nat \<Rightarrow> string list \<times> bool \<times> nat \<Rightarrow> string list \<times> bool \<times> nat" where
  "display_step s i (ranges, in_range, range_start) =
     (let active = cores s ! i in
      if active \<and> \<not> in_range then (ranges, True, i)
      else if \<not> active \<and> in_range then (ranges @ [show_range range_start i], False, range_start)
      else (ranges, in_range, range_start))"

definition display_ranges :: "cpu_set \<Rightarrow> string list" where
  "display_ranges s =
     (case fold (display_step s) [0..<max_cores s] ([], False, 0) of
        (ranges, in_range, range_start) \<Rightarrow>
          if in_range then ranges @ [show_range range_start (max_cores s)] else ranges)"

definition display :: "cpu_set \<Rightarrow> string" where
  "display s = join '','' (display_ranges s)"

subsection \<open>The struct invariant and the meaning of each operation\<close>

lemma new_set_wf [simp]: "m < 2 ^ 32 \<Longrightarrow> cpuset_wf (new_set m)"
  by (simp add: cpuset_wf_def new_set_def)

lemma set_cpu_wf [simp]: "cpuset_wf s \<Longrightarrow> cpuset_wf (set_cpu c s)"
  by (simp add: cpuset_wf_def set_cpu_def)

lemma clear_cpu_wf [simp]: "cpuset_wf s \<Longrightarrow> cpuset_wf (clear_cpu c s)"
  by (simp add: cpuset_wf_def clear_cpu_def)

lemma zero_set_wf [simp]: "cpuset_wf s \<Longrightarrow> cpuset_wf (zero_set s)"
  by (simp add: cpuset_wf_def zero_set_def)

lemma max_cores_ops [simp]:
  "max_cores (new_set m) = m"
  "max_cores (set_cpu c s) = max_cores s"
  "max_cores (clear_cpu c s) = max_cores s"
  "max_cores (zero_set s) = max_cores s"
  by (simp_all add: new_set_def set_cpu_def clear_cpu_def zero_set_def)

lemma has_cpu_new [simp]: "\<not> has_cpu (new_set m) d"
  by (simp add: has_cpu_def new_set_def)

lemma has_cpu_set:
  "cpuset_wf s \<Longrightarrow> has_cpu (set_cpu c s) d \<longleftrightarrow> has_cpu s d \<or> d = c \<and> c < max_cores s"
  by (auto simp: has_cpu_def set_cpu_def cpuset_wf_def nth_list_update)

lemma has_cpu_clear:
  "cpuset_wf s \<Longrightarrow> has_cpu (clear_cpu c s) d \<longleftrightarrow> has_cpu s d \<and> d \<noteq> c"
  by (auto simp: has_cpu_def clear_cpu_def cpuset_wf_def nth_list_update)

lemma has_cpu_zero: "cpuset_wf s \<Longrightarrow> \<not> has_cpu (zero_set s) d"
  by (simp add: has_cpu_def zero_set_def cpuset_wf_def)

interpretation cset: cpu_bits cpuset_wf max_cores set_cpu has_cpu
  by unfold_locales (simp_all add: has_cpu_set)

lemma cpuset_eqI:
  assumes "cpuset_wf s" "cpuset_wf t" "max_cores s = max_cores t"
    and "\<And>c. has_cpu s c = has_cpu t c"
  shows "s = t"
proof -
  have "cores s = cores t"
    using assms by (intro nth_equalityI) (auto simp: cpuset_wf_def has_cpu_def)
  with assms(3) show ?thesis by simp
qed

lemma set_get_cores: "cpuset_wf s \<Longrightarrow> set (get_cores s) = {c. has_cpu s c}"
proof (rule set_eqI)
  fix c
  assume wf: "cpuset_wf s"
  have "c \<in> set (get_cores s) \<longleftrightarrow> (\<exists>b. (c, b) \<in> set (zip [0..<length (cores s)] (cores s)) \<and> b)"
    by (force simp: get_cores_def)
  also have "\<dots> \<longleftrightarrow> c < length (cores s) \<and> cores s ! c"
    by (auto simp: set_zip intro!: exI [of _ True] exI [of _ c])
  finally show "c \<in> set (get_cores s) \<longleftrightarrow> c \<in> {c. has_cpu s c}"
    using wf by (simp add: has_cpu_def cpuset_wf_def)
qed

lemma sorted_get_cores: "sorted (get_cores s)" "distinct (get_cores s)"
proof -
  have "distinct (map fst (zip [0..<length (cores s)] (cores s)))" by simp
  then show "distinct (get_cores s)" unfolding get_cores_def by (rule distinct_map_filter)
  have "sorted (map fst (zip [0..<length (cores s)] (cores s)))" by simp
  then show "sorted (get_cores s)" unfolding get_cores_def by (rule sorted_filter)
qed

lemma is_empty_iff: "cpuset_wf s \<Longrightarrow> is_empty s \<longleftrightarrow> (\<forall>c. \<not> has_cpu s c)"
  by (auto simp: is_empty_def list_ex_iff has_cpu_def cpuset_wf_def in_set_conv_nth)

subsection \<open>What the parser accepts\<close>

text \<open>The range a trimmed, non-empty token denotes: the declarative reading of a token.\<close>

definition token_range :: "string \<Rightarrow> (nat \<times> nat) option" where
  "token_range token =
     (case split_once (CHR ''-'') token of
        Some (a, b) \<Rightarrow>
          (case (parse_u32 a, parse_u32 b) of (Some x, Some y) \<Rightarrow> Some (x, y) | _ \<Rightarrow> None)
      | None \<Rightarrow> map_option (\<lambda>x. (x, x)) (parse_u32 token))"

text \<open>One token of the loop, read through \<open>token_range\<close>.\<close>

lemma parse_tokens_Cons:
  "trim tok \<noteq> [] \<Longrightarrow>
     parse_tokens m s (tok # rest) =
       (case token_range (trim tok) of
          None \<Rightarrow> None
        | Some (a, b) \<Rightarrow>
            if b < a \<or> m \<le> b then None
            else parse_tokens m (fold set_cpu [a..<Suc b] s) rest)"
  by (auto simp: token_range_def Let_def split: option.splits)

lemma parse_tokens_blank: "trim tok = [] \<Longrightarrow> parse_tokens m s [tok] = Some s"
  by simp

lemma parse_tokens_blank_Some:
  "trim tok = [] \<Longrightarrow> parse_tokens m s (tok # rest) = Some t \<Longrightarrow> rest = [] \<and> t = s"
  by (auto split: if_splits)

declare parse_tokens.simps(2) [simp del]

lemma parse_tokens_wf:
  "parse_tokens m s toks = Some t \<Longrightarrow> cpuset_wf s \<Longrightarrow> cpuset_wf t \<and> max_cores t = max_cores s"
proof (induction toks arbitrary: s)
  case (Cons tok toks)
  show ?case
  proof (cases "trim tok = []")
    case True
    with Cons.prems show ?thesis by (auto dest: parse_tokens_blank_Some)
  next
    case False
    with Cons.prems Cons.IH show ?thesis
      by (auto simp: parse_tokens_Cons cset.fold_wf cset.fold_capacity
          split: option.splits if_splits simp del: upt_Suc)
  qed
qed simp

lemma parse_tokens_has:
  "parse_tokens m s toks = Some t \<Longrightarrow> cpuset_wf s \<Longrightarrow> max_cores s = m \<Longrightarrow>
     has_cpu t c \<longleftrightarrow>
       has_cpu s c \<or> (\<exists>tok a b. tok \<in> set toks \<and> trim tok \<noteq> [] \<and>
                         token_range (trim tok) = Some (a, b) \<and> a \<le> c \<and> c \<le> b)"
proof (induction toks arbitrary: s)
  case (Cons tok toks)
  show ?case
  proof (cases "trim tok = []")
    case True
    with Cons.prems(1) have "toks = []" and "t = s" by (auto dest: parse_tokens_blank_Some)
    with True show ?thesis by auto
  next
    case False
    with Cons.prems(1) obtain a b where ab: "token_range (trim tok) = Some (a, b)"
        and bm: "a \<le> b" "b < m"
        and rest: "parse_tokens m (fold set_cpu [a..<Suc b] s) toks = Some t"
      by (auto simp: parse_tokens_Cons split: option.splits if_splits simp del: upt_Suc)
    have "has_cpu (fold set_cpu [a..<Suc b] s) c \<longleftrightarrow> has_cpu s c \<or> a \<le> c \<and> c \<le> b"
      using Cons.prems(2,3) bm by (auto simp: cset.has_fold simp del: upt_Suc)
    with Cons.IH [OF rest] Cons.prems(2,3) False ab show ?thesis
      by (auto simp: cset.fold_wf cset.fold_capacity)
  qed
qed simp

lemma parse_tokens_ranges:
  "parse_tokens m s toks = Some t \<Longrightarrow> tok \<in> set toks \<Longrightarrow> trim tok \<noteq> [] \<Longrightarrow>
     \<exists>a b. token_range (trim tok) = Some (a, b) \<and> a \<le> b \<and> b < m"
proof (induction toks arbitrary: s)
  case (Cons u toks)
  show ?case
  proof (cases "trim u = []")
    case True
    with Cons.prems show ?thesis by (auto dest: parse_tokens_blank_Some)
  next
    case False
    with Cons.prems(1) obtain a b where ab: "token_range (trim u) = Some (a, b)" "a \<le> b" "b < m"
        and rest: "parse_tokens m (fold set_cpu [a..<Suc b] s) toks = Some t"
      by (auto simp: parse_tokens_Cons split: option.splits if_splits simp del: upt_Suc)
    show ?thesis
    proof (cases "tok = u")
      case True
      with ab show ?thesis by auto
    next
      case False
      with Cons.prems(2,3) Cons.IH [OF rest] show ?thesis by simp
    qed
  qed
qed simp

lemma parse_SomeE:
  assumes "parse str m = Some s"
  obtains "trim str \<noteq> []" "parse_tokens m (new_set m) (split_on (CHR '','') (trim str)) = Some s"
  using assms by (auto simp: parse_def Let_def split: if_splits)

subsection \<open>What the printer prints\<close>

text \<open>
  The invariant of the display loop: the pushed texts are ranges below \<open>i\<close> that
  together with the range still open cover exactly the CPUs seen so far.
\<close>

definition range_ok :: "nat \<Rightarrow> nat \<times> nat \<Rightarrow> bool" where
  "range_ok m r \<longleftrightarrow> fst r < snd r \<and> snd r \<le> m"

definition covered :: "(nat \<times> nat) list \<Rightarrow> nat \<Rightarrow> bool" where
  "covered rs c \<longleftrightarrow> (\<exists>r \<in> set rs. fst r \<le> c \<and> c < snd r)"

definition display_inv :: "cpu_set \<Rightarrow> nat \<Rightarrow> string list \<times> bool \<times> nat \<Rightarrow> bool" where
  "display_inv s i st \<longleftrightarrow>
     (case st of (ps, inr, start) \<Rightarrow>
        (inr \<longrightarrow> start < i) \<and>
        (\<exists>rs. ps = map (\<lambda>r. show_range (fst r) (snd r)) rs \<and> (\<forall>r \<in> set rs. range_ok i r) \<and>
              (\<forall>c < i. cores s ! c \<longleftrightarrow> covered rs c \<or> inr \<and> start \<le> c)))"

lemma range_ok_mono: "range_ok i r \<Longrightarrow> range_ok (Suc i) r"
  by (simp add: range_ok_def)

lemma covered_bound: "\<forall>r \<in> set rs. range_ok i r \<Longrightarrow> covered rs c \<Longrightarrow> c < i"
  by (auto simp: covered_def range_ok_def)

lemma display_inv_step:
  assumes "display_inv s i st"
  shows "display_inv s (Suc i) (display_step s i st)"
proof -
  obtain ps inr start where st: "st = (ps, inr, start)" by (cases st)
  with assms obtain rs where ps: "ps = map (\<lambda>r. show_range (fst r) (snd r)) rs"
      and ok: "\<forall>r \<in> set rs. range_ok i r" and start: "inr \<Longrightarrow> start < i"
      and cov: "\<And>c. c < i \<Longrightarrow> cores s ! c \<longleftrightarrow> covered rs c \<or> inr \<and> start \<le> c"
    by (auto simp: display_inv_def)
  have nc: "\<not> covered rs i" using covered_bound [OF ok, of i] by auto
  show ?thesis
  proof (cases "\<not> cores s ! i \<and> inr")
    case True
    let ?rs = "rs @ [(start, i)]"
    have "\<forall>r \<in> set ?rs. range_ok (Suc i) r"
      using ok start True by (auto simp: range_ok_def)
    moreover have "\<forall>c < Suc i. cores s ! c \<longleftrightarrow> covered ?rs c"
      using cov True nc by (auto simp: less_Suc_eq covered_def)
    ultimately show ?thesis
      using True st ps by (auto simp: display_inv_def intro!: exI [of _ ?rs])
  next
    case False
    have "\<forall>r \<in> set rs. range_ok (Suc i) r" using ok by (auto intro: range_ok_mono)
    then show ?thesis
      using False st ps cov nc start
      by (auto simp: display_inv_def less_Suc_eq Let_def intro!: exI [of _ rs]
          dest: covered_bound [OF ok])
  qed
qed

lemma display_inv_fold: "display_inv s n (fold (display_step s) [0..<n] ([], False, 0))"
proof (induction n)
  case 0
  show ?case by (simp add: display_inv_def)
next
  case (Suc n)
  then show ?case using display_inv_step by (simp del: display_step.simps)
qed

lemma display_ranges_cover:
  obtains rs where "display_ranges s = map (\<lambda>r. show_range (fst r) (snd r)) rs"
    and "\<forall>r \<in> set rs. range_ok (max_cores s) r"
    and "\<And>c. c < max_cores s \<Longrightarrow> cores s ! c \<longleftrightarrow> covered rs c"
proof -
  let ?st = "fold (display_step s) [0..<max_cores s] ([], False, 0)"
  obtain ps inr start where st: "?st = (ps, inr, start)" by (cases ?st)
  with display_inv_fold [of s "max_cores s"] obtain rs
    where ps: "ps = map (\<lambda>r. show_range (fst r) (snd r)) rs"
      and ok: "\<forall>r \<in> set rs. range_ok (max_cores s) r" and start: "inr \<Longrightarrow> start < max_cores s"
      and cov: "\<And>c. c < max_cores s \<Longrightarrow> cores s ! c \<longleftrightarrow> covered rs c \<or> inr \<and> start \<le> c"
    by (auto simp: display_inv_def)
  let ?rs = "if inr then rs @ [(start, max_cores s)] else rs"
  have "display_ranges s = map (\<lambda>r. show_range (fst r) (snd r)) ?rs"
    using st ps by (simp add: display_ranges_def)
  moreover have "\<forall>r \<in> set ?rs. range_ok (max_cores s) r"
    using ok start by (auto simp: range_ok_def)
  moreover have "\<And>c. c < max_cores s \<Longrightarrow> cores s ! c \<longleftrightarrow> covered ?rs c"
    using cov by (auto simp: covered_def)
  ultimately show thesis by (rule that)
qed

subsection \<open>Printing and parsing are inverse\<close>

lemma plain_char_punct [simp]: "plain_char (CHR ''-'')" "plain_char (CHR '','')"
  by (simp_all add: plain_char_def ascii_ws_def)

lemma show_range_chars:
  "c \<in> set (show_range a b) \<Longrightarrow> digit_val c \<noteq> None \<or> c = CHR ''-''"
  using set_show_nat by (auto simp: show_range_def split: if_splits)

lemma show_range_plain: "c \<in> set (show_range a b) \<Longrightarrow> plain_char c"
  using show_range_chars [of c a b] digit_plain [of c] by auto

lemma show_range_props [simp]:
  "show_range a b \<noteq> []" "CHR '','' \<notin> set (show_range a b)" "trim (show_range a b) = show_range a b"
proof -
  show "show_range a b \<noteq> []" by (simp add: show_range_def)
  show "CHR '','' \<notin> set (show_range a b)" using show_range_chars [of "CHR '',''" a b] by auto
  show "trim (show_range a b) = show_range a b" by (rule trim_all_plain) (rule show_range_plain)
qed

lemma token_range_show:
  assumes "a < b" and "b < 2 ^ 32"
  shows "token_range (show_range a b) = Some (a, b - 1)"
proof (cases "b - 1 = a")
  case True
  with assms show ?thesis
    by (simp add: token_range_def show_range_def split_once_no_sep show_nat_no parse_u32_show)
next
  case False
  then have "show_range a b = show_nat a @ CHR ''-'' # show_nat (b - 1)"
    by (simp add: show_range_def)
  with assms show ?thesis
    by (simp add: token_range_def split_once_append show_nat_no parse_u32_show)
qed

lemma parse_tokens_total:
  "(\<And>tok. tok \<in> set toks \<Longrightarrow> trim tok \<noteq> [] \<and>
       (\<exists>a b. token_range (trim tok) = Some (a, b) \<and> a \<le> b \<and> b < m)) \<Longrightarrow>
     \<exists>t. parse_tokens m s toks = Some t"
proof (induction toks arbitrary: s)
  case (Cons tok toks)
  from Cons.prems [of tok] obtain a b where "trim tok \<noteq> []"
      and "token_range (trim tok) = Some (a, b)" "a \<le> b" "b < m"
    by auto
  with Cons.IH Cons.prems show ?case by (simp add: parse_tokens_Cons del: upt_Suc)
qed simp

lemma join_plain:
  "(\<And>p c. p \<in> set ps \<Longrightarrow> c \<in> set p \<Longrightarrow> plain_char c) \<Longrightarrow>
     c \<in> set (join '','' ps) \<Longrightarrow> plain_char c"
proof (induction ps)
  case (Cons p ps)
  then show ?case by (cases ps) auto
qed simp

lemma join_Nil_iff: "(\<And>p. p \<in> set ps \<Longrightarrow> p \<noteq> []) \<Longrightarrow> join d ps = [] \<longleftrightarrow> ps = []"
proof (induction ps)
  case (Cons p ps)
  then show ?case by (cases ps) auto
qed simp

text \<open>A list of printed ranges parses to the set it covers, whichever printer wrote it.\<close>

definition show_ranges :: "(nat \<times> nat) list \<Rightarrow> string list" where
  "show_ranges rs = map (\<lambda>r. show_range (fst r) (snd r)) rs"

lemma parse_show_tokens:
  assumes "rs \<noteq> []"
  shows "parse (join '','' (show_ranges rs)) m = parse_tokens m (new_set m) (show_ranges rs)"
proof -
  let ?ps = "show_ranges rs"
  have nonempty: "p \<noteq> []" and plain: "\<And>c. c \<in> set p \<Longrightarrow> plain_char c"
      and nocomma: "CHR '','' \<notin> set p" if "p \<in> set ?ps" for p
    using that show_range_plain by (auto simp: show_ranges_def)
  have ne: "?ps \<noteq> []" using assms by (simp add: show_ranges_def)
  have "trim (join '','' ?ps) = join '','' ?ps" using join_plain [OF plain] by (intro trim_all_plain) auto
  moreover have "join '','' ?ps \<noteq> []" using join_Nil_iff [of ?ps "'',''"] nonempty ne by auto
  moreover have "split_on (CHR '','') (join '','' ?ps) = ?ps"
    using ne nocomma by (intro split_on_join) auto
  ultimately show ?thesis by (simp add: parse_def Let_def)
qed

lemma parse_show_ranges:
  assumes "rs \<noteq> []" and ok: "\<forall>r \<in> set rs. range_ok m r" and m: "m < 2 ^ 32"
  obtains t where "parse (join '','' (show_ranges rs)) m = Some t" and "cpuset_wf t" and "max_cores t = m"
    and "\<And>c. has_cpu t c \<longleftrightarrow> covered rs c"
proof -
  have rb: "fst r < snd r" "snd r \<le> m" if "r \<in> set rs" for r
    using ok that by (auto simp: range_ok_def)
  have tr: "token_range (show_range (fst r) (snd r)) = Some (fst r, snd r - 1)"
    if "r \<in> set rs" for r
    using rb [OF that] m by (intro token_range_show) linarith+
  have "\<exists>t. parse_tokens m (new_set m) (show_ranges rs) = Some t"
  proof (rule parse_tokens_total)
    fix tok
    assume "tok \<in> set (show_ranges rs)"
    then obtain r where r: "r \<in> set rs" and tok: "tok = show_range (fst r) (snd r)" by (auto simp: show_ranges_def)
    have "fst r \<le> snd r - 1" and "snd r - 1 < m" using rb [OF r] by linarith+
    with tr [OF r]
    show "trim tok \<noteq> [] \<and> (\<exists>a b. token_range (trim tok) = Some (a, b) \<and> a \<le> b \<and> b < m)"
      by (simp add: tok)
  qed
  then obtain t where t: "parse_tokens m (new_set m) (show_ranges rs) = Some t" by blast
  have "has_cpu t c \<longleftrightarrow> covered rs c" for c
  proof -
    have "has_cpu t c \<longleftrightarrow> (\<exists>r \<in> set rs. fst r \<le> c \<and> c \<le> snd r - 1)"
      using parse_tokens_has [OF t] m tr by (auto simp: show_ranges_def)
    also have "\<dots> \<longleftrightarrow> covered rs c" using rb by (force simp: covered_def)
    finally show ?thesis .
  qed
  moreover have "parse (join '','' (show_ranges rs)) m = Some t"
    using t parse_show_tokens [OF assms(1)] by simp
  ultimately show thesis using parse_tokens_wf [OF t] m that by simp
qed

text \<open>
  C14: \<^verbatim>\<open>Display\<close> and \<^verbatim>\<open>CpuSet::parse\<close> are inverse: for every well-formed, non-empty set
  the printed list of ranges parses, with the same number of cores, to that very set.
\<close>

theorem parse_display:
  assumes wf: "cpuset_wf s" and ne: "\<not> is_empty s"
  shows "parse (display s) (max_cores s) = Some s"
proof -
  let ?m = "max_cores s"
  from wf have m: "?m < 2 ^ 32" and len: "length (cores s) = ?m" by (simp_all add: cpuset_wf_def)
  obtain rs where rs: "display_ranges s = show_ranges rs"
      and ok: "\<forall>r \<in> set rs. range_ok ?m r"
      and cov: "\<And>c. c < ?m \<Longrightarrow> cores s ! c \<longleftrightarrow> covered rs c"
    unfolding show_ranges_def using display_ranges_cover [of s] by blast
  have "rs \<noteq> []"
    using ne wf cov len by (auto simp: is_empty_iff has_cpu_def covered_def)
  then obtain t where t: "parse (display s) ?m = Some t" "cpuset_wf t" "max_cores t = ?m"
      and has: "\<And>c. has_cpu t c \<longleftrightarrow> covered rs c"
    using parse_show_ranges [OF _ ok m] unfolding display_def rs by blast
  have "has_cpu t c = has_cpu s c" for c
    using has cov covered_bound [OF ok] by (auto simp: has_cpu_def)
  with t wf have "t = s" by (intro cpuset_eqI) auto
  with t show ?thesis by simp
qed

definition example_set :: cpu_set where
  "example_set = \<lparr>max_cores = 8, cores = [True, True, True, False, False, True, False, True]\<rparr>"

theorem parse_display_witness:
  "cpuset_wf example_set \<and> \<not> is_empty example_set \<and> display example_set = ''0-2,5,7'' \<and>
   parse (display example_set) 8 = Some example_set"
proof -
  have wf: "cpuset_wf example_set" by (simp add: cpuset_wf_def example_set_def)
  have ne: "\<not> is_empty example_set" by (simp add: is_empty_def example_set_def)
  have d: "display example_set = ''0-2,5,7''" by code_simp
  show ?thesis using wf ne d parse_display [OF wf ne] by (simp add: example_set_def)
qed

text \<open>
  What \<^verbatim>\<open>CpuSet::parse\<close> accepts and what it builds: a successful parse yields a
  well-formed set for the given number of cores whose members are exactly the CPUs
  that some comma-separated token names, and every token names a non-empty range of
  existing cores.
\<close>

theorem parse_members:
  assumes "parse str m = Some s" and "m < 2 ^ 32"
  shows "cpuset_wf s \<and> max_cores s = m \<and>
    (\<forall>c. has_cpu s c \<longleftrightarrow>
       (\<exists>tok a b. tok \<in> set (split_on (CHR '','') (trim str)) \<and> trim tok \<noteq> [] \<and>
                  token_range (trim tok) = Some (a, b) \<and> a \<le> c \<and> c \<le> b)) \<and>
    (\<forall>tok. tok \<in> set (split_on (CHR '','') (trim str)) \<longrightarrow> trim tok \<noteq> [] \<longrightarrow>
       (\<exists>a b. token_range (trim tok) = Some (a, b) \<and> a \<le> b \<and> b < m))"
  using assms(1)
proof (rule parse_SomeE)
  assume "parse_tokens m (new_set m) (split_on (CHR '','') (trim str)) = Some s"
  note t = this
  show ?thesis
    using parse_tokens_wf [OF t] parse_tokens_has [OF t] parse_tokens_ranges [OF t] assms(2)
    by (simp add: new_set_wf)
qed

theorem parse_members_witness:
  "parse '' 1-2, 4,'' 8 \<noteq> None \<and>
   has_cpu (the (parse '' 1-2, 4,'' 8)) 4 \<and> max_cores (the (parse '' 1-2, 4,'' 8)) = 8"
proof -
  have p: "parse '' 1-2, 4,'' 8 =
    Some \<lparr>max_cores = 8, cores = (replicate 8 False)[1 := True, Suc 1 := True, 4 := True]\<rparr>"
    by (simp add: parse_def parse_tokens.simps eval_simps set_cpu_def new_set_def)
  show ?thesis using p parse_members [OF p] by (simp add: has_cpu_def)
qed

end
