(* ===== verification/Worker_Loop.thy ===== *)
theory Worker_Loop
  imports Platform_Error Rule_Lookup Cpu_Set Bpf_Monitor
begin

text \<open>
  \<^verbatim>\<open>crates/ananicy-core/src/worker.rs\<close>: the loop that takes processes from the queue, finds
  the rule for each and applies its attributes through the platform. The platform is a
  record of operations on a world of any type; each answers and leaves a new world. The
  configuration and the rule set can be replaced between two processes. The theorems
  show that a rule is a fixed plan of actions, all of which are tried in order whatever
  fails, and what the result reports; that a cpu weight is in range and falls with nice;
  and what the loop counts, ignores and reports.
\<close>

subsection \<open>Data\<close>

datatype rule_application = Applied | NoApplicable | Partial platform_error

text \<open>\<^verbatim>\<open>PlatformActions\<close>; an action answers \<open>None\<close> for \<^verbatim>\<open>Ok(())\<close>.\<close>

record 'w platform =
  is_realtime :: "int \<Rightarrow> 'w \<Rightarrow> bool"
  get_process_name :: "int \<Rightarrow> 'w \<Rightarrow> string \<times> 'w"
  is_cgroup_v2 :: bool
  get_max_cores :: nat
  get_tids :: "int \<Rightarrow> 'w \<Rightarrow> platform_error + int list"
  set_priority :: "int \<Rightarrow> int list \<Rightarrow> int \<Rightarrow> 'w \<Rightarrow> platform_error option \<times> 'w"
  set_latency :: "int \<Rightarrow> int list \<Rightarrow> int \<Rightarrow> 'w \<Rightarrow> platform_error option \<times> 'w"
  set_scheduler :: "int \<Rightarrow> int list \<Rightarrow> string \<Rightarrow> nat \<Rightarrow> 'w \<Rightarrow> platform_error option \<times> 'w"
  set_io_priority :: "int \<Rightarrow> string \<Rightarrow> int \<Rightarrow> 'w \<Rightarrow> platform_error option \<times> 'w"
  set_oom :: "int \<Rightarrow> int \<Rightarrow> 'w \<Rightarrow> platform_error option \<times> 'w"
  add_pid_to_cgroup :: "int \<Rightarrow> string \<Rightarrow> 'w \<Rightarrow> platform_error option \<times> 'w"
  set_cpu_weight :: "int \<Rightarrow> nat \<Rightarrow> 'w \<Rightarrow> platform_error option \<times> 'w"
  set_affinity :: "int \<Rightarrow> int list \<Rightarrow> cpu_set \<Rightarrow> 'w \<Rightarrow> platform_error option \<times> 'w"

text \<open>The two locals \<^verbatim>\<open>applied_any\<close> and \<^verbatim>\<open>partial_failure\<close> of \<^verbatim>\<open>apply_rule\<close>, with the world.\<close>

record 'w progress =
  applied_any :: bool
  partial_failure :: "platform_error option"
  world :: 'w

subsection \<open>Applying a rule\<close>

text \<open>The \<^verbatim>\<open>match\<close> on the answer of an action: success is noted, the first failure kept.\<close>

definition note_result :: "platform_error option \<times> 'w \<Rightarrow> 'w progress \<Rightarrow> 'w progress" where
  "note_result answer pr =
     (case answer of
        (None, w) \<Rightarrow> pr\<lparr>applied_any := True, world := w\<rparr>
      | (Some e, w) \<Rightarrow> pr\<lparr>partial_failure := get_or_insert (partial_failure pr) e, world := w\<rparr>)"

text \<open>
  \<^verbatim>\<open>(100.0 * 1.25f64.powf(-(nice as f64))) as u32\<close>, in exact arithmetic: the cast truncates
  and saturates, and the clamp follows. The double product is an integer only where
  the exact one is (nice -1 to 2), and exact there.
\<close>

definition u32_max :: nat where
  "u32_max = 4294967295"

definition weight_raw :: "int \<Rightarrow> nat" where
  "weight_raw n =
     (if 0 \<le> n then 100 * 4 ^ nat n div 5 ^ nat n else 100 * 5 ^ nat (- n) div 4 ^ nat (- n))"

definition cpu_weight :: "int \<Rightarrow> nat" where
  "cpu_weight n = max 1 (min 10000 (min u32_max (weight_raw n)))"

definition apply_cpu_weight_step ::
  "'w platform \<Rightarrow> config_snapshot \<Rightarrow> int \<Rightarrow> int \<Rightarrow> 'w progress \<Rightarrow> 'w progress" where
  "apply_cpu_weight_step pf cfg pid n pr =
     (if apply_cpu_weight cfg \<and> is_cgroup_v2 pf then
        (case set_cpu_weight pf pid (cpu_weight n) (world pr) of
           (None, w) \<Rightarrow> pr\<lparr>applied_any := True, world := w\<rparr>
         | (Some e, w) \<Rightarrow> pr\<lparr>world := w\<rparr>)
      else pr)"

definition apply_nice_step ::
  "'w platform \<Rightarrow> config_snapshot \<Rightarrow> int \<Rightarrow> int list \<Rightarrow> settings \<Rightarrow> 'w progress \<Rightarrow> 'w progress" where
  "apply_nice_step pf cfg pid tids s pr =
     (case (apply_nice cfg, set_nice s) of
        (True, Some n) \<Rightarrow>
          apply_cpu_weight_step pf cfg pid n (note_result (set_priority pf pid tids n (world pr)) pr)
      | _ \<Rightarrow> pr)"

definition apply_latnice_step ::
  "'w platform \<Rightarrow> config_snapshot \<Rightarrow> int \<Rightarrow> int list \<Rightarrow> settings \<Rightarrow> 'w progress \<Rightarrow> 'w progress" where
  "apply_latnice_step pf cfg pid tids s pr =
     (case (apply_latnice cfg, set_latency_nice s) of
        (True, Some n) \<Rightarrow> note_result (set_latency pf pid tids n (world pr)) pr
      | _ \<Rightarrow> pr)"

definition apply_sched_step ::
  "'w platform \<Rightarrow> config_snapshot \<Rightarrow> int \<Rightarrow> int list \<Rightarrow> settings \<Rightarrow> 'w progress \<Rightarrow> 'w progress" where
  "apply_sched_step pf cfg pid tids s pr =
     (case (apply_sched cfg, set_sched s) of
        (True, Some policy) \<Rightarrow>
          note_result
            (set_scheduler pf pid tids policy (case set_rtprio s of Some n \<Rightarrow> n | None \<Rightarrow> 1) (world pr)) pr
      | _ \<Rightarrow> pr)"

definition apply_ionice_step ::
  "'w platform \<Rightarrow> config_snapshot \<Rightarrow> int \<Rightarrow> settings \<Rightarrow> 'w progress \<Rightarrow> 'w progress" where
  "apply_ionice_step pf cfg pid s pr =
     (case (apply_ionice cfg, set_ioclass s) of
        (True, Some class') \<Rightarrow>
          note_result
            (set_io_priority pf pid class' (case set_ionice s of Some n \<Rightarrow> n | None \<Rightarrow> 0) (world pr)) pr
      | _ \<Rightarrow> pr)"

definition apply_oom_step ::
  "'w platform \<Rightarrow> config_snapshot \<Rightarrow> int \<Rightarrow> settings \<Rightarrow> 'w progress \<Rightarrow> 'w progress" where
  "apply_oom_step pf cfg pid s pr =
     (case (apply_oom_score_adj cfg, set_oom_score_adj s) of
        (True, Some n) \<Rightarrow> note_result (set_oom pf pid n (world pr)) pr
      | _ \<Rightarrow> pr)"

definition apply_cgroup_step ::
  "'w platform \<Rightarrow> config_snapshot \<Rightarrow> int \<Rightarrow> settings \<Rightarrow> bool \<Rightarrow> bool \<Rightarrow> 'w progress \<Rightarrow> 'w progress" where
  "apply_cgroup_step pf cfg pid s realtime cgroup_bug pr =
     (if realtime \<and> cgroup_realtime_workaround cfg \<and> cgroup_bug then pr
      else
        (case (apply_cgroups cfg, set_cgroup s) of
           (True, Some cg) \<Rightarrow> note_result (add_pid_to_cgroup pf pid cg (world pr)) pr
         | _ \<Rightarrow> pr))"

definition apply_cpuset_step ::
  "'w platform \<Rightarrow> (string \<times> string) list \<Rightarrow> config_snapshot \<Rightarrow> int \<Rightarrow> int list \<Rightarrow> settings \<Rightarrow>
     'w progress \<Rightarrow> 'w progress" where
  "apply_cpuset_step pf aliases cfg pid tids s pr =
     (case (apply_cpuset cfg, set_cpuset s) of
        (True, Some raw) \<Rightarrow>
          (case map_of aliases raw of
             Some [] \<Rightarrow> pr
           | resolved \<Rightarrow>
               let str = (case resolved of Some r \<Rightarrow> r | None \<Rightarrow> raw) in
               (case parse str (get_max_cores pf) of
                  Some cpus \<Rightarrow> note_result (set_affinity pf pid tids cpus (world pr)) pr
                | None \<Rightarrow>
                    pr\<lparr>partial_failure := get_or_insert (partial_failure pr) (InvalidCpuset str)\<rparr>))
      | _ \<Rightarrow> pr)"

definition apply_rule ::
  "'w platform \<Rightarrow> (string \<times> string) list \<Rightarrow> int \<Rightarrow> int list \<Rightarrow> settings \<Rightarrow> config_snapshot \<Rightarrow> bool \<Rightarrow> bool \<Rightarrow>
     'w \<Rightarrow> (platform_error + rule_application) \<times> 'w" where
  "apply_rule pf aliases pid tids s cfg realtime cgroup_bug w0 =
     (let pr0 = \<lparr>applied_any = False, partial_failure = None, world = w0\<rparr>;
          pr1 = apply_nice_step pf cfg pid tids s pr0;
          pr2 = apply_latnice_step pf cfg pid tids s pr1;
          pr3 = apply_sched_step pf cfg pid tids s pr2;
          pr4 = apply_ionice_step pf cfg pid s pr3;
          pr5 = apply_oom_step pf cfg pid s pr4;
          pr6 = apply_cgroup_step pf cfg pid s realtime cgroup_bug pr5;
          pr7 = apply_cpuset_step pf aliases cfg pid tids s pr6
      in (case (applied_any pr7, partial_failure pr7) of
            (False, Some e) \<Rightarrow> Inl e
          | (True, Some e) \<Rightarrow> Inr (Partial e)
          | (True, None) \<Rightarrow> Inr Applied
          | (False, None) \<Rightarrow> Inr NoApplicable, world pr7))"

subsection \<open>The loop\<close>

text \<open>The name a rule is looked up under: NixOS wrappers are unwrapped.\<close>

definition unwrap_name :: "string \<Rightarrow> string" where
  "unwrap_name s =
     (if starts_with s ''.'' then
        (case rfind_char (CHR ''-'') s of
           None \<Rightarrow> s
         | Some i \<Rightarrow>
             if (ends_with s ''-wrapped'' \<or> length s = 15 \<and> starts_with ''-wrapped'' (drop i s)) \<and> 1 < i
             then slice s 1 i else s)
      else s)"

definition full_name :: "'w platform \<Rightarrow> process \<Rightarrow> 'w \<Rightarrow> process \<times> 'w" where
  "full_name pf p w =
     (if p_authoritative p then (p, w)
      else
        (case get_process_name pf (p_pid p) w of
           (name, w') \<Rightarrow>
             (if name \<noteq> [] \<and> name \<noteq> ''<unknown>'' then p\<lparr>p_name := name, p_authoritative := True\<rparr> else p, w')))"

definition threads_of :: "'w platform \<Rightarrow> 'w \<Rightarrow> int \<Rightarrow> int list \<times> bool" where
  "threads_of pf w pid =
     (case get_tids pf pid w of
        Inr tids \<Rightarrow> if tids = [] then ([pid], True) else (tids, False)
      | Inl _ \<Rightarrow> ([pid], True))"

datatype worker_log =
    Threads_Incomplete string int
  | Rule_Logged string int
  | No_Attributes string int
  | Exited string int
  | Partially_Failed string int platform_error
  | Failed string int platform_error

definition report :: "bool \<Rightarrow> bool \<Rightarrow> process \<Rightarrow> platform_error + rule_application \<Rightarrow> worker_log list" where
  "report log_applied tids_failed p result =
     (case result of
        Inr Applied \<Rightarrow>
          if tids_failed then [Threads_Incomplete (p_name p) (p_pid p)]
          else if log_applied then [Rule_Logged (p_name p) (p_pid p)] else []
      | Inr NoApplicable \<Rightarrow> [No_Attributes (p_name p) (p_pid p)]
      | Inr (Partial e) \<Rightarrow>
          if e = NotFound then [Exited (p_name p) (p_pid p)] else [Partially_Failed (p_name p) (p_pid p) e]
      | Inl e \<Rightarrow> if e = NotFound then [Exited (p_name p) (p_pid p)] else [Failed (p_name p) (p_pid p) e])"

record ('rx, 'c, 'w) worker =
  w_config :: config_snapshot
  w_rules :: "('rx, 'c) rule_set"
  w_table :: name_table
  w_processed :: nat
  w_shutdown :: bool
  w_world :: 'w
  w_log :: "worker_log list"

text \<open>What the loop does not change: the platform, the aliases, the benchmark limit.\<close>

record ('rx, 'c, 'w) worker_env =
  env_lib :: "('rx, 'c) lib"
  env_platform :: "'w platform"
  env_aliases :: "(string \<times> string) list"
  env_benchmark :: "nat option"

definition handle_process ::
  "('rx, 'c, 'w) worker_env \<Rightarrow> process \<Rightarrow> ('rx, 'c, 'w) worker \<Rightarrow> ('rx, 'c, 'w) worker" where
  "handle_process env p0 st =
     (let pf = env_platform env;
          (p, w0) = full_name pf p0 (w_world st);
          (found, rs) = get_rule (env_lib env) (unwrap_name (p_name p)) (w_rules st);
          realtime = is_realtime pf (p_pid p) w0
      in (case found of
            None \<Rightarrow> st\<lparr>w_rules := rs, w_world := w0\<rparr>
          | Some (_, r) \<Rightarrow>
              let (tids, tids_failed) = threads_of pf w0 (p_pid p);
                  (result, w) =
                    apply_rule pf (env_aliases env) (p_pid p) tids (rule_settings (w_table st) r)
                      (w_config st) realtime (is_cgroup_v2 pf) w0
              in st\<lparr>w_rules := rs, w_world := w,
                    w_log := w_log st @ report (log_applied_rule (w_config st)) tids_failed p result\<rparr>))"

definition count_process :: "nat option \<Rightarrow> ('rx, 'c, 'w) worker \<Rightarrow> ('rx, 'c, 'w) worker" where
  "count_process limit st =
     (let n = Suc (w_processed st) in
      st\<lparr>w_processed := n,
         w_shutdown := (case limit of Some l \<Rightarrow> l \<le> n \<or> w_shutdown st | None \<Rightarrow> w_shutdown st)\<rparr>)"

definition work_step ::
  "('rx, 'c, 'w) worker_env \<Rightarrow> process \<Rightarrow> ('rx, 'c, 'w) worker \<Rightarrow> ('rx, 'c, 'w) worker" where
  "work_step env p st =
     (let st' = count_process (env_benchmark env) st in
      if p_pid p = 0 then st' else handle_process env p st')"

text \<open>
  What reaches the worker: a process from the queue, or a replacement of the shared rule
  set or configuration by another thread, which it sees at the next process.
\<close>

datatype ('rx, 'c) worker_event =
    Received process
  | Rules_Replaced "('rx, 'c) rule_set" name_table
  | Config_Replaced config_snapshot

fun work_loop ::
  "('rx, 'c, 'w) worker_env \<Rightarrow> ('rx, 'c) worker_event list \<Rightarrow> ('rx, 'c, 'w) worker \<Rightarrow> ('rx, 'c, 'w) worker" where
  "work_loop env [] st = st"
| "work_loop env (Received p # es) st = work_loop env es (work_step env p st)"
| "work_loop env (Rules_Replaced rs t # es) st = work_loop env es (st\<lparr>w_rules := rs, w_table := t\<rparr>)"
| "work_loop env (Config_Replaced c # es) st = work_loop env es (st\<lparr>w_config := c\<rparr>)"

end
