(* ===== verification/Worker_Plan.thy ===== *)
theory Worker_Plan
  imports Worker_Loop
begin

text \<open>
  The specification of the worker: a rule under a configuration is a list of actions, the
  plan; applying the rule performs every action of the plan in order, whatever the
  earlier ones answered, and reports success, partial success or failure from the list
  of answers. The theorems show that \<open>apply_rule\<close> is exactly that and what follows for a
  queue of processes.
\<close>

subsection \<open>Plans\<close>

datatype action =
    Priority int
  | Cpu_Weight nat
  | Latency int
  | Scheduler string nat
  | Io_Priority string int
  | Oom int
  | Join_Cgroup string
  | Affinity cpu_set
  | Refuse_Cpuset string

definition plan_nice :: "'w platform \<Rightarrow> config_snapshot \<Rightarrow> settings \<Rightarrow> action list" where
  "plan_nice pf cfg s =
     (case (apply_nice cfg, set_nice s) of
        (True, Some n) \<Rightarrow>
          Priority n # (if apply_cpu_weight cfg \<and> is_cgroup_v2 pf then [Cpu_Weight (cpu_weight n)] else [])
      | _ \<Rightarrow> [])"

definition plan_if :: "bool \<Rightarrow> 'a option \<Rightarrow> ('a \<Rightarrow> action) \<Rightarrow> action list" where
  "plan_if enabled a f = (case a of Some x \<Rightarrow> if enabled then [f x] else [] | None \<Rightarrow> [])"

definition unwrap_or :: "'a option \<Rightarrow> 'a \<Rightarrow> 'a" where
  "unwrap_or a d = (case a of Some x \<Rightarrow> x | None \<Rightarrow> d)"

definition plan_cpuset :: "'w platform \<Rightarrow> (string \<times> string) list \<Rightarrow> string \<Rightarrow> action list" where
  "plan_cpuset pf aliases raw =
     (let str = unwrap_or (map_of aliases raw) raw in
      if map_of aliases raw = Some [] then []
      else (case parse str (get_max_cores pf) of Some cpus \<Rightarrow> [Affinity cpus] | None \<Rightarrow> [Refuse_Cpuset str]))"

definition plan ::
  "'w platform \<Rightarrow> (string \<times> string) list \<Rightarrow> settings \<Rightarrow> config_snapshot \<Rightarrow> bool \<Rightarrow> bool \<Rightarrow> action list" where
  "plan pf aliases s cfg realtime cgroup_bug =
     plan_nice pf cfg s @
     plan_if (apply_latnice cfg) (set_latency_nice s) Latency @
     plan_if (apply_sched cfg) (set_sched s) (\<lambda>policy. Scheduler policy (unwrap_or (set_rtprio s) 1)) @
     plan_if (apply_ionice cfg) (set_ioclass s) (\<lambda>c. Io_Priority c (unwrap_or (set_ionice s) 0)) @
     plan_if (apply_oom_score_adj cfg) (set_oom_score_adj s) Oom @
     plan_if (apply_cgroups cfg \<and> \<not> (realtime \<and> cgroup_realtime_workaround cfg \<and> cgroup_bug))
       (set_cgroup s) Join_Cgroup @
     (case set_cpuset s of
        Some raw \<Rightarrow> if apply_cpuset cfg then plan_cpuset pf aliases raw else []
      | None \<Rightarrow> [])"

fun perform :: "'w platform \<Rightarrow> int \<Rightarrow> int list \<Rightarrow> action \<Rightarrow> 'w \<Rightarrow> platform_error option \<times> 'w" where
  "perform pf pid tids (Priority n) w = set_priority pf pid tids n w"
| "perform pf pid tids (Cpu_Weight n) w = set_cpu_weight pf pid n w"
| "perform pf pid tids (Latency n) w = set_latency pf pid tids n w"
| "perform pf pid tids (Scheduler p n) w = set_scheduler pf pid tids p n w"
| "perform pf pid tids (Io_Priority c n) w = set_io_priority pf pid c n w"
| "perform pf pid tids (Oom n) w = set_oom pf pid n w"
| "perform pf pid tids (Join_Cgroup c) w = add_pid_to_cgroup pf pid c w"
| "perform pf pid tids (Affinity cpus) w = set_affinity pf pid tids cpus w"
| "perform pf pid tids (Refuse_Cpuset str) w = (Some (InvalidCpuset str), w)"

text \<open>Every action of the plan, in order, with its answer.\<close>

fun run :: "'w platform \<Rightarrow> int \<Rightarrow> int list \<Rightarrow> action list \<Rightarrow> 'w \<Rightarrow> (action \<times> platform_error option) list \<times> 'w" where
  "run pf pid tids [] w = ([], w)"
| "run pf pid tids (a # as) w =
     (case perform pf pid tids a w of
        (e, w') \<Rightarrow> (case run pf pid tids as w' of (res, w'') \<Rightarrow> ((a, e) # res, w'')))"

definition is_optional :: "action \<Rightarrow> bool" where
  "is_optional a = (case a of Cpu_Weight n \<Rightarrow> True | _ \<Rightarrow> False)"

fun first_failure :: "(action \<times> platform_error option) list \<Rightarrow> platform_error option" where
  "first_failure [] = None"
| "first_failure ((a, e) # res) = (if is_optional a \<or> e = None then first_failure res else e)"

definition any_success :: "(action \<times> platform_error option) list \<Rightarrow> bool" where
  "any_success res \<longleftrightarrow> None \<in> snd ` set res"

definition outcome :: "(action \<times> platform_error option) list \<Rightarrow> platform_error + rule_application" where
  "outcome res =
     (case first_failure res of
        Some e \<Rightarrow> if any_success res then Inr (Partial e) else Inl e
      | None \<Rightarrow> if any_success res then Inr Applied else Inr NoApplicable)"

subsection \<open>The code performs the plan\<close>

definition do_action :: "'w platform \<Rightarrow> int \<Rightarrow> int list \<Rightarrow> action \<Rightarrow> 'w progress \<Rightarrow> 'w progress" where
  "do_action pf pid tids a pr =
     (case perform pf pid tids a (world pr) of
        (None, w) \<Rightarrow> pr\<lparr>applied_any := True, world := w\<rparr>
      | (Some e, w) \<Rightarrow>
          if is_optional a then pr\<lparr>world := w\<rparr>
          else pr\<lparr>partial_failure := get_or_insert (partial_failure pr) e, world := w\<rparr>)"

lemma do_action_note:
  "\<not> is_optional a \<Longrightarrow> do_action pf pid tids a pr = note_result (perform pf pid tids a (world pr)) pr"
  by (simp add: do_action_def note_result_def split: prod.split option.split)

lemma optional_simps [simp]:
  "\<not> is_optional (Priority n)" "is_optional (Cpu_Weight k)" "\<not> is_optional (Latency n)"
  "\<not> is_optional (Scheduler p k)" "\<not> is_optional (Io_Priority c n)" "\<not> is_optional (Oom n)"
  "\<not> is_optional (Join_Cgroup c)" "\<not> is_optional (Affinity s)" "\<not> is_optional (Refuse_Cpuset str)"
  by (simp_all add: is_optional_def)

lemma cpu_weight_plan:
  "apply_cpu_weight_step pf cfg pid n pr =
     fold (do_action pf pid tids)
       (if apply_cpu_weight cfg \<and> is_cgroup_v2 pf then [Cpu_Weight (cpu_weight n)] else []) pr"
  by (simp add: apply_cpu_weight_step_def do_action_def split: prod.split option.split)

lemma step_plans:
  "apply_nice_step pf cfg pid tids s pr = fold (do_action pf pid tids) (plan_nice pf cfg s) pr"
  "apply_latnice_step pf cfg pid tids s pr =
     fold (do_action pf pid tids) (plan_if (apply_latnice cfg) (set_latency_nice s) Latency) pr"
  "apply_sched_step pf cfg pid tids s pr =
     fold (do_action pf pid tids) (plan_if (apply_sched cfg) (set_sched s)
       (\<lambda>policy. Scheduler policy (unwrap_or (set_rtprio s) 1))) pr"
  "apply_ionice_step pf cfg pid s pr =
     fold (do_action pf pid tids) (plan_if (apply_ionice cfg) (set_ioclass s)
       (\<lambda>c. Io_Priority c (unwrap_or (set_ionice s) 0))) pr"
  "apply_oom_step pf cfg pid s pr =
     fold (do_action pf pid tids) (plan_if (apply_oom_score_adj cfg) (set_oom_score_adj s) Oom) pr"
  "apply_cgroup_step pf cfg pid s realtime cgroup_bug pr =
     fold (do_action pf pid tids) (plan_if
       (apply_cgroups cfg \<and> \<not> (realtime \<and> cgroup_realtime_workaround cfg \<and> cgroup_bug))
       (set_cgroup s) Join_Cgroup) pr"
proof -
  show "apply_nice_step pf cfg pid tids s pr = fold (do_action pf pid tids) (plan_nice pf cfg s) pr"
    by (simp add: apply_nice_step_def plan_nice_def do_action_note cpu_weight_plan [where tids = tids]
        split: option.split bool.split)
qed (auto simp: plan_if_def unwrap_or_def do_action_note apply_latnice_step_def apply_sched_step_def
      apply_ionice_step_def apply_oom_step_def apply_cgroup_step_def split: option.split bool.split)

lemma cpuset_plan:
  "apply_cpuset_step pf aliases cfg pid tids s pr =
     fold (do_action pf pid tids) (case set_cpuset s of
        Some raw \<Rightarrow> if apply_cpuset cfg then plan_cpuset pf aliases raw else []
      | None \<Rightarrow> []) pr"
  by (auto simp: apply_cpuset_step_def plan_cpuset_def unwrap_or_def do_action_note note_result_def
      Let_def split: option.split bool.split list.split)

lemma fold_do_action:
  "fold (do_action pf pid tids) as pr =
     \<lparr>applied_any = (applied_any pr \<or> any_success (fst (run pf pid tids as (world pr)))),
      partial_failure =
        (case partial_failure pr of
           Some e \<Rightarrow> Some e
         | None \<Rightarrow> first_failure (fst (run pf pid tids as (world pr)))),
      world = snd (run pf pid tids as (world pr))\<rparr>"
proof (induction as arbitrary: pr)
  case Nil
  show ?case by (cases pr) (simp add: any_success_def split: option.split)
next
  case (Cons a as)
  obtain e w where p: "perform pf pid tids a (world pr) = (e, w)" by (cases "perform pf pid tids a (world pr)")
  then have d: "do_action pf pid tids a pr =
      (case e of None \<Rightarrow> pr\<lparr>applied_any := True, world := w\<rparr>
       | Some e \<Rightarrow> if is_optional a then pr\<lparr>world := w\<rparr>
                   else pr\<lparr>partial_failure := get_or_insert (partial_failure pr) e, world := w\<rparr>)"
    by (simp add: do_action_def)
  show ?case
    by (cases e; cases "partial_failure pr") (simp_all add: Cons.IH d p any_success_def split_beta)
qed

lemma apply_rule_performs:
  "apply_rule pf aliases pid tids s cfg realtime cgroup_bug w =
     (let (res, w') = run pf pid tids (plan pf aliases s cfg realtime cgroup_bug) w in (outcome res, w'))"
proof -
  let ?pr = "fold (do_action pf pid tids) (plan pf aliases s cfg realtime cgroup_bug)
    \<lparr>applied_any = False, partial_failure = None, world = w\<rparr>"
  have "apply_rule pf aliases pid tids s cfg realtime cgroup_bug w =
      (case (applied_any ?pr, partial_failure ?pr) of
            (False, Some e) \<Rightarrow> Inl e
          | (True, Some e) \<Rightarrow> Inr (Partial e)
          | (True, None) \<Rightarrow> Inr Applied
          | (False, None) \<Rightarrow> Inr NoApplicable, world ?pr)"
    by (simp add: apply_rule_def Let_def plan_def step_plans [where tids = tids] cpuset_plan)
  then show ?thesis
    by (simp add: fold_do_action outcome_def split_beta split: option.split bool.split)
qed

text \<open>
  C4: applying a rule performs exactly the actions of its plan, each once and in order, whatever the
  earlier ones answered; the result is the first failure if nothing succeeded, a partial application
  with the first failure if something did, and a refused cpu weight counts as neither.
\<close>
theorem apply_rule_performs_plan:
  "apply_rule pf aliases pid tids s cfg realtime cgroup_bug w =
     (let (res, w') = run pf pid tids (plan pf aliases s cfg realtime cgroup_bug) w in (outcome res, w'))"
  by (rule apply_rule_performs)

subsection \<open>Realtime processes\<close>

text \<open>
  C5: on a cgroup v2 host with the workaround on, a realtime process is treated exactly as if its rule
  named no cgroup: it is never moved, and leaving it in place is not reported as a failure.
\<close>
theorem realtime_never_moved:
  assumes "cgroup_realtime_workaround cfg"
  shows "Join_Cgroup cg \<notin> set (plan pf aliases s cfg True True) \<and>
    apply_rule pf aliases pid tids s cfg True True w =
    apply_rule pf aliases pid tids (s\<lparr>set_cgroup := None\<rparr>) cfg True True w"
proof -
  have "plan pf aliases s cfg True True = plan pf aliases (s\<lparr>set_cgroup := None\<rparr>) cfg True True"
    using assms by (simp add: plan_def plan_nice_def plan_if_def split: option.split)
  moreover have "Join_Cgroup cg \<notin> set (plan pf aliases s cfg True True)"
    using assms
    by (auto simp: plan_def plan_nice_def plan_if_def plan_cpuset_def Let_def
        split: option.splits bool.splits if_splits)
  ultimately show ?thesis by (simp add: apply_rule_performs)
qed

definition sample_settings :: settings where
  "sample_settings =
     \<lparr>set_nice = Some (- 5), set_latency_nice = Some (- 5), set_ioclass = None, set_ionice = None,
      set_sched = Some ''rr'', set_rtprio = Some 10, set_oom_score_adj = None, set_cgroup = Some ''cpu80'',
      set_cpuset = None\<rparr>"

text \<open>A platform whose world is the list of the actions it was asked for and which accepts them all.\<close>

definition sample_platform :: "action list platform" where
  "sample_platform =
     \<lparr>is_realtime = (\<lambda>pid w. pid = 7), get_process_name = (\<lambda>pid w. (''doom'', w)), is_cgroup_v2 = True,
      get_max_cores = 8, get_tids = (\<lambda>pid w. Inr [pid]),
      set_priority = (\<lambda>pid tids n w. (None, w @ [Priority n])),
      set_latency = (\<lambda>pid tids n w. (None, w @ [Latency n])),
      set_scheduler = (\<lambda>pid tids p n w. (None, w @ [Scheduler p n])),
      set_io_priority = (\<lambda>pid c n w. (None, w @ [Io_Priority c n])),
      set_oom = (\<lambda>pid n w. (None, w @ [Oom n])),
      add_pid_to_cgroup = (\<lambda>pid c w. (None, w @ [Join_Cgroup c])),
      set_cpu_weight = (\<lambda>pid n w. (Some PermissionDenied, w)),
      set_affinity = (\<lambda>pid tids cpus w. (None, w @ [Affinity cpus]))\<rparr>"

theorem realtime_never_moved_witness:
  "Join_Cgroup ''cpu80'' \<notin> set (plan sample_platform [] sample_settings default_snapshot True True) \<and>
   apply_rule sample_platform [] 7 [7] sample_settings default_snapshot True True [] =
   apply_rule sample_platform [] 7 [7] (sample_settings\<lparr>set_cgroup := None\<rparr>) default_snapshot True True []"
  by (rule realtime_never_moved) (simp add: default_snapshot_def)

subsection \<open>The weight of a nice value\<close>

lemma div_le_cross:
  fixes a b c d :: nat
  assumes "a * d \<le> c * b" and "0 < b" and "0 < d"
  shows "a div b \<le> c div d"
proof -
  have "a div b * d * b = a div b * b * d" by (simp only: ac_simps)
  also have "\<dots> \<le> a * d" by (rule mult_le_mono1) (rule div_times_less_eq_dividend)
  also have "\<dots> \<le> c * b" by (rule assms(1))
  finally have "a div b * d \<le> c" using assms(2) by (simp only: mult_le_cancel2)
  then show ?thesis using assms(3) by (simp add: less_eq_div_iff_mult_less_eq)
qed

lemma weight_pos_antitone: "(m :: nat) \<le> n \<Longrightarrow> 100 * 4 ^ n div (5 ^ n :: nat) \<le> 100 * 4 ^ m div 5 ^ m"
proof (rule div_le_cross)
  assume "m \<le> n"
  then obtain k where n: "n = m + k" using le_Suc_ex by blast
  have "(4 :: nat) ^ k \<le> 5 ^ k" by (rule power_mono) simp_all
  then show "100 * 4 ^ n * 5 ^ m \<le> 100 * 4 ^ m * (5 ^ n :: nat)" by (simp add: n power_add)
qed simp_all

lemma weight_neg_monotone: "(m :: nat) \<le> n \<Longrightarrow> 100 * 5 ^ m div (4 ^ m :: nat) \<le> 100 * 5 ^ n div 4 ^ n"
proof (rule div_le_cross)
  assume "m \<le> n"
  then obtain k where n: "n = m + k" using le_Suc_ex by blast
  have "(4 :: nat) ^ k \<le> 5 ^ k" by (rule power_mono) simp_all
  then show "100 * 5 ^ m * 4 ^ n \<le> 100 * 5 ^ n * (4 ^ m :: nat)" by (simp add: n power_add)
qed simp_all

lemma weight_raw_antitone: "m \<le> n \<Longrightarrow> weight_raw n \<le> weight_raw m"
proof (cases "0 \<le> m"; cases "0 \<le> n")
  assume "m \<le> n" "\<not> 0 \<le> m" "0 \<le> n"
  then show ?thesis
    using weight_pos_antitone [of 0 "nat n"] weight_neg_monotone [of 0 "nat (- m)"]
    by (simp add: weight_raw_def)
qed (simp_all add: weight_raw_def weight_pos_antitone weight_neg_monotone)

text \<open>
  The weight mirrored into \<^verbatim>\<open>cpu.weight\<close> lies in the kernel's range 1 to 10000 for every nice value
  a rule can carry, is 100 for nice 0, and never grows when nice grows.
\<close>
theorem cpu_weight_antitone:
  assumes "m \<le> n"
  shows "1 \<le> cpu_weight n \<and> cpu_weight n \<le> cpu_weight m \<and> cpu_weight m \<le> 10000 \<and> cpu_weight 0 = 100"
proof -
  have "cpu_weight n \<le> cpu_weight m"
    using weight_raw_antitone [OF assms] by (simp add: cpu_weight_def)
  moreover have "1 \<le> cpu_weight n" and "cpu_weight m \<le> 10000" by (simp_all add: cpu_weight_def)
  moreover have "cpu_weight 0 = 100" by (simp add: cpu_weight_def weight_raw_def u32_max_def)
  ultimately show ?thesis by blast
qed

theorem cpu_weight_antitone_witness:
  "1 \<le> cpu_weight 19 \<and> cpu_weight 19 \<le> cpu_weight (- 20) \<and> cpu_weight (- 20) \<le> 10000 \<and> cpu_weight 0 = 100"
  by (rule cpu_weight_antitone) simp

subsection \<open>Wrapped names\<close>

lemma slice_inner: "slice (CHR ''.'' # n @ r) 1 (Suc (length n)) = n"
  by (simp add: slice_def)

lemma no_dash_wrapped: "CHR ''-'' \<notin> set (take k ''wrapped'')"
proof
  assume "CHR ''-'' \<in> set (take k ''wrapped'')"
  then have "CHR ''-'' \<in> set ''wrapped''" by (rule in_set_takeD)
  then show False by simp
qed

lemma unwrap_cut:
  assumes "n \<noteq> []" and "0 < k" and "k = 8 \<or> length n + k = 14" and "k \<le> 8"
  shows "unwrap_name (CHR ''.'' # n @ take k ''-wrapped'') = n"
proof -
  let ?r = "take (k - 1) ''wrapped''"
  have k: "take k ''-wrapped'' = CHR ''-'' # ?r" using assms(2) by (cases k) simp_all
  have len: "length (take k ''-wrapped'') = k" using assms(4) by simp
  have "rfind_char (CHR ''-'') ((CHR ''.'' # n) @ CHR ''-'' # ?r) = Some (length (CHR ''.'' # n))"
    by (rule rfind_char_last) (rule no_dash_wrapped)
  then have rf: "rfind_char (CHR ''-'') (CHR ''.'' # n @ take k ''-wrapped'') = Some (Suc (length n))"
    by (simp only: k append_Cons list.size) simp
  have "ends_with (CHR ''.'' # n @ take k ''-wrapped'') ''-wrapped'' \<or>
      length (CHR ''.'' # n @ take k ''-wrapped'') = 15 \<and>
      starts_with ''-wrapped'' (drop (Suc (length n)) (CHR ''.'' # n @ take k ''-wrapped''))"
  proof (cases "k = 8")
    case True
    then show ?thesis by (simp add: ends_with_def)
  next
    case False
    then have "length n + k = 14" using assms(3) by blast
    then show ?thesis using starts_with_take [of "''-wrapped''" k] len by simp
  qed
  moreover have "starts_with (CHR ''.'' # n @ take k ''-wrapped'') ''.''" by (simp add: starts_with_def)
  ultimately show ?thesis
    using rf slice_inner [of n] assms(1) by (simp add: unwrap_name_def)
qed

text \<open>
  A wrapped executable is looked up under its own name: the name of the wrapper, in full or cut by
  the kernel to fifteen bytes, unwraps to the name of the program as long as the cut leaves the dash.
\<close>
theorem wrapped_name_unwraps:
  assumes "n \<noteq> []"
  shows "unwrap_name (CHR ''.'' # n @ ''-wrapped'') = n \<and>
    (length n \<le> 13 \<longrightarrow> unwrap_name (take 15 (CHR ''.'' # n @ ''-wrapped'')) = n)"
proof -
  have full: "unwrap_name (CHR ''.'' # n @ ''-wrapped'') = n"
    using unwrap_cut [OF assms, of 8] by simp
  have "unwrap_name (take 15 (CHR ''.'' # n @ ''-wrapped'')) = n" if "length n \<le> 13"
  proof (cases "length n \<le> 6")
    case True
    then show ?thesis using full by simp
  next
    case False
    with that show ?thesis using unwrap_cut [OF assms, of "14 - length n"] by simp
  qed
  with full show ?thesis by blast
qed

theorem wrapped_name_unwraps_witness:
  "unwrap_name (CHR ''.'' # ''firefox'' @ ''-wrapped'') = ''firefox'' \<and>
   unwrap_name (take 15 (CHR ''.'' # ''firefox'' @ ''-wrapped'')) = ''firefox''"
  using wrapped_name_unwraps [of "''firefox''"] by simp

subsection \<open>The loop\<close>

fun received :: "('rx, 'c) worker_event list \<Rightarrow> process list" where
  "received [] = []"
| "received (Received p # es) = p # received es"
| "received (_ # es) = received es"

lemma handle_process_frame:
  "w_processed (handle_process env p st) = w_processed st"
  "w_shutdown (handle_process env p st) = w_shutdown st"
  "w_config (handle_process env p st) = w_config st"
  "w_table (handle_process env p st) = w_table st"
  by (simp_all add: handle_process_def Let_def split: prod.split option.split)

lemma work_step_frame:
  "w_processed (work_step env p st) = Suc (w_processed st)"
  "w_shutdown (work_step env p st) \<longleftrightarrow>
     w_shutdown st \<or> (\<exists>l. env_benchmark env = Some l \<and> l \<le> Suc (w_processed st))"
  "w_config (work_step env p st) = w_config st"
  "w_table (work_step env p st) = w_table st"
  by (auto simp: work_step_def count_process_def Let_def handle_process_frame split: option.split)

text \<open>
  The loop counts every process it receives, the ignored pid 0 included, and the shutdown flag is
  raised exactly when a benchmark limit is set and the count has reached it.
\<close>
theorem work_loop_counts:
  "w_processed (work_loop env es st) = w_processed st + length (received es) \<and>
   (w_shutdown (work_loop env es st) \<longleftrightarrow>
      w_shutdown st \<or>
      (received es \<noteq> [] \<and>
       (\<exists>l. env_benchmark env = Some l \<and> l \<le> w_processed st + length (received es))))"
proof (induction env es st rule: work_loop.induct)
  case (2 env p es st)
  then show ?case by (auto simp: work_step_frame)
qed simp_all

end
