(* ===== verification/Thread_Loop.thy ===== *)
theory Thread_Loop
  imports Platform_Error
begin

text \<open>
  The interface of an attribute that is applied thread by thread: one system call for
  each thread of the process, and one answer made of all of theirs. Nice, latency nice
  and the scheduling policy are such attributes. An answer is \<open>None\<close> for success or the
  error number.
\<close>

text \<open>One call for each thread, in order, whatever the earlier ones answered.\<close>

fun each_thread :: "(int \<Rightarrow> 'k \<Rightarrow> int option \<times> 'k) \<Rightarrow> int list \<Rightarrow> 'k \<Rightarrow> int option list \<times> 'k" where
  "each_thread call [] k = ([], k)"
| "each_thread call (tid # tids) k =
     (case call tid k of
        (r, k') \<Rightarrow> (case each_thread call tids k' of (rs, k'') \<Rightarrow> (r # rs, k'')))"

text \<open>What no single call changes, the loop does not change.\<close>

lemma each_thread_frame:
  "(\<And>tid k. f (snd (call tid k)) = f k) \<Longrightarrow> f (snd (each_thread call tids k)) = f k"
proof (induction tids arbitrary: k)
  case (Cons tid tids)
  then show ?case by (simp add: split_beta)
qed simp

lemma each_thread_keeps:
  assumes "\<And>tid k. tid \<in> set tids \<Longrightarrow> P k \<Longrightarrow> P (snd (call tid k))" and "P k"
  shows "P (snd (each_thread call tids k))"
  using assms
proof (induction tids arbitrary: k)
  case (Cons tid tids)
  from Cons.prems have "P (snd (call tid k))" by simp
  with Cons show ?case by (simp add: split_beta)
qed simp

text \<open>
  A system call that also notes what it was given and what it answered; the loop made of such calls does what the
  plain one does, and notes one call for each thread, in order.
\<close>

definition log_call ::
  "('k \<Rightarrow> int option \<times> 'k) \<Rightarrow> 'a \<Rightarrow> 'k \<times> ('a \<times> int option) list \<Rightarrow> int option \<times> 'k \<times> ('a \<times> int option) list" where
  "log_call call arg kl = (case call (fst kl) of (r, k') \<Rightarrow> (r, k', snd kl @ [(arg, r)]))"

lemma each_thread_logged:
  "each_thread (\<lambda>tid. log_call (call tid) (arg tid)) tids (k, log) =
     (fst (each_thread call tids k), snd (each_thread call tids k),
      log @ zip (map arg tids) (fst (each_thread call tids k)))"
  by (induction tids arbitrary: k log) (simp_all add: log_call_def split_beta)

lemma each_thread_answers: "length (fst (each_thread call tids k)) = length tids"
  by (induction tids arbitrary: k) (simp_all add: split_beta)

text \<open>The loop of \<^verbatim>\<open>first_real_error\<close> with its three locals.\<close>

record scan =
  first_real :: "int option"
  not_found :: bool
  applied :: bool

definition scan_result :: "int option \<Rightarrow> scan \<Rightarrow> scan" where
  "scan_result r s =
     (case r of
        None \<Rightarrow> s\<lparr>applied := True\<rparr>
      | Some e \<Rightarrow>
          if e = esrch then s\<lparr>not_found := True\<rparr>
          else s\<lparr>first_real := get_or_insert (first_real s) e\<rparr>)"

definition first_real_error :: "int option list \<Rightarrow> int option" where
  "first_real_error rs =
     (let s = fold scan_result rs \<lparr>first_real = None, not_found = False, applied = False\<rparr> in
      case first_real s of
        Some e \<Rightarrow> Some e
      | None \<Rightarrow> if \<not> applied s \<and> not_found s then Some esrch else None)"

text \<open>The first answer that is an error other than a vanished thread.\<close>

definition real_error :: "int option \<Rightarrow> bool" where
  "real_error r \<longleftrightarrow> r \<noteq> None \<and> r \<noteq> Some esrch"

lemma scan_simps:
  "scan_result None s = s\<lparr>applied := True\<rparr>"
  "scan_result (Some e) s =
     (if e = esrch then s\<lparr>not_found := True\<rparr> else s\<lparr>first_real := get_or_insert (first_real s) e\<rparr>)"
  by (simp_all add: scan_result_def)

lemma fold_scan:
  "fold scan_result rs s =
     \<lparr>first_real = (case first_real s of Some e \<Rightarrow> Some e | None \<Rightarrow> Option.bind (find real_error rs) id),
      not_found = (not_found s \<or> Some esrch \<in> set rs), applied = (applied s \<or> None \<in> set rs)\<rparr>"
proof (induction rs arbitrary: s)
  case Nil
  show ?case by (cases s) (simp split: option.split)
next
  case (Cons r rs)
  show ?case
    by (cases r; cases "first_real s") (auto simp: Cons.IH scan_simps real_error_def)
qed

lemma first_real_error_eq:
  "first_real_error rs =
     (case find real_error rs of
        Some r \<Rightarrow> r
      | None \<Rightarrow> if None \<notin> set rs \<and> Some esrch \<in> set rs then Some esrch else None)"
proof (cases "find real_error rs")
  case None
  then show ?thesis by (simp add: first_real_error_def fold_scan)
next
  case (Some r)
  then have "real_error r" by (auto simp: find_Some_iff)
  then obtain e where "r = Some e" by (auto simp: real_error_def)
  with Some show ?thesis by (simp add: first_real_error_def fold_scan)
qed

text \<open>The answers of the threads of a process that count as success for the process.\<close>

definition threads_ok :: "int option list \<Rightarrow> bool" where
  "threads_ok rs \<longleftrightarrow>
     list_all (\<lambda>r. r = None \<or> r = Some esrch) rs \<and> (None \<in> set rs \<or> Some esrch \<notin> set rs)"

lemma first_real_error_ok: "first_real_error rs = None \<longleftrightarrow> threads_ok rs"
proof (cases "find real_error rs")
  case None
  then have "\<forall>r \<in> set rs. r = None \<or> r = Some esrch" by (auto simp: find_None_iff real_error_def)
  with None show ?thesis by (auto simp: first_real_error_eq threads_ok_def list_all_iff)
next
  case (Some r)
  then have "real_error r" "r \<in> set rs" by (auto simp: find_Some_iff)
  with Some show ?thesis by (auto simp: first_real_error_eq threads_ok_def list_all_iff real_error_def)
qed

lemma first_real_error_in: "first_real_error rs = Some e \<Longrightarrow> Some e \<in> set rs"
  by (auto simp: first_real_error_eq find_Some_iff split: option.splits if_splits)

lemma each_thread_nonzero:
  "(\<And>tid k. fst (call tid k) \<noteq> Some 0) \<Longrightarrow> Some 0 \<notin> set (fst (each_thread call tids k))"
proof (induction tids arbitrary: k)
  case (Cons tid tids)
  then show ?case by (auto simp: split_beta) (metis fst_conv)
qed simp

text \<open>
  The laws of such an attribute: it makes the calls of \<open>each_thread\<close> and answers through \<open>finish\<close> on the verdict of
  \<open>first_real_error\<close>, where \<open>finish\<close> never gives an error number the answer \<open>success\<close>.
\<close>

locale thread_attribute =
  fixes attr :: "int list \<Rightarrow> 'k \<Rightarrow> 'e option \<times> 'k"
    and call :: "int \<Rightarrow> 'k \<Rightarrow> int option \<times> 'k"
    and finish :: "int option \<Rightarrow> 'e option"
    and success :: "'e option"
  assumes attr_world: "snd (attr tids k) = snd (each_thread call tids k)"
    and attr_answer: "fst (attr tids k) = finish (first_real_error (fst (each_thread call tids k)))"
    and finish_ok: "finish None = success"
    and finish_error: "e \<noteq> 0 \<Longrightarrow> finish (Some e) \<noteq> success"
begin

lemma attr_eq: "each_thread call tids k = (rs, k') \<Longrightarrow> attr tids k = (finish (first_real_error rs), k')"
  using attr_world [of tids k] attr_answer [of tids k] by (simp add: prod_eq_iff)

lemma verdict:
  assumes "Some 0 \<notin> set rs"
  shows "finish (first_real_error rs) = success \<longleftrightarrow> threads_ok rs"
proof (cases "first_real_error rs")
  case (Some e)
  then have "e \<noteq> 0" using assms first_real_error_in [OF Some] by metis
  with Some show ?thesis using finish_error [of e] first_real_error_ok [of rs] by simp
qed (use finish_ok first_real_error_ok [of rs] in simp)

lemma noted:
  assumes "each_thread (\<lambda>tid. log_call (call tid) (arg tid)) tids (k, []) = (rs, k', log)"
    and "\<And>tid k. fst (call tid k) \<noteq> Some 0"
  shows "attr tids k = (finish (first_real_error rs), k') \<and> map fst log = map arg tids \<and>
    (finish (first_real_error rs) = success \<longleftrightarrow> threads_ok (map snd log))"
proof -
  have run: "each_thread call tids k = (rs, k')" and log: "log = zip (map arg tids) rs"
    using assms(1) by (auto simp: each_thread_logged)
  have "length rs = length tids" "Some 0 \<notin> set rs"
    using each_thread_answers [of call tids k] each_thread_nonzero [of call tids k] assms(2) run by simp_all
  with attr_eq [OF run] verdict [of rs] show ?thesis by (simp add: log)
qed

end

end
