(* ===== verification/Priority.thy ===== *)
theory Priority
  imports Thread_Loop Rust_Str
begin

unbundle bit_operations_syntax

text \<open>
  \<^verbatim>\<open>crates/ananicy-platform/src/priority.rs\<close> and \<^verbatim>\<open>abi/ioprio.rs\<close>, \<^verbatim>\<open>abi/sched.rs\<close>,
  \<^verbatim>\<open>abi/sched_attr.rs\<close>: nice, latency nice, scheduling policy, I/O priority and the OOM score of a
  process. The system calls are arguments. The per-thread attributes are instances of the
  interface \<open>thread_attribute\<close>; the theorems say which calls they make and when they succeed, that latency nice keeps the policy of the
  thread, and when the I/O class survives being packed with its level.
\<close>

subsection \<open>Errors\<close>

definition test_errno :: "int option \<Rightarrow> platform_error option" where
  "test_errno err =
     (case err of
        None \<Rightarrow> Some (Io None)
      | Some raw \<Rightarrow>
          if raw = 0 then None
          else if raw = enoent \<or> raw = esrch then Some NotFound
          else if raw = eacces \<or> raw = eperm then Some PermissionDenied
          else Some (Io (Some raw)))"

definition thread_answer :: "int option \<Rightarrow> platform_error option" where
  "thread_answer verdict = (case verdict of None \<Rightarrow> None | Some e \<Rightarrow> test_errno (Some e))"

subsection \<open>The structures of the system calls\<close>

definition sched_normal :: nat where "sched_normal = 0"
definition sched_fifo :: nat where "sched_fifo = 1"
definition sched_rr :: nat where "sched_rr = 2"
definition sched_batch :: nat where "sched_batch = 3"
definition sched_iso :: nat where "sched_iso = 4"
definition sched_idle :: nat where "sched_idle = 5"
definition sched_deadline :: nat where "sched_deadline = 6"

definition sched_flag_keep_policy :: u64 where "sched_flag_keep_policy = 0x08"
definition sched_flag_keep_params :: u64 where "sched_flag_keep_params = 0x10"
definition sched_flag_latency_nice :: u64 where "sched_flag_latency_nice = 0x80"

record sched_attr =
  attr_size :: nat
  attr_policy :: nat
  attr_flags :: u64
  attr_nice :: int
  attr_priority :: nat
  attr_runtime :: nat
  attr_deadline :: nat
  attr_period :: nat
  attr_util_min :: nat
  attr_util_max :: nat
  attr_latency_nice :: int

text \<open>The structure is 60 bytes long, padded to 64.\<close>

definition default_attr :: sched_attr where
  "default_attr =
     \<lparr>attr_size = 0, attr_policy = 0, attr_flags = 0, attr_nice = 0, attr_priority = 0, attr_runtime = 0,
      attr_deadline = 0, attr_period = 0, attr_util_min = 0, attr_util_max = 0, attr_latency_nice = 0\<rparr>"

definition sizeof_attr :: nat where
  "sizeof_attr = 64"

subsection \<open>Attributes of threads\<close>

definition set_priority_threads ::
  "(int \<Rightarrow> int \<Rightarrow> 'k \<Rightarrow> int option \<times> 'k) \<Rightarrow> int list \<Rightarrow> int \<Rightarrow> 'k \<Rightarrow> platform_error option \<times> 'k" where
  "set_priority_threads setpriority tids nice_value k =
     (case each_thread (\<lambda>tid. setpriority tid nice_value) tids k of
        (results, k') \<Rightarrow> (thread_answer (first_real_error results), k'))"

definition latency_attr :: "int \<Rightarrow> sched_attr" where
  "latency_attr n =
     default_attr\<lparr>attr_size := sizeof_attr, attr_policy := sched_normal,
       attr_flags := sched_flag_latency_nice OR sched_flag_keep_params OR sched_flag_keep_policy,
       attr_latency_nice := n\<rparr>"

definition set_latency_nice_threads ::
  "(int \<Rightarrow> sched_attr \<Rightarrow> 'k \<Rightarrow> int option \<times> 'k) \<Rightarrow> int list \<Rightarrow> int \<Rightarrow> 'k \<Rightarrow> platform_error option \<times> 'k" where
  "set_latency_nice_threads sched_setattr tids n k =
     (case each_thread (\<lambda>tid. sched_setattr tid (latency_attr n)) tids k of
        (results, k') \<Rightarrow> (thread_answer (first_real_error results), k'))"

text \<open>The policy, the static priority and the reason for which the attribute is reported as skipped.\<close>

definition policy_of :: "string \<Rightarrow> nat \<Rightarrow> (nat \<times> int \<times> string option) option" where
  "policy_of name rt_prio =
     (if name = ''idle'' then Some (sched_idle, 0, None)
      else if name = ''normal'' \<or> name = ''other'' then Some (sched_normal, 0, None)
      else if name = ''rr'' then Some (sched_rr, as_i32 (int rt_prio), None)
      else if name = ''fifo'' then Some (sched_fifo, as_i32 (int rt_prio), None)
      else if name = ''deadline'' then Some (sched_normal, 0, Some ''deadline scheduler is unavailable'')
      else if name = ''batch'' then Some (sched_batch, 0, None)
      else None)"

definition set_sched_threads ::
  "(int \<Rightarrow> nat \<Rightarrow> int \<Rightarrow> 'k \<Rightarrow> int option \<times> 'k) \<Rightarrow> int list \<Rightarrow> string \<Rightarrow> nat \<Rightarrow> 'k \<Rightarrow>
     platform_error option \<times> 'k" where
  "set_sched_threads setscheduler tids name rt_prio k =
     (case policy_of name rt_prio of
        None \<Rightarrow> (Some Unsupported, k)
      | Some (policy, prio, reason) \<Rightarrow>
          (case each_thread (\<lambda>tid. setscheduler tid policy prio) tids k of
             (results, k') \<Rightarrow>
               (case (thread_answer (first_real_error results), reason) of
                  (None, Some why) \<Rightarrow> Some (Skipped why)
                | (None, None) \<Rightarrow> None
                | (Some e, _) \<Rightarrow> Some e, k')))"

subsection \<open>I/O priority and OOM score\<close>

definition ioprio_class_shift :: nat where "ioprio_class_shift = 13"
definition ioprio_prio_mask :: int where "ioprio_prio_mask = 8191"
definition ioprio_class_none :: int where "ioprio_class_none = 0"
definition ioprio_class_rt :: int where "ioprio_class_rt = 1"
definition ioprio_class_be :: int where "ioprio_class_be = 2"
definition ioprio_class_idle :: int where "ioprio_class_idle = 3"

definition ioprio_prio_value :: "int \<Rightarrow> int \<Rightarrow> int" where
  "ioprio_prio_value cls data = push_bit ioprio_class_shift cls OR data"

definition ioprio_valid :: "int \<Rightarrow> bool" where
  "ioprio_valid cls \<longleftrightarrow> cls \<noteq> ioprio_class_none"

definition io_class_of :: "string \<Rightarrow> int option" where
  "io_class_of name =
     (if name = ''best-effort'' then Some ioprio_class_be
      else if name = ''realtime'' then Some ioprio_class_rt
      else if name = ''idle'' then Some ioprio_class_idle
      else if name = ''none'' then Some ioprio_class_none
      else None)"

definition set_io_priority_process ::
  "(int \<Rightarrow> int \<Rightarrow> 'k \<Rightarrow> int option \<times> 'k) \<Rightarrow> int \<Rightarrow> string \<Rightarrow> int \<Rightarrow> 'k \<Rightarrow> platform_error option \<times> 'k" where
  "set_io_priority_process ioprio_set pid io_class v k =
     (case io_class_of io_class of
        None \<Rightarrow> (Some (Skipped (''unknown io class '' @ io_class)), k)
      | Some cls \<Rightarrow>
          if \<not> ioprio_valid cls then (None, k)
          else
            (case ioprio_set pid (ioprio_prio_value cls v) k of
               (Some e, k') \<Rightarrow> (test_errno (Some e), k')
             | (None, k') \<Rightarrow> (None, k')))"

text \<open>What \<^verbatim>\<open>process_info.rs\<close> reads back: the class and the level of a packed priority.\<close>

definition io_class_read :: "int \<Rightarrow> int" where
  "io_class_read v = drop_bit ioprio_class_shift v"

definition io_level_read :: "int \<Rightarrow> int" where
  "io_level_read v = v AND ioprio_prio_mask"

definition get_io_class_name :: "int \<Rightarrow> string" where
  "get_io_class_name cls =
     (if cls = ioprio_class_none then ''none''
      else if cls = ioprio_class_rt then ''realtime''
      else if cls = ioprio_class_be then ''best-effort''
      else if cls = ioprio_class_idle then ''idle''
      else ''unknown'')"

definition get_sched_policy_name :: "nat \<Rightarrow> string" where
  "get_sched_policy_name p =
     (if p = sched_normal then ''normal''
      else if p = sched_fifo then ''fifo''
      else if p = sched_rr then ''rr''
      else if p = sched_batch then ''batch''
      else if p = sched_iso then ''iso''
      else if p = sched_idle then ''idle''
      else if p = sched_deadline then ''deadline''
      else ''unknown'')"

definition set_oom_score_adjust ::
  "(int \<Rightarrow> int \<Rightarrow> 'k \<Rightarrow> int option \<times> 'k) \<Rightarrow> int \<Rightarrow> int \<Rightarrow> 'k \<Rightarrow> platform_error option \<times> 'k" where
  "set_oom_score_adjust write_oom pid v k =
     (case write_oom pid v k of
        (None, k') \<Rightarrow> (None, k')
      | (Some e, k') \<Rightarrow>
          (if e = enoent then Some NotFound
           else if e = eacces \<or> e = eperm then Some PermissionDenied
           else Some (Io (Some e)), k'))"

subsection \<open>The probe for latency nice\<close>

definition probe_attr :: "int \<Rightarrow> sched_attr" where
  "probe_attr n =
     default_attr\<lparr>attr_size := sizeof_attr, attr_flags := sched_flag_latency_nice OR sched_flag_keep_params,
       attr_latency_nice := n\<rparr>"

definition get_latency_nice :: "(int \<Rightarrow> 'k \<Rightarrow> sched_attr option) \<Rightarrow> int \<Rightarrow> 'k \<Rightarrow> int option" where
  "get_latency_nice sched_getattr pid k = map_option attr_latency_nice (sched_getattr pid k)"

definition test_latnice_support ::
  "(int \<Rightarrow> 'k \<Rightarrow> sched_attr option) \<Rightarrow> (int \<Rightarrow> sched_attr \<Rightarrow> 'k \<Rightarrow> int option \<times> 'k) \<Rightarrow> 'k \<Rightarrow> bool \<times> 'k" where
  "test_latnice_support sched_getattr sched_setattr k =
     (let original = (case get_latency_nice sched_getattr 0 k of Some n \<Rightarrow> n | None \<Rightarrow> 0) in
      case sched_setattr 0 (probe_attr (- 20)) k of
        (None, k') \<Rightarrow> (True, snd (sched_setattr 0 (probe_attr original) k'))
      | (Some e, k') \<Rightarrow> (False, k'))"

subsection \<open>When an attribute of threads succeeds\<close>

lemma thread_answer_simps:
  "thread_answer None = None" "e \<noteq> 0 \<Longrightarrow> thread_answer (Some e) \<noteq> None"
  by (simp_all add: thread_answer_def test_errno_def)

interpretation spt: thread_attribute "\<lambda>tids k. set_priority_threads setpriority tids n k"
  "\<lambda>tid. setpriority tid n" thread_answer None for setpriority n
  by unfold_locales (simp_all add: set_priority_threads_def thread_answer_simps split_beta)

interpretation lnt: thread_attribute "\<lambda>tids k. set_latency_nice_threads setattr tids n k"
  "\<lambda>tid. setattr tid (latency_attr n)" thread_answer None for setattr n
  by unfold_locales (simp_all add: set_latency_nice_threads_def thread_answer_simps split_beta)

text \<open>The scheduler attribute once the name was found to be a policy, with the reason to report it as skipped.\<close>

definition policy_answer :: "string option \<Rightarrow> int option \<Rightarrow> platform_error option" where
  "policy_answer reason verdict =
     (case thread_answer verdict of None \<Rightarrow> map_option Skipped reason | Some e \<Rightarrow> Some e)"

definition set_policy_threads ::
  "(int \<Rightarrow> nat \<Rightarrow> int \<Rightarrow> 'k \<Rightarrow> int option \<times> 'k) \<Rightarrow> int list \<Rightarrow> nat \<times> int \<times> string option \<Rightarrow> 'k \<Rightarrow>
     platform_error option \<times> 'k" where
  "set_policy_threads setscheduler tids pol k =
     (case pol of (policy, prio, reason) \<Rightarrow>
        (case each_thread (\<lambda>tid. setscheduler tid policy prio) tids k of
           (results, k') \<Rightarrow> (policy_answer reason (first_real_error results), k')))"

lemma set_sched_policy:
  "set_sched_threads setscheduler tids name rt k =
     (case policy_of name rt of None \<Rightarrow> (Some Unsupported, k) | Some pol \<Rightarrow> set_policy_threads setscheduler tids pol k)"
  by (auto simp: set_sched_threads_def set_policy_threads_def policy_answer_def split: option.split prod.split)

lemma policy_answer_error: "e \<noteq> 0 \<Longrightarrow> policy_answer reason (Some e) \<noteq> map_option Skipped reason"
  by (cases reason) (auto simp: policy_answer_def thread_answer_def test_errno_def)

interpretation sct: thread_attribute "\<lambda>tids k. set_policy_threads setscheduler tids (policy, prio, reason) k"
  "\<lambda>tid. setscheduler tid policy prio" "policy_answer reason" "map_option Skipped reason"
  for setscheduler policy prio reason
  by unfold_locales
    (simp_all add: set_policy_threads_def policy_answer_error split_beta, simp add: policy_answer_def thread_answer_simps)

text \<open>
  C19: nice, latency nice and the scheduling policy are set on every thread: whatever the kernel answers on the way,
  one system call is made for each thread of the list, in order and with the value asked for. The attribute is
  reported as applied exactly when no living thread refused it and not all of them were gone. Of the policies,
  \<^verbatim>\<open>deadline\<close> is the exception: its calls set the normal policy, and what would be success is reported as skipped;
  a name that is no policy is reported as unsupported, without any call.
\<close>
theorem thread_attributes_applied_iff:
  assumes "\<And>tid n k. fst (setpriority tid n k) \<noteq> Some 0"
    and "\<And>tid a k. fst (setattr tid a k) \<noteq> Some 0"
    and "\<And>tid p q k. fst (setscheduler tid p q k) \<noteq> Some 0"
  shows "(case set_priority_threads (\<lambda>tid n. log_call (setpriority tid n) (tid, n)) tids n (k, []) of
      (answer, k', log) \<Rightarrow> set_priority_threads setpriority tids n k = (answer, k') \<and>
        map fst log = map (\<lambda>tid. (tid, n)) tids \<and> (answer = None \<longleftrightarrow> threads_ok (map snd log))) \<and>
    (case set_latency_nice_threads (\<lambda>tid a. log_call (setattr tid a) (tid, a)) tids n (k, []) of
      (answer, k', log) \<Rightarrow> set_latency_nice_threads setattr tids n k = (answer, k') \<and>
        map fst log = map (\<lambda>tid. (tid, latency_attr n)) tids \<and> (answer = None \<longleftrightarrow> threads_ok (map snd log))) \<and>
    (case set_sched_threads (\<lambda>tid p q. log_call (setscheduler tid p q) (tid, p, q)) tids name rt (k, []) of
      (answer, k', log) \<Rightarrow> set_sched_threads setscheduler tids name rt k = (answer, k') \<and>
        (case policy_of name rt of
           None \<Rightarrow> log = [] \<and> k' = k \<and> answer = Some Unsupported
         | Some (policy, prio, reason) \<Rightarrow> map fst log = map (\<lambda>tid. (tid, policy, prio)) tids \<and>
             (threads_ok (map snd log) \<longleftrightarrow> answer = map_option Skipped reason)))"
    (is "?nice \<and> ?latency \<and> ?sched")
proof (intro conjI)
  show ?nice
    using spt.noted [of setpriority n "\<lambda>tid. (tid, n)" tids k] assms(1)
    by (auto simp: set_priority_threads_def split: prod.split)
  show ?latency
    using lnt.noted [of setattr n "\<lambda>tid. (tid, latency_attr n)" tids k] assms(2)
    by (auto simp: set_latency_nice_threads_def split: prod.split)
  show ?sched
  proof (cases "policy_of name rt")
    case (Some pol)
    obtain policy prio reason where pol: "pol = (policy, prio, reason)" by (cases pol)
    show ?thesis
      using sct.noted [of setscheduler policy prio "\<lambda>tid. (tid, policy, prio)" tids k _ _ _ reason] assms(3)
      by (auto simp: set_sched_policy set_policy_threads_def Some pol split: prod.split)
  qed (simp add: set_sched_policy)
qed

text \<open>A kernel that knows thread 5, refuses thread 6 and has lost every other one.\<close>

definition sample_call :: "int \<Rightarrow> int list \<Rightarrow> int option \<times> int list" where
  "sample_call tid k =
     (if tid = 5 then (None, k @ [tid]) else if tid = 6 then (Some eperm, k) else (Some esrch, k))"

theorem thread_attributes_applied_iff_witness:
  "(\<exists>log. set_priority_threads (\<lambda>tid n. log_call (sample_call tid) (tid, n)) [6, 5, 7] 3 ([], []) =
      (Some PermissionDenied, [5], log) \<and> map fst log = [(6, 3), (5, 3), (7, 3)]) \<and>
   fst (set_latency_nice_threads (\<lambda>tid a. sample_call tid) [5, 7] 3 []) = None \<and>
   fst (set_sched_threads (\<lambda>tid p q. sample_call tid) [5, 7] ''deadline'' 1 []) =
     Some (Skipped ''deadline scheduler is unavailable'')"
proof -
  have nz: "fst (sample_call tid k) \<noteq> Some 0" for tid k by (simp add: sample_call_def errnos)
  show ?thesis
    using thread_attributes_applied_iff [of "\<lambda>tid n. sample_call tid" "\<lambda>tid a. sample_call tid"
        "\<lambda>tid p q. sample_call tid" "[6, 5, 7]" 3 "[]" "''deadline''" 1]
      thread_attributes_applied_iff [of "\<lambda>tid n. sample_call tid" "\<lambda>tid a. sample_call tid"
        "\<lambda>tid p q. sample_call tid" "[5, 7]" 3 "[]" "''deadline''" 1] nz
    by (simp add: set_priority_threads_def set_latency_nice_threads_def set_sched_threads_def log_call_def
        sample_call_def policy_of_def threads_ok_def first_real_error_def scan_simps thread_answer_def test_errno_def
        errnos Let_def split_beta)
qed

subsection \<open>Latency nice and the policy of a thread\<close>

text \<open>
  What \<^verbatim>\<open>sched_setattr(2)\<close> documents of the policy: a call with the flag leaves the policy of every
  thread alone, a successful one without it gives the thread the policy of the structure.
\<close>

definition setattr_policy ::
  "(int \<Rightarrow> 'k \<Rightarrow> nat) \<Rightarrow> (int \<Rightarrow> sched_attr \<Rightarrow> 'k \<Rightarrow> int option \<times> 'k) \<Rightarrow> bool" where
  "setattr_policy policy setattr \<longleftrightarrow>
     (\<forall>tid a k t. attr_flags a AND sched_flag_keep_policy \<noteq> 0 \<longrightarrow>
        policy t (snd (setattr tid a k)) = policy t k) \<and>
     (\<forall>tid a k. attr_flags a AND sched_flag_keep_policy = 0 \<longrightarrow> fst (setattr tid a k) = None \<longrightarrow>
        policy tid (snd (setattr tid a k)) = attr_policy a)"

lemma latency_attr_keeps: "attr_flags (latency_attr n) AND sched_flag_keep_policy \<noteq> 0"
  by (simp add: latency_attr_def default_attr_def sched_flag_latency_nice_def sched_flag_keep_params_def
      sched_flag_keep_policy_def)

lemma probe_attr_drops: "attr_flags (probe_attr n) AND sched_flag_keep_policy = 0"
  by (simp add: probe_attr_def default_attr_def sched_flag_latency_nice_def sched_flag_keep_params_def
      sched_flag_keep_policy_def)

text \<open>
  C20: setting the latency nice of a process leaves the scheduling policy of every thread of the system
  as it was, whatever the policy and whichever threads accept.
\<close>
theorem latency_nice_keeps_policy:
  assumes "setattr_policy policy setattr"
  shows "policy t (snd (set_latency_nice_threads setattr tids n k)) = policy t k"
proof -
  have "policy t (snd (setattr tid (latency_attr n) k)) = policy t k" for tid k
    using assms latency_attr_keeps unfolding setattr_policy_def by blast
  then show ?thesis
    unfolding lnt.attr_world by (rule each_thread_frame)
qed

text \<open>A kernel that holds nothing but the policies of the threads.\<close>

definition policy_kernel :: "int \<Rightarrow> sched_attr \<Rightarrow> (int \<Rightarrow> nat) \<Rightarrow> int option \<times> (int \<Rightarrow> nat)" where
  "policy_kernel tid a k =
     (None, if attr_flags a AND sched_flag_keep_policy = 0 then k(tid := attr_policy a) else k)"

lemma policy_kernel_ok: "setattr_policy (\<lambda>t k. k t) policy_kernel"
  by (simp add: setattr_policy_def policy_kernel_def)

theorem latency_nice_keeps_policy_witness:
  "snd (set_latency_nice_threads policy_kernel [3] (- 5) (\<lambda>_. sched_fifo)) 3 = sched_fifo"
  using latency_nice_keeps_policy [OF policy_kernel_ok, of "[3]" "- 5" "\<lambda>_. sched_fifo" 3] by simp

text \<open>
  The probe for latency nice, where it succeeds and its restoring call does too, leaves the thread
  that runs it on the normal policy, whatever policy it had before.
\<close>
theorem probe_resets_policy:
  assumes "setattr_policy policy setattr" and "\<And>a k. fst (setattr 0 a k) = None"
  shows "fst (test_latnice_support getattr setattr k) \<and>
    policy 0 (snd (test_latnice_support getattr setattr k)) = sched_normal"
proof -
  obtain k' where k': "setattr 0 (probe_attr (- 20)) k = (None, k')"
    by (metis assms(2) prod.collapse)
  have "policy 0 (snd (setattr 0 (probe_attr n) j)) = sched_normal" for n j
  proof -
    have "policy 0 (snd (setattr 0 (probe_attr n) j)) = attr_policy (probe_attr n)"
      using assms probe_attr_drops unfolding setattr_policy_def by blast
    then show ?thesis by (simp add: probe_attr_def default_attr_def sched_normal_def)
  qed
  then show ?thesis by (simp add: test_latnice_support_def k')
qed

theorem probe_resets_policy_witness:
  "snd (test_latnice_support (\<lambda>pid k. None) policy_kernel (\<lambda>_. sched_fifo)) 0 = sched_normal"
  using probe_resets_policy [OF policy_kernel_ok, of "\<lambda>pid k. None" "\<lambda>_. sched_fifo"]
  by (simp add: policy_kernel_def)

subsection \<open>The packed I/O priority\<close>

lemma io_class_packed: "io_class_read (ioprio_prio_value c d) = c OR drop_bit 13 d"
proof -
  have "drop_bit 13 (push_bit 13 c) = c" by (simp add: drop_bit_eq_div push_bit_eq_mult)
  then show ?thesis by (simp add: io_class_read_def ioprio_prio_value_def ioprio_class_shift_def)
qed

lemma io_level_packed: "io_level_read (ioprio_prio_value c d) = d mod 8192"
proof -
  have mask: "ioprio_prio_mask = mask 13" by (simp add: ioprio_prio_mask_def mask_eq_exp_minus_1)
  have "take_bit 13 (push_bit 13 c OR d) = take_bit 13 d"
    by (simp add: take_bit_or take_bit_push_bit)
  then show ?thesis
    by (simp add: io_level_read_def ioprio_prio_value_def ioprio_class_shift_def mask
        take_bit_eq_mask [symmetric]) (simp add: take_bit_eq_mod)
qed

text \<open>
  What the report of a process reads back of an I/O priority the daemon packed: the class of the
  rule and its level when the level is below 8192; a larger level spills into the class, so that
  best-effort with level 8192 is idle.
\<close>
theorem io_priority_read_back:
  assumes "io_class_of name = Some cls" and "0 \<le> d"
  shows "io_class_read (ioprio_prio_value cls d) = (cls OR d div 8192) \<and>
    io_level_read (ioprio_prio_value cls d) = d mod 8192 \<and>
    (d < 8192 \<longrightarrow> get_io_class_name (io_class_read (ioprio_prio_value cls d)) = name)"
proof -
  have "d < 8192 \<Longrightarrow> d div 8192 = 0" using assms(2) by simp
  moreover have "get_io_class_name cls = name"
    using assms(1)
    by (auto simp: io_class_of_def get_io_class_name_def ioprio_class_none_def ioprio_class_rt_def
        ioprio_class_be_def ioprio_class_idle_def split: if_splits)
  ultimately show ?thesis by (simp add: io_class_packed io_level_packed drop_bit_eq_div)
qed

theorem io_priority_read_back_witness:
  "get_io_class_name (io_class_read (ioprio_prio_value ioprio_class_be 8192)) = ''idle'' \<and>
   io_level_read (ioprio_prio_value ioprio_class_be 8192) = 0"
  using io_priority_read_back [of "''best-effort''" ioprio_class_be 8192]
  by (simp add: io_class_of_def get_io_class_name_def ioprio_class_none_def ioprio_class_rt_def
      ioprio_class_be_def ioprio_class_idle_def)

end
