(* ===== verification/Rust_Text.thy ===== *)
theory Rust_Text
  imports Rust_Str "HOL-Library.Sublist"
begin

text \<open>
  The string primitives the platform crate uses beyond those of \<open>Rust_Str\<close>: fields separated by
  white space, stripping and searching for a literal, signed numbers, and \<^verbatim>\<open>std::path\<close>. A path
  is the list of its components, which is what \<^verbatim>\<open>Path\<close> compares by: two paths are equal in Rust
  exactly when these lists are.
\<close>

subsection \<open>Fields and literals\<close>

text \<open>\<^verbatim>\<open>s.split_whitespace()\<close>; \<open>cur\<close> holds the field being read, backwards.\<close>

definition flush :: "string \<Rightarrow> string list" where
  "flush cur = (if cur = [] then [] else [rev cur])"

function fields_from :: "string \<Rightarrow> string \<Rightarrow> string list" where
  "fields_from cur s =
     (if s = [] then flush cur
      else if ws_prefix s = 0 then fields_from (hd s # cur) (tl s)
      else flush cur @ fields_from [] (drop (ws_prefix s) s))"
  by pat_completeness auto
termination
  by (relation "measure (\<lambda>(cur, s). length s)") simp_all

declare fields_from.simps [simp del]

definition split_whitespace :: "string \<Rightarrow> string list" where
  "split_whitespace s = fields_from [] s"

definition strip_prefix :: "string \<Rightarrow> string \<Rightarrow> string option" where
  "strip_prefix p s = (if starts_with s p then Some (drop (length p) s) else None)"

text \<open>\<^verbatim>\<open>trim_start_matches\<close> and \<^verbatim>\<open>trim_end_matches\<close> with a non-empty literal.\<close>

function trim_start_matches :: "string \<Rightarrow> string \<Rightarrow> string" where
  "trim_start_matches p s =
     (if p \<noteq> [] \<and> starts_with s p then trim_start_matches p (drop (length p) s) else s)"
  by pat_completeness auto
termination
  by (relation "measure (\<lambda>(p, s). length s)") (auto simp: starts_with_def intro!: diff_less)

function trim_end_matches :: "string \<Rightarrow> string \<Rightarrow> string" where
  "trim_end_matches p s =
     (if p \<noteq> [] \<and> ends_with s p then trim_end_matches p (take (length s - length p) s) else s)"
  by pat_completeness auto
termination
  by (relation "measure (\<lambda>(p, s). length s)") (auto simp: ends_with_def intro!: diff_less)

declare trim_start_matches.simps [simp del] trim_end_matches.simps [simp del]

text \<open>\<^verbatim>\<open>s.find("...")\<close>: the offset of the first occurrence of a literal.\<close>

fun find_str :: "string \<Rightarrow> string \<Rightarrow> nat option" where
  "find_str p [] = (if p = [] then Some 0 else None)"
| "find_str p (c # s) = (if starts_with (c # s) p then Some 0 else map_option Suc (find_str p s))"

definition contains :: "string \<Rightarrow> string \<Rightarrow> bool" where
  "contains s p \<longleftrightarrow> find_str p s \<noteq> None"

definition replace_char :: "char \<Rightarrow> char \<Rightarrow> string \<Rightarrow> string" where
  "replace_char a b s = map (\<lambda>c. if c = a then b else c) s"

lemma starts_with_prefix: "starts_with s p \<longleftrightarrow> prefix p s"
  by (metis starts_with_def append_eq_conv_conj append_take_drop_id prefix_def)

lemma ends_with_suffix: "ends_with s p \<longleftrightarrow> suffix p s"
proof
  show "ends_with s p \<Longrightarrow> suffix p s"
    unfolding ends_with_def suffix_def by (metis append_take_drop_id)
qed (auto simp: ends_with_def suffix_def)

lemma starts_with_append [simp]: "starts_with (p @ s) p"
  by (simp add: starts_with_prefix)

lemma strip_prefix_append [simp]: "strip_prefix p (p @ s) = Some s"
  by (simp add: strip_prefix_def)

lemma strip_prefix_Some: "strip_prefix p s = Some r \<longleftrightarrow> s = p @ r"
  by (auto simp: strip_prefix_def starts_with_prefix prefix_def)

lemma find_str_Some: "find_str p s = Some i \<Longrightarrow> \<exists>b. s = take i s @ p @ b"
proof (induction s arbitrary: i)
  case (Cons c s)
  show ?case
  proof (cases "starts_with (c # s) p")
    case True
    with Cons.prems show ?thesis by (auto simp: starts_with_prefix prefix_def)
  next
    case False
    with Cons.prems obtain j where "i = Suc j" "find_str p s = Some j" by auto
    with Cons.IH [of j] show ?thesis by simp
  qed
qed (simp split: if_splits)

lemma find_str_append: "find_str p (a @ p @ b) \<noteq> None"
proof (induction a)
  case Nil
  then show ?case by (cases "p @ b") (use starts_with_append [of p b] in auto)
qed simp

lemma contains_iff: "contains s p \<longleftrightarrow> (\<exists>a b. s = a @ p @ b)"
  unfolding contains_def using find_str_Some find_str_append by (metis not_None_eq)

subsection \<open>Words separated by single spaces\<close>

definition word :: "string \<Rightarrow> bool" where
  "word s \<longleftrightarrow> s \<noteq> [] \<and> list_all plain_char s"

lemma fields_from_word: "list_all plain_char w \<Longrightarrow> fields_from cur (w @ s) = fields_from (rev w @ cur) s"
proof (induction w arbitrary: cur)
  case (Cons c w)
  then show ?case by (subst fields_from.simps) (simp add: ws_prefix_plain)
qed simp

lemma ws_prefix_space: "ws_prefix (CHR '' '' # s) = 1"
  by (cases "CHR '' '' # s" rule: ws_prefix.cases) (auto simp: ascii_ws_def)

lemma fields_from_space: "fields_from cur (CHR '' '' # s) = flush cur @ fields_from [] s"
  by (subst fields_from.simps) (simp add: ws_prefix_space)

lemma fields_from_end: "fields_from cur [] = flush cur"
  by (simp add: fields_from.simps)

lemma split_whitespace_words: "list_all word ws \<Longrightarrow> split_whitespace (join '' '' ws) = ws"
proof (induction ws)
  case (Cons p ws)
  note ih = Cons.IH and prem = Cons.prems
  from prem have p: "list_all plain_char p" "p \<noteq> []" by (simp_all add: word_def)
  show ?case
  proof (cases ws)
    case Nil
    then show ?thesis
      using p fields_from_word [of p "[]" "[]"] by (simp add: split_whitespace_def fields_from_end flush_def)
  next
    case (Cons q qs)
    then show ?thesis
      using p prem ih by (simp add: split_whitespace_def fields_from_word fields_from_space flush_def)
  qed
qed (simp add: split_whitespace_def fields_from_end flush_def)

lemma split_whitespace_space: "split_whitespace (CHR '' '' # s) = split_whitespace s"
  by (simp add: split_whitespace_def fields_from_space flush_def)

subsection \<open>Signed numbers\<close>

definition parse_i32 :: "string \<Rightarrow> int option" where
  "parse_i32 s =
     (if 1 < length s \<and> hd s = CHR ''-'' then map_option (\<lambda>n. - int n) (parse_digits (2 ^ 31) 0 (tl s))
      else map_option int (parse_uint (2 ^ 31 - 1) s))"

definition parse_u64 :: "string \<Rightarrow> nat option" where
  "parse_u64 s = parse_uint (2 ^ 64 - 1) s"

definition u64_max :: nat where "u64_max = 2 ^ 64 - 1"

definition saturating_mul :: "nat \<Rightarrow> nat \<Rightarrow> nat" where
  "saturating_mul a b = min (a * b) u64_max"

lemma parse_uint_show: "n \<le> m \<Longrightarrow> parse_uint m (show_nat n) = Some n"
proof -
  assume n: "n \<le> m"
  obtain c r where cr: "show_nat n = c # r" by (cases "show_nat n") auto
  then have "digit_val c \<noteq> None" using set_show_nat [of c n] by auto
  then have "c \<noteq> CHR ''+''" and "c \<noteq> CHR ''-''" by (auto simp: digit_val_def)
  then show ?thesis using n cr parse_digits_show [of n m] by (simp add: parse_uint_def)
qed

lemma parse_u64_show: "n < 2 ^ 64 \<Longrightarrow> parse_u64 (show_nat n) = Some n"
  by (simp add: parse_u64_def parse_uint_show)

definition show_int :: "int \<Rightarrow> string" where
  "show_int n = (if n < 0 then ''-'' @ show_nat (nat (- n)) else show_nat (nat n))"

subsection \<open>Paths\<close>

datatype component = Root_Dir | Cur_Dir | Parent_Dir | Normal string

type_synonym path = "component list"

definition name_component :: "string \<Rightarrow> component" where
  "name_component s = (if s = ''..'' then Parent_Dir else Normal s)"

text \<open>The components after the first: empty ones and single dots vanish.\<close>

definition body_components :: "string list \<Rightarrow> path" where
  "body_components ss = map name_component (filter (\<lambda>s. s \<noteq> [] \<and> s \<noteq> ''.'') ss)"

definition path_of :: "string \<Rightarrow> path" where
  "path_of s =
     (case split_on (CHR ''/'') s of
        [] \<Rightarrow> []
      | p # ps \<Rightarrow>
          if p = [] then (if ps = [] then [] else Root_Dir # body_components ps)
          else if p = ''.'' then Cur_Dir # body_components ps
          else body_components (p # ps))"

definition is_absolute :: "path \<Rightarrow> bool" where
  "is_absolute p \<longleftrightarrow> p \<noteq> [] \<and> hd p = Root_Dir"

text \<open>\<^verbatim>\<open>PathBuf::push\<close>: an absolute path replaces what was there.\<close>

definition push :: "path \<Rightarrow> string \<Rightarrow> path" where
  "push p s =
     (let q = path_of s in
      if is_absolute q then q else if p = [] then q else p @ filter (\<lambda>c. c \<noteq> Cur_Dir) q)"

definition path_parent :: "path \<Rightarrow> path option" where
  "path_parent p = (if p = [] \<or> last p = Root_Dir then None else Some (butlast p))"

definition file_name :: "path \<Rightarrow> string option" where
  "file_name p = (if p = [] then None else case last p of Normal s \<Rightarrow> Some s | _ \<Rightarrow> None)"

definition path_starts_with :: "path \<Rightarrow> path \<Rightarrow> bool" where
  "path_starts_with p q \<longleftrightarrow> take (length q) p = q"

lemma path_starts_with_iff: "path_starts_with p q \<longleftrightarrow> prefix q p"
  by (metis path_starts_with_def append_eq_conv_conj append_take_drop_id prefix_def)

lemma path_starts_with_refl [simp]: "path_starts_with p p"
  by (simp add: path_starts_with_iff)

lemma path_starts_with_trans: "path_starts_with p q \<Longrightarrow> path_starts_with q r \<Longrightarrow> path_starts_with p r"
  by (auto simp: path_starts_with_iff intro: prefix_order.trans)

text \<open>Pushing a relative path stays below the path it is pushed on.\<close>

lemma relative_path_of: "\<not> starts_with s ''/'' \<Longrightarrow> \<not> is_absolute (path_of s)"
proof -
  have body: "Root_Dir \<notin> set (body_components ss)" for ss
    by (auto simp: body_components_def name_component_def)
  assume "\<not> starts_with s ''/''"
  then have "s = [] \<or> hd s \<noteq> CHR ''/''" by (cases s) (auto simp: starts_with_def)
  then have "s = [] \<or> hd (split_on (CHR ''/'') s) \<noteq> []"
    by (cases s) (auto split: list.splits)
  moreover have "is_absolute q \<Longrightarrow> Root_Dir \<in> set q" for q
    unfolding is_absolute_def using hd_in_set by metis
  ultimately show ?thesis
    using body by (fastforce simp: path_of_def split: list.splits if_splits)
qed

lemma absolute_path_of: "starts_with s ''/'' \<Longrightarrow> is_absolute (path_of s)"
  by (cases s) (auto simp: starts_with_def path_of_def is_absolute_def)

lemma push_below:
  assumes "\<not> starts_with s ''/''"
  shows "path_starts_with (push p s) p"
  using relative_path_of [OF assms] by (auto simp: push_def Let_def path_starts_with_iff)

lemma push_absolute: "starts_with s ''/'' \<Longrightarrow> push p s = path_of s"
  by (simp add: push_def absolute_path_of Let_def)

text \<open>Pushing one plain name appends one component.\<close>

lemma push_name:
  assumes "CHR ''/'' \<notin> set s" and "s \<noteq> []" and "s \<noteq> ''.''" and "s \<noteq> ''..''"
  shows "push p s = p @ [Normal s]"
proof -
  have "path_of s = [Normal s]"
    using assms by (simp add: path_of_def split_on_no_sep body_components_def name_component_def)
  then show ?thesis by (simp add: push_def is_absolute_def Let_def)
qed

end
