(* ===== verification/Affinity.thy ===== *)
theory Affinity
  imports Cpu_Set Platform_Error Rust_Text
begin

unbundle bit_operations_syntax

text \<open>
  \<^verbatim>\<open>crates/ananicy-platform/src/abi/affinity.rs\<close>: the byte mask of a set of CPUs, reading such
  masks from the kernel's CPU lists, and applying one to the threads of a process with one
  retry on the CPUs the process is allowed to use. The system call and the files are
  operations of a record; an index out of bounds, which panics, is the value \<open>None\<close>. The mask is
  the second instance of the interface \<open>cpu_bits\<close>.
\<close>

subsection \<open>Masks\<close>

definition get_max_number_of_cpus :: "int \<Rightarrow> nat" where
  "get_max_number_of_cpus conf = max (nat (conf mod 2 ^ 32)) 1024"

definition or_bit :: "nat \<Rightarrow> bytes \<Rightarrow> bytes" where
  "or_bit cpu msk = msk[cpu div 8 := msk ! (cpu div 8) OR push_bit (cpu mod 8) 1]"

fun fill_mask :: "nat \<Rightarrow> nat list \<Rightarrow> bytes \<Rightarrow> bytes option" where
  "fill_mask num_cpus [] msk = Some msk"
| "fill_mask num_cpus (cpu # cpus) msk =
     (if cpu < num_cpus then
        if cpu div 8 < length msk then fill_mask num_cpus cpus (or_bit cpu msk) else None
      else fill_mask num_cpus cpus msk)"

definition mask_from :: "cpu_set \<Rightarrow> nat \<Rightarrow> bytes option" where
  "mask_from cpuset num_cpus = fill_mask num_cpus (get_cores cpuset) (replicate (num_cpus div 8) 0)"

subsection \<open>CPU lists of the kernel\<close>

definition mark_cpu :: "nat \<Rightarrow> bytes \<times> bool \<Rightarrow> bytes \<times> bool" where
  "mark_cpu cpu st =
     (case st of (msk, any) \<Rightarrow> if cpu < length msk * 8 then (or_bit cpu msk, True) else (msk, any))"

definition parse_range :: "string \<Rightarrow> (nat \<times> nat) option" where
  "parse_range part =
     (case split_once (CHR ''-'') part of
        Some (s, e) \<Rightarrow>
          (case parse_u32 s of
             None \<Rightarrow> None
           | Some start \<Rightarrow> (case parse_u32 e of None \<Rightarrow> None | Some end' \<Rightarrow> Some (start, end')))
      | None \<Rightarrow> (case parse_u32 part of None \<Rightarrow> None | Some cpu \<Rightarrow> Some (cpu, cpu)))"

fun mark_parts :: "string list \<Rightarrow> bytes \<times> bool \<Rightarrow> (bytes \<times> bool) option" where
  "mark_parts [] st = Some st"
| "mark_parts (p # ps) st =
     (let part = trim p in
      if part = [] then mark_parts ps st
      else
        (case parse_range part of
           None \<Rightarrow> None
         | Some (start, end') \<Rightarrow> mark_parts ps (fold mark_cpu [start..<Suc end'] st)))"

definition then_some :: "bytes \<times> bool \<Rightarrow> bytes option" where
  "then_some st = (if snd st then Some (fst st) else None)"

definition mask_from_cpu_list :: "string \<Rightarrow> nat \<Rightarrow> bytes option" where
  "mask_from_cpu_list list num_bytes =
     Option.bind (mark_parts (split_on (CHR '','') list) (replicate num_bytes 0, False)) then_some"

definition cpuinfo_cpu :: "string \<Rightarrow> nat option" where
  "cpuinfo_cpu line =
     Option.bind (strip_prefix ''processor'' line)
       (\<lambda>rest. Option.bind (strip_prefix '':'' (trim_start rest)) (\<lambda>v. parse_u32 (trim v)))"

definition online_cpus :: "string option \<Rightarrow> nat \<Rightarrow> bytes option" where
  "online_cpus cpuinfo num_bytes =
     (case cpuinfo of
        None \<Rightarrow> None
      | Some raw \<Rightarrow>
          then_some (fold mark_cpu (List.map_filter cpuinfo_cpu (str_lines raw)) (replicate num_bytes 0, False)))"

datatype machine_cpus = Possible bytes | Online bytes

definition machine_read :: "string option \<Rightarrow> string option \<Rightarrow> nat \<Rightarrow> machine_cpus option" where
  "machine_read possible cpuinfo num_bytes =
     (case Option.bind possible (\<lambda>raw. mask_from_cpu_list (trim raw) num_bytes) of
        Some msk \<Rightarrow> Some (Possible msk)
      | None \<Rightarrow> map_option Online (online_cpus cpuinfo num_bytes))"

fun machine_mask :: "machine_cpus \<Rightarrow> bytes" where
  "machine_mask (Possible msk) = msk"
| "machine_mask (Online msk) = msk"

fun machine_absent :: "machine_cpus \<Rightarrow> string" where
  "machine_absent (Possible msk) = ''no CPU a rule asked for exists on this machine''"
| "machine_absent (Online msk) = ''no CPU a rule asked for is online on this machine''"

definition current_affinity :: "string option \<Rightarrow> nat \<Rightarrow> bytes option" where
  "current_affinity status num_bytes =
     Option.bind status (\<lambda>text.
       Option.bind (find (\<lambda>l. starts_with l ''Cpus_allowed_list:'') (str_lines text)) (\<lambda>line.
         Option.bind (split_once (CHR '':'') line) (\<lambda>(_, v). mask_from_cpu_list v num_bytes)))"

subsection \<open>Applying a mask\<close>

record 'k affinity_os =
  os_setaffinity :: "int \<Rightarrow> bytes \<Rightarrow> 'k \<Rightarrow> int option \<times> 'k"
  os_status :: "int \<Rightarrow> 'k \<Rightarrow> string option"
  os_possible :: "'k \<Rightarrow> string option"
  os_cpuinfo :: "'k \<Rightarrow> string option"

datatype affinity_failure = RetryNarrower | Settled platform_error

definition classify_errno :: "int \<Rightarrow> platform_error" where
  "classify_errno e =
     (if e = esrch then NotFound
      else if e = eacces \<or> e = eperm then PermissionDenied
      else Io (Some e))"

record 'k pass =
  first_err :: "int option"
  pass_applied :: bool
  pass_not_found :: bool
  pass_world :: 'k

definition pass_thread :: "'k affinity_os \<Rightarrow> bytes \<Rightarrow> int \<Rightarrow> 'k pass \<Rightarrow> 'k pass" where
  "pass_thread os msk tid ps =
     (case os_setaffinity os tid msk (pass_world ps) of
        (None, k) \<Rightarrow> ps\<lparr>pass_applied := True, pass_world := k\<rparr>
      | (Some e, k) \<Rightarrow>
          if e = esrch then ps\<lparr>pass_not_found := True, pass_world := k\<rparr>
          else ps\<lparr>first_err := get_or_insert (first_err ps) e, pass_world := k\<rparr>)"

definition apply_to_tids ::
  "'k affinity_os \<Rightarrow> int list \<Rightarrow> bytes \<Rightarrow> 'k \<Rightarrow> affinity_failure option \<times> 'k" where
  "apply_to_tids os tids msk k =
     (let ps = fold (pass_thread os msk) tids
                 \<lparr>first_err = None, pass_applied = False, pass_not_found = False, pass_world = k\<rparr> in
      (if pass_applied ps then None
       else
         (case first_err ps of
            Some e \<Rightarrow> Some (if e = einval then RetryNarrower else Settled (classify_errno e))
          | None \<Rightarrow> if pass_not_found ps then Some (Settled NotFound) else None),
       pass_world ps))"

definition and_mask :: "bytes \<Rightarrow> bytes \<Rightarrow> bytes" where
  "and_mask a b = map (\<lambda>(x, y). x AND y) (zip a b)"

definition any_set :: "bytes \<Rightarrow> bool" where
  "any_set m \<longleftrightarrow> list_ex (\<lambda>b. b \<noteq> 0) m"

text \<open>The CPUs the first thread is allowed to use, if there is a thread and they can be read.\<close>

definition allowed_mask :: "'k affinity_os \<Rightarrow> int list \<Rightarrow> nat \<Rightarrow> 'k \<Rightarrow> bytes option" where
  "allowed_mask os tids num_bytes k =
     (case tids of [] \<Rightarrow> None | t # _ \<Rightarrow> current_affinity (os_status os t k) num_bytes)"

definition retry_narrowed ::
  "'k affinity_os \<Rightarrow> int \<Rightarrow> int list \<Rightarrow> bytes \<Rightarrow> 'k \<Rightarrow> platform_error option \<times> 'k" where
  "retry_narrowed os pid tids narrowed k =
     (case apply_to_tids os tids narrowed k of
        (None, k') \<Rightarrow> (None, k')
      | (Some (Settled e), k') \<Rightarrow> (Some e, k')
      | (Some RetryNarrower, k') \<Rightarrow>
          (Some (Skipped (''the narrowed cpuset was refused for '' @ show_int pid @ '' as well'')), k'))"

definition narrow_and_retry ::
  "'k affinity_os \<Rightarrow> int \<Rightarrow> int list \<Rightarrow> bytes \<Rightarrow> nat \<Rightarrow> 'k \<Rightarrow> platform_error option \<times> 'k" where
  "narrow_and_retry os pid tids msk num_bytes k =
     (case allowed_mask os tids num_bytes k of
        None \<Rightarrow>
          (Some (InvalidCpuset (''the kernel refused the cpuset for '' @ show_int pid @
             '' and its allowed CPUs could not be read'')), k)
      | Some allowed \<Rightarrow>
          let machine = machine_read (os_possible os k) (os_cpuinfo os k) num_bytes;
              narrowed = and_mask msk allowed;
              rest =
                (if \<not> any_set narrowed then
                   (Some (case machine of
                      Some _ \<Rightarrow>
                        Skipped (''no CPU in the cpuset a rule asked for is available to '' @ show_int pid)
                    | None \<Rightarrow> Io (Some einval)), k)
                 else if narrowed = msk then (Some (Io (Some einval)), k)
                 else retry_narrowed os pid tids narrowed k)
          in (case machine of
                Some known \<Rightarrow>
                  if \<not> any_set (and_mask msk (machine_mask known))
                  then (Some (InvalidCpuset (machine_absent known)), k) else rest
              | None \<Rightarrow> rest))"

definition set_affinity_threads ::
  "'k affinity_os \<Rightarrow> nat \<Rightarrow> int \<Rightarrow> int list \<Rightarrow> cpu_set \<Rightarrow> 'k \<Rightarrow> (platform_error option \<times> 'k) option" where
  "set_affinity_threads os num_cpus pid tids cpuset k =
     (if is_empty cpuset then Some (None, k)
      else
        (case mask_from cpuset num_cpus of
           None \<Rightarrow> None
         | Some msk \<Rightarrow>
             Some (case apply_to_tids os tids msk k of
                     (None, k') \<Rightarrow> (None, k')
                   | (Some RetryNarrower, k') \<Rightarrow> narrow_and_retry os pid tids msk (num_cpus div 8) k'
                   | (Some (Settled e), k') \<Rightarrow> (Some e, k'))))"

subsection \<open>The mask as a set of CPUs\<close>

definition mask_has :: "bytes \<Rightarrow> nat \<Rightarrow> bool" where
  "mask_has msk c \<longleftrightarrow> c div 8 < length msk \<and> bit (msk ! (c div 8)) (c mod 8)"

text \<open>The guarded insertion that both loops over CPU numbers perform.\<close>

definition mask_insert :: "nat \<Rightarrow> bytes \<Rightarrow> bytes" where
  "mask_insert cpu msk = (if cpu < length msk * 8 then or_bit cpu msk else msk)"

lemma less_bytes: "c < n * 8 \<longleftrightarrow> c div 8 < (n :: nat)"
  by (simp add: div_less_iff_less_mult)

lemma or_bit_length [simp]: "length (or_bit c m) = length m"
  by (simp add: or_bit_def)

lemma bit_or_one:
  assumes "i < 8"
  shows "bit (b OR push_bit i (1 :: u8)) j \<longleftrightarrow> bit b j \<or> j = i"
  using assms by (auto simp: bit_or_iff bit_simps)

lemma mask_has_or_bit:
  assumes "c div 8 < length m"
  shows "mask_has (or_bit c m) d \<longleftrightarrow> mask_has m d \<or> d = c"
proof (cases "d div 8 = c div 8")
  case True
  have "bit (m ! (c div 8) OR push_bit (c mod 8) 1) (d mod 8) \<longleftrightarrow> bit (m ! (c div 8)) (d mod 8) \<or> d mod 8 = c mod 8"
    by (rule bit_or_one) simp
  moreover have "d mod 8 = c mod 8 \<longleftrightarrow> d = c" using True by (metis div_mult_mod_eq)
  ultimately show ?thesis using True assms by (simp add: mask_has_def or_bit_def)
next
  case False
  then have "d \<noteq> c" by auto
  with False show ?thesis by (simp add: mask_has_def or_bit_def)
qed

lemma mask_insert_length [simp]: "length (mask_insert c m) = length m"
  by (simp add: mask_insert_def)

lemma mask_has_insert: "mask_has (mask_insert c m) d \<longleftrightarrow> mask_has m d \<or> d = c \<and> c < length m * 8"
  by (auto simp: mask_insert_def mask_has_or_bit less_bytes)

interpretation maskset: cpu_bits "\<lambda>_. True" "\<lambda>m. length m * 8" mask_insert mask_has
  by unfold_locales (simp_all add: mask_has_insert)

subsection \<open>The mask of a set of CPUs\<close>

lemma fill_mask_None:
  "fill_mask n cs m = None \<longleftrightarrow> (\<exists>c \<in> set cs. c < n \<and> length m \<le> c div 8)"
  by (induction cs arbitrary: m) (auto simp: not_less)

lemma fill_mask_Some:
  assumes "fill_mask n cs m = Some m'"
  shows "m' = fold mask_insert (filter (\<lambda>c. c < n) cs) m"
  using assms by (induction cs arbitrary: m) (auto simp: mask_insert_def less_bytes split: if_splits)

lemma mask_has_replicate [simp]: "\<not> mask_has (replicate n 0) c"
  by (simp add: mask_has_def)

lemma mask_from_length: "mask_from s n = Some m \<Longrightarrow> length m = n div 8"
  using maskset.fold_capacity by (auto simp: mask_from_def dest!: fill_mask_Some)

lemma mask_from_None:
  assumes "cpuset_wf s"
  shows "mask_from s n = None \<longleftrightarrow> (\<exists>c. has_cpu s c \<and> c < n \<and> n div 8 \<le> c div 8)"
  using assms by (auto simp: mask_from_def fill_mask_None set_get_cores)

lemma mask_from_has:
  assumes wf: "cpuset_wf s" and some: "mask_from s n = Some m"
  shows "mask_has m c \<longleftrightarrow> has_cpu s c \<and> c < n"
proof -
  have "m = fold mask_insert (filter (\<lambda>c. c < n) (get_cores s)) (replicate (n div 8) 0)"
    using some by (simp add: mask_from_def fill_mask_Some)
  then have "mask_has m c \<longleftrightarrow> has_cpu s c \<and> c < n \<and> c < n div 8 * 8"
    using wf by (simp add: maskset.has_fold set_get_cores)
  moreover have "c < n div 8 * 8" if "has_cpu s c" "c < n"
  proof -
    have "mask_from s n \<noteq> None" using some by simp
    with that mask_from_None [OF wf, of n] have "\<not> n div 8 \<le> c div 8" by blast
    then show ?thesis by (simp add: less_bytes)
  qed
  ultimately show ?thesis by blast
qed

subsection \<open>What a pass over the threads may touch\<close>

text \<open>
  The interface between the calls on single threads and the passes over them: a property of the
  kernel's state that every single call keeps, for the threads and masks the passes use.
\<close>

locale affinity_frame =
  fixes os :: "'k affinity_os"
    and tids :: "int list"
    and ok_mask :: "bytes \<Rightarrow> bool"
    and P :: "'k \<Rightarrow> bool"
  assumes call_keeps: "\<And>t m k. t \<in> set tids \<Longrightarrow> ok_mask m \<Longrightarrow> P k \<Longrightarrow> P (snd (os_setaffinity os t m k))"
begin

lemma pass_thread_keeps:
  assumes "t \<in> set tids" and "ok_mask m" and "P (pass_world ps)"
  shows "P (pass_world (pass_thread os m t ps))"
  using call_keeps [OF assms] by (auto simp: pass_thread_def split: prod.split option.split)

lemma passes_keep:
  assumes "ok_mask m" and "P (pass_world ps)" and "set ts \<subseteq> set tids"
  shows "P (pass_world (fold (pass_thread os m) ts ps))"
  using assms by (induction ts arbitrary: ps) (simp_all add: pass_thread_keeps)

lemma apply_to_tids_keeps: "ok_mask m \<Longrightarrow> P k \<Longrightarrow> P (snd (apply_to_tids os tids m k))"
  unfolding apply_to_tids_def Let_def by (simp add: passes_keep)

lemma retry_narrowed_keeps: "ok_mask m \<Longrightarrow> P k \<Longrightarrow> P (snd (retry_narrowed os pid tids m k))"
  using apply_to_tids_keeps [of m k]
  by (auto simp: retry_narrowed_def split: prod.split option.split affinity_failure.split)

lemma narrow_and_retry_keeps:
  assumes "\<And>b. ok_mask (and_mask m b)" and "P k"
  shows "P (snd (narrow_and_retry os pid tids m n k))"
  using assms retry_narrowed_keeps by (simp add: narrow_and_retry_def Let_def split: option.split)

lemma set_affinity_threads_keeps:
  assumes res: "set_affinity_threads os n pid tids s k = Some (r, k')" and start: "P k"
    and asked: "\<And>m. mask_from s n = Some m \<Longrightarrow> ok_mask m"
    and narrowed: "\<And>m b. mask_from s n = Some m \<Longrightarrow> ok_mask (and_mask m b)"
  shows "P k'"
proof (cases "is_empty s")
  case False
  with res obtain m where m: "mask_from s n = Some m"
    by (auto simp: set_affinity_threads_def split: option.splits)
  have "P (snd (apply_to_tids os tids m k))" using asked [OF m] start by (rule apply_to_tids_keeps)
  moreover have "P (snd (narrow_and_retry os pid tids m (n div 8) k''))" if "P k''" for k''
    using narrowed [OF m] that by (rule narrow_and_retry_keeps)
  ultimately show ?thesis
    using res False m
    by (auto simp: set_affinity_threads_def split: prod.splits option.splits affinity_failure.splits)
      (metis snd_conv)+
qed (use res start in \<open>simp add: set_affinity_threads_def\<close>)

end

lemma length_and_mask [simp]: "length (and_mask a b) = min (length a) (length b)"
  by (simp add: and_mask_def)

lemma mask_has_and: "mask_has (and_mask a b) c \<longleftrightarrow> mask_has a c \<and> mask_has b c"
  by (auto simp: mask_has_def and_mask_def bit_and_iff)

text \<open>The same kernel, with a log of the calls made on it, the latest first.\<close>

definition traced :: "'k affinity_os \<Rightarrow> ('k \<times> (int \<times> bytes) list) affinity_os" where
  "traced os =
     \<lparr>os_setaffinity = \<lambda>t m (k, log). (case os_setaffinity os t m k of (e, k') \<Rightarrow> (e, k', (t, m) # log)),
      os_status = \<lambda>t (k, log). os_status os t k,
      os_possible = \<lambda>(k, log). os_possible os k,
      os_cpuinfo = \<lambda>(k, log). os_cpuinfo os k\<rparr>"

definition names_only :: "cpu_set \<Rightarrow> bytes \<Rightarrow> bool" where
  "names_only s m \<longleftrightarrow> (\<forall>c. mask_has m c \<longrightarrow> has_cpu s c)"

interpretation trf: affinity_frame "traced os" tids "names_only s"
    "\<lambda>(k, log). list_all (\<lambda>(t, m). t \<in> set tids \<and> names_only s m) log" for os tids s
  by unfold_locales (auto simp: traced_def split: prod.split)

text \<open>
  A kernel that lets every thread run on CPU 0 only, with the calls it granted as its state, and
  the cpuset that names one CPU of eight.
\<close>

definition small_kernel :: "(int \<times> bytes) list affinity_os" where
  "small_kernel =
     \<lparr>os_setaffinity = \<lambda>t m k. if mask_has m 0 then (None, (t, m) # k) else (Some einval, k),
      os_status = \<lambda>t k. Some ''Cpus_allowed_list: 0'',
      os_possible = \<lambda>k. Some ''0-7'',
      os_cpuinfo = \<lambda>k. None\<rparr>"

definition one_cpu :: "nat \<Rightarrow> cpu_set" where
  "one_cpu c = set_cpu c (new_set 8)"

text \<open>
  C21: Applying a rule's cpuset makes calls on threads of the process only, and no call ever
  allows a thread a CPU outside the cpuset of the rule, on the first pass and on the retry.
\<close>

theorem cpuset_never_widened:
  assumes "cpuset_wf s"
    and "set_affinity_threads (traced os) n pid tids s (k, []) = Some (r, k', log)"
  shows "list_all (\<lambda>(t, m). t \<in> set tids \<and> (\<forall>c. mask_has m c \<longrightarrow> has_cpu s c)) log"
proof -
  have "names_only s m" "names_only s (and_mask m b)" if "mask_from s n = Some m" for m b
    using mask_from_has [OF assms(1) that] by (simp_all add: names_only_def mask_has_and)
  then have "list_all (\<lambda>(t, m). t \<in> set tids \<and> names_only s m) log"
    using trf.set_affinity_threads_keeps [OF assms(2), of s] by simp
  then show ?thesis by (simp add: names_only_def)
qed

theorem cpuset_never_widened_witness:
  "\<exists>r k' log. set_affinity_threads (traced small_kernel) 8 7 [7, 8] (one_cpu 0) ([], []) = Some (r, k', log) \<and>
     log \<noteq> [] \<and> list_all (\<lambda>(t, m). t \<in> {7, 8} \<and> \<not> mask_has m 1) log"
proof -
  have run: "set_affinity_threads (traced small_kernel) 8 7 [7, 8] (one_cpu 0) ([], []) =
      Some (None, [(8, [1]), (7, [1])], [(8, [1]), (7, [1])])"
    by code_simp
  have "cpuset_wf (one_cpu 0)" "\<not> has_cpu (one_cpu 0) 1"
    by (simp_all add: one_cpu_def has_cpu_set)
  with cpuset_never_widened [OF _ run] show ?thesis using run by (auto simp: list_all_iff)
qed

text \<open>
  C22: The mask for a rule's cpuset is built exactly when every CPU of the set below the CPU count
  lies in a whole byte of it, and its bits are then the CPUs of the set below the count; a set
  with a CPU in the last, incomplete byte indexes past the end of the vector and panics.
\<close>

theorem mask_from_panics_iff:
  assumes "cpuset_wf s"
  shows "(mask_from s n = None \<longleftrightarrow> (\<exists>c. has_cpu s c \<and> 8 * (n div 8) \<le> c \<and> c < n)) \<and>
    (\<forall>m. mask_from s n = Some m \<longrightarrow> length m = n div 8 \<and> (\<forall>c. mask_has m c \<longleftrightarrow> has_cpu s c \<and> c < n))"
proof -
  have "n div 8 \<le> c div 8 \<longleftrightarrow> 8 * (n div 8) \<le> c" for c
    by (simp add: less_eq_div_iff_mult_less_eq mult.commute)
  then show ?thesis
    using mask_from_None [OF assms, of n] mask_from_length mask_from_has [OF assms] by auto
qed

theorem mask_from_panics_iff_witness:
  "mask_from \<lparr>max_cores = 10, cores = replicate 9 False @ [True]\<rparr> 10 = None \<and>
   mask_from \<lparr>max_cores = 10, cores = replicate 9 False @ [True]\<rparr> 9 = Some [0]"
proof -
  let ?s = "\<lparr>max_cores = 10, cores = replicate 9 False @ [True]\<rparr>"
  have wf: "cpuset_wf ?s" by (simp add: cpuset_wf_def)
  have "has_cpu ?s 9" by (simp add: has_cpu_def nth_append)
  then have "mask_from ?s 10 = None" using mask_from_panics_iff [OF wf, of 10] by fastforce
  moreover have "mask_from ?s 9 = Some [0]" by code_simp
  ultimately show ?thesis ..
qed

subsection \<open>The retry\<close>

lemma any_set_has: "any_set m \<longleftrightarrow> (\<exists>c. mask_has m c)"
proof
  assume "any_set m"
  then obtain i where i: "i < length m" "m ! i \<noteq> 0"
    by (auto simp: any_set_def list_ex_iff in_set_conv_nth)
  then obtain j where j: "bit (m ! i) j" by (metis bit_eqI bit_0_eq bot_apply bot_bool_def)
  then have "j < 8" using bit_imp_le_length [OF j] by simp
  with i j have "mask_has m (8 * i + j)" by (simp add: mask_has_def)
  then show "\<exists>c. mask_has m c" ..
next
  assume "\<exists>c. mask_has m c"
  then obtain c where c: "c div 8 < length m" "bit (m ! (c div 8)) (c mod 8)"
    by (auto simp: mask_has_def)
  then have "m ! (c div 8) \<noteq> 0" by auto
  with c(1) show "any_set m" by (auto simp: any_set_def list_ex_iff)
qed

lemma pass_keeps_first_err:
  "first_err ps = Some e \<Longrightarrow> first_err (fold (pass_thread os m) ts ps) = Some e"
  by (induction ts arbitrary: ps)
    (auto simp: pass_thread_def split: prod.splits option.splits)

lemma pass_keeps_applied:
  "pass_applied ps \<Longrightarrow> pass_applied (fold (pass_thread os m) ts ps)"
  by (induction ts arbitrary: ps) (auto simp: pass_thread_def split: prod.splits option.splits)

lemma first_answer_refused:
  assumes "fst (apply_to_tids os (t # ts) m k) = Some RetryNarrower"
  shows "fst (os_setaffinity os t m k) \<in> {Some esrch, Some einval}"
proof -
  let ?init = "\<lparr>first_err = None, pass_applied = False, pass_not_found = False, pass_world = k\<rparr>"
  let ?p = "fold (pass_thread os m) ts (pass_thread os m t ?init)"
  have end_state: "\<not> pass_applied ?p" "first_err ?p = Some einval"
    using assms by (auto simp: apply_to_tids_def Let_def split: if_splits option.splits)
  show ?thesis
  proof (cases "os_setaffinity os t m k")
    case (Pair e k1)
    show ?thesis
    proof (cases e)
      case None
      with Pair have "pass_applied (pass_thread os m t ?init)" by (simp add: pass_thread_def)
      then have "pass_applied ?p" by (rule pass_keeps_applied)
      with end_state(1) show ?thesis by simp
    next
      case (Some err)
      have "err = esrch \<or> first_err (pass_thread os m t ?init) = Some err"
        using Pair Some by (simp add: pass_thread_def get_or_insert_def)
      with end_state(2) Pair Some show ?thesis using pass_keeps_first_err by fastforce
    qed
  qed
qed

text \<open>
  On a kernel that answers \<^verbatim>\<open>EINVAL\<close> only for a mask with no CPU the thread is
  allowed, that reports no CPU as allowed but those, and that has no status for a thread it
  answers \<^verbatim>\<open>ESRCH\<close> for, a refused cpuset is never retried: the threads are as the first pass
  left them, and the answer is an error.
\<close>

theorem refused_cpuset_not_retried:
  fixes allowed :: "int \<Rightarrow> nat set"
  assumes refused: "\<And>t m k c. fst (os_setaffinity os t m k) = Some einval \<Longrightarrow> mask_has m c \<Longrightarrow> c \<notin> allowed t"
    and reported: "\<And>t k n m c. current_affinity (os_status os t k) n = Some m \<Longrightarrow> mask_has m c \<Longrightarrow> c \<in> allowed t"
    and gone: "\<And>t m k k'. fst (os_setaffinity os t m k) = Some esrch \<Longrightarrow> os_status os t k' = None"
    and "\<not> is_empty s" and "mask_from s n = Some m"
    and "apply_to_tids os tids m k = (Some RetryNarrower, k')"
  shows "\<exists>e. set_affinity_threads os n pid tids s k = Some (Some e, k')"
proof -
  have "\<exists>e. narrow_and_retry os pid tids m (n div 8) k' = (Some e, k')"
  proof (cases "allowed_mask os tids (n div 8) k'")
    case None
    then show ?thesis by (simp add: narrow_and_retry_def)
  next
    case (Some a)
    then obtain t ts where t: "tids = t # ts" "current_affinity (os_status os t k') (n div 8) = Some a"
      by (auto simp: allowed_mask_def split: list.splits)
    have "fst (os_setaffinity os t m k) \<in> {Some esrch, Some einval}"
      using assms(6) t(1) by (intro first_answer_refused [where ts = ts]) simp
    moreover have "fst (os_setaffinity os t m k) \<noteq> Some esrch"
      using gone t(2) by (fastforce simp: current_affinity_def)
    ultimately have "fst (os_setaffinity os t m k) = Some einval" by blast
    then have "\<not> any_set (and_mask m a)"
      unfolding any_set_has mask_has_and using refused reported t(2) by blast
    with Some show ?thesis by (simp add: narrow_and_retry_def Let_def split: option.split)
  qed
  with assms(4-6) show ?thesis by (simp add: set_affinity_threads_def)
qed

lemma small_kernel_status: "current_affinity (os_status small_kernel t k) n = then_some (mark_cpu 0 (replicate n 0, False))"
proof -
  have "find (\<lambda>l. starts_with l ''Cpus_allowed_list:'') (str_lines ''Cpus_allowed_list: 0'') =
      Some ''Cpus_allowed_list: 0''"
    and "split_once (CHR '':'') ''Cpus_allowed_list: 0'' = Some (''Cpus_allowed_list'', '' 0'')"
    and "split_on (CHR '','') '' 0'' = ['' 0'']" and "trim '' 0'' = ''0''"
    by code_simp+
  moreover have "parse_range ''0'' = Some (0, 0)" by (simp add: parse_range_def eval_simps)
  ultimately show ?thesis
    by (simp add: small_kernel_def current_affinity_def mask_from_cpu_list_def)
qed

theorem refused_cpuset_not_retried_witness:
  "\<exists>e. set_affinity_threads small_kernel 8 7 [7, 8] (one_cpu 2) [] = Some (Some e, [])"
proof (rule refused_cpuset_not_retried [where allowed = "\<lambda>_. {0}" and m = "[4]"])
  fix t :: int and m k and n c :: nat
  show "mask_has m c \<Longrightarrow> fst (os_setaffinity small_kernel t m k) = Some einval \<Longrightarrow> c \<notin> {0}"
    by (cases "c = 0") (auto simp: small_kernel_def split: if_splits)
  show "current_affinity (os_status small_kernel t k) n = Some m \<Longrightarrow> mask_has m c \<Longrightarrow> c \<in> {0}"
    by (auto simp: small_kernel_status then_some_def mark_cpu_def mask_has_or_bit less_bytes split: if_splits)
  show "fst (os_setaffinity small_kernel t m k) = Some esrch \<Longrightarrow> os_status small_kernel t k' = None" for k'
    by (simp add: small_kernel_def errnos split: if_splits)
qed (code_simp, code_simp, code_simp)

end
