(* ===== verification/File_System.thy ===== *)
theory File_System
  imports Rust_Text Platform_Error
begin

text \<open>
  What the platform crate uses of the file system and of the \<^verbatim>\<open>lru\<close> crate, as records of
  operations on a state the model does not look into. The files below \<^verbatim>\<open>/proc\<close>, \<^verbatim>\<open>/sys\<close> and the
  cgroup mount are reached through the same record. The interface \<open>fs_frame\<close> is what a component
  promises about the paths it touches: a property of the state that the permitted effects keep is
  kept by the whole component. Its instance is the file system that logs every effect.
\<close>

subsection \<open>Files\<close>

record 'k fs =
  fs_exists :: "path \<Rightarrow> 'k \<Rightarrow> bool"
  fs_read :: "path \<Rightarrow> 'k \<Rightarrow> int + string"
  fs_appendable :: "path \<Rightarrow> 'k \<Rightarrow> bool"
  fs_openable :: "path \<Rightarrow> 'k \<Rightarrow> bool"
  fs_create_dir_all :: "path \<Rightarrow> 'k \<Rightarrow> bool \<times> 'k"
  fs_create_dir :: "path \<Rightarrow> 'k \<Rightarrow> bool \<times> 'k"
  fs_remove_dir :: "path \<Rightarrow> 'k \<Rightarrow> 'k"
  fs_write_all :: "path \<Rightarrow> string \<Rightarrow> 'k \<Rightarrow> bool \<times> 'k"
  fs_parallelism :: "'k \<Rightarrow> nat option"

text \<open>\<^verbatim>\<open>read_to_string(..).ok()\<close>.\<close>

definition read_ok :: "'k fs \<Rightarrow> path \<Rightarrow> 'k \<Rightarrow> string option" where
  "read_ok fs p k = (case fs_read fs p k of Inl e \<Rightarrow> None | Inr s \<Rightarrow> Some s)"

definition proc_file :: "int \<Rightarrow> string \<Rightarrow> path" where
  "proc_file pid file = path_of (''/proc/'' @ show_int pid @ ''/'' @ file)"

text \<open>The last effect is a system call that sets an attribute of the thread or process with this number.\<close>

datatype effect = Created path | Removed path | Wrote path string | Tuned int

locale fs_frame =
  fixes fs :: "'k fs"
    and permitted :: "effect \<Rightarrow> bool"
    and P :: "'k \<Rightarrow> bool"
  assumes create_all_keeps: "permitted (Created p) \<Longrightarrow> P k \<Longrightarrow> P (snd (fs_create_dir_all fs p k))"
    and create_keeps: "permitted (Created p) \<Longrightarrow> P k \<Longrightarrow> P (snd (fs_create_dir fs p k))"
    and remove_keeps: "permitted (Removed p) \<Longrightarrow> P k \<Longrightarrow> P (fs_remove_dir fs p k)"
    and write_keeps: "permitted (Wrote p s) \<Longrightarrow> P k \<Longrightarrow> P (snd (fs_write_all fs p s k))"

text \<open>Any file system, with a log of its effects, the latest first.\<close>

definition logged :: "'k fs \<Rightarrow> ('k \<times> effect list) fs" where
  "logged fs =
     \<lparr>fs_exists = \<lambda>p (k, log). fs_exists fs p k,
      fs_read = \<lambda>p (k, log). fs_read fs p k,
      fs_appendable = \<lambda>p (k, log). fs_appendable fs p k,
      fs_openable = \<lambda>p (k, log). fs_openable fs p k,
      fs_create_dir_all = \<lambda>p (k, log). (case fs_create_dir_all fs p k of (b, k') \<Rightarrow> (b, k', Created p # log)),
      fs_create_dir = \<lambda>p (k, log). (case fs_create_dir fs p k of (b, k') \<Rightarrow> (b, k', Created p # log)),
      fs_remove_dir = \<lambda>p (k, log). (fs_remove_dir fs p k, Removed p # log),
      fs_write_all = \<lambda>p s (k, log). (case fs_write_all fs p s k of (b, k') \<Rightarrow> (b, k', Wrote p s # log)),
      fs_parallelism = \<lambda>(k, log). fs_parallelism fs k\<rparr>"

interpretation lfs: fs_frame "logged fs" permitted "\<lambda>(k, log). list_all permitted log" for fs permitted
  by unfold_locales (auto simp: logged_def split: prod.split)

lemma logged_reads [simp]:
  "fs_exists (logged fs) p (k, log) = fs_exists fs p k"
  "read_ok (logged fs) p (k, log) = read_ok fs p k"
  by (simp_all add: logged_def read_ok_def)

text \<open>A file system that holds its files in a list, used to run the model on concrete inputs.\<close>

definition mem_fs :: "(path \<times> string option) list fs" where
  "mem_fs =
     \<lparr>fs_exists = \<lambda>p k. map_of k p \<noteq> None,
      fs_read = \<lambda>p k. (case map_of k p of Some (Some s) \<Rightarrow> Inr s | _ \<Rightarrow> Inl enoent),
      fs_appendable = \<lambda>p k. (case map_of k p of Some (Some s) \<Rightarrow> True | _ \<Rightarrow> False),
      fs_openable = \<lambda>p k. (case map_of k p of Some (Some s) \<Rightarrow> True | _ \<Rightarrow> False),
      fs_create_dir_all = \<lambda>p k. (True, (p, None) # k),
      fs_create_dir = \<lambda>p k. (map_of k p = None, if map_of k p = None then (p, None) # k else k),
      fs_remove_dir = \<lambda>p k. filter (\<lambda>e. fst e \<noteq> p) k,
      fs_write_all = \<lambda>p s k. (True, (p, Some s) # k),
      fs_parallelism = \<lambda>k. Some 8\<rparr>"

subsection \<open>Bounded caches\<close>

record ('k, 'v, 'c) lru_ops =
  cache_new :: 'c
  cache_get :: "'k \<Rightarrow> 'c \<Rightarrow> 'v option \<times> 'c"
  cache_put :: "'k \<Rightarrow> 'v \<Rightarrow> 'c \<Rightarrow> 'c"
  cache_pop :: "'k \<Rightarrow> 'c \<Rightarrow> 'c"
  cache_peek :: "'k \<Rightarrow> 'c \<Rightarrow> 'v option"

text \<open>
  What the crate documents: a look-up changes no entry, an insertion is found at once and
  may evict others but invents none, a removal takes its own entry only.
\<close>

definition lru_laws :: "('k, 'v, 'c) lru_ops \<Rightarrow> bool" where
  "lru_laws L \<longleftrightarrow>
     (\<forall>k. cache_peek L k (cache_new L) = None) \<and>
     (\<forall>k c. fst (cache_get L k c) = cache_peek L k c) \<and>
     (\<forall>j k c. cache_peek L j (snd (cache_get L k c)) = cache_peek L j c) \<and>
     (\<forall>k v c. cache_peek L k (cache_put L k v c) = Some v) \<and>
     (\<forall>j k v c x. cache_peek L j (cache_put L k v c) = Some x \<longrightarrow> j \<noteq> k \<longrightarrow> cache_peek L j c = Some x) \<and>
     (\<forall>k c. cache_peek L k (cache_pop L k c) = None) \<and>
     (\<forall>j k c. j \<noteq> k \<longrightarrow> cache_peek L j (cache_pop L k c) = cache_peek L j c)"

lemma lru_lawsD:
  assumes "lru_laws L"
  shows "cache_peek L k (cache_new L) = None"
    and "fst (cache_get L k c) = cache_peek L k c"
    and "cache_peek L j (snd (cache_get L k c)) = cache_peek L j c"
    and "cache_peek L k (cache_put L k v c) = Some v"
    and "cache_peek L j (cache_put L k v c) = Some x \<Longrightarrow> j \<noteq> k \<Longrightarrow> cache_peek L j c = Some x"
    and "cache_peek L k (cache_pop L k c) = None"
    and "j \<noteq> k \<Longrightarrow> cache_peek L j (cache_pop L k c) = cache_peek L j c"
  using assms unfolding lru_laws_def by blast+

text \<open>The cache of capacity \<open>n\<close> as a list, the most recently used entry first.\<close>

definition list_lru :: "nat \<Rightarrow> ('k, 'v, ('k \<times> 'v) list) lru_ops" where
  "list_lru n =
     \<lparr>cache_new = [],
      cache_get = \<lambda>k c.
        (case map_of c k of None \<Rightarrow> (None, c) | Some v \<Rightarrow> (Some v, (k, v) # filter (\<lambda>x. fst x \<noteq> k) c)),
      cache_put = \<lambda>k v c. take n ((k, v) # filter (\<lambda>x. fst x \<noteq> k) c),
      cache_pop = \<lambda>k c. filter (\<lambda>x. fst x \<noteq> k) c,
      cache_peek = \<lambda>k c. map_of c k\<rparr>"

lemma list_lru_simps [simp]:
  "cache_new (list_lru n) = []"
  "cache_get (list_lru n) k c =
     (case map_of c k of None \<Rightarrow> (None, c) | Some v \<Rightarrow> (Some v, (k, v) # filter (\<lambda>x. fst x \<noteq> k) c))"
  "cache_put (list_lru n) k v c = take n ((k, v) # filter (\<lambda>x. fst x \<noteq> k) c)"
  "cache_pop (list_lru n) k c = filter (\<lambda>x. fst x \<noteq> k) c"
  "cache_peek (list_lru n) k c = map_of c k"
  by (simp_all add: list_lru_def)

lemma map_of_filter_key: "map_of (filter (\<lambda>x. fst x \<noteq> k) c) j = (if j = k then None else map_of c j)"
  by (induction c) auto

lemma map_of_take: "map_of (take n c) j = Some x \<Longrightarrow> map_of c j = Some x"
  by (metis append_take_drop_id map_add_find_right map_of_append map_add_Some_iff)

lemma list_lru_laws: "0 < n \<Longrightarrow> lru_laws (list_lru n)"
  unfolding lru_laws_def
  by (auto simp: map_of_filter_key take_Cons' split: option.split if_splits dest: map_of_take)

end
