(* ===== verification/Procfs.thy ===== *)
theory Procfs
  imports File_System Bpf_Monitor
begin

text \<open>
  \<^verbatim>\<open>crates/ananicy-platform/src/procfs.rs\<close>: the name a process is matched under, its start time,
  thread group and threads, and the scan of all processes. Reading \<^verbatim>\<open>/proc\<close> is a record of
  operations; the cache of executables that cannot be read is a state that is passed on.
\<close>

subsection \<open>Data\<close>

record 'k proc_os =
  proc_fs :: "'k fs"
  proc_cmdline :: "int \<Rightarrow> 'k \<Rightarrow> string option"
  proc_exe :: "int \<Rightarrow> 'k \<Rightarrow> int + path"
  proc_entries :: "'k \<Rightarrow> string list option"
  proc_tasks :: "int \<Rightarrow> 'k \<Rightarrow> int + string list"

record exe_failure =
  fail_start :: "nat option"
  fail_count :: nat

definition skip_exe_failures :: nat where "skip_exe_failures = 5"

text \<open>\<^verbatim>\<open>String::from_utf8_lossy\<close> on the bytes of a file or argument.\<close>

definition from_utf8_lossy :: "string \<Rightarrow> string" where
  "from_utf8_lossy s = string_of (utf8_lossy (map (\<lambda>c. of_nat (of_char c)) s))"

subsection \<open>Numbers of a process\<close>

definition start_time_of :: "string \<Rightarrow> nat option" where
  "start_time_of stat =
     (case rfind_char (CHR '')'') stat of
        None \<Rightarrow> None
      | Some rparen \<Rightarrow>
          (let fields = split_whitespace (drop (Suc rparen) stat) in
           if 19 < length fields then parse_u64 (fields ! 19) else None))"

definition get_start_time :: "'k proc_os \<Rightarrow> int \<Rightarrow> 'k \<Rightarrow> nat option" where
  "get_start_time os pid k = Option.bind (read_ok (proc_fs os) (proc_file pid ''stat'') k) start_time_of"

definition tgid_of :: "string \<Rightarrow> int option" where
  "tgid_of status =
     (case find (\<lambda>line. starts_with line ''Tgid:'') (str_lines status) of
        None \<Rightarrow> None
      | Some line \<Rightarrow>
          (let fields = split_whitespace line in if 1 < length fields then parse_i32 (fields ! 1) else None))"

definition get_tgid :: "'k proc_os \<Rightarrow> int \<Rightarrow> 'k \<Rightarrow> int option" where
  "get_tgid os pid k = Option.bind (read_ok (proc_fs os) (proc_file pid ''status'') k) tgid_of"

definition proc_get_tids :: "'k proc_os \<Rightarrow> int \<Rightarrow> 'k \<Rightarrow> platform_error + int list" where
  "proc_get_tids os pid k =
     (case proc_tasks os pid k of
        Inr names \<Rightarrow> Inr (List.map_filter parse_i32 names)
      | Inl e \<Rightarrow>
          if e = enoent then Inl NotFound
          else if e = eacces \<or> e = eperm then Inl PermissionDenied
          else Inl (Io (Some e)))"

subsection \<open>The budget for unreadable executables\<close>

definition remembered_budget :: "exe_failure \<Rightarrow> nat option \<Rightarrow> nat option" where
  "remembered_budget entry observed =
     (case (fail_start entry, observed) of
        (Some recorded, Some now) \<Rightarrow> if recorded = now then Some (fail_count entry) else None
      | _ \<Rightarrow> None)"

definition exe_failures_for ::
  "(int, exe_failure, 'c) lru_ops \<Rightarrow> 'k proc_os \<Rightarrow> int \<Rightarrow> 'k \<Rightarrow> 'c \<Rightarrow> nat \<times> 'c" where
  "exe_failures_for L os pid k c =
     (case cache_get L pid c of
        (None, c') \<Rightarrow> (0, c')
      | (Some entry, c') \<Rightarrow>
          (case remembered_budget entry (get_start_time os pid k) of
             Some n \<Rightarrow> (n, c')
           | None \<Rightarrow> (0, cache_pop L pid c')))"

subsection \<open>The name of a process\<close>

definition strip_deleted_suffix :: "string \<Rightarrow> string" where
  "strip_deleted_suffix name =
     (case find_str '' (deleted)'' name of Some i \<Rightarrow> take i name | None \<Rightarrow> name)"

definition arg_basename :: "string \<Rightarrow> string" where
  "arg_basename arg =
     (let name = (if ends_with arg ''.exe'' then replace_char (CHR 0x5C) (CHR ''/'') arg else arg) in
      case rfind_char (CHR ''/'') name of Some i \<Rightarrow> drop (Suc i) name | None \<Rightarrow> name)"

definition resolve_argv_name :: "string \<Rightarrow> string option \<Rightarrow> string option \<Rightarrow> string" where
  "resolve_argv_name argv0 script comm =
     (let name = arg_basename argv0 in
      case (script, comm) of
        (Some sc, Some cm) \<Rightarrow>
          (let cm' = trim cm in
           if cm' \<noteq> [] \<and> cm' \<noteq> name \<and> starts_with (arg_basename sc) cm' then arg_basename sc else name)
      | _ \<Rightarrow> name)"

definition cmdline_args :: "string \<Rightarrow> string list" where
  "cmdline_args raw = take 2 (filter (\<lambda>a. a \<noteq> []) (split_on (CHR 0x00) raw))"

definition read_comm :: "'k proc_os \<Rightarrow> int \<Rightarrow> 'k \<Rightarrow> string" where
  "read_comm os pid k = (case read_ok (proc_fs os) (proc_file pid ''comm'') k of Some s \<Rightarrow> s | None \<Rightarrow> [])"

text \<open>Step 1, the command line; \<open>None\<close> when it names nothing.\<close>

definition name_from_cmdline :: "'k proc_os \<Rightarrow> int \<Rightarrow> 'k \<Rightarrow> string option" where
  "name_from_cmdline os pid k =
     (case proc_cmdline os pid k of
        None \<Rightarrow> None
      | Some raw \<Rightarrow>
          if raw = [] then None
          else
            (case map from_utf8_lossy (cmdline_args raw) of
               [] \<Rightarrow> None
             | [argv0] \<Rightarrow> Some (resolve_argv_name argv0 None None)
             | argv0 # script # _ \<Rightarrow>
                 Some (resolve_argv_name argv0 (Some script) (Some (read_comm os pid k)))))"

text \<open>Step 2, the executable, within the budget.\<close>

definition name_from_exe ::
  "(int, exe_failure, 'c) lru_ops \<Rightarrow> 'k proc_os \<Rightarrow> int \<Rightarrow> 'k \<Rightarrow> 'c \<Rightarrow> string option \<times> 'c" where
  "name_from_exe L os pid k c =
     (case exe_failures_for L os pid k c of
        (failures, c1) \<Rightarrow>
          if failures < skip_exe_failures then
            (case proc_exe os pid k of
               Inr target \<Rightarrow>
                 (map_option (\<lambda>f. strip_deleted_suffix (from_utf8_lossy f)) (file_name target),
                  if 0 < failures then cache_pop L pid c1 else c1)
             | Inl e \<Rightarrow>
                 (None,
                  if e = eacces \<or> e = eperm
                  then cache_put L pid \<lparr>fail_start = get_start_time os pid k, fail_count = failures + 1\<rparr> c1
                  else c1))
          else (None, c1))"

text \<open>Step 3, the kernel's name.\<close>

definition name_from_comm :: "'k proc_os \<Rightarrow> int \<Rightarrow> 'k \<Rightarrow> string" where
  "name_from_comm os pid k =
     (case read_ok (proc_fs os) (proc_file pid ''comm'') k of
        None \<Rightarrow> ''<unknown>''
      | Some comm \<Rightarrow> if trim comm = [] then ''<unknown>'' else trim comm)"

definition get_command_from_pid ::
  "(int, exe_failure, 'c) lru_ops \<Rightarrow> 'k proc_os \<Rightarrow> int \<Rightarrow> 'k \<Rightarrow> 'c \<Rightarrow> string \<times> 'c" where
  "get_command_from_pid L os pid k c =
     (case name_from_cmdline os pid k of
        Some name \<Rightarrow> (name, c)
      | None \<Rightarrow>
          (case name_from_exe L os pid k c of
             (Some name, c') \<Rightarrow> (name, c')
           | (None, c') \<Rightarrow> (name_from_comm os pid k, c')))"

subsection \<open>The scan\<close>

text \<open>
  \<^verbatim>\<open>ProcfsScanner::full_scan\<close> over the entries of the directory; \<open>room\<close> is how many processes the
  channel still takes before its receiver is gone.
\<close>

definition entry_pid :: "string \<Rightarrow> int option" where
  "entry_pid f =
     (let s = from_utf8_lossy f in
      if list_all (\<lambda>c. digit_val c \<noteq> None) s then parse_i32 s else None)"

fun scan_entries ::
  "(int, exe_failure, 'c) lru_ops \<Rightarrow> 'k proc_os \<Rightarrow> 'k \<Rightarrow> nat option \<Rightarrow> string list \<Rightarrow> 'c \<Rightarrow> process list \<times> 'c" where
  "scan_entries L os k room [] c = ([], c)"
| "scan_entries L os k room (f # fs) c =
     (case entry_pid f of
        None \<Rightarrow> scan_entries L os k room fs c
      | Some pid \<Rightarrow>
          (case get_command_from_pid L os pid k c of
             (name, c1) \<Rightarrow>
               if room = Some 0 then ([], c1)
               else
                 (case scan_entries L os k (map_option (\<lambda>n. n - 1) room) fs c1 of
                    (ps, c2) \<Rightarrow> (with_authoritative_name (new_process pid name) # ps, c2))))"

definition full_scan ::
  "(int, exe_failure, 'c) lru_ops \<Rightarrow> 'k proc_os \<Rightarrow> 'k \<Rightarrow> nat option \<Rightarrow> 'c \<Rightarrow> process list \<times> 'c" where
  "full_scan L os k room c =
     (case proc_entries os k of None \<Rightarrow> ([], c) | Some entries \<Rightarrow> scan_entries L os k room entries c)"

subsection \<open>The start time on any line the kernel writes\<close>

text \<open>The line of \<^verbatim>\<open>/proc/<pid>/stat\<close>: number, name in parentheses, and fields from the third on.\<close>

definition stat_line :: "nat \<Rightarrow> string \<Rightarrow> string list \<Rightarrow> string" where
  "stat_line pid comm fds = show_nat pid @ '' ('' @ comm @ '') '' @ join '' '' fds"

lemma set_join_words: "c \<in> set (join '' '' ws) \<Longrightarrow> c = CHR '' '' \<or> (\<exists>w \<in> set ws. c \<in> set w)"
  by (induction "'' ''" ws rule: join.induct) auto

lemma start_time_of_stat:
  assumes "list_all word fds" and "list_all (\<lambda>f. CHR '')'' \<notin> set f) fds" and "19 < length fds"
  shows "start_time_of (stat_line pid comm fds) = parse_u64 (fds ! 19)"
proof -
  let ?head = "show_nat pid @ '' ('' @ comm" and ?tail = "CHR '' '' # join '' '' fds"
  have "CHR '')'' \<notin> set ?tail" using assms(2) set_join_words by (fastforce simp: list_all_iff)
  then have "rfind_char (CHR '')'') (?head @ CHR '')'' # ?tail) = Some (length ?head)"
    by (rule rfind_char_last)
  moreover have "drop (Suc (length ?head)) (?head @ CHR '')'' # ?tail) = ?tail"
    by (simp only: drop_append) simp
  moreover have "stat_line pid comm fds = ?head @ CHR '')'' # ?tail" by (simp add: stat_line_def)
  ultimately have "start_time_of (stat_line pid comm fds) =
      (let fs = split_whitespace ?tail in if 19 < length fs then parse_u64 (fs ! 19) else None)"
    by (simp only: start_time_of_def option.case)
  then show ?thesis
    using assms(1,3) by (simp add: split_whitespace_space split_whitespace_words)
qed

text \<open>
  The start time is read correctly from the line of any process, whatever its name contains
  (spaces, parentheses, digits): it is the twenty-second field.
\<close>
theorem start_time_read_back:
  assumes "list_all word fds" and "list_all (\<lambda>f. CHR '')'' \<notin> set f) fds" and "19 < length fds"
    and "fds ! 19 = show_nat t" and "t < 2 ^ 64"
    and "read_ok (proc_fs os) (proc_file pid ''stat'') k = Some (stat_line n comm fds)"
  shows "get_start_time os pid k = Some t"
  using assms start_time_of_stat [OF assms(1-3)] by (simp add: get_start_time_def parse_u64_show)

text \<open>A process 7 whose name is hostile to a naive reader of the line, and whose executable is hidden.\<close>

definition sample_fields :: "string list" where
  "sample_fields = replicate 19 ''0'' @ [''4711'', ''1'']"

definition sample_proc :: "(path \<times> string option) list proc_os" where
  "sample_proc =
     \<lparr>proc_fs = mem_fs, proc_cmdline = \<lambda>pid k. None, proc_exe = \<lambda>pid k. Inl eacces,
      proc_entries = \<lambda>k. Some [''7'', ''self''], proc_tasks = \<lambda>pid k. Inr [''7'', ''8'']\<rparr>"

definition sample_files :: "(path \<times> string option) list" where
  "sample_files = [(proc_file 7 ''stat'', Some (stat_line 7 ''a) b (c'' sample_fields))]"

lemma sample_stat:
  "read_ok (proc_fs sample_proc) (proc_file 7 ''stat'') sample_files =
     Some (stat_line 7 ''a) b (c'' sample_fields)"
  by (simp add: sample_proc_def sample_files_def mem_fs_def read_ok_def)

lemma sample_fields_ok:
  "list_all word sample_fields" "list_all (\<lambda>f. CHR '')'' \<notin> set f) sample_fields"
  "19 < length sample_fields" "sample_fields ! 19 = show_nat 4711"
  subgoal by code_simp
  subgoal by code_simp
  subgoal by code_simp
  subgoal by (simp add: sample_fields_def nth_append show_nat.simps digit_char_def char_of_def bit_Suc_0_iff)
  done

theorem start_time_read_back_witness:
  "get_start_time sample_proc 7 sample_files = Some 4711"
  by (rule start_time_read_back [OF sample_fields_ok _ sample_stat]) simp

subsection \<open>Scripts are matched under their own name\<close>

text \<open>
  A script run through its interpreter, whose kernel name is the first fifteen bytes of the
  script's, is matched under the full name of the script; a command whose kernel name is not the start
  of its second argument's keeps the name of its first argument.
\<close>
theorem script_name_resolved:
  assumes "trim comm = cm"
  shows "(cm = take 15 (arg_basename script) \<and> cm \<noteq> [] \<and> cm \<noteq> arg_basename argv0 \<longrightarrow>
      resolve_argv_name argv0 (Some script) (Some comm) = arg_basename script) \<and>
    (\<not> prefix cm (arg_basename script) \<longrightarrow>
      resolve_argv_name argv0 (Some script) (Some comm) = arg_basename argv0)"
  using assms by (auto simp: resolve_argv_name_def Let_def starts_with_take) (auto simp: starts_with_prefix)

theorem script_name_resolved_witness:
  "resolve_argv_name ''/usr/bin/bash'' (Some ''/sw/bin/xdg-desktop-portal'') (Some ''xdg-desktop-por'') =
     ''xdg-desktop-portal''"
proof -
  have "trim ''xdg-desktop-por'' = ''xdg-desktop-por''" by code_simp
  moreover have "arg_basename ''/sw/bin/xdg-desktop-portal'' = ''xdg-desktop-portal''" by code_simp
  moreover have "arg_basename ''/usr/bin/bash'' = ''bash''" by code_simp
  ultimately show ?thesis
    using script_name_resolved [of "''xdg-desktop-por''" "''xdg-desktop-por''" "''/sw/bin/xdg-desktop-portal''"
        "''/usr/bin/bash''"]
    by simp
qed

subsection \<open>Giving up on an executable\<close>

definition exe_refused :: "'k proc_os \<Rightarrow> int \<Rightarrow> 'k \<Rightarrow> bool" where
  "exe_refused os pid k \<longleftrightarrow> (case proc_exe os pid k of Inl e \<Rightarrow> e = eacces \<or> e = eperm | Inr _ \<Rightarrow> False)"

text \<open>The process whose executable this call tries to read and is refused, if it does.\<close>

definition refusal ::
  "(int, exe_failure, 'c) lru_ops \<Rightarrow> 'k proc_os \<Rightarrow> int \<Rightarrow> 'k \<Rightarrow> 'c \<Rightarrow> (int \<times> nat option) list" where
  "refusal L os pid k c =
     (if name_from_cmdline os pid k = None \<and> fst (exe_failures_for L os pid k c) < skip_exe_failures \<and>
         exe_refused os pid k
      then [(pid, get_start_time os pid k)] else [])"

fun after_names ::
  "(int, exe_failure, 'c) lru_ops \<Rightarrow> 'k proc_os \<Rightarrow> (int \<times> 'k) list \<Rightarrow> 'c \<Rightarrow> (int \<times> nat option) list \<times> 'c" where
  "after_names L os [] c = ([], c)"
| "after_names L os ((pid, k) # calls) c =
     (case after_names L os calls (snd (get_command_from_pid L os pid k c)) of
        (h, c') \<Rightarrow> (refusal L os pid k c @ h, c'))"

definition budget_sound :: "(int, exe_failure, 'c) lru_ops \<Rightarrow> (int \<times> nat option) list \<Rightarrow> 'c \<Rightarrow> bool" where
  "budget_sound L h c \<longleftrightarrow>
     (\<forall>pid e. cache_peek L pid c = Some e \<longrightarrow> fail_count e \<le> count_list h (pid, fail_start e))"

lemma count_list_append_le: "n \<le> count_list h x \<Longrightarrow> n \<le> count_list (h @ g) x"
  by simp

lemma exe_failures_for_sound:
  assumes "lru_laws L" and "budget_sound L h c"
  shows "budget_sound L h (snd (exe_failures_for L os pid k c)) \<and>
    (0 < fst (exe_failures_for L os pid k c) \<longrightarrow>
      (\<exists>t. get_start_time os pid k = Some t \<and>
        fst (exe_failures_for L os pid k c) \<le> count_list h (pid, Some t)))"
proof -
  note laws = lru_lawsD [OF assms(1)]
  obtain found c' where g: "cache_get L pid c = (found, c')" by fastforce
  have peek: "cache_peek L j c' = cache_peek L j c" for j using laws(3) [of j pid c] g by simp
  have found: "found = cache_peek L pid c" using laws(2) [of pid c] g by simp
  have pop: "cache_peek L j (cache_pop L pid c') = Some e \<Longrightarrow> cache_peek L j c = Some e" for j e
    using laws(6) [of pid c'] laws(7) [of j pid c'] peek by (cases "j = pid") auto
  have bound: "fail_count e \<le> count_list h (pid, Some t)"
    if "cache_peek L pid c = Some e" "fail_start e = Some t" for e t
    using assms(2) that unfolding budget_sound_def by metis
  show ?thesis
    using assms(2) g peek pop found bound
    by (auto simp: exe_failures_for_def budget_sound_def remembered_budget_def split: option.splits if_splits)
qed

lemma get_command_sound:
  assumes laws: "lru_laws L" and sound: "budget_sound L h c"
  shows "budget_sound L (h @ refusal L os pid k c) (snd (get_command_from_pid L os pid k c))"
proof (cases "name_from_cmdline os pid k")
  case (Some name)
  with sound show ?thesis by (simp add: get_command_from_pid_def refusal_def)
next
  case None
  obtain n c1 where n: "exe_failures_for L os pid k c = (n, c1)" by fastforce
  note ok = exe_failures_for_sound [OF laws sound, of os pid k, unfolded n, simplified]
  note lawsD = lru_lawsD [OF laws]
  let ?r = "refusal L os pid k c" and ?c = "snd (name_from_exe L os pid k c)"
  have "budget_sound L (h @ ?r) ?c"
    unfolding budget_sound_def
  proof (intro allI impI)
    fix j e
    assume e: "cache_peek L j ?c = Some e"
    have kept: "cache_peek L j c1 = Some e \<Longrightarrow> fail_count e \<le> count_list (h @ ?r) (j, fail_start e)"
      using ok unfolding budget_sound_def by (blast intro: count_list_append_le)
    have pop: "cache_peek L j (cache_pop L pid c1) = Some e \<Longrightarrow> cache_peek L j c1 = Some e"
      using lawsD(6) [of pid c1] lawsD(7) [of j pid c1] by (cases "j = pid") auto
    show "fail_count e \<le> count_list (h @ ?r) (j, fail_start e)"
    proof (cases "n < skip_exe_failures \<and> exe_refused os pid k \<and> j = pid")
      case True
      then have "?c = cache_put L pid \<lparr>fail_start = get_start_time os pid k, fail_count = n + 1\<rparr> c1"
        using n by (auto simp: name_from_exe_def exe_refused_def split: sum.splits)
      then have "e = \<lparr>fail_start = get_start_time os pid k, fail_count = n + 1\<rparr>"
        using e lawsD(4) True by simp
      then show ?thesis using True ok None n by (cases "n = 0") (auto simp: refusal_def)
    next
      case False
      then have "cache_peek L j c1 = Some e"
        using e n pop lawsD(5) [of j pid _ c1 e]
        by (auto simp: name_from_exe_def exe_refused_def split: sum.splits if_splits)
      then show ?thesis by (rule kept)
    qed
  qed
  with None show ?thesis by (auto simp: get_command_from_pid_def split: prod.split option.split)
qed

lemma after_names_sound:
  assumes "lru_laws L" and "budget_sound L h c"
  shows "budget_sound L (h @ fst (after_names L os calls c)) (snd (after_names L os calls c))"
  using assms(2)
proof (induction calls arbitrary: h c)
  case (Cons call calls)
  obtain pid k where call: "call = (pid, k)" by fastforce
  show ?case
    using Cons.IH [OF get_command_sound [OF assms(1) Cons.prems, of os pid k]]
    by (simp add: call case_prod_unfold)
qed simp

text \<open>
  The executable of a process is given up on only after it was refused five times for that
  very process: a process that got a used number does not inherit the refusals of the earlier one.
\<close>
theorem exe_given_up_only_after_refusals:
  assumes "lru_laws L" and "after_names L os calls (cache_new L) = (h, c)"
    and "skip_exe_failures \<le> fst (exe_failures_for L os pid k c)"
  shows "\<exists>t. get_start_time os pid k = Some t \<and> 5 \<le> count_list h (pid, Some t)"
proof -
  have "budget_sound L [] (cache_new L)"
    using lru_lawsD(1) [OF assms(1)] by (simp add: budget_sound_def)
  then have "budget_sound L h c"
    using after_names_sound [OF assms(1), of "[]" "cache_new L" os calls] assms(2) by simp
  then show ?thesis
    using exe_failures_for_sound [OF assms(1), of h c os pid k] assms(3) by (auto simp: skip_exe_failures_def)
qed

definition asked_about_7 :: "(int \<times> (path \<times> string option) list) list" where
  "asked_about_7 = (let call = (7, sample_files) in [call, call, call, call, call, call])"

lemma sample_start: "get_start_time sample_proc 7 sample_files = Some 4711"
  using start_time_of_stat [OF sample_fields_ok(1-3)] sample_fields_ok(4)
  by (simp add: get_start_time_def sample_stat parse_u64_show)

lemma sample_names:
  "after_names (list_lru 256) sample_proc asked_about_7 [] =
     (let x = (7, Some 4711) in [x, x, x, x, x], [(7, \<lparr>fail_start = Some 4711, fail_count = 5\<rparr>)])"
proof -
  have "name_from_cmdline sample_proc 7 sample_files = None"
    and "proc_exe sample_proc 7 sample_files = Inl eacces"
    by (simp_all add: name_from_cmdline_def sample_proc_def)
  then show ?thesis
    by (simp add: Let_def sample_start asked_about_7_def get_command_from_pid_def name_from_exe_def exe_failures_for_def
        remembered_budget_def skip_exe_failures_def refusal_def exe_refused_def)
qed

theorem exe_given_up_only_after_refusals_witness:
  "skip_exe_failures \<le> fst (exe_failures_for (list_lru 256) sample_proc 7 sample_files
       (snd (after_names (list_lru 256) sample_proc asked_about_7 []))) \<and>
   (\<exists>t. get_start_time sample_proc 7 sample_files = Some t \<and>
     5 \<le> count_list (fst (after_names (list_lru 256) sample_proc asked_about_7 [])) (7, Some t))"
proof -
  have laws: "lru_laws (list_lru 256 :: (int, exe_failure, _) lru_ops)" by (rule list_lru_laws) simp
  have over: "skip_exe_failures \<le> fst (exe_failures_for (list_lru 256) sample_proc 7 sample_files
      [(7, \<lparr>fail_start = Some 4711, fail_count = 5\<rparr>)])"
    by (simp add: exe_failures_for_def remembered_budget_def sample_start skip_exe_failures_def)
  show ?thesis
    using exe_given_up_only_after_refusals [OF laws _ over, of asked_about_7] over sample_names
    by simp
qed

end
