(* ===== verification/Cgroup_Mounts.thy ===== *)
theory Cgroup_Mounts
  imports File_System
begin

text \<open>
  \<^verbatim>\<open>crates/ananicy-platform/src/mounts.rs\<close>: which cgroup hierarchy the machine has, from the mount
  table, the memory of that answer, and the wait for a hierarchy at start-up. The theorems say what
  detection answers, and that the wait looks at the mount table once.
\<close>

subsection \<open>Detection\<close>

datatype cgroup_version = No_Cgroup | V1 | V2

record cgroup_info =
  version :: cgroup_version
  mount_point :: path

definition lists_cpu :: "string option \<Rightarrow> bool" where
  "lists_cpu controllers =
     (case controllers of Some c \<Rightarrow> list_ex (\<lambda>w. w = ''cpu'') (split_whitespace c) | None \<Rightarrow> False)"

definition v2_has_cpu_controller :: "'k fs \<Rightarrow> path \<Rightarrow> 'k \<Rightarrow> bool" where
  "v2_has_cpu_controller fs mount k \<longleftrightarrow>
     lists_cpu (read_ok fs (push mount ''cgroup.controllers'') k) \<and> fs_exists fs (push mount ''cgroup.procs'') k"

definition v2_probe_by_creating_a_cgroup :: "'k fs \<Rightarrow> path \<Rightarrow> 'k \<Rightarrow> bool \<times> 'k" where
  "v2_probe_by_creating_a_cgroup fs mount k =
     (let test = push mount ''ananicy_test_cgroup2'';
          k1 = (if fs_exists fs test k then fs_remove_dir fs test k else k)
      in case fs_create_dir fs test k1 of
           (False, k2) \<Rightarrow> (False, k2)
         | (True, k2) \<Rightarrow>
             (lists_cpu (read_ok fs (push test ''cgroup.controllers'') k2) \<and> fs_exists fs (push test ''cpu.max'') k2,
              fs_remove_dir fs test k2))"

definition v2_usable :: "'k fs \<Rightarrow> path \<Rightarrow> 'k \<Rightarrow> bool \<times> 'k" where
  "v2_usable fs mount k =
     (if v2_has_cpu_controller fs mount k then (True, k) else v2_probe_by_creating_a_cgroup fs mount k)"

text \<open>The hierarchy a line of type \<^verbatim>\<open>cgroup\<close> gives, when nothing was found before it.\<close>

definition v1_parent :: "'k fs \<Rightarrow> path \<Rightarrow> 'k \<Rightarrow> path option" where
  "v1_parent fs mount k =
     (case path_parent mount of
        Some parent \<Rightarrow> if fs_exists fs (push parent ''cpu'') k then Some parent else None
      | None \<Rightarrow> None)"

fun parse_mount_lines :: "'k fs \<Rightarrow> string list \<Rightarrow> cgroup_info \<Rightarrow> 'k \<Rightarrow> cgroup_info \<times> 'k" where
  "parse_mount_lines fs [] i k = (i, k)"
| "parse_mount_lines fs (line # ls) i k =
     (let parts = split_whitespace line in
      if length parts < 3 then parse_mount_lines fs ls i k
      else
        (let fs_type = parts ! 2; mount = path_of (parts ! 1) in
         if fs_type = ''cgroup2'' then
           (case v2_usable fs mount k of
              (True, k') \<Rightarrow> (i\<lparr>version := V2, mount_point := mount\<rparr>, k')
            | (False, k') \<Rightarrow> parse_mount_lines fs ls i k')
         else if fs_type = ''cgroup'' \<and> version i = No_Cgroup then
           (case v1_parent fs mount k of
              Some parent \<Rightarrow> parse_mount_lines fs ls (i\<lparr>version := V1, mount_point := parent\<rparr>) k
            | None \<Rightarrow> parse_mount_lines fs ls i k)
         else parse_mount_lines fs ls i k))"

definition parse_cgroups_from_str :: "'k fs \<Rightarrow> string \<Rightarrow> cgroup_info \<Rightarrow> 'k \<Rightarrow> cgroup_info \<times> 'k" where
  "parse_cgroups_from_str fs content i k = parse_mount_lines fs (str_lines content) i k"

definition no_cgroup :: cgroup_info where
  "no_cgroup = \<lparr>version = No_Cgroup, mount_point = []\<rparr>"

definition detect :: "'k fs \<Rightarrow> 'k \<Rightarrow> cgroup_info \<times> 'k" where
  "detect fs k =
     (case read_ok fs (path_of ''/proc/self/mounts'') k of
        Some content \<Rightarrow> parse_cgroups_from_str fs content no_cgroup k
      | None \<Rightarrow> (no_cgroup, k))"

subsection \<open>The remembered answer\<close>

text \<open>The static \<^verbatim>\<open>CGROUP_INFO\<close> beside the file system.\<close>

type_synonym 'k detection = "cgroup_info option \<times> 'k"

fun get_cgroup_info :: "'k fs \<Rightarrow> 'k detection \<Rightarrow> cgroup_info \<times> 'k detection" where
  "get_cgroup_info fs (Some i, k) = (i, Some i, k)"
| "get_cgroup_info fs (None, k) = (case detect fs k of (i, k') \<Rightarrow> (i, Some i, k'))"

definition cgroup_version_of :: "'k fs \<Rightarrow> 'k detection \<Rightarrow> cgroup_version \<times> 'k detection" where
  "cgroup_version_of fs d = (case get_cgroup_info fs d of (i, d') \<Rightarrow> (version i, d'))"

definition reset_cgroup_info :: "'k detection \<Rightarrow> 'k detection" where
  "reset_cgroup_info d = (None, snd d)"

definition has_cgroup_hierarchy :: "'k fs \<Rightarrow> 'k detection \<Rightarrow> bool \<times> 'k detection" where
  "has_cgroup_hierarchy fs d = (case get_cgroup_info fs d of (i, d') \<Rightarrow> (version i \<noteq> No_Cgroup, d'))"

text \<open>What happens to the world while the daemon sleeps is the argument \<open>sleep\<close>.\<close>

fun init_attempts :: "'k fs \<Rightarrow> ('k \<Rightarrow> 'k) \<Rightarrow> nat \<Rightarrow> 'k detection \<Rightarrow> bool \<times> 'k detection" where
  "init_attempts fs sleep 0 d = (False, reset_cgroup_info d)"
| "init_attempts fs sleep (Suc n) d =
     (case get_cgroup_info fs d of
        (i, c, k) \<Rightarrow> if version i \<noteq> No_Cgroup then (True, c, k) else init_attempts fs sleep n (c, sleep k))"

definition cgroup_init_attempts :: nat where "cgroup_init_attempts = 20"

definition init_cgroups :: "'k fs \<Rightarrow> ('k \<Rightarrow> 'k) \<Rightarrow> 'k detection \<Rightarrow> bool \<times> 'k detection" where
  "init_cgroups fs sleep d = init_attempts fs sleep cgroup_init_attempts d"

text \<open>\<^verbatim>\<open>wait_for_cgroup_hierarchy\<close> of \<^verbatim>\<open>src/src/runtime.rs\<close>.\<close>

definition wait_for_cgroup_hierarchy :: "'k fs \<Rightarrow> ('k \<Rightarrow> 'k) \<Rightarrow> 'k detection \<Rightarrow> bool \<times> 'k detection" where
  "wait_for_cgroup_hierarchy fs sleep d =
     (case has_cgroup_hierarchy fs d of (True, d') \<Rightarrow> (True, d') | (False, d') \<Rightarrow> init_cgroups fs sleep d')"

subsection \<open>What detection answers\<close>

text \<open>The lines of the mount table that name a hierarchy, in order.\<close>

datatype mount_entry = Unified path | Split path

fun unified :: "mount_entry \<Rightarrow> path option" where
  "unified (Unified p) = Some p"
| "unified (Split p) = None"

fun split_mount :: "mount_entry \<Rightarrow> path option" where
  "split_mount (Unified p) = None"
| "split_mount (Split p) = Some p"

definition mount_entry_of :: "string \<Rightarrow> mount_entry option" where
  "mount_entry_of line =
     (let parts = split_whitespace line in
      if length parts < 3 then None
      else if parts ! 2 = ''cgroup2'' then Some (Unified (path_of (parts ! 1)))
      else if parts ! 2 = ''cgroup'' then Some (Split (path_of (parts ! 1)))
      else None)"

text \<open>
  The hierarchy a machine has: the first unified one in which the \<^verbatim>\<open>cpu\<close> controller can be used, and
  without one the first split one with a \<^verbatim>\<open>cpu\<close> directory.
\<close>

definition spec_hierarchy :: "(path \<Rightarrow> bool) \<Rightarrow> (path \<Rightarrow> path option) \<Rightarrow> mount_entry list \<Rightarrow> cgroup_info" where
  "spec_hierarchy usable v1 es =
     (case find usable (List.map_filter unified es) of
        Some p \<Rightarrow> \<lparr>version = V2, mount_point = p\<rparr>
      | None \<Rightarrow>
          (case List.map_filter v1 (List.map_filter split_mount es) of
             p # _ \<Rightarrow> \<lparr>version = V1, mount_point = p\<rparr>
           | [] \<Rightarrow> no_cgroup))"

text \<open>
  A world in which detection can look without changing what it sees: the answers about each
  mount point stay the same from one probe to the next.
\<close>

definition stable_probes ::
  "'k fs \<Rightarrow> ('k \<Rightarrow> bool) \<Rightarrow> (path \<Rightarrow> bool) \<Rightarrow> (path \<Rightarrow> path option) \<Rightarrow> bool" where
  "stable_probes fs here usable v1 \<longleftrightarrow>
     (\<forall>p k. here k \<longrightarrow> fst (v2_usable fs p k) = usable p \<and> here (snd (v2_usable fs p k)) \<and> v1_parent fs p k = v1 p)"

lemma parse_mount_lines_spec:
  assumes "stable_probes fs here usable v1" and "here k" and "version i \<noteq> V2"
  shows "fst (parse_mount_lines fs ls i k) =
    (case find usable (List.map_filter unified (List.map_filter mount_entry_of ls)) of
       Some p \<Rightarrow> \<lparr>version = V2, mount_point = p\<rparr>
     | None \<Rightarrow>
         if version i = No_Cgroup then
           (case List.map_filter v1 (List.map_filter split_mount (List.map_filter mount_entry_of ls)) of
              p # _ \<Rightarrow> \<lparr>version = V1, mount_point = p\<rparr>
            | [] \<Rightarrow> i)
         else i)"
  using assms(2,3)
proof (induction ls arbitrary: i k)
  case (Cons line ls)
  have probe: "fst (v2_usable fs p k) = usable p" "here (snd (v2_usable fs p k))" "v1_parent fs p k = v1 p" for p
    using assms(1) Cons.prems(1) unfolding stable_probes_def by blast+
  let ?parts = "split_whitespace line"
  show ?case
  proof (cases "mount_entry_of line")
    case None
    then have same: "parse_mount_lines fs (line # ls) i k = parse_mount_lines fs ls i k"
      by (auto simp: mount_entry_of_def Let_def split: if_splits)
    have rest: "List.map_filter mount_entry_of (line # ls) = List.map_filter mount_entry_of ls"
      using None by (simp add: map_filter_simps)
    show ?thesis unfolding same rest by (rule Cons.IH [OF Cons.prems])
  next
    case (Some e)
    have rest: "List.map_filter mount_entry_of (line # ls) = e # List.map_filter mount_entry_of ls"
      using Some by (simp add: map_filter_simps)
    have "fst (parse_mount_lines fs (line # ls) i k) =
      (case find usable (List.map_filter unified (e # List.map_filter mount_entry_of ls)) of
         Some p \<Rightarrow> \<lparr>version = V2, mount_point = p\<rparr>
       | None \<Rightarrow>
           if version i = No_Cgroup then
             (case List.map_filter v1 (List.map_filter split_mount (e # List.map_filter mount_entry_of ls)) of
                p # _ \<Rightarrow> \<lparr>version = V1, mount_point = p\<rparr>
              | [] \<Rightarrow> i)
           else i)" (is ?goal)
    proof (cases e)
      case (Unified p)
      then have line: "\<not> length ?parts < 3" "?parts ! 2 = ''cgroup2''" "p = path_of (?parts ! 1)"
        using Some by (auto simp: mount_entry_of_def Let_def split: if_splits)
      obtain k' where k': "v2_usable fs p k = (usable p, k')" "here k'"
        using probe(1,2) [of p] by (cases "v2_usable fs p k") auto
      have unif: "List.map_filter unified (Unified p # es) = p # List.map_filter unified es"
        "List.map_filter split_mount (Unified p # es) = List.map_filter split_mount es" for es
        by (simp_all add: map_filter_simps)
      show ?goal unfolding Unified unif
        using line k' Cons.IH [OF k'(2) Cons.prems(2)] by (cases "usable p") (simp_all add: Let_def)
    next
      case (Split p)
      then have line: "\<not> length ?parts < 3" "?parts ! 2 = ''cgroup''" "p = path_of (?parts ! 1)"
        using Some by (auto simp: mount_entry_of_def Let_def split: if_splits)
      have unif: "List.map_filter unified (Split p # es) = List.map_filter unified es"
        "List.map_filter split_mount (Split p # es) = p # List.map_filter split_mount es" for es
        by (simp_all add: map_filter_simps)
      show ?goal unfolding Split unif
        using line probe(3) [of p] Cons.prems Cons.IH [OF Cons.prems]
          Cons.IH [OF Cons.prems(1), of "i\<lparr>version := V1, mount_point := the (v1 p)\<rparr>"]
        by (cases "v1 p") (auto simp: map_filter_simps(1) Let_def split: option.split)
    qed
    then show ?thesis unfolding rest .
  qed
qed (simp add: map_filter_simps)

text \<open>
  C25: Detection answers the hierarchy the mount table gives: the first unified one whose
  \<^verbatim>\<open>cpu\<close> controller is usable wherever it stands in the table, else the first split one.
\<close>
theorem detect_finds_hierarchy:
  assumes "stable_probes fs here usable v1" and "here k"
    and "read_ok fs (path_of ''/proc/self/mounts'') k = Some content"
  shows "fst (detect fs k) = spec_hierarchy usable v1 (List.map_filter mount_entry_of (str_lines content))"
  using parse_mount_lines_spec [OF assms(1,2), of no_cgroup] assms(3)
  by (simp add: detect_def parse_cgroups_from_str_def spec_hierarchy_def no_cgroup_def)

subsection \<open>The wait at start-up\<close>

lemma init_attempts_remembered:
  "version i = No_Cgroup \<Longrightarrow>
     init_attempts fs sleep n (Some i, k) = (False, None, (sleep ^^ n) k)"
proof (induction n arbitrary: k)
  case (Suc n)
  then show ?case by (simp add: funpow_swap1)
qed (simp add: reset_cgroup_info_def)

text \<open>
  Whatever the world does while the daemon waits for a cgroup hierarchy, the answer is that of the
  first look at the mount table: the failed answer is remembered, and the later attempts read it back.
\<close>
theorem wait_looks_once:
  "fst (wait_for_cgroup_hierarchy fs sleep (None, k)) \<longleftrightarrow> version (fst (detect fs k)) \<noteq> No_Cgroup"
proof (cases "detect fs k")
  case (Pair i k')
  show ?thesis
  proof (cases "version i = No_Cgroup")
    case True
    then show ?thesis
      by (simp add: Pair wait_for_cgroup_hierarchy_def has_cgroup_hierarchy_def init_cgroups_def
          init_attempts_remembered)
  next
    case False
    then show ?thesis by (simp add: Pair wait_for_cgroup_hierarchy_def has_cgroup_hierarchy_def)
  qed
qed

text \<open>A machine whose hierarchy is mounted while the daemon waits, and is not found.\<close>

definition mounted_late :: "(path \<times> string option) list" where
  "mounted_late =
     [(path_of ''/proc/self/mounts'', Some ''cg /cg cgroup2 rw''), (path_of ''/cg/cgroup.controllers'', Some ''cpu io''),
      (path_of ''/cg/cgroup.procs'', Some ''1'')]"

lemma late_hierarchy_missed:
  "version (fst (detect mem_fs mounted_late)) = V2 \<and>
   fst (wait_for_cgroup_hierarchy mem_fs (\<lambda>_. mounted_late) (None, [])) = False"
  by code_simp

lemma mounted_late_stable:
  "stable_probes mem_fs (\<lambda>k. k = mounted_late) (\<lambda>p. p = path_of ''/cg'') (\<lambda>p. None)"
proof -
  have files: "mounted_late =
      [([Root_Dir, Normal ''proc'', Normal ''self'', Normal ''mounts''], Some ''cg /cg cgroup2 rw''),
       ([Root_Dir, Normal ''cg'', Normal ''cgroup.controllers''], Some ''cpu io''),
       ([Root_Dir, Normal ''cg'', Normal ''cgroup.procs''], Some ''1'')]"
    by code_simp
  have cg: "path_of ''/cg'' = [Root_Dir, Normal ''cg'']" by code_simp
  have cpu: "lists_cpu (Some ''cpu io'')" by code_simp
  have no_list: "\<not> lists_cpu None" by (simp add: lists_cpu_def)
  have has: "v2_has_cpu_controller mem_fs p mounted_late \<longleftrightarrow> p = path_of ''/cg''" for p
    unfolding cg by (auto simp: v2_has_cpu_controller_def push_name files mem_fs_def read_ok_def cpu no_list)
  have probe: "v2_probe_by_creating_a_cgroup mem_fs p mounted_late = (False, mounted_late)" for p
    by (auto simp: v2_probe_by_creating_a_cgroup_def push_name files mem_fs_def read_ok_def lists_cpu_def)
  have v1: "v1_parent mem_fs p mounted_late = None" for p
    by (auto simp: v1_parent_def push_name files mem_fs_def split: option.split)
  show ?thesis unfolding stable_probes_def by (auto simp: v2_usable_def has probe v1)
qed

theorem detect_finds_hierarchy_witness:
  "fst (detect mem_fs mounted_late) = \<lparr>version = V2, mount_point = path_of ''/cg''\<rparr>"
proof -
  have "read_ok mem_fs (path_of ''/proc/self/mounts'') mounted_late = Some ''cg /cg cgroup2 rw''" by code_simp
  moreover have "spec_hierarchy (\<lambda>p. p = path_of ''/cg'') (\<lambda>p. None)
      (List.map_filter mount_entry_of (str_lines ''cg /cg cgroup2 rw'')) =
      \<lparr>version = V2, mount_point = path_of ''/cg''\<rparr>"
    by code_simp
  ultimately show ?thesis using detect_finds_hierarchy [OF mounted_late_stable] by simp
qed

end
