(* ===== verification/Cgroup_Manager.thy ===== *)
theory Cgroup_Manager
  imports Procfs Cgroup_Mounts
begin

text \<open>
  \<^verbatim>\<open>crates/ananicy-platform/src/cgroup/{mod,ownership,manager}.rs\<close> and the free functions of
  \<^verbatim>\<open>cgroups.rs\<close>: finding the delegated root, resolving the cgroup a rule names, creating it,
  moving a process into it and writing its limits. The theorems say which paths are touched: on cgroup v2
  nothing is created or moved outside the delegated root, and a name is resolved below the hierarchy
  unless it begins with two slashes.
\<close>

subsection \<open>Data\<close>

record manager =
  info :: cgroup_info
  delegated_root :: "path option"

datatype ownership = Legacy | Owned | Foreign

subsection \<open>Ownership\<close>

definition classify_ownership :: "path \<Rightarrow> path option \<Rightarrow> bool \<Rightarrow> ownership" where
  "classify_ownership target root is_v2 =
     (if \<not> is_v2 then Legacy
      else
        (case root of
           Some r \<Rightarrow> if path_starts_with target r then Owned else Foreign
         | None \<Rightarrow> Foreign))"

definition has_tasks :: "'k fs \<Rightarrow> path \<Rightarrow> 'k \<Rightarrow> bool" where
  "has_tasks fs cgroup k =
     (case read_ok fs (push cgroup ''cgroup.procs'') k of Some l \<Rightarrow> trim l \<noteq> [] | None \<Rightarrow> True)"

definition usable_root :: "'k fs \<Rightarrow> path \<Rightarrow> 'k \<Rightarrow> path" where
  "usable_root fs root k =
     (case path_parent root of
        None \<Rightarrow> root
      | Some parent \<Rightarrow>
          if \<not> has_tasks fs root k then root
          else if fs_exists fs (push parent ''cgroup.procs'') k \<and> \<not> has_tasks fs parent k then parent
          else root)"

text \<open>The loop over the lines of \<^verbatim>\<open>/proc/self/cgroup\<close>, with its early returns.\<close>

fun root_from_lines :: "'k fs \<Rightarrow> path \<Rightarrow> 'k \<Rightarrow> string list \<Rightarrow> path option" where
  "root_from_lines fs mount k [] = None"
| "root_from_lines fs mount k (line # ls) =
     (if starts_with line ''0::'' then
        (let p = trim_start_matches ''/'' (trim_start_matches ''0::'' line) in
         if ends_with p ''.scope'' then None
         else
           (let full = push mount p in
            if fs_appendable fs (push full ''cgroup.procs'') k then Some (usable_root fs full k)
            else root_from_lines fs mount k ls))
      else root_from_lines fs mount k ls)"

definition discover_delegated_root :: "'k fs \<Rightarrow> path \<Rightarrow> 'k \<Rightarrow> path option" where
  "discover_delegated_root fs mount k =
     Option.bind (read_ok fs (path_of ''/proc/self/cgroup'') k)
       (\<lambda>content. root_from_lines fs mount k (str_lines content))"

subsection \<open>The manager\<close>

definition joined :: "path \<Rightarrow> string list \<Rightarrow> path" where
  "joined base segments = fold (\<lambda>s p. push p s) (filter (\<lambda>s. s \<noteq> []) segments) base"

definition v2_period_us :: nat where "v2_period_us = 100000"
definition v1_period_us :: nat where "v1_period_us = 1000000"

definition bandwidth_us :: "nat \<Rightarrow> nat \<Rightarrow> nat \<Rightarrow> nat" where
  "bandwidth_us ncores quota period = saturating_mul (saturating_mul period ncores) (min quota 100) div 100"

definition is_v2 :: "manager \<Rightarrow> bool" where
  "is_v2 m \<longleftrightarrow> version (info m) = V2"

definition new_manager :: "'k fs \<Rightarrow> cgroup_info \<Rightarrow> 'k \<Rightarrow> manager" where
  "new_manager fs i k =
     \<lparr>info = i, delegated_root = (if version i = V2 then discover_delegated_root fs (mount_point i) k else None)\<rparr>"

definition resolve_target_dir :: "manager \<Rightarrow> string \<Rightarrow> path option" where
  "resolve_target_dir m name =
     (if contains name ''..'' then None
      else
        (let absolute = starts_with name ''/'';
             relative_name = (case strip_prefix ''/'' name of Some r \<Rightarrow> r | None \<Rightarrow> name);
             mount = mount_point (info m)
         in case version (info m) of
              No_Cgroup \<Rightarrow> None
            | V1 \<Rightarrow> Some (joined mount [''cpu'', relative_name])
            | V2 \<Rightarrow>
                Some (joined
                  (if absolute then mount else case delegated_root m of Some r \<Rightarrow> r | None \<Rightarrow> mount)
                  [relative_name])))"

definition cgroup_exists :: "'k fs \<Rightarrow> manager \<Rightarrow> string \<Rightarrow> 'k \<Rightarrow> bool" where
  "cgroup_exists fs m name k =
     (case resolve_target_dir m name of Some t \<Rightarrow> fs_exists fs t k | None \<Rightarrow> False)"

definition ownership_of :: "manager \<Rightarrow> path \<Rightarrow> ownership" where
  "ownership_of m target = classify_ownership target (delegated_root m) (is_v2 m)"

text \<open>\<^verbatim>\<open>if !target.exists() && create_dir_all(target).is_err() { None } else { Some(target) }\<close>.\<close>

definition create_missing :: "'k fs \<Rightarrow> path \<Rightarrow> 'k \<Rightarrow> path option \<times> 'k" where
  "create_missing fs target k =
     (if fs_exists fs target k then (Some target, k)
      else (case fs_create_dir_all fs target k of (ok, k') \<Rightarrow> (if ok then Some target else None, k')))"

definition enable_cpu :: "'k fs \<Rightarrow> path \<Rightarrow> 'k \<Rightarrow> 'k" where
  "enable_cpu fs target k =
     (case path_parent target of
        None \<Rightarrow> k
      | Some parent \<Rightarrow>
          (let control = push parent ''cgroup.subtree_control'' in
           if fs_exists fs control k \<and> fs_openable fs control k
           then snd (fs_write_all fs control (''+cpu'' @ [CHR 0x0A]) k) else k))"

definition ensure_child :: "'k fs \<Rightarrow> manager \<Rightarrow> string \<Rightarrow> 'k \<Rightarrow> path option \<times> 'k" where
  "ensure_child fs m name k =
     (case resolve_target_dir m name of
        None \<Rightarrow> (None, k)
      | Some target \<Rightarrow>
          (case ownership_of m target of
             Legacy \<Rightarrow> create_missing fs target k
           | Owned \<Rightarrow> create_missing fs target (enable_cpu fs target k)
           | Foreign \<Rightarrow> (None, k)))"

definition move_pid :: "'k proc_os \<Rightarrow> manager \<Rightarrow> int \<Rightarrow> path \<Rightarrow> 'k \<Rightarrow> bool \<times> 'k" where
  "move_pid os m pid target k =
     (let fs = proc_fs os;
          procs = push target (if is_v2 m then ''cgroup.procs'' else ''tasks'');
          who = (if is_v2 m then get_tgid os pid k else Some pid)
      in if ownership_of m target = Foreign \<or> \<not> fs_exists fs target k \<or> \<not> fs_openable fs procs k
         then (False, k)
         else
           (case (who, get_start_time os pid k) of
              (Some n, Some before) \<Rightarrow>
                (case fs_write_all fs procs (show_int n @ [CHR 0x0A]) k of
                   (ok, k') \<Rightarrow> (ok \<and> get_start_time os pid k' = Some before, k'))
            | _ \<Rightarrow> (False, k)))"

text \<open>Opening a control file and writing one value to it: whether both succeeded.\<close>

definition write_control :: "'k fs \<Rightarrow> path \<Rightarrow> string \<Rightarrow> 'k \<Rightarrow> bool \<times> 'k" where
  "write_control fs file s k =
     (if fs_openable fs file k then fs_write_all fs file (s @ [CHR 0x0A]) k else (False, k))"

definition set_cpu_max :: "'k fs \<Rightarrow> manager \<Rightarrow> path \<Rightarrow> nat \<Rightarrow> 'k \<Rightarrow> bool \<times> 'k" where
  "set_cpu_max fs m target quota k =
     (if ownership_of m target = Foreign then (False, k)
      else
        (let ncores = (case fs_parallelism fs k of Some n \<Rightarrow> n | None \<Rightarrow> 1);
             period = (if is_v2 m then v2_period_us else v1_period_us);
             quota_val = bandwidth_us ncores (min quota 100) period
         in if is_v2 m
            then write_control fs (push target ''cpu.max'') (show_nat quota_val @ '' '' @ show_nat period) k
            else
              (case write_control fs (push target ''cpu.cfs_period_us'') (show_nat period) k of
                 (True, k') \<Rightarrow> write_control fs (push target ''cpu.cfs_quota_us'') (show_nat quota_val) k'
               | (False, k') \<Rightarrow> (False, k'))))"

text \<open>
  The weight of v1 is \<^verbatim>\<open>(weight as f32 / 100.0 * 1024.0) as u32\<close>. The exact product is an integer only
  where the weight is a multiple of 25, and then the division is exact; elsewhere it is at least
  1/25 away from one, far more than the rounding below the clamp, so the truncated value is the
  exact one.
\<close>

definition shares_of :: "nat \<Rightarrow> nat" where
  "shares_of weight = max 2 (min 262144 (weight * 1024 div 100))"

definition weight_file :: "manager \<Rightarrow> path \<Rightarrow> path" where
  "weight_file m target = push target (if is_v2 m then ''cpu.weight'' else ''cpu.shares'')"

definition weight_text :: "manager \<Rightarrow> nat \<Rightarrow> string" where
  "weight_text m weight = show_nat (if is_v2 m then max 1 (min 10000 weight) else shares_of weight)"

text \<open>
  \<^verbatim>\<open>report_weightless\<close>: the cgroups already complained about, and the complaints. An
  absent file is reported once for as long as the bounded set remembers it.
\<close>

definition report_weightless ::
  "(path, unit, 'c) lru_ops \<Rightarrow> path \<Rightarrow> 'c \<times> path list \<Rightarrow> 'c \<times> path list" where
  "report_weightless L target st =
     (case st of (seen, warned) \<Rightarrow>
        if cache_peek L target seen \<noteq> None then (seen, warned)
        else (cache_put L target () seen, warned @ [target]))"

definition write_cpu_weight ::
  "(path, unit, 'c) lru_ops \<Rightarrow> 'k fs \<Rightarrow> manager \<Rightarrow> path \<Rightarrow> nat \<Rightarrow> 'k \<times> 'c \<times> path list \<Rightarrow> bool \<times> 'k \<times> 'c \<times> path list" where
  "write_cpu_weight L fs m target weight st =
     (case st of (k, rep) \<Rightarrow>
        if fs_openable fs (weight_file m target) k
        then (case fs_write_all fs (weight_file m target) (weight_text m weight @ [CHR 0x0A]) k of
                (ok, k') \<Rightarrow> (ok, k', rep))
        else (False, k, report_weightless L target rep))"

subsection \<open>The functions the worker and the start-up code call\<close>

text \<open>
  The state of \<^verbatim>\<open>cgroups.rs\<close> and \<^verbatim>\<open>mounts.rs\<close>: the file system, the remembered detection, the
  manager once built, and what it has reported.
\<close>

record ('k, 'c) cgroup_state =
  cg_world :: 'k
  cg_info :: "cgroup_info option"
  cg_manager :: "manager option"
  cg_reported :: "'c \<times> path list"

record cgroup_settings =
  cpu_quota :: "nat option"
  cpu_weight_setting :: "nat option"

definition get_manager :: "'k fs \<Rightarrow> ('k, 'c) cgroup_state \<Rightarrow> manager \<times> ('k, 'c) cgroup_state" where
  "get_manager fs st =
     (case cg_manager st of
        Some m \<Rightarrow> (m, st)
      | None \<Rightarrow>
          (case get_cgroup_info fs (cg_info st, cg_world st) of
             (i, c, k) \<Rightarrow>
               let m = new_manager fs i k in (m, st\<lparr>cg_world := k, cg_info := c, cg_manager := Some m\<rparr>)))"

text \<open>With the manager goes the set of cgroups it has complained about; the complaints stay in the log.\<close>

definition reset_cgroup_detection ::
  "(path, unit, 'c) lru_ops \<Rightarrow> ('k, 'c) cgroup_state \<Rightarrow> ('k, 'c) cgroup_state" where
  "reset_cgroup_detection L st =
     st\<lparr>cg_info := None, cg_manager := None, cg_reported := (cache_new L, snd (cg_reported st))\<rparr>"

definition apply_settings ::
  "(path, unit, 'c) lru_ops \<Rightarrow> 'k fs \<Rightarrow> manager \<Rightarrow> path \<Rightarrow> cgroup_settings \<Rightarrow> 'k \<Rightarrow> 'c \<times> path list \<Rightarrow>
     'k \<times> 'c \<times> path list" where
  "apply_settings L fs m target s k rep =
     (let k1 = (case cpu_quota s of Some q \<Rightarrow> snd (set_cpu_max fs m target q k) | None \<Rightarrow> k) in
      case cpu_weight_setting s of
        Some w \<Rightarrow> snd (write_cpu_weight L fs m target w (k1, rep))
      | None \<Rightarrow> (k1, rep))"

text \<open>The directory a rule's cgroup has, and whether it was made just now.\<close>

definition find_or_create :: "'k fs \<Rightarrow> manager \<Rightarrow> string \<Rightarrow> 'k \<Rightarrow> (path \<times> bool) option \<times> 'k" where
  "find_or_create fs m name k =
     (if cgroup_exists fs m name k
      then (map_option (\<lambda>t. (t, False)) (resolve_target_dir m name), k)
      else (case ensure_child fs m name k of (r, k') \<Rightarrow> (map_option (\<lambda>t. (t, True)) r, k')))"

definition create_cgroup ::
  "(path, unit, 'c) lru_ops \<Rightarrow> 'k fs \<Rightarrow> string \<Rightarrow> cgroup_settings \<Rightarrow> ('k, 'c) cgroup_state \<Rightarrow>
     bool \<times> ('k, 'c) cgroup_state" where
  "create_cgroup L fs name s st =
     (case get_manager fs st of (m, st1) \<Rightarrow>
        (case find_or_create fs m name (cg_world st1) of
           (None, k) \<Rightarrow> (False, st1\<lparr>cg_world := k\<rparr>)
         | (Some (target, created), k) \<Rightarrow>
             (case apply_settings L fs m target s k (cg_reported st1) of
                (k', rep) \<Rightarrow> (created, st1\<lparr>cg_world := k', cg_reported := rep\<rparr>))))"

definition cg_add_pid ::
  "'k proc_os \<Rightarrow> int \<Rightarrow> string \<Rightarrow> ('k, 'c) cgroup_state \<Rightarrow> platform_error option \<times> ('k, 'c) cgroup_state" where
  "cg_add_pid os pid name st =
     (case get_manager (proc_fs os) st of (m, st1) \<Rightarrow>
        (case resolve_target_dir m name of
           None \<Rightarrow> (Some NotFound, st1)
         | Some target \<Rightarrow>
             if \<not> fs_exists (proc_fs os) target (cg_world st1) then (Some NotFound, st1)
             else
               (case move_pid os m pid target (cg_world st1) of
                  (ok, k) \<Rightarrow> (if ok then None else Some Unsupported, st1\<lparr>cg_world := k\<rparr>))))"

definition set_cpu_weight_for_cgroup ::
  "(path, unit, 'c) lru_ops \<Rightarrow> 'k fs \<Rightarrow> string \<Rightarrow> nat \<Rightarrow> ('k, 'c) cgroup_state \<Rightarrow>
     platform_error option \<times> ('k, 'c) cgroup_state" where
  "set_cpu_weight_for_cgroup L fs name weight st =
     (case get_manager fs st of (m, st1) \<Rightarrow>
        (case resolve_target_dir m name of
           None \<Rightarrow> (Some NotFound, st1)
         | Some target \<Rightarrow>
             (case write_cpu_weight L fs m target weight (cg_world st1, cg_reported st1) of
                (ok, k, rep) \<Rightarrow>
                  (if ok then None else Some Unsupported, st1\<lparr>cg_world := k, cg_reported := rep\<rparr>))))"

subsection \<open>Where a name leads\<close>

lemma joined_simps [simp]: "joined b [] = b" "joined b (s # ss) = joined (if s = [] then b else push b s) ss"
  by (simp_all add: joined_def)

lemma strip_slash:
  "(case strip_prefix ''/'' name of Some r \<Rightarrow> r | None \<Rightarrow> name) = (if starts_with name ''/'' then drop 1 name else name)"
  by (simp add: strip_prefix_def)

definition base_of :: "manager \<Rightarrow> string \<Rightarrow> path" where
  "base_of m name =
     (if version (info m) = V1 then push (mount_point (info m)) ''cpu''
      else if starts_with name ''/'' then mount_point (info m)
      else case delegated_root m of Some r \<Rightarrow> r | None \<Rightarrow> mount_point (info m))"

lemma resolve_target_dir_eq:
  "resolve_target_dir m name =
     (let rel = (if starts_with name ''/'' then drop 1 name else name) in
      if contains name ''..'' \<or> version (info m) = No_Cgroup then None
      else Some (if rel = [] then base_of m name else push (base_of m name) rel))"
  by (auto simp: resolve_target_dir_def strip_slash base_of_def Let_def split: cgroup_version.split option.split)

lemma double_slash_iff: "starts_with name ''//'' \<longleftrightarrow> starts_with name ''/'' \<and> starts_with (drop 1 name) ''/''"
  by (cases name rule: list.exhaust [case_names Nil Cons]) (auto simp: starts_with_def Let_def take_Cons' split: list.splits)

lemma split_on_infix: "p \<in> set (split_on d s) \<Longrightarrow> \<exists>a b. s = a @ p @ b"
proof (induction s arbitrary: p)
  case (Cons c s)
  show ?case
  proof (cases "c = d")
    case True
    with Cons show ?thesis by (auto intro: exI [of _ "[]"]) (metis append_Cons)
  next
    case False
    obtain q qs where q: "split_on d s = q # qs" by (cases "split_on d s") auto
    have "\<exists>b. s = q @ b" using q by (induction s arbitrary: q qs) (auto split: if_splits list.splits)
    with False q Cons show ?thesis
      by auto (metis append_Cons append_Nil, metis append_Cons)
  qed
qed simp

lemma parent_dir_dotted: "Parent_Dir \<in> set (path_of s) \<Longrightarrow> contains s ''..''"
proof -
  assume "Parent_Dir \<in> set (path_of s)"
  then have "''..'' \<in> set (split_on (CHR ''/'') s)"
    by (cases "split_on (CHR ''/'') s") (auto simp: path_of_def body_components_def name_component_def split: if_splits)
  then show ?thesis unfolding contains_iff by (rule split_on_infix)
qed

text \<open>
  C27: The directory a rule's cgroup name leads to is at or below the base of the hierarchy and never
  goes back up, unless the name begins with two slashes: then it is the rest of the name,
  anywhere in the file system.
\<close>
theorem resolved_below_hierarchy:
  assumes "resolve_target_dir m name = Some t"
  shows "if starts_with name ''//'' then t = path_of (drop 1 name)
    else \<exists>rel. t = base_of m name @ rel \<and> Parent_Dir \<notin> set rel"
proof -
  let ?rel = "if starts_with name ''/'' then drop 1 name else name"
  have t: "t = (if ?rel = [] then base_of m name else push (base_of m name) ?rel)" and dots: "\<not> contains name ''..''"
    using assms by (auto simp: resolve_target_dir_eq Let_def split: if_splits)
  show ?thesis
  proof (cases "starts_with name ''//''")
    case True
    then have "starts_with name ''/''" "starts_with (drop 1 name) ''/''" by (simp_all add: double_slash_iff)
    then show ?thesis using True t push_absolute by (auto simp: starts_with_def)
  next
    case False
    then have rel: "\<not> starts_with ?rel ''/''" by (auto simp: double_slash_iff)
    have "contains name ''..''" if "contains ?rel ''..''"
      using that by (auto simp: contains_iff split: if_splits) (metis append_assoc append_take_drop_id)
    with dots have "Parent_Dir \<notin> set (path_of ?rel)" using parent_dir_dotted by blast
    then have "\<exists>rest. push (base_of m name) ?rel = base_of m name @ rest \<and> Parent_Dir \<notin> set rest"
      using relative_path_of [OF rel] by (auto simp: push_def Let_def)
    then show ?thesis using False t by auto
  qed
qed

subsection \<open>What the operations touch\<close>

definition quota_file :: "string \<Rightarrow> bool" where
  "quota_file f \<longleftrightarrow> f \<in> set [''cpu.max'', ''cpu.cfs_period_us'', ''cpu.cfs_quota_us'']"

lemma quota_files: "quota_file ''cpu.max''" "quota_file ''cpu.cfs_period_us''" "quota_file ''cpu.cfs_quota_us''"
  by (simp_all add: quota_file_def)

context fs_frame
begin

lemma create_missing_keeps: "permitted (Created t) \<Longrightarrow> P k \<Longrightarrow> P (snd (create_missing fs t k))"
  using create_all_keeps [of t k] by (auto simp: create_missing_def split: prod.split)

lemma write_control_keeps: "(\<And>s. permitted (Wrote f s)) \<Longrightarrow> P k \<Longrightarrow> P (snd (write_control fs f s k))"
  by (simp add: write_control_def write_keeps)

lemma enable_cpu_keeps:
  assumes "\<And>parent s. path_parent t = Some parent \<Longrightarrow> permitted (Wrote (push parent ''cgroup.subtree_control'') s)"
    and "P k"
  shows "P (enable_cpu fs t k)"
  using assms by (auto simp: enable_cpu_def Let_def write_keeps split: option.split)

lemma ensure_child_keeps:
  assumes "\<And>t. resolve_target_dir m name = Some t \<Longrightarrow> ownership_of m t \<noteq> Foreign \<Longrightarrow> permitted (Created t)"
    and "\<And>t parent s. resolve_target_dir m name = Some t \<Longrightarrow> ownership_of m t = Owned \<Longrightarrow>
      path_parent t = Some parent \<Longrightarrow> permitted (Wrote (push parent ''cgroup.subtree_control'') s)"
    and "P k"
  shows "P (snd (ensure_child fs m name k))"
proof (cases "resolve_target_dir m name")
  case (Some t)
  show ?thesis
  proof (cases "ownership_of m t")
    case Legacy
    then show ?thesis using assms(1) [OF Some] assms(3) Some by (simp add: ensure_child_def create_missing_keeps)
  next
    case Owned
    have "P (enable_cpu fs t k)" using assms(2) [OF Some Owned] assms(3) by (rule enable_cpu_keeps)
    then show ?thesis using assms(1) [OF Some] Some Owned by (simp add: ensure_child_def create_missing_keeps)
  qed (use Some assms(3) in \<open>simp add: ensure_child_def\<close>)
qed (use assms(3) in \<open>simp add: ensure_child_def\<close>)

lemma set_cpu_max_keeps:
  assumes "\<And>f s. ownership_of m t \<noteq> Foreign \<Longrightarrow>
      quota_file f \<Longrightarrow> permitted (Wrote (push t f) s)"
    and "P k"
  shows "P (snd (set_cpu_max fs m t q k))"
proof (cases "ownership_of m t = Foreign")
  case False
  have w: "P (snd (write_control fs (push t f) s k'))"
    if "P k'" "quota_file f" for f s k'
    using assms(1) [OF False that(2)] that(1) by (rule write_control_keeps)
  have "P k'" if "write_control fs (push t ''cpu.cfs_period_us'') s k = (b, k')" for s b k'
    using w [OF assms(2) quota_files(2), of s] that by simp
  then show ?thesis
    using False w assms(2) quota_files by (simp add: set_cpu_max_def Let_def split: prod.split bool.split)
qed (use assms(2) in \<open>simp add: set_cpu_max_def\<close>)

lemma write_cpu_weight_keeps:
  assumes "\<And>s. permitted (Wrote (weight_file m t) s)" and "P k"
  shows "P (fst (snd (write_cpu_weight L fs m t w (k, rep))))"
proof -
  have "P k'" if "fs_write_all fs (weight_file m t) s k = (b, k')" for s b k'
    using write_keeps [OF assms] that by (metis snd_conv)
  with assms(2) show ?thesis by (cases rep) (auto simp: write_cpu_weight_def split: prod.split)
qed

lemma apply_settings_keeps:
  assumes "\<And>f s. ownership_of m t \<noteq> Foreign \<Longrightarrow> quota_file f \<Longrightarrow> permitted (Wrote (push t f) s)"
    and "\<And>s. permitted (Wrote (weight_file m t) s)" and "P k"
  shows "P (fst (apply_settings L fs m t s k rep))"
proof -
  define k1 where "k1 = (case cpu_quota s of Some q \<Rightarrow> snd (set_cpu_max fs m t q k) | None \<Rightarrow> k)"
  have "P k1" using set_cpu_max_keeps [OF assms(1,3)] assms(3) by (simp add: k1_def split: option.split)
  with assms(2) have "P (fst (snd (write_cpu_weight L fs m t w (k1, rep))))" for w
    by (rule write_cpu_weight_keeps)
  with \<open>P k1\<close> show ?thesis by (simp add: apply_settings_def k1_def [symmetric] split: option.split)
qed

lemma move_pid_keeps:
  assumes "\<And>s. ownership_of m t \<noteq> Foreign \<Longrightarrow>
      permitted (Wrote (push t (if is_v2 m then ''cgroup.procs'' else ''tasks'')) s)"
    and "proc_fs os = fs" and "P k"
  shows "P (snd (move_pid os m pid t k))"
  using assms write_keeps
  by (auto simp: move_pid_def Let_def split: prod.split option.split) (metis snd_conv)+

end

subsection \<open>Cgroup v2: one writer per subtree\<close>

text \<open>
  The effects the single-writer rule allows a daemon with the delegated root \<open>r\<close>: directories and
  control files at or below it. The weight of a cgroup may be written wherever the kernel offers it.
\<close>

fun within :: "path \<Rightarrow> effect \<Rightarrow> bool" where
  "within r (Created p) = path_starts_with p r"
| "within r (Removed p) = False"
| "within r (Wrote p s) = (path_starts_with p r \<or> file_name p = Some ''cpu.weight'')"
| "within r (Tuned t) = False"

lemma owned_below: "is_v2 m \<Longrightarrow> delegated_root m = Some r \<Longrightarrow> ownership_of m t \<noteq> Foreign \<longleftrightarrow> path_starts_with t r"
  by (simp add: ownership_of_def classify_ownership_def)

lemma push_name_below:
  assumes "CHR ''/'' \<notin> set f" "f \<noteq> []" "f \<noteq> ''.''" "f \<noteq> ''..''" and "path_starts_with t r"
  shows "path_starts_with (push t f) r"
  using assms by (simp add: push_name path_starts_with_iff)

lemma parent_below:
  assumes "path_starts_with t r" and "t \<noteq> r" and "path_parent t = Some p"
  shows "path_starts_with p r"
proof -
  obtain z where "t = r @ z" "z \<noteq> []" using assms(1,2) by (auto simp: path_starts_with_iff prefix_def)
  then show ?thesis using assms(3) by (auto simp: path_parent_def path_starts_with_iff butlast_append split: if_splits)
qed

lemma control_below:
  assumes "path_starts_with t r"
  shows "within r (Wrote (push t ''cgroup.subtree_control'') s)" "within r (Wrote (push t ''cgroup.procs'') s)"
    "quota_file f \<Longrightarrow> within r (Wrote (push t f) s)"
  using assms by (auto simp: push_name_below quota_file_def)

lemma weight_within: "is_v2 m \<Longrightarrow> within r (Wrote (weight_file m t) s)"
  by (simp add: weight_file_def push_name file_name_def)

lemma get_manager_cached: "cg_manager st = Some m \<Longrightarrow> get_manager fs st = (m, st)"
  by (simp add: get_manager_def)

lemma create_within:
  assumes v2: "is_v2 m" and root: "delegated_root m = Some r"
    and exists: "fs_exists fs r k" and ok: "list_all (within r) log"
  shows "list_all (within r) (snd (snd (find_or_create (logged fs) m name (k, log))))"
proof (cases "cgroup_exists (logged fs) m name (k, log)")
  case False
  have not_root: "t \<noteq> r" if "resolve_target_dir m name = Some t" for t
    using False exists that by (auto simp: cgroup_exists_def)
  have "case snd (ensure_child (logged fs) m name (k, log)) of (k, log) \<Rightarrow> list_all (within r) log"
  proof (rule lfs.ensure_child_keeps)
    fix t parent s
    assume t: "resolve_target_dir m name = Some t"
    show "ownership_of m t \<noteq> Foreign \<Longrightarrow> within r (Created t)"
      using owned_below [OF v2 root] by simp
    assume own: "ownership_of m t = Owned" and p: "path_parent t = Some parent"
    have "path_starts_with t r" using owned_below [OF v2 root, of t] own by simp
    then show "within r (Wrote (push parent ''cgroup.subtree_control'') s)"
      using parent_below [OF _ not_root [OF t] p] control_below(1) by blast
  qed (use ok in simp)
  then show ?thesis using False by (simp add: find_or_create_def case_prod_unfold)
qed (use ok in \<open>simp add: find_or_create_def\<close>)

lemma apply_within:
  assumes v2: "is_v2 m" and root: "delegated_root m = Some r" and ok: "list_all (within r) (snd w)"
  shows "list_all (within r) (snd (fst (apply_settings L (logged fs) m t s w rep)))"
proof -
  have "case fst (apply_settings L (logged fs) m t s w rep) of (k, log) \<Rightarrow> list_all (within r) log"
  proof (rule lfs.apply_settings_keeps)
    show "within r (Wrote (push t f) s)" if "ownership_of m t \<noteq> Foreign" "quota_file f" for f s
      using owned_below [OF v2 root] that control_below(3) by blast
    show "within r (Wrote (weight_file m t) s)" for s by (rule weight_within [OF v2])
  qed (use ok in \<open>simp add: case_prod_unfold\<close>)
  then show ?thesis by (simp add: case_prod_unfold)
qed

definition logged_proc :: "'k proc_os \<Rightarrow> ('k \<times> effect list) proc_os" where
  "logged_proc os =
     \<lparr>proc_fs = logged (proc_fs os),
      proc_cmdline = \<lambda>pid (k, log). proc_cmdline os pid k,
      proc_exe = \<lambda>pid (k, log). proc_exe os pid k,
      proc_entries = \<lambda>(k, log). proc_entries os k,
      proc_tasks = \<lambda>pid (k, log). proc_tasks os pid k\<rparr>"

lemma logged_proc_fs [simp]: "proc_fs (logged_proc os) = logged (proc_fs os)"
  by (simp add: logged_proc_def)

lemma move_within:
  assumes v2: "is_v2 m" and root: "delegated_root m = Some r" and ok: "list_all (within r) (snd w)"
  shows "list_all (within r) (snd (snd (move_pid (logged_proc os) m pid t w)))"
proof -
  have "case snd (move_pid (logged_proc os) m pid t w) of (k, log) \<Rightarrow> list_all (within r) log"
  proof (rule lfs.move_pid_keeps)
    show "within r (Wrote (push t (if is_v2 m then ''cgroup.procs'' else ''tasks'')) s)"
      if "ownership_of m t \<noteq> Foreign" for s
      using owned_below [OF v2 root] that v2 control_below(2) by auto
  qed (use ok in \<open>simp_all add: case_prod_unfold\<close>)
  then show ?thesis by (simp add: case_prod_unfold)
qed

text \<open>
  C26: On cgroup v2 the daemon is the single writer of its delegated subtree and of nothing else:
  creating the cgroup of a rule with its settings, and moving a process into a cgroup, create and write
  only at or below the delegated root, whatever the name; the one exception is \<^verbatim>\<open>cpu.weight\<close>.
\<close>
theorem cgroup_v2_single_writer:
  assumes "cg_manager st = Some m" and "is_v2 m" and "delegated_root m = Some r"
    and "cg_world st = (k, [])" and "fs_exists (proc_fs os) r k"
  shows "list_all (within r) (snd (cg_world (snd (create_cgroup L (logged (proc_fs os)) name s st)))) \<and>
    list_all (within r) (snd (cg_world (snd (cg_add_pid (logged_proc os) pid name st))))"
proof
  let ?found = "find_or_create (logged (proc_fs os)) m name (k, [])"
  have found: "list_all (within r) (snd (snd ?found))"
    by (rule create_within [OF assms(2,3,5)]) simp
  then have applied: "list_all (within r) (snd (fst (apply_settings L (logged (proc_fs os)) m t s (snd ?found)
      (cg_reported st))))" for t
    by (rule apply_within [OF assms(2,3)])
  show "list_all (within r) (snd (cg_world (snd (create_cgroup L (logged (proc_fs os)) name s st))))"
    using found applied assms(1,4)
    by (auto simp: create_cgroup_def get_manager_cached split: prod.split option.split)
      (metis fst_conv snd_conv)+
  show "list_all (within r) (snd (cg_world (snd (cg_add_pid (logged_proc os) pid name st))))"
    using move_within [OF assms(2,3), of "(k, [])"] assms(1,4)
    by (auto simp: cg_add_pid_def get_manager_cached split: prod.split option.split) (metis snd_conv)+
qed

text \<open>A service with a delegated cgroup, and a machine with the old hierarchy.\<close>

definition service_manager :: manager where
  "service_manager =
     \<lparr>info = \<lparr>version = V2, mount_point = path_of ''/cg''\<rparr>, delegated_root = Some (path_of ''/cg/a.service'')\<rparr>"

definition legacy_manager :: manager where
  "legacy_manager = \<lparr>info = \<lparr>version = V1, mount_point = path_of ''/cg''\<rparr>, delegated_root = None\<rparr>"

definition started ::
  "manager \<Rightarrow> ((path \<times> string option) list \<times> effect list, (path \<times> unit) list) cgroup_state" where
  "started m =
     \<lparr>cg_world = ([(path_of ''/cg/a.service'', None), (path_of ''/cg/a.service/cgroup.subtree_control'', Some [])], []),
      cg_info = None, cg_manager = Some m, cg_reported = ([], [])\<rparr>"

definition no_settings :: cgroup_settings where
  "no_settings = \<lparr>cpu_quota = None, cpu_weight_setting = None\<rparr>"

lemma started_effects:
  "snd (cg_world (snd (create_cgroup (list_lru 4) (logged mem_fs) ''games'' no_settings (started service_manager)))) =
     [Created (path_of ''/cg/a.service/games''),
      Wrote (path_of ''/cg/a.service/cgroup.subtree_control'') (''+cpu'' @ [CHR 0x0A])]"
  by code_simp

theorem cgroup_v2_single_writer_witness:
  "list_all (within (path_of ''/cg/a.service''))
     [Created (path_of ''/cg/a.service/games''),
      Wrote (path_of ''/cg/a.service/cgroup.subtree_control'') (''+cpu'' @ [CHR 0x0A])]"
proof -
  have fs: "proc_fs sample_proc = mem_fs" by (simp add: sample_proc_def)
  have m: "cg_manager (started service_manager) = Some service_manager" by (simp add: started_def)
  have v2: "is_v2 service_manager" and r: "delegated_root service_manager = Some (path_of ''/cg/a.service'')"
    by (simp_all add: is_v2_def service_manager_def)
  have w: "cg_world (started service_manager) = (fst (cg_world (started service_manager)), [])"
    by (simp add: started_def)
  have e: "fs_exists (proc_fs sample_proc) (path_of ''/cg/a.service'') (fst (cg_world (started service_manager)))"
    by (simp add: started_def mem_fs_def fs)
  show ?thesis
    using cgroup_v2_single_writer [OF m v2 r w e, of "list_lru 4" "''games''" no_settings 7]
    unfolding fs started_effects by blast
qed

theorem resolved_below_hierarchy_witness:
  "(\<exists>rel. path_of ''/cg/cpu/games'' = base_of legacy_manager ''games'' @ rel) \<and>
   resolve_target_dir legacy_manager ''//tmp/x'' = Some (path_of ''/tmp/x'') \<and>
   snd (cg_world (snd (create_cgroup (list_lru 4) (logged mem_fs) ''//tmp/x'' no_settings (started legacy_manager)))) =
     [Created (path_of ''/tmp/x'')]"
proof -
  have a: "resolve_target_dir legacy_manager ''games'' = Some (path_of ''/cg/cpu/games'')" by code_simp
  have b: "resolve_target_dir legacy_manager ''//tmp/x'' = Some (path_of ''/tmp/x'')" by code_simp
  have c: "snd (cg_world (snd (create_cgroup (list_lru 4) (logged mem_fs) ''//tmp/x'' no_settings (started legacy_manager)))) =
      [Created (path_of ''/tmp/x'')]"
    by code_simp
  show ?thesis
    using resolved_below_hierarchy [OF a] b c by (auto simp: starts_with_def)
qed

subsection \<open>The quota in microseconds\<close>

text \<open>
  For any machine of up to \<open>2 ^ 32\<close> processors the bandwidth is the exact share of the machine,
  rounded down, with neither saturation nor wrap-around; it is never more than the whole machine and grows with the quota.
\<close>
theorem bandwidth_exact:
  assumes "n \<le> 2 ^ 32" and "period \<in> {v1_period_us, v2_period_us}"
  shows "bandwidth_us n q period = period * n * min q 100 div 100 \<and>
    bandwidth_us n q period \<le> period * n \<and> (q \<le> q' \<longrightarrow> bandwidth_us n q period \<le> bandwidth_us n q' period)"
proof -
  have pn: "period * n \<le> 10 ^ 6 * 2 ^ 32"
    using assms by (auto simp: v1_period_us_def v2_period_us_def)
  have prod: "period * n * min a 100 \<le> 10 ^ 6 * 2 ^ 32 * 100" for a
    using mult_le_mono [OF pn, of "min a 100" 100] by simp
  have fits: "10 ^ 6 * 2 ^ 32 \<le> u64_max" "10 ^ 6 * 2 ^ 32 * 100 \<le> u64_max" by (simp_all add: u64_max_def)
  have "saturating_mul period n = period * n"
    unfolding saturating_mul_def by (rule min_absorb1 [OF le_trans [OF pn fits(1)]])
  moreover have "saturating_mul (period * n) (min a 100) = period * n * min a 100" for a
    unfolding saturating_mul_def by (rule min_absorb1 [OF le_trans [OF prod fits(2)]])
  ultimately have eq: "bandwidth_us n a period = period * n * min a 100 div 100" for a
    by (simp only: bandwidth_us_def)
  have "period * n * min q 100 \<le> period * n * 100" by simp
  then have "period * n * min q 100 div 100 \<le> period * n * 100 div 100" by (rule div_le_mono)
  then have "period * n * min q 100 div 100 \<le> period * n" by simp
  moreover have "q \<le> q' \<longrightarrow> period * n * min q 100 div 100 \<le> period * n * min q' 100 div 100"
    by (intro impI div_le_mono mult_le_mono) auto
  ultimately show ?thesis unfolding eq by blast
qed

theorem bandwidth_exact_witness: "bandwidth_us 512 100 v2_period_us = 51200000"
  using bandwidth_exact [of 512 v2_period_us 100] by (simp add: v2_period_us_def)

end
