(* ===== verification/Cgroup_Resolver.thy ===== *)
theory Cgroup_Resolver
  imports Cgroup_Manager
begin

text \<open>
  \<^verbatim>\<open>crates/ananicy-platform/src/cgroup/process.rs\<close>: the cgroup a process is in, read from
  \<^verbatim>\<open>/proc/<pid>/cgroup\<close>, and the cache in front of it. The theorem says that a cached answer is for the
  same process and younger than the time to live.
\<close>

subsection \<open>Reading the cgroup of a process\<close>

definition cgroup_from :: "string \<Rightarrow> string option" where
  "cgroup_from content =
     (case List.map_filter (strip_prefix ''0::'') (str_lines content) of
        [] \<Rightarrow> None
      | path_str # _ \<Rightarrow>
          (let p = trim_end_matches '' (deleted)'' path_str in
           if starts_with p ''/../'' then None else Some p))"

definition resolve_process :: "'k fs \<Rightarrow> cgroup_version \<Rightarrow> int \<Rightarrow> 'k \<Rightarrow> int + string option" where
  "resolve_process fs v pid k =
     (if v \<noteq> V2 then Inr None
      else
        (case fs_read fs (proc_file pid ''cgroup'') k of
           Inr content \<Rightarrow> Inr (cgroup_from content)
         | Inl e \<Rightarrow> if e = enoent then Inr None else Inl e))"

subsection \<open>The cache\<close>

text \<open>An entry: the start time of the process, its cgroup, and when it was read.\<close>

type_synonym cache_entry = "nat \<times> string option \<times> nat"

text \<open>
  What a resolution does besides answering: the world it ran in and the one it left behind, since the
  process may exit meanwhile. \<open>now\<close> is the clock, \<open>inner\<close> the resolver behind the cache.
\<close>

definition cache_hit :: "nat \<Rightarrow> nat \<Rightarrow> nat \<Rightarrow> cache_entry option \<Rightarrow> string option option" where
  "cache_hit ttl time start entry =
     (case entry of
        Some (t, ident, stamp) \<Rightarrow> if t = start \<and> time - stamp < ttl then Some ident else None
      | None \<Rightarrow> None)"

definition resolve_cached ::
  "(int, cache_entry, 'c) lru_ops \<Rightarrow> nat \<Rightarrow> ('k \<Rightarrow> nat) \<Rightarrow> 'k proc_os \<Rightarrow>
     (int \<Rightarrow> 'k \<Rightarrow> (int + string option) \<times> 'k) \<Rightarrow> int \<Rightarrow> 'c \<times> 'k \<Rightarrow> (int + string option) \<times> 'c \<times> 'k" where
  "resolve_cached L ttl now os inner pid st =
     (case st of (c, k) \<Rightarrow>
        (case get_start_time os pid k of
           None \<Rightarrow> (Inr None, c, k)
         | Some start \<Rightarrow>
             (case cache_get L pid c of
                (entry, c1) \<Rightarrow>
                  (case cache_hit ttl (now k) start entry of
                     Some ident \<Rightarrow> (Inr ident, c1, k)
                   | None \<Rightarrow>
                       (case inner pid k of
                          (Inl e, k') \<Rightarrow> (Inl e, c1, k')
                        | (Inr ident, k') \<Rightarrow>
                            if get_start_time os pid k' = Some start
                            then (Inr ident, cache_put L pid (start, ident, now k') c1, k')
                            else (Inr None, c1, k'))))))"

subsection \<open>Where a cached answer comes from\<close>

text \<open>The answer the inner resolver gave in this call and that was kept, if there was one.\<close>

definition kept ::
  "(int, cache_entry, 'c) lru_ops \<Rightarrow> nat \<Rightarrow> ('k \<Rightarrow> nat) \<Rightarrow> 'k proc_os \<Rightarrow>
     (int \<Rightarrow> 'k \<Rightarrow> (int + string option) \<times> 'k) \<Rightarrow> int \<Rightarrow> 'c \<times> 'k \<Rightarrow> (int \<times> cache_entry) set" where
  "kept L ttl now os inner pid st =
     {(pid, start, ident, stamp) | start ident stamp.
        get_start_time os pid (snd st) = Some start \<and> fst (inner pid (snd st)) = Inr ident \<and>
        get_start_time os pid (snd (inner pid (snd st))) = Some start \<and> stamp = now (snd (inner pid (snd st)))}"

definition entries_from :: "(int, cache_entry, 'c) lru_ops \<Rightarrow> (int \<times> cache_entry) set \<Rightarrow> 'c \<Rightarrow> bool" where
  "entries_from L h c \<longleftrightarrow> (\<forall>pid e. cache_peek L pid c = Some e \<longrightarrow> (pid, e) \<in> h)"

lemma resolve_cached_entries:
  assumes laws: "lru_laws L" and sound: "entries_from L h (fst st)"
    and res: "resolve_cached L ttl now os inner pid st = (ans, c', k')"
  shows "entries_from L (h \<union> kept L ttl now os inner pid st) c'"
proof -
  obtain c k where st: "st = (c, k)" by fastforce
  obtain entry c1 where g: "cache_get L pid c = (entry, c1)" by fastforce
  have c1: "cache_peek L j c1 = cache_peek L j c" for j using lru_lawsD(3) [OF laws, of j pid c] g by simp
  have same: "entries_from L (h \<union> X) c1" "entries_from L (h \<union> X) c" for X
    using sound c1 by (simp_all add: entries_from_def st)
  have put: "entries_from L (h \<union> X) (cache_put L pid e c1)" if "(pid, e) \<in> X" for e X
    unfolding entries_from_def
  proof (intro allI impI)
    fix j x
    assume j: "cache_peek L j (cache_put L pid e c1) = Some x"
    show "(j, x) \<in> h \<union> X"
    proof (cases "j = pid")
      case True
      with j lru_lawsD(4) [OF laws] that show ?thesis by auto
    next
      case False
      with j have "cache_peek L j c1 = Some x" using lru_lawsD(5) [OF laws] by blast
      with same(1) [of X] show ?thesis unfolding entries_from_def by blast
    qed
  qed
  have "c' = c \<or> c' = c1 \<or>
      (\<exists>e. c' = cache_put L pid e c1 \<and> (pid, e) \<in> kept L ttl now os inner pid st)"
    using res unfolding st
    by (auto simp: resolve_cached_def g kept_def split: option.splits prod.splits sum.splits if_splits)
  then show ?thesis using same put by blast
qed

text \<open>The calls of a run: each process and the world at that moment.\<close>

fun resolutions ::
  "(int, cache_entry, 'c) lru_ops \<Rightarrow> nat \<Rightarrow> ('k \<Rightarrow> nat) \<Rightarrow> 'k proc_os \<Rightarrow>
     (int \<Rightarrow> 'k \<Rightarrow> (int + string option) \<times> 'k) \<Rightarrow> (int \<times> 'k) list \<Rightarrow> 'c \<Rightarrow> (int \<times> cache_entry) set \<times> 'c" where
  "resolutions L ttl now os inner [] c = ({}, c)"
| "resolutions L ttl now os inner ((pid, k) # calls) c =
     (case resolutions L ttl now os inner calls (fst (snd (resolve_cached L ttl now os inner pid (c, k)))) of
        (h, c') \<Rightarrow> (kept L ttl now os inner pid (c, k) \<union> h, c'))"

lemma resolutions_entries:
  assumes "lru_laws L" and "entries_from L h c"
  shows "entries_from L (h \<union> fst (resolutions L ttl now os inner calls c)) (snd (resolutions L ttl now os inner calls c))"
  using assms(2)
proof (induction calls arbitrary: h c)
  case (Cons call calls)
  obtain pid k where call: "call = (pid, k)" by fastforce
  obtain a c1 k1 where r: "resolve_cached L ttl now os inner pid (c, k) = (a, c1, k1)" by (metis prod_cases3)
  have "entries_from L (h \<union> kept L ttl now os inner pid (c, k)) c1"
    using resolve_cached_entries [OF assms(1) _ r] Cons.prems by simp
  from Cons.IH [OF this] show ?case by (simp add: call r case_prod_unfold Un_assoc)
qed simp

text \<open>
  A cgroup the resolver answers for a process was either read in this very call, or read less than the
  time to live ago for a process with the same number and the same start time.
\<close>
theorem resolved_cgroup_is_current:
  assumes "lru_laws L" and "resolutions L ttl now os inner calls (cache_new L) = (h, c)"
    and "resolve_cached L ttl now os inner pid (c, k) = (Inr (Some ident), st')"
  shows "\<exists>start. get_start_time os pid k = Some start \<and>
    (fst (inner pid k) = Inr (Some ident) \<or> (\<exists>stamp. (pid, start, Some ident, stamp) \<in> h \<and> now k - stamp < ttl))"
proof -
  have "entries_from L {} (cache_new L)" using lru_lawsD(1) [OF assms(1)] by (simp add: entries_from_def)
  then have sound: "entries_from L h c"
    using resolutions_entries [OF assms(1), of "{}" "cache_new L" ttl now os inner calls] assms(2) by simp
  obtain entry c1 where g: "cache_get L pid c = (entry, c1)" by fastforce
  have "entry = cache_peek L pid c" using lru_lawsD(2) [OF assms(1), of pid c] g by simp
  then have h: "entry = Some e \<Longrightarrow> (pid, e) \<in> h" for e using sound unfolding entries_from_def by metis
  show ?thesis
    using assms(3) h
    by (auto simp: resolve_cached_def g split: option.splits prod.splits sum.splits if_splits simp: cache_hit_def)
qed

text \<open>The resolver of the daemon in front of a process that stays where it is.\<close>

definition sample_cgroup_files :: "(path \<times> string option) list" where
  "sample_cgroup_files = (proc_file 7 ''cgroup'', Some ''0::/user.slice'') # sample_files"

definition sample_inner :: "int \<Rightarrow> (path \<times> string option) list \<Rightarrow> (int + string option) \<times> (path \<times> string option) list" where
  "sample_inner pid k = (resolve_process mem_fs V2 pid k, k)"

lemma sample_start_cgroup: "get_start_time sample_proc 7 sample_cgroup_files = Some 4711"
proof -
  have "proc_file 7 ''cgroup'' \<noteq> proc_file 7 ''stat''" by code_simp
  then have "read_ok mem_fs (proc_file 7 ''stat'') sample_cgroup_files = read_ok mem_fs (proc_file 7 ''stat'') sample_files"
    by (simp add: read_ok_def mem_fs_def sample_cgroup_files_def)
  with sample_start show ?thesis by (simp add: get_start_time_def sample_proc_def)
qed

lemma sample_answer: "fst (sample_inner 7 sample_cgroup_files) = Inr (Some ''/user.slice'')"
proof -
  have "fs_read mem_fs (proc_file 7 ''cgroup'') sample_cgroup_files = Inr ''0::/user.slice''"
    by (simp add: mem_fs_def sample_cgroup_files_def)
  moreover have "cgroup_from ''0::/user.slice'' = Some ''/user.slice''" by code_simp
  ultimately show ?thesis by (simp add: sample_inner_def resolve_process_def)
qed

theorem resolved_cgroup_is_current_witness:
  "\<exists>start. get_start_time sample_proc 7 sample_cgroup_files = Some start \<and>
     (fst (sample_inner 7 sample_cgroup_files) = Inr (Some ''/user.slice'') \<or>
      (\<exists>stamp. (7 :: int, start, Some ''/user.slice'', stamp) \<in> {} \<and> (0 :: nat) - stamp < 1))"
proof (rule resolved_cgroup_is_current [where L = "list_lru 5000" and calls = "[]" and now = "\<lambda>_. 0"])
  show "lru_laws (list_lru 5000 :: (int, cache_entry, _) lru_ops)" by (rule list_lru_laws) simp
  show "resolve_cached (list_lru 5000) 1 (\<lambda>_. 0) sample_proc sample_inner 7 ([], sample_cgroup_files) =
      (Inr (Some ''/user.slice''), [(7, 4711, Some ''/user.slice'', 0)], sample_cgroup_files)"
    using sample_answer
    by (simp add: resolve_cached_def sample_start_cgroup cache_hit_def sample_inner_def)
qed simp

end
