(* ===== verification/Linux_Platform.thy ===== *)
theory Linux_Platform
  imports Worker_Plan Priority Affinity Cgroup_Resolver
begin

text \<open>
  \<^verbatim>\<open>crates/ananicy-platform/src/lib.rs\<close>: \<^verbatim>\<open>LinuxPlatform\<close>, the actions of the worker made of the
  components for \<^verbatim>\<open>/proc\<close>, priorities, affinity and cgroups. The interface \<open>platform_frame\<close> is what the worker
  relies on to keep a property of the world; its instance is this platform on a kernel that logs
  what is done to it. The theorem says which files the worker writes and which threads
  it touches, over any queue of processes, rule set and configuration.
\<close>

subsection \<open>The kernel and the state of the platform\<close>

record 'k kernel =
  k_proc :: "'k proc_os"
  k_setpriority :: "int \<Rightarrow> int \<Rightarrow> 'k \<Rightarrow> int option \<times> 'k"
  k_setattr :: "int \<Rightarrow> sched_attr \<Rightarrow> 'k \<Rightarrow> int option \<times> 'k"
  k_setscheduler :: "int \<Rightarrow> nat \<Rightarrow> int \<Rightarrow> 'k \<Rightarrow> int option \<times> 'k"
  k_ioprio_set :: "int \<Rightarrow> int \<Rightarrow> 'k \<Rightarrow> int option \<times> 'k"
  k_write_oom :: "int \<Rightarrow> int \<Rightarrow> 'k \<Rightarrow> int option \<times> 'k"
  k_getattr :: "int \<Rightarrow> 'k \<Rightarrow> sched_attr option"
  k_affinity :: "'k affinity_os"
  k_configured_cpus :: int
  k_clock :: "'k \<Rightarrow> nat"

text \<open>The caches of the process: reported cgroups, unreadable executables, cgroups of processes.\<close>

record ('r, 'e, 'c) caches =
  l_reported :: "(path, unit, 'r) lru_ops"
  l_exe :: "(int, exe_failure, 'e) lru_ops"
  l_resolved :: "(int, cache_entry, 'c) lru_ops"

record ('k, 'r, 'e, 'c) linux =
  lx_cgroups :: "('k, 'r) cgroup_state"
  lx_exe :: 'e
  lx_resolved :: 'c

definition lx_kernel :: "('k, 'r, 'e, 'c) linux \<Rightarrow> 'k" where
  "lx_kernel w = cg_world (lx_cgroups w)"

definition put_kernel :: "'k \<Rightarrow> ('k, 'r, 'e, 'c) linux \<Rightarrow> ('k, 'r, 'e, 'c) linux" where
  "put_kernel k w = w\<lparr>lx_cgroups := (lx_cgroups w)\<lparr>cg_world := k\<rparr>\<rparr>"

text \<open>An operation on the kernel alone.\<close>

definition on_kernel :: "('k \<Rightarrow> 'a \<times> 'k) \<Rightarrow> ('k, 'r, 'e, 'c) linux \<Rightarrow> 'a \<times> ('k, 'r, 'e, 'c) linux" where
  "on_kernel f w = (case f (lx_kernel w) of (a, k) \<Rightarrow> (a, put_kernel k w))"

subsection \<open>The operations\<close>

definition lx_is_realtime :: "'k kernel \<Rightarrow> int \<Rightarrow> ('k, 'r, 'e, 'c) linux \<Rightarrow> bool" where
  "lx_is_realtime K pid w =
     (case k_getattr K pid (lx_kernel w) of Some attr \<Rightarrow> 0 < attr_priority attr | None \<Rightarrow> False)"

definition lx_get_process_name ::
  "'k kernel \<Rightarrow> ('r, 'e, 'c) caches \<Rightarrow> int \<Rightarrow> ('k, 'r, 'e, 'c) linux \<Rightarrow> string \<times> ('k, 'r, 'e, 'c) linux" where
  "lx_get_process_name K L pid w =
     (case get_command_from_pid (l_exe L) (k_proc K) pid (lx_kernel w) (lx_exe w) of
        (name, exe) \<Rightarrow> (name, w\<lparr>lx_exe := exe\<rparr>))"

text \<open>The time to live of a cached cgroup, with the clock in nanoseconds.\<close>

definition cgroup_ttl :: nat where "cgroup_ttl = 1000000000"

definition process_cgroup ::
  "'k kernel \<Rightarrow> ('r, 'e, 'c) caches \<Rightarrow> cgroup_version \<Rightarrow> int \<Rightarrow> ('k, 'r, 'e, 'c) linux \<Rightarrow>
     string option \<times> ('k, 'r, 'e, 'c) linux" where
  "process_cgroup K L v pid w =
     (case resolve_cached (l_resolved L) cgroup_ttl (k_clock K) (k_proc K)
             (\<lambda>pid k. (resolve_process (proc_fs (k_proc K)) v pid k, k)) pid (lx_resolved w, lx_kernel w) of
        (answer, c, k) \<Rightarrow>
          (case answer of Inr ident \<Rightarrow> ident | Inl e \<Rightarrow> None, put_kernel k (w\<lparr>lx_resolved := c\<rparr>)))"

definition lx_set_cpu_weight ::
  "'k kernel \<Rightarrow> ('r, 'e, 'c) caches \<Rightarrow> cgroup_version \<Rightarrow> int \<Rightarrow> nat \<Rightarrow> ('k, 'r, 'e, 'c) linux \<Rightarrow>
     platform_error option \<times> ('k, 'r, 'e, 'c) linux" where
  "lx_set_cpu_weight K L v pid weight w =
     (case process_cgroup K L v pid w of
        (None, w') \<Rightarrow> (Some NotFound, w')
      | (Some path_str, w') \<Rightarrow>
          (case set_cpu_weight_for_cgroup (l_reported L) (proc_fs (k_proc K)) path_str weight (lx_cgroups w') of
             (e, st) \<Rightarrow> (e, w'\<lparr>lx_cgroups := st\<rparr>)))"

definition lx_add_pid_to_cgroup ::
  "'k kernel \<Rightarrow> int \<Rightarrow> string \<Rightarrow> ('k, 'r, 'e, 'c) linux \<Rightarrow> platform_error option \<times> ('k, 'r, 'e, 'c) linux" where
  "lx_add_pid_to_cgroup K pid name w =
     (case cg_add_pid (k_proc K) pid name (lx_cgroups w) of (e, st) \<Rightarrow> (e, w\<lparr>lx_cgroups := st\<rparr>))"

text \<open>
  The platform for the version \<open>v\<close> of the hierarchy that is in force. A mask that indexes out of bounds
  panics; what follows is left open by \<open>the\<close>.
\<close>

definition linux_platform ::
  "'k kernel \<Rightarrow> ('r, 'e, 'c) caches \<Rightarrow> cgroup_version \<Rightarrow> ('k, 'r, 'e, 'c) linux platform" where
  "linux_platform K L v =
     \<lparr>is_realtime = lx_is_realtime K,
      get_process_name = lx_get_process_name K L,
      is_cgroup_v2 = (v = V2),
      get_max_cores = get_max_number_of_cpus (k_configured_cpus K),
      get_tids = \<lambda>pid w. proc_get_tids (k_proc K) pid (lx_kernel w),
      set_priority = \<lambda>pid tids n. on_kernel (set_priority_threads (k_setpriority K) tids n),
      set_latency = \<lambda>pid tids n. on_kernel (set_latency_nice_threads (k_setattr K) tids n),
      set_scheduler = \<lambda>pid tids name rt. on_kernel (set_sched_threads (k_setscheduler K) tids name rt),
      set_io_priority = \<lambda>pid cls n. on_kernel (set_io_priority_process (k_ioprio_set K) pid cls n),
      set_oom = \<lambda>pid n. on_kernel (set_oom_score_adjust (k_write_oom K) pid n),
      add_pid_to_cgroup = lx_add_pid_to_cgroup K,
      set_cpu_weight = lx_set_cpu_weight K L v,
      set_affinity = \<lambda>pid tids cpus. on_kernel (\<lambda>k.
        the (set_affinity_threads (k_affinity K) (get_max_number_of_cpus (k_configured_cpus K)) pid tids cpus k))\<rparr>"

subsection \<open>What the worker keeps\<close>

text \<open>
  A property \<open>P\<close> of the world that every action keeps on the processes \<open>may\<close> names, when it is
  asked for threads \<open>thr\<close> says are theirs.
\<close>

locale platform_frame =
  fixes pf :: "'w platform"
    and may :: "int \<Rightarrow> bool"
    and thr :: "int \<Rightarrow> int \<Rightarrow> bool"
    and P :: "'w \<Rightarrow> bool"
  assumes name_keeps: "P w \<Longrightarrow> P (snd (get_process_name pf pid w))"
    and tids_known: "get_tids pf pid w = Inr tids \<Longrightarrow> list_all (thr pid) tids"
    and own_thread: "thr pid pid"
    and perform_keeps: "may pid \<Longrightarrow> list_all (thr pid) tids \<Longrightarrow> P w \<Longrightarrow> P (snd (perform pf pid tids a w))"
begin

lemma run_keeps: "may pid \<Longrightarrow> list_all (thr pid) tids \<Longrightarrow> P w \<Longrightarrow> P (snd (run pf pid tids as w))"
proof (induction as arbitrary: w)
  case (Cons a as)
  then have "P (snd (perform pf pid tids a w))" by (intro perform_keeps)
  with Cons show ?case by (simp add: split_beta)
qed simp

lemma apply_rule_keeps:
  assumes "may pid" and "list_all (thr pid) tids" and "P w"
  shows "P (snd (apply_rule pf aliases pid tids s cfg realtime bug w))"
  using run_keeps [OF assms] by (simp add: apply_rule_performs split_beta)

lemma threads_known: "list_all (thr pid) (fst (threads_of pf w pid))"
  using tids_known [of pid w] own_thread by (auto simp: threads_of_def split: sum.split)

lemma full_name_keeps: "P w \<Longrightarrow> full_name pf p w = (q, w') \<Longrightarrow> P w' \<and> p_pid q = p_pid p"
  using name_keeps [of w "p_pid p"] by (auto simp: full_name_def split: if_splits prod.splits)

lemma handle_process_keeps:
  assumes "env_platform env = pf" and "may (p_pid p)" and "P (w_world st)"
  shows "P (w_world (handle_process env p st))"
proof -
  obtain q w0 where q: "full_name pf p (w_world st) = (q, w0)" by fastforce
  then have "P w0" "p_pid q = p_pid p" using full_name_keeps assms(3) by blast+
  then have "P (snd (apply_rule pf a (p_pid q) (fst (threads_of pf w0 (p_pid q))) s c rt b w0))" for a s c rt b
    using apply_rule_keeps assms(2) threads_known by simp
  with \<open>P w0\<close> q assms(1) show ?thesis
    by (simp add: handle_process_def Let_def split_beta split: option.split)
qed

lemma work_loop_keeps:
  assumes "env_platform env = pf" and "\<forall>p \<in> set (received es). may (p_pid p)" and "P (w_world st)"
  shows "P (w_world (work_loop env es st))"
  using assms
proof (induction env es st rule: work_loop.induct)
  case (2 env p es st)
  have "P (w_world (work_step env p st))"
    using handle_process_keeps [of env p "count_process (env_benchmark env) st"] "2.prems"
    by (simp add: work_step_def Let_def count_process_def)
  with "2" show ?case by simp
qed simp_all

end


subsection \<open>A kernel that logs\<close>

definition touching :: "int \<Rightarrow> ('k \<Rightarrow> 'a \<times> 'k) \<Rightarrow> 'k \<times> effect list \<Rightarrow> 'a \<times> 'k \<times> effect list" where
  "touching t f w = (case w of (k, log) \<Rightarrow> (case f k of (a, k') \<Rightarrow> (a, k', Tuned t # log)))"

definition logged_kernel :: "'k kernel \<Rightarrow> ('k \<times> effect list) kernel" where
  "logged_kernel K =
     \<lparr>k_proc = logged_proc (k_proc K),
      k_setpriority = \<lambda>t n. touching t (k_setpriority K t n),
      k_setattr = \<lambda>t a. touching t (k_setattr K t a),
      k_setscheduler = \<lambda>t p n. touching t (k_setscheduler K t p n),
      k_ioprio_set = \<lambda>pid n. touching pid (k_ioprio_set K pid n),
      k_write_oom = \<lambda>pid n (k, log).
        (case k_write_oom K pid n k of
           (e, k') \<Rightarrow> (e, k', Wrote (proc_file pid ''oom_score_adj'') (show_int n) # log)),
      k_getattr = \<lambda>pid (k, log). k_getattr K pid k,
      k_affinity =
        \<lparr>os_setaffinity = \<lambda>t m. touching t (os_setaffinity (k_affinity K) t m),
         os_status = \<lambda>t (k, log). os_status (k_affinity K) t k,
         os_possible = \<lambda>(k, log). os_possible (k_affinity K) k,
         os_cpuinfo = \<lambda>(k, log). os_cpuinfo (k_affinity K) k\<rparr>,
      k_configured_cpus = k_configured_cpus K,
      k_clock = \<lambda>(k, log). k_clock K k\<rparr>"

text \<open>
  What a worker that has received the processes \<open>pids\<close> may do, \<open>belongs\<close> being the threads of a
  process and \<open>r\<close> the delegated root: tune these processes and their threads, write their OOM scores, and write
  below \<open>r\<close> and to \<^verbatim>\<open>cpu.weight\<close>. Nothing is created or removed.
\<close>

fun allowed :: "path \<Rightarrow> int list \<Rightarrow> (int \<Rightarrow> int \<Rightarrow> bool) \<Rightarrow> effect \<Rightarrow> bool" where
  "allowed r pids belongs (Created p) = False"
| "allowed r pids belongs (Removed p) = False"
| "allowed r pids belongs (Wrote p s) =
     (path_starts_with p r \<or> file_name p = Some ''cpu.weight'' \<or>
      list_ex (\<lambda>pid. p = proc_file pid ''oom_score_adj'') pids)"
| "allowed r pids belongs (Tuned t) = list_ex (\<lambda>pid. t = pid \<or> belongs pid t) pids"

definition stays ::
  "manager \<Rightarrow> path \<Rightarrow> int list \<Rightarrow> (int \<Rightarrow> int \<Rightarrow> bool) \<Rightarrow> ('k \<times> effect list, 'r, 'e, 'c) linux \<Rightarrow> bool" where
  "stays m r pids belongs w \<longleftrightarrow>
     cg_manager (lx_cgroups w) = Some m \<and> list_all (allowed r pids belongs) (snd (lx_kernel w))"

text \<open>
  The machine: cgroup v2 with a delegated root, a number of processors that fills whole bytes, and a kernel
  whose list of the threads of a process names threads of that process.
\<close>

definition machine_ok :: "'k kernel \<Rightarrow> manager \<Rightarrow> path \<Rightarrow> (int \<Rightarrow> int \<Rightarrow> bool) \<Rightarrow> bool" where
  "machine_ok K m r belongs \<longleftrightarrow>
     is_v2 m \<and> delegated_root m = Some r \<and> 8 dvd get_max_number_of_cpus (k_configured_cpus K) \<and>
     (\<forall>pid k tids. proc_get_tids (k_proc K) pid k = Inr tids \<longrightarrow> list_all (belongs pid) tids)"

lemma within_allowed: "within r (Wrote p s) \<Longrightarrow> allowed r pids belongs (Wrote p s)"
  by auto

lemma touching_keeps: "permitted (Tuned t) \<Longrightarrow> list_all permitted (snd w) \<Longrightarrow> list_all permitted (snd (snd (touching t f w)))"
  by (cases w) (simp add: touching_def split: prod.split)

lemma on_kernel_stays:
  assumes "\<And>k. list_all (allowed r pids b) (snd k) \<Longrightarrow> list_all (allowed r pids b) (snd (snd (f k)))" and "stays m r pids b w"
  shows "stays m r pids b (snd (on_kernel f w))"
  using assms(1) [of "lx_kernel w"] assms(2)
  by (simp add: stays_def on_kernel_def put_kernel_def lx_kernel_def case_prod_unfold)

lemma logged_tids: "proc_get_tids (k_proc (logged_kernel K)) pid k = proc_get_tids (k_proc K) pid (fst k)"
  by (cases k) (simp add: proc_get_tids_def logged_kernel_def logged_proc_def)

lemma mask_from_whole_bytes: "8 dvd n \<Longrightarrow> \<exists>m. mask_from s n = Some m"
  by (cases "mask_from s n") (auto simp: mask_from_def fill_mask_None)

lemma threads_tuned:
  assumes "pid \<in> set pids" and "list_all (\<lambda>t. t = pid \<or> b pid t) tids" and "t \<in> set tids"
  shows "allowed r pids b (Tuned t)"
  using assms by (auto simp: list_all_iff list_ex_iff)

interpretation lkf: affinity_frame "k_affinity (logged_kernel K)" tids "\<lambda>m. True"
    "\<lambda>k. (\<forall>t \<in> set tids. permitted (Tuned t)) \<longrightarrow> list_all permitted (snd k)" for K tids permitted
  by unfold_locales (auto simp: logged_kernel_def intro: touching_keeps)

lemma affinity_keeps:
  assumes "\<forall>t \<in> set tids. permitted (Tuned t)" and "8 dvd n" and "list_all permitted (snd k)"
  shows "list_all permitted (snd (snd (the (set_affinity_threads (k_affinity (logged_kernel K)) n pid tids s k))))"
proof -
  have "set_affinity_threads (k_affinity (logged_kernel K)) n pid tids s k \<noteq> None"
    using mask_from_whole_bytes [OF assms(2), of s] by (auto simp: set_affinity_threads_def simp del: not_None_eq)
  then obtain e k' where r: "set_affinity_threads (k_affinity (logged_kernel K)) n pid tids s k = Some (e, k')" by auto
  show ?thesis using lkf.set_affinity_threads_keeps [OF r, of permitted] assms(1,3) by (simp add: r)
qed


text \<open>The attributes that are set thread by thread.\<close>

lemma thread_attribute_keeps:
  assumes "\<forall>t \<in> set tids. permitted (Tuned t)" and "list_all permitted (snd k)"
  shows "list_all permitted (snd (snd (set_priority_threads (k_setpriority (logged_kernel K)) tids n k)))"
    and "list_all permitted (snd (snd (set_latency_nice_threads (k_setattr (logged_kernel K)) tids n k)))"
    and "list_all permitted (snd (snd (set_sched_threads (k_setscheduler (logged_kernel K)) tids name rt k)))"
proof -
  have loop: "list_all permitted (snd (snd (each_thread (\<lambda>t. touching t (f t)) tids k)))" for f :: "int \<Rightarrow> 'a \<Rightarrow> int option \<times> 'a"
    using assms by (intro each_thread_keeps [where P = "\<lambda>k. list_all permitted (snd k)"] touching_keeps) auto
  show "list_all permitted (snd (snd (set_priority_threads (k_setpriority (logged_kernel K)) tids n k)))"
    "list_all permitted (snd (snd (set_latency_nice_threads (k_setattr (logged_kernel K)) tids n k)))"
    "list_all permitted (snd (snd (set_sched_threads (k_setscheduler (logged_kernel K)) tids name rt k)))"
    using loop assms(2)
    by (simp_all add: set_priority_threads_def set_latency_nice_threads_def set_sched_threads_def logged_kernel_def
        case_prod_unfold split: option.split)
qed

lemma process_attribute_keeps:
  assumes "list_all permitted (snd k)"
  shows "permitted (Tuned pid) \<Longrightarrow>
      list_all permitted (snd (snd (set_io_priority_process (k_ioprio_set (logged_kernel K)) pid cls n k)))"
    and "(\<And>s. permitted (Wrote (proc_file pid ''oom_score_adj'') s)) \<Longrightarrow>
      list_all permitted (snd (snd (set_oom_score_adjust (k_write_oom (logged_kernel K)) pid n k)))"
proof -
  assume "permitted (Tuned pid)"
  then have "list_all permitted (snd (snd (touching pid f k)))" for f :: "'a \<Rightarrow> int option \<times> 'a"
    using assms touching_keeps by blast
  then show "list_all permitted (snd (snd (set_io_priority_process (k_ioprio_set (logged_kernel K)) pid cls n k)))"
    using assms
    by (auto simp: set_io_priority_process_def logged_kernel_def split: option.split prod.split) (metis snd_conv)+
next
  assume "\<And>s. permitted (Wrote (proc_file pid ''oom_score_adj'') s)"
  then show "list_all permitted (snd (snd (set_oom_score_adjust (k_write_oom (logged_kernel K)) pid n k)))"
    using assms by (cases k) (auto simp: set_oom_score_adjust_def logged_kernel_def split: option.split prod.split)
qed

lemma add_pid_stays:
  assumes "machine_ok K m r b" and "stays m r pids b w"
  shows "stays m r pids b (snd (lx_add_pid_to_cgroup (logged_kernel K) pid name w))"
proof -
  have v2: "is_v2 m" "delegated_root m = Some r" using assms(1) by (simp_all add: machine_ok_def)
  have "case snd (move_pid (logged_proc (k_proc K)) m pid t k) of (k, log) \<Rightarrow> list_all (allowed r pids b) log"
    if "list_all (allowed r pids b) (snd k)" for t k
  proof (rule lfs.move_pid_keeps)
    show "allowed r pids b (Wrote (push t (if is_v2 m then ''cgroup.procs'' else ''tasks'')) s)"
      if "ownership_of m t \<noteq> Foreign" for s
      using owned_below [OF v2] that v2 control_below(2) within_allowed by auto
  qed (use that in \<open>simp_all add: case_prod_unfold\<close>)
  then show ?thesis
    using assms(2)
    by (auto simp: lx_add_pid_to_cgroup_def cg_add_pid_def get_manager_cached stays_def lx_kernel_def
        logged_kernel_def case_prod_unfold split: option.split)
qed

lemma process_cgroup_stays:
  "stays m r pids b w \<Longrightarrow> stays m r pids b (snd (process_cgroup K L v pid w))"
  by (auto simp: process_cgroup_def resolve_cached_def stays_def lx_kernel_def put_kernel_def case_prod_unfold
      split: option.split sum.split)

lemma cpu_weight_stays:
  assumes "machine_ok K m r b" and "stays m r pids b w"
  shows "stays m r pids b (snd (lx_set_cpu_weight (logged_kernel K) L v pid weight w))"
proof -
  have v2: "is_v2 m" using assms(1) by (simp add: machine_ok_def)
  have "case fst (snd (write_cpu_weight (l_reported L) (logged (proc_fs (k_proc K))) m t weight (k, rep))) of
      (k, log) \<Rightarrow> list_all (allowed r pids b) log"
    if "list_all (allowed r pids b) (snd k)" for t k rep
    by (rule lfs.write_cpu_weight_keeps) (use weight_within [OF v2] within_allowed that in \<open>auto simp: case_prod_unfold\<close>)
  then show ?thesis
    using process_cgroup_stays [OF assms(2), of "logged_kernel K" L v pid]
    by (auto simp: lx_set_cpu_weight_def set_cpu_weight_for_cgroup_def get_manager_cached stays_def lx_kernel_def
        logged_kernel_def case_prod_unfold split: option.split)
qed


lemma linux_performs:
  assumes ok: "machine_ok K m r b" and pid: "pid \<in> set pids" and tids: "list_all (\<lambda>t. t = pid \<or> b pid t) tids"
    and w: "stays m r pids b w"
  shows "stays m r pids b (snd (perform (linux_platform (logged_kernel K) L v) pid tids a w))"
proof -
  have tuned: "\<forall>t \<in> set tids. allowed r pids b (Tuned t)" using threads_tuned [of pid pids b tids] pid tids by blast
  have self: "allowed r pids b (Tuned pid)" "allowed r pids b (Wrote (proc_file pid ''oom_score_adj'') s)" for s
    using pid by (auto simp: list_ex_iff)
  have cpus: "8 dvd get_max_number_of_cpus (k_configured_cpus (logged_kernel K))"
    using ok by (simp add: machine_ok_def logged_kernel_def)
  note kernel = on_kernel_stays [OF _ w]
  show ?thesis
  proof (cases a)
    case (Affinity s)
    then show ?thesis using kernel [OF affinity_keeps [OF tuned cpus]] by (simp add: linux_platform_def)
  next
    case (Io_Priority cls n)
    then show ?thesis using kernel [OF process_attribute_keeps(1) [where permitted = "allowed r pids b", OF _ self(1)]] by (simp add: linux_platform_def)
  next
    case (Oom n)
    then show ?thesis using kernel [OF process_attribute_keeps(2) [where permitted = "allowed r pids b", OF _ self(2)]] by (simp add: linux_platform_def)
  qed (use kernel [OF thread_attribute_keeps(1) [OF tuned]] kernel [OF thread_attribute_keeps(2) [OF tuned]]
      kernel [OF thread_attribute_keeps(3) [OF tuned]] add_pid_stays [OF ok w] cpu_weight_stays [OF ok w] w
      in \<open>simp_all add: linux_platform_def\<close>)
qed

interpretation lnx: platform_frame "linux_platform (logged_kernel K) L v" "\<lambda>pid. pid \<in> set pids"
    "\<lambda>pid t. machine_ok K m r b \<longrightarrow> t = pid \<or> b pid t" "\<lambda>w. machine_ok K m r b \<longrightarrow> stays m r pids b w"
  for K L v pids m r b
proof unfold_locales
  fix pid and w :: "('a \<times> effect list, 'b, 'c, 'd) linux" and tids a
  show "machine_ok K m r b \<longrightarrow> stays m r pids b (snd (get_process_name (linux_platform (logged_kernel K) L v) pid w))"
    if "machine_ok K m r b \<longrightarrow> stays m r pids b w"
    using that by (auto simp: linux_platform_def lx_get_process_name_def stays_def lx_kernel_def split: prod.split)
  show "list_all (\<lambda>t. machine_ok K m r b \<longrightarrow> t = pid \<or> b pid t) tids"
    if "get_tids (linux_platform (logged_kernel K) L v) pid w = Inr tids"
    using that by (auto simp: linux_platform_def logged_tids machine_ok_def list_all_iff)
  show "machine_ok K m r b \<longrightarrow> stays m r pids b (snd (perform (linux_platform (logged_kernel K) L v) pid tids a w))"
    if "pid \<in> set pids" "list_all (\<lambda>t. machine_ok K m r b \<longrightarrow> t = pid \<or> b pid t) tids"
      "machine_ok K m r b \<longrightarrow> stays m r pids b w"
    using linux_performs [of K m r b pid pids tids w L v a] that by auto
qed simp

subsection \<open>What the worker touches\<close>

text \<open>
  C6: On a cgroup v2 machine with a delegated root, a worker on the Linux platform creates and removes nothing, whatever
  processes, rules and configurations reach it: it tunes only processes it received and their threads, and
  writes only their OOM scores, files at or below the delegated root, and \<^verbatim>\<open>cpu.weight\<close>.
\<close>
theorem worker_touches_only_received:
  assumes "machine_ok K m r belongs"
    and "env_platform env = linux_platform (logged_kernel K) L v"
    and "cg_manager (lx_cgroups (w_world st)) = Some m" and "snd (lx_kernel (w_world st)) = []"
  shows "list_all (allowed r (map p_pid (received es)) belongs) (snd (lx_kernel (w_world (work_loop env es st))))"
proof -
  let ?pids = "map p_pid (received es)"
  have "stays m r ?pids belongs (w_world st)" using assms(3,4) by (simp add: stays_def)
  then have "stays m r ?pids belongs (w_world (work_loop env es st))"
    using lnx.work_loop_keeps [OF assms(2), where pids = ?pids and m = m and r = r and b = belongs and es = es and st = st]
      assms(1) by simp
  then show ?thesis by (simp add: stays_def)
qed


text \<open>A kernel that grants every call, with process 7 and its thread 8, and one rule.\<close>

definition sample_kernel :: "(path \<times> string option) list kernel" where
  "sample_kernel =
     \<lparr>k_proc = sample_proc, k_setpriority = \<lambda>t n k. (None, k), k_setattr = \<lambda>t a k. (None, k),
      k_setscheduler = \<lambda>t p n k. (None, k), k_ioprio_set = \<lambda>pid n k. (None, k), k_write_oom = \<lambda>pid n k. (None, k),
      k_getattr = \<lambda>pid k. None,
      k_affinity = \<lparr>os_setaffinity = \<lambda>t m k. (None, k), os_status = \<lambda>t k. None, os_possible = \<lambda>k. None,
        os_cpuinfo = \<lambda>k. None\<rparr>,
      k_configured_cpus = 8, k_clock = \<lambda>k. 0\<rparr>"

definition sample_caches ::
  "((path \<times> unit) list, (int \<times> exe_failure) list, (int \<times> cache_entry) list) caches" where
  "sample_caches = \<lparr>l_reported = list_lru 4, l_exe = list_lru 4, l_resolved = list_lru 4\<rparr>"

definition linux_env ::
  "(string, (string \<times> string option) list,
    ((path \<times> string option) list \<times> effect list, (path \<times> unit) list, (int \<times> exe_failure) list,
     (int \<times> cache_entry) list) linux) worker_env" where
  "linux_env =
     \<lparr>env_lib = sample_lib, env_platform = linux_platform (logged_kernel sample_kernel) sample_caches V2,
      env_aliases = [], env_benchmark = None\<rparr>"

definition linux_start ::
  "(string, (string \<times> string option) list,
    ((path \<times> string option) list \<times> effect list, (path \<times> unit) list, (int \<times> exe_failure) list,
     (int \<times> cache_entry) list) linux) worker" where
  "linux_start =
     \<lparr>w_config = default_snapshot\<lparr>apply_cpu_weight := False, apply_latnice := False\<rparr>,
      w_rules = (new_rules [])\<lparr>programs := [(''doom'', 0)],
        rules := [default_rule\<lparr>nice := Some (Some (- 4)), oom_score_adj := Some (Some 9)\<rparr>]\<rparr>,
      w_table = empty_table, w_processed = 0, w_shutdown = False,
      w_world = \<lparr>lx_cgroups = started service_manager, lx_exe = [], lx_resolved = []\<rparr>, w_log = []\<rparr>"

definition linux_rule :: rule where
  "linux_rule = default_rule\<lparr>nice := Some (Some (- 4)), oom_score_adj := Some (Some 9)\<rparr>"

lemma linux_found: "fst (get_rule sample_lib ''doom'' (w_rules linux_start)) = Some (''doom'', linux_rule)"
  by (simp add: get_rule_def linux_start_def new_rules_def sample_lib_def lru_get_def lru_put_def Let_def
      find_best_match_def resolve_def linux_rule_def)

lemma linux_settings:
  "rule_settings empty_table linux_rule =
     \<lparr>set_nice = Some (- 4), set_latency_nice = Some (- 4), set_ioclass = None, set_ionice = None, set_sched = None,
      set_rtprio = None, set_oom_score_adj = Some 9, set_cgroup = None, set_cpuset = None\<rparr>"
  by (simp add: rule_settings_def linux_rule_def default_rule_def absent_def effective_latency_nice_def as_str_def eval_simps)

lemma linux_tids: "proc_get_tids sample_proc pid k = Inr [7, 8]"
  by (simp add: proc_get_tids_def sample_proc_def parse_i32_def eval_simps)

lemma linux_effects:
  "snd (lx_kernel (w_world (work_loop linux_env
       [Received (with_authoritative_name (new_process 7 ''doom''))] linux_start))) =
     [Wrote (proc_file 7 ''oom_score_adj'') ''9'', Tuned 8, Tuned 7]"
proof -
  let ?pf = "linux_platform (logged_kernel sample_kernel) sample_caches V2"
  have plan: "plan ?pf [] (rule_settings empty_table linux_rule) (w_config linux_start) rt bug = [Priority (- 4), Oom 9]" for rt bug
    by (simp add: plan_def plan_nice_def plan_if_def linux_settings linux_start_def default_snapshot_def)
  have nine: "show_int 9 = ''9''" by code_simp
  let ?p = "with_authoritative_name (new_process 7 ''doom'')"
  have run: "snd (lx_kernel (snd (run ?pf 7 [7, 8] [Priority (- 4), Oom 9] (w_world linux_start)))) =
      [Wrote (proc_file 7 ''oom_score_adj'') ''9'', Tuned 8, Tuned 7]"
    by (simp add: linux_platform_def on_kernel_def lx_kernel_def put_kernel_def set_priority_threads_def logged_kernel_def
        sample_kernel_def touching_def set_oom_score_adjust_def linux_start_def started_def nine)
  have table: "w_table linux_start = empty_table" by (simp add: linux_start_def)
  obtain rs where found: "get_rule sample_lib ''doom'' (w_rules linux_start) = (Some (''doom'', linux_rule), rs)"
    using linux_found by (metis prod.collapse)
  have name: "full_name ?pf ?p w = (?p, w)" "unwrap_name ''doom'' = ''doom''" for w
    by (simp_all add: full_name_def with_authoritative_name_def unwrap_name_def starts_with_def)
  have tids: "threads_of ?pf w 7 = ([7, 8], False)" for w
    by (simp add: threads_of_def linux_platform_def logged_tids sample_kernel_def linux_tids)
  show ?thesis
    using run found table by (simp add: linux_env_def work_step_def count_process_def handle_process_def
        apply_rule_performs name tids plan Let_def split_beta)
qed

theorem worker_touches_only_received_witness:
  "list_all (allowed (path_of ''/cg/a.service'') [7] (\<lambda>pid t. t = 8 \<or> t = 7))
     [Wrote (proc_file 7 ''oom_score_adj'') ''9'', Tuned 8, Tuned 7]"
proof -
  have "machine_ok sample_kernel service_manager (path_of ''/cg/a.service'') (\<lambda>pid t. t = 8 \<or> t = 7)"
    by (simp add: machine_ok_def sample_kernel_def linux_tids is_v2_def service_manager_def get_max_number_of_cpus_def)
  then show ?thesis
    using worker_touches_only_received [of sample_kernel service_manager "path_of ''/cg/a.service''"
        "\<lambda>pid t. t = 8 \<or> t = 7" linux_env sample_caches V2 linux_start
        "[Received (with_authoritative_name (new_process 7 ''doom''))]"]
    unfolding linux_effects
    by (simp add: linux_env_def linux_start_def started_def lx_kernel_def new_process_def with_authoritative_name_def)
qed

end
