(* ===== verification/Netlink.thy ===== *)
theory Netlink
  imports Procfs
begin

unbundle bit_operations_syntax

text \<open>
  \<^verbatim>\<open>crates/ananicy-platform/src/netlink.rs\<close>: the process connector as an event source. The filter
  remembers the identity each process was last reported under; the listener is a step relation
  over the answers of the socket, with the waits, the drains and the three ways it ends. The
  theorems say that the worker's last report of a process always carries its latest
  identity, and what happens when the wait cannot grow the vector it is given.
\<close>

subsection \<open>Receive errors\<close>

datatype recv_failure = BufferOverrun | Drained | Fatal

datatype socket_error = Sock_Io "int option" | Sock_Other string

definition enobufs :: int where "enobufs = 105"
definition eagain :: int where "eagain = 11"

fun errno_of :: "socket_error \<Rightarrow> int option" where
  "errno_of (Sock_Io raw) = raw"
| "errno_of (Sock_Other msg) = None"

definition classify_recv_error :: "socket_error \<Rightarrow> recv_failure" where
  "classify_recv_error e =
     (if errno_of e = Some enobufs then BufferOverrun
      else if errno_of e = Some eagain then Drained
      else Fatal)"

text \<open>\<^verbatim>\<open>to_io_error\<close>: the error number of the error handed to the caller.\<close>

definition to_io_error :: "socket_error \<Rightarrow> int option" where
  "to_io_error e = errno_of e"

subsection \<open>The filter\<close>

record identity =
  id_len :: u32
  id_digest :: u64

definition fnv_offset :: u64 where "fnv_offset = 0xcbf29ce484222325"
definition fnv_prime :: u64 where "fnv_prime = 0x100000001b3"

definition fnv_step :: "char \<Rightarrow> u64 \<Rightarrow> u64" where
  "fnv_step c d = (d XOR of_nat (of_char c)) * fnv_prime"

definition identity_of :: "string \<Rightarrow> identity" where
  "identity_of name = \<lparr>id_len = of_nat (length name), id_digest = fold fnv_step name fnv_offset\<rparr>"

definition should_report :: "(int, identity, 'c) lru_ops \<Rightarrow> int \<Rightarrow> string \<Rightarrow> 'c \<Rightarrow> bool \<times> 'c" where
  "should_report L pid name c =
     (case cache_get L pid c of
        (previous, c1) \<Rightarrow>
          if previous = Some (identity_of name) then (False, c1)
          else (True, cache_put L pid (identity_of name) c1))"

subsection \<open>Opening and closing\<close>

text \<open>
  What the neli crate answers when the socket is opened: an error of the connection, of the two builders or of the
  send. That the receive buffer could not be enlarged is only logged. The other answer is the messages the kernel was sent.
\<close>

datatype mcast_op = Listen | Ignore

record nl_socket =
  so_connect :: "string option"
  so_rcvbuf :: "string option"
  so_cn_msg :: "string option"
  so_header :: "string option"
  so_send :: "string option"

definition new_netlink :: "nl_socket \<Rightarrow> (string + unit) \<times> mcast_op list" where
  "new_netlink so =
     (case so_connect so of
        Some e \<Rightarrow> (Inl (''Netlink connect error: '' @ e), [])
      | None \<Rightarrow>
          (case so_cn_msg so of
             Some e \<Rightarrow> (Inl (''CnMsg error: '' @ e), [])
           | None \<Rightarrow>
               (case so_header so of
                  Some e \<Rightarrow> (Inl (''Nlmsghdr error: '' @ e), [])
                | None \<Rightarrow>
                    (case so_send so of
                       Some e \<Rightarrow> (Inl (''Netlink send error: '' @ e), [])
                     | None \<Rightarrow> (Inr (), [Listen])))))"

text \<open>\<^verbatim>\<open>Drop\<close>: the subscription is taken back, if the message can be built; whether it could be sent is ignored.\<close>

definition drop_netlink :: "bool \<Rightarrow> bool \<Rightarrow> mcast_op list" where
  "drop_netlink built delivered = (if built \<and> delivered then [Ignore] else [])"

text \<open>The calls before the loop, each of which may answer an error number that ends \<^verbatim>\<open>listen\<close>.\<close>

fun listen_setup :: "int option list \<Rightarrow> int + unit" where
  "listen_setup [] = Inr ()"
| "listen_setup (Some e # calls) = Inl e"
| "listen_setup (None # calls) = listen_setup calls"

text \<open>A monitor exists exactly when the kernel was asked for events, and no failed start leaves a subscription behind.\<close>

lemma started_iff_subscribed: "fst (new_netlink so) = Inr () \<longleftrightarrow> snd (new_netlink so) = [Listen]"
  by (simp add: new_netlink_def split: option.split)

subsection \<open>The listener\<close>

datatype proc_event = Exec int | Comm int | Fork int | Exit | Other

datatype nl_message = Bad_Message | No_Payload | Event proc_event

text \<open>The messages of one receive, each with the world at the moment it is handled.\<close>

datatype 'k recv_answer = Messages "(nl_message \<times> 'k) list" | Recv_Failed socket_error

datatype phase = Waiting | Draining | Listener_Ok | Listener_Err "int option"

text \<open>
  The state of \<^verbatim>\<open>listen\<close>: where it is, the channel and the shutdown flag, the filter, the cache of
  the name look-up, the length of \<^verbatim>\<open>event_list\<close>, and the processes it has looked at so far, which
  the code does not keep.
\<close>

record ('c, 'e) listener =
  nl_phase :: phase
  nl_channel :: monitor
  nl_reported :: 'c
  nl_exe :: 'e
  nl_list :: nat
  nl_seen :: "(int \<times> string) list"

record ('k, 'c, 'e) nl_env =
  nl_lru :: "(int, identity, 'c) lru_ops"
  nl_lookup :: "int \<Rightarrow> 'k \<Rightarrow> 'e \<Rightarrow> string \<times> 'e"

fun event_pid :: "nl_message \<Rightarrow> int option" where
  "event_pid (Event (Exec pid)) = Some pid"
| "event_pid (Event (Comm pid)) = Some pid"
| "event_pid (Event (Fork child)) = Some child"
| "event_pid m = None"

definition handle_pid ::
  "('k, 'c, 'e) nl_env \<Rightarrow> int \<Rightarrow> 'k \<Rightarrow> ('c, 'e) listener \<Rightarrow> ('c, 'e) listener" where
  "handle_pid env pid k st =
     (case nl_lookup env pid k (nl_exe st) of
        (name, exe) \<Rightarrow>
          (case should_report (nl_lru env) pid name (nl_reported st) of
             (report, c) \<Rightarrow>
               let st1 = st\<lparr>nl_reported := c, nl_exe := exe, nl_seen := nl_seen st @ [(pid, name)]\<rparr>;
                   ch = nl_channel st
               in if \<not> report then st1
                  else if ch_open ch
                  then st1\<lparr>nl_channel := ch\<lparr>sent := sent ch @ [with_authoritative_name (new_process pid name)]\<rparr>\<rparr>
                  else st1\<lparr>nl_channel := ch\<lparr>shutdown_flag := True\<rparr>, nl_phase := Listener_Ok\<rparr>))"

fun handle_messages ::
  "('k, 'c, 'e) nl_env \<Rightarrow> (nl_message \<times> 'k) list \<Rightarrow> ('c, 'e) listener \<Rightarrow> ('c, 'e) listener" where
  "handle_messages env [] st = st"
| "handle_messages env ((m, k) # ms) st =
     (case event_pid m of
        None \<Rightarrow> handle_messages env ms st
      | Some pid \<Rightarrow>
          if pid = 0 then handle_messages env ms st
          else
            (let st1 = handle_pid env pid k st in
             if nl_phase st1 = Listener_Ok then st1 else handle_messages env ms st1))"

definition handle_recv ::
  "('k, 'c, 'e) nl_env \<Rightarrow> 'k recv_answer \<Rightarrow> ('c, 'e) listener \<Rightarrow> ('c, 'e) listener" where
  "handle_recv env answer st =
     (case answer of
        Messages ms \<Rightarrow> handle_messages env ms st
      | Recv_Failed e \<Rightarrow>
          (case classify_recv_error e of
             Drained \<Rightarrow> st\<lparr>nl_phase := Waiting\<rparr>
           | _ \<Rightarrow> st\<lparr>nl_phase := Listener_Err (to_io_error e)\<rparr>))"

text \<open>
  One step of the daemon around the listener. \<open>fills n n'\<close> says to which length a wait may
  leave a vector of length \<open>n\<close> that it is handed. A wait that was interrupted or failed leaves
  it alone. The last two rules are the rest of the daemon: the flag is raised, the worker goes away.
\<close>

inductive nl_step ::
  "('k, 'c, 'e) nl_env \<Rightarrow> (nat \<Rightarrow> nat \<Rightarrow> bool) \<Rightarrow> ('c, 'e) listener \<Rightarrow> ('c, 'e) listener \<Rightarrow> bool"
  for env fills where
  stop: "nl_phase st = Waiting \<Longrightarrow> shutdown_flag (nl_channel st) \<Longrightarrow> nl_step env fills st (st\<lparr>nl_phase := Listener_Ok\<rparr>)"
| waited: "nl_phase st = Waiting \<Longrightarrow> \<not> shutdown_flag (nl_channel st) \<Longrightarrow> fills (nl_list st) n \<Longrightarrow>
    nl_step env fills st (st\<lparr>nl_list := n, nl_phase := (if n = 0 then Waiting else Draining)\<rparr>)"
| wait_failed: "nl_phase st = Waiting \<Longrightarrow> \<not> shutdown_flag (nl_channel st) \<Longrightarrow> nl_step env fills st st"
| received: "nl_phase st = Draining \<Longrightarrow> nl_step env fills st (handle_recv env answer st)"
| raised: "nl_step env fills st (st\<lparr>nl_channel := (nl_channel st)\<lparr>shutdown_flag := True\<rparr>\<rparr>)"
| gone: "nl_step env fills st (st\<lparr>nl_channel := (nl_channel st)\<lparr>ch_open := False\<rparr>\<rparr>)"

definition listen_start :: "('k, 'c, 'e) nl_env \<Rightarrow> 'e \<Rightarrow> ('c, 'e) listener" where
  "listen_start env exe =
     \<lparr>nl_phase = Waiting, nl_channel = \<lparr>sent = [], ch_open = True, shutdown_flag = False\<rparr>,
      nl_reported = cache_new (nl_lru env), nl_exe = exe, nl_list = 0, nl_seen = []\<rparr>"

subsection \<open>The last report carries the latest identity\<close>

definition last_of :: "int \<Rightarrow> (int \<times> string) list \<Rightarrow> identity option" where
  "last_of pid xs = map_option identity_of (map_of (rev xs) pid)"

definition reported_as :: "('c, 'e) listener \<Rightarrow> (int \<times> string) list" where
  "reported_as st = map (\<lambda>p. (p_pid p, p_name p)) (sent (nl_channel st))"

text \<open>The invariant while it runs: the filter remembers only what was reported last, and nothing newer was seen.\<close>

definition in_step :: "('k, 'c, 'e) nl_env \<Rightarrow> ('c, 'e) listener \<Rightarrow> bool" where
  "in_step env st \<longleftrightarrow>
     (\<forall>pid i. cache_peek (nl_lru env) pid (nl_reported st) = Some i \<longrightarrow> last_of pid (reported_as st) = Some i) \<and>
     (\<forall>pid. last_of pid (nl_seen st) = last_of pid (reported_as st)) \<and>
     (\<forall>p \<in> set (sent (nl_channel st)). p_pid p \<noteq> 0 \<and> p_authoritative p)"

definition running :: "('c, 'e) listener \<Rightarrow> bool" where
  "running st \<longleftrightarrow> nl_phase st = Waiting \<or> nl_phase st = Draining"

lemma last_of_snoc: "last_of pid (xs @ [(q, name)]) = (if pid = q then Some (identity_of name) else last_of pid xs)"
  by (simp add: last_of_def)

lemma should_report_cases:
  assumes "lru_laws L" and "should_report L pid name c = (report, c')"
  shows "(\<not> report \<and> cache_peek L pid c = Some (identity_of name) \<and> (\<forall>j. cache_peek L j c' = cache_peek L j c)) \<or>
    (report \<and> cache_peek L pid c' = Some (identity_of name) \<and>
      (\<forall>j i. j \<noteq> pid \<longrightarrow> cache_peek L j c' = Some i \<longrightarrow> cache_peek L j c = Some i))"
proof -
  note laws = lru_lawsD [OF assms(1)]
  obtain previous c1 where g: "cache_get L pid c = (previous, c1)" by fastforce
  have prev: "previous = cache_peek L pid c" and c1: "cache_peek L j c1 = cache_peek L j c" for j
    using laws(2) [of pid c] laws(3) [of j pid c] g by simp_all
  show ?thesis
  proof (cases "previous = Some (identity_of name)")
    case True
    then show ?thesis using assms(2) g prev c1 by (simp add: should_report_def)
  next
    case False
    then have "report" "c' = cache_put L pid (identity_of name) c1" using assms(2) g by (simp_all add: should_report_def)
    then show ?thesis using laws(4) laws(5) [of _ pid "identity_of name" c1] c1 by simp
  qed
qed

lemma handle_pid_in_step:
  assumes laws: "lru_laws (nl_lru env)" and ok: "in_step env st" and "pid \<noteq> 0"
    and alive: "nl_phase (handle_pid env pid k st) \<noteq> Listener_Ok"
  shows "in_step env (handle_pid env pid k st)"
proof -
  obtain name exe where name: "nl_lookup env pid k (nl_exe st) = (name, exe)" by fastforce
  obtain report c where rep: "should_report (nl_lru env) pid name (nl_reported st) = (report, c)" by fastforce
  note filtered = should_report_cases [OF laws rep]
  show ?thesis
  proof (cases report)
    case False
    then show ?thesis
      using filtered ok by (simp add: in_step_def handle_pid_def name rep reported_as_def last_of_snoc Let_def)
  next
    case True
    then have "ch_open (nl_channel st)"
      using alive by (auto simp: handle_pid_def name rep Let_def split: if_splits)
    then show ?thesis
      using filtered ok True \<open>pid \<noteq> 0\<close>
      by (auto simp: in_step_def handle_pid_def name rep reported_as_def last_of_snoc Let_def)
  qed
qed

lemma handle_messages_in_step:
  assumes "lru_laws (nl_lru env)" and "in_step env st" and "nl_phase (handle_messages env ms st) \<noteq> Listener_Ok"
  shows "in_step env (handle_messages env ms st)"
  using assms
proof (induction env ms st rule: handle_messages.induct)
  case (2 env m k ms st)
  show ?case
  proof (cases "event_pid m")
    case (Some pid)
    have "in_step env (handle_pid env pid k st)"
      if "pid \<noteq> 0" "nl_phase (handle_pid env pid k st) \<noteq> Listener_Ok"
      using handle_pid_in_step [OF "2.prems"(1,2) that] .
    with "2" Some show ?thesis by (auto simp: Let_def split: if_splits)
  qed (use "2" in simp)
qed simp

lemma in_step_phase [simp]: "in_step env (st\<lparr>nl_phase := ph\<rparr>) = in_step env st"
  by (simp add: in_step_def reported_as_def)

lemma in_step_list [simp]: "in_step env (st\<lparr>nl_list := n\<rparr>) = in_step env st"
  by (simp add: in_step_def reported_as_def)

lemma handle_recv_in_step:
  assumes "lru_laws (nl_lru env)" and "in_step env st" and "nl_phase (handle_recv env answer st) \<noteq> Listener_Ok"
  shows "in_step env (handle_recv env answer st)"
  using assms handle_messages_in_step [OF assms(1,2)]
  by (auto simp: handle_recv_def split: recv_answer.splits recv_failure.splits)

lemma nl_step_in_step:
  assumes "lru_laws (nl_lru env)" and "nl_step env fills st st'"
    and "nl_phase st \<noteq> Listener_Ok \<longrightarrow> in_step env st"
  shows "nl_phase st' \<noteq> Listener_Ok \<longrightarrow> in_step env st'"
  using assms(2,3)
proof (cases rule: nl_step.cases)
  case (received answer)
  then show ?thesis using assms(3) handle_recv_in_step [OF assms(1)] by simp
qed (use assms(3) in \<open>auto simp: in_step_def reported_as_def\<close>)

lemma nl_run_in_step:
  assumes "lru_laws (nl_lru env)" and "(nl_step env fills)\<^sup>*\<^sup>* (listen_start env exe) st"
  shows "nl_phase st \<noteq> Listener_Ok \<longrightarrow> in_step env st"
  using assms(2)
proof (induction rule: rtranclp_induct)
  case base
  show ?case using lru_lawsD(1) [OF assms(1)] by (simp add: in_step_def listen_start_def reported_as_def last_of_def)
next
  case (step st st')
  from nl_step_in_step [OF assms(1) step.hyps(2) step.IH] show ?case .
qed

text \<open>
  C28: Whatever the socket delivers and whatever the bounded filter forgets, as long as the listener has not
  been stopped the last process it reported under a number has the identity that number was last seen
  with: no change of program is lost, and only real, fully named processes are reported.
\<close>
theorem last_report_is_latest_identity:
  assumes "lru_laws (nl_lru env)" and "(nl_step env fills)\<^sup>*\<^sup>* (listen_start env exe) st"
    and "nl_phase st \<noteq> Listener_Ok"
  shows "last_of pid (reported_as st) = last_of pid (nl_seen st) \<and>
    (\<forall>p \<in> set (sent (nl_channel st)). p_pid p \<noteq> 0 \<and> p_authoritative p)"
  using nl_run_in_step [OF assms(1,2)] assms(3) unfolding in_step_def by metis

text \<open>A shell that starts a command: the fork is seen under the name of the shell, the exec under its own.\<close>

definition nl_sample :: "(string, (int \<times> identity) list, unit) nl_env" where
  "nl_sample = \<lparr>nl_lru = list_lru 8192, nl_lookup = \<lambda>pid name exe. (name, exe)\<rparr>"

definition ready :: "((int \<times> identity) list, unit) listener" where
  "ready = (listen_start nl_sample ())\<lparr>nl_list := 1, nl_phase := Draining\<rparr>"

definition after_spawn :: "((int \<times> identity) list, unit) listener" where
  "after_spawn = handle_recv nl_sample (Messages [(Event (Fork 7), ''sh''), (Event (Exec 7), ''sleep'')]) ready"

lemma after_spawn_reached: "(nl_step nl_sample (\<lambda>n n'. True))\<^sup>*\<^sup>* (listen_start nl_sample ()) after_spawn"
proof -
  have "nl_step nl_sample (\<lambda>n n'. True) (listen_start nl_sample ()) ready"
    using nl_step.waited [of "listen_start nl_sample ()" "\<lambda>n n'. True" 1 nl_sample]
    by (simp add: ready_def listen_start_def)
  moreover have "nl_step nl_sample (\<lambda>n n'. True) ready after_spawn"
    unfolding after_spawn_def by (rule nl_step.received) (simp add: ready_def)
  ultimately show ?thesis by (meson converse_rtranclp_into_rtranclp rtranclp.rtrancl_refl)
qed

lemma after_spawn_state:
  "nl_phase after_spawn = Draining" "reported_as after_spawn = [(7, ''sh''), (7, ''sleep'')]"
  "nl_seen after_spawn = [(7, ''sh''), (7, ''sleep'')]"
  by (simp_all add: after_spawn_def ready_def listen_start_def nl_sample_def handle_recv_def handle_pid_def
      should_report_def reported_as_def identity_of_def Let_def)

theorem last_report_is_latest_identity_witness:
  "reported_as after_spawn = [(7, ''sh''), (7, ''sleep'')] \<and>
   last_of 7 (reported_as after_spawn) = last_of 7 (nl_seen after_spawn)"
proof -
  have "lru_laws (nl_lru nl_sample)" by (simp add: nl_sample_def list_lru_laws)
  then show ?thesis
    using last_report_is_latest_identity [OF _ after_spawn_reached] after_spawn_state by simp
qed

subsection \<open>The vector handed to the wait\<close>

lemma never_draining:
  assumes "\<And>n n'. fills n n' \<Longrightarrow> n' = n" and "(nl_step env fills)\<^sup>*\<^sup>* (listen_start env exe) st"
  shows "nl_list st = 0 \<and> nl_phase st \<noteq> Draining \<and> sent (nl_channel st) = []"
  using assms(2)
proof (induction rule: rtranclp_induct)
  case base
  show ?case by (simp add: listen_start_def)
next
  case (step st st')
  from step.hyps(2) step.IH show ?case by (cases rule: nl_step.cases) (use assms(1) in auto)
qed

text \<open>
  The wait is handed an empty vector by exclusive reference. If the library takes such a vector as a buffer
  of its present elements, and so never changes its length, the listener never receives anything: no
  process is ever reported through the connector.
\<close>
theorem empty_vector_never_reports:
  assumes "\<And>n n'. fills n n' \<Longrightarrow> n' = n" and "(nl_step env fills)\<^sup>*\<^sup>* (listen_start env exe) st"
  shows "sent (nl_channel st) = [] \<and> nl_phase st \<noteq> Draining"
  using never_draining [OF assms] by simp

theorem empty_vector_never_reports_witness:
  "sent (nl_channel ((listen_start nl_sample ())\<lparr>nl_list := 0\<rparr>)) = []"
proof -
  have "nl_step nl_sample (\<lambda>n n'. n' = n) (listen_start nl_sample ()) ((listen_start nl_sample ())\<lparr>nl_list := 0\<rparr>)"
    using nl_step.waited [of "listen_start nl_sample ()" "\<lambda>n n'. n' = n" 0 nl_sample]
    by (simp add: listen_start_def)
  then show ?thesis
    using empty_vector_never_reports [of "\<lambda>n n'. n' = n" nl_sample "()"] by (meson r_into_rtranclp)
qed

end
