(* ===== verification/Topology.thy ===== *)
theory Topology
  imports Cpu_Set Rust_Text Worker_Plan
begin

text \<open>
  \<^verbatim>\<open>crates/ananicy-platform/src/topology.rs\<close>, the CCD split of \<^verbatim>\<open>x3d.rs\<close> and \<^verbatim>\<open>load_topology_aliases\<close> of
  \<^verbatim>\<open>src/src/startup.rs\<close>: the classes of CPUs of the machine and the names rules may use for them. What is
  read of \<^verbatim>\<open>/sys\<close> is a record. The theorems say that the tiers split the measured CPUs by capacity,
  and that a name is either skipped or stands for a set of CPUs the machine has.
\<close>

subsection \<open>What is read\<close>

text \<open>
  One directory below \<^verbatim>\<open>devices/system/cpu\<close>: its name as \<^verbatim>\<open>to_string_lossy\<close> gives it, its files by
  path, and the names in it. The driver flag is whether \<^verbatim>\<open>get_x3d_mode_path_in_sysfs\<close> finds a file.
\<close>

record cpu_dir =
  dir_name :: string
  dir_read :: "string \<Rightarrow> string option"
  dir_entries :: "string list option"

record sysfs =
  smt_active :: "string option"
  cpu_dirs :: "cpu_dir list option"
  x3d_driver :: bool
  cpuinfo_text :: "string option"

subsection \<open>Sets and groups of CPUs\<close>

text \<open>
  A \<^verbatim>\<open>BTreeSet<u32>\<close> is a sorted list, a \<^verbatim>\<open>BTreeMap\<close> of them a list sorted by key. The \<^verbatim>\<open>HashMap\<close>s of
  the code are kept the same way: their order reaches no result but the order of \<^verbatim>\<open>nodes\<close> and \<^verbatim>\<open>llcs\<close>.
\<close>

definition bt_insert :: "nat \<Rightarrow> nat list \<Rightarrow> nat list" where
  "bt_insert c cs = (if c \<in> set cs then cs else insort c cs)"

fun group_add :: "'k::linorder \<Rightarrow> nat \<Rightarrow> ('k \<times> nat list) list \<Rightarrow> ('k \<times> nat list) list" where
  "group_add k c [] = [(k, [c])]"
| "group_add k c ((j, cs) # gs) =
     (if k < j then (k, [c]) # (j, cs) # gs
      else if k = j then (j, bt_insert c cs) # gs
      else (j, cs) # group_add k c gs)"

text \<open>\<^verbatim>\<open>extend\<close> with the CPUs of several groups.\<close>

definition cores_of :: "('k \<times> nat list) list \<Rightarrow> nat list" where
  "cores_of gs = fold (\<lambda>g acc. fold bt_insert (snd g) acc) gs []"

definition show_span :: "nat \<Rightarrow> nat \<Rightarrow> string" where
  "show_span start prev = (if start = prev then show_nat start else show_nat start @ ''-'' @ show_nat prev)"

fun format_loop :: "string \<Rightarrow> nat \<Rightarrow> nat \<Rightarrow> nat list \<Rightarrow> string" where
  "format_loop result start prev [] = result @ show_span start prev"
| "format_loop result start prev (cpu # cpus) =
     (if cpu = prev + 1 then format_loop result start cpu cpus
      else format_loop (result @ show_span start prev @ '','') cpu cpu cpus)"

definition format_cpuset :: "nat list \<Rightarrow> string" where
  "format_cpuset set_of = (case sort set_of of [] \<Rightarrow> [] | c # cs \<Rightarrow> format_loop [] c c cs)"

subsection \<open>Reading one CPU\<close>

definition detect_smt :: "sysfs \<Rightarrow> bool" where
  "detect_smt sys = (case smt_active sys of Some s \<Rightarrow> trim s = ''1'' | None \<Rightarrow> False)"

definition node_entry :: "string \<Rightarrow> int option" where
  "node_entry name = (if starts_with name ''node'' \<and> 4 < length name then parse_i32 (drop 4 name) else None)"

definition get_node_id :: "cpu_dir \<Rightarrow> int" where
  "get_node_id d =
     (case dir_entries d of
        None \<Rightarrow> 0
      | Some names \<Rightarrow> (case List.map_filter node_entry names of [] \<Rightarrow> 0 | i # _ \<Rightarrow> i))"

definition llc_key :: "cpu_dir \<Rightarrow> string \<Rightarrow> string option" where
  "llc_key d level =
     (case dir_read d (''cache/index'' @ level @ ''/shared_cpu_list'') of
        None \<Rightarrow> None
      | Some s \<Rightarrow> if trim s = [] then None else Some (trim s))"

definition get_llc_id :: "cpu_dir \<Rightarrow> (string \<times> nat) list \<Rightarrow> nat \<times> (string \<times> nat) list" where
  "get_llc_id d llc_map =
     (case List.map_filter (llc_key d) [''3'', ''2''] of
        [] \<Rightarrow> (0, llc_map)
      | key # _ \<Rightarrow>
          (case map_of llc_map key of
             Some i \<Rightarrow> (i, llc_map)
           | None \<Rightarrow> (length llc_map, (key, length llc_map) # llc_map)))"

definition size_unit :: "string \<Rightarrow> string \<times> nat" where
  "size_unit s =
     (if s = [] then (s, 1)
      else if last s \<in> set ''Kk'' then (butlast s, 1024)
      else if last s \<in> set ''Mm'' then (butlast s, 1024 * 1024)
      else if last s \<in> set ''Gg'' then (butlast s, 1024 * 1024 * 1024)
      else (s, 1))"

definition parse_size_string :: "string \<Rightarrow> nat" where
  "parse_size_string str =
     (case size_unit (trim str) of
        (digits, multiplier) \<Rightarrow>
          saturating_mul (case parse_u64 digits of Some n \<Rightarrow> n | None \<Rightarrow> 0) multiplier)"

definition is_online :: "nat \<times> cpu_dir \<Rightarrow> bool" where
  "is_online cpu =
     (if fst cpu = 0 then True
      else (case dir_read (snd cpu) ''online'' of Some s \<Rightarrow> trim s = ''1'' | None \<Rightarrow> True))"

subsection \<open>The walk over the CPUs\<close>

record cpu_walk =
  all_cores :: "nat list"
  bases :: "(nat \<times> cpu_dir) list"
  llc_map :: "(string \<times> nat) list"
  llc_groups :: "(nat \<times> nat list) list"
  node_groups :: "(int \<times> nat list) list"
  llc_l3_size :: "(nat \<times> nat) list"

definition listed_cpus :: "cpu_dir list \<Rightarrow> (nat \<times> cpu_dir) list" where
  "listed_cpus dirs =
     sort_key fst (List.map_filter
       (\<lambda>d. map_option (\<lambda>i. (i, d)) (Option.bind (strip_prefix ''cpu'' (dir_name d)) parse_u32)) dirs)"

definition walk_cpu :: "nat \<times> cpu_dir \<Rightarrow> cpu_walk \<Rightarrow> cpu_walk" where
  "walk_cpu cpu w =
     (if \<not> is_online cpu then w
      else
        (case cpu of (cpu_id, base) \<Rightarrow>
           (case get_llc_id base (llc_map w) of
              (llc_id, m) \<Rightarrow>
                w\<lparr>all_cores := bt_insert cpu_id (all_cores w),
                  bases := map_put cpu_id base (bases w),
                  llc_map := m,
                  llc_groups := group_add llc_id cpu_id (llc_groups w),
                  node_groups := group_add (get_node_id base) cpu_id (node_groups w),
                  llc_l3_size :=
                    (case dir_read base ''cache/index3/size'' of
                       Some s \<Rightarrow> map_put llc_id (parse_size_string s) (llc_l3_size w)
                     | None \<Rightarrow> llc_l3_size w)\<rparr>)))"

definition no_walk :: cpu_walk where
  "no_walk =
     \<lparr>all_cores = [], bases = [], llc_map = [], llc_groups = [], node_groups = [], llc_l3_size = []\<rparr>"

definition walk_cpus :: "sysfs \<Rightarrow> cpu_walk" where
  "walk_cpus sys = (case cpu_dirs sys of None \<Rightarrow> no_walk | Some dirs \<Rightarrow> fold walk_cpu (listed_cpus dirs) no_walk)"

subsection \<open>Capacities\<close>

definition capacity_sources :: "string list" where
  "capacity_sources =
     [''cpufreq/amd_pstate_prefcore_ranking'', ''cpufreq/amd_pstate_highest_perf'', ''acpi_cppc/highest_perf'',
      ''cpu_capacity'', ''cpufreq/cpuinfo_max_freq'']"

definition read_capacity :: "(nat \<times> cpu_dir) list \<Rightarrow> string \<Rightarrow> nat \<Rightarrow> nat option" where
  "read_capacity bs source cpu_id =
     Option.bind (map_of bs cpu_id) (\<lambda>base.
       Option.bind (dir_read base source) (\<lambda>raw.
         Option.bind (parse_u64 (trim raw)) (\<lambda>v. if 0 < v then Some v else None)))"

fun pick_from :: "(nat \<times> cpu_dir) list \<Rightarrow> nat list \<Rightarrow> nat \<Rightarrow> string list \<Rightarrow> string option \<Rightarrow> string option" where
  "pick_from bs cpus first [] chosen = chosen"
| "pick_from bs cpus first (source # sources) chosen =
     (case read_capacity bs source first of
        None \<Rightarrow> pick_from bs cpus first sources chosen
      | Some reference \<Rightarrow>
          if list_ex (\<lambda>c. case read_capacity bs source c of Some v \<Rightarrow> v \<noteq> reference | None \<Rightarrow> False) cpus
          then Some source
          else pick_from bs cpus first sources (Some source))"

definition pick_capacity_source :: "(nat \<times> cpu_dir) list \<Rightarrow> nat list \<Rightarrow> string" where
  "pick_capacity_source bs cpus =
     (case cpus of
        [] \<Rightarrow> last capacity_sources
      | first # _ \<Rightarrow>
          (case pick_from bs cpus first capacity_sources None of
             Some source \<Rightarrow> source
           | None \<Rightarrow> last capacity_sources))"

definition metric_to_cores :: "cpu_walk \<Rightarrow> (nat \<times> nat list) list" where
  "metric_to_cores w =
     (let source = pick_capacity_source (bases w) (all_cores w) in
      fold (\<lambda>c gs. case read_capacity (bases w) source c of Some v \<Rightarrow> group_add v c gs | None \<Rightarrow> gs) (all_cores w) [])"


subsection \<open>Detection\<close>

record node_info =
  node_id :: int
  node_cpus :: "nat list"
  node_cpuset :: string

record llc_info =
  llc_id :: nat
  llc_cpus :: "nat list"
  llc_cpuset :: string
  l3_size :: nat

record cpu_topology =
  has_big_little :: bool
  big_cores_str :: string
  little_cores_str :: string
  turbo_cores_str :: string
  all_cores_str :: string
  cpu_count :: nat
  smt_enabled :: bool
  nodes :: "node_info list"
  llcs :: "llc_info list"
  biggest_llc_cores_str :: string

definition no_topology :: "bool \<Rightarrow> cpu_topology" where
  "no_topology smt =
     \<lparr>has_big_little = False, big_cores_str = [], little_cores_str = [], turbo_cores_str = [], all_cores_str = [],
      cpu_count = 0, smt_enabled = smt, nodes = [], llcs = [], biggest_llc_cores_str = []\<rparr>"

definition llcs_of :: "cpu_walk \<Rightarrow> llc_info list" where
  "llcs_of w =
     map (\<lambda>(i, cs). \<lparr>llc_id = i, llc_cpus = cs, llc_cpuset = format_cpuset cs,
            l3_size = (case map_of (llc_l3_size w) i of Some n \<Rightarrow> n | None \<Rightarrow> 0)\<rparr>) (llc_groups w)"

definition biggest_llc_cores :: "llc_info list \<Rightarrow> nat list" where
  "biggest_llc_cores ls =
     (let max_l3 = fold max (map l3_size ls) 0 in
      if 0 < max_l3
      then fold (\<lambda>l acc. fold bt_insert (llc_cpus l) acc) (filter (\<lambda>l. l3_size l = max_l3) ls) []
      else [])"

definition mark_homogeneous :: "cpu_topology \<Rightarrow> cpu_topology" where
  "mark_homogeneous tp =
     tp\<lparr>has_big_little := False, big_cores_str := all_cores_str tp, little_cores_str := [], turbo_cores_str := []\<rparr>"

text \<open>
  The comparisons of the code are in \<^verbatim>\<open>f64\<close>. Both are exact for capacities below \<open>2 ^ 40\<close> and fewer than
  \<open>2 ^ 12\<close> CPUs: \<open>1.3 * n\<close> is at least \<open>1/10\<close> away from an integer or rounds to it, and the mean is at least \<open>1 / count\<close> away.
\<close>

definition nearly_equal :: "nat \<Rightarrow> nat \<Rightarrow> bool" where
  "nearly_equal lowest highest \<longleftrightarrow> highest * 10 < lowest * 13"

definition below_mean :: "(nat \<times> nat list) list \<Rightarrow> nat \<Rightarrow> bool" where
  "below_mean ms metric \<longleftrightarrow>
     metric * sum_list (map (\<lambda>g. length (snd g)) ms) < sum_list (map (\<lambda>g. fst g * length (snd g)) ms)"

definition little_of :: "(nat \<times> nat list) list \<Rightarrow> nat list" where
  "little_of ms = cores_of (filter (\<lambda>g. below_mean ms (fst g)) ms)"

definition big_of :: "(nat \<times> nat list) list \<Rightarrow> nat list" where
  "big_of ms = cores_of (filter (\<lambda>g. \<not> below_mean ms (fst g)) ms)"

definition detect_topology :: "sysfs \<Rightarrow> cpu_topology" where
  "detect_topology sys =
     (let w = walk_cpus sys; tp0 = no_topology (detect_smt sys) in
      if all_cores w = [] then tp0
      else
        (let ms = metric_to_cores w;
             tp = tp0\<lparr>all_cores_str := format_cpuset (all_cores w), cpu_count := length (all_cores w),
               nodes := map (\<lambda>(i, cs). \<lparr>node_id = i, node_cpus = cs, node_cpuset = format_cpuset cs\<rparr>) (node_groups w),
               llcs := llcs_of w, biggest_llc_cores_str := format_cpuset (biggest_llc_cores (llcs_of w))\<rparr>
         in if length ms \<le> 1 \<or> nearly_equal (fst (hd ms)) (fst (last ms)) then mark_homogeneous tp
            else tp\<lparr>little_cores_str := format_cpuset (little_of ms), big_cores_str := format_cpuset (big_of ms),
                     has_big_little := True, turbo_cores_str := format_cpuset (snd (last ms))\<rparr>))"

subsection \<open>Names for the classes\<close>

definition generate_cpuset_aliases :: "cpu_topology \<Rightarrow> (string \<times> string) list" where
  "generate_cpuset_aliases tp =
     (let perf_cores =
            (if turbo_cores_str tp \<noteq> [] \<and> turbo_cores_str tp \<noteq> all_cores_str tp
             then turbo_cores_str tp else big_cores_str tp)
      in rev ([(''all'', all_cores_str tp), (''all-cores'', all_cores_str tp), (''big-cores'', big_cores_str tp),
               (''little-cores'', little_cores_str tp), (''performance-cores'', perf_cores),
               (''efficiency-cores'', little_cores_str tp), (''turbo-cores'', turbo_cores_str tp)] @
              (if biggest_llc_cores_str tp \<noteq> [] then [(''x3d-cache'', biggest_llc_cores_str tp)] else []) @
              map (\<lambda>l. (''llc-'' @ show_nat (llc_id l), llc_cpuset l)) (llcs tp) @
              map (\<lambda>n. (''node-'' @ show_int (node_id n), node_cpuset n)) (nodes tp)))"

record x3d_topology =
  cache_cores_str :: string
  frequency_cores_str :: string

definition is_x3d_from_cpuinfo :: "sysfs \<Rightarrow> bool" where
  "is_x3d_from_cpuinfo sys =
     (case cpuinfo_text sys of
        Some s \<Rightarrow> contains s ''X3D'' \<or> contains s ''x3d'' \<or> contains s ''3D V-Cache''
      | None \<Rightarrow> False)"

definition die_of :: "cpu_dir \<Rightarrow> nat" where
  "die_of d =
     (let die = Option.bind (dir_read d ''topology/die_id'') (\<lambda>s. parse_i32 (trim s));
          die' = (if die = None \<or> die = Some (- 1)
                  then (case dir_read d ''topology/cluster_id'' of Some s \<Rightarrow> parse_i32 (trim s) | None \<Rightarrow> die)
                  else die)
      in nat ((case die' of Some i \<Rightarrow> i | None \<Rightarrow> 0) mod 2 ^ 32))"

definition x3d_cpu_id :: "cpu_dir \<Rightarrow> nat option" where
  "x3d_cpu_id d =
     (if starts_with (dir_name d) ''cpu'' \<and> 3 < length (dir_name d) then parse_u32 (drop 3 (dir_name d)) else None)"

type_synonym dies = "(nat \<times> nat list) list \<times> (nat \<times> nat) list"

definition x3d_cpu :: "cpu_dir \<Rightarrow> dies \<Rightarrow> dies" where
  "x3d_cpu d st =
     (case (x3d_cpu_id d, st) of
        (None, _) \<Rightarrow> st
      | (Some cpu_id, die_to_cores, die_to_cache) \<Rightarrow>
          (group_add (die_of d) cpu_id die_to_cores,
           case dir_read d ''cache/index3/size'' of
             Some s \<Rightarrow>
               if 0 < parse_size_string s then map_put (die_of d) (parse_size_string s) die_to_cache else die_to_cache
           | None \<Rightarrow> die_to_cache))"

text \<open>The die with the largest cache, the first of them in the order of their numbers.\<close>

definition cache_die :: "(nat \<times> nat) list \<Rightarrow> nat" where
  "cache_die die_to_cache =
     snd (fold (\<lambda>(die, size) (max_cache, best). if max_cache < size then (size, die) else (max_cache, best)) die_to_cache (0, 0))"

definition detect_x3d_topology :: "sysfs \<Rightarrow> x3d_topology option" where
  "detect_x3d_topology sys =
     (if \<not> x3d_driver sys \<and> \<not> is_x3d_from_cpuinfo sys then None
      else
        (case fold x3d_cpu (case cpu_dirs sys of Some dirs \<Rightarrow> dirs | None \<Rightarrow> []) ([], []) of
           (die_to_cores, die_to_cache) \<Rightarrow>
             if length die_to_cores < 2 then
               (if cores_of die_to_cores = [] then None
                else Some \<lparr>cache_cores_str = format_cpuset (cores_of die_to_cores),
                           frequency_cores_str = format_cpuset (cores_of die_to_cores)\<rparr>)
             else if die_to_cache = [] then None
             else
               (let best = cache_die die_to_cache in
                Some \<lparr>cache_cores_str = format_cpuset (cores_of (filter (\<lambda>g. fst g = best) die_to_cores)),
                      frequency_cores_str = format_cpuset (cores_of (filter (\<lambda>g. fst g \<noteq> best) die_to_cores))\<rparr>)))"

definition load_topology_aliases :: "sysfs \<Rightarrow> (string \<times> string) list" where
  "load_topology_aliases sys =
     (let aliases = generate_cpuset_aliases (detect_topology sys) in
      case detect_x3d_topology sys of
        Some x \<Rightarrow> (''x3d-frequency'', frequency_cores_str x) # (''x3d-cache'', cache_cores_str x) # aliases
      | None \<Rightarrow> aliases)"


subsection \<open>A formatted set parses back\<close>

lemma set_bt_insert [simp]: "set (bt_insert c cs) = insert c (set cs)"
  by (auto simp: bt_insert_def set_insort_key)

lemma set_fold_bt_insert [simp]: "set (fold bt_insert cs acc) = set cs \<union> set acc"
  by (induction cs arbitrary: acc) auto

lemma set_cores_of: "set (cores_of gs) = (\<Union>g \<in> set gs. set (snd g))"
proof -
  have "set (fold (\<lambda>g acc. fold bt_insert (snd g) acc) gs acc) = (\<Union>g \<in> set gs. set (snd g)) \<union> set acc" for acc
    by (induction gs arbitrary: acc) auto
  then show ?thesis by (simp add: cores_of_def)
qed

fun spans :: "nat \<Rightarrow> nat \<Rightarrow> nat list \<Rightarrow> (nat \<times> nat) list" where
  "spans start prev [] = [(start, Suc prev)]"
| "spans start prev (c # cs) = (if c = prev + 1 then spans start c cs else (start, Suc prev) # spans c c cs)"

lemma spans_not_Nil [simp]: "spans s p cs \<noteq> []"
  by (induction s p cs rule: spans.induct) auto

lemma show_span_range: "show_span s p = show_range s (Suc p)"
  by (simp add: show_span_def show_range_def)

lemma format_loop_spans: "format_loop res s p cs = res @ join '','' (show_ranges (spans s p cs))"
proof (induction res s p cs rule: format_loop.induct)
  case (2 res s p c cs)
  obtain r rs where "spans c c cs = r # rs" by (cases "spans c c cs") auto
  then show ?case using "2" by (simp add: show_span_range show_ranges_def)
qed (simp add: show_span_range show_ranges_def)

lemma spans_ok:
  "s \<le> p \<Longrightarrow> p < m \<Longrightarrow> \<forall>c \<in> set cs. c < m \<Longrightarrow> \<forall>r \<in> set (spans s p cs). range_ok m r"
  by (induction s p cs rule: spans.induct) (auto simp: range_ok_def)

lemma spans_cover: "s \<le> p \<Longrightarrow> covered (spans s p cs) c \<longleftrightarrow> s \<le> c \<and> c \<le> p \<or> c \<in> set cs"
  by (induction s p cs rule: spans.induct) (auto simp: covered_def)

lemma format_cpuset_parses:
  assumes "cs \<noteq> []" and "\<forall>c \<in> set cs. c < m" and "m < 2 ^ 32"
  obtains t where "parse (format_cpuset cs) m = Some t" and "cpuset_wf t" and "\<And>c. has_cpu t c \<longleftrightarrow> c \<in> set cs"
proof -
  obtain d ds where ds: "sort cs = d # ds" using assms(1) by (metis list.exhaust set_empty set_sort)
  then have members: "set cs = insert d (set ds)" by (metis list.simps(15) set_sort)
  then have "\<forall>r \<in> set (spans d d ds). range_ok m r" using assms(2) by (intro spans_ok) auto
  then obtain t where t: "parse (join '','' (show_ranges (spans d d ds))) m = Some t" "cpuset_wf t"
      "\<And>c. has_cpu t c \<longleftrightarrow> covered (spans d d ds) c"
    using parse_show_ranges assms(3) by (metis spans_not_Nil)
  then have "has_cpu t c \<longleftrightarrow> c \<in> set cs" for c using spans_cover [of d d ds c] members by auto
  with t that show thesis by (simp add: format_cpuset_def ds format_loop_spans)
qed

lemma format_cpuset_Nil_iff: "format_cpuset cs = [] \<longleftrightarrow> cs = []"
proof -
  have "join '','' (show_ranges (r # rs)) \<noteq> []" for r rs by (cases rs) (auto simp: show_ranges_def)
  then have "format_loop [] d d ds \<noteq> []" for d ds
    by (cases "spans d d ds") (auto simp: format_loop_spans)
  moreover have "sort cs = [] \<longleftrightarrow> cs = []" by (metis set_empty set_sort)
  ultimately show ?thesis by (cases "sort cs") (auto simp: format_cpuset_def)
qed

subsection \<open>Groups\<close>

text \<open>Which CPU is in the group of which key.\<close>

definition in_group :: "('k \<times> nat list) list \<Rightarrow> 'k \<Rightarrow> nat \<Rightarrow> bool" where
  "in_group gs k c \<longleftrightarrow> (\<exists>cs. (k, cs) \<in> set gs \<and> c \<in> set cs)"

lemma in_group_simps [simp]:
  "\<not> in_group [] k c" "in_group ((j, cs) # gs) k c \<longleftrightarrow> k = j \<and> c \<in> set cs \<or> in_group gs k c"
  by (auto simp: in_group_def)

lemma in_group_add: "in_group (group_add k c gs) j d \<longleftrightarrow> in_group gs j d \<or> j = k \<and> d = c"
  by (induction k c gs rule: group_add.induct) auto

lemma in_cores_of: "c \<in> set (cores_of gs) \<longleftrightarrow> (\<exists>k. in_group gs k c)"
  by (force simp: set_cores_of in_group_def)

lemma in_group_filter: "in_group (filter (\<lambda>g. P (fst g)) gs) k c \<longleftrightarrow> P k \<and> in_group gs k c"
  by (auto simp: in_group_def)

text \<open>The keys of a group map are in order and no group is empty.\<close>

definition groups_wf :: "('k::linorder \<times> nat list) list \<Rightarrow> bool" where
  "groups_wf gs \<longleftrightarrow> sorted_wrt (<) (map fst gs) \<and> (\<forall>g \<in> set gs. snd g \<noteq> [])"

lemma groups_wf_simps [simp]:
  "groups_wf []" "groups_wf ((j, cs) # gs) \<longleftrightarrow> (\<forall>k \<in> fst ` set gs. j < k) \<and> cs \<noteq> [] \<and> groups_wf gs"
  by (auto simp: groups_wf_def)

lemma keys_group_add: "fst ` set (group_add k c gs) = insert k (fst ` set gs)"
  by (induction k c gs rule: group_add.induct) auto

lemma bt_insert_not_Nil [simp]: "bt_insert c cs \<noteq> []"
  by (metis empty_iff empty_set insertI1 set_bt_insert)

lemma groups_wf_add: "groups_wf gs \<Longrightarrow> groups_wf (group_add k c gs)"
  by (induction k c gs rule: group_add.induct) (auto simp: keys_group_add)


subsection \<open>What the walk finds\<close>

definition cpu_ids :: "sysfs \<Rightarrow> nat list" where
  "cpu_ids sys = (case cpu_dirs sys of Some dirs \<Rightarrow> map fst (listed_cpus dirs) | None \<Rightarrow> [])"

definition online_ids :: "sysfs \<Rightarrow> nat list" where
  "online_ids sys = (case cpu_dirs sys of Some dirs \<Rightarrow> map fst (filter is_online (listed_cpus dirs)) | None \<Rightarrow> [])"

definition walk_inv :: "nat set \<Rightarrow> cpu_walk \<Rightarrow> bool" where
  "walk_inv S w \<longleftrightarrow>
     set (all_cores w) = S \<and> (\<forall>k c. in_group (llc_groups w) k c \<longrightarrow> c \<in> S) \<and>
     (\<forall>k c. in_group (node_groups w) k c \<longrightarrow> c \<in> S)"

lemma walk_inv_step:
  "walk_inv S w \<Longrightarrow> walk_inv (if is_online cpu then insert (fst cpu) S else S) (walk_cpu cpu w)"
  by (cases cpu) (auto simp: walk_cpu_def walk_inv_def in_group_add split: prod.split)

lemma walk_inv_fold: "walk_inv S w \<Longrightarrow> walk_inv (S \<union> fst ` set (filter is_online cpus)) (fold walk_cpu cpus w)"
proof (induction cpus arbitrary: S w)
  case (Cons cpu cpus)
  have "walk_inv ((if is_online cpu then insert (fst cpu) S else S) \<union> fst ` set (filter is_online cpus))
      (fold walk_cpu cpus (walk_cpu cpu w))"
    by (rule Cons.IH [OF walk_inv_step [OF Cons.prems]])
  then show ?case by (cases "is_online cpu") simp_all
qed simp

lemma walk_cpus_inv: "walk_inv (set (online_ids sys)) (walk_cpus sys)"
proof -
  have "walk_inv {} no_walk" by (simp add: walk_inv_def no_walk_def)
  then show ?thesis
    using walk_inv_fold [of "{}" no_walk] by (auto simp: walk_cpus_def online_ids_def split: option.split)
qed

lemma online_listed: "set (online_ids sys) \<subseteq> set (cpu_ids sys)"
  by (auto simp: online_ids_def cpu_ids_def split: option.split)

text \<open>The capacity a CPU is measured with.\<close>

definition capacity :: "sysfs \<Rightarrow> nat \<Rightarrow> nat option" where
  "capacity sys c =
     (let w = walk_cpus sys in read_capacity (bases w) (pick_capacity_source (bases w) (all_cores w)) c)"

lemma fold_groups:
  "groups_wf gs \<Longrightarrow>
     groups_wf (fold (\<lambda>c gs. case f c of Some v \<Rightarrow> group_add v c gs | None \<Rightarrow> gs) cs gs) \<and>
     (\<forall>k c. in_group (fold (\<lambda>c gs. case f c of Some v \<Rightarrow> group_add v c gs | None \<Rightarrow> gs) cs gs) k c \<longleftrightarrow>
        in_group gs k c \<or> c \<in> set cs \<and> f c = Some k)"
proof (induction cs arbitrary: gs)
  case (Cons d cs)
  let ?gs = "case f d of Some v \<Rightarrow> group_add v d gs | None \<Rightarrow> gs"
  have "groups_wf ?gs" using Cons.prems by (auto intro: groups_wf_add split: option.split)
  moreover have "in_group ?gs k c \<longleftrightarrow> in_group gs k c \<or> c = d \<and> f d = Some k" for k c
    by (auto simp: in_group_add split: option.split)
  ultimately show ?case using Cons.IH [of ?gs] by auto
qed simp

lemma metric_groups:
  "groups_wf (metric_to_cores (walk_cpus sys))"
  "in_group (metric_to_cores (walk_cpus sys)) k c \<longleftrightarrow> c \<in> set (online_ids sys) \<and> capacity sys c = Some k"
proof -
  have all: "set (all_cores (walk_cpus sys)) = set (online_ids sys)" using walk_cpus_inv by (auto simp: walk_inv_def)
  note fold_groups [of "[]" "capacity sys" "all_cores (walk_cpus sys)"]
  then show "groups_wf (metric_to_cores (walk_cpus sys))"
    "in_group (metric_to_cores (walk_cpus sys)) k c \<longleftrightarrow> c \<in> set (online_ids sys) \<and> capacity sys c = Some k"
    using all by (simp_all add: metric_to_cores_def capacity_def Let_def)
qed

subsection \<open>The tiers\<close>

lemma group_of_key: "groups_wf gs \<Longrightarrow> k \<in> fst ` set gs \<Longrightarrow> \<exists>c. in_group gs k c"
  by (fastforce simp: groups_wf_def in_group_def neq_Nil_conv)

lemma last_key_greatest: "groups_wf gs \<Longrightarrow> k \<in> fst ` set gs \<Longrightarrow> k \<le> fst (last gs)"
proof (induction gs rule: rev_induct)
  case (snoc g gs)
  then show ?case by (auto simp: groups_wf_def sorted_wrt_append less_imp_le)
qed simp

lemma last_group:
  assumes "groups_wf gs" and "gs \<noteq> []"
  shows "c \<in> set (snd (last gs)) \<longleftrightarrow> in_group gs (fst (last gs)) c"
proof -
  have "(fst (last gs), cs) \<in> set gs \<longleftrightarrow> cs = snd (last gs)" for cs
  proof -
    have "distinct (map fst gs)" using assms(1) strict_sorted_iff unfolding groups_wf_def by blast
    moreover have "(fst (last gs), snd (last gs)) \<in> set gs" using assms(2) by simp
    ultimately show ?thesis by (metis eq_key_imp_eq_value)
  qed
  then show ?thesis by (auto simp: in_group_def)
qed

text \<open>The highest capacity is not below the mean, and the lowest is if there are two.\<close>

lemma highest_not_below: "groups_wf gs \<Longrightarrow> \<not> below_mean gs (fst (last gs))"
proof -
  assume wf: "groups_wf gs"
  have "sum_list (map (\<lambda>g. fst g * length (snd g)) gs) \<le> sum_list (map (\<lambda>g. fst (last gs) * length (snd g)) gs)"
    using last_key_greatest [OF wf] by (intro sum_list_mono mult_right_mono) auto
  then show ?thesis by (simp add: below_mean_def sum_list_const_mult)
qed

lemma lowest_below:
  assumes "groups_wf gs" and "2 \<le> length gs"
  shows "below_mean gs (fst (hd gs))"
proof -
  obtain g h hs where gs: "gs = g # h # hs" using assms(2) by (cases gs rule: list.exhaust [case_names Nil Cons]) (auto simp: Suc_le_length_iff numeral_2_eq_2)
  have less: "fst g < fst x" "0 < length (snd x)" if "x \<in> set (h # hs)" for x
    using assms(1) that by (auto simp: gs groups_wf_def)
  have rest: "sum_list (map (\<lambda>x. fst g * length (snd x)) hs) \<le> sum_list (map (\<lambda>x. fst x * length (snd x)) hs)"
    using less by (intro sum_list_mono mult_right_mono) (auto intro: less_imp_le)
  have "fst g * length (snd h) < fst h * length (snd h)" using less [of h] by simp
  from add_less_le_mono [OF this rest]
  have "fst g * sum_list (map (\<lambda>x. length (snd x)) gs) < sum_list (map (\<lambda>x. fst x * length (snd x)) gs)"
    by (simp only: gs list.map sum_list.Cons distrib_left sum_list_const_mult add_less_cancel_left)
  then show ?thesis by (simp add: below_mean_def gs)
qed


lemma below_mean_mono: "below_mean ms k' \<Longrightarrow> k \<le> k' \<Longrightarrow> below_mean ms k"
  unfolding below_mean_def by (rule le_less_trans [OF mult_le_mono1])

lemma in_tiers:
  "c \<in> set (little_of ms) \<longleftrightarrow> (\<exists>k. below_mean ms k \<and> in_group ms k c)"
  "c \<in> set (big_of ms) \<longleftrightarrow> (\<exists>k. \<not> below_mean ms k \<and> in_group ms k c)"
  by (simp_all add: little_of_def big_of_def in_cores_of in_group_filter [of "below_mean ms"]
      in_group_filter [of "\<lambda>k. \<not> below_mean ms k"])

text \<open>The tiers of well-formed groups, for a capacity that says which CPU is in which group.\<close>

lemma tiers_of_groups:
  assumes wf: "groups_wf ms" and many: "2 \<le> length ms" and cap: "\<And>k c. in_group ms k c \<longleftrightarrow> c \<in> S \<and> cap c = Some k"
  shows "set (big_of ms) \<union> set (little_of ms) = {c \<in> S. cap c \<noteq> None}"
    and "little_of ms \<noteq> []" and "snd (last ms) \<noteq> []"
    and "\<forall>c \<in> set (little_of ms). \<forall>d \<in> set (big_of ms). the (cap c) < the (cap d)"
    and "set (snd (last ms)) = {c \<in> set (big_of ms). \<forall>d \<in> set (big_of ms). the (cap d) \<le> the (cap c)}"
proof -
  have ms: "ms \<noteq> []" using many by auto
  have little: "c \<in> set (little_of ms) \<longleftrightarrow> c \<in> S \<and> (\<exists>k. cap c = Some k \<and> below_mean ms k)"
    and big: "c \<in> set (big_of ms) \<longleftrightarrow> c \<in> S \<and> (\<exists>k. cap c = Some k \<and> \<not> below_mean ms k)" for c
    by (auto simp: in_tiers cap)
  show "set (big_of ms) \<union> set (little_of ms) = {c \<in> S. cap c \<noteq> None}" using little big by auto
  show "\<forall>c \<in> set (little_of ms). \<forall>d \<in> set (big_of ms). the (cap c) < the (cap d)"
    using little big below_mean_mono by (metis not_le option.sel)
  obtain c where "in_group ms (fst (hd ms)) c" using group_of_key [OF wf, of "fst (hd ms)"] ms by auto
  then show "little_of ms \<noteq> []" using lowest_below [OF wf many] in_tiers(1) by (metis empty_iff empty_set)
  show "snd (last ms) \<noteq> []" using wf ms by (simp add: groups_wf_def)
  then obtain e where e: "in_group ms (fst (last ms)) e" using last_group [OF wf ms] by (meson hd_in_set)
  have top: "k \<le> fst (last ms)" if "in_group ms k d" for k d
    using last_key_greatest [OF wf] that by (force simp: in_group_def)
  have last: "c \<in> set (snd (last ms)) \<longleftrightarrow> c \<in> S \<and> cap c = Some (fst (last ms))" for c
    using last_group [OF wf ms] cap by simp
  have "e \<in> set (big_of ms)" "cap e = Some (fst (last ms))"
    using e cap big highest_not_below [OF wf] by auto
  moreover have "the (cap d) \<le> fst (last ms)" if "d \<in> set (big_of ms)" for d
    using that big cap top by fastforce
  ultimately show "set (snd (last ms)) = {c \<in> set (big_of ms). \<forall>d \<in> set (big_of ms). the (cap d) \<le> the (cap c)}"
    using last big highest_not_below [OF wf] by (auto intro: antisym) (metis antisym option.sel)+
qed

text \<open>
  C23: On a machine the detection calls heterogeneous, the big and the little cores are a split of the online CPUs
  whose capacity could be read: neither is empty, every little core has less capacity than every big one, and
  the turbo cores are the big ones of the highest capacity. On any other machine every online CPU is a big core and there are no
  little and no turbo cores.
\<close>
theorem tiers_split_by_capacity:
  assumes "online_ids sys \<noteq> []"
  shows "if has_big_little (detect_topology sys) then
    \<exists>big little turbo.
      big_cores_str (detect_topology sys) = format_cpuset big \<and>
      little_cores_str (detect_topology sys) = format_cpuset little \<and>
      turbo_cores_str (detect_topology sys) = format_cpuset turbo \<and>
      set big \<union> set little = {c \<in> set (online_ids sys). capacity sys c \<noteq> None} \<and>
      little \<noteq> [] \<and> turbo \<noteq> [] \<and>
      (\<forall>c \<in> set little. \<forall>d \<in> set big. the (capacity sys c) < the (capacity sys d)) \<and>
      set turbo = {c \<in> set big. \<forall>d \<in> set big. the (capacity sys d) \<le> the (capacity sys c)}
    else
      big_cores_str (detect_topology sys) = all_cores_str (detect_topology sys) \<and>
      all_cores_str (detect_topology sys) = format_cpuset (all_cores (walk_cpus sys)) \<and>
      set (all_cores (walk_cpus sys)) = set (online_ids sys) \<and>
      little_cores_str (detect_topology sys) = [] \<and> turbo_cores_str (detect_topology sys) = []"
proof -
  have all: "set (all_cores (walk_cpus sys)) = set (online_ids sys)" using walk_cpus_inv by (auto simp: walk_inv_def)
  with assms have ne: "all_cores (walk_cpus sys) \<noteq> []" by auto
  let ?ms = "metric_to_cores (walk_cpus sys)"
  note wf = metric_groups(1) [of sys] and members = metric_groups(2) [of sys]
  show ?thesis
  proof (cases "has_big_little (detect_topology sys)")
    case True
    then have many: "2 \<le> length ?ms"
      using ne by (auto simp: detect_topology_def no_topology_def mark_homogeneous_def Let_def split: if_splits)
    have tp: "big_cores_str (detect_topology sys) = format_cpuset (big_of ?ms)"
      "little_cores_str (detect_topology sys) = format_cpuset (little_of ?ms)"
      "turbo_cores_str (detect_topology sys) = format_cpuset (snd (last ?ms))"
      using True ne by (auto simp: detect_topology_def no_topology_def mark_homogeneous_def Let_def split: if_splits)
    show ?thesis
      using True tp tiers_of_groups [OF wf many members] by auto
  next
    case False
    then show ?thesis
      using ne all by (auto simp: detect_topology_def no_topology_def mark_homogeneous_def Let_def split: if_splits)
  qed
qed


subsection \<open>What the names stand for\<close>

definition names_cpus :: "nat set \<Rightarrow> string \<Rightarrow> bool" where
  "names_cpus S v \<longleftrightarrow> (\<exists>cs. v = format_cpuset cs \<and> set cs \<subseteq> S)"

lemma names_cpus_format: "set cs \<subseteq> S \<Longrightarrow> names_cpus S (format_cpuset cs)"
  by (auto simp: names_cpus_def)

lemma names_cpus_Nil: "names_cpus S []"
  unfolding names_cpus_def by (intro exI [of _ "[]"]) (simp add: format_cpuset_def)

lemma names_cpus_mono: "names_cpus S v \<Longrightarrow> S \<subseteq> T \<Longrightarrow> names_cpus T v"
  by (auto simp: names_cpus_def)

lemma in_groupI: "(k, cs) \<in> set gs \<Longrightarrow> c \<in> set cs \<Longrightarrow> in_group gs k c"
  by (auto simp: in_group_def)

lemma set_fold_llcs:
  "set (fold (\<lambda>l acc. fold bt_insert (llc_cpus l) acc) ls acc) = (\<Union>l \<in> set ls. set (llc_cpus l)) \<union> set acc"
  by (induction ls arbitrary: acc) auto

lemma biggest_in_llcs:
  assumes "c \<in> set (biggest_llc_cores (llcs_of w))"
  shows "\<exists>k. in_group (llc_groups w) k c"
proof -
  obtain l where "l \<in> set (llcs_of w)" "c \<in> set (llc_cpus l)"
    using assms by (auto simp: biggest_llc_cores_def set_fold_llcs Let_def split: if_splits)
  then obtain k where "(k, llc_cpus l) \<in> set (llc_groups w)" by (auto simp: llcs_of_def)
  with \<open>c \<in> set (llc_cpus l)\<close> show ?thesis using in_groupI by fast
qed

lemma topology_names:
  assumes "s \<in> {all_cores_str, big_cores_str, little_cores_str, turbo_cores_str, biggest_llc_cores_str}"
  shows "names_cpus (set (online_ids sys)) (s (detect_topology sys))"
proof -
  let ?w = "walk_cpus sys" and ?ms = "metric_to_cores (walk_cpus sys)"
  have inv: "walk_inv (set (online_ids sys)) ?w" by (rule walk_cpus_inv)
  have ms: "in_group ?ms k c \<Longrightarrow> c \<in> set (online_ids sys)" for k c using metric_groups(2) by blast
  then have tiers: "set (big_of ?ms) \<subseteq> set (online_ids sys)" "set (little_of ?ms) \<subseteq> set (online_ids sys)"
    by (auto simp: in_tiers)
  have turbo: "set (snd (last ?ms)) \<subseteq> set (online_ids sys)" if "\<not> length ?ms \<le> 1"
  proof -
    from that have "?ms \<noteq> []" by auto
    then show ?thesis using last_group [OF metric_groups(1)] ms by blast
  qed
  have "set (biggest_llc_cores (llcs_of ?w)) \<subseteq> set (online_ids sys)" "set (all_cores ?w) \<subseteq> set (online_ids sys)"
    using inv biggest_in_llcs unfolding walk_inv_def by blast+
  note formatted = names_cpus_format [OF this(1)] names_cpus_format [OF this(2)] names_cpus_format [OF tiers(1)]
    names_cpus_format [OF tiers(2)]
  show ?thesis
    using assms formatted names_cpus_Nil names_cpus_format [OF turbo]
    by (auto simp: detect_topology_def no_topology_def mark_homogeneous_def Let_def)
qed

lemma topology_parts:
  "llcs (detect_topology sys) = (if all_cores (walk_cpus sys) = [] then [] else llcs_of (walk_cpus sys))"
  "nodes (detect_topology sys) =
     (if all_cores (walk_cpus sys) = [] then []
      else map (\<lambda>(i, cs). \<lparr>node_id = i, node_cpus = cs, node_cpuset = format_cpuset cs\<rparr>) (node_groups (walk_cpus sys)))"
  by (simp_all add: detect_topology_def no_topology_def mark_homogeneous_def Let_def)

lemma topology_parts_name:
  "l \<in> set (llcs (detect_topology sys)) \<Longrightarrow> names_cpus (set (online_ids sys)) (llc_cpuset l)"
  "n \<in> set (nodes (detect_topology sys)) \<Longrightarrow> names_cpus (set (online_ids sys)) (node_cpuset n)"
proof -
  have part: "names_cpus (set (online_ids sys)) (format_cpuset cs)"
    if "(i, cs) \<in> set (llc_groups (walk_cpus sys)) \<or> (j, cs) \<in> set (node_groups (walk_cpus sys))" for i j cs
    using walk_cpus_inv [of sys] that in_groupI [of i cs "llc_groups (walk_cpus sys)"]
      in_groupI [of j cs "node_groups (walk_cpus sys)"]
    unfolding walk_inv_def by (intro names_cpus_format) blast
  show "l \<in> set (llcs (detect_topology sys)) \<Longrightarrow> names_cpus (set (online_ids sys)) (llc_cpuset l)"
    using part by (auto simp: topology_parts llcs_of_def split: if_splits) blast
  show "n \<in> set (nodes (detect_topology sys)) \<Longrightarrow> names_cpus (set (online_ids sys)) (node_cpuset n)"
    using part by (auto simp: topology_parts split: if_splits) blast
qed

lemma alias_names:
  assumes "(raw, v) \<in> set (generate_cpuset_aliases (detect_topology sys))"
  shows "names_cpus (set (online_ids sys)) v"
  using assms topology_names [of _ sys] topology_parts_name [of _ sys]
  by (auto simp: generate_cpuset_aliases_def Let_def split: if_splits)

lemma in_listed:
  "(i, d) \<in> set (listed_cpus dirs) \<longleftrightarrow> d \<in> set dirs \<and> Option.bind (strip_prefix ''cpu'' (dir_name d)) parse_u32 = Some i"
  by (auto simp: listed_cpus_def set_map_filter)

lemma x3d_cpu_listed: "d \<in> set dirs \<Longrightarrow> x3d_cpu_id d = Some i \<Longrightarrow> i \<in> fst ` set (listed_cpus dirs)"
proof -
  assume "d \<in> set dirs" "x3d_cpu_id d = Some i"
  then have "(i, d) \<in> set (listed_cpus dirs)"
    unfolding in_listed by (auto simp: x3d_cpu_id_def strip_prefix_def numeral_3_eq_3 split: if_splits)
  then show ?thesis by (metis fst_conv image_eqI)
qed

lemma dies_within:
  assumes "\<And>d i. d \<in> set ds \<Longrightarrow> x3d_cpu_id d = Some i \<Longrightarrow> i \<in> S" and "\<And>k c. in_group (fst st) k c \<Longrightarrow> c \<in> S"
  shows "in_group (fst (fold x3d_cpu ds st)) k c \<Longrightarrow> c \<in> S"
  using assms
proof (induction ds arbitrary: st)
  case (Cons d ds)
  have step: "c \<in> S" if "in_group (fst (x3d_cpu d st)) k c" for k c
    using that Cons.prems(2) [of d] Cons.prems(3)
    by (auto simp: x3d_cpu_def in_group_add split: option.splits prod.splits)
  show ?case by (rule Cons.IH [of "x3d_cpu d st"]) (use Cons.prems(1,2) step in auto)
qed auto

lemma x3d_names:
  assumes "detect_x3d_topology sys = Some x"
  shows "names_cpus (set (cpu_ids sys)) (cache_cores_str x)" "names_cpus (set (cpu_ids sys)) (frequency_cores_str x)"
proof -
  define dirs where "dirs = (case cpu_dirs sys of Some dirs \<Rightarrow> dirs | None \<Rightarrow> [])"
  obtain dc ds where dies: "fold x3d_cpu dirs ([], []) = (dc, ds)" by fastforce
  have ids: "set (cpu_ids sys) = fst ` set (listed_cpus dirs)"
    by (cases "cpu_dirs sys") (simp_all add: cpu_ids_def dirs_def listed_cpus_def)
  have "c \<in> set (cpu_ids sys)" if "in_group dc k c" for k c
    using dies_within [of dirs "fst ` set (listed_cpus dirs)" "([], [])" k c] x3d_cpu_listed that by (simp add: dies ids)
  then have sub: "set (cores_of (filter P dc)) \<subseteq> set (cpu_ids sys)" "set (cores_of dc) \<subseteq> set (cpu_ids sys)" for P
    unfolding set_cores_of in_group_def by force+
  show "names_cpus (set (cpu_ids sys)) (cache_cores_str x)" "names_cpus (set (cpu_ids sys)) (frequency_cores_str x)"
    using assms unfolding detect_x3d_topology_def dirs_def [symmetric] dies
    by (auto simp: Let_def split: if_splits intro!: names_cpus_format [OF sub(1)] names_cpus_format [OF sub(2)])
qed

lemma load_names:
  assumes "(raw, v) \<in> set (load_topology_aliases sys)"
  shows "names_cpus (set (cpu_ids sys)) v"
  using assms alias_names names_cpus_mono [OF _ online_listed] x3d_names
  by (auto simp: load_topology_aliases_def Let_def split: option.splits)

text \<open>
  C24: A rule may name any class of CPUs of the machine: either the machine has no CPU of the class, and the rule
  leaves the affinity alone, or the name resolves to a non-empty set of CPUs the machine has. A name of the
  machine is never refused as an invalid cpuset.
\<close>
theorem topology_alias_applies:
  assumes "map_of (load_topology_aliases sys) raw = Some v"
    and "\<forall>c \<in> set (cpu_ids sys). c < get_max_cores pf" and "get_max_cores pf < 2 ^ 32"
  shows "if v = [] then plan_cpuset pf (load_topology_aliases sys) raw = []
    else \<exists>cpus. plan_cpuset pf (load_topology_aliases sys) raw = [Affinity cpus] \<and> cpuset_wf cpus \<and>
      (\<exists>c. has_cpu cpus c) \<and> (\<forall>c. has_cpu cpus c \<longrightarrow> c \<in> set (cpu_ids sys))"
proof -
  obtain cs where v: "v = format_cpuset cs" and cs: "set cs \<subseteq> set (cpu_ids sys)"
    using load_names [OF map_of_SomeD [OF assms(1)]] by (auto simp: names_cpus_def)
  show ?thesis
  proof (cases "v = []")
    case False
    then have "cs \<noteq> []" using v format_cpuset_Nil_iff by blast
    then obtain t where "parse v (get_max_cores pf) = Some t" "cpuset_wf t" "\<And>c. has_cpu t c \<longleftrightarrow> c \<in> set cs"
      using format_cpuset_parses [of cs "get_max_cores pf"] assms(2,3) cs v by blast
    with False assms(1) cs \<open>cs \<noteq> []\<close> show ?thesis
      by (auto simp: plan_cpuset_def unwrap_or_def Let_def neq_Nil_conv)
  qed (use assms(1) in \<open>simp add: plan_cpuset_def\<close>)
qed


text \<open>A machine with a little core, a big one and one whose capacity the kernel does not report.\<close>

definition sample_cpu :: "string \<Rightarrow> string option \<Rightarrow> cpu_dir" where
  "sample_cpu name cap =
     \<lparr>dir_name = name, dir_read = \<lambda>f. if f = ''cpu_capacity'' then cap else None, dir_entries = Some [''node0'']\<rparr>"

definition sample_sys :: sysfs where
  "sample_sys =
     \<lparr>smt_active = None,
      cpu_dirs = Some [sample_cpu ''cpu2'' None, sample_cpu ''cpu1'' (Some ''2''), sample_cpu ''cpu0'' (Some ''1''),
        sample_cpu ''cpufreq'' None],
      x3d_driver = False, cpuinfo_text = None\<rparr>"

lemma sample_numbers:
  "parse_u32 ''0'' = Some 0" "parse_u32 ''1'' = Some 1" "parse_u32 ''2'' = Some 2" "parse_u32 ''freq'' = None"
  "parse_u64 ''1'' = Some 1" "parse_u64 ''2'' = Some 2" "trim ''1'' = ''1''" "trim ''2'' = ''2''"
  "parse_i32 ''0'' = Some 0"
  by (simp_all add: parse_u32_def parse_u64_def parse_i32_def eval_simps)

lemma sample_listed:
  "listed_cpus (the (cpu_dirs sample_sys)) =
     [(0, sample_cpu ''cpu0'' (Some ''1'')), (1, sample_cpu ''cpu1'' (Some ''2'')), (2, sample_cpu ''cpu2'' None)]"
  by (simp add: listed_cpus_def sample_sys_def sample_cpu_def strip_prefix_def starts_with_def sample_numbers)

lemma sample_walked:
  "all_cores (walk_cpus sample_sys) = [0, 1, 2]"
  "metric_to_cores (walk_cpus sample_sys) = [(1, [0]), (2, [1])]"
  using sample_listed
  by (simp_all add: walk_cpus_def walk_cpu_def no_walk_def is_online_def sample_cpu_def get_llc_id_def llc_key_def
      get_node_id_def node_entry_def starts_with_def bt_insert_def sample_sys_def metric_to_cores_def pick_capacity_source_def capacity_sources_def read_capacity_def
      sample_numbers)

lemma sample_tiers:
  "has_big_little (detect_topology sample_sys)" "big_cores_str (detect_topology sample_sys) = ''1''"
  "little_cores_str (detect_topology sample_sys) = ''0''" "online_ids sample_sys = [0, 1, 2]" "cpu_ids sample_sys = [0, 1, 2]"
proof -
  have tiers: "big_of [(1, [0]), (2, [1])] = [1]" "little_of [(1, [0]), (2, [1])] = [0]" "\<not> nearly_equal 1 2"
    "format_cpuset [1] = ''1''" "format_cpuset [0] = ''0''"
    by code_simp+
  show "has_big_little (detect_topology sample_sys)" "big_cores_str (detect_topology sample_sys) = ''1''"
    "little_cores_str (detect_topology sample_sys) = ''0''"
    by (simp_all add: detect_topology_def sample_walked tiers Let_def del: One_nat_def)
  show "online_ids sample_sys = [0, 1, 2]" "cpu_ids sample_sys = [0, 1, 2]"
    using sample_listed by (simp_all add: online_ids_def cpu_ids_def is_online_def sample_cpu_def sample_sys_def)
qed

theorem tiers_split_by_capacity_witness:
  "\<exists>big little. format_cpuset big = ''1'' \<and> format_cpuset little = ''0'' \<and> little \<noteq> [] \<and>
     set big \<union> set little = {c \<in> {0, 1, 2}. capacity sample_sys c \<noteq> None}"
proof -
  have "online_ids sample_sys \<noteq> []" by (simp add: sample_tiers)
  note tiers_split_by_capacity [OF this, unfolded if_P [OF sample_tiers(1)]]
  then obtain big little where "format_cpuset big = ''1''" "format_cpuset little = ''0''" "little \<noteq> []"
    "set big \<union> set little = {c \<in> set (online_ids sample_sys). capacity sample_sys c \<noteq> None}"
    unfolding sample_tiers(2,3) by metis
  moreover have "set (online_ids sample_sys) = {0, 1, 2}" by (simp only: sample_tiers set_simps)
  ultimately show ?thesis by metis
qed

theorem topology_alias_applies_witness:
  "\<exists>cpus. plan_cpuset sample_platform (load_topology_aliases sample_sys) ''little-cores'' = [Affinity cpus] \<and>
     (\<exists>c. has_cpu cpus c) \<and> (\<forall>c. has_cpu cpus c \<longrightarrow> c \<in> {0, 1, 2})"
proof -
  have "detect_x3d_topology sample_sys = None"
    by (simp add: detect_x3d_topology_def sample_sys_def is_x3d_from_cpuinfo_def)
  moreover have "hd (''llc-'' @ s) \<noteq> hd ''little-cores'' \<or> (''llc-'' @ s) ! 1 \<noteq> ''little-cores'' ! 1"
    "hd (''node-'' @ s) \<noteq> hd ''little-cores''" for s
    by simp_all
  ultimately have "map_of (load_topology_aliases sample_sys) ''little-cores'' = Some ''0''"
    by (auto simp: load_topology_aliases_def generate_cpuset_aliases_def sample_tiers Let_def map_of_append map_add_def
        split: option.split dest!: map_of_SomeD)
  moreover have "get_max_cores sample_platform = 8" by (simp add: sample_platform_def)
  ultimately show ?thesis
    using topology_alias_applies [of sample_sys "''little-cores''" "''0''" sample_platform]
    by (simp add: sample_tiers) metis
qed

end
