(* ===== verification/Shutdown.thy ===== *)
theory Shutdown
  imports Main
begin

text \<open>
  The threads of a running daemon and how they stop: the loops of \<^verbatim>\<open>worker.rs\<close>, \<^verbatim>\<open>signals.rs\<close>,
  \<^verbatim>\<open>runtime.rs\<close>, \<^verbatim>\<open>monitor.rs\<close>, \<^verbatim>\<open>bpf_monitor.rs\<close>, \<^verbatim>\<open>netlink.rs\<close> and \<^verbatim>\<open>full_scan\<close> as one step relation over
  the channel, the senders that keep it open and the shutdown flag. What is done with a process is left to the
  worker's own theory. The theorems say that a daemon that was told to stop stops, with every process it was sent
  dealt with, once the netlink socket is quiet; that nothing but a busy or failing netlink socket can keep it from
  stopping, and that such a socket can; and that without a signal a raised flag does not make it return.
\<close>

subsection \<open>Inevitability from a measure\<close>

text \<open>Every run of \<open>R\<close> from \<open>s\<close> gets to a state of \<open>goal\<close>, and cannot stop short of it.\<close>

inductive inevitably :: "('s \<Rightarrow> 's \<Rightarrow> bool) \<Rightarrow> ('s \<Rightarrow> bool) \<Rightarrow> 's \<Rightarrow> bool" for R goal where
  here: "goal s \<Longrightarrow> inevitably R goal s"
| later: "R s t \<Longrightarrow> (\<And>u. R s u \<Longrightarrow> inevitably R goal u) \<Longrightarrow> inevitably R goal s"

text \<open>A step relation that keeps \<open>inv\<close> and descends in \<open>below\<close>, and that stops only in \<open>goal\<close>.\<close>

locale descent =
  fixes R :: "'s \<Rightarrow> 's \<Rightarrow> bool" and inv :: "'s \<Rightarrow> bool" and below :: "('s \<times> 's) set"
  assumes keeps: "inv s \<Longrightarrow> R s t \<Longrightarrow> inv t"
    and descends: "inv s \<Longrightarrow> R s t \<Longrightarrow> (t, s) \<in> below"
    and founded: "wf below"
begin

lemma no_infinite_run:
  assumes "inv (f 0)"
  shows "\<not> (\<forall>i. R (f i) (f (Suc i)))"
proof
  assume run: "\<forall>i. R (f i) (f (Suc i))"
  have "inv (f i)" for i by (induction i) (use assms run keeps in blast)+
  with run descends have "\<forall>i. (f (Suc i), f i) \<in> below" by blast
  with founded show False unfolding wf_iff_no_infinite_down_chain by blast
qed

end

locale progress = descent +
  fixes goal :: "'s \<Rightarrow> bool"
  assumes moves: "inv s \<Longrightarrow> \<not> goal s \<Longrightarrow> \<exists>t. R s t"
begin

lemma inevitable: "inv s \<Longrightarrow> inevitably R goal s"
  using founded
proof (induction s rule: wf_induct_rule)
  case (less s)
  then show ?case
    using moves [of s] keeps [of s] descends [of s] by (cases "goal s") (auto intro: inevitably.intros)
qed

end

subsection \<open>The state\<close>

text \<open>
  Where each thread is. Whether a thread still holds a sender of the channel is decided by where it is: the
  monitor drops its own before it joins the worker. The initial scan has a thread of its own per event source,
  started once. A list in a phase is what the thread still has to send: the rest of a poll of the perf buffer,
  of one receive of the socket, or of a walk over \<^verbatim>\<open>/proc\<close>. \<open>sent_log\<close> is not kept by the code.
\<close>

datatype source = Bpf | Netlink_Socket

datatype signal_phase = Await_Signal | Flag_Raised | Signal_Gone

datatype 'p scanner_phase = Scanner_Off | Scanner_Check | Scanner_Sleep | Scanner_Walk "'p list"

datatype 'p monitor_phase =
    At_Start source | At_Check source | In_Poll "'p list" | In_Drain "'p list" | In_Recovery "'p list"
  | In_Join | Returned | Exit_One

record 'p daemon =
  flag :: bool
  channel :: "'p list"
  signal_thread :: signal_phase
  timer :: bool
  init_scans :: "'p list list"
  scanner :: "'p scanner_phase"
  first_start :: "source \<Rightarrow> bool"
  monitor_thread :: "'p monitor_phase"
  worker_on :: bool
  received :: "'p list"
  sent_log :: "'p list"

definition monitor_sends :: "'p monitor_phase \<Rightarrow> bool" where
  "monitor_sends m = (case m of In_Join \<Rightarrow> False | Returned \<Rightarrow> False | Exit_One \<Rightarrow> False | _ \<Rightarrow> True)"

definition has_sender :: "'p daemon \<Rightarrow> bool" where
  "has_sender s \<longleftrightarrow> signal_thread s \<noteq> Signal_Gone \<or> init_scans s \<noteq> [] \<or> scanner s \<noteq> Scanner_Off \<or>
     monitor_sends (monitor_thread s)"

text \<open>The process is there until \<^verbatim>\<open>main\<close> returns or calls \<^verbatim>\<open>exit\<close>.\<close>

definition alive :: "'p daemon \<Rightarrow> bool" where
  "alive s \<longleftrightarrow> monitor_thread s \<noteq> Returned \<and> monitor_thread s \<noteq> Exit_One"

text \<open>\<^verbatim>\<open>tx.send\<close>, which fails once the receiver is gone.\<close>

definition send :: "'p \<Rightarrow> 'p daemon \<Rightarrow> 'p daemon option" where
  "send p s = (if worker_on s then Some (s\<lparr>channel := channel s @ [p], sent_log := sent_log s @ [p]\<rparr>) else None)"

text \<open>The start of \<^verbatim>\<open>monitor::run\<close>, with the threads the options asked for.\<close>

definition running :: "bool \<Rightarrow> bool \<Rightarrow> source \<Rightarrow> 'p daemon" where
  "running benchmark manual_scanning src =
     \<lparr>flag = False, channel = [], signal_thread = Await_Signal, timer = benchmark, init_scans = [],
      scanner = (if manual_scanning then Scanner_Check else Scanner_Off), first_start = (\<lambda>_. True),
      monitor_thread = At_Start src, worker_on = True, received = [], sent_log = []\<rparr>"

subsection \<open>The threads\<close>

text \<open>The worker: one process, with the count of \<^verbatim>\<open>--benchmark-count\<close>, or the end of the channel.\<close>

inductive worker_step :: "nat option \<Rightarrow> 'p daemon \<Rightarrow> 'p daemon \<Rightarrow> bool" for limit where
  recv: "worker_on s \<Longrightarrow> channel s = p # ps \<Longrightarrow>
    worker_step limit s (s\<lparr>channel := ps, received := received s @ [p],
      flag := (flag s \<or> (\<exists>n. limit = Some n \<and> n \<le> length (received s) + 1))\<rparr>)"
| recv_closed: "worker_on s \<Longrightarrow> channel s = [] \<Longrightarrow> \<not> has_sender s \<Longrightarrow> worker_step limit s (s\<lparr>worker_on := False\<rparr>)"

text \<open>The signal thread: a termination signal raises the flag, then the sender is dropped.\<close>

inductive raise_flag :: "'p daemon \<Rightarrow> 'p daemon \<Rightarrow> bool" where
  signalled: "signal_thread s = Await_Signal \<Longrightarrow> raise_flag s (s\<lparr>flag := True, signal_thread := Flag_Raised\<rparr>)"

inductive signal_step :: "'p daemon \<Rightarrow> 'p daemon \<Rightarrow> bool" where
  drop_tx: "signal_thread s = Flag_Raised \<Longrightarrow> signal_step s (s\<lparr>signal_thread := Signal_Gone\<rparr>)"

text \<open>The timer of \<^verbatim>\<open>--benchmark\<close>.\<close>

inductive timer_step :: "'p daemon \<Rightarrow> 'p daemon \<Rightarrow> bool" where
  elapsed: "timer s \<Longrightarrow> timer_step s (s\<lparr>flag := True, timer := False\<rparr>)"

text \<open>An initial scan: it ends with the walk, or early when the receiver is gone.\<close>

inductive scan_step :: "'p daemon \<Rightarrow> 'p daemon \<Rightarrow> bool" where
  scan_send: "init_scans s = xs @ (p # ps) # ys \<Longrightarrow> send p s = Some s' \<Longrightarrow>
    scan_step s (s'\<lparr>init_scans := xs @ ps # ys\<rparr>)"
| scan_closed: "init_scans s = xs @ (p # ps) # ys \<Longrightarrow> send p s = None \<Longrightarrow> scan_step s (s\<lparr>init_scans := xs @ ys\<rparr>)"
| scan_end: "init_scans s = xs @ [] # ys \<Longrightarrow> scan_step s (s\<lparr>init_scans := xs @ ys\<rparr>)"

text \<open>The scanner of \<^verbatim>\<open>--manual-scanning\<close>: the flag, a second of sleep, and a walk when the interval is over.\<close>

inductive scanner_step :: "'p daemon \<Rightarrow> 'p daemon \<Rightarrow> bool" where
  scanner_stop: "scanner s = Scanner_Check \<Longrightarrow> flag s \<Longrightarrow> scanner_step s (s\<lparr>scanner := Scanner_Off\<rparr>)"
| scanner_go_on: "scanner s = Scanner_Check \<Longrightarrow> \<not> flag s \<Longrightarrow> scanner_step s (s\<lparr>scanner := Scanner_Sleep\<rparr>)"
| scanner_early: "scanner s = Scanner_Sleep \<Longrightarrow> scanner_step s (s\<lparr>scanner := Scanner_Check\<rparr>)"
| scanner_due: "scanner s = Scanner_Sleep \<Longrightarrow> scanner_step s (s\<lparr>scanner := Scanner_Walk ps\<rparr>)"
| scanner_send: "scanner s = Scanner_Walk (p # ps) \<Longrightarrow> send p s = Some s' \<Longrightarrow>
    scanner_step s (s'\<lparr>scanner := Scanner_Walk ps\<rparr>)"
| scanner_closed: "scanner s = Scanner_Walk (p # ps) \<Longrightarrow> send p s = None \<Longrightarrow>
    scanner_step s (s\<lparr>scanner := Scanner_Check\<rparr>)"
| scanner_done: "scanner s = Scanner_Walk [] \<Longrightarrow> scanner_step s (s\<lparr>scanner := Scanner_Check\<rparr>)"

text \<open>
  Starting an event source: the first time it runs an initial scan is spawned, which may fail. A BPF monitor
  whose perf buffer cannot be built comes back from \<^verbatim>\<open>listen\<close> at once.
\<close>

inductive spawn_scan :: "source \<Rightarrow> 'p daemon \<Rightarrow> 'p daemon \<Rightarrow> bool" for src where
  spawned: "first_start s src \<Longrightarrow>
    spawn_scan src s (s\<lparr>first_start := (first_start s)(src := False), init_scans := init_scans s @ [ps]\<rparr>)"
| not_spawned: "first_start s src \<Longrightarrow> spawn_scan src s (s\<lparr>first_start := (first_start s)(src := False)\<rparr>)"
| not_first: "\<not> first_start s src \<Longrightarrow> spawn_scan src s s"

definition goto :: "'p monitor_phase \<Rightarrow> 'p daemon \<Rightarrow> 'p daemon" where
  "goto m s = s\<lparr>monitor_thread := m\<rparr>"

inductive monitor_step :: "'p daemon \<Rightarrow> 'p daemon \<Rightarrow> bool" where
  started: "monitor_thread s = At_Start src \<Longrightarrow> spawn_scan src s s' \<Longrightarrow> monitor_step s (goto (At_Check src) s')"
| no_buffer: "monitor_thread s = At_Start Bpf \<Longrightarrow> spawn_scan Bpf s s' \<Longrightarrow>
    monitor_step s (goto (if flag s then In_Join else At_Start Bpf) s')"
| no_bpf: "monitor_thread s = At_Start Bpf \<Longrightarrow> monitor_step s (goto (At_Start Netlink_Socket) s)"
| no_socket: "monitor_thread s = At_Start Netlink_Socket \<Longrightarrow> monitor_step s (goto Exit_One s)"
| told_to_stop: "monitor_thread s = At_Check src \<Longrightarrow> flag s \<Longrightarrow> monitor_step s (goto In_Join s)"
| polled: "monitor_thread s = At_Check Bpf \<Longrightarrow> \<not> flag s \<Longrightarrow> monitor_step s (goto (In_Poll ps) s)"
| woken: "monitor_thread s = At_Check Netlink_Socket \<Longrightarrow> \<not> flag s \<Longrightarrow> monitor_step s (goto (In_Drain []) s)"
| timed_out: "monitor_thread s = At_Check Netlink_Socket \<Longrightarrow> \<not> flag s \<Longrightarrow> monitor_step s s"
| sample: "monitor_thread s = In_Poll (p # ps) \<Longrightarrow>
    monitor_step s (goto (In_Poll ps) (case send p s of Some s' \<Rightarrow> s' | None \<Rightarrow> s\<lparr>flag := True\<rparr>))"
| poll_over: "monitor_thread s = In_Poll [] \<Longrightarrow> monitor_step s (goto (At_Check Bpf) s)"
| message: "monitor_thread s = In_Drain (p # ps) \<Longrightarrow> send p s = Some s' \<Longrightarrow> monitor_step s (goto (In_Drain ps) s')"
| message_closed: "monitor_thread s = In_Drain (p # ps) \<Longrightarrow> send p s = None \<Longrightarrow>
    monitor_step s (goto In_Join (s\<lparr>flag := True\<rparr>))"
| drained: "monitor_thread s = In_Drain [] \<Longrightarrow> monitor_step s (goto (At_Check Netlink_Socket) s)"
| recovery_send: "monitor_thread s = In_Recovery (p # ps) \<Longrightarrow> send p s = Some s' \<Longrightarrow>
    monitor_step s (goto (In_Recovery ps) s')"
| recovery_closed: "monitor_thread s = In_Recovery (p # ps) \<Longrightarrow> send p s = None \<Longrightarrow>
    monitor_step s (goto (At_Start Netlink_Socket) s)"
| recovery_over: "monitor_thread s = In_Recovery [] \<Longrightarrow> monitor_step s (goto (At_Start Netlink_Socket) s)"
| joined: "monitor_thread s = In_Join \<Longrightarrow> \<not> worker_on s \<Longrightarrow> monitor_step s (goto Returned s)"

text \<open>
  What only a busy or failing netlink socket does: another receive brings messages although the flag may be up,
  which the drain loop does not look at, or the listener fails, when it is set up or later, and the monitor
  walks \<^verbatim>\<open>/proc\<close> before it opens another one.
\<close>

inductive socket_step :: "'p daemon \<Rightarrow> 'p daemon \<Rightarrow> bool" where
  messages: "monitor_thread s = In_Drain [] \<Longrightarrow> socket_step s (goto (In_Drain ps) s)"
| listen_failed: "monitor_thread s = In_Drain [] \<Longrightarrow> socket_step s (goto (In_Recovery ps) s)"
| set_up_failed: "monitor_thread s = At_Start Netlink_Socket \<Longrightarrow> spawn_scan Netlink_Socket s s' \<Longrightarrow>
    socket_step s (goto (In_Recovery ps) s')"

text \<open>A step of the daemon with no signal and a quiet socket, and any step at all.\<close>

definition quiet_step :: "nat option \<Rightarrow> 'p daemon \<Rightarrow> 'p daemon \<Rightarrow> bool" where
  "quiet_step limit s t \<longleftrightarrow> alive s \<and>
     (worker_step limit s t \<or> signal_step s t \<or> timer_step s t \<or> scan_step s t \<or> scanner_step s t \<or> monitor_step s t)"

definition unsignalled_step :: "nat option \<Rightarrow> 'p daemon \<Rightarrow> 'p daemon \<Rightarrow> bool" where
  "unsignalled_step limit s t \<longleftrightarrow> quiet_step limit s t \<or> alive s \<and> socket_step s t"

definition daemon_step :: "nat option \<Rightarrow> 'p daemon \<Rightarrow> 'p daemon \<Rightarrow> bool" where
  "daemon_step limit s t \<longleftrightarrow> unsignalled_step limit s t \<or> alive s \<and> raise_flag s t"

lemmas thread_steps = worker_step.simps raise_flag.simps signal_step.simps timer_step.simps scan_step.simps
  scanner_step.simps monitor_step.simps socket_step.simps

subsection \<open>Nothing sent is lost\<close>

definition threads_ok :: "'p daemon \<Rightarrow> bool" where
  "threads_ok s \<longleftrightarrow> sent_log s = received s @ channel s \<and> (\<not> worker_on s \<longrightarrow> channel s = [] \<and> \<not> has_sender s) \<and>
     (signal_thread s \<noteq> Await_Signal \<longrightarrow> flag s) \<and> (monitor_thread s = Returned \<longrightarrow> \<not> worker_on s)"

lemmas threads_simps = threads_ok_def has_sender_def monitor_sends_def send_def goto_def

lemma threads_ok_running: "threads_ok (running benchmark manual_scanning src)"
  by (simp add: threads_simps running_def)

lemma spawn_scan_ok: "spawn_scan src s s' \<Longrightarrow> worker_on s' = worker_on s \<and> sent_log s' = sent_log s \<and>
    received s' = received s \<and> channel s' = channel s \<and> signal_thread s' = signal_thread s \<and> flag s' = flag s \<and>
    monitor_thread s' = monitor_thread s \<and> scanner s' = scanner s \<and> timer s' = timer s"
  by (auto simp: spawn_scan.simps)

lemma threads_ok_worker: "worker_step limit s t \<Longrightarrow> threads_ok s \<Longrightarrow> threads_ok t"
  by (auto simp: worker_step.simps threads_simps)

lemma threads_ok_signal: "raise_flag s t \<or> signal_step s t \<or> timer_step s t \<Longrightarrow> threads_ok s \<Longrightarrow> threads_ok t"
  by (auto simp: raise_flag.simps signal_step.simps timer_step.simps threads_simps)

lemma threads_ok_scans: "scan_step s t \<or> scanner_step s t \<Longrightarrow> threads_ok s \<Longrightarrow> threads_ok t"
  by (auto simp: scan_step.simps scanner_step.simps threads_simps split: if_splits)

lemma threads_ok_monitor: "monitor_step s t \<or> socket_step s t \<Longrightarrow> threads_ok s \<Longrightarrow> threads_ok t"
  by (auto simp: monitor_step.simps socket_step.simps threads_simps split: if_splits dest!: spawn_scan_ok)

lemma threads_ok_step: "daemon_step limit s t \<Longrightarrow> threads_ok s \<Longrightarrow> threads_ok t"
  unfolding daemon_step_def unsignalled_step_def quiet_step_def
  using threads_ok_worker threads_ok_signal threads_ok_scans threads_ok_monitor by blast

lemma threads_ok_reachable: "(daemon_step limit)\<^sup>*\<^sup>* (running b m src) s \<Longrightarrow> threads_ok s"
  by (induction rule: rtranclp_induct) (auto intro: threads_ok_running threads_ok_step)

subsection \<open>The way down\<close>

text \<open>
  Once the flag is up no thread starts over: \<open>steps_left\<close> bounds the phases a thread has still to go through, and
  \<open>work_left\<close> counts twice what is to be sent and once what is in the channel. A phase may bring any amount of
  new work, so the two are compared in this order.
\<close>

definition signal_rank :: "signal_phase \<Rightarrow> nat" where
  "signal_rank p = (case p of Signal_Gone \<Rightarrow> 0 | _ \<Rightarrow> 1)"

definition scanner_rank :: "'p scanner_phase \<Rightarrow> nat" where
  "scanner_rank p = (case p of Scanner_Off \<Rightarrow> 0 | Scanner_Check \<Rightarrow> 1 | Scanner_Walk ps \<Rightarrow> 2 | Scanner_Sleep \<Rightarrow> 3)"

definition monitor_rank :: "'p monitor_phase \<Rightarrow> nat" where
  "monitor_rank m =
     (case m of
        Returned \<Rightarrow> 0 | Exit_One \<Rightarrow> 0 | In_Join \<Rightarrow> 1 | At_Check src \<Rightarrow> 2 | In_Poll ps \<Rightarrow> 3 | In_Drain ps \<Rightarrow> 3
      | At_Start src \<Rightarrow> (case src of Netlink_Socket \<Rightarrow> 3 | Bpf \<Rightarrow> 4) | In_Recovery ps \<Rightarrow> 4)"

definition steps_left :: "'p daemon \<Rightarrow> nat" where
  "steps_left s = signal_rank (signal_thread s) + scanner_rank (scanner s) + monitor_rank (monitor_thread s) +
     of_bool (timer s) + of_bool (worker_on s)"

definition to_send :: "'p monitor_phase \<Rightarrow> nat" where
  "to_send m = (case m of In_Poll ps \<Rightarrow> length ps | In_Drain ps \<Rightarrow> length ps | In_Recovery ps \<Rightarrow> length ps | _ \<Rightarrow> 0)"

definition work_left :: "'p daemon \<Rightarrow> nat" where
  "work_left s = sum_list (map (\<lambda>ps. 2 * length ps + 1) (init_scans s)) + length (channel s) +
     2 * to_send (monitor_thread s) + (case scanner s of Scanner_Walk ps \<Rightarrow> 2 * length ps | _ \<Rightarrow> 0)"

lemmas rank_simps = steps_left_def work_left_def signal_rank_def scanner_rank_def monitor_rank_def to_send_def
  send_def goto_def

definition stopping :: "'p daemon \<Rightarrow> bool" where
  "stopping s \<longleftrightarrow> threads_ok s \<and> signal_thread s \<noteq> Await_Signal"

definition stopped :: "'p daemon \<Rightarrow> bool" where
  "stopped s \<longleftrightarrow> monitor_thread s = Exit_One \<or>
     monitor_thread s = Returned \<and> \<not> worker_on s \<and> channel s = [] \<and> received s = sent_log s"

lemma stopping_flag: "stopping s \<Longrightarrow> flag s"
  by (simp add: stopping_def threads_ok_def)

lemma stopping_step: "stopping s \<Longrightarrow> daemon_step limit s t \<Longrightarrow> stopping t"
proof -
  assume "stopping s" "daemon_step limit s t"
  moreover from this have "signal_thread t \<noteq> Await_Signal"
    by (auto simp: stopping_def daemon_step_def unsignalled_step_def quiet_step_def thread_steps goto_def send_def
        split: if_splits dest!: spawn_scan_ok)
  ultimately show ?thesis using threads_ok_step by (auto simp: stopping_def)
qed

lemma less_worker: "worker_step limit s t \<Longrightarrow> (t, s) \<in> measures [steps_left, work_left]"
  by (auto simp: worker_step.simps rank_simps)

lemma less_signal: "signal_step s t \<or> timer_step s t \<Longrightarrow> (t, s) \<in> measures [steps_left, work_left]"
  by (auto simp: signal_step.simps timer_step.simps rank_simps)

lemma less_scans: "scan_step s t \<Longrightarrow> (t, s) \<in> measures [steps_left, work_left]"
  by (auto simp: scan_step.simps rank_simps split: if_splits)

lemma less_scanner: "flag s \<Longrightarrow> scanner_step s t \<Longrightarrow> (t, s) \<in> measures [steps_left, work_left]"
  by (auto simp: scanner_step.simps rank_simps split: if_splits)

lemma less_monitor: "flag s \<Longrightarrow> monitor_step s t \<Longrightarrow> (t, s) \<in> measures [steps_left, work_left]"
  by (auto simp: monitor_step.simps rank_simps split: if_splits source.splits dest!: spawn_scan_ok)

lemma quiet_less: "stopping s \<Longrightarrow> quiet_step limit s t \<Longrightarrow> (t, s) \<in> measures [steps_left, work_left]"
  unfolding quiet_step_def
  using less_worker less_signal less_scans less_scanner less_monitor stopping_flag by blast

lemma scan_can_step: "init_scans s = ps # pss \<Longrightarrow> \<exists>t. scan_step s t"
proof (cases ps)
  case (Cons p ps')
  then show "init_scans s = ps # pss \<Longrightarrow> \<exists>t. scan_step s t"
    using scan_send [of s "[]" p ps' pss] scan_closed [of s "[]" p ps' pss] by (cases "send p s") auto
qed (use scan_end [of s "[]" pss] in auto)

lemma scanner_can_step: "scanner s \<noteq> Scanner_Off \<Longrightarrow> \<exists>t. scanner_step s t"
proof (cases "scanner s")
  case (Scanner_Walk ps)
  then show ?thesis
    using scanner_send [of s] scanner_closed [of s] scanner_done [of s]
    by (cases ps; cases "send (hd ps) s") (simp_all, blast+)
qed (use scanner_stop [of s] scanner_go_on [of s] scanner_early [of s] in auto)

lemma monitor_can_step:
  assumes "flag s" and "monitor_sends (monitor_thread s)"
  shows "\<exists>t. monitor_step s t"
proof (cases "monitor_thread s")
  case (At_Start src)
  then show ?thesis using no_bpf [of s] no_socket [of s] by (cases src) auto
next
  case (In_Drain ps)
  then show ?thesis
    using message [of s] message_closed [of s] drained [of s] by (cases ps; cases "send (hd ps) s") (simp_all, blast+)
next
  case (In_Recovery ps)
  then show ?thesis
    using recovery_send [of s] recovery_closed [of s] recovery_over [of s]
    by (cases ps; cases "send (hd ps) s") (simp_all, blast+)
next
  case (In_Poll ps)
  then show ?thesis using sample [of s] poll_over [of s] by (cases ps) (simp, blast)+
qed (use assms told_to_stop [of s] in \<open>simp_all add: monitor_sends_def\<close>, blast+)

text \<open>The worker waits for a process or the end of the channel, which the signal thread alone keeps open.\<close>

definition held_up :: "'p daemon \<Rightarrow> bool" where
  "held_up s \<longleftrightarrow> monitor_thread s = In_Join \<and> worker_on s \<and> channel s = [] \<and> signal_thread s = Await_Signal"

lemma moves_unless_held_up:
  assumes "flag s" and "alive s" and "\<not> held_up s"
  shows "\<exists>t. quiet_step limit s t"
proof -
  have join: "monitor_thread s = In_Join" if "\<not> monitor_sends (monitor_thread s)"
    using that assms(2) by (cases "monitor_thread s") (auto simp: monitor_sends_def alive_def)
  have "\<exists>t. worker_step limit s t \<or> signal_step s t \<or> timer_step s t \<or> scan_step s t \<or> scanner_step s t \<or> monitor_step s t"
  proof (cases "worker_on s \<and> \<not> monitor_sends (monitor_thread s)")
    case True
    show ?thesis
    proof (cases "channel s = [] \<and> has_sender s")
      case sender: True
      then have "signal_thread s = Flag_Raised \<or> init_scans s \<noteq> [] \<or> scanner s \<noteq> Scanner_Off"
        using True assms(3) join by (cases "signal_thread s") (auto simp: has_sender_def held_up_def)
      then show ?thesis
        using drop_tx [of s] scan_can_step [of s] scanner_can_step [of s] by (cases "init_scans s") auto
    next
      case False
      then show ?thesis using True recv [of s] recv_closed [of s] by (cases "channel s") (simp, blast)+
    qed
  qed (use assms(1) joined [of s] join monitor_can_step [of s] in blast)
  with assms(2) show ?thesis by (auto simp: quiet_step_def)
qed

subsection \<open>The daemon stops when it is told to\<close>

interpretation down: progress "quiet_step limit" stopping "measures [steps_left, work_left]" stopped for limit
proof unfold_locales
  show "\<exists>t. quiet_step limit s t" if "stopping s" "\<not> stopped s" for s :: "'a daemon"
    by (rule moves_unless_held_up)
      (use that in \<open>auto simp: stopping_def threads_ok_def stopped_def alive_def held_up_def\<close>)
qed (auto intro: stopping_step quiet_less simp: daemon_step_def unsignalled_step_def simp del: in_measures)

lemma stopping_run: "stopping (f 0) \<Longrightarrow> \<forall>i. daemon_step limit (f i) (f (Suc i)) \<Longrightarrow> stopping (f n)"
  by (induction n) (auto intro: stopping_step)

lemma stopping_quiet: "stopping s \<Longrightarrow> daemon_step limit s t \<Longrightarrow> \<not> socket_step s t \<Longrightarrow> quiet_step limit s t"
  by (auto simp: daemon_step_def unsignalled_step_def stopping_def raise_flag.simps)

text \<open>
  C32: Only a netlink socket can keep the daemon up after a termination signal. Whatever the threads were doing when
  the signal came and in whatever order they run, a run that goes on forever after it has infinitely many steps of
  the socket: receives that bring messages, or failures of the listener.
\<close>
theorem endless_shutdown_needs_socket:
  assumes "(daemon_step limit)\<^sup>*\<^sup>* (running benchmark manual_scanning src) (f 0)"
    and "signal_thread (f 0) \<noteq> Await_Signal" and "\<forall>i. daemon_step limit (f i) (f (Suc i))"
  shows "\<forall>n. \<exists>i \<ge> n. socket_step (f i) (f (Suc i))"
proof (rule ccontr)
  assume "\<not> (\<forall>n. \<exists>i \<ge> n. socket_step (f i) (f (Suc i)))"
  then obtain n where quiet: "\<And>i. n \<le> i \<Longrightarrow> \<not> socket_step (f i) (f (Suc i))" by blast
  have stopping: "stopping (f i)" for i
    by (rule stopping_run [OF _ assms(3)]) (use assms(1,2) threads_ok_reachable in \<open>auto simp: stopping_def\<close>)
  have "quiet_step limit (f (n + i)) (f (n + Suc i))" for i
    using stopping_quiet [OF stopping, of limit "n + i" "f (n + Suc i)"] assms(3) quiet [of "n + i"] by simp
  then show False using down.no_infinite_run [of "\<lambda>i. f (n + i)" limit] stopping by simp
qed

text \<open>
  C33: After a termination signal the daemon gets to its end as soon as the netlink socket is quiet: from any state
  reached after the signal, on every run in which the socket brings no further message and the listener does not fail,
  it returns from the join with the worker ended, the channel empty and every process it was ever sent dealt with, or
  a netlink monitor that cannot be opened makes it exit. (A monitor on BPF has no such socket, unless it falls back.)
\<close>
theorem shutdown_completes:
  assumes "(daemon_step limit)\<^sup>*\<^sup>* (running benchmark manual_scanning src) s"
    and "signal_thread s \<noteq> Await_Signal"
  shows "inevitably (quiet_step limit) stopped s"
  using down.inevitable [of s limit] threads_ok_reachable [OF assms(1)] assms(2) by (auto simp: stopping_def)

subsection \<open>Without a signal it does not\<close>

definition flagged_only :: "'p daemon \<Rightarrow> bool" where
  "flagged_only s \<longleftrightarrow> threads_ok s \<and> flag s \<and> signal_thread s = Await_Signal"

definition stuck :: "nat option \<Rightarrow> 'p daemon \<Rightarrow> bool" where
  "stuck limit s \<longleftrightarrow> monitor_thread s = Exit_One \<or>
     monitor_thread s = In_Join \<and> worker_on s \<and> received s = sent_log s \<and> (\<forall>t. \<not> unsignalled_step limit s t)"

lemma flag_stays: "unsignalled_step limit s t \<Longrightarrow> flag s \<Longrightarrow> flag t"
  by (auto simp: unsignalled_step_def quiet_step_def thread_steps goto_def send_def split: if_splits dest!: spawn_scan_ok)

lemma await_stays: "unsignalled_step limit s t \<Longrightarrow> signal_thread s = Await_Signal \<Longrightarrow> signal_thread t = Await_Signal"
  by (auto simp: unsignalled_step_def quiet_step_def thread_steps goto_def send_def split: if_splits dest!: spawn_scan_ok)

lemma flagged_less: "flagged_only s \<Longrightarrow> quiet_step limit s t \<Longrightarrow> (t, s) \<in> measures [steps_left, work_left]"
  unfolding quiet_step_def flagged_only_def using less_worker less_signal less_scans less_scanner less_monitor by blast

lemma held_up_stuck: "threads_ok s \<Longrightarrow> held_up s \<Longrightarrow> \<not> (\<exists>t. quiet_step limit s t) \<Longrightarrow> stuck limit s"
  by (auto simp: stuck_def held_up_def threads_ok_def unsignalled_step_def socket_step.simps)

interpretation halt: progress "quiet_step limit" flagged_only "measures [steps_left, work_left]" "stuck limit" for limit
proof unfold_locales
  show "\<exists>t. quiet_step limit s t" if "flagged_only s" "\<not> stuck limit s" for s :: "'a daemon"
  proof (cases "held_up s")
    case False
    from that have "alive s" by (auto simp: flagged_only_def threads_ok_def has_sender_def alive_def stuck_def)
    with False that show ?thesis using moves_unless_held_up by (auto simp: flagged_only_def)
  qed (use that held_up_stuck in \<open>auto simp: flagged_only_def\<close>)
  show "flagged_only t" if "flagged_only s" "quiet_step limit s t" for s t :: "'a daemon"
    using that threads_ok_step flag_stays await_stays by (fastforce simp: flagged_only_def daemon_step_def unsignalled_step_def)
qed (auto intro: flagged_less simp del: in_measures)

text \<open>
  C34: A flag raised by anything but a signal, such as the timer of \<^verbatim>\<open>--benchmark\<close> or the count of
  \<^verbatim>\<open>--benchmark-count\<close>, does not make the daemon return: as long as no signal comes and the netlink socket is quiet
  (no further message and no failure of the listener), every run gets to a state where the monitor waits for the
  worker, which has dealt with all it was sent and waits for the channel, and where no thread can take a step but the
  one that waits for a signal; or a netlink monitor that cannot be opened makes it exit with an error.
\<close>
theorem flag_without_signal_hangs:
  assumes "(daemon_step limit)\<^sup>*\<^sup>* (running benchmark manual_scanning src) s"
    and "flag s" and "signal_thread s = Await_Signal"
  shows "inevitably (quiet_step limit) (stuck limit) s"
  using halt.inevitable [of s limit] threads_ok_reachable [OF assms(1)] assms(2,3) by (auto simp: flagged_only_def)

text \<open>A netlink socket that brings a message with every receive keeps a daemon that was told to stop running.\<close>

definition flood :: "'p \<Rightarrow> 'p daemon \<Rightarrow> nat \<Rightarrow> 'p daemon" where
  "flood p s i =
     s\<lparr>channel := channel s @ replicate (i div 2) p, sent_log := sent_log s @ replicate (i div 2) p,
       monitor_thread := In_Drain (if even i then [] else [p])\<rparr>"

lemma busy_socket_runs_on:
  assumes "monitor_thread s = In_Drain []" and "worker_on s"
  shows "flood p s 0 = s" and "unsignalled_step limit (flood p s i) (flood p s (Suc i))" and "alive (flood p s i)"
proof -
  show "flood p s 0 = s" using assms(1) by (simp add: flood_def)
  show alive: "alive (flood p s i)" by (simp add: flood_def alive_def)
  show "unsignalled_step limit (flood p s i) (flood p s (Suc i))"
  proof (cases "even i")
    case True
    then have "socket_step (flood p s i) (flood p s (Suc i))"
      using messages [of "flood p s i" "[p]"] by (simp add: flood_def goto_def)
    with alive show ?thesis by (simp add: unsignalled_step_def)
  next
    case False
    then obtain k where "i = Suc (2 * k)" using oddE by fastforce
    then have "monitor_step (flood p s i) (flood p s (Suc i))"
      using message [of "flood p s i" p "[]"] assms(2) by (simp add: flood_def goto_def send_def replicate_append_same)
    with alive show ?thesis by (simp add: unsignalled_step_def quiet_step_def)
  qed
qed

subsection \<open>Concrete runs\<close>

text \<open>A BPF monitor whose initial scan found one process; then a signal, or the count of one process.\<close>

definition scanning :: "nat daemon" where
  "scanning = (running False False Bpf)
     \<lparr>first_start := (\<lambda>_. True)(Bpf := False), init_scans := [[7]], monitor_thread := At_Check Bpf\<rparr>"

definition told :: "nat daemon" where
  "told = scanning\<lparr>flag := True, signal_thread := Flag_Raised\<rparr>"

definition counted :: "nat daemon" where
  "counted = scanning\<lparr>flag := True, init_scans := [[]], received := [7], sent_log := [7]\<rparr>"

lemma scanning_reached: "(daemon_step limit)\<^sup>*\<^sup>* (running False False Bpf) scanning"
proof -
  let ?s = "running False False Bpf :: nat daemon"
  let ?t = "?s\<lparr>first_start := (\<lambda>_. True)(Bpf := False), init_scans := [[7]]\<rparr>"
  have "spawn_scan Bpf ?s ?t"
    using spawned [of ?s Bpf "[7]"] by (simp add: running_def)
  then have "monitor_step ?s scanning"
    using started [of ?s Bpf ?t] by (simp add: scanning_def running_def goto_def)
  then show ?thesis
    by (intro r_into_rtranclp) (simp add: daemon_step_def unsignalled_step_def quiet_step_def alive_def running_def)
qed

lemma told_reached: "(daemon_step limit)\<^sup>*\<^sup>* (running False False Bpf) told"
proof -
  have "raise_flag scanning told" using signalled [of scanning] by (simp add: told_def scanning_def running_def)
  then have "daemon_step limit scanning told" by (simp add: daemon_step_def alive_def scanning_def)
  with scanning_reached show ?thesis by (rule rtranclp.rtrancl_into_rtrancl)
qed

lemma counted_reached: "(daemon_step (Some 1))\<^sup>*\<^sup>* (running False False Bpf) counted"
proof -
  define sent where "sent = scanning\<lparr>init_scans := [[]], channel := [7], sent_log := [7]\<rparr>"
  have "scan_step scanning sent"
    using scan_send [of scanning "[]" 7 "[]" "[]"] by (simp add: sent_def scanning_def running_def send_def)
  then have "daemon_step (Some 1) scanning sent"
    by (simp add: daemon_step_def unsignalled_step_def quiet_step_def alive_def scanning_def)
  moreover have "worker_step (Some 1) sent counted"
    using recv [of sent 7 "[]" "Some 1"] by (simp add: sent_def counted_def scanning_def running_def)
  then have "daemon_step (Some 1) sent counted"
    by (simp add: daemon_step_def unsignalled_step_def quiet_step_def alive_def sent_def scanning_def)
  ultimately show ?thesis using scanning_reached by (meson rtranclp.rtrancl_into_rtrancl)
qed

text \<open>A netlink monitor in the middle of a drain when the signal comes.\<close>

definition draining :: "nat daemon" where
  "draining = (running False False Netlink_Socket)
     \<lparr>flag := True, signal_thread := Flag_Raised, first_start := (\<lambda>_. True)(Netlink_Socket := False),
      monitor_thread := In_Drain []\<rparr>"

lemma draining_reached: "(daemon_step limit)\<^sup>*\<^sup>* (running False False Netlink_Socket) draining"
proof -
  let ?s = "running False False Netlink_Socket :: nat daemon"
  let ?t = "?s\<lparr>first_start := (\<lambda>_. True)(Netlink_Socket := False)\<rparr>"
  have "spawn_scan Netlink_Socket ?s ?t" using not_spawned [of ?s Netlink_Socket] by (simp add: running_def)
  then have "monitor_step ?s (goto (At_Check Netlink_Socket) ?t)"
    by (intro started) (simp add: running_def)
  then have "daemon_step limit ?s (goto (At_Check Netlink_Socket) ?t)"
    by (simp add: daemon_step_def unsignalled_step_def quiet_step_def alive_def running_def)
  moreover have "monitor_step (goto (At_Check Netlink_Socket) ?t) (goto (In_Drain []) ?t)"
    using woken [of "goto (At_Check Netlink_Socket) ?t"] by (simp add: goto_def running_def)
  then have "daemon_step limit (goto (At_Check Netlink_Socket) ?t) (goto (In_Drain []) ?t)"
    by (simp add: daemon_step_def unsignalled_step_def quiet_step_def alive_def goto_def)
  moreover have "raise_flag (goto (In_Drain []) ?t) draining"
    using signalled [of "goto (In_Drain []) ?t"] by (simp add: goto_def running_def draining_def)
  then have "daemon_step limit (goto (In_Drain []) ?t) draining"
    by (simp add: daemon_step_def alive_def goto_def)
  ultimately show ?thesis by (intro rtranclp.rtrancl_into_rtrancl [OF rtranclp.rtrancl_into_rtrancl [OF r_into_rtranclp]])
qed

theorem endless_shutdown_needs_socket_witness:
  "(\<forall>i. daemon_step None (flood 7 draining i) (flood 7 draining (Suc i))) \<and>
   (\<forall>n. \<exists>i \<ge> n. socket_step (flood 7 draining i) (flood 7 draining (Suc i)))"
proof -
  have drain: "monitor_thread draining = In_Drain []" "worker_on draining" "signal_thread draining \<noteq> Await_Signal"
    by (simp_all add: draining_def running_def)
  have run: "\<forall>i. daemon_step None (flood 7 draining i) (flood 7 draining (Suc i))"
    using busy_socket_runs_on(2) [OF drain(1,2)] by (simp add: daemon_step_def)
  moreover note endless_shutdown_needs_socket [of None False False Netlink_Socket "flood 7 draining"]
  ultimately show ?thesis
    using draining_reached drain(3) busy_socket_runs_on(1) [OF drain(1,2)] by simp
qed

theorem shutdown_completes_witness: "inevitably (quiet_step None) stopped told"
  using shutdown_completes [of None False False Bpf told] told_reached by (simp add: told_def)

theorem flag_without_signal_hangs_witness: "inevitably (quiet_step (Some 1)) (stuck (Some 1)) counted"
  using flag_without_signal_hangs [of "Some 1" False False Bpf counted] counted_reached
  by (simp add: counted_def scanning_def running_def)

end
