(* ===== verification/Ipc.thy ===== *)
theory Ipc
  imports Procfs
begin

text \<open>
  \<^verbatim>\<open>src/src/ipc.rs\<close>: the shared-memory object that makes the daemon a singleton, its forced removal and
  the reload request. The operations are functions on a world; the start-up of several daemons is a
  step relation whose steps are the system calls between which others can run. The theorems say that
  a reload signals nothing but a running daemon, that without a forced removal no two daemons hold
  the object, and that a forced removal between two calls of a start-up breaks this.
\<close>

subsection \<open>Who is a daemon\<close>

definition proc_entry_looks_like_daemon :: "(int \<Rightarrow> string option) \<Rightarrow> int \<Rightarrow> bool" where
  "proc_entry_looks_like_daemon cmdline pid \<longleftrightarrow>
     0 < pid \<and>
     (case cmdline pid of
        None \<Rightarrow> False
      | Some raw \<Rightarrow>
          (let name = (case find (\<lambda>a. a \<noteq> []) (split_on (CHR 0x00) raw) of Some a \<Rightarrow> a | None \<Rightarrow> []) in
           file_name (path_of (from_utf8_lossy name)) = Some ''ananicy-rs''))"

subsection \<open>The object\<close>

text \<open>
  The object, if there is one; the error that opening it or removing it meets, if it does; the
  command lines; the error of \<^verbatim>\<open>kill\<close>, if any; and the processes that were signalled.
\<close>

record ipc_world =
  shm :: "string option"
  shm_error :: "int option"
  cmdlines :: "int \<Rightarrow> string option"
  kill_error :: "int option"
  signalled :: "int list"

definition shm_open :: "ipc_world \<Rightarrow> int + string" where
  "shm_open w =
     (case shm w of
        None \<Rightarrow> Inl enoent
      | Some text \<Rightarrow> (case shm_error w of Some e \<Rightarrow> Inl e | None \<Rightarrow> Inr text))"

definition shm_unlink :: "ipc_world \<Rightarrow> int option \<times> ipc_world" where
  "shm_unlink w =
     (case shm w of
        None \<Rightarrow> (Some enoent, w)
      | Some text \<Rightarrow> (case shm_error w of Some e \<Rightarrow> (Some e, w) | None \<Rightarrow> (None, w\<lparr>shm := None\<rparr>)))"

definition holder :: "string \<Rightarrow> int option" where
  "holder text = parse_i32 (trim text)"

datatype removed = LiveDaemon int | Gone_Now | Not_Removed int

text \<open>The running daemon the object names, if it can be read and names one.\<close>

definition live_owner :: "ipc_world \<Rightarrow> int option" where
  "live_owner w =
     (case shm_open w of
        Inl e \<Rightarrow> None
      | Inr text \<Rightarrow>
          Option.bind (holder text)
            (\<lambda>pid. if proc_entry_looks_like_daemon (cmdlines w) pid then Some pid else None))"

definition remove_stale_singleton :: "ipc_world \<Rightarrow> removed \<times> ipc_world" where
  "remove_stale_singleton w =
     (case live_owner w of
        Some pid \<Rightarrow> (LiveDaemon pid, w)
      | None \<Rightarrow>
          (case shm_unlink w of
             (None, w') \<Rightarrow> (Gone_Now, w')
           | (Some e, w') \<Rightarrow> (if e = enoent then Gone_Now else Not_Removed e, w')))"

text \<open>\<^verbatim>\<open>force_remove_semaphore\<close>, as the exit status.\<close>

definition force_remove_semaphore :: "ipc_world \<Rightarrow> nat \<times> ipc_world" where
  "force_remove_semaphore w =
     (case remove_stale_singleton w of
        (Gone_Now, w') \<Rightarrow> (0, w')
      | (_, w') \<Rightarrow> (1, w'))"

datatype singleton_error = Another_Instance "int option" | Stale_Object int | Open_Failed int

definition check_singleton :: "int \<Rightarrow> ipc_world \<Rightarrow> singleton_error option \<times> ipc_world" where
  "check_singleton me w =
     (case shm_open w of
        Inr text \<Rightarrow>
          (case holder text of
             Some pid \<Rightarrow>
               (Some (if proc_entry_looks_like_daemon (cmdlines w) pid then Another_Instance (Some pid)
                      else Stale_Object pid), w)
           | None \<Rightarrow> (Some (Another_Instance None), w))
      | Inl e \<Rightarrow> if e = enoent then (None, w\<lparr>shm := Some (show_int me)\<rparr>) else (Some (Open_Failed e), w))"

text \<open>\<^verbatim>\<open>Drop for IpcSingletonGuard\<close>.\<close>

definition drop_guard :: "ipc_world \<Rightarrow> ipc_world" where
  "drop_guard w = snd (shm_unlink w)"

definition request_reload :: "ipc_world \<Rightarrow> nat \<times> ipc_world" where
  "request_reload w =
     (case shm_open w of
        Inl e \<Rightarrow> (1, w)
      | Inr text \<Rightarrow>
          (case holder text of
             None \<Rightarrow> (1, w)
           | Some old_pid \<Rightarrow>
               if old_pid = 0 then (1, w)
               else if \<not> proc_entry_looks_like_daemon (cmdlines w) old_pid then (1, w)
               else if kill_error w \<noteq> None then (1, w)
               else (0, w\<lparr>signalled := signalled w @ [old_pid]\<rparr>)))"

text \<open>
  A reload request signals at most one process, the one the object names, and only when that
  process exists and its command is \<^verbatim>\<open>ananicy-rs\<close>; it reports success exactly when it signalled, and
  changes nothing else.
\<close>
theorem reload_signals_only_the_daemon:
  assumes "request_reload w = (status, w')"
  shows "w' = w \<and> status = 1 \<or>
    (\<exists>pid. w' = w\<lparr>signalled := signalled w @ [pid]\<rparr> \<and> status = 0 \<and> Option.bind (shm w) holder = Some pid \<and>
      proc_entry_looks_like_daemon (cmdlines w) pid)"
  using assms
  by (auto simp: request_reload_def shm_open_def split: sum.splits option.splits if_splits)

text \<open>A machine on which process 7 is the daemon and is named by the object.\<close>

definition sample_ipc :: ipc_world where
  "sample_ipc =
     \<lparr>shm = Some ''7'', shm_error = None, cmdlines = \<lambda>p. if p = 7 then Some ''/usr/bin/ananicy-rs'' else None,
      kill_error = None, signalled = []\<rparr>"

theorem reload_signals_only_the_daemon_witness:
  "request_reload sample_ipc = (0, sample_ipc\<lparr>signalled := [7]\<rparr>) \<and>
   proc_entry_looks_like_daemon (cmdlines sample_ipc) 7"
proof -
  have h: "holder ''7'' = Some 7" by (simp add: holder_def parse_i32_def eval_simps)
  have d: "proc_entry_looks_like_daemon (cmdlines sample_ipc) 7" by code_simp
  then have r: "request_reload sample_ipc = (0, sample_ipc\<lparr>signalled := [7]\<rparr>)"
    by (simp add: request_reload_def shm_open_def sample_ipc_def h)
  show ?thesis using reload_signals_only_the_daemon [OF r] r by (auto simp: sample_ipc_def h)
qed

subsection \<open>Several daemons\<close>

text \<open>
  A daemon between the calls of its start-up: it has found no object, it has created one and not yet
  written its number, it runs. The name refers to the object of the process that created it.
\<close>

datatype start_phase = Idle | Found_None | Created_Empty | Holding

record singletons =
  phase_of :: "int \<Rightarrow> start_phase"
  object_of :: "int option"
  text_of :: "int \<Rightarrow> string"

definition active :: "singletons \<Rightarrow> int \<Rightarrow> bool" where
  "active s p \<longleftrightarrow> phase_of s p = Created_Empty \<or> phase_of s p = Holding"

text \<open>What a forced removal sees: the object by its name, and a command line for every daemon that is up.\<close>

definition seen_by_removal :: "singletons \<Rightarrow> ipc_world" where
  "seen_by_removal s =
     \<lparr>shm = map_option (text_of s) (object_of s), shm_error = None,
      cmdlines = \<lambda>p. if phase_of s p = Idle then None else Some ''/usr/bin/ananicy-rs'',
      kill_error = None, signalled = []\<rparr>"

inductive singleton_step :: "bool \<Rightarrow> singletons \<Rightarrow> singletons \<Rightarrow> bool" for forced where
  found_none: "phase_of s p = Idle \<Longrightarrow> 0 < p \<Longrightarrow> object_of s = None \<Longrightarrow>
    singleton_step forced s (s\<lparr>phase_of := (phase_of s)(p := Found_None)\<rparr>)"
| created: "phase_of s p = Found_None \<Longrightarrow> object_of s = None \<Longrightarrow>
    singleton_step forced s
      (s\<lparr>phase_of := (phase_of s)(p := Created_Empty), object_of := Some p, text_of := (text_of s)(p := [])\<rparr>)"
| exists_now: "phase_of s p = Found_None \<Longrightarrow> object_of s \<noteq> None \<Longrightarrow>
    singleton_step forced s (s\<lparr>phase_of := (phase_of s)(p := Idle)\<rparr>)"
| wrote: "phase_of s p = Created_Empty \<Longrightarrow>
    singleton_step forced s
      (s\<lparr>phase_of := (phase_of s)(p := Holding), text_of := (text_of s)(p := show_int p)\<rparr>)"
| exited: "phase_of s p = Holding \<Longrightarrow>
    singleton_step forced s (s\<lparr>phase_of := (phase_of s)(p := Idle), object_of := None\<rparr>)"
| killed: "singleton_step forced s (s\<lparr>phase_of := (phase_of s)(p := Idle)\<rparr>)"
| removed: "forced \<Longrightarrow> fst (remove_stale_singleton (seen_by_removal s)) = Gone_Now \<Longrightarrow>
    singleton_step forced s (s\<lparr>object_of := None\<rparr>)"

definition nothing_started :: singletons where
  "nothing_started = \<lparr>phase_of = \<lambda>_. Idle, object_of = None, text_of = \<lambda>_. []\<rparr>"

lemma singleton_invariant:
  assumes "(singleton_step False)\<^sup>*\<^sup>* nothing_started s"
  shows "\<forall>p. active s p \<longrightarrow> object_of s = Some p"
  using assms
proof (induction rule: rtranclp_induct)
  case base
  show ?case by (simp add: nothing_started_def active_def)
next
  case (step s s')
  have one: "active s p \<Longrightarrow> active s q \<Longrightarrow> p = q" for p q using step.IH by (metis option.inject)
  from step.hyps(2) step.IH show ?case
    by (cases rule: singleton_step.cases) (use one in \<open>auto simp: active_def split: if_splits\<close>)
qed

text \<open>
  C29: However the starts, exits and kills of any number of daemons interleave between their system
  calls, no two of them ever hold the singleton, as long as nobody removes the object by force.
\<close>
theorem at_most_one_daemon:
  assumes "(singleton_step False)\<^sup>*\<^sup>* nothing_started s" and "active s p" and "active s q"
  shows "p = q"
  using singleton_invariant [OF assms(1)] assms(2,3) by (metis option.inject)

text \<open>Two daemons, numbers 1 and 2, in given phases.\<close>

definition two :: "start_phase \<Rightarrow> start_phase \<Rightarrow> int option \<Rightarrow> string \<Rightarrow> string \<Rightarrow> singletons" where
  "two a b obj t u =
     \<lparr>phase_of = \<lambda>p. if p = 1 then a else if p = 2 then b else Idle, object_of = obj,
      text_of = \<lambda>p. if p = 1 then t else if p = 2 then u else []\<rparr>"

lemma two_nothing: "nothing_started = two Idle Idle None [] []"
  by (simp add: nothing_started_def two_def fun_eq_iff)

lemma two_steps:
  "singleton_step f (two Idle b None t u) (two Found_None b None t u)"
  "singleton_step f (two a Idle None t u) (two a Found_None None t u)"
  "singleton_step f (two Found_None b None t u) (two Created_Empty b (Some 1) [] u)"
  "singleton_step f (two a Found_None None t u) (two a Created_Empty (Some 2) t [])"
  "singleton_step f (two Created_Empty b obj t u) (two Holding b obj (show_int 1) u)"
  "singleton_step f (two a Created_Empty obj t u) (two a Holding obj t (show_int 2))"
proof -
  have upd: "(two a b obj t u)\<lparr>phase_of := (phase_of (two a b obj t u))(1 := c)\<rparr> = two c b obj t u"
    "(two a b obj t u)\<lparr>phase_of := (phase_of (two a b obj t u))(2 := c)\<rparr> = two a c obj t u"
    "(two a b obj t u)\<lparr>object_of := obj'\<rparr> = two a b obj' t u"
    "(two a b obj t u)\<lparr>text_of := (text_of (two a b obj t u))(1 := t')\<rparr> = two a b obj t' u"
    "(two a b obj t u)\<lparr>text_of := (text_of (two a b obj t u))(2 := t')\<rparr> = two a b obj t t'"
    for a b c obj obj' t t' u
    by (simp_all add: two_def fun_eq_iff)
  have upd3: "(two a b obj t u)\<lparr>phase_of := (phase_of (two a b obj t u))(1 := c), object_of := obj', text_of := (text_of (two a b obj t u))(1 := t')\<rparr> = two c b obj' t' u"
    "(two a b obj t u)\<lparr>phase_of := (phase_of (two a b obj t u))(2 := c), object_of := obj', text_of := (text_of (two a b obj t u))(2 := t')\<rparr> = two a c obj' t t'"
    "(two a b obj t u)\<lparr>phase_of := (phase_of (two a b obj t u))(1 := c), text_of := (text_of (two a b obj t u))(1 := t')\<rparr> = two c b obj t' u"
    "(two a b obj t u)\<lparr>phase_of := (phase_of (two a b obj t u))(2 := c), text_of := (text_of (two a b obj t u))(2 := t')\<rparr> = two a c obj t t'"
    for a b c obj obj' t t' u
    by (simp_all add: two_def fun_eq_iff)
  have sel: "phase_of (two a b obj t u) 1 = a" "phase_of (two a b obj t u) 2 = b" "object_of (two a b obj t u) = obj"
    for a b obj t u by (simp_all add: two_def)
  show "singleton_step f (two Idle b None t u) (two Found_None b None t u)"
    using found_none [of "two Idle b None t u" 1 f] unfolding upd sel by simp
  show "singleton_step f (two a Idle None t u) (two a Found_None None t u)"
    using found_none [of "two a Idle None t u" 2 f] unfolding upd sel by simp
  show "singleton_step f (two Found_None b None t u) (two Created_Empty b (Some 1) [] u)"
    using created [of "two Found_None b None t u" 1 f] unfolding upd3 sel by simp
  show "singleton_step f (two a Found_None None t u) (two a Created_Empty (Some 2) t [])"
    using created [of "two a Found_None None t u" 2 f] unfolding upd3 sel by simp
  show "singleton_step f (two Created_Empty b obj t u) (two Holding b obj (show_int 1) u)"
    using wrote [of "two Created_Empty b obj t u" 1 f] unfolding upd3 sel by simp
  show "singleton_step f (two a Created_Empty obj t u) (two a Holding obj t (show_int 2))"
    using wrote [of "two a Created_Empty obj t u" 2 f] unfolding upd3 sel by simp
qed

lemma two_removed: "singleton_step True (two Created_Empty Idle (Some 1) [] []) (two Created_Empty Idle None [] [])"
proof -
  let ?s = "two Created_Empty Idle (Some 1) [] []"
  have "fst (remove_stale_singleton (seen_by_removal ?s)) = Gone_Now"
    by (simp add: remove_stale_singleton_def live_owner_def seen_by_removal_def two_def shm_open_def shm_unlink_def holder_def
        parse_i32_def parse_uint_def)
  then have "singleton_step True ?s (?s\<lparr>object_of := None\<rparr>)" by (intro singleton_step.removed) simp_all
  then show ?thesis by (simp add: two_def)
qed

lemma one_holding_reached: "(singleton_step False)\<^sup>*\<^sup>* nothing_started (two Holding Idle (Some 1) (show_int 1) [])"
proof -
  note step = converse_rtranclp_into_rtranclp [where r = "singleton_step False"]
  show ?thesis unfolding two_nothing
    by (rule step [OF two_steps(1)], rule step [OF two_steps(3)], rule step [OF two_steps(5)], rule rtranclp.rtrancl_refl)
qed

theorem at_most_one_daemon_witness:
  "active (two Holding Idle (Some 1) (show_int 1) []) 1 \<and> \<not> active (two Holding Idle (Some 1) (show_int 1) []) 2"
proof -
  have "active (two Holding Idle (Some 1) (show_int 1) []) 1" by (simp add: active_def two_def)
  then show ?thesis using at_most_one_daemon [OF one_holding_reached, of 1 2] by auto
qed

text \<open>
  The check for a live owner does not close the window between the creation of the object and the
  writing of its number: a forced removal in it takes the new object for a stale one, a second daemon starts,
  and both run.
\<close>
theorem forced_removal_admits_two_daemons:
  "\<exists>s. (singleton_step True)\<^sup>*\<^sup>* nothing_started s \<and> phase_of s 1 = Holding \<and> phase_of s 2 = Holding"
proof -
  note step = converse_rtranclp_into_rtranclp [where r = "singleton_step True"]
  have "(singleton_step True)\<^sup>*\<^sup>* nothing_started (two Holding Holding (Some 2) (show_int 1) (show_int 2))"
    unfolding two_nothing
    by (rule step [OF two_steps(1)], rule step [OF two_steps(3)], rule step [OF two_removed],
        rule step [OF two_steps(2)], rule step [OF two_steps(4)], rule step [OF two_steps(6)],
        rule step [OF two_steps(5)], rule rtranclp.rtrancl_refl)
  then show ?thesis by (intro exI conjI) (auto simp: two_def)
qed

end
