(* ===== verification/Daemon.thy ===== *)
theory Daemon
  imports Ipc Cgroup_Manager Json Priority Config_File
begin

text \<open>
  The life of the daemon: \<^verbatim>\<open>src/src/main.rs\<close> from the root check on, \<^verbatim>\<open>runtime.rs\<close>, the supervision of
  the event sources in \<^verbatim>\<open>monitor.rs\<close>, the driver mode of \<^verbatim>\<open>startup.rs\<close> and \<^verbatim>\<open>x3d.rs\<close>, and the settings of
  a cgroup rule. What the outside answers is a script; the daemon is a function from it to the
  actions it takes and to the way it ends. The theorems say when the driver mode is put back and
  when another daemon can start afterwards.
\<close>

subsection \<open>The X3D driver mode\<close>

datatype x3d_mode = Cache | Frequency

fun mode_text :: "x3d_mode \<Rightarrow> string" where
  "mode_text Cache = ''cache''"
| "mode_text Frequency = ''frequency''"

text \<open>The entries of the driver's directory are an argument, \<open>None\<close> if it cannot be listed.\<close>

definition x3d_mode_path :: "'k fs \<Rightarrow> string list option \<Rightarrow> 'k \<Rightarrow> path option" where
  "x3d_mode_path fs entries k =
     Option.bind entries (\<lambda>es.
       find (\<lambda>p. fs_exists fs p k)
         (map (\<lambda>e. push (push (push (path_of ''/sys'') ''bus/platform/drivers/amd_x3d_vcache'') e) ''amd_x3d_mode'') es))"

definition mode_of_text :: "string \<Rightarrow> x3d_mode option" where
  "mode_of_text s =
     (if trim s = ''cache'' then Some Cache else if trim s = ''frequency'' then Some Frequency else None)"

definition get_driver_mode :: "'k fs \<Rightarrow> string list option \<Rightarrow> 'k \<Rightarrow> x3d_mode option" where
  "get_driver_mode fs entries k =
     Option.bind (x3d_mode_path fs entries k) (\<lambda>p. Option.bind (read_ok fs p k) mode_of_text)"

definition set_driver_mode :: "'k fs \<Rightarrow> string list option \<Rightarrow> x3d_mode \<Rightarrow> 'k \<Rightarrow> bool \<times> 'k" where
  "set_driver_mode fs entries mode k =
     (case x3d_mode_path fs entries k of None \<Rightarrow> (False, k) | Some p \<Rightarrow> fs_write_all fs p (mode_text mode) k)"

definition apply_x3d_mode :: "'k fs \<Rightarrow> string list option \<Rightarrow> string \<Rightarrow> 'k \<Rightarrow> x3d_mode option \<times> 'k" where
  "apply_x3d_mode fs entries configured k =
     (if configured = ''auto'' then (None, k)
      else
        (case get_driver_mode fs entries k of
           None \<Rightarrow> (None, k)
         | Some saved \<Rightarrow>
             (case set_driver_mode fs entries (if configured = ''cache'' then Cache else Frequency) k of
                (True, k') \<Rightarrow> (Some saved, k')
              | (False, k') \<Rightarrow> (None, k'))))"

definition restore_x3d :: "'k fs \<Rightarrow> string list option \<Rightarrow> x3d_mode option \<Rightarrow> 'k \<Rightarrow> 'k" where
  "restore_x3d fs entries saved k =
     (case saved of Some mode \<Rightarrow> snd (set_driver_mode fs entries mode k) | None \<Rightarrow> k)"

subsection \<open>The settings of a cgroup rule\<close>

text \<open>The attribute as an unsigned number of 64 bits, cut down to 32.\<close>

definition rule_number :: "json \<Rightarrow> string \<Rightarrow> nat option" where
  "rule_number rule key = map_option as_u32 (Option.bind (json_get rule key) json_u64)"

definition settings_from_rule :: "json \<Rightarrow> cgroup_settings" where
  "settings_from_rule rule =
     \<lparr>cpu_quota = rule_number rule ''CPUQuota'', cpu_weight_setting = rule_number rule ''CPUWeight''\<rparr>"

definition create_cgroups ::
  "(path, unit, 'c) lru_ops \<Rightarrow> 'k fs \<Rightarrow> (string \<times> json) list \<Rightarrow> ('k, 'c) cgroup_state \<Rightarrow> ('k, 'c) cgroup_state" where
  "create_cgroups L fs rules st =
     fold (\<lambda>(name, rule) st. snd (create_cgroup L fs name (settings_from_rule rule) st)) rules st"

subsection \<open>Actions and endings\<close>

datatype daemon_action =
    Claim_Singleton
  | Set_X3d
  | Create_Cgroups
  | Start_Worker
  | Notify_Ready
  | Recreate_Cgroups
  | Start_Scanner
  | Initial_Scan
  | Recovery_Scan
  | Wait_A_Second
  | Join_Worker
  | Restore_X3d

datatype ending = Exit_Status nat | Returned | Still_Running

subsection \<open>Supervising the event sources\<close>

text \<open>
  One turn of each of the two loops of \<^verbatim>\<open>monitor::run\<close>: the source cannot be started; it was and its
  listener came back, with the shutdown flag up or not; the connector's listener failed.
\<close>

datatype bpf_turn = Bpf_Unavailable | Bpf_Listened bool

datatype nl_turn = Nl_Unavailable | Nl_Failed | Nl_Stopped

definition initial_scan :: "bool \<Rightarrow> daemon_action list" where
  "initial_scan is_first = (if is_first then [Initial_Scan] else [])"

definition restore_action :: "bool \<Rightarrow> daemon_action list" where
  "restore_action saved = (if saved then [Restore_X3d] else [])"

definition finish_join :: "bool \<Rightarrow> daemon_action list" where
  "finish_join saved = Join_Worker # restore_action saved"

fun netlink_loop :: "bool \<Rightarrow> bool \<Rightarrow> nl_turn list \<Rightarrow> daemon_action list \<times> ending" where
  "netlink_loop saved is_first [] = ([], Still_Running)"
| "netlink_loop saved is_first (Nl_Unavailable # ts) = (restore_action saved, Exit_Status 1)"
| "netlink_loop saved is_first (Nl_Stopped # ts) = (initial_scan is_first @ finish_join saved, Returned)"
| "netlink_loop saved is_first (Nl_Failed # ts) =
     (case netlink_loop saved False ts of
        (as, e) \<Rightarrow> (initial_scan is_first @ [Recovery_Scan, Wait_A_Second] @ as, e))"

definition netlink_part :: "bool \<Rightarrow> bool \<Rightarrow> nl_turn list \<Rightarrow> daemon_action list \<times> ending" where
  "netlink_part built_in saved ts =
     (if built_in then netlink_loop saved True ts else (restore_action saved, Exit_Status 1))"

fun bpf_loop :: "bool \<Rightarrow> bool \<Rightarrow> bpf_turn list \<Rightarrow> daemon_action list \<times> ending \<Rightarrow> daemon_action list \<times> ending" where
  "bpf_loop saved is_first [] fallback = ([], Still_Running)"
| "bpf_loop saved is_first (Bpf_Unavailable # ts) fallback = fallback"
| "bpf_loop saved is_first (Bpf_Listened True # ts) fallback = (initial_scan is_first @ finish_join saved, Returned)"
| "bpf_loop saved is_first (Bpf_Listened False # ts) fallback =
     (case bpf_loop saved False ts fallback of
        (as, e) \<Rightarrow> (initial_scan is_first @ [Wait_A_Second] @ as, e))"

record features =
  with_bpf :: bool
  with_netlink :: bool
  with_systemd :: bool

definition monitor_run :: "features \<Rightarrow> bool \<Rightarrow> bpf_turn list \<Rightarrow> nl_turn list \<Rightarrow> daemon_action list \<times> ending" where
  "monitor_run fe saved bpf nl =
     (if with_bpf fe then bpf_loop saved True bpf (netlink_part (with_netlink fe) saved nl)
      else netlink_part (with_netlink fe) saved nl)"

text \<open>\<^verbatim>\<open>format_elapsed\<close>: a duration in microseconds as hours, minutes, seconds and their fraction.\<close>

definition pad_zero :: "nat \<Rightarrow> nat \<Rightarrow> string" where
  "pad_zero n v = replicate (n - length (show_nat v)) (CHR ''0'') @ show_nat v"

definition format_elapsed :: "nat \<Rightarrow> string" where
  "format_elapsed us =
     (let seconds = us div 1000000 in
      pad_zero 2 (seconds div 3600) @ '':'' @ pad_zero 2 (seconds mod 3600 div 60) @ '':'' @ pad_zero 2 (seconds mod 60) @
      ''.'' @ pad_zero 6 (us mod 1000000))"

subsection \<open>Running\<close>

text \<open>What the outside answers in one run of the daemon.\<close>

record script =
  is_root :: bool
  signals_ok :: bool
  x3d_changed :: bool
  hierarchy_found :: bool
  worker_ok :: bool
  under_systemd :: bool
  rt_workaround :: bool
  hierarchy_again :: bool
  manual_scanning :: bool
  scanner_ok :: bool
  bpf_turns :: "bpf_turn list"
  nl_turns :: "nl_turn list"

definition prepend :: "daemon_action list \<Rightarrow> daemon_action list \<times> ending \<Rightarrow> daemon_action list \<times> ending" where
  "prepend as r = (as @ fst r, snd r)"

definition runtime_run :: "features \<Rightarrow> script \<Rightarrow> daemon_action list \<times> ending" where
  "runtime_run fe s =
     prepend (if hierarchy_found s then [Create_Cgroups] else [])
       (if \<not> worker_ok s then ([], Exit_Status 1)
        else
          prepend
            ([Start_Worker] @ (if with_systemd fe \<and> under_systemd s then [Notify_Ready] else []) @
             (if rt_workaround s \<and> hierarchy_again s then [Recreate_Cgroups] else []))
            (if manual_scanning s \<and> \<not> scanner_ok s then ([], Exit_Status 1)
             else
               prepend (if manual_scanning s then [Start_Scanner] else [])
                 (monitor_run fe (x3d_changed s) (bpf_turns s) (nl_turns s))))"

text \<open>
  \<^verbatim>\<open>main\<close> of the action \<^verbatim>\<open>start\<close>. Returning from it drops the guard of the singleton object; \<^verbatim>\<open>exit\<close>
  runs no destructor.
\<close>

definition daemon_main :: "features \<Rightarrow> script \<Rightarrow> int \<Rightarrow> ipc_world \<Rightarrow> daemon_action list \<times> ending \<times> ipc_world" where
  "daemon_main fe s me w =
     (if \<not> is_root s then ([], Exit_Status 1, w)
      else
        (case check_singleton me w of
           (Some e, w') \<Rightarrow> ([], Exit_Status 1, w')
         | (None, w') \<Rightarrow>
             if \<not> signals_ok s then ([Claim_Singleton], Exit_Status 1, w')
             else
               (case runtime_run fe s of
                  (as, e) \<Rightarrow>
                    (Claim_Singleton # (if x3d_changed s then [Set_X3d] else []) @ as, e,
                     if e = Returned then drop_guard w' else w'))))"

subsection \<open>Putting the driver mode back\<close>

text \<open>How a supervised run ends: with the mode put back, after joining the worker if it returns.\<close>

definition ends_restored :: "daemon_action list \<times> ending \<Rightarrow> bool" where
  "ends_restored r \<longleftrightarrow>
     snd r \<noteq> Still_Running \<longrightarrow>
       (\<exists>as. fst r = as @ [Restore_X3d] \<and> Restore_X3d \<notin> set as \<and> (snd r = Returned \<longleftrightarrow> Join_Worker \<in> set as))"

lemma ends_restored_prefix:
  assumes "ends_restored (as, e)" and "Restore_X3d \<notin> set bs" and "Join_Worker \<notin> set bs"
  shows "ends_restored (bs @ as, e)"
  using assms unfolding ends_restored_def by (auto simp: append_assoc [symmetric] simp del: append_assoc)

lemma initial_scan_clean: "Restore_X3d \<notin> set (initial_scan b)" "Join_Worker \<notin> set (initial_scan b)"
  by (simp_all add: initial_scan_def)

lemma finish_join_restored: "ends_restored (finish_join True, Returned)"
  unfolding ends_restored_def finish_join_def restore_action_def by (auto intro: exI [of _ "[Join_Worker]"])

lemma restore_restored: "ends_restored (restore_action True, Exit_Status n)"
  by (simp add: ends_restored_def restore_action_def)

lemma netlink_loop_restored: "ends_restored (netlink_loop True b ts)"
proof (induction ts arbitrary: b)
  case (Cons t ts)
  show ?case
  proof (cases t)
    case Nl_Failed
    obtain as e where r: "netlink_loop True False ts = (as, e)" by fastforce
    have "ends_restored ((initial_scan b @ [Recovery_Scan, Wait_A_Second]) @ as, e)"
      using Cons.IH [of False] r initial_scan_clean by (intro ends_restored_prefix) auto
    then show ?thesis using Nl_Failed r by simp
  next
    case Nl_Stopped
    then show ?thesis using ends_restored_prefix [OF finish_join_restored] initial_scan_clean by simp
  qed (simp add: restore_restored)
qed (simp add: ends_restored_def)

lemma netlink_part_restored: "ends_restored (netlink_part b True ts)"
  by (simp add: netlink_part_def netlink_loop_restored restore_restored)

lemma bpf_loop_restored: "ends_restored fallback \<Longrightarrow> ends_restored (bpf_loop True b ts fallback)"
proof (induction ts arbitrary: b)
  case (Cons t ts)
  show ?case
  proof (cases t)
    case (Bpf_Listened stop)
    show ?thesis
    proof (cases stop)
      case True
      then show ?thesis
        using Bpf_Listened ends_restored_prefix [OF finish_join_restored] initial_scan_clean by simp
    next
      case False
      obtain as e where r: "bpf_loop True False ts fallback = (as, e)" by fastforce
      have "ends_restored ((initial_scan b @ [Wait_A_Second]) @ as, e)"
        using Cons.IH [OF Cons.prems, of False] r initial_scan_clean by (intro ends_restored_prefix) auto
      then show ?thesis using Bpf_Listened False r by simp
    qed
  qed (simp add: Cons.prems)
qed (simp add: ends_restored_def)

lemma monitor_run_restored: "ends_restored (monitor_run fe True bpf nl)"
  by (simp add: monitor_run_def bpf_loop_restored netlink_part_restored)

lemma prepend_simps [simp]: "fst (prepend as r) = as @ fst r" "snd (prepend as r) = snd r"
  by (simp_all add: prepend_def)

text \<open>
  C30: A run that has changed the driver mode and comes to an end puts it back, once and as its last
  action, exactly when the worker and the scanner it asked for could be started; where one of them could not, it
  exits and leaves the mode changed.
\<close>
theorem x3d_mode_restored_iff:
  assumes "x3d_changed s" and "runtime_run fe s = (as, e)" and "e \<noteq> Still_Running"
  shows "(\<exists>bs. as = bs @ [Restore_X3d] \<and> Restore_X3d \<notin> set bs) \<longleftrightarrow>
    worker_ok s \<and> (manual_scanning s \<longrightarrow> scanner_ok s)"
proof (cases "worker_ok s \<and> (manual_scanning s \<longrightarrow> scanner_ok s)")
  case True
  let ?m = "monitor_run fe True (bpf_turns s) (nl_turns s)"
  obtain pre where pre: "as = pre @ fst ?m" "Restore_X3d \<notin> set pre" and e: "e = snd ?m"
    using assms(1,2) True by (auto simp: runtime_run_def prepend_def split: if_splits)
  obtain bs where "fst ?m = bs @ [Restore_X3d]" "Restore_X3d \<notin> set bs"
    using monitor_run_restored [of fe "bpf_turns s" "nl_turns s"] assms(3) e by (auto simp: ends_restored_def)
  with pre have "as = (pre @ bs) @ [Restore_X3d]" "Restore_X3d \<notin> set (pre @ bs)" by simp_all
  with True show ?thesis by blast
next
  case False
  then have "Restore_X3d \<notin> set as"
    using assms(2) by (auto simp: runtime_run_def prepend_def split: if_splits)
  with False show ?thesis by auto
qed

text \<open>A machine without the BPF source whose connector turns out as given.\<close>

definition full_build :: features where
  "full_build = \<lparr>with_bpf = True, with_netlink = True, with_systemd = True\<rparr>"

definition sample_script :: "nl_turn list \<Rightarrow> script" where
  "sample_script nl =
     \<lparr>is_root = True, signals_ok = True, x3d_changed = True, hierarchy_found = True, worker_ok = True,
      under_systemd = True, rt_workaround = True, hierarchy_again = True, manual_scanning = False, scanner_ok = False,
      bpf_turns = [Bpf_Unavailable], nl_turns = nl\<rparr>"

lemma sample_run:
  "runtime_run full_build (sample_script [Nl_Failed, Nl_Stopped]) =
     ([Create_Cgroups, Start_Worker, Notify_Ready, Recreate_Cgroups, Initial_Scan, Recovery_Scan, Wait_A_Second,
       Join_Worker, Restore_X3d], Returned)"
  by code_simp

theorem x3d_mode_restored_iff_witness:
  "\<exists>bs. fst (runtime_run full_build (sample_script [Nl_Failed, Nl_Stopped])) = bs @ [Restore_X3d] \<and>
     Restore_X3d \<notin> set bs"
  unfolding sample_run fst_conv
  using x3d_mode_restored_iff [OF _ sample_run] by (simp add: sample_script_def)

subsection \<open>Starting again\<close>

lemma holder_show:
  assumes "0 < n" and "n < 2 ^ 31"
  shows "holder (show_int n) = Some n"
proof -
  have show_n: "show_int n = show_nat (nat n)" using assms by (simp add: show_int_def)
  have "trim (show_nat (nat n)) = show_nat (nat n)" by (rule trim_all_plain) (rule show_nat_plain)
  moreover have "parse_i32 (show_nat (nat n)) = map_option int (parse_uint (2 ^ 31 - 1) (show_nat (nat n)))"
  proof (cases "show_nat (nat n)")
    case (Cons c r)
    then have "c \<noteq> CHR ''-''" using show_nat_no [of "CHR ''-''" "nat n"] by auto
    with Cons show ?thesis by (simp add: parse_i32_def)
  qed simp
  moreover have "parse_uint (2 ^ 31 - 1) (show_nat (nat n)) = Some (nat n)"
    using assms by (intro parse_uint_show) simp
  ultimately show ?thesis using assms by (simp add: holder_def show_n)
qed

text \<open>
  C31: After a run of the daemon on a machine without a singleton object, another daemon can start exactly when the
  run returned from \<^verbatim>\<open>main\<close> or never claimed the object; a run that exited later, because the signal handlers, the worker,
  the scanner or the event source could not be started, leaves an object that stops every later start as stale.
\<close>
theorem restart_possible_iff_returned:
  assumes "shm w = None" and "0 < me" and "me < 2 ^ 31"
    and "daemon_main fe s me w = (as, e, w')" and "e \<noteq> Still_Running"
    and "cmdlines w me = None" and "shm_error w = None"
  shows "fst (check_singleton other w') =
    (if e = Returned \<or> as = [] then None else Some (Stale_Object me))"
proof (cases "is_root s")
  case True
  let ?w = "w\<lparr>shm := Some (show_int me)\<rparr>"
  have claim: "check_singleton me w = (None, ?w)" using assms(1) by (simp add: check_singleton_def shm_open_def)
  have as: "as \<noteq> []" and w': "w' = (if e = Returned then drop_guard ?w else ?w)"
    using assms(4) True by (auto simp: daemon_main_def claim split: if_splits prod.splits)
  have "fst (check_singleton other (drop_guard ?w)) = None"
    using assms(7) by (simp add: check_singleton_def drop_guard_def shm_unlink_def shm_open_def)
  moreover have "fst (check_singleton other ?w) = Some (Stale_Object me)"
    using assms(6,7) holder_show [OF assms(2,3)]
    by (simp add: check_singleton_def shm_open_def proc_entry_looks_like_daemon_def)
  ultimately show ?thesis using as w' by simp
next
  case False
  then show ?thesis using assms(1,4) by (auto simp: daemon_main_def check_singleton_def shm_open_def)
qed

definition no_object :: ipc_world where
  "no_object = \<lparr>shm = None, shm_error = None, cmdlines = \<lambda>_. None, kill_error = None, signalled = []\<rparr>"

theorem restart_possible_iff_returned_witness:
  "fst (check_singleton 8 (snd (snd (daemon_main full_build (sample_script [Nl_Unavailable]) 7 no_object)))) =
     Some (Stale_Object 7) \<and>
   fst (check_singleton 8 (snd (snd (daemon_main full_build (sample_script [Nl_Stopped]) 7 no_object)))) = None"
proof -
  have w: "shm no_object = None" "cmdlines no_object 7 = None" "shm_error no_object = None"
    by (simp_all add: no_object_def)
  have runs: "snd (runtime_run full_build (sample_script [Nl_Unavailable])) = Exit_Status 1"
    "snd (runtime_run full_build (sample_script [Nl_Stopped])) = Returned"
    by code_simp+
  have claim: "check_singleton 7 no_object = (None, no_object\<lparr>shm := Some (show_int 7)\<rparr>)"
    by (simp add: check_singleton_def shm_open_def no_object_def)
  have ends: "fst (daemon_main full_build (sample_script nl) 7 no_object) \<noteq> []"
    "fst (snd (daemon_main full_build (sample_script nl) 7 no_object)) = snd (runtime_run full_build (sample_script nl))" for nl
    by (simp_all add: daemon_main_def claim sample_script_def split: prod.split)
  have restart: "fst (check_singleton 8 (snd (snd (daemon_main full_build (sample_script nl) 7 no_object)))) =
      (if e = Returned then None else Some (Stale_Object 7))"
    if "snd (runtime_run full_build (sample_script nl)) = e" "e \<noteq> Still_Running" for nl e
    using restart_possible_iff_returned [where me = 7 and w = no_object and other = 8 and s = "sample_script nl"
        and fe = full_build] w ends [of nl] that
    by (cases "daemon_main full_build (sample_script nl) 7 no_object") auto
  show ?thesis using restart [OF runs(1)] restart [OF runs(2)] by simp
qed

subsection \<open>Smaller facts\<close>

text \<open>The numbers of a cgroup rule are cut to 32 bits before they are clamped.\<close>

lemma quota_wraps:
  "json_get rule ''CPUQuota'' = Some (JPos n) \<Longrightarrow> cpu_quota (settings_from_rule rule) = Some (n mod 2 ^ 32)"
  by (simp add: settings_from_rule_def rule_number_def as_u32_def)

text \<open>Manual scanning raises the nice value of an empty list of threads, which makes no call.\<close>

lemma renice_without_threads: "set_priority_threads setpriority [] 19 k = (None, k)"
  by (simp add: set_priority_threads_def first_real_error_def thread_answer_def)

lemma elapsed_tests:
  "format_elapsed 0 = ''00:00:00.000000''" "format_elapsed 45110643 = ''00:00:45.110643''"
  "format_elapsed 3661500000 = ''01:01:01.500000''"
proof -
  have five: "replicate 5 (CHR ''0'') = ''00000''" by (simp add: numeral_eq_Suc)
  show "format_elapsed 0 = ''00:00:00.000000''" "format_elapsed 45110643 = ''00:00:45.110643''"
    "format_elapsed 3661500000 = ''01:01:01.500000''"
    by (simp_all add: format_elapsed_def pad_zero_def show_nat.simps digit_char_def five char_of_def bit_0)
qed

end
