(* ===== verification/Reload.thy ===== *)
theory Reload
  imports Daemon Worker_Loop
begin

text \<open>
  \<^verbatim>\<open>Reload::apply\<close> of \<^verbatim>\<open>src/src/signals.rs\<close> with what it shares with a start: \<^verbatim>\<open>load_config\<close>, \<^verbatim>\<open>load_rules\<close> and the
  log levels of \<^verbatim>\<open>src/src/startup.rs\<close>. The theorem says that a reload is worth a restart from the same files.
\<close>

subsection \<open>Log levels\<close>

datatype trace_level = Level_Error | Level_Warn | Level_Info | Level_Debug | Level_Trace

fun level_of :: "log_level \<Rightarrow> trace_level" where
  "level_of Trace = Level_Trace"
| "level_of Debug = Level_Debug"
| "level_of Info = Level_Info"
| "level_of Warn = Level_Warn"
| "level_of Error = Level_Error"
| "level_of Critical = Level_Error"

fun more_verbose_than :: "trace_level \<Rightarrow> trace_level" where
  "more_verbose_than Level_Error = Level_Warn"
| "more_verbose_than Level_Warn = Level_Info"
| "more_verbose_than Level_Info = Level_Debug"
| "more_verbose_than Level_Debug = Level_Trace"
| "more_verbose_than Level_Trace = Level_Trace"

definition log_level_override :: "log_level \<Rightarrow> bool \<Rightarrow> bool \<Rightarrow> trace_level option" where
  "log_level_override config_level verbose force_trace =
     (if force_trace then Some Level_Trace
      else if verbose then Some (more_verbose_than (level_of config_level))
      else None)"

definition effective_log_level :: "log_level \<Rightarrow> bool \<Rightarrow> bool \<Rightarrow> trace_level" where
  "effective_log_level config_level verbose force_trace =
     (case log_level_override config_level verbose force_trace of Some l \<Rightarrow> l | None \<Rightarrow> level_of config_level)"

text \<open>
  \<^verbatim>\<open>init_logging\<close>: the level of the filter and where the lines go. Whether the journal could be reached, and whether this
  process has no subscriber yet, are arguments.
\<close>

datatype log_sink = Journal | Standard_Error

definition init_logging ::
  "bool \<Rightarrow> bool \<Rightarrow> bool \<Rightarrow> bool \<Rightarrow> log_level \<Rightarrow> bool \<Rightarrow> bool \<Rightarrow> (trace_level \<times> log_sink) option" where
  "init_logging systemd_feature journal_ok unset is_systemd config_level verbose force_trace =
     (if unset
      then Some (effective_log_level config_level verbose force_trace,
                 if systemd_feature \<and> is_systemd \<and> journal_ok then Journal else Standard_Error)
      else None)"

subsection \<open>What a start loads\<close>

text \<open>What is on disk when the daemon looks, and whether the kernel knows \<^verbatim>\<open>latency_nice\<close>.\<close>

record on_disk =
  disk_conf :: config_fs
  disk_latnice :: bool
  disk_rules :: "rule_file list option"

definition load_config :: "string \<Rightarrow> on_disk \<Rightarrow> config_snapshot \<times> io_error option \<times> config_diagnostic list" where
  "load_config path d =
     (case load_file_with_diagnostics (disk_conf d) path (disk_latnice d) of
        Inr (c, ds, _) \<Rightarrow> (c, None, ds)
      | Inl e \<Rightarrow> (if disk_latnice d then default_snapshot else default_snapshot\<lparr>apply_latnice := False\<rparr>, Some e, []))"

definition load_rules ::
  "('rx, 'c) lib \<Rightarrow> 'c \<Rightarrow> config_snapshot \<Rightarrow> on_disk \<Rightarrow> name_table \<Rightarrow> load_log list \<times> ('rx, 'c) rule_set \<times> name_table" where
  "load_rules L cache cfg d t = load_directory L cfg (disk_rules d) (new_rules cache, t)"

text \<open>What the threads of a running daemon share.\<close>

record ('rx, 'c, 'k, 'u) shared =
  sh_config :: config_snapshot
  sh_rules :: "('rx, 'c) rule_set"
  sh_table :: name_table
  sh_level :: trace_level
  sh_cgroups :: "('k, 'u) cgroup_state"

text \<open>The libraries and the file system below the cgroup manager.\<close>

record ('rx, 'c, 'k, 'u) reload_env =
  rl_lib :: "('rx, 'c) lib"
  rl_cache :: 'c
  rl_lru :: "(path, unit, 'u) lru_ops"
  rl_fs :: "'k fs"

definition make_cgroups ::
  "('rx, 'c, 'k, 'u) reload_env \<Rightarrow> ('rx, 'c) rule_set \<Rightarrow> ('k, 'u) cgroup_state \<Rightarrow> ('k, 'u) cgroup_state" where
  "make_cgroups env rs = create_cgroups (rl_lru env) (rl_fs env) (lib_map_iter (rl_lib env) (cgroups rs))"

text \<open>\<open>hierarchy\<close> is the answer of the wait for a cgroup hierarchy.\<close>

definition start ::
  "('rx, 'c, 'k, 'u) reload_env \<Rightarrow> string \<Rightarrow> bool \<Rightarrow> bool \<Rightarrow> on_disk \<Rightarrow> ('k, 'u) cgroup_state \<Rightarrow> ('rx, 'c, 'k, 'u) shared" where
  "start env path verbose hierarchy d cg =
     (case load_config path d of
        (c, _) \<Rightarrow>
          (case load_rules (rl_lib env) (rl_cache env) c d empty_table of
             (_, rs, t) \<Rightarrow>
               \<lparr>sh_config = c, sh_rules = rs, sh_table = t, sh_level = effective_log_level (loglevel c) verbose False,
                sh_cgroups = (if hierarchy then make_cgroups env rs cg else cg)\<rparr>))"

subsection \<open>What a reload does\<close>

text \<open>The filter may be gone, and setting the level fails; that is logged and changes nothing else.\<close>

definition reload_config ::
  "trace_level option \<Rightarrow> bool \<Rightarrow> on_disk \<Rightarrow> ('rx, 'c, 'k, 'u) shared \<Rightarrow> ('rx, 'c, 'k, 'u) shared" where
  "reload_config override level_set d st =
     (case reload_file_with_diagnostics (disk_conf d) (disk_latnice d) (sh_config st) of
        (Inr _, c) \<Rightarrow>
          st\<lparr>sh_config := c,
             sh_level :=
               (if level_set then (case override of Some l \<Rightarrow> l | None \<Rightarrow> level_of (loglevel c)) else sh_level st)\<rparr>
      | (Inl _, c) \<Rightarrow> st\<lparr>sh_config := c\<rparr>)"

definition reload_rules ::
  "('rx, 'c, 'k, 'u) reload_env \<Rightarrow> on_disk \<Rightarrow> ('rx, 'c, 'k, 'u) shared \<Rightarrow> ('rx, 'c, 'k, 'u) shared" where
  "reload_rules env d st =
     (if \<not> rule_load (sh_config st) then st
      else
        (case load_rules (rl_lib env) (rl_cache env) (sh_config st) d (sh_table st) of
           (_, fresh, t) \<Rightarrow>
             let installed = snd (replace_rules fresh (sh_rules st)) in
             st\<lparr>sh_rules := installed, sh_table := t, sh_cgroups := make_cgroups env installed (sh_cgroups st)\<rparr>))"

definition reload ::
  "('rx, 'c, 'k, 'u) reload_env \<Rightarrow> trace_level option \<Rightarrow> bool \<Rightarrow> on_disk \<Rightarrow> ('rx, 'c, 'k, 'u) shared \<Rightarrow>
     ('rx, 'c, 'k, 'u) shared" where
  "reload env override level_set d st = reload_rules env d (reload_config override level_set d st)"

subsection \<open>A reload is worth a restart\<close>

text \<open>The settings the worker finds for a name.\<close>

definition settings_found :: "('rx, 'c) lib \<Rightarrow> ('rx, 'c, 'k, 'u) shared \<Rightarrow> string \<Rightarrow> settings option" where
  "settings_found L st name =
     map_option (\<lambda>(m, r). rule_settings (sh_table st) r) (fst (get_rule L name (sh_rules st)))"

lemma readable_config:
  assumes "conf_read (disk_conf d) = Inr text"
  shows "sh_config (reload_config ov ok d st) = fst (load_config path d)"
  using assms
  by (simp add: reload_config_def load_config_def reload_file_with_diagnostics_def load_file_with_diagnostics_def
      split: prod.split)

lemma readable_level:
  assumes "conf_read (disk_conf d) = Inr text"
  shows "sh_level (reload_config ov True d st) =
    (case ov of Some l \<Rightarrow> l | None \<Rightarrow> level_of (loglevel (fst (load_config path d))))"
  using assms
  by (cases ov) (simp_all add: reload_config_def load_config_def reload_file_with_diagnostics_def load_file_with_diagnostics_def
      split: prod.split)

lemma reload_config_frame [simp]:
  "sh_rules (reload_config ov ok d st) = sh_rules st" "sh_table (reload_config ov ok d st) = sh_table st"
  "sh_cgroups (reload_config ov ok d st) = sh_cgroups st"
  by (simp_all add: reload_config_def split: prod.split sum.split)

lemma reload_rules_frame [simp]:
  "sh_config (reload_rules env d st) = sh_config st" "sh_level (reload_rules env d st) = sh_level st"
  by (simp_all add: reload_rules_def Let_def split: prod.split)

lemma reload_loads:
  assumes "rule_load (sh_config (reload env ov ok d st))" and "disk_rules d = Some walk"
  obtains log where "load_directory (rl_lib env) (sh_config (reload env ov ok d st)) (Some walk)
      (new_rules (rl_cache env), sh_table st) = (log, sh_rules (reload env ov ok d st), sh_table (reload env ov ok d st))"
proof -
  let ?st = "reload_config ov ok d st"
  have c: "sh_config (reload env ov ok d st) = sh_config ?st" by (simp add: reload_def)
  obtain log rs t where l: "load_directory (rl_lib env) (sh_config ?st) (Some walk) (new_rules (rl_cache env), sh_table st) =
      (log, rs, t)" by (metis prod_cases3)
  show ?thesis
    by (rule that [of log])
      (use assms c l in \<open>simp add: reload_def reload_rules_def load_rules_def replace_rules_def Let_def\<close>)
qed

lemma loaded_cgroups:
  assumes "table_wf t0" and "load_directory L cfg (Some walk) (rs0, t0) = (log, rs, t)"
    and "length (loaded_lines cfg (sort_key file_path walk)) \<le> 2 ^ 32"
  shows "map_of (cgroups rs) = cgroup_defs L (loaded_lines cfg (sort_key file_path walk))"
proof (rule load_directory_parts [OF assms(2)])
  fix rs1 t1 bases
  assume "load_files L cfg (sort_key file_path walk) (clear_rules L rs0, t0) = (log, rs1, t1)"
    and rs: "rs = rs1\<lparr>rules := map (inherit_base t bases) (rules rs1),
              resolved_cache := map_option (lib_cache_clear L) (resolved_cache rs1)\<rparr>"
  from represents_directory [OF assms(1) this(1)] rs assms(3) show ?thesis by (auto simp: represents_def)
qed

lemma found_after_load:
  assumes "table_wf t0" and "parser_ok L" and "iter_ok L" and "lru_ok L"
    and "load_directory L cfg (Some walk) (rs0, t0) = (log, sh_rules st, sh_table st)" and "\<not> table_full (sh_table st)"
    and "length (loaded_lines cfg (sort_key file_path walk)) \<le> 2 ^ 32"
  shows "settings_found L st name = spec_settings L (loaded_lines cfg (sort_key file_path walk)) name"
  using loaded_lookup [OF assms(1-3,5-7)] get_rule_sound(1) [OF assms(4) directory_cache_sound [OF assms(4,5)]]
  by (simp add: settings_found_def)

text \<open>
  C35: A reload stands in for a restart: whatever was loaded before, the configuration, the log level, the settings
  found for every process name and the cgroups asked for are those of a daemon that starts on the same files. The
  conditions: neither was given an option that overrides the log level, and the reload can set it; the configuration
  file and the directory of rules can be read, and the configuration asks for rules to be loaded; the name table, which
  a reload shares with what was loaded before it, has room in both; and there are at most \<open>2 ^ 32\<close> lines of rules.
\<close>
theorem reload_like_restart:
  assumes "table_wf (sh_table st)" and "parser_ok (rl_lib env)" and "iter_ok (rl_lib env)" and "lru_ok (rl_lib env)"
    and "conf_read (disk_conf d) = Inr text" and "disk_rules d = Some walk"
    and "a = reload env None True d st" and "b = start env path False hierarchy d cg"
    and "rule_load (sh_config b)" and "\<not> table_full (sh_table a)" and "\<not> table_full (sh_table b)"
    and "length (loaded_lines (sh_config b) (sort_key file_path walk)) \<le> 2 ^ 32"
  shows "sh_config a = sh_config b \<and> sh_level a = sh_level b \<and>
    (\<forall>name. settings_found (rl_lib env) a name = settings_found (rl_lib env) b name) \<and>
    map_of (cgroups (sh_rules a)) = map_of (cgroups (sh_rules b))"
proof -
  let ?c = "fst (load_config path d)" and ?L = "rl_lib env"
  have b: "sh_config b = ?c" "sh_level b = level_of (loglevel ?c)"
    by (simp_all add: assms(8) start_def effective_log_level_def log_level_override_def split: prod.split)
  have a: "sh_config a = ?c" "sh_level a = level_of (loglevel ?c)"
    using readable_config [OF assms(5), of None True st path] readable_level [OF assms(5), of None st path]
    by (simp_all add: assms(7) reload_def)
  obtain log where lb: "load_directory ?L ?c (Some walk) (new_rules (rl_cache env), empty_table) =
      (log, sh_rules b, sh_table b)"
    by (cases "load_directory ?L ?c (Some walk) (new_rules (rl_cache env), empty_table)")
      (simp add: assms(6,8) start_def load_rules_def split_beta)
  obtain log' where la: "load_directory ?L ?c (Some walk) (new_rules (rl_cache env), sh_table st) =
      (log', sh_rules a, sh_table a)"
    using reload_loads [of env None True d st walk] a(1) b(1) assms(6,7,9) by metis
  note len = assms(12) [unfolded b(1)]
  show ?thesis
    using found_after_load [OF assms(1-4) la assms(10) len] found_after_load [OF table_wf_empty assms(2-4) lb assms(11) len]
      loaded_cgroups [OF assms(1) la len] loaded_cgroups [OF table_wf_empty lb len] a b
    by simp
qed

text \<open>With \<^verbatim>\<open>--verbose\<close> the level of the start stays, whatever the reloaded configuration asks for.\<close>

lemma verbose_level_frozen:
  assumes "conf_read (disk_conf d) = Inr text"
  shows "sh_level (reload env (log_level_override lvl True False) True d st) = more_verbose_than (level_of lvl)"
  using readable_level [OF assms, of "log_level_override lvl True False" st]
  by (simp add: reload_def log_level_override_def)

text \<open>What cannot be read is kept, and so are the rules when the configuration says so.\<close>

lemma reload_keeps_config:
  assumes "conf_read (disk_conf d) = Inl e"
  shows "sh_config (reload env ov ok d st) = sh_config st \<and> sh_level (reload env ov ok d st) = sh_level st"
  using assms by (simp add: reload_def reload_config_def reload_file_with_diagnostics_def)

lemma reload_keeps_rules:
  assumes "\<not> rule_load (sh_config (reload env ov ok d st))"
  shows "sh_rules (reload env ov ok d st) = sh_rules st \<and> sh_table (reload env ov ok d st) = sh_table st \<and>
    sh_cgroups (reload env ov ok d st) = sh_cgroups st"
proof -
  have "\<not> rule_load (sh_config (reload_config ov ok d st))" using assms by (simp add: reload_def)
  then show ?thesis by (simp add: reload_def reload_rules_def)
qed

text \<open>A daemon that had loaded a name before, an empty configuration file and the rule files of the samples.\<close>

definition sample_reload_env ::
  "(string, (string \<times> string option) list, (path \<times> string option) list, (path \<times> unit) list) reload_env" where
  "sample_reload_env = \<lparr>rl_lib = sample_lib, rl_cache = [], rl_lru = list_lru 2, rl_fs = mem_fs\<rparr>"

definition sample_disk :: on_disk where
  "sample_disk =
     \<lparr>disk_conf = \<lparr>conf_read = Inr [], conf_parent = None, conf_create_dir = None, conf_write = None\<rparr>,
      disk_latnice = True, disk_rules = Some sample_walk\<rparr>"

definition old_table :: name_table where
  "old_table = \<lparr>tab_values = [''old''], tab_index = [(''old'', 2)]\<rparr>"

definition sample_cgroups :: "((path \<times> string option) list, (path \<times> unit) list) cgroup_state" where
  "sample_cgroups = \<lparr>cg_world = [], cg_info = None, cg_manager = None, cg_reported = ([], [])\<rparr>"

definition sample_shared ::
  "(string, (string \<times> string option) list, (path \<times> string option) list, (path \<times> unit) list) shared" where
  "sample_shared =
     \<lparr>sh_config = default_snapshot\<lparr>rule_load := False\<rparr>, sh_rules = new_rules [], sh_table = old_table,
      sh_level = Level_Error, sh_cgroups = sample_cgroups\<rparr>"

lemma old_table_wf: "table_wf old_table"
  by (auto simp: old_table_def table_wf_def u16_max_def name_first_value_def)

lemma sample_config: "fst (load_config p sample_disk) = default_snapshot"
  by (simp add: load_config_def load_file_with_diagnostics_def sample_disk_def parse_content_def str_lines_def
      eval_simps split: prod.split)

lemma sample_reloaded:
  "\<exists>log rs. load_directory sample_lib default_snapshot (Some sample_walk) (new_rules [], old_table) =
     (log, rs, \<lparr>tab_values = [''old'', ''Game'', ''idle''], tab_index = [(''old'', 2), (''Game'', 3), (''idle'', 4)]\<rparr>)"
  by (simp add: eval_simps sample_lib_def sample_walk_def old_table_def)

theorem reload_like_restart_witness:
  "settings_found sample_lib (reload sample_reload_env None True sample_disk sample_shared) ''doom'' =
   settings_found sample_lib (start sample_reload_env ''c'' False True sample_disk sample_cgroups) ''doom''"
proof -
  let ?a = "reload sample_reload_env None True sample_disk sample_shared"
    and ?b = "start sample_reload_env ''c'' False True sample_disk sample_cgroups"
  have conf: "conf_read (disk_conf sample_disk) = Inr []" "disk_rules sample_disk = Some sample_walk"
    and env: "rl_lib sample_reload_env = sample_lib" "rl_cache sample_reload_env = []"
    by (simp_all add: sample_disk_def sample_reload_env_def)
  have b: "sh_config ?b = default_snapshot"
    using sample_config [of "''c''"] by (simp add: start_def split_beta)
  have c: "sh_config (reload_config None True sample_disk sample_shared) = default_snapshot"
    using readable_config [OF conf(1), of None True sample_shared "''c''"] sample_config by simp
  have "\<not> table_full (sh_table ?b)"
    using sample_loaded sample_config [of "''c''"]
    by (auto simp: start_def load_rules_def env conf table_full_def u16_max_def split_beta)
  moreover have "\<not> table_full (sh_table ?a)"
    using sample_reloaded c
    by (auto simp: reload_def reload_rules_def load_rules_def env conf replace_rules_def Let_def table_full_def
        u16_max_def sample_shared_def default_snapshot_def)
  moreover have "length (loaded_lines (sh_config ?b) (sort_key file_path sample_walk)) \<le> 2 ^ 32"
    by (simp add: b loaded_lines_def file_lines_def sample_walk_def eval_simps)
  moreover have "rule_load (sh_config ?b)" by (simp add: b default_snapshot_def)
  moreover have "table_wf (sh_table sample_shared)" by (simp add: sample_shared_def old_table_wf)
  ultimately show ?thesis
    using reload_like_restart [of sample_shared sample_reload_env, OF _ _ _ _ conf refl refl, of "''c''" True sample_cgroups]
      sample_lib_ok sample_lru_ok by (simp add: env)
qed

text \<open>
  The debug action logs everything whatever the configuration says, and no option makes the log quieter than the
  configuration asked for.
\<close>

fun verbosity :: "trace_level \<Rightarrow> nat" where
  "verbosity Level_Error = 0"
| "verbosity Level_Warn = 1"
| "verbosity Level_Info = 2"
| "verbosity Level_Debug = 3"
| "verbosity Level_Trace = 4"

lemma options_only_add_lines:
  "effective_log_level l v True = Level_Trace"
  "verbosity (level_of l) \<le> verbosity (effective_log_level l v f)"
  by (cases l; cases v; cases f; simp add: effective_log_level_def log_level_override_def)+

end
