(* ===== verification/Process_Info.thy ===== *)
theory Process_Info
  imports Procfs Priority Worker_Loop
begin

text \<open>
  \<^verbatim>\<open>crates/ananicy-platform/src/process_info.rs\<close>, the report on one thread, and the collection of these reports in
  \<^verbatim>\<open>src/src/dump.rs\<close> for \<^verbatim>\<open>dump proc\<close> and \<^verbatim>\<open>dump autogroup\<close>. The theorems say that the name in a line of \<^verbatim>\<open>stat\<close> is read
  back without a panic, which threads are reported, which rule a report names, and how threads are sorted into
  their groups.
\<close>

subsection \<open>The report on one thread\<close>

text \<open>The autogroup is its number and nice value; of the I/O priority the level is given for best effort only.\<close>

record process_info =
  pi_pid :: int
  pi_tpid :: int
  pi_exe :: "string option"
  pi_comm :: string
  pi_cmd :: string
  pi_stat :: string
  pi_stat_name :: string
  pi_autogroup :: "(int \<times> int) option"
  pi_sched :: string
  pi_rtprio :: int
  pi_nice :: int
  pi_latency_nice :: int
  pi_ionice :: "string \<times> int option"
  pi_oom_score_adj :: int
  pi_cmdline :: "string list"
  pi_rule :: "string option"

text \<open>What a report asks the kernel; the link of the executable as text.\<close>

record 'k report_os =
  rep_proc :: "'k proc_os"
  rep_exe :: "int \<Rightarrow> 'k \<Rightarrow> string option"
  rep_getattr :: "int \<Rightarrow> 'k \<Rightarrow> sched_attr option"
  rep_ioprio :: "int \<Rightarrow> 'k \<Rightarrow> int option"

definition read_default :: "'k report_os \<Rightarrow> int \<Rightarrow> string \<Rightarrow> 'k \<Rightarrow> string" where
  "read_default os pid f k =
     (case read_ok (proc_fs (rep_proc os)) (proc_file pid f) k of Some s \<Rightarrow> s | None \<Rightarrow> [])"

text \<open>\<open>None\<close> is the panic of a range that ends before it starts.\<close>

definition parse_stat :: "string \<Rightarrow> string option option" where
  "parse_stat stat =
     (case find_char (CHR ''('') stat of
        None \<Rightarrow> Some None
      | Some st \<Rightarrow>
          (case rfind_char (CHR '')'') stat of
             None \<Rightarrow> Some None
           | Some en \<Rightarrow> if st + 1 \<le> en then Some (Some (slice stat (st + 1) en)) else None))"

definition get_autogroup_from_str :: "string \<Rightarrow> (int \<times> int) option" where
  "get_autogroup_from_str text =
     (let s = trim text; parts = split_whitespace s in
      if \<not> starts_with s ''/autogroup-'' then None
      else if 3 \<le> length parts \<and> parts ! 1 = ''nice''
      then (case (parse_i32 (drop (length ''/autogroup-'') (parts ! 0)), parse_i32 (parts ! 2)) of
              (Some g, Some n) \<Rightarrow> Some (g, n)
            | _ \<Rightarrow> None)
      else None)"

definition sched_part :: "sched_attr option \<Rightarrow> string \<times> int \<times> int \<times> int" where
  "sched_part attr =
     (case attr of
        Some a \<Rightarrow> (get_sched_policy_name (attr_policy a), as_i32 (int (attr_priority a)), attr_nice a, attr_latency_nice a)
      | None \<Rightarrow> (''unknown'', 0, 0, 0))"

definition ionice_part :: "int option \<Rightarrow> string \<times> int option" where
  "ionice_part v =
     (let data = (case v of Some d \<Rightarrow> d | None \<Rightarrow> 0); cls = io_class_read data in
      (get_io_class_name cls, if cls = ioprio_class_be then Some (io_level_read data) else None))"

definition task_file :: "int \<Rightarrow> string \<Rightarrow> string" where
  "task_file tpid f = ''task/'' @ show_int tpid @ ''/'' @ f"

definition from_parts ::
  "'k report_os \<Rightarrow> int \<Rightarrow> int \<Rightarrow> string option \<Rightarrow> string \<Rightarrow> string list \<Rightarrow> int \<Rightarrow> string option \<Rightarrow> 'k \<Rightarrow> process_info option" where
  "from_parts os pid tpid exe cmd cmdline oom rule k =
     (let stat = trim (read_default os pid (task_file tpid ''stat'') k);
          (sched, rtprio, nic, latency) = sched_part (rep_getattr os tpid k)
      in map_option
           (\<lambda>name.
             \<lparr>pi_pid = pid, pi_tpid = tpid, pi_exe = exe,
              pi_comm = trim (read_default os pid (task_file tpid ''comm'') k), pi_cmd = cmd, pi_stat = stat,
              pi_stat_name = (case name of Some n \<Rightarrow> n | None \<Rightarrow> []),
              pi_autogroup = get_autogroup_from_str (read_default os pid ''autogroup'' k), pi_sched = sched,
              pi_rtprio = rtprio, pi_nice = nic, pi_latency_nice = latency,
              pi_ionice = ionice_part (rep_ioprio os tpid k), pi_oom_score_adj = oom, pi_cmdline = cmdline, pi_rule = rule\<rparr>)
           (parse_stat stat))"

definition cmdline_of :: "string \<Rightarrow> string list" where
  "cmdline_of raw = filter (\<lambda>a. a \<noteq> []) (map trim (split_on (CHR 0x00) raw))"

definition oom_of :: "string \<Rightarrow> int" where
  "oom_of raw = (case parse_i32 (trim raw) of Some n \<Rightarrow> n | None \<Rightarrow> 0)"

definition new_process_info :: "'k report_os \<Rightarrow> int \<Rightarrow> int \<Rightarrow> string option \<Rightarrow> 'k \<Rightarrow> process_info option" where
  "new_process_info os pid tpid rule k =
     from_parts os pid tpid (rep_exe os pid k) (trim (read_default os pid ''comm'' k))
       (cmdline_of (read_default os pid ''cmdline'' k)) (oom_of (read_default os pid ''oom_score_adj'' k)) rule k"

subsection \<open>The reports on all threads\<close>

text \<open>
  The processes come from a scan; a thread is skipped when the name of its directory is no number. A JSON
  object is a map sorted by key. \<open>None\<close> is a panic.
\<close>

fun report_threads ::
  "'k report_os \<Rightarrow> int \<Rightarrow> string option \<Rightarrow> string \<Rightarrow> string list \<Rightarrow> int \<Rightarrow> string option \<Rightarrow> 'k \<Rightarrow> int list \<Rightarrow>
     (string \<times> process_info) list \<Rightarrow> (string \<times> process_info) list option" where
  "report_threads os pid exe cmd cmdline oom rule k [] m = Some m"
| "report_threads os pid exe cmd cmdline oom rule k (tid # tids) m =
     Option.bind (from_parts os pid tid exe cmd cmdline oom rule k)
       (\<lambda>info. report_threads os pid exe cmd cmdline oom rule k tids (map_put (show_int tid) info m))"

definition rule_reported :: "(string \<times> rule) option \<Rightarrow> string option" where
  "rule_reported found = (case found of Some (name, _) \<Rightarrow> if name = [] then None else Some name | None \<Rightarrow> None)"

fun get_process_info_map ::
  "('rx, 'c) lib \<Rightarrow> 'k report_os \<Rightarrow> 'k \<Rightarrow> process list \<Rightarrow> ('rx, 'c) rule_set \<Rightarrow> (string \<times> process_info) list \<Rightarrow>
     (string \<times> process_info) list option" where
  "get_process_info_map L os k [] rs m = Some m"
| "get_process_info_map L os k (p # ps) rs m =
     (case get_rule L (p_name p) rs of
        (found, rs') \<Rightarrow>
          Option.bind
            (case proc_tasks (rep_proc os) (p_pid p) k of
               Inl _ \<Rightarrow> Some m
             | Inr names \<Rightarrow>
                 report_threads os (p_pid p) (rep_exe os (p_pid p) k) (p_name p)
                   (cmdline_of (read_default os (p_pid p) ''cmdline'' k))
                   (oom_of (read_default os (p_pid p) ''oom_score_adj'' k)) (rule_reported found) k
                   (List.map_filter parse_i32 names) m)
            (get_process_info_map L os k ps rs'))"

text \<open>
  \<^verbatim>\<open>dump autogroup\<close>: threads by the number of their group, with the nice value of the group's first
  thread; the autogroup is left out of the report. A report \<^verbatim>\<open>as_i64\<close> reads has a number.
\<close>

record group_dump =
  group_nice :: int
  group_proc :: "(string \<times> process_info) list"

definition add_to_group ::
  "string \<times> process_info \<Rightarrow> (string \<times> group_dump) list \<Rightarrow> (string \<times> group_dump) list" where
  "add_to_group entry groups =
     (case entry of
        (tpid, info) \<Rightarrow>
          (case pi_autogroup info of
             None \<Rightarrow> groups
           | Some (g, n) \<Rightarrow>
               let key = show_int g;
                   d = (case map_of groups key of Some d \<Rightarrow> d | None \<Rightarrow> \<lparr>group_nice = n, group_proc = []\<rparr>)
               in map_put key (d\<lparr>group_proc := map_put tpid (info\<lparr>pi_autogroup := None\<rparr>) (group_proc d)\<rparr>) groups))"

definition dump_autogroup :: "(string \<times> process_info) list \<Rightarrow> (string \<times> group_dump) list" where
  "dump_autogroup m = fold add_to_group m []"

subsection \<open>The name in a line of stat\<close>

lemma last_join_words: "list_all word ws \<Longrightarrow> ws \<noteq> [] \<Longrightarrow> plain_char (last (join '' '' ws)) \<and> join '' '' ws \<noteq> []"
proof (induction "'' ''" ws rule: join.induct)
  case (2 p)
  then show ?case by (simp add: word_def list_all_iff)
qed simp_all

text \<open>
  The name of a thread is read back from the line the kernel writes for it, whatever spaces and parentheses
  it contains, and the report does not panic on such a line.
\<close>
theorem stat_name_read_back:
  assumes "list_all word fds" and "list_all (\<lambda>f. CHR '')'' \<notin> set f) fds" and "fds \<noteq> []"
  shows "parse_stat (trim (stat_line pid comm fds @ [CHR 0x0A])) = Some (Some comm)"
proof -
  let ?head = "show_nat pid @ '' (''" and ?tail = "CHR '' '' # join '' '' fds"
  have line: "stat_line pid comm fds = (?head @ comm) @ CHR '')'' # ?tail" by (simp add: stat_line_def)
  have nat: "c \<in> set (show_nat pid) \<Longrightarrow> plain_char c" for c by (rule show_nat_plain)
  have "plain_char (last (join '' '' fds)) \<and> join '' '' fds \<noteq> []" using assms(1,3) by (rule last_join_words)
  moreover have "plain_char (hd (show_nat pid))" using nat by simp
  ultimately have trim: "trim (stat_line pid comm fds @ [CHR 0x0A]) = stat_line pid comm fds"
    by (intro trim_newline) (simp_all add: stat_line_def hd_append)
  have "CHR '')'' \<notin> set ?tail" using assms(2) set_join_words by (fastforce simp: list_all_iff)
  then have en: "rfind_char (CHR '')'') (stat_line pid comm fds) = Some (length (?head @ comm))"
    unfolding line by (rule rfind_char_last)
  have "CHR ''('' \<notin> set (show_nat pid @ '' '')" using show_nat_no [of "CHR ''(''"] by (simp add: digit_val_def)
  then have st: "find_char (CHR ''('') (stat_line pid comm fds) = Some (length (show_nat pid @ '' ''))"
    using find_char_first [of "CHR ''(''" "show_nat pid @ '' ''" "comm @ CHR '')'' # ?tail"] by (simp add: stat_line_def)
  have "slice (stat_line pid comm fds) (length ?head) (length (?head @ comm)) = comm"
    unfolding line slice_def by simp
  with st en show ?thesis by (simp add: parse_stat_def trim)
qed

subsection \<open>The rule a report names\<close>

lemma report_threads_entries:
  assumes "report_threads os pid exe cmd cmdline oom rule k tids m = Some m'" and "(key, info) \<in> set m'"
  shows "(key, info) \<in> set m \<or>
    pi_pid info = pid \<and> pi_tpid info \<in> set tids \<and> pi_cmd info = cmd \<and> pi_rule info = rule \<and> key = show_int (pi_tpid info)"
  using assms
proof (induction tids arbitrary: m)
  case (Cons tid tids)
  then obtain i where i: "from_parts os pid tid exe cmd cmdline oom rule k = Some i"
    and rest: "report_threads os pid exe cmd cmdline oom rule k tids (map_put (show_int tid) i m) = Some m'"
    by (auto simp: Option.bind_eq_Some_conv)
  have "pi_pid i = pid \<and> pi_tpid i = tid \<and> pi_cmd i = cmd \<and> pi_rule i = rule"
    using i by (auto simp: from_parts_def Let_def split: prod.splits)
  with Cons.IH [OF rest Cons.prems(2)] set_map_put [of "show_int tid" i m] show ?case by auto
qed simp

lemma report_threads_keys:
  "report_threads os pid exe cmd cmdline oom rule k tids m = Some m' \<Longrightarrow>
     dom (map_of m') = dom (map_of m) \<union> show_int ` set tids"
proof (induction tids arbitrary: m)
  case (Cons tid tids)
  then obtain i where
    "report_threads os pid exe cmd cmdline oom rule k tids (map_put (show_int tid) i m) = Some m'"
    by (auto simp: Option.bind_eq_Some_conv)
  from Cons.IH [OF this] show ?case unfolding map_of_map_put dom_fun_upd by auto
qed simp

text \<open>The threads the task directory of a process lists, by their numbers.\<close>

definition listed_threads :: "'k report_os \<Rightarrow> process \<Rightarrow> 'k \<Rightarrow> int set" where
  "listed_threads os p k =
     {tid. \<exists>names. proc_tasks (rep_proc os) (p_pid p) k = Inr names \<and> (\<exists>name \<in> set names. parse_i32 name = Some tid)}"

lemma listed_threads_names:
  "proc_tasks (rep_proc os) (p_pid p) k = Inr names \<Longrightarrow> listed_threads os p k = set (List.map_filter parse_i32 names)"
  by (auto simp: listed_threads_def set_map_filter image_iff)

text \<open>One process: the reports it adds to the map, and their keys.\<close>

lemma process_reported:
  assumes "get_process_info_map L os k (p # ps) rs m = Some m'" and "get_rule L (p_name p) rs = (found, rs')"
  obtains m1 where "get_process_info_map L os k ps rs' m1 = Some m'"
    and "dom (map_of m1) = dom (map_of m) \<union> show_int ` listed_threads os p k"
    and "\<And>key info. (key, info) \<in> set m1 \<Longrightarrow> (key, info) \<in> set m \<or>
      pi_pid info = p_pid p \<and> pi_tpid info \<in> listed_threads os p k \<and> pi_cmd info = p_name p \<and>
      pi_rule info = rule_reported found \<and> key = show_int (pi_tpid info)"
proof (cases "proc_tasks (rep_proc os) (p_pid p) k")
  case (Inl e)
  then have "listed_threads os p k = {}" by (simp add: listed_threads_def)
  with Inl assms that show ?thesis by simp
next
  case (Inr names)
  with assms obtain m1 where m1: "get_process_info_map L os k ps rs' m1 = Some m'"
    and threads: "report_threads os (p_pid p) (rep_exe os (p_pid p) k) (p_name p)
      (cmdline_of (read_default os (p_pid p) ''cmdline'' k)) (oom_of (read_default os (p_pid p) ''oom_score_adj'' k))
      (rule_reported found) k (List.map_filter parse_i32 names) m = Some m1"
    by (auto simp: Option.bind_eq_Some_conv)
  show ?thesis
    using that [OF m1] report_threads_keys [OF threads] report_threads_entries [OF threads]
    unfolding listed_threads_names [of os p k names, OF Inr] by blast
qed

lemma process_map_entries:
  assumes "lru_ok L" and "still_loaded L rs rs'"
    and "get_process_info_map L os k ps rs' m = Some m'" and "(key, info) \<in> set m'" and "(key, info) \<notin> set m"
  shows "\<exists>p \<in> set ps. pi_pid info = p_pid p \<and> pi_tpid info \<in> listed_threads os p k \<and> pi_cmd info = p_name p \<and>
    key = show_int (pi_tpid info) \<and> pi_rule info = rule_reported (resolve rs (find_best_match L rs (p_name p)))"
  using assms(2-)
proof (induction ps arbitrary: rs' m)
  case (Cons p ps)
  let ?found = "resolve rs (find_best_match L rs (p_name p))"
  obtain rs2 where g: "get_rule L (p_name p) rs' = (?found, rs2)" and loaded: "still_loaded L rs rs2"
    using still_loaded_found [OF assms(1) Cons.prems(1)] still_loaded_get [OF assms(1) Cons.prems(1)]
    by (metis prod.collapse)
  obtain m1 where rest: "get_process_info_map L os k ps rs2 m1 = Some m'"
    and m1: "(key, info) \<in> set m1 \<Longrightarrow> (key, info) \<in> set m \<or>
      pi_pid info = p_pid p \<and> pi_tpid info \<in> listed_threads os p k \<and> pi_cmd info = p_name p \<and>
      pi_rule info = rule_reported ?found \<and> key = show_int (pi_tpid info)"
    using process_reported [OF Cons.prems(2) g] by metis
  show ?case
  proof (cases "(key, info) \<in> set m1")
    case True
    with m1 Cons.prems(4) show ?thesis by auto
  next
    case False
    with Cons.IH [OF loaded rest Cons.prems(3)] show ?thesis by auto
  qed
qed simp

lemma process_map_keys:
  "get_process_info_map L os k ps rs m = Some m' \<Longrightarrow>
     dom (map_of m') = dom (map_of m) \<union> show_int ` (\<Union>p \<in> set ps. listed_threads os p k)"
proof (induction ps arbitrary: rs m)
  case (Cons p ps)
  obtain found rs' where "get_rule L (p_name p) rs = (found, rs')" by (cases "get_rule L (p_name p) rs")
  then obtain m1 where "get_process_info_map L os k ps rs' m1 = Some m'"
    and m1: "dom (map_of m1) = dom (map_of m) \<union> show_int ` listed_threads os p k"
    using process_reported [OF Cons.prems] by metis
  from Cons.IH [OF this(1)] show ?case unfolding m1 by (simp add: image_Un Un_assoc)
qed simp

text \<open>
  C37: A dump reports the threads of the scanned processes, and only them: the keys of the map are the numbers the
  task directories list, and every report is under its own number, about a thread its process lists, and names as
  its rule the one the name of the process resolves to. When that name is not one of a NixOS wrapper this is the rule
  the worker applies.
\<close>
theorem dump_reports_rule:
  assumes "lru_ok L" and "load_directory L cfg (Some walk) (rs0, t0) = (log, rs, t)"
    and "get_process_info_map L os k ps rs [] = Some m"
  shows "fst ` set m = {show_int tid | p tid names name. p \<in> set ps \<and>
      proc_tasks (rep_proc os) (p_pid p) k = Inr names \<and> name \<in> set names \<and> parse_i32 name = Some tid} \<and>
    (\<forall>(key, info) \<in> set m. \<exists>p \<in> set ps. pi_pid info = p_pid p \<and> pi_cmd info = p_name p \<and> key = show_int (pi_tpid info) \<and>
      (\<exists>names. proc_tasks (rep_proc os) (p_pid p) k = Inr names \<and> (\<exists>name \<in> set names. parse_i32 name = Some (pi_tpid info))) \<and>
      pi_rule info = rule_reported (resolve rs (best_name L (loaded_lines cfg (sort_key file_path walk)) (p_name p))) \<and>
      (unwrap_name (p_name p) = p_name p \<longrightarrow>
         pi_rule info = rule_reported (fst (get_rule L (unwrap_name (p_name p)) rs))))"
proof -
  have loaded: "still_loaded L rs rs" by (rule loaded_still [OF assms(1,2)])
  have best: "find_best_match L rs name = best_name L (loaded_lines cfg (sort_key file_path walk)) name" for name
    by (rule find_best_match_name [OF regex_inv_directory [OF assms(2)]])
  have "fst ` set m = show_int ` (\<Union>p \<in> set ps. listed_threads os p k)"
    using process_map_keys [OF assms(3)] by (simp add: dom_map_of_conv_image_fst)
  moreover have "show_int ` (\<Union>p \<in> set ps. listed_threads os p k) = {show_int tid | p tid names name. p \<in> set ps \<and>
      proc_tasks (rep_proc os) (p_pid p) k = Inr names \<and> name \<in> set names \<and> parse_i32 name = Some tid}"
    unfolding listed_threads_def by blast
  ultimately show ?thesis
    using process_map_entries [OF assms(1) loaded assms(3)] still_loaded_found [OF assms(1) loaded] best
    unfolding listed_threads_def by fastforce
qed

text \<open>The rule of a wrapped program is applied by the worker and missing from the dump.\<close>

lemma wrapped_rule_not_reported:
  "let ls = loaded_lines default_snapshot (sort_key file_path sample_walk) in
   best_name sample_lib ls ''.doom-wrapped'' = None \<and>
   best_name sample_lib ls (unwrap_name ''.doom-wrapped'') = Some ''doom''"
proof -
  let ?v = "JObject [(''name'', JString ''doom''), (''type'', JString ''Game''),
              (''nice'', JNull), (''name_regex'', JString ''D'')]"
  have ls: "loaded_lines default_snapshot (sort_key file_path sample_walk) = [''{t}'', ''{p}'']"
    by (simp add: loaded_lines_def file_lines_def sample_walk_def eval_simps)
  have cl: "classify sample_lib ''{p}'' = Program ''doom'' ?v" "\<exists>n v. classify sample_lib ''{t}'' = Type n v"
    by (simp_all add: classify_def eval_simps sample_lib_def)
  have un: "unwrap_name ''.doom-wrapped'' = ''doom''"
    by (simp add: unwrap_name_def eval_simps)
  have rx: "\<not> is_match sample_lib m ''.doom-wrapped''" if "m \<in> set (regexes sample_lib [''{t}'', ''{p}''])" for m
    using that cl by (auto simp: regexes_def line_regex_def compile_def str_member_def is_match_def sample_lib_def set_map_filter
        split: option.splits if_splits)
  show ?thesis
    using cl rx by (auto simp: Let_def ls un best_name_def program_defs_def find_None_iff)
qed

subsection \<open>Threads by autogroup\<close>

lemma add_to_group_lookup:
  "(\<exists>d. map_of (add_to_group (tpid, info) groups) key = Some d \<and> map_of (group_proc d) t = Some i) \<longleftrightarrow>
   (if t = tpid \<and> (\<exists>g n. pi_autogroup info = Some (g, n) \<and> key = show_int g) then i = info\<lparr>pi_autogroup := None\<rparr>
    else \<exists>d. map_of groups key = Some d \<and> map_of (group_proc d) t = Some i)"
  by (auto simp: add_to_group_def Let_def map_of_map_put split: option.split prod.split)

text \<open>
  The dump of autogroups has every thread that is in a group under the number of its group, with its report
  less the group, and nothing else.
\<close>
theorem autogroups_partition_threads:
  assumes "distinct (map fst m)"
  shows "(\<exists>d. map_of (dump_autogroup m) key = Some d \<and> map_of (group_proc d) tpid = Some i) \<longleftrightarrow>
    (\<exists>info g n. map_of m tpid = Some info \<and> pi_autogroup info = Some (g, n) \<and> key = show_int g \<and>
       i = info\<lparr>pi_autogroup := None\<rparr>)"
proof -
  have "(\<exists>d. map_of (fold add_to_group m groups) key = Some d \<and> map_of (group_proc d) tpid = Some i) \<longleftrightarrow>
      (if \<exists>info g n. map_of m tpid = Some info \<and> pi_autogroup info = Some (g, n) \<and> key = show_int g
       then i = (the (map_of m tpid))\<lparr>pi_autogroup := None\<rparr>
       else \<exists>d. map_of groups key = Some d \<and> map_of (group_proc d) tpid = Some i)" for groups
    using assms
  proof (induction m arbitrary: groups)
    case (Cons e m)
    obtain t info where e: "e = (t, info)" by (cases e)
    have distinct: "distinct (map fst m)" and fresh: "map_of m t = None"
      using Cons.prems e by (simp_all add: map_of_eq_None_iff)
    show ?case
    proof (cases "t = tpid")
      case True
      with fresh show ?thesis by (auto simp: Cons.IH [OF distinct] e add_to_group_lookup)
    qed (auto simp: Cons.IH [OF distinct] e add_to_group_lookup)
  qed simp
  then show ?thesis by (auto simp: dump_autogroup_def)
qed

subsection \<open>Evaluations\<close>

theorem stat_name_read_back_witness:
  "parse_stat (trim (stat_line 42 ''Web (a) b'' [''S'', ''1''] @ [CHR 0x0A])) = Some (Some ''Web (a) b'')"
  by (rule stat_name_read_back) (simp_all add: word_def plain_char_def ascii_ws_def)

definition sample_report_os :: "(path \<times> string option) list report_os" where
  "sample_report_os =
     \<lparr>rep_proc = sample_proc, rep_exe = \<lambda>pid k. None, rep_getattr = \<lambda>pid k. None, rep_ioprio = \<lambda>pid k. None\<rparr>"

theorem dump_reports_rule_witness:
  "\<exists>log rs t m info. load_directory sample_lib default_snapshot (Some sample_walk) (new_rules [], empty_table) = (log, rs, t) \<and>
     get_process_info_map sample_lib sample_report_os [] [new_process 7 ''doom''] rs [] = Some m \<and>
     (show_int 8, info) \<in> set m \<and> pi_cmd info = ''doom'' \<and>
     pi_rule info = rule_reported (fst (get_rule sample_lib ''doom'' rs))"
proof -
  obtain log rs t where l:
    "load_directory sample_lib default_snapshot (Some sample_walk) (new_rules [], empty_table) = (log, rs, t)"
    by (metis prod_cases3)
  have tids: "parse_i32 ''7'' = Some 7" "parse_i32 ''8'' = Some 8"
    by (simp_all add: parse_i32_def eval_simps)
  have part: "\<exists>i. from_parts sample_report_os pid tid exe cmd cl oom rule [] = Some i" for pid tid exe cmd cl oom rule
    by (simp add: from_parts_def read_default_def read_ok_def sample_report_os_def sample_proc_def mem_fs_def parse_stat_def
        sched_part_def)
  have tasks: "proc_tasks (rep_proc sample_report_os) 7 [] = Inr [''7'', ''8'']"
    by (simp add: sample_report_os_def sample_proc_def)
  obtain i7 i8 where m: "get_process_info_map sample_lib sample_report_os [] [new_process 7 ''doom''] rs [] =
      Some (map_put (show_int 8) i8 (map_put (show_int 7) i7 []))" (is "_ = Some ?m")
  proof (cases "get_rule sample_lib ''doom'' rs")
    case (Pair found rs')
    let ?parts = "\<lambda>tid. from_parts sample_report_os 7 tid (rep_exe sample_report_os 7 []) ''doom''
        (cmdline_of (read_default sample_report_os 7 ''cmdline'' []))
        (oom_of (read_default sample_report_os 7 ''oom_score_adj'' [])) (rule_reported found) []"
    obtain i7 i8 where "?parts 7 = Some i7" "?parts 8 = Some i8" using part by metis
    with Pair that show ?thesis by (simp add: new_process_def tasks tids del: map_put.simps)
  qed
  have entry: "(show_int 8, i8) \<in> set ?m" by (rule map_of_SomeD) (simp add: map_of_map_put)
  have "unwrap_name ''doom'' = ''doom''" by (simp add: unwrap_name_def starts_with_def)
  moreover have "(case (show_int 8, i8) of (key, info) \<Rightarrow> \<exists>p \<in> set [new_process 7 ''doom'']. pi_pid info = p_pid p \<and>
      pi_cmd info = p_name p \<and> key = show_int (pi_tpid info) \<and>
      (unwrap_name (p_name p) = p_name p \<longrightarrow> pi_rule info = rule_reported (fst (get_rule sample_lib (unwrap_name (p_name p)) rs))))"
    using conjunct2 [OF dump_reports_rule [OF sample_lru_ok l m]] entry by fast
  ultimately have "pi_pid i8 = 7 \<and> pi_cmd i8 = ''doom'' \<and> pi_rule i8 = rule_reported (fst (get_rule sample_lib ''doom'' rs))"
    by (simp add: new_process_def)
  with l m entry show ?thesis by blast
qed

definition grouped :: "string \<Rightarrow> int \<Rightarrow> process_info" where
  "grouped name g =
     \<lparr>pi_pid = 1, pi_tpid = 1, pi_exe = None, pi_comm = name, pi_cmd = name, pi_stat = [], pi_stat_name = name,
      pi_autogroup = Some (g, 5), pi_sched = ''normal'', pi_rtprio = 0, pi_nice = 0, pi_latency_nice = 0,
      pi_ionice = (''none'', None), pi_oom_score_adj = 0, pi_cmdline = [], pi_rule = None\<rparr>"

theorem autogroups_partition_threads_witness:
  "\<exists>d. map_of (dump_autogroup [(''1'', grouped ''a'' 3), (''2'', grouped ''b'' 4), (''3'', grouped ''c'' 3)]) (show_int 3) =
     Some d \<and> map_of (group_proc d) ''3'' = Some ((grouped ''c'' 3)\<lparr>pi_autogroup := None\<rparr>)"
  using autogroups_partition_threads
    [of "[(''1'', grouped ''a'' 3), (''2'', grouped ''b'' 4), (''3'', grouped ''c'' 3)]" "show_int 3" "''3''"
      "(grouped ''c'' 3)\<lparr>pi_autogroup := None\<rparr>"]
  by (auto simp: grouped_def)

end
