(* ===== verification/Dump.thy ===== *)
theory Dump
  imports Rule_Load
begin

text \<open>
  \<^verbatim>\<open>src/src/dump.rs\<close>: what \<^verbatim>\<open>dump rules\<close>, \<^verbatim>\<open>dump types\<close> and \<^verbatim>\<open>dump cgroups\<close> print of a loaded rule set, as the
  values handed to \<^verbatim>\<open>serde_json\<close>. Every rule of a loaded set is well formed, so that its report reads back, and the
  dumped objects, put into rule files again, give every program by its exact name the settings that were in force.
\<close>

subsection \<open>The dumps\<close>

text \<open>Collecting pairs into a \<^verbatim>\<open>BTreeMap\<close>: the last value of a key stays, and the keys are walked in the order of bytes.\<close>

definition btree_collect :: "(string \<times> 'v) list \<Rightarrow> (string \<times> 'v) list" where
  "btree_collect kvs = sort_key fst (fold (\<lambda>(k, v). AList.update k v) kvs [])"

definition dump_rules :: "name_table \<Rightarrow> ('rx, 'c) rule_set \<Rightarrow> (string \<times> json) list" where
  "dump_rules t rs = btree_collect (map (\<lambda>(name, r). (name, to_json t r name)) (iter_rules rs))"

definition dump_types :: "('rx, 'c) lib \<Rightarrow> ('rx, 'c) rule_set \<Rightarrow> (string \<times> json) list" where
  "dump_types L rs = btree_collect (lib_map_iter L (types rs))"

definition dump_cgroups :: "('rx, 'c) lib \<Rightarrow> ('rx, 'c) rule_set \<Rightarrow> (string \<times> json) list" where
  "dump_cgroups L rs = btree_collect (lib_map_iter L (cgroups rs))"

lemma fold_update_map_of:
  "map_of (fold (\<lambda>(k, v). AList.update k v) kvs m) = map_of m ++ map_of (rev kvs)"
  by (induction kvs arbitrary: m) (auto simp: update_conv' map_add_def fun_eq_iff split: option.split)

lemma fold_update_distinct:
  "distinct (map fst m) \<Longrightarrow> distinct (map fst (fold (\<lambda>(k, v). AList.update k v) kvs m))"
  by (induction kvs arbitrary: m) (auto simp: distinct_update)

lemma btree_keys: "sorted (map fst (btree_collect kvs)) \<and> distinct (map fst (btree_collect kvs))"
proof -
  have "distinct (map fst (fold (\<lambda>(k, v). AList.update k v) kvs []))" by (rule fold_update_distinct) simp
  then have "distinct (map fst (btree_collect kvs))"
    unfolding btree_collect_def
    by (metis mset_eq_imp_distinct_iff mset_map mset_sort)
  then show ?thesis by (simp add: btree_collect_def)
qed

lemma btree_map_of:
  assumes "distinct (map fst kvs)"
  shows "map_of (btree_collect kvs) = map_of kvs"
proof -
  have "distinct (map fst (fold (\<lambda>(k, v). AList.update k v) kvs []))" by (rule fold_update_distinct) simp
  then have "map_of (btree_collect kvs) = map_of (fold (\<lambda>(k, v). AList.update k v) kvs [])"
    unfolding btree_collect_def by (intro map_of_mset) simp_all
  also have "\<dots> = map_of (rev kvs)" by (simp add: fold_update_map_of)
  also have "\<dots> = map_of kvs" using assms by (intro map_of_mset) simp_all
  finally show ?thesis .
qed

lemma btree_iter:
  assumes "iter_ok L" and "distinct (map fst kvs)"
  shows "map_of (btree_collect (lib_map_iter L kvs)) = map_of kvs"
proof -
  have m: "mset (lib_map_iter L kvs) = mset kvs" using assms by (simp add: iter_ok_def)
  then have "distinct (map fst (lib_map_iter L kvs))"
    using assms(2) by (metis mset_eq_imp_distinct_iff mset_map)
  then show ?thesis using map_of_mset [OF m assms(2)] by (simp add: btree_map_of)
qed

subsection \<open>Every loaded rule is well formed\<close>

text \<open>What one line keeps of the set: rules with numbers in range and extras of their own, types with each key once.\<close>

definition entries_wf :: "('rx, 'c) rule_set \<Rightarrow> bool" where
  "entries_wf rs \<longleftrightarrow> (\<forall>r \<in> set (rules rs). rule_wf r) \<and> (\<forall>v \<in> snd ` set (types rs). keys_once v) \<and>
     distinct (map fst (cgroups rs))"

lemma default_rule_wf: "rule_wf default_rule"
  by (simp add: rule_wf_def default_rule_def i32_attr_def flatten_def)

lemma add_program_entries:
  assumes "keys_once v"
  shows "entries_wf rs \<Longrightarrow> entries_wf (fst (snd (add_program L v n source (rs, t))))"
proof -
  have "rule_wf r" if "from_json v t = (r, t')" for r t' using from_json_wf [OF assms, of t] that by simp
  then show "entries_wf rs \<Longrightarrow> ?thesis"
    using default_rule_wf set_update_subset_insert
    by (fastforce simp: entries_wf_def add_program_def reserve_def split: prod.splits option.splits)
qed

lemma classify_keys_once:
  assumes "parser_ok L"
  shows "classify L l = Program n v \<Longrightarrow> keys_once v" and "classify L l = Type n v \<Longrightarrow> keys_once v"
  using assms by (auto simp: classify_def parser_ok_def Option.bind_eq_Some_conv split: option.splits)

lemma update_values: "snd ` set (AList.update k v m) \<subseteq> insert v (snd ` set m)"
  by (induction m) auto

lemma entries_line:
  assumes "parser_ok L" and "entries_wf (fst st)"
  shows "entries_wf (fst (line_state L source l st))"
proof -
  obtain rs t where st: "st = (rs, t)" by (cases st)
  show ?thesis
  proof (cases "classify L l")
    case (Program n v)
    then show ?thesis
      using add_program_entries [OF classify_keys_once(1) [OF assms(1) Program]] assms(2)
      by (simp add: st line_state_classify)
  next
    case (Type n v)
    have "\<forall>w \<in> snd ` set (AList.update n v (types rs)). keys_once w"
      using update_values [of n v "types rs"] classify_keys_once(2) [OF assms(1) Type] assms(2)
      unfolding st entries_wf_def fst_conv by blast
    with assms(2) show ?thesis by (simp add: st line_state_classify Type entries_wf_def)
  qed (use assms(2) in \<open>simp_all add: st line_state_classify entries_wf_def distinct_update\<close>)
qed

interpretation el: line_loader L "\<lambda>_ st. parser_ok L \<longrightarrow> entries_wf (fst st)" for L
  by unfold_locales (simp add: entries_line)

lemma rule_wf_type [simp]: "rule_wf (r\<lparr>type_name := i\<rparr>) = rule_wf r"
  by (simp add: rule_wf_def)

lemma resolve_bases_wf:
  "\<forall>v \<in> snd ` set tys. keys_once v \<Longrightarrow> \<forall>b \<in> snd ` set (fst (resolve_bases tys t)). rule_wf b"
proof (induction tys arbitrary: t)
  case (Cons ty tys)
  obtain name v where ty: "ty = (name, v)" by (cases ty)
  with Cons.prems have "rule_wf (fst (from_json v t))" by (intro from_json_wf) simp
  moreover have "\<forall>b \<in> snd ` set (fst (resolve_bases tys (snd (from_json v t)))). rule_wf b"
    using Cons by simp
  ultimately show ?case by (simp add: ty split_beta)
qed simp

lemma inherit_base_cases:
  "inherit_base t bases r = r \<or> (\<exists>b \<in> snd ` set bases. inherit_base t bases r = inherit r b)"
  by (auto simp: inherit_base_def split: option.split dest!: map_of_SomeD) force

lemma loaded_entries:
  assumes "table_wf t0" and "parser_ok L" and "iter_ok L"
    and "load_directory L cfg (Some walk) (rs0, t0) = (log, rs, t)"
    and "length (loaded_lines cfg (sort_key file_path walk)) \<le> 2 ^ 32"
  shows "\<forall>r \<in> set (rules rs). rule_ok t r \<and> rule_wf r" and "distinct (map fst (types rs))"
    and "distinct (map fst (cgroups rs))"
    and "map_of (types rs) = type_defs L (loaded_lines cfg (sort_key file_path walk))"
    and "map_of (cgroups rs) = cgroup_defs L (loaded_lines cfg (sort_key file_path walk))"
    and "index_ok (programs rs) (rules rs)"
proof -
  obtain rs1 t1 bases where st: "load_files L cfg (sort_key file_path walk) (clear_rules L rs0, t0) = (log, rs1, t1)"
    and rb: "resolve_bases (lib_map_iter L (types rs1)) t1 = (bases, t)"
    and rs: "rs = rs1\<lparr>rules := map (inherit_base t bases) (rules rs1),
              resolved_cache := map_option (lib_cache_clear L) (resolved_cache rs1)\<rparr>"
    using load_directory_parts [OF assms(4)] by metis
  note rep = represents_directory [OF assms(1) st]
  have wf: "entries_wf rs1"
    using el.inv_files [where st = "(clear_rules L rs0, t0)" and L = L and cfg = cfg and fs = "sort_key file_path walk"] st assms(2)
    by (simp add: entries_wf_def clear_rules_def)
  have ex: "extends t0 t1" and rok: "\<forall>r \<in> set (rules rs1). rule_ok t1 r" and dt: "distinct (map fst (types rs1))"
    using rep assms(5) by (auto simp: represents_def)
  have sb: "extends t1 t" "\<forall>b \<in> snd ` set bases. rule_ok t b"
    using resolve_bases_sound [OF extends_wf [OF ex] rb] by blast+
  have "set (lib_map_iter L (types rs1)) = set (types rs1)"
    using assms(3) dt by (metis iter_ok_def mset_eq_setD)
  then have "\<forall>b \<in> snd ` set bases. rule_wf b"
    using resolve_bases_wf [of "lib_map_iter L (types rs1)" t1] wf rb by (simp add: entries_wf_def)
  then have "rule_ok t (inherit_base t bases r) \<and> rule_wf (inherit_base t bases r)" if "r \<in> set (rules rs1)" for r
    using inherit_base_cases [of t bases r] that rok sb wf rule_ok_extends rule_ok_inherit inherit_wf
    unfolding entries_wf_def by metis
  then show "\<forall>r \<in> set (rules rs). rule_ok t r \<and> rule_wf r" by (auto simp: rs)
  show "distinct (map fst (types rs))" "distinct (map fst (cgroups rs))"
    using dt wf by (simp_all add: rs entries_wf_def)
  show "map_of (types rs) = type_defs L (loaded_lines cfg (sort_key file_path walk))"
    "map_of (cgroups rs) = cgroup_defs L (loaded_lines cfg (sort_key file_path walk))"
    "index_ok (programs rs) (rules rs)"
    using rep assms(5) by (auto simp: represents_def rs)
qed

text \<open>
  C39: Whatever the rule files contain and however full the name table is, every rule of a loaded set is well formed:
  its type and its four names are numbers the table knows, its numbers fit 32 bits, and its extra members are under
  keys the program does not use itself, each once; and the table is consistent.
\<close>

theorem loaded_rules_well_formed:
  assumes "table_wf t0" and "parser_ok L" and "iter_ok L"
    and "load_directory L cfg (Some walk) (rs0, t0) = (log, rs, t)"
    and "length (loaded_lines cfg (sort_key file_path walk)) \<le> 2 ^ 32"
  shows "table_wf t \<and> (\<forall>r \<in> set (rules rs). rule_ok t r \<and> rule_wf r)"
  using loaded_table_wf [OF assms(1,4,5)] loaded_entries(1) [OF assms] by blast

theorem loaded_rules_well_formed_witness:
  "\<exists>log rs t. load_directory sample_lib default_snapshot (Some sample_walk) (new_rules [], empty_table) = (log, rs, t) \<and>
    rules rs \<noteq> [] \<and> table_wf t \<and> (\<forall>r \<in> set (rules rs). rule_ok t r \<and> rule_wf r)"
proof -
  have "\<exists>log rs t. load_directory sample_lib default_snapshot (Some sample_walk) (new_rules [], empty_table) = (log, rs, t) \<and>
      rules rs \<noteq> []"
    by (simp add: eval_simps sample_lib_def sample_walk_def)
  then obtain log rs t where
    l: "load_directory sample_lib default_snapshot (Some sample_walk) (new_rules [], empty_table) = (log, rs, t)"
      "rules rs \<noteq> []"
    by blast
  moreover have "length (loaded_lines default_snapshot (sort_key file_path sample_walk)) \<le> 2 ^ 32"
    by (simp add: loaded_lines_def file_lines_def sample_walk_def eval_simps)
  ultimately show ?thesis
    using loaded_rules_well_formed [OF table_wf_empty sample_lib_ok l(1)] by blast
qed

subsection \<open>The dumped objects as definitions\<close>

lemma map_of_mapped: "map_of (map (\<lambda>(k, i). (k, f k i)) m) k = map_option (f k) (map_of m k)"
  by (induction m) auto

lemma dump_rules_lookup:
  assumes "index_ok (programs rs) (rules rs)"
  shows "map_of (dump_rules t rs) n = map_option (\<lambda>(m, r). to_json t r m) (resolve rs (Some n))"
proof -
  have it: "iter_rules rs = map (\<lambda>(n, i). (n, rules rs ! i)) (programs rs)"
    unfolding iter_rules_def using assms by (intro map_filter_bounded) (simp add: index_ok_def)
  have "map (\<lambda>(name, r). (name, to_json t r name)) (iter_rules rs) =
      map (\<lambda>(n, i). (n, to_json t (rules rs ! i) n)) (programs rs)"
    by (simp add: it split_beta)
  moreover have "distinct (map fst (map (\<lambda>(n, i). (n, to_json t (rules rs ! i) n)) (programs rs)))"
    using assms by (simp add: index_ok_def split_beta comp_def)
  ultimately show ?thesis
    using index_less [OF assms, of n]
    by (auto simp: dump_rules_def btree_map_of map_of_mapped resolve_def split: option.split)
qed

lemma insert_reported_distinct: "distinct (map fst ms) \<Longrightarrow> distinct (map fst (insert_reported km ms))"
  by (simp add: insert_reported_def distinct_update split: option.split)

lemma to_json_keys_once: "keys_once (to_json t r n)"
proof -
  have "distinct (map fst ms) \<Longrightarrow> distinct (map fst (fold insert_reported kms ms))" for kms ms
    by (induction kms arbitrary: ms) (auto simp: insert_reported_distinct)
  then show ?thesis
    by (simp add: to_json_def keys_once_def Let_def fold_update_distinct insert_reported_distinct)
qed

lemma to_json_name:
  assumes "rule_wf r"
  shows "str_member (to_json t r n) ''name'' = Some n"
proof -
  have "''name'' \<notin> set (map fst (report_members t r))" by (simp only: report_keys) simp
  then have "map_of (own_members t r n) ''name'' = Some (JString n)"
    by (simp add: own_members_def fold_reported_other insert_reported_get)
  then show ?thesis
    using assms to_json_members [OF assms, of t n]
    by (auto simp: str_member_def map_add_def rule_wf_def implemented_def map_of_eq_None_iff split: option.split dest!: map_of_SomeD)
qed

lemma overlay_again: "overlay_value (overlay_value a b) b = overlay_value a b"
  by (simp add: overlay_value_def)

lemma spec_inherit_again: "settings_of (spec_inherit (spec_inherit x y) y) = settings_of (spec_inherit x y)"
  by (simp add: settings_of_def spec_inherit_def overlay_again)

text \<open>A rule whose type is defined has inherited from it.\<close>

lemma loaded_inherits:
  assumes "table_wf t0" and "iter_ok L"
    and "load_directory L cfg (Some walk) (rs0, t0) = (log, rs, t)" and "\<not> table_full t"
    and "length (loaded_lines cfg (sort_key file_path walk)) \<le> 2 ^ 32"
    and "r \<in> set (rules rs)" and "type_as_str t (type_name r) = Some ty"
    and "type_defs L (loaded_lines cfg (sort_key file_path walk)) ty = Some b"
  shows "\<exists>x. view t r = spec_inherit x (spec_view b)"
proof -
  obtain rs1 t1 bases where st: "load_files L cfg (sort_key file_path walk) (clear_rules L rs0, t0) = (log, rs1, t1)"
    and rb: "resolve_bases (lib_map_iter L (types rs1)) t1 = (bases, t)"
    and rs: "rs = rs1\<lparr>rules := map (inherit_base t bases) (rules rs1),
              resolved_cache := map_option (lib_cache_clear L) (resolved_cache rs1)\<rparr>"
    using load_directory_parts [OF assms(3)] by metis
  have ex: "extends t0 t1" and dt: "distinct (map fst (types rs1))"
    and tys: "map_of (types rs1) = type_defs L (loaded_lines cfg (sort_key file_path walk))"
    using represents_directory [OF assms(1) st] assms(5) by (auto simp: represents_def)
  have it: "map_of (lib_map_iter L (types rs1)) ty = Some b"
    using map_of_mset [OF _ dt] assms(2,8) dt tys by (auto simp: iter_ok_def)
  obtain r1 where r: "r = inherit_base t bases r1" using assms(6) by (auto simp: rs)
  have "type_name r = type_name r1" by (simp add: r inherit_base_def inherit_def split: option.split)
  moreover obtain base where base: "map_of bases ty = Some base" "view t base = (spec_view b)\<lparr>view_type := None\<rparr>"
    using resolve_bases_sound [OF extends_wf [OF ex] rb] it assms(4) by (cases "map_of bases ty") auto
  ultimately have "view t r = spec_inherit (view t r1) ((spec_view b)\<lparr>view_type := None\<rparr>)"
    using assms(7) by (simp add: r inherit_base_def view_inherit)
  then show ?thesis by (auto simp: spec_inherit_def)
qed

lemma dumped_rule_settings:
  assumes "table_wf t" and "\<not> table_full t" and "rule_ok t r" and "rule_wf r"
    and "\<And>ty b. type_as_str t (type_name r) = Some ty \<Longrightarrow> tys ty = Some b \<Longrightarrow> \<exists>x. view t r = spec_inherit x (spec_view b)"
  shows "settings_of (spec_view (with_type tys (to_json t r n))) = rule_settings t r"
proof -
  let ?v = "to_json t r n"
  have view: "view t r = spec_view ?v"
    using from_json_sound [OF assms(1) report_reads_back [OF assms(1,3,4), of n]] assms(2) by blast
  then have ty: "str_member ?v ''type'' = type_as_str t (type_name r)"
    by (metis rule_view.select_convs(1) spec_view_def str_member_def view_def)
  obtain ps where ps: "?v = JObject ps" using to_json_members [OF assms(4)] by blast
  show ?thesis
  proof (cases "Option.bind (str_member ?v ''type'') tys")
    case None
    then show ?thesis by (simp add: with_type_def rule_settings_view view)
  next
    case (Some b)
    then obtain x where x: "view t r = spec_inherit x (spec_view b)"
      using assms(5) ty by (auto simp: Option.bind_eq_Some_conv)
    have "settings_of (spec_view (with_type tys ?v)) = settings_of (spec_inherit (view t r) (spec_view b))"
      using settings_merge [of ps b] to_json_keys_once [of t r n] Some by (simp add: with_type_def view ps)
    then show ?thesis by (simp add: x spec_inherit_again rule_settings_view)
  qed
qed

lemma member_of_extras:
  assumes "k \<notin> set implemented"
  shows "json_get (JObject ps) k = map_of (extras_of (JObject ps)) k"
  using assms by (induction ps) (auto simp: extras_of_def)

lemma to_json_extra:
  assumes "rule_wf r" and "k \<notin> set implemented"
  shows "json_get (to_json t r n) k = map_of (extras r) k"
proof -
  have "map_of (own_members t r n) k = None"
    using own_members_keys [of t r n] assms(2) by (auto simp: map_of_eq_None_iff)
  then show ?thesis using assms(1) by (simp add: to_json_members map_add_def split: option.split)
qed

text \<open>What a rule says beyond its attributes, the pattern above all, is what its last definition says.\<close>

lemma loaded_pattern:
  assumes "table_wf t0" and "parser_ok L" and "load_directory L cfg (Some walk) (rs0, t0) = (log, rs, t)"
    and "\<not> table_full t" and "length (loaded_lines cfg (sort_key file_path walk)) \<le> 2 ^ 32"
    and "resolve rs (Some n) = Some (m, r)" and "rule_wf r"
    and "program_defs L (loaded_lines cfg (sort_key file_path walk)) n = Some v"
  shows "str_member (to_json t r n) ''name_regex'' = str_member v ''name_regex''"
proof -
  obtain rs1 t1 bases where st: "load_files L cfg (sort_key file_path walk) (clear_rules L rs0, t0) = (log, rs1, t1)"
    and rb: "resolve_bases (lib_map_iter L (types rs1)) t1 = (bases, t)"
    and rs: "rs = rs1\<lparr>rules := map (inherit_base t bases) (rules rs1),
              resolved_cache := map_option (lib_cache_clear L) (resolved_cache rs1)\<rparr>"
    using load_directory_parts [OF assms(3)] by metis
  have rep: "represents L t0 (loaded_lines cfg (sort_key file_path walk)) (rs1, t1)"
    by (rule represents_directory [OF assms(1) st])
  then have "extends t0 t1" using assms(5) by (simp add: represents_def)
  then have "\<not> table_full t1"
    using resolve_bases_sound [OF extends_wf rb] extends_not_full [OF _ assms(4)] by blast
  then have eq: "map_option (\<lambda>i. view t1 (rules rs1 ! i)) (map_of (programs rs1) n) = Some (spec_view v)"
    using rep assms(5,8) by (simp add: represents_def)
  then obtain i where i: "map_of (programs rs1) n = Some i" "view t1 (rules rs1 ! i) = spec_view v" by auto
  have "r = inherit_base t bases (rules rs1 ! i)"
    using assms(6) i(1) by (auto simp: resolve_def rs split: if_splits)
  then have "extras r = extras (rules rs1 ! i)" by (simp add: inherit_base_def inherit_def split: option.split)
  also have "\<dots> = extras_of v"
    using arg_cong [OF i(2), of view_extras] by (simp add: view_def spec_view_def)
  finally have "extras r = extras_of v" .
  moreover obtain ps where "v = JObject ps" using program_defs_object [OF assms(2,8)] by blast
  ultimately have "json_get (to_json t r n) ''name_regex'' = json_get v ''name_regex''"
    using to_json_extra [OF assms(7)] member_of_extras by (simp add: implemented_def del: json_get.simps)
  then show ?thesis by (simp add: str_member_def)
qed

text \<open>
  The dumps as definitions: the types and the cgroups are the last definitions in the files, and a dumped rule names
  its program, has the pattern of its definition and, read with the types, gives the settings in force, although the
  dump already contains what was inherited.
\<close>

lemma dumped_definitions:
  assumes "table_wf t0" and "parser_ok L" and "iter_ok L"
    and "load_directory L cfg (Some walk) (rs0, t0) = (log, rs, t)" and "\<not> table_full t"
    and "length (loaded_lines cfg (sort_key file_path walk)) \<le> 2 ^ 32"
  shows "map_of (dump_types L rs) = type_defs L (loaded_lines cfg (sort_key file_path walk)) \<and>
    map_of (dump_cgroups L rs) = cgroup_defs L (loaded_lines cfg (sort_key file_path walk)) \<and>
    (\<forall>n. map_option (\<lambda>v. (str_member v ''name'', str_member v ''name_regex'', settings_of (spec_view
             (with_type (type_defs L (loaded_lines cfg (sort_key file_path walk))) v))))
           (map_of (dump_rules t rs) n) =
         map_option (\<lambda>v. (Some n, str_member v ''name_regex'', settings_of (spec_view
             (with_type (type_defs L (loaded_lines cfg (sort_key file_path walk))) v))))
           (program_defs L (loaded_lines cfg (sort_key file_path walk)) n))"
proof -
  let ?ls = "loaded_lines cfg (sort_key file_path walk)"
  note ent = loaded_entries [OF assms(1-4,6)]
  have ty: "map_of (dump_types L rs) = type_defs L ?ls" and cg: "map_of (dump_cgroups L rs) = cgroup_defs L ?ls"
    using ent btree_iter [OF assms(3)] by (simp_all add: dump_types_def dump_cgroups_def)
  have twf: "table_wf t" by (rule loaded_table_wf [OF assms(1,4,6)])
  have "map_option (\<lambda>v. (str_member v ''name'', str_member v ''name_regex'', settings_of (spec_view (with_type (type_defs L ?ls) v))))
      (map_of (dump_rules t rs) n) =
    map_option (\<lambda>v. (Some n, str_member v ''name_regex'', settings_of (spec_view (with_type (type_defs L ?ls) v)))) (program_defs L ?ls n)" for n
  proof (cases "resolve rs (Some n)")
    case None
    then show ?thesis
      using loaded_settings [OF assms, of n] dump_rules_lookup [OF ent(6), of t n] by simp
  next
    case (Some mr)
    then obtain r where mr: "mr = (n, r)" and r: "r \<in> set (rules rs)"
      by (auto simp: resolve_def split: option.splits if_splits)
    have wf: "rule_ok t r" "rule_wf r" using ent(1) r by blast+
    have "settings_of (spec_view (with_type (type_defs L ?ls) (to_json t r n))) = rule_settings t r"
      using loaded_inherits [OF assms(1,3-6) r] by (intro dumped_rule_settings twf assms(5) wf) blast
    then show ?thesis
      using loaded_settings [OF assms, of n] dump_rules_lookup [OF ent(6), of t n] to_json_name [OF wf(2), of t n]
      loaded_pattern [OF assms(1,2,4-6) _ wf(2)] Some
      by (cases "program_defs L ?ls n") (auto simp: mr)
  qed
  then show ?thesis by (simp add: ty cg)
qed

subsection \<open>Loading the dumped objects\<close>

text \<open>What an object defines, whichever line it is on.\<close>

definition value_def :: "json \<Rightarrow> line_def" where
  "value_def v =
     (case str_member v ''name'' of
        Some n \<Rightarrow> Program n v
      | None \<Rightarrow>
          (case str_member v ''type'' of
             Some ty \<Rightarrow> Type ty v
           | None \<Rightarrow> (case str_member v ''cgroup'' of Some cg \<Rightarrow> Cgroup cg v | None \<Rightarrow> Ignored)))"

definition line_values :: "('rx, 'c) lib \<Rightarrow> string list \<Rightarrow> json set" where
  "line_values L ls = {v. \<exists>l \<in> set ls. Option.bind (json_text l) (lib_parse L) = Some v}"

lemma classify_value:
  "classify L l = (case Option.bind (json_text l) (lib_parse L) of None \<Rightarrow> Ignored | Some v \<Rightarrow> value_def v)"
  by (simp add: classify_def value_def_def split: option.split)

lemma value_def_cases:
  "value_def v = Program n w \<longleftrightarrow> v = w \<and> str_member v ''name'' = Some n"
  "value_def v = Type n w \<longleftrightarrow> v = w \<and> str_member v ''name'' = None \<and> str_member v ''type'' = Some n"
  "value_def v = Cgroup n w \<longleftrightarrow>
     v = w \<and> str_member v ''name'' = None \<and> str_member v ''type'' = None \<and> str_member v ''cgroup'' = Some n"
  by (auto simp: value_def_def split: option.split)

lemma value_on_line: "d \<noteq> Ignored \<Longrightarrow> (\<exists>l \<in> set ls. classify L l = d) \<longleftrightarrow> (\<exists>v \<in> line_values L ls. value_def v = d)"
  by (auto simp: classify_value line_values_def split: option.splits)

lemma defs_on_line:
  "program_defs L ls n = Some v \<Longrightarrow> \<exists>l \<in> set ls. classify L l = Program n v"
  "type_defs L ls n = Some v \<Longrightarrow> \<exists>l \<in> set ls. classify L l = Type n v"
  "cgroup_defs L ls n = Some v \<Longrightarrow> \<exists>l \<in> set ls. classify L l = Cgroup n v"
  by (induction ls rule: rev_induct)
     (auto simp: program_defs_def type_defs_def cgroup_defs_def split: line_def.splits if_splits)

lemma line_defines:
  "l \<in> set ls \<Longrightarrow> classify L l = Program n v \<Longrightarrow> program_defs L ls n \<noteq> None"
  "l \<in> set ls \<Longrightarrow> classify L l = Type n v \<Longrightarrow> type_defs L ls n \<noteq> None"
  "l \<in> set ls \<Longrightarrow> classify L l = Cgroup n v \<Longrightarrow> cgroup_defs L ls n \<noteq> None"
  by (induction ls rule: rev_induct) (auto split: line_def.splits)

text \<open>When each name is defined by one object only, the order of the lines does not matter.\<close>

lemma defs_of_values:
  "(\<And>v. m n = Some v \<longleftrightarrow> (\<exists>w \<in> line_values L ls. value_def w = Program n v)) \<Longrightarrow> program_defs L ls n = m n"
  "(\<And>v. m n = Some v \<longleftrightarrow> (\<exists>w \<in> line_values L ls. value_def w = Type n v)) \<Longrightarrow> type_defs L ls n = m n"
  "(\<And>v. m n = Some v \<longleftrightarrow> (\<exists>w \<in> line_values L ls. value_def w = Cgroup n v)) \<Longrightarrow> cgroup_defs L ls n = m n"
proof -
  have same: "f = g" if "\<And>v. f = Some v \<Longrightarrow> g = Some v" and "\<And>v. g = Some v \<Longrightarrow> f \<noteq> None" for f g :: "json option"
    using that by (cases f; cases g) auto
  note on_line = value_on_line [of _ ls L, symmetric]
  show "program_defs L ls n = m n"
    if "\<And>v. m n = Some v \<longleftrightarrow> (\<exists>w \<in> line_values L ls. value_def w = Program n v)"
    by (rule same) (use defs_on_line(1) [of L ls n] line_defines(1) [of _ ls L n] in \<open>auto simp: that on_line\<close>)
  show "type_defs L ls n = m n"
    if "\<And>v. m n = Some v \<longleftrightarrow> (\<exists>w \<in> line_values L ls. value_def w = Type n v)"
    by (rule same) (use defs_on_line(2) [of L ls n] line_defines(2) [of _ ls L n] in \<open>auto simp: that on_line\<close>)
  show "cgroup_defs L ls n = m n"
    if "\<And>v. m n = Some v \<longleftrightarrow> (\<exists>w \<in> line_values L ls. value_def w = Cgroup n v)"
    by (rule same) (use defs_on_line(3) [of L ls n] line_defines(3) [of _ ls L n] in \<open>auto simp: that on_line\<close>)
qed

text \<open>All objects the three dumps print.\<close>

definition dumped_values :: "('rx, 'c) lib \<Rightarrow> name_table \<Rightarrow> ('rx, 'c) rule_set \<Rightarrow> json set" where
  "dumped_values L t rs = snd ` set (dump_types L rs) \<union> snd ` set (dump_cgroups L rs) \<union> snd ` set (dump_rules t rs)"

lemma btree_values: "snd ` set (btree_collect kvs) = ran (map_of (btree_collect kvs))"
  using btree_keys [of kvs] by (simp add: ran_distinct)

lemma dumped_values_ran:
  "dumped_values L t rs = ran (map_of (dump_types L rs)) \<union> ran (map_of (dump_cgroups L rs)) \<union> ran (map_of (dump_rules t rs))"
  by (simp add: dumped_values_def btree_values dump_types_def dump_cgroups_def dump_rules_def)

lemma defs_value:
  "type_defs L ls n = Some v \<Longrightarrow> value_def v = Type n v"
  "cgroup_defs L ls n = Some v \<Longrightarrow> value_def v = Cgroup n v"
  using defs_on_line(2,3) [of L ls n v] by (auto simp: classify_value value_def_cases split: option.splits)

lemma loaded_again:
  assumes "table_wf t0" and "parser_ok L" and "iter_ok L"
    and "load_directory L cfg (Some walk) (rs0, t0) = (log, rs, t)" and "\<not> table_full t"
    and "length (loaded_lines cfg (sort_key file_path walk)) \<le> 2 ^ 32"
    and "line_values L ls = dumped_values L t rs"
  shows "type_defs L ls = type_defs L (loaded_lines cfg (sort_key file_path walk))"
    and "cgroup_defs L ls = cgroup_defs L (loaded_lines cfg (sort_key file_path walk))"
    and "program_defs L ls = map_of (dump_rules t rs)"
proof -
  let ?ls = "loaded_lines cfg (sort_key file_path walk)"
  note defs = dumped_definitions [OF assms(1-6)]
  have vals: "line_values L ls = ran (type_defs L ?ls) \<union> ran (cgroup_defs L ?ls) \<union> ran (map_of (dump_rules t rs))"
    using defs by (simp add: assms(7) dumped_values_ran)
  have rule: "value_def v = Program n v" if "map_of (dump_rules t rs) n = Some v" for n v
    using conjunct2 [OF conjunct2 [OF defs], THEN spec, of n] that
    by (cases "program_defs L ?ls n") (simp_all add: value_def_cases)
  have kinds: "w \<in> line_values L ls \<longleftrightarrow>
      (\<exists>n. type_defs L ?ls n = Some w \<and> value_def w = Type n w) \<or>
      (\<exists>n. cgroup_defs L ?ls n = Some w \<and> value_def w = Cgroup n w) \<or>
      (\<exists>n. map_of (dump_rules t rs) n = Some w \<and> value_def w = Program n w)" for w
    using defs_value [of L ?ls] rule unfolding vals ran_def by blast
  have same: "value_def w = Program n v \<Longrightarrow> w = v" "value_def w = Type n v \<Longrightarrow> w = v" "value_def w = Cgroup n v \<Longrightarrow> w = v"
    for w n v by (simp_all add: value_def_cases)
  show "type_defs L ls = type_defs L ?ls"
    by (rule ext, rule defs_of_values(2)) (use same defs_value in \<open>fastforce simp: kinds Bex_def\<close>)
  show "cgroup_defs L ls = cgroup_defs L ?ls"
    by (rule ext, rule defs_of_values(3)) (use same defs_value in \<open>fastforce simp: kinds Bex_def\<close>)
  show "program_defs L ls = map_of (dump_rules t rs)"
    by (rule ext, rule defs_of_values(1)) (use same rule in \<open>fastforce simp: kinds Bex_def\<close>)
qed

text \<open>
  C38: The objects the dumps of a loaded rule set print load to the same rules. The printed form itself is one JSON map
  for each of types, cgroups and rules, the rules in the order of their names and each once; take any directory of rule
  files whose lines hold the objects of these maps, in whatever order and over whatever files, and no other ones.
  Loading it defines the same types and the same cgroups, and gives every program by its exact name the settings that
  were in force, although the dumped rules already contain what they inherited, with the pattern of its definition.
  This holds while the name table has room in both loads, and for at most \<open>2 ^ 32\<close> lines in each. It is not said of
  names found through a pattern: those are tried in the order of the lines, which the sorted dump does not keep.
\<close>

theorem dump_loads_again:
  assumes "table_wf t0" and "parser_ok L" and "iter_ok L"
    and "load_directory L cfg (Some walk) (rs0, t0) = (log, rs, t)" and "\<not> table_full t"
    and "length (loaded_lines cfg (sort_key file_path walk)) \<le> 2 ^ 32"
    and "line_values L (loaded_lines cfg' (sort_key file_path walk')) = dumped_values L t rs"
    and "table_wf t1" and "load_directory L cfg' (Some walk') (rs1, t1) = (log', rs', t')" and "\<not> table_full t'"
    and "length (loaded_lines cfg' (sort_key file_path walk')) \<le> 2 ^ 32"
  shows "sorted (map fst (dump_rules t rs)) \<and> distinct (map fst (dump_rules t rs)) \<and>
    map_of (types rs') = map_of (types rs) \<and> map_of (cgroups rs') = map_of (cgroups rs) \<and>
    (\<forall>n. map_option (\<lambda>(m, r). (m, rule_settings t' r)) (resolve rs' (Some n)) =
         map_option (\<lambda>(m, r). (m, rule_settings t r)) (resolve rs (Some n))) \<and>
    (\<forall>n. map_option (\<lambda>v. str_member v ''name_regex'') (program_defs L (loaded_lines cfg' (sort_key file_path walk')) n) =
         map_option (\<lambda>v. str_member v ''name_regex'') (program_defs L (loaded_lines cfg (sort_key file_path walk)) n))"
proof -
  let ?ls = "loaded_lines cfg (sort_key file_path walk)" and ?ls' = "loaded_lines cfg' (sort_key file_path walk')"
  note again = loaded_again [OF assms(1-7)]
  note first = loaded_entries [OF assms(1-4,6)] and second = loaded_entries [OF assms(8,2,3,9,11)]
  note defs = conjunct2 [OF conjunct2 [OF dumped_definitions [OF assms(1-6)]], THEN spec]
  have "map_option (\<lambda>(m, r). (m, rule_settings t' r)) (resolve rs' (Some n)) =
      map_option (\<lambda>(m, r). (m, rule_settings t r)) (resolve rs (Some n))" for n
    using loaded_settings [OF assms(8,2,3,9-11), of n] loaded_settings [OF assms(1-6), of n] defs [of n]
    by (cases "map_of (dump_rules t rs) n"; cases "program_defs L ?ls n") (auto simp: again)
  moreover have "map_option (\<lambda>v. str_member v ''name_regex'') (program_defs L ?ls' n) =
      map_option (\<lambda>v. str_member v ''name_regex'') (program_defs L ?ls n)" for n
    using defs [of n] by (cases "map_of (dump_rules t rs) n"; cases "program_defs L ?ls n") (simp_all add: again)
  ultimately show ?thesis
    using first(4,5) second(4,5) again btree_keys by (simp add: dump_rules_def)
qed

text \<open>A parser that also knows the dumped rule, and a directory with the dumped objects in one file.\<close>

definition dump_lib :: "(string, (string \<times> string option) list) lib" where
  "dump_lib = sample_lib\<lparr>lib_parse := (\<lambda>s. if s = ''{d}'' then
      Some (JObject [(''name'', JString ''doom''), (''type'', JString ''Game''), (''nice'', JNull),
        (''ioclass'', JString ''idle''), (''name_regex'', JString ''D'')]) else lib_parse sample_lib s)\<rparr>"

definition dumped_walk :: "rule_file list" where
  "dumped_walk = [\<lparr>file_path = [''d.rules''], file_content = Some (''{d}'' @ [CHR 0x0A] @ ''{t}'')\<rparr>]"

lemma dump_lib_ok: "parser_ok dump_lib" "iter_ok dump_lib"
  by (simp_all add: parser_ok_def iter_ok_def sample_lib_def dump_lib_def keys_once_def)

lemma dumped_lines:
  "loaded_lines default_snapshot (sort_key file_path sample_walk) = [''{t}'', ''{p}'']"
  "loaded_lines default_snapshot (sort_key file_path dumped_walk) = [''{d}'', ''{t}'']"
  by (simp_all add: loaded_lines_def file_lines_def sample_walk_def dumped_walk_def eval_simps)

definition dumped_rule :: rule where
  "dumped_rule = default_rule\<lparr>type_name := 1, nice := Some None, ioclass := 3, extras := [(''name_regex'', JString ''D'')]\<rparr>"

definition sample_names :: name_table where
  "sample_names = \<lparr>tab_values = [''Game'', ''idle''], tab_index = [(''Game'', 2), (''idle'', 3)]\<rparr>"

lemma sample_type: "type_as_str \<lparr>tab_values = [''Game'', ''idle''], tab_index = ti\<rparr> (Suc 0) = Some ''Game''"
  by (simp add: type_as_str_def get_def)

lemma dump_loaded:
  "\<exists>log rs. load_directory dump_lib default_snapshot (Some sample_walk) (new_rules [], empty_table) = (log, rs, sample_names) \<and>
     programs rs = [(''doom'', 0)] \<and> rules rs = [dumped_rule] \<and> cgroups rs = [] \<and>
     types rs = [(''Game'', JObject [(''type'', JString ''Game''), (''nice'', JNeg 4), (''ioclass'', JString ''idle'')])]"
  by (simp add: eval_simps sample_lib_def dump_lib_def sample_walk_def sample_names_def dumped_rule_def sample_type
      default_rule_def inherit_def overlay_value_def overlay_name_def is_absent_def)

lemma dumped_json:
  "to_json sample_names dumped_rule ''doom'' =
     JObject [(''name'', JString ''doom''), (''type'', JString ''Game''), (''nice'', JNull),
       (''ioclass'', JString ''idle''), (''name_regex'', JString ''D'')]"
  by (simp add: to_json_def sample_names_def dumped_rule_def sample_type default_rule_def insert_reported_def
      report_members_def if_declared_def is_absent_def json_of_name_def json_of_i32_def as_str_def get_def eval_simps)

lemma dumped_parse:
  "Option.bind (json_text ''{d}'') (lib_parse dump_lib) = Some (to_json sample_names dumped_rule ''doom'')"
  "Option.bind (json_text ''{t}'') (lib_parse dump_lib) =
     Some (JObject [(''type'', JString ''Game''), (''nice'', JNeg 4), (''ioclass'', JString ''idle'')])"
  by (simp_all add: dumped_json dump_lib_def sample_lib_def json_text_def eval_simps)

lemma dumped_loaded:
  "\<exists>log' rs'. load_directory dump_lib default_snapshot (Some dumped_walk) (rs, sample_names) = (log', rs', sample_names)"
  by (simp add: eval_simps sample_lib_def dump_lib_def dumped_walk_def sample_names_def)

theorem dump_loads_again_witness:
  "\<exists>log rs log' rs'.
     load_directory dump_lib default_snapshot (Some sample_walk) (new_rules [], empty_table) = (log, rs, sample_names) \<and>
     load_directory dump_lib default_snapshot (Some dumped_walk) (rs, sample_names) = (log', rs', sample_names) \<and>
     map_of (dump_rules sample_names rs) ''doom'' \<noteq> None \<and>
     map_option (\<lambda>(m, r). (m, rule_settings sample_names r)) (resolve rs' (Some ''doom'')) =
       map_option (\<lambda>(m, r). (m, rule_settings sample_names r)) (resolve rs (Some ''doom''))"
proof -
  obtain log rs where l:
    "load_directory dump_lib default_snapshot (Some sample_walk) (new_rules [], empty_table) = (log, rs, sample_names)"
    and rs: "programs rs = [(''doom'', 0)]" "rules rs = [dumped_rule]" "cgroups rs = []"
      "types rs = [(''Game'', JObject [(''type'', JString ''Game''), (''nice'', JNeg 4), (''ioclass'', JString ''idle'')])]"
    using dump_loaded by blast
  obtain log' rs' where l': "load_directory dump_lib default_snapshot (Some dumped_walk) (rs, sample_names) = (log', rs', sample_names)"
    using dumped_loaded by blast
  have d: "dump_rules sample_names rs = [(''doom'', to_json sample_names dumped_rule ''doom'')]"
    by (simp add: dump_rules_def btree_collect_def iter_rules_def rs List.map_filter_simps)
  have ty: "dump_types dump_lib rs = types rs" "dump_cgroups dump_lib rs = []"
    by (simp_all add: dump_types_def dump_cgroups_def btree_collect_def rs dump_lib_def sample_lib_def)
  have vals: "line_values dump_lib (loaded_lines default_snapshot (sort_key file_path dumped_walk)) =
      dumped_values dump_lib sample_names rs"
    unfolding dumped_lines line_values_def dumped_values_def d ty rs by (auto simp: dumped_parse)
  have room: "\<not> table_full sample_names" by (simp add: table_full_def u16_max_def sample_names_def)
  have few: "length (loaded_lines default_snapshot (sort_key file_path sample_walk)) \<le> 2 ^ 32"
    "length (loaded_lines default_snapshot (sort_key file_path dumped_walk)) \<le> 2 ^ 32"
    by (simp_all add: dumped_lines)
  note again = dump_loads_again [OF table_wf_empty dump_lib_ok l room few(1) vals
      loaded_table_wf [OF table_wf_empty l few(1)] l' room few(2)]
  have "map_option (\<lambda>(m, r). (m, rule_settings sample_names r)) (resolve rs' (Some ''doom'')) =
      map_option (\<lambda>(m, r). (m, rule_settings sample_names r)) (resolve rs (Some ''doom''))"
    using again by blast
  with l l' d show ?thesis by auto
qed

end
