(* ===== verification/Disks.thy ===== *)
theory Disks
  imports Rust_Text
begin

text \<open>
  \<^verbatim>\<open>src/src/disks.rs\<close>: the check for block devices whose scheduler ignores I/O priorities. The lemmas read the
  active scheduler back from the listing the kernel writes and say which devices are reported.
\<close>

definition supported :: "string list" where
  "supported = [''mq-deadline'', ''bfq'', ''bfq-mq'', ''cfq'']"

definition ignored :: "string list" where
  "ignored = [''loop'', ''ram'', ''sr'']"

definition active_scheduler :: "string \<Rightarrow> string option" where
  "active_scheduler listing =
     Option.bind (split_once (CHR ''['') listing) (\<lambda>(_, rest). map_option fst (split_once (CHR '']'') rest))"

text \<open>A device is its name and the content of \<^verbatim>\<open>queue/scheduler\<close>, if that can be read.\<close>

definition reports_disk :: "string \<times> string option \<Rightarrow> bool" where
  "reports_disk device =
     (case device of
        (name, listing) \<Rightarrow>
          \<not> list_ex (\<lambda>skip. starts_with name skip) ignored \<and>
          (case listing of
             None \<Rightarrow> False
           | Some l \<Rightarrow> trim (case active_scheduler l of Some a \<Rightarrow> a | None \<Rightarrow> []) \<notin> set supported))"

text \<open>The devices that are reported, in order; their number is what the function returns.\<close>

definition check_disk_schedulers :: "(string \<times> string option) list option \<Rightarrow> string list" where
  "check_disk_schedulers devices =
     (case devices of None \<Rightarrow> [] | Some ds \<Rightarrow> map fst (filter reports_disk ds))"

definition check_disk_schedulers_if_enabled :: "bool \<Rightarrow> (string \<times> string option) list option \<Rightarrow> string list" where
  "check_disk_schedulers_if_enabled enabled devices = (if \<not> enabled then [] else check_disk_schedulers devices)"

text \<open>The kernel lists the schedulers separated by spaces, the active one in brackets.\<close>

definition scheduler_listing :: "string list \<Rightarrow> string \<Rightarrow> string list \<Rightarrow> string" where
  "scheduler_listing before active after = join '' '' (before @ (''['' @ active @ '']'') # after) @ [CHR 0x0A]"

lemma join_around:
  "join d (before @ x # after) = concat (map (\<lambda>b. b @ d) before) @ x @ concat (map (\<lambda>a. d @ a) after)"
proof (induction before)
  case Nil
  then show ?case by (induction after arbitrary: x) (auto simp: append_assoc [symmetric] simp del: append_assoc)
next
  case (Cons b bs)
  then show ?case by (cases "bs @ x # after") auto
qed

lemma active_scheduler_read_back:
  assumes "\<forall>b \<in> set before. CHR ''['' \<notin> set b" and "CHR '']'' \<notin> set active"
  shows "active_scheduler (scheduler_listing before active after) = Some active"
proof -
  have "CHR ''['' \<notin> set (concat (map (\<lambda>b. b @ '' '') before))" using assms(1) by auto
  then show ?thesis
    by (simp add: active_scheduler_def scheduler_listing_def join_around split_once_append assms(2))
qed

text \<open>
  A device is reported exactly when it is neither a loop, a ram nor an optical device and its active scheduler
  is not one that honours I/O priorities.
\<close>

lemma disk_reported_iff:
  assumes "\<forall>b \<in> set before. CHR ''['' \<notin> set b" and "word active" and "CHR '']'' \<notin> set active"
  shows "name \<in> set (check_disk_schedulers_if_enabled True (Some [(name, Some (scheduler_listing before active after))])) \<longleftrightarrow>
    active \<notin> {''mq-deadline'', ''bfq'', ''bfq-mq'', ''cfq''} \<and>
    \<not> (prefix ''loop'' name \<or> prefix ''ram'' name \<or> prefix ''sr'' name)"
proof -
  have "trim active = active" using assms(2) by (intro trim_all_plain) (auto simp: word_def list_all_iff)
  then show ?thesis
    by (simp add: check_disk_schedulers_if_enabled_def check_disk_schedulers_def reports_disk_def supported_def ignored_def
        active_scheduler_read_back [OF assms(1,3)] starts_with_prefix)
qed

end
