(* ===== verification/Mem_Stats.thy ===== *)
theory Mem_Stats
  imports File_System
begin

text \<open>
  \<^verbatim>\<open>crates/ananicy-platform/src/memstats.rs\<close> and \<^verbatim>\<open>src/src/memstats.rs\<close>: the memory of the daemon itself, read from
  \<^verbatim>\<open>/proc/self/status\<close> and the files of its cgroup, and the remarks that are logged about it. The lemmas read the
  figures back from what the kernel writes.
\<close>

subsection \<open>Reading one figure\<close>

definition find_map :: "('a \<Rightarrow> 'b option) \<Rightarrow> 'a list \<Rightarrow> 'b option" where
  "find_map f xs = (case List.map_filter f xs of [] \<Rightarrow> None | y # _ \<Rightarrow> Some y)"

definition first_number :: "string \<Rightarrow> nat option" where
  "first_number s = (case split_whitespace s of [] \<Rightarrow> None | w # _ \<Rightarrow> parse_u64 w)"

definition status_kb :: "string \<Rightarrow> string \<Rightarrow> nat option" where
  "status_kb status field =
     find_map (\<lambda>line. Option.bind (Option.bind (strip_prefix field line) (strip_prefix '':'')) first_number)
       (str_lines status)"

definition stat_field :: "string \<Rightarrow> string \<Rightarrow> nat option" where
  "stat_field contents key =
     find_map
       (\<lambda>line. Option.bind (split_once (CHR '' '') line) (\<lambda>(name, v). if name = key then parse_u64 v else None))
       (str_lines contents)"

definition event_field :: "string \<Rightarrow> string \<Rightarrow> nat option" where
  "event_field contents key =
     find_map
       (\<lambda>line. Option.bind (split_once (CHR '' '') line) (\<lambda>(name, v). if name = key then parse_u64 (trim v) else None))
       (str_lines contents)"

definition io_line :: "string \<Rightarrow> string \<Rightarrow> nat" where
  "io_line key line =
     (case find_map
         (\<lambda>token. Option.bind (split_once (CHR ''='') token) (\<lambda>(name, v). if name = key then parse_u64 v else None))
         (split_whitespace line) of
        Some n \<Rightarrow> n
      | None \<Rightarrow> 0)"

definition io_sum :: "string \<Rightarrow> string \<Rightarrow> nat option" where
  "io_sum contents key =
     (let total = sum_list (map (io_line key) (str_lines contents)) in if 0 < total then Some total else None)"

definition mem_cgroup_path :: "string \<Rightarrow> path option" where
  "mem_cgroup_path cgroup =
     Option.bind (find_map (strip_prefix ''0::'') (str_lines cgroup))
       (\<lambda>p. if trim p = [] then None else Some (push (path_of ''/sys/fs/cgroup'') (trim_start_matches ''/'' (trim p))))"

subsection \<open>The snapshot\<close>

record mem_snapshot =
  vm_data :: "nat option"
  vm_rss :: "nat option"
  vm_swap :: "nat option"
  vm_exe :: "nat option"
  vm_lib :: "nat option"
  mem_current :: "nat option"
  mem_high :: "nat option"
  mem_max :: "nat option"
  mem_anon :: "nat option"
  mem_file :: "nat option"
  mem_kernel :: "nat option"
  mem_slab :: "nat option"
  pgmajfault :: "nat option"
  pgfault :: "nat option"
  refault_file :: "nat option"
  refault_anon :: "nat option"
  pswpin :: "nat option"
  pswpout :: "nat option"
  high_events :: "nat option"
  max_events :: "nat option"
  read_bytes :: "nat option"
  written_bytes :: "nat option"
  mem_cgroup :: "path option"

definition self_file :: "string \<Rightarrow> path" where
  "self_file f = path_of (''/proc/self/'' @ f)"

definition read_snapshot :: "'k fs \<Rightarrow> 'k \<Rightarrow> mem_snapshot" where
  "read_snapshot fs k =
     (let cgroup = Option.bind (read_ok fs (self_file ''cgroup'') k) mem_cgroup_path;
          file = (\<lambda>f. Option.bind cgroup (\<lambda>dir. read_ok fs (push dir f) k));
          default = (\<lambda>f. case file f of Some s \<Rightarrow> s | None \<Rightarrow> []);
          status = (\<lambda>field. Option.bind (read_ok fs (self_file ''status'') k) (\<lambda>s. status_kb s field));
          number = (\<lambda>f. Option.bind (file f) (\<lambda>s. parse_u64 (trim s)));
          stat = (\<lambda>key. Option.bind (file ''memory.stat'') (\<lambda>s. stat_field s key))
      in \<lparr>vm_data = status ''VmData'', vm_rss = status ''VmRSS'', vm_swap = status ''VmSwap'', vm_exe = status ''VmExe'',
          vm_lib = status ''VmLib'', mem_current = number ''memory.current'', mem_high = number ''memory.high'',
          mem_max = number ''memory.max'', mem_anon = stat ''anon'', mem_file = stat ''file'', mem_kernel = stat ''kernel'',
          mem_slab = stat ''slab'', pgmajfault = stat ''pgmajfault'', pgfault = stat ''pgfault'',
          refault_file = stat ''workingset_refault_file'', refault_anon = stat ''workingset_refault_anon'',
          pswpin = stat ''pswpin'', pswpout = stat ''pswpout'', high_events = event_field (default ''memory.events'') ''high'',
          max_events = event_field (default ''memory.events'') ''max'', read_bytes = io_sum (default ''io.stat'') ''rbytes'',
          written_bytes = io_sum (default ''io.stat'') ''wbytes'', mem_cgroup = cgroup\<rparr>)"

subsection \<open>Remarks\<close>

text \<open>A quotient with one decimal, as \<^verbatim>\<open>{:.1}\<close> prints it: rounded to the nearest, ties to even.\<close>

definition one_decimal :: "nat \<Rightarrow> nat \<Rightarrow> string" where
  "one_decimal n d =
     (let q = n * 10 div d; r = n * 10 mod d; t = (if d < 2 * r \<or> (2 * r = d \<and> odd q) then q + 1 else q)
      in show_nat (t div 10) @ ''.'' @ show_nat (t mod 10))"

definition kib :: "nat option \<Rightarrow> string" where
  "kib v = (case v of Some kb \<Rightarrow> one_decimal kb 1024 @ ''M'' | None \<Rightarrow> ''n/a'')"

definition mib :: "nat option \<Rightarrow> string" where
  "mib v = (case v of Some bytes \<Rightarrow> one_decimal bytes (1024 * 1024) @ ''M'' | None \<Rightarrow> ''n/a'')"

text \<open>\<^verbatim>\<open>{:.1}M\<close> on a \<^verbatim>\<open>String\<close>: the precision of a text is the number of characters that are printed.\<close>

definition shown_figure :: "string \<Rightarrow> string" where
  "shown_figure s = take 1 s @ ''M''"

text \<open>The remarks with the figures they print.\<close>

datatype mem_finding =
    Above_High string string
  | Faults_From_Disk nat nat
  | Swapped_Out string string
  | Reclaimed nat nat

definition findings :: "mem_snapshot \<Rightarrow> mem_finding list" where
  "findings s =
     (case (mem_current s, mem_high s) of
        (Some c, Some h) \<Rightarrow>
          if 0 < h \<and> h < c then [Above_High (shown_figure (mib (Some c))) (shown_figure (mib (Some h)))] else []
      | _ \<Rightarrow> []) @
     (case (pgfault s, pgmajfault s) of
        (Some faults, Some major) \<Rightarrow> if 0 < faults \<and> faults < major * 10 then [Faults_From_Disk major faults] else []
      | _ \<Rightarrow> []) @
     (case (vm_swap s, vm_data s) of
        (Some swapped, Some heap) \<Rightarrow>
          if 1024 < swapped \<and> 0 < heap then [Swapped_Out (shown_figure (kib (Some swapped))) (shown_figure (kib (Some heap)))] else []
      | _ \<Rightarrow> []) @
     (case high_events s of
        Some throttled \<Rightarrow>
          if 0 < throttled then [Reclaimed throttled (case max_events s of Some m \<Rightarrow> m | None \<Rightarrow> 0)] else []
      | None \<Rightarrow> [])"

subsection \<open>The texts\<close>

definition count_text :: "nat option \<Rightarrow> string" where
  "count_text v = (case v of Some n \<Rightarrow> show_nat n | None \<Rightarrow> ''n/a'')"

definition summary :: "mem_snapshot \<Rightarrow> string" where
  "summary s =
     ''heap='' @ kib (vm_data s) @ '' rss='' @ kib (vm_rss s) @ '' swap='' @ kib (vm_swap s) @ '' text='' @ kib (vm_exe s) @
     '' libs='' @ kib (vm_lib s) @ '' | cgroup='' @ mib (mem_current s) @ '' high='' @ mib (mem_high s) @
     '' max='' @ mib (mem_max s) @ '' anon='' @ mib (mem_anon s) @ '' file='' @ mib (mem_file s) @
     '' kernel='' @ mib (mem_kernel s) @ '' slab='' @ mib (mem_slab s) @ '' | faults='' @ count_text (pgfault s) @
     ''/'' @ count_text (pgmajfault s) @ '' refault=file:'' @ count_text (refault_file s) @
     ''/anon:'' @ count_text (refault_anon s) @ '' swapio=out:'' @ count_text (pswpout s) @
     ''/in:'' @ count_text (pswpin s) @ '' | throttled='' @ count_text (high_events s) @
     '' capped='' @ count_text (max_events s) @ '' | io=read:'' @ mib (read_bytes s) @ ''/written:'' @ mib (written_bytes s)"

text \<open>The table of \<^verbatim>\<open>debug memory\<close>: the name of a figure, padded to 30 columns, and the figure.\<close>

definition memory_rows :: "mem_snapshot \<Rightarrow> (string \<times> nat option) list" where
  "memory_rows s =
     [(''Heap (VmData)'', vm_data s), (''Resident (VmRSS)'', vm_rss s), (''Swapped (VmSwap)'', vm_swap s),
      (''Own text (VmExe)'', vm_exe s), (''Libraries (VmLib)'', vm_lib s), (''cgroup memory.current'', mem_current s),
      (''cgroup memory.high'', mem_high s), (''cgroup memory.max'', mem_max s), (''cgroup anon'', mem_anon s),
      (''cgroup file'', mem_file s), (''cgroup kernel'', mem_kernel s), (''cgroup slab'', mem_slab s),
      (''pgfault'', pgfault s), (''pgmajfault'', pgmajfault s), (''workingset_refault_file'', refault_file s),
      (''workingset_refault_anon'', refault_anon s), (''pswpout'', pswpout s), (''pswpin'', pswpin s),
      (''memory.events:high'', high_events s), (''memory.events:max'', max_events s),
      (''io.stat read'', read_bytes s), (''io.stat written'', written_bytes s)]"

definition memory_row :: "string \<times> nat option \<Rightarrow> string" where
  "memory_row row = fst row @ replicate (30 - length (fst row)) (CHR '' '') @ '' '' @ count_text (snd row)"

subsection \<open>The periodic report\<close>

text \<open>\<^verbatim>\<open>delta\<close>: the movement of a counter, with both readings cast to 64 bits with a sign; a subtraction wraps.\<close>

definition wrap_i64 :: "int \<Rightarrow> int" where
  "wrap_i64 n = (n + 2 ^ 63) mod 2 ^ 64 - 2 ^ 63"

definition counter_delta :: "nat option \<Rightarrow> nat option \<Rightarrow> int" where
  "counter_delta current previous =
     (case (current, previous) of (Some c, Some p) \<Rightarrow> wrap_i64 (wrap_i64 (int c) - wrap_i64 (int p)) | _ \<Rightarrow> 0)"

text \<open>The figures of one line of the log, in the order of the line.\<close>

record mem_movement =
  moved_faults :: int
  moved_major :: int
  moved_refaults :: int
  moved_out :: int
  moved_in :: int
  moved_read :: int
  moved_written :: int

definition movement :: "mem_snapshot \<Rightarrow> mem_snapshot \<Rightarrow> mem_movement" where
  "movement current previous =
     \<lparr>moved_faults = counter_delta (pgfault current) (pgfault previous),
      moved_major = counter_delta (pgmajfault current) (pgmajfault previous),
      moved_refaults = wrap_i64 (counter_delta (refault_file current) (refault_file previous) +
                                 counter_delta (refault_anon current) (refault_anon previous)),
      moved_out = counter_delta (pswpout current) (pswpout previous),
      moved_in = counter_delta (pswpin current) (pswpin previous),
      moved_read = counter_delta (read_bytes current) (read_bytes previous),
      moved_written = counter_delta (written_bytes current) (written_bytes previous)\<rparr>"

text \<open>
  The loop of the reporting thread: each turn is the flag before the wait, the flag after it and the snapshot then
  read. The lines are the snapshot, its movement and its remarks; the end of the list is where the thread still runs.
\<close>

fun memory_lines ::
  "mem_snapshot \<Rightarrow> (bool \<times> bool \<times> mem_snapshot) list \<Rightarrow> (mem_snapshot \<times> mem_movement \<times> mem_finding list) list" where
  "memory_lines previous [] = []"
| "memory_lines previous ((before, after, current) # turns) =
     (if before \<or> after then []
      else (current, movement current previous, findings current) # memory_lines current turns)"

subsection \<open>What the kernel writes is read back\<close>

lemma find_map_append: "find_map f (xs @ ys) = (case find_map f xs of Some y \<Rightarrow> Some y | None \<Rightarrow> find_map f ys)"
  by (induction xs) (auto simp: find_map_def split: option.split list.split)

lemma find_map_Cons: "find_map f (x # xs) = (case f x of Some y \<Rightarrow> Some y | None \<Rightarrow> find_map f xs)"
  by (simp add: find_map_def split: option.split)

lemma split_whitespace_pad: "list_all ascii_ws p \<Longrightarrow> split_whitespace (p @ s) = split_whitespace s"
proof (induction p)
  case (Cons c p)
  then have "ws_prefix (c # p @ s) = 1" by (cases "c # p @ s" rule: ws_prefix.cases) auto
  then have "fields_from [] (c # p @ s) = fields_from [] (p @ s)"
    by (subst fields_from.simps) (simp add: flush_def)
  with Cons show ?case by (simp add: split_whitespace_def)
qed simp

text \<open>A line of \<^verbatim>\<open>status\<close>: the name, a colon, white space, the number and its unit.\<close>

definition status_line :: "string \<times> string \<times> nat \<Rightarrow> string" where
  "status_line l = (case l of (name, pad, v) \<Rightarrow> name @ '':'' @ pad @ show_nat v @ '' kB'')"

lemma first_number_padded: "list_all ascii_ws pad \<Longrightarrow> v < 2 ^ 64 \<Longrightarrow> first_number (pad @ show_nat v @ '' kB'') = Some v"
proof -
  have "list_all word [show_nat v, ''kB'']"
    using show_nat_plain by (auto simp: word_def list_all_iff plain_char_def ascii_ws_def)
  from split_whitespace_words [OF this] have "split_whitespace (show_nat v @ '' kB'') = [show_nat v, ''kB'']" by simp
  then show "list_all ascii_ws pad \<Longrightarrow> v < 2 ^ 64 \<Longrightarrow> ?thesis"
    by (simp add: first_number_def split_whitespace_pad parse_u64_show)
qed

text \<open>
  A figure of \<^verbatim>\<open>status\<close> is that of the first line with exactly its name, and none if there is no such line: a longer
  name that starts with it is not taken for it.
\<close>

lemma status_read_back:
  assumes "\<forall>(name, pad, v) \<in> set ls. CHR '':'' \<notin> set name \<and> CHR 0x0A \<notin> set name \<and> list_all ascii_ws pad \<and> CHR 0x0A \<notin> set pad \<and> v < 2 ^ 64"
    and "CHR '':'' \<notin> set field"
  shows "status_kb (concat (map (\<lambda>l. l @ [CHR 0x0A]) (map status_line ls))) field =
    map_of (map (\<lambda>(name, pad, v). (name, v)) ls) field"
proof -
  have "str_lines (concat (map (\<lambda>l. l @ [CHR 0x0A]) (map status_line ls))) = map status_line ls"
    using assms(1) show_nat_no [of "CHR 0x0A"]
    by (intro str_lines_terminated) (auto simp: status_line_def digit_val_def split: prod.splits)
  moreover have "find_map (\<lambda>line. Option.bind (Option.bind (strip_prefix field line) (strip_prefix '':'')) first_number)
      (map status_line ls) = map_of (map (\<lambda>(name, pad, v). (name, v)) ls) field"
    using assms(1)
  proof (induction ls)
    case (Cons l ls)
    obtain name pad v where l: "l = (name, pad, v)" by (cases l)
    with Cons.prems have ok: "CHR '':'' \<notin> set name" "list_all ascii_ws pad" "v < 2 ^ 64" by auto
    have "Option.bind (Option.bind (strip_prefix field (status_line l)) (strip_prefix '':'')) first_number =
        (if name = field then Some v else None)"
    proof (cases "name = field")
      case True
      then have "strip_prefix field (status_line l) = Some ('':'' @ pad @ show_nat v @ '' kB'')"
        by (simp add: l status_line_def strip_prefix_Some)
      then show ?thesis
        using first_number_padded [OF ok(2,3)] strip_prefix_append [of "'':''"] True by simp
    next
      case False
      have "strip_prefix field (status_line l) \<noteq> Some (CHR '':'' # r)" for r
      proof
        assume "strip_prefix field (status_line l) = Some (CHR '':'' # r)"
        then have "split_once (CHR '':'') (status_line l) = Some (field, r)"
          using assms(2) by (simp add: strip_prefix_Some split_once_append)
        moreover have "split_once (CHR '':'') (status_line l) = Some (name, pad @ show_nat v @ '' kB'')"
          using ok(1) by (simp add: l status_line_def split_once_append)
        ultimately show False using False by simp
      qed
      then have "strip_prefix field (status_line l) = Some a \<Longrightarrow> strip_prefix '':'' a = None" for a
        by (cases "strip_prefix '':'' a") (auto simp: strip_prefix_Some)
      then show ?thesis by (cases "strip_prefix field (status_line l)") (simp_all add: False)
    qed
    with Cons show ?case by (auto simp: find_map_Cons l)
  qed (simp add: find_map_def)
  ultimately show ?thesis by (simp add: status_kb_def)
qed

text \<open>Every figure of a remark is cut to its first digit: 24 and 29 megabytes both read as 2.\<close>

lemma figures_cut:
  "\<exists>c. shown_figure (mib (Some n)) = [c, CHR ''M''] \<and> digit_val c \<noteq> None"
  "\<exists>c. shown_figure (kib (Some n)) = [c, CHR ''M''] \<and> digit_val c \<noteq> None"
proof -
  have cut: "\<exists>c. take 1 (one_decimal n d @ s) = [c] \<and> digit_val c \<noteq> None" for n d s
  proof -
    obtain q r where "one_decimal n d = show_nat q @ ''.'' @ r" by (simp add: one_decimal_def Let_def)
    moreover obtain c cs where "show_nat q = c # cs" by (cases "show_nat q") auto
    ultimately show ?thesis using set_show_nat [of c q] by simp
  qed
  show "\<exists>c. shown_figure (mib (Some n)) = [c, CHR ''M''] \<and> digit_val c \<noteq> None"
    "\<exists>c. shown_figure (kib (Some n)) = [c, CHR ''M''] \<and> digit_val c \<noteq> None"
    using cut [of n "1024 * 1024" "''M''"] cut [of n 1024 "''M''"] by (auto simp: shown_figure_def mib_def kib_def)
qed

lemma wrap_i64_id: "- (2 ^ 63) \<le> n \<Longrightarrow> n < 2 ^ 63 \<Longrightarrow> wrap_i64 n = n"
  by (simp add: wrap_i64_def)

lemma wrap_i64_diff: "wrap_i64 (wrap_i64 m - wrap_i64 n) = wrap_i64 (m - n)"
proof -
  have "((m + 2 ^ 63) mod 2 ^ 64 - 2 ^ 63 - ((n + 2 ^ 63) mod 2 ^ 64 - 2 ^ 63) + 2 ^ 63) mod 2 ^ 64 =
      ((m + 2 ^ 63) mod 2 ^ 64 - (n + 2 ^ 63) mod 2 ^ 64 + 2 ^ 63) mod (2 ^ 64 :: int)"
    by (simp add: algebra_simps)
  also have "\<dots> = (m + 2 ^ 63 - (n + 2 ^ 63) + 2 ^ 63) mod 2 ^ 64"
    by (metis mod_add_left_eq mod_diff_eq)
  finally show ?thesis by (simp add: wrap_i64_def)
qed

text \<open>Above \<open>2 ^ 63\<close> the two casts go wrong together: the movement is right whenever it fits 64 bits with a sign.\<close>

lemma delta_is_movement:
  assumes "- (2 ^ 63) \<le> int c - int p" and "int c - int p < 2 ^ 63"
  shows "counter_delta (Some c) (Some p) = int c - int p"
  using assms by (simp add: counter_delta_def wrap_i64_diff wrap_i64_id)

text \<open>
  The movements that were reported of a counter add up to the difference between its last reading and the one the
  thread started with, and there is one line for every turn before the flag was seen.
\<close>

lemma movements_add_up:
  assumes "\<forall>s \<in> insert start (snd ` snd ` set turns). \<exists>v. pgfault s = Some v \<and> v < 2 ^ 63"
  shows "sum_list (map (moved_faults \<circ> fst \<circ> snd) (memory_lines start turns)) =
      int (the (pgfault (last (start # map fst (memory_lines start turns))))) - int (the (pgfault start))"
    and "length (memory_lines start turns) = length (takeWhile (\<lambda>(before, after, _). \<not> before \<and> \<not> after) turns)"
  using assms
proof (induction start turns rule: memory_lines.induct)
  case (2 previous before after current turns)
  {
    case 1
    then obtain c p where "pgfault current = Some c" "pgfault previous = Some p" "c < 2 ^ 63" "p < 2 ^ 63" by auto
    then have "moved_faults (movement current previous) = int c - int p"
      by (simp add: movement_def delta_is_movement)
    with 1 "2.IH"(1) show ?case by (auto simp: \<open>pgfault current = Some c\<close> \<open>pgfault previous = Some p\<close>)
  next
    case 2
    then show ?case using "2.IH"(2) by auto
  }
qed simp_all

text \<open>
  Every row of the table is named apart from the others, and its figure stands behind the thirty-first column, so
  that it is read back from there.
\<close>

lemma memory_rows_read_back:
  shows "distinct (map fst (memory_rows s))" and "row \<in> set (memory_rows s) \<Longrightarrow> drop 31 (memory_row row) = count_text (snd row)"
    and "v < 2 ^ 64 \<Longrightarrow> parse_u64 (count_text (Some v)) = Some v" and "parse_u64 (count_text None) = None"
proof -
  show "distinct (map fst (memory_rows s))" by (simp add: memory_rows_def)
  assume "row \<in> set (memory_rows s)"
  then have "length (fst row) \<le> 30" by (auto simp: memory_rows_def)
  then show "drop 31 (memory_row row) = count_text (snd row)" by (simp add: memory_row_def)
next
  show "v < 2 ^ 64 \<Longrightarrow> parse_u64 (count_text (Some v)) = Some v" by (simp add: count_text_def parse_u64_show)
  show "parse_u64 (count_text None) = None" by (simp add: count_text_def parse_u64_def parse_uint_def digit_val_def)
qed

end
