(* ===== verification/Systemd_Mode.thy ===== *)
theory Systemd_Mode
  imports Rust_Text
begin

text \<open>
  \<^verbatim>\<open>src/src/systemd.rs\<close>: whether the daemon behaves as a service of systemd, from the command line, the environment
  and \<^verbatim>\<open>/proc/self/cgroup\<close>; with the two other readers of a line of that file, in \<^verbatim>\<open>crates/ananicy-platform/src/service.rs\<close>
  and \<^verbatim>\<open>src/src/debug.rs\<close>. The theorems decide the mode from the entries the kernel writes, and say which paths the
  other readers get right.
\<close>

subsection \<open>Requests, evidence and the decision\<close>

datatype systemd_request = Auto | Ask_Enabled | Ask_Disabled

datatype systemd_evidence = InvocationId | NotifySocket | JournalStream

datatype systemd_skip_reason = Requested | TransientScope | NotDetected

datatype systemd_mode = Forced | Enabled systemd_evidence | Disabled systemd_skip_reason

fun is_enabled :: "systemd_mode \<Rightarrow> bool" where
  "is_enabled Forced = True"
| "is_enabled (Enabled _) = True"
| "is_enabled (Disabled _) = False"

record systemd_environment =
  invocation_id :: bool
  notify_socket :: bool
  journal_stream :: bool
  in_transient_scope :: bool

datatype detection = Service systemd_evidence | Scope_Member | NoEvidence

definition detect_service :: "systemd_environment \<Rightarrow> detection" where
  "detect_service env =
     (let found = (\<lambda>e. if in_transient_scope env then Scope_Member else Service e) in
      if invocation_id env then found InvocationId
      else if notify_socket env then found NotifySocket
      else if journal_stream env then found JournalStream
      else NoEvidence)"

definition resolve_mode :: "systemd_request \<Rightarrow> systemd_environment \<Rightarrow> systemd_mode" where
  "resolve_mode request env =
     (case request of
        Ask_Enabled \<Rightarrow> Forced
      | Ask_Disabled \<Rightarrow> Disabled Requested
      | Auto \<Rightarrow>
          (case detect_service env of
             Service e \<Rightarrow> Enabled e
           | Scope_Member \<Rightarrow> Disabled TransientScope
           | NoEvidence \<Rightarrow> Disabled NotDetected))"

subsection \<open>The cgroup of this process\<close>

text \<open>\<^verbatim>\<open>line.splitn(3, ':')\<close> when it has three fields: the last one keeps its colons.\<close>

definition cgroup_fields :: "string \<Rightarrow> (string \<times> string \<times> string) option" where
  "cgroup_fields line =
     (case split_once (CHR '':'') line of
        None \<Rightarrow> None
      | Some (hierarchy, rest) \<Rightarrow>
          (case split_once (CHR '':'') rest of
             None \<Rightarrow> None
           | Some (controllers, p) \<Rightarrow> Some (hierarchy, controllers, p)))"

fun own_cgroup_lines :: "string list \<Rightarrow> string option \<Rightarrow> string option \<Rightarrow> string option" where
  "own_cgroup_lines [] manager any_controller = (if manager \<noteq> None then manager else any_controller)"
| "own_cgroup_lines (line # ls) manager any_controller =
     (case cgroup_fields line of
        None \<Rightarrow> own_cgroup_lines ls manager any_controller
      | Some (hierarchy, controllers, p) \<Rightarrow>
          if parse_u32 hierarchy = None \<or> p = [] then own_cgroup_lines ls manager any_controller
          else if controllers = [] then Some p
          else if ''name=systemd'' \<in> set (split_on (CHR '','') controllers)
          then own_cgroup_lines ls (Some p) any_controller
          else own_cgroup_lines ls manager (if any_controller = None then Some p else any_controller))"

definition own_cgroup_path :: "string \<Rightarrow> string option" where
  "own_cgroup_path content = own_cgroup_lines (str_lines content) None None"

definition leaf_segment :: "string \<Rightarrow> string option" where
  "leaf_segment p = List.find (\<lambda>s. s \<noteq> []) (rev (split_on (CHR ''/'') p))"

definition path_is_transient_scope :: "string \<Rightarrow> bool" where
  "path_is_transient_scope p = (case leaf_segment p of Some s \<Rightarrow> ends_with s ''.scope'' | None \<Rightarrow> False)"

text \<open>The environment of the process, and \<^verbatim>\<open>/proc/self/cgroup\<close> as \<^verbatim>\<open>from_utf8_lossy\<close> gives it.\<close>

record process_env =
  env_var :: "string \<Rightarrow> string option"
  own_cgroup :: "string option"

definition is_set :: "process_env \<Rightarrow> string \<Rightarrow> bool" where
  "is_set pe name = (case env_var pe name of Some v \<Rightarrow> v \<noteq> [] | None \<Rightarrow> False)"

definition has_supervision_evidence :: "systemd_environment \<Rightarrow> bool" where
  "has_supervision_evidence env \<longleftrightarrow> invocation_id env \<or> notify_socket env \<or> journal_stream env"

definition from_process :: "process_env \<Rightarrow> systemd_environment" where
  "from_process pe =
     (let env = \<lparr>invocation_id = is_set pe ''INVOCATION_ID'', notify_socket = is_set pe ''NOTIFY_SOCKET'',
                 journal_stream = is_set pe ''JOURNAL_STREAM'', in_transient_scope = False\<rparr>
      in env\<lparr>in_transient_scope :=
           (has_supervision_evidence env \<and>
            (case Option.bind (own_cgroup pe) own_cgroup_path of
               Some p \<Rightarrow> path_is_transient_scope p
             | None \<Rightarrow> False))\<rparr>)"

subsection \<open>The other readers\<close>

text \<open>\<^verbatim>\<open>read_own_cgroup_path\<close> of \<^verbatim>\<open>service.rs\<close> on the content of the file.\<close>

definition first_cgroup_path :: "string \<Rightarrow> string option" where
  "first_cgroup_path content =
     (case str_lines content of
        [] \<Rightarrow> None
      | line # _ \<Rightarrow>
          if line = [] then None
          else
            (case rfind_char (CHR '':'') line of
               None \<Rightarrow> None
             | Some i \<Rightarrow> if drop (i + 1) line = [] then None else Some (drop (i + 1) line)))"

definition unit_name_from_cgroup_path :: "string \<Rightarrow> string option" where
  "unit_name_from_cgroup_path p =
     List.find (\<lambda>s. \<not> ends_with s ''.slice'' \<and> \<not> ends_with s ''.scope'')
       (rev (filter (\<lambda>s. s \<noteq> []) (split_on (CHR ''/'') p)))"

definition get_unit_name_heuristic :: "string option \<Rightarrow> string" where
  "get_unit_name_heuristic own =
     (case Option.bind (Option.bind own first_cgroup_path) unit_name_from_cgroup_path of
        Some unit_name \<Rightarrow> unit_name
      | None \<Rightarrow> ''<empty>'')"

definition cgroup_path_from_line :: "string \<Rightarrow> string" where
  "cgroup_path_from_line line =
     (if line = [] then ''<empty>''
      else (case rfind_char (CHR '':'') line of Some i \<Rightarrow> drop (i + 1) line | None \<Rightarrow> line))"

subsection \<open>The file the kernel writes\<close>

text \<open>
  An entry is the number of a hierarchy, its controllers and the path of the process in it. Paths may contain
  colons, as in the units systemd makes for bus names.
\<close>

record cgroup_entry =
  hierarchy_id :: nat
  controllers :: "string list"
  cgroup_path :: string

definition entry_line :: "cgroup_entry \<Rightarrow> string" where
  "entry_line e = show_nat (hierarchy_id e) @ '':'' @ join '','' (controllers e) @ '':'' @ cgroup_path e"

definition cgroup_file :: "cgroup_entry list \<Rightarrow> string" where
  "cgroup_file es = concat (map (\<lambda>l. l @ [CHR 0x0A]) (map entry_line es))"

definition entry_ok :: "cgroup_entry \<Rightarrow> bool" where
  "entry_ok e \<longleftrightarrow> hierarchy_id e < 2 ^ 32 \<and> cgroup_path e \<noteq> [] \<and> CHR 0x0A \<notin> set (cgroup_path e) \<and>
     last (cgroup_path e) \<noteq> CHR 0x0D \<and>
     (\<forall>c \<in> set (controllers e). c \<noteq> [] \<and> CHR '':'' \<notin> set c \<and> CHR '','' \<notin> set c \<and> CHR 0x0A \<notin> set c)"

lemma set_join: "set (join d cs) \<subseteq> set d \<union> (\<Union>c \<in> set cs. set c)"
  by (induction d cs rule: join.induct) auto

lemma join_Nil: "(\<forall>c \<in> set cs. c \<noteq> []) \<Longrightarrow> join d cs = [] \<longleftrightarrow> cs = []"
  by (induction d cs rule: join.induct) auto

lemma entry_fields:
  assumes "entry_ok e"
  shows "cgroup_fields (entry_line e) = Some (show_nat (hierarchy_id e), join '','' (controllers e), cgroup_path e)"
proof -
  have "CHR '':'' \<notin> set (join '','' (controllers e))"
    using set_join [of "'',''" "controllers e"] assms by (auto simp: entry_ok_def)
  moreover have "CHR '':'' \<notin> set (show_nat (hierarchy_id e))"
    by (rule show_nat_no) (simp add: digit_val_def)
  ultimately show ?thesis
    by (simp add: cgroup_fields_def entry_line_def split_once_append)
qed

lemma entry_newline:
  assumes "entry_ok e"
  shows "CHR 0x0A \<notin> set (entry_line e) \<and> (entry_line e = [] \<or> last (entry_line e) \<noteq> CHR 0x0D)"
proof -
  have "CHR 0x0A \<notin> set (join '','' (controllers e))"
    using set_join [of "'',''" "controllers e"] assms by (auto simp: entry_ok_def)
  moreover have "CHR 0x0A \<notin> set (show_nat (hierarchy_id e))"
    by (rule show_nat_no) (simp add: digit_val_def)
  ultimately show ?thesis using assms by (auto simp: entry_line_def entry_ok_def)
qed

lemma file_lines_back: "list_all entry_ok es \<Longrightarrow> str_lines (cgroup_file es) = map entry_line es"
  unfolding cgroup_file_def by (rule str_lines_terminated) (auto simp: list_all_iff dest: entry_newline)

subsection \<open>The path of the service manager\<close>

text \<open>The unified entry, else the last one of systemd's own hierarchy, else the first one there is.\<close>

definition manager_path :: "cgroup_entry list \<Rightarrow> string option" where
  "manager_path es =
     (case List.find (\<lambda>e. controllers e = []) es of
        Some e \<Rightarrow> Some (cgroup_path e)
      | None \<Rightarrow>
          (case List.find (\<lambda>e. ''name=systemd'' \<in> set (controllers e)) (rev es) of
             Some e \<Rightarrow> Some (cgroup_path e)
           | None \<Rightarrow> (case es of [] \<Rightarrow> None | e # _ \<Rightarrow> Some (cgroup_path e))))"

lemma own_cgroup_entry:
  assumes "entry_ok e"
  shows "own_cgroup_lines (entry_line e # ls) m a =
    (if controllers e = [] then Some (cgroup_path e)
     else if ''name=systemd'' \<in> set (controllers e) then own_cgroup_lines ls (Some (cgroup_path e)) a
     else own_cgroup_lines ls m (if a = None then Some (cgroup_path e) else a))"
proof -
  have "split_on (CHR '','') (join '','' (controllers e)) = controllers e" if "controllers e \<noteq> []"
    using that assms by (intro split_on_join) (auto simp: entry_ok_def)
  moreover have "join '','' (controllers e) = [] \<longleftrightarrow> controllers e = []"
    using assms by (intro join_Nil) (auto simp: entry_ok_def)
  ultimately show ?thesis
    using assms by (auto simp: entry_fields [OF assms] parse_u32_show entry_ok_def)
qed

lemma own_cgroup_found:
  assumes "list_all entry_ok es"
  shows "own_cgroup_lines (map entry_line es) m a =
    (case List.find (\<lambda>e. controllers e = []) es of
       Some e \<Rightarrow> Some (cgroup_path e)
     | None \<Rightarrow>
         (case List.find (\<lambda>e. ''name=systemd'' \<in> set (controllers e)) (rev es) of
            Some e \<Rightarrow> Some (cgroup_path e)
          | None \<Rightarrow> if m \<noteq> None then m else if a \<noteq> None then a
              else (case es of [] \<Rightarrow> None | e # _ \<Rightarrow> Some (cgroup_path e))))"
  using assms
proof (induction es arbitrary: m a)
  case (Cons e es)
  have find_snoc: "List.find P (xs @ [x]) = (case List.find P xs of Some y \<Rightarrow> Some y | None \<Rightarrow> if P x then Some x else None)"
    for P and xs :: "cgroup_entry list" and x
    by (induction xs) auto
  have ok: "entry_ok e" and oks: "list_all entry_ok es" using Cons.prems by simp_all
  note IH = Cons.IH [OF oks]
  show ?case
  proof (cases "List.find (\<lambda>e. controllers e = []) es")
    case None
    then show ?thesis
      using ok
      by (cases "List.find (\<lambda>e. ''name=systemd'' \<in> set (controllers e)) (rev es)")
        (auto simp: own_cgroup_entry find_snoc IH simp del: own_cgroup_lines.simps(2) split: list.split)
  qed (use ok in \<open>simp add: own_cgroup_entry IH del: own_cgroup_lines.simps(2)\<close>)
qed simp

lemma own_cgroup_path_file: "list_all entry_ok es \<Longrightarrow> own_cgroup_path (cgroup_file es) = manager_path es"
  by (simp add: own_cgroup_path_def file_lines_back own_cgroup_found manager_path_def)

text \<open>
  C36: The daemon behaves as a service exactly when it was asked to, or when nothing was asked, one of the three
  variables of a service manager is set and not empty, and the cgroup the service manager put the process in does
  not end in a scope. The cgroup is the one of the unified hierarchy, else of systemd's own, else of the first
  hierarchy, whatever colons and directories its path has.
\<close>
theorem systemd_mode_spec:
  assumes "list_all entry_ok es" and "own_cgroup pe = Some (cgroup_file es)"
  shows "is_enabled (resolve_mode request (from_process pe)) \<longleftrightarrow>
    request = Ask_Enabled \<or>
    request = Auto \<and>
      (\<exists>v \<in> {''INVOCATION_ID'', ''NOTIFY_SOCKET'', ''JOURNAL_STREAM''}. \<exists>s. env_var pe v = Some s \<and> s \<noteq> []) \<and>
      \<not> (\<exists>p leaf. manager_path es = Some p \<and> leaf_segment p = Some leaf \<and> suffix ''.scope'' leaf)"
proof -
  have scope: "(case Option.bind (own_cgroup pe) own_cgroup_path of Some p \<Rightarrow> path_is_transient_scope p | None \<Rightarrow> False) \<longleftrightarrow>
      (\<exists>p leaf. manager_path es = Some p \<and> leaf_segment p = Some leaf \<and> suffix ''.scope'' leaf)"
    by (simp add: assms(2) own_cgroup_path_file [OF assms(1)] path_is_transient_scope_def ends_with_suffix
        split: option.split)
  have set: "is_set pe v \<longleftrightarrow> (\<exists>s. env_var pe v = Some s \<and> s \<noteq> [])" for v
    by (auto simp: is_set_def split: option.split)
  show ?thesis
    by (cases request)
      (auto simp: resolve_mode_def detect_service_def from_process_def has_supervision_evidence_def Let_def scope set)
qed

text \<open>A service whose unit is named after a bus connection, in the unified and in an old hierarchy.\<close>

definition bus_entries :: "cgroup_entry list" where
  "bus_entries =
     [\<lparr>hierarchy_id = 1, controllers = [''name=systemd''], cgroup_path = ''/user.slice/a.scope''\<rparr>,
      \<lparr>hierarchy_id = 0, controllers = [], cgroup_path = ''/app.slice/dbus-:1.2-x.service''\<rparr>]"

definition service_env :: process_env where
  "service_env =
     \<lparr>env_var = (\<lambda>v. if v = ''INVOCATION_ID'' then Some ''f'' else None), own_cgroup = Some (cgroup_file bus_entries)\<rparr>"

lemma bus_entries_ok: "list_all entry_ok bus_entries"
  by (simp add: bus_entries_def entry_ok_def)

theorem systemd_mode_spec_witness: "is_enabled (resolve_mode Auto (from_process service_env))"
proof -
  have "manager_path bus_entries = Some ''/app.slice/dbus-:1.2-x.service''"
    by (simp add: manager_path_def bus_entries_def)
  moreover have "leaf_segment ''/app.slice/dbus-:1.2-x.service'' = Some ''dbus-:1.2-x.service''"
    by (simp add: leaf_segment_def)
  moreover have "\<not> suffix ''.scope'' ''dbus-:1.2-x.service''" by (simp flip: ends_with_suffix add: ends_with_def)
  ultimately show ?thesis
    using systemd_mode_spec [OF bus_entries_ok, of service_env Auto] by (simp add: service_env_def)
qed

subsection \<open>The other readers and colons\<close>

text \<open>
  The readers of \<^verbatim>\<open>service.rs\<close> and \<^verbatim>\<open>debug.rs\<close> take what follows the last colon of the first line: the path
  of the first entry when it has no colon, and only its end when it has one.
\<close>

lemma after_last_colon:
  assumes "entry_ok e"
  shows "cgroup_path_from_line (entry_line e) = cgroup_path e \<longleftrightarrow> CHR '':'' \<notin> set (cgroup_path e)"
proof
  assume *: "CHR '':'' \<notin> set (cgroup_path e)"
  have "rfind_char (CHR '':'') (entry_line e) = Some (length (show_nat (hierarchy_id e) @ '':'' @ join '','' (controllers e)))"
    using rfind_char_last [OF *, of "show_nat (hierarchy_id e) @ '':'' @ join '','' (controllers e)"]
    by (simp add: entry_line_def)
  then show "cgroup_path_from_line (entry_line e) = cgroup_path e"
    by (simp add: cgroup_path_from_line_def entry_line_def)
next
  assume eq: "cgroup_path_from_line (entry_line e) = cgroup_path e"
  obtain i where i: "rfind_char (CHR '':'') (entry_line e) = Some i"
    using rfind_char_None [of "CHR '':''" "entry_line e"] by (auto simp: entry_line_def)
  with eq have "drop (Suc i) (entry_line e) = cgroup_path e" by (simp add: cgroup_path_from_line_def entry_line_def)
  with rfind_char_Some [OF i] show "CHR '':'' \<notin> set (cgroup_path e)" by simp
qed

lemma unit_name_of_bus_service:
  "unit_name_from_cgroup_path ''/app.slice/dbus-:1.2-x.service'' = Some ''dbus-:1.2-x.service''"
  "get_unit_name_heuristic (Some (cgroup_file (tl bus_entries))) = ''1.2-x.service''"
proof -
  show "unit_name_from_cgroup_path ''/app.slice/dbus-:1.2-x.service'' = Some ''dbus-:1.2-x.service''"
    by (simp add: unit_name_from_cgroup_path_def ends_with_def)
  have zero: "show_nat 0 = ''0''" by code_simp
  have "str_lines (cgroup_file (tl bus_entries)) = [''0::/app.slice/dbus-:1.2-x.service'']"
    using bus_entries_ok zero by (subst file_lines_back) (simp_all add: bus_entries_def entry_line_def)
  then show "get_unit_name_heuristic (Some (cgroup_file (tl bus_entries))) = ''1.2-x.service''"
    by (simp add: get_unit_name_heuristic_def first_cgroup_path_def unit_name_from_cgroup_path_def ends_with_def)
qed

end
