(* ===== verification/Cli.thy ===== *)
theory Cli
  imports Daemon Systemd_Mode
begin

text \<open>
  \<^verbatim>\<open>src/src/cli.rs\<close> and the first part of \<^verbatim>\<open>main\<close> in \<^verbatim>\<open>src/src/main.rs\<close>: what an invocation of the program does, from the
  arguments the argument parser read to the action that is run. The theorem says that no invocation disturbs a daemon
  that is running.
\<close>

subsection \<open>Arguments\<close>

datatype dump_target = Dump_Rules | Dump_Types | Dump_Cgroups | Dump_Proc | Dump_Autogroup

definition dump_target_names :: "string list" where
  "dump_target_names = [''rules'', ''types'', ''cgroups'', ''proc'', ''autogroup'']"

definition parse_dump_target :: "string \<Rightarrow> string + dump_target" where
  "parse_dump_target s =
     (if s = ''rules'' then Inr Dump_Rules
      else if s = ''types'' then Inr Dump_Types
      else if s = ''cgroups'' then Inr Dump_Cgroups
      else if s = ''proc'' then Inr Dump_Proc
      else if s = ''autogroup'' then Inr Dump_Autogroup
      else Inl (''Invalid dump target: '' @ [CHR 0x27] @ s @ [CHR 0x27] @ ''; expected one of: '' @
        join '', '' dump_target_names))"

datatype debug_target = Debug_Cgroups | Debug_Memory | Debug_Unknown string

definition parse_debug_target :: "string \<Rightarrow> debug_target" where
  "parse_debug_target s =
     (if s = ''cgroups'' then Debug_Cgroups else if s = ''memory'' then Debug_Memory else Debug_Unknown s)"

datatype commands =
    Dump dump_target
  | Debug "debug_target option"
  | Start
  | Completions "string option"
  | Unknown_Action string

record args =
  arg_systemd :: bool
  arg_no_systemd :: bool
  arg_daemon :: bool
  arg_config :: "string option"
  arg_config_dir :: "string option"
  arg_reload :: bool
  arg_force_remove_semaphore :: bool
  arg_manual_scanning :: bool
  arg_benchmark :: bool
  arg_benchmark_count :: "nat option"
  arg_bpf_min_us :: "nat option"
  arg_memory_stats :: bool
  arg_verbose :: bool
  arg_command :: "commands option"
  arg_unknown :: "string option"

text \<open>An exit status, or the request.\<close>

definition args_systemd_request :: "args \<Rightarrow> nat + systemd_request" where
  "args_systemd_request a =
     (if arg_systemd a \<and> arg_no_systemd a then Inl 2
      else if arg_systemd a then Inr Ask_Enabled
      else if arg_no_systemd a then Inr Ask_Disabled
      else Inr Auto)"

text \<open>
  The answer of the argument parser is an argument: the arguments, or whether its message goes to the standard
  output. So is the status it exits with after it printed completions.
\<close>

definition parse_args :: "nat \<Rightarrow> bool + args \<Rightarrow> nat + args" where
  "parse_args completed parsed =
     (case parsed of
        Inl to_stdout \<Rightarrow> Inl (if to_stdout then 0 else 2)
      | Inr a \<Rightarrow>
          (case args_systemd_request a of
             Inl code \<Rightarrow> Inl code
           | Inr _ \<Rightarrow>
               (case arg_command a of
                  Some (Completions shell) \<Rightarrow>
                    Inl (if shell \<in> {Some ''bash'', Some ''zsh'', Some ''fish'', Some ''elvish''} then completed else 2)
                | Some (Debug None) \<Rightarrow> Inl 1
                | Some c \<Rightarrow> Inr a
                | None \<Rightarrow>
                    (case arg_unknown a of
                       Some u \<Rightarrow> Inr (a\<lparr>arg_command := Some (Unknown_Action u), arg_unknown := None\<rparr>)
                     | None \<Rightarrow> if \<not> arg_reload a \<and> \<not> arg_force_remove_semaphore a then Inl 0 else Inr a))))"

text \<open>The environment comes before the command line, and that before the defaults.\<close>

definition resolve_config_paths :: "process_env \<Rightarrow> args \<Rightarrow> string \<times> string" where
  "resolve_config_paths pe a =
     (let pick = (\<lambda>v arg d. case env_var pe v of Some s \<Rightarrow> s | None \<Rightarrow> (case arg of Some s \<Rightarrow> s | None \<Rightarrow> d)) in
      (pick ''ANANICY_RS_CONF'' (arg_config a) ''/etc/ananicy.d/ananicy.conf'',
       pick ''ANANICY_RS_CONFDIR'' (arg_config_dir a) ''/etc/ananicy.d''))"

subsection \<open>One invocation\<close>

text \<open>
  Whether logging could be set up, and whether the thread of a dump could be started, are arguments. \<^verbatim>\<open>main\<close> loads the
  configuration, the topology and the rules in between, which leaves the processes and the singleton object alone.
\<close>

record outside =
  out_features :: features
  out_script :: script
  out_env :: process_env
  out_logging :: bool
  out_dump :: bool
  out_completed :: nat

definition dump_ending :: "bool \<Rightarrow> dump_target \<Rightarrow> ending" where
  "dump_ending spawned target =
     (if target \<in> {Dump_Proc, Dump_Autogroup} \<and> \<not> spawned then Exit_Status 1 else Returned)"

definition run_command ::
  "outside \<Rightarrow> systemd_mode \<Rightarrow> args \<Rightarrow> int \<Rightarrow> ipc_world \<Rightarrow> daemon_action list \<times> ending \<times> ipc_world" where
  "run_command out mode a me w =
     (case arg_command a of
        Some (Dump target) \<Rightarrow> ([], dump_ending (out_dump out) target, w)
      | Some (Debug _) \<Rightarrow> ([], Returned, w)
      | Some (Unknown_Action _) \<Rightarrow> ([], Exit_Status 1, w)
      | Some Start \<Rightarrow>
          daemon_main (out_features out)
            ((out_script out)\<lparr>under_systemd := is_enabled mode, manual_scanning := arg_manual_scanning a\<rparr>) me w
      | _ \<Rightarrow> ([], Returned, w))"

definition program_main ::
  "outside \<Rightarrow> bool + args \<Rightarrow> int \<Rightarrow> ipc_world \<Rightarrow> daemon_action list \<times> ending \<times> ipc_world" where
  "program_main out parsed me w =
     (case parse_args (out_completed out) parsed of
        Inl code \<Rightarrow> ([], Exit_Status code, w)
      | Inr a \<Rightarrow>
          (case args_systemd_request a of
             Inl code \<Rightarrow> ([], Exit_Status code, w)
           | Inr request \<Rightarrow>
               if \<not> out_logging out then ([], Exit_Status 1, w)
               else if arg_force_remove_semaphore a
               then (case force_remove_semaphore w of (code, w') \<Rightarrow> ([], Exit_Status code, w'))
               else if arg_reload a
               then (case request_reload w of (code, w') \<Rightarrow> ([], Exit_Status code, w'))
               else run_command out (resolve_mode request (from_process (out_env out))) a me w))"

subsection \<open>A running daemon is left alone\<close>

lemma live_owner_parts:
  "live_owner w = Some pid \<longleftrightarrow>
     (\<exists>text. shm_open w = Inr text \<and> holder text = Some pid \<and> proc_entry_looks_like_daemon (cmdlines w) pid)"
  by (auto simp: live_owner_def Option.bind_eq_Some_conv split: sum.split)

lemma force_remove_live: "live_owner w = Some pid \<Longrightarrow> force_remove_semaphore w = (1, w)"
  by (simp add: force_remove_semaphore_def remove_stale_singleton_def)

lemma daemon_main_live:
  "live_owner w = Some pid \<Longrightarrow> daemon_main fe s me w = ([], Exit_Status 1, w)"
  by (auto simp: live_owner_parts daemon_main_def check_singleton_def)

lemma request_reload_live:
  assumes "live_owner w = Some pid" and "request_reload w = (code, w')"
  shows "w' = w \<or> w' = w\<lparr>signalled := signalled w @ [pid]\<rparr>"
  using assms by (auto simp: live_owner_parts request_reload_def split: if_splits)

text \<open>
  C40: While a daemon runs, no invocation of the program, with whatever arguments, on whatever machine, takes the
  singleton object from it, starts a second one or does anything a daemon does; the most that can happen to the
  running daemon is one reload signal, and the invocation comes to an end.
\<close>
theorem running_daemon_undisturbed:
  assumes "live_owner w = Some pid" and "program_main out parsed me w = (as, e, w')"
  shows "as = [] \<and> e \<noteq> Still_Running \<and> (w' = w \<or> w' = w\<lparr>signalled := signalled w @ [pid]\<rparr>)"
proof -
  have run: "run_command out mode a me w = (bs, f, v) \<Longrightarrow> bs = [] \<and> f \<noteq> Still_Running \<and> v = w" for mode a bs f v
    using assms(1)
    by (auto simp: run_command_def daemon_main_live dump_ending_def split: option.splits commands.splits if_splits)
  show ?thesis
    using assms(2) run request_reload_live [OF assms(1)]
    by (auto simp: program_main_def force_remove_live [OF assms(1)] split: sum.splits if_splits prod.splits)
qed

text \<open>An invocation with every argument at its default, and one that asks for a reload.\<close>

definition no_args :: args where
  "no_args =
     \<lparr>arg_systemd = False, arg_no_systemd = False, arg_daemon = False, arg_config = None, arg_config_dir = None,
      arg_reload = False, arg_force_remove_semaphore = False, arg_manual_scanning = False, arg_benchmark = False,
      arg_benchmark_count = None, arg_bpf_min_us = None, arg_memory_stats = False, arg_verbose = False,
      arg_command = None, arg_unknown = None\<rparr>"

definition sample_outside :: outside where
  "sample_outside =
     \<lparr>out_features = \<lparr>with_bpf = True, with_netlink = True, with_systemd = True\<rparr>,
      out_script =
        \<lparr>is_root = True, signals_ok = True, x3d_changed = False, hierarchy_found = True, worker_ok = True,
         under_systemd = False, rt_workaround = False, hierarchy_again = False, manual_scanning = False,
         scanner_ok = True, bpf_turns = [], nl_turns = []\<rparr>,
      out_env = \<lparr>env_var = \<lambda>_. None, own_cgroup = None\<rparr>, out_logging = True, out_dump = True, out_completed = 0\<rparr>"

theorem running_daemon_undisturbed_witness:
  "\<exists>as e w'. program_main sample_outside (Inr (no_args\<lparr>arg_command := Some Start\<rparr>)) 8 sample_ipc = (as, e, w') \<and>
     as = [] \<and> e \<noteq> Still_Running \<and> shm w' = Some ''7''"
proof -
  have h: "holder ''7'' = Some 7" by (simp add: holder_def parse_i32_def eval_simps)
  have d: "proc_entry_looks_like_daemon (cmdlines sample_ipc) 7" by code_simp
  from d have live: "live_owner sample_ipc = Some 7"
    by (simp add: live_owner_parts shm_open_def sample_ipc_def h)
  obtain as e w' where r:
    "program_main sample_outside (Inr (no_args\<lparr>arg_command := Some Start\<rparr>)) 8 sample_ipc = (as, e, w')"
    by (metis prod_cases3)
  from running_daemon_undisturbed [OF live r] r show ?thesis by (auto simp: sample_ipc_def)
qed

end
