(* ===== verification/Spec2Isabelle.thy ===== *)
theory Spec2Isabelle
  imports Core_Fixes Event_Path Config_File Linux_Platform Netlink Topology Shutdown Reload Process_Info Dump Disks Mem_Stats Cli
begin

text \<open>
  A verification library for ananicy-rs, a daemon that watches the processes of a Linux machine and gives each
  one the scheduling attributes a rule file asks for.

  \<^bold>\<open>The program.\<close> A BPF program (\<^verbatim>\<open>crates/ananicy-bpf/bpf\<close>) reports every exec and fork through a perf array;
  where BPF is not available the process connector of netlink does (\<^verbatim>\<open>crates/ananicy-platform/src/netlink.rs\<close>). The
  reports, and the processes found by scans of \<^verbatim>\<open>/proc\<close>, go through one channel to the worker
  (\<^verbatim>\<open>crates/ananicy-core/src/worker.rs\<close>), which looks the name of each process up in the rule set (\<^verbatim>\<open>rules.rs\<close>), decides
  with the configuration (\<^verbatim>\<open>config.rs\<close>) what to apply, and calls the platform crate: priorities, CPU affinity, cgroups.
  \<^verbatim>\<open>src/src\<close> starts and supervises all this: one instance at a time (\<^verbatim>\<open>ipc.rs\<close>), loading (\<^verbatim>\<open>startup.rs\<close>), the threads
  (\<^verbatim>\<open>runtime.rs\<close>, \<^verbatim>\<open>monitor.rs\<close>), reloads and termination on a signal (\<^verbatim>\<open>signals.rs\<close>).

  \<^bold>\<open>The theories.\<close> Each names at its start the file it translates; definitions keep the names of the source.
  \<^item> \<open>Prelude\<close>, \<open>Rust_Str\<close>, \<open>Rust_Text\<close>, \<open>Json\<close>, \<open>File_System\<close>, \<open>Platform_Error\<close>: what the components share. Strings
    are lists of characters read as the bytes of a UTF-8 text; parsing and printing of numbers, trimming and
    splitting are proved inverse where they are. The file system, the \<^verbatim>\<open>lru\<close> and \<^verbatim>\<open>regex\<close> crates and \<^verbatim>\<open>serde_json\<close>
    are records of operations, arguments of the definitions that use them, with what their documentation promises
    as named predicates (\<open>parser_ok\<close>, \<open>iter_ok\<close>, \<open>lru_ok\<close>), and concrete instances for the evaluations.
  \<^item> \<open>C_Layout\<close>, \<open>Vmlinux_X86\<close>, \<open>Vmlinux_Arm64\<close>, \<open>Vmlinux_Riscv\<close>, \<open>Vmlinux_Loongarch\<close>, \<open>Core_Fixes\<close>: C object types with
    sizes, alignments and offsets, the structures of the four shipped kernel headers that the BPF program reaches by
    value, and the relocatable accessors of \<^verbatim>\<open>core_fixes.bpf.h\<close>. The theorems: what the
    accessors return depends on the bytes of the fields they are named after and on nothing else, wherever a kernel puts
    them, they read nothing outside the objects they are given, and they resolve on each shipped header.
  \<^item> \<open>Bpf_Event\<close>, \<open>Bpf_Race\<close>, \<open>Bpf_Monitor\<close>, \<open>Event_Path\<close>: both tracepoint programs on 64-bit time stamps with wrap-around,
    refined by an interval limiter; the same programs interleaved on several CPUs as a step relation, which are the
    sequential ones as long as they do not overlap, while any two that do can both be reported within the interval; the bytes
    of an event, the callback that turns them into a process and the polling loop; and the way from a hit to the
    channel, over one ring for each CPU.
  \<^item> \<open>Cpu_Bits\<close>, \<open>Cpu_Set\<close>, \<open>Affinity\<close>: an interface for sets of CPUs with two providers, the boolean vector of
    a rule's cpuset and the byte mask of the system call; parsing, printing, and applying with one retry.
  \<^item> \<open>Topology\<close>: the classes of CPUs (tiers by capacity, caches, nodes, X3D dies) and the names rules use for them.
  \<^item> \<open>Config_File\<close>, \<open>Interner\<close>, \<open>Name_Table\<close>, \<open>Rule\<close>, \<open>Rule_Set\<close>, \<open>Rule_Load\<close>, \<open>Rule_Lookup\<close>: the configuration and the
    rule engine. Inheritance is the RFC 7396 merge, loading a directory refines a definition by the lines alone,
    and a look-up answers the exact name before the first pattern, whatever the cache holds.
  \<^item> \<open>Worker_Loop\<close>, \<open>Worker_Plan\<close>: the worker's loop against a record of platform operations; applying a rule is
    performing a plan, a list of actions computed beforehand.
  \<^item> \<open>Thread_Loop\<close>, \<open>Priority\<close>, \<open>Procfs\<close>, \<open>Cgroup_Mounts\<close>, \<open>Cgroup_Manager\<close>, \<open>Cgroup_Resolver\<close>, \<open>Linux_Platform\<close>: the
    platform crate on an abstract kernel, with error numbers as values, and its composition as an
    instance of the record the worker is written against.
  \<^item> \<open>Netlink\<close>: the listener as a step relation over the answers of the socket, and the filter of names.
  \<^item> \<open>Systemd_Mode\<close>, \<open>Process_Info\<close>, \<open>Dump\<close>, \<open>Disks\<close>, \<open>Mem_Stats\<close>: the decision whether systemd supervises the daemon, the
    reports on processes, the dumps of a loaded rule set, whose objects load to the same settings by name, the check of disk schedulers,
    and the readers, remarks and movements of the memory statistics.
  \<^item> \<open>Ipc\<close>, \<open>Daemon\<close>, \<open>Reload\<close>, \<open>Shutdown\<close>: several instances racing for the singleton object, the course of a run and
    the driver mode it must restore, what a reload does, and the threads with their shared channel as a step
    relation, which after a termination signal ends with every received process handled once the netlink socket is
    quiet, and which nothing but that socket can keep going.
  \<^item> \<open>Cli\<close>: the arguments, the checks after parsing and what \<^verbatim>\<open>main\<close> does with each action, on top of \<open>Daemon\<close>.
  \<^item> This theory composes them: from the text of the rule files to what the worker does to the world, also while a
    reload happens, and from the tracepoints of the kernel through the perf buffer and the channel to the same.

  \<^bold>\<open>Interfaces.\<close> A locale states what a client relies on and is interpreted on the model's own definitions:
  \<open>interner\<close> (names behind numbers), \<open>cpu_bits\<close> (sets of CPUs), \<open>line_loader\<close> (loading line by line),
  \<open>thread_attribute\<close> (attributes set thread by thread), \<open>fs_frame\<close>, \<open>affinity_frame\<close> and \<open>platform_frame\<close> (what an operation
  may touch), \<open>tracepoint_handler\<close> (a BPF program with statics of its own), and \<open>descent\<close> with its extension \<open>progress\<close>
  (termination by a measure, and an end that is reached).

  \<^bold>\<open>Bounds.\<close> Time stamps and packed I/O priorities are words of the width of the source. Other numbers are \<open>nat\<close> or \<open>int\<close>
  with the parser's bound or the truncation written out (\<open>as_u32\<close>, \<open>saturating_mul\<close>). Theorems about a loaded rule
  set assume at most \<open>2 ^ 32\<close> lines, the width of the index into the rules, and a name table that is not full, which
  holds 65,534 names. Every loop of the model is structural or has a termination proof; the daemon's own endless
  loops are step relations or run over the list of what each turn meets. The comparisons of capacities in floating point are exact below \<open>2 ^ 40\<close>.

  \<^bold>\<open>Not modelled.\<close> The argument parser and its completions (the bpaf crate), the text of log lines, the unit name asked of
  libsystemd, what \<^verbatim>\<open>debug cgroups\<close> prints and the panic hook, which keep no state of the program; the JSON text of the dumps (serde_json); what libbpf does to load and attach the BPF object and neli to open the
  netlink socket, whose outcomes are arguments; the declarations of the kernel headers the BPF
  program does not reach, which are generated by bpftool. Locks only serialise the operations they guard and are left out, except
  where an interleaving of unguarded steps is what a theorem is about (\<open>Ipc\<close>, \<open>Shutdown\<close>, \<open>Bpf_Race\<close>).
\<close>

section \<open>From rule files to the actions on a process\<close>

text \<open>What the worker does to the world for one process, given the lines of the rule files.\<close>

definition spec_process ::
  "('rx, 'c, 'w) worker_env \<Rightarrow> config_snapshot \<Rightarrow> string list \<Rightarrow> process \<Rightarrow> 'w \<Rightarrow> 'w" where
  "spec_process env cfg ls p w =
     (if p_pid p = 0 then w
      else
        (let pf = env_platform env; (q, w0) = full_name pf p w in
         case spec_settings (env_lib env) ls (unwrap_name (p_name q)) of
           None \<Rightarrow> w0
         | Some s \<Rightarrow>
             snd (run pf (p_pid p) (fst (threads_of pf w0 (p_pid p)))
               (plan pf (env_aliases env) s cfg (is_realtime pf (p_pid p) w0) (is_cgroup_v2 pf)) w0)))"

lemma full_name_pid: "full_name pf p w = (q, w') \<Longrightarrow> p_pid q = p_pid p"
  by (auto simp: full_name_def split: if_splits prod.splits)

lemma handle_process_world:
  assumes "lru_ok (env_lib env)" and "cache_sound (env_lib env) (w_rules st)" and "p_pid p \<noteq> 0"
    and "\<And>name. map_option (\<lambda>(m, r). rule_settings (w_table st) r)
        (resolve (w_rules st) (find_best_match (env_lib env) (w_rules st) name)) =
      spec_settings (env_lib env) ls name"
  shows "w_world (handle_process env p st) = spec_process env (w_config st) ls p (w_world st)"
proof -
  obtain q w0 where q: "full_name (env_platform env) p (w_world st) = (q, w0)" by fastforce
  let ?name = "unwrap_name (p_name q)"
  have found: "fst (get_rule (env_lib env) ?name (w_rules st)) =
      resolve (w_rules st) (find_best_match (env_lib env) (w_rules st) ?name)"
    by (rule get_rule_sound(1) [OF assms(1,2)])
  show ?thesis
    using assms(4) [of ?name, symmetric] assms(3) found full_name_pid [OF q]
    by (auto simp: handle_process_def spec_process_def Let_def apply_rule_performs q split_beta
        split: option.split)
qed

lemma handle_process_rules:
  "w_rules (handle_process env p st) =
     snd (get_rule (env_lib env) (unwrap_name (p_name (fst (full_name (env_platform env) p (w_world st))))) (w_rules st))"
  by (simp add: handle_process_def Let_def split: prod.split option.split)

lemma still_loaded_step:
  assumes "lru_ok (env_lib env)" and "still_loaded (env_lib env) rs (w_rules st)"
  shows "still_loaded (env_lib env) rs (w_rules (work_step env p st))"
  using assms still_loaded_get
  by (auto simp: work_step_def count_process_def Let_def handle_process_rules)

lemma work_loop_world:
  assumes lru: "lru_ok (env_lib env)"
    and spec: "\<And>name. map_option (\<lambda>(m, r). rule_settings t r)
        (resolve rs (find_best_match (env_lib env) rs name)) = spec_settings (env_lib env) ls name"
    and "still_loaded (env_lib env) rs (w_rules st)" and "w_table st = t"
  shows "w_world (work_loop env (map Received ps) st) =
    fold (spec_process env (w_config st) ls) ps (w_world st)"
  using assms(3,4)
proof (induction ps arbitrary: st)
  case (Cons p ps)
  let ?st = "count_process (env_benchmark env) st"
  have same: "w_rules ?st = w_rules st" "w_world ?st = w_world st" "w_table ?st = t" "w_config ?st = w_config st"
    using Cons.prems(2) by (simp_all add: count_process_def Let_def)
  have "map_option (\<lambda>(m, r). rule_settings (w_table ?st) r)
      (resolve (w_rules ?st) (find_best_match (env_lib env) (w_rules ?st) name)) =
    spec_settings (env_lib env) ls name" for name
    using Cons.prems(1) spec [of name] unfolding same still_loaded_def by auto
  then have "p_pid p \<noteq> 0 \<Longrightarrow> w_world (handle_process env p ?st) = spec_process env (w_config st) ls p (w_world st)"
    using handle_process_world [OF lru, of ?st p ls] Cons.prems(1) by (simp add: same still_loaded_def)
  then have "w_world (work_step env p st) = spec_process env (w_config st) ls p (w_world st)"
    by (simp add: work_step_def Let_def same spec_process_def)
  then show ?case
    using Cons.IH [OF still_loaded_step [OF lru Cons.prems(1)], of p] Cons.prems(2)
    by (simp add: work_step_frame)
qed simp

lemma loaded_work_loop:
  assumes "table_wf t0" and "parser_ok L" and "iter_ok L" and "lru_ok L"
    and "load_directory L cfg0 (Some walk) (rs0, t0) = (log, rs, t)" and "\<not> table_full t"
    and "length (loaded_lines cfg0 (sort_key file_path walk)) \<le> 2 ^ 32"
    and "env_lib env = L" and "w_rules st = rs" and "w_table st = t"
  shows "w_world (work_loop env (map Received ps) st) =
    fold (spec_process env (w_config st) (loaded_lines cfg0 (sort_key file_path walk))) ps (w_world st)"
proof (rule work_loop_world)
  let ?ls = "loaded_lines cfg0 (sort_key file_path walk)"
  show "lru_ok (env_lib env)" using assms(4,8) by simp
  show "still_loaded (env_lib env) rs (w_rules st)"
    using directory_cache_sound [OF assms(4,5)] assms(8,9) by (auto simp: still_loaded_def intro: exI [of _ "resolved_cache rs"])
  show "w_table st = t" by (rule assms(10))
  fix name
  show "map_option (\<lambda>(m, r). rule_settings t r) (resolve rs (find_best_match (env_lib env) rs name)) =
      spec_settings (env_lib env) ?ls name"
    unfolding assms(8) by (rule loaded_lookup [OF assms(1-3,5-7)])
qed

text \<open>
  C1: from the rule files to the system calls: when the worker runs on a rule set loaded from a
  directory, what it does to the world for a queue of processes is determined by the text of the rule
  files alone. Each process is looked up under its unwrapped full name, exact definitions before
  patterns in load order; the last definition of the rule is merged onto the last definition of
  its type; and every action of the resulting plan is performed in order.
\<close>
theorem worker_follows_rule_files:
  assumes "table_wf t0" and "parser_ok L" and "iter_ok L" and "lru_ok L"
    and "load_directory L cfg0 (Some walk) (rs0, t0) = (log, rs, t)" and "\<not> table_full t"
    and "length (loaded_lines cfg0 (sort_key file_path walk)) \<le> 2 ^ 32"
    and "env_lib env = L" and "w_rules st = rs" and "w_table st = t"
  shows "w_world (work_loop env (map Received ps) st) =
    fold (spec_process env (w_config st) (loaded_lines cfg0 (sort_key file_path walk))) ps (w_world st)"
  by (rule loaded_work_loop [OF assms])

definition sample_env :: "(string, (string \<times> string option) list, action list) worker_env" where
  "sample_env = \<lparr>env_lib = sample_lib, env_platform = sample_platform, env_aliases = [], env_benchmark = None\<rparr>"

theorem worker_follows_rule_files_witness:
  "\<exists>log rs t. load_directory sample_lib default_snapshot (Some sample_walk) (new_rules [], empty_table) =
      (log, rs, t) \<and>
    w_world (work_loop sample_env (map Received [new_process 3 ''d'', new_process 0 ''s''])
      \<lparr>w_config = default_snapshot, w_rules = rs, w_table = t, w_processed = 0, w_shutdown = False,
       w_world = [], w_log = []\<rparr>) =
    fold (spec_process sample_env default_snapshot
        (loaded_lines default_snapshot (sort_key file_path sample_walk)))
      [new_process 3 ''d'', new_process 0 ''s''] []"
proof -
  let ?t = "\<lparr>tab_values = [''Game'', ''idle''], tab_index = [(''Game'', 2), (''idle'', 3)]\<rparr>"
  obtain log rs where l:
    "load_directory sample_lib default_snapshot (Some sample_walk) (new_rules [], empty_table) = (log, rs, ?t)"
    using sample_loaded by blast
  let ?st = "\<lparr>w_config = default_snapshot, w_rules = rs, w_table = ?t, w_processed = 0, w_shutdown = False,
       w_world = [], w_log = []\<rparr>"
  have "\<not> table_full ?t" by (simp add: table_full_def u16_max_def)
  moreover have "length (loaded_lines default_snapshot (sort_key file_path sample_walk)) \<le> 2 ^ 32"
    by (simp add: loaded_lines_def file_lines_def sample_walk_def eval_simps)
  moreover have "env_lib sample_env = sample_lib" by (simp add: sample_env_def)
  ultimately have "w_world (work_loop sample_env (map Received [new_process 3 ''d'', new_process 0 ''s'']) ?st) =
    fold (spec_process sample_env (w_config ?st)
        (loaded_lines default_snapshot (sort_key file_path sample_walk)))
      [new_process 3 ''d'', new_process 0 ''s''] (w_world ?st)"
    using worker_follows_rule_files [OF table_wf_empty sample_lib_ok sample_lru_ok l, of sample_env ?st
        "[new_process 3 ''d'', new_process 0 ''s'']"] by simp
  with l show ?thesis by auto
qed

section \<open>A reload under a running worker\<close>

lemma work_loop_append: "work_loop env (es @ fs) st = work_loop env fs (work_loop env es st)"
  by (induction env es st rule: work_loop.induct) simp_all

lemma work_loop_frame:
  assumes "lru_ok (env_lib env)" and "still_loaded (env_lib env) rs (w_rules st)"
  shows "w_config (work_loop env (map Received ps) st) = w_config st"
    and "w_table (work_loop env (map Received ps) st) = w_table st"
    and "still_loaded (env_lib env) rs (w_rules (work_loop env (map Received ps) st))"
  using assms(2)
  by (induction ps arbitrary: st) (simp_all add: work_step_frame still_loaded_step [OF assms(1)])

text \<open>
  C2: A reload of a running daemon: the processes received before it are treated by the configuration and the rule
  files of the start, those received while the rules are being read by the new configuration and the old rule
  files, and those received after it by the new configuration and the new rule files; none is matched
  against a mixture of the two sets of rules.
\<close>
theorem worker_follows_reload:
  assumes "table_wf t0" and "parser_ok L" and "iter_ok L" and "lru_ok L"
    and "load_directory L cfg0 (Some walk0) (rs0, t0) = (log, sh_rules sh, sh_table sh)"
    and "\<not> table_full (sh_table sh)" and "length (loaded_lines cfg0 (sort_key file_path walk0)) \<le> 2 ^ 32"
    and "rl_lib renv = L" and "disk_rules d = Some walk"
    and "new = reload renv override level_set d sh" and "rule_load (sh_config new)" and "\<not> table_full (sh_table new)"
    and "length (loaded_lines (sh_config new) (sort_key file_path walk)) \<le> 2 ^ 32"
    and "env_lib env = L" and "w_rules st = sh_rules sh" and "w_table st = sh_table sh"
  shows "w_world (work_loop env (map Received ps @ Config_Replaced (sh_config new) #
      map Received qs @ Rules_Replaced (sh_rules new) (sh_table new) # map Received zs) st) =
    fold (spec_process env (sh_config new) (loaded_lines (sh_config new) (sort_key file_path walk))) zs
      (fold (spec_process env (sh_config new) (loaded_lines cfg0 (sort_key file_path walk0))) qs
        (fold (spec_process env (w_config st) (loaded_lines cfg0 (sort_key file_path walk0))) ps (w_world st)))"
proof -
  let ?L = "env_lib env" and ?old = "loaded_lines cfg0 (sort_key file_path walk0)"
    and ?new = "loaded_lines (sh_config new) (sort_key file_path walk)"
  have lru: "lru_ok ?L" using assms(4,14) by simp
  obtain log' where load: "load_directory L (sh_config new) (Some walk) (new_rules (rl_cache renv), sh_table sh) =
      (log', sh_rules new, sh_table new)"
    using reload_loads [of renv override level_set d sh walk] assms(8-11) by metis
  have wf: "table_wf (sh_table sh)" by (rule loaded_table_wf [OF assms(1,5,7)])
  have spec: "map_option (\<lambda>(m, r). rule_settings (sh_table sh) r)
        (resolve (sh_rules sh) (find_best_match ?L (sh_rules sh) name)) = spec_settings ?L ?old name"
    "map_option (\<lambda>(m, r). rule_settings (sh_table new) r)
        (resolve (sh_rules new) (find_best_match ?L (sh_rules new) name)) = spec_settings ?L ?new name" for name
    unfolding assms(14)
    by (rule loaded_lookup [OF assms(1-3,5-7)], rule loaded_lookup [OF wf assms(2,3) load assms(12,13)])
  have old: "still_loaded ?L (sh_rules sh) (sh_rules sh)" and fresh: "still_loaded ?L (sh_rules new) (sh_rules new)"
    using loaded_still [OF assms(4,5)] loaded_still [OF assms(4) load] assms(14) by simp_all
  have st: "still_loaded ?L (sh_rules sh) (w_rules st)" using old assms(15) by simp
  define st1 where "st1 = (work_loop env (map Received ps) st)\<lparr>w_config := sh_config new\<rparr>"
  define st2 where "st2 = (work_loop env (map Received qs) st1)\<lparr>w_rules := sh_rules new, w_table := sh_table new\<rparr>"
  have st1: "still_loaded ?L (sh_rules sh) (w_rules st1)" "w_table st1 = sh_table sh" "w_config st1 = sh_config new"
    "w_world st1 = fold (spec_process env (w_config st) ?old) ps (w_world st)"
    using work_loop_frame [OF lru st] work_loop_world [OF lru spec(1) st assms(16)] assms(16) by (simp_all add: st1_def)
  have st2: "still_loaded ?L (sh_rules new) (w_rules st2)" "w_table st2 = sh_table new" "w_config st2 = sh_config new"
    "w_world st2 = fold (spec_process env (sh_config new) ?old) qs (w_world st1)"
    using work_loop_frame [OF lru st1(1)] work_loop_world [OF lru spec(1) st1(1,2)] st1(3) fresh by (simp_all add: st2_def)
  have "w_world (work_loop env (map Received zs) st2) = fold (spec_process env (sh_config new) ?new) zs (w_world st2)"
    using work_loop_world [OF lru spec(2) st2(1,2)] st2(3) by simp
  then show ?thesis using st1(4) st2(4) by (simp add: work_loop_append st1_def [symmetric] st2_def [symmetric])
qed

theorem worker_follows_reload_witness:
  "\<exists>log rs. load_directory sample_lib default_snapshot (Some sample_walk) (new_rules [], empty_table) =
      (log, rs, \<lparr>tab_values = [''Game'', ''idle''], tab_index = [(''Game'', 2), (''idle'', 3)]\<rparr>) \<and>
    (let sh = sample_shared\<lparr>sh_rules := rs,
           sh_table := \<lparr>tab_values = [''Game'', ''idle''], tab_index = [(''Game'', 2), (''idle'', 3)]\<rparr>\<rparr>;
         new = reload sample_reload_env None True sample_disk sh;
         ls = loaded_lines default_snapshot (sort_key file_path sample_walk)
     in w_world (work_loop sample_env
          ([Received (new_process 3 ''d''), Config_Replaced (sh_config new), Received (new_process 4 ''d''),
            Rules_Replaced (sh_rules new) (sh_table new), Received (new_process 5 ''s'')])
          \<lparr>w_config = default_snapshot, w_rules = rs, w_table = sh_table sh, w_processed = 0, w_shutdown = False,
           w_world = [], w_log = []\<rparr>) =
        spec_process sample_env default_snapshot ls (new_process 5 ''s'')
          (spec_process sample_env default_snapshot ls (new_process 4 ''d'')
            (spec_process sample_env default_snapshot ls (new_process 3 ''d'') [])))"
proof -
  let ?t = "\<lparr>tab_values = [''Game'', ''idle''], tab_index = [(''Game'', 2), (''idle'', 3)]\<rparr>"
  obtain log rs where l:
    "load_directory sample_lib default_snapshot (Some sample_walk) (new_rules [], empty_table) = (log, rs, ?t)"
    using sample_loaded by blast
  define sh where "sh = sample_shared\<lparr>sh_rules := rs, sh_table := ?t\<rparr>"
  define new where "new = reload sample_reload_env None True sample_disk sh"
  let ?st = "\<lparr>w_config = default_snapshot, w_rules = rs, w_table = ?t, w_processed = 0, w_shutdown = False,
       w_world = [], w_log = []\<rparr>"
  have conf: "conf_read (disk_conf sample_disk) = Inr []" and walk: "disk_rules sample_disk = Some sample_walk"
    and lib: "rl_lib sample_reload_env = sample_lib" "env_lib sample_env = sample_lib" "rl_cache sample_reload_env = []"
    by (simp_all add: sample_disk_def sample_reload_env_def sample_env_def)
  have cfg: "sh_config new = default_snapshot"
    using readable_config [OF conf, of None True sh "''c''"] sample_config by (simp add: new_def reload_def)
  have sh: "sh_rules sh = rs" "sh_table sh = ?t" by (simp_all add: sh_def)
  have rl: "rule_load (sh_config new)" by (simp add: cfg default_snapshot_def)
  have again: "\<exists>log rs. load_directory sample_lib default_snapshot (Some sample_walk) (new_rules [], ?t) = (log, rs, ?t)"
    by (simp add: eval_simps sample_lib_def sample_walk_def)
  obtain log2 where "load_directory sample_lib default_snapshot (Some sample_walk) (new_rules [], ?t) =
      (log2, sh_rules new, sh_table new)"
    using reload_loads [OF rl [unfolded new_def] walk] unfolding new_def [symmetric] lib sh cfg by blast
  with again have tab: "sh_table new = ?t" by (metis prod.inject)
  have room: "\<not> table_full ?t" by (simp add: table_full_def u16_max_def)
  have len: "length (loaded_lines default_snapshot (sort_key file_path sample_walk)) \<le> 2 ^ 32"
    by (simp add: loaded_lines_def file_lines_def sample_walk_def eval_simps)
  note worker_follows_reload [OF table_wf_empty sample_lib_ok sample_lru_ok, of default_snapshot sample_walk
      "new_rules []" log sh sample_reload_env sample_disk sample_walk new None True sample_env ?st
      "[new_process 3 ''d'']" "[new_process 4 ''d'']" "[new_process 5 ''s'']"]
  then have "w_world (work_loop sample_env [Received (new_process 3 ''d''), Config_Replaced (sh_config new),
      Received (new_process 4 ''d''), Rules_Replaced (sh_rules new) ?t, Received (new_process 5 ''s'')] ?st) =
    spec_process sample_env default_snapshot (loaded_lines default_snapshot (sort_key file_path sample_walk)) (new_process 5 ''s'')
      (spec_process sample_env default_snapshot (loaded_lines default_snapshot (sort_key file_path sample_walk)) (new_process 4 ''d'')
        (spec_process sample_env default_snapshot (loaded_lines default_snapshot (sort_key file_path sample_walk)) (new_process 3 ''d'') []))"
    using l rl room len by (simp add: sh cfg lib walk tab new_def [symmetric] del: work_loop.simps)
  then show ?thesis
    by (intro exI [of _ log] exI [of _ rs]) (simp add: l Let_def sh_def [symmetric] new_def [symmetric] tab sh del: work_loop.simps)
qed

section \<open>From a tracepoint to the actions on a process\<close>

text \<open>
  C3: From the kernel to the rule: let the tracepoint programs run on any number of CPUs, interleaved in any way, with
  the interval the command line asked for, and let the daemon poll the perf buffer until it is empty. Then the channel
  holds exactly one process for every event that was reported, found room and names a process, and what the worker
  does with them is what the text of the rule files says, process by process.
\<close>

theorem tracepoints_to_actions:
  assumes "new_bpf sk bpf_min_us = Inr min_us" and "sk_buffer sk"
    and "(race_step min_us)\<^sup>*\<^sup>* (race_start initial_bpf) r"
    and "\<forall>hit \<in> set (r_started r). length (h_comm (helpers_of hit)) = 16"
    and "delivered ds (perf_out (r_bpf r))" and "concat (map (fst \<circ> snd) turns) = map (event_sample \<circ> snd) ds"
    and "\<forall>turn \<in> set turns. \<not> fst turn" and "m = \<lparr>sent = [], ch_open = True, shutdown_flag = False\<rparr>"
    and "table_wf t0" and "parser_ok L" and "iter_ok L" and "lru_ok L"
    and "load_directory L cfg0 (Some walk) (rs0, t0) = (log, rs, t)" and "\<not> table_full t"
    and "length (loaded_lines cfg0 (sort_key file_path walk)) \<le> 2 ^ 32"
    and "env_lib env = L" and "w_rules st = rs" and "w_table st = t"
    and "ps = sent (fst (bpf_listen sk turns m))"
  shows "mset ps = reported_processes r \<and>
    w_world (work_loop env (map Received ps) st) =
      fold (spec_process env (w_config st) (loaded_lines cfg0 (sort_key file_path walk))) ps (w_world st)"
proof -
  have empty: "perf_out initial_bpf = []" by (simp add: initial_bpf_def)
  have "ps = channelled ds"
    using hits_reach_channel [OF assms(2,3) empty assms(4-7), of m] by (simp add: assms(8,19))
  then have "mset ps = reported_processes r" using channelled_reports [OF assms(3) empty assms(5)] by simp
  then show ?thesis using loaded_work_loop [OF assms(9-18)] by blast
qed

theorem tracepoints_to_actions_witness:
  "\<exists>log rs t r. load_directory sample_lib default_snapshot (Some sample_walk) (new_rules [], empty_table) = (log, rs, t) \<and>
    (race_step 1000)\<^sup>*\<^sup>* (race_start initial_bpf) r \<and> length (r_out r) = 2 \<and>
    (let ps = sent (fst (bpf_listen sample_skeleton (one_poll (perf_out (r_bpf r)))
           \<lparr>sent = [], ch_open = True, shutdown_flag = False\<rparr>))
     in mset ps = reported_processes r \<and>
       w_world (work_loop sample_env (map Received ps)
         \<lparr>w_config = default_snapshot, w_rules = rs, w_table = t, w_processed = 0, w_shutdown = False, w_world = [], w_log = []\<rparr>) =
       fold (spec_process sample_env default_snapshot (loaded_lines default_snapshot (sort_key file_path sample_walk))) ps [])"
proof (rule overtaken_run)
  fix r
  assume r: "follow 1000 overtaken (race_start initial_bpf) = Some r"
    and out: "map (\<lambda>(t, e). (hit_ts t, e_pid e, e_prev_pid e, e_delta_us e)) (r_out r) =
      [(5001000, 8, 0, 5001), (5000000, 7, 8, 18446744073709550)]"
  let ?t = "\<lparr>tab_values = [''Game'', ''idle''], tab_index = [(''Game'', 2), (''idle'', 3)]\<rparr>"
  obtain log rs where l:
    "load_directory sample_lib default_snapshot (Some sample_walk) (new_rules [], empty_table) = (log, rs, ?t)"
    using sample_loaded by blast
  let ?st = "\<lparr>w_config = default_snapshot, w_rules = rs, w_table = ?t, w_processed = 0, w_shutdown = False,
       w_world = [], w_log = []\<rparr>"
  let ?m = "\<lparr>sent = [], ch_open = True, shutdown_flag = False\<rparr>"
  let ?ps = "sent (fst (bpf_listen sample_skeleton (one_poll (perf_out (r_bpf r))) ?m))"
  have two: "length (r_out r) = 2" using arg_cong [OF out, of length] by simp
  have start: "new_bpf sample_skeleton (Some 1000) = Inr 1000" "sk_buffer sample_skeleton"
    by (simp_all add: new_bpf_def sample_skeleton_def)
  have comm: "\<forall>hit \<in> set (r_started r). length (h_comm (helpers_of hit)) = 16"
    using overtaken_hits [OF r] by (simp add: exec_at_def)
  have turns: "concat (map (fst \<circ> snd) (one_poll out)) = map (event_sample \<circ> snd) (map (\<lambda>(c, e). (c, e, [])) out)"
    "\<forall>turn \<in> set (one_poll out). \<not> fst turn" for out
    by (simp_all add: one_poll_def)
  have room: "\<not> table_full ?t" by (simp add: table_full_def u16_max_def)
  have len: "length (loaded_lines default_snapshot (sort_key file_path sample_walk)) \<le> 2 ^ 32"
    by (simp add: loaded_lines_def file_lines_def sample_walk_def eval_simps)
  have lib: "env_lib sample_env = sample_lib" by (simp add: sample_env_def)
  have "mset ?ps = reported_processes r \<and> w_world (work_loop sample_env (map Received ?ps) ?st) =
      fold (spec_process sample_env (w_config ?st) (loaded_lines default_snapshot (sort_key file_path sample_walk))) ?ps (w_world ?st)"
    using tracepoints_to_actions [where st = ?st, OF start follow_reaches [OF r] comm
        delivered_in_order [where pad = "[]"] turns refl table_wf_empty sample_lib_ok sample_lru_ok l room len lib _ _ refl]
    by simp
  with l two follow_reaches [OF r] show ?thesis by (auto simp: Let_def)
qed

end
